(* ===== verification/Prelude.thy ===== *)
theory Prelude
  imports Complex_Main "HOL-Library.Multiset" "HOL-Library.Sublist" "HOL-Library.List_Lexorder"
    "HOL-Library.Char_ord"
begin

text \<open>
  Shared vocabulary of the development: the errors the services throw, the effect type of the
  operations (explicit state passing with an error value), the rows-of-a-table operations that a
  database call of the source denotes, the JavaScript string and number helpers the source uses,
  and JSON values. The collections \<open>eff_simps\<close>, \<open>tbl_simps\<close> and \<open>js_simps\<close> carry the component
  proofs.
\<close>

named_theorems eff_simps "unfolding rules of the effect combinators"
named_theorems eff_inv "inversion rules for successful effectful computations"
named_theorems preserves_intros "introduction rules for preserved state predicates"
named_theorems tbl_simps "rewrite rules for table operations"
named_theorems js_simps "rewrite rules for the JavaScript helpers"

section \<open>Errors and effects\<close>

text \<open>The NestJS exceptions the services throw, the plain \<open>Error\<close>, and the error by which the worker
  leaves a canceled job (\<open>class JobCanceledError\<close> of \<open>jobs.worker.service.ts\<close>). \<open>Diverges\<close> is no exception:
  it stands for a run that has not ended within the fuel of its loops, and no handler catches it.\<close>

datatype http_error =
    NotFoundException string
  | ForbiddenException string
  | UnauthorizedException string
  | TooManyRequests string
  | PlainError string
  | JobCanceledError
  | Diverges

fun err_message :: "http_error \<Rightarrow> string" where
  "err_message (NotFoundException m) = m"
| "err_message (ForbiddenException m) = m"
| "err_message (UnauthorizedException m) = m"
| "err_message (TooManyRequests m) = m"
| "err_message (PlainError m) = m"
| "err_message JobCanceledError = ''Job canceled''"
| "err_message Diverges = []"

type_synonym 'a res = "http_error + 'a"

text \<open>An operation takes the state and returns a result or an error, and the state it leaves:
  effects made before a throw stay made.\<close>

type_synonym ('s, 'a) eff = "'s \<Rightarrow> 'a res \<times> 's"

definition ok :: "'a \<Rightarrow> ('s, 'a) eff" where
  "ok x = (\<lambda>s. (Inr x, s))"

definition throw :: "http_error \<Rightarrow> ('s, 'a) eff" where
  "throw e = (\<lambda>s. (Inl e, s))"

definition bind_eff :: "('s, 'a) eff \<Rightarrow> ('a \<Rightarrow> ('s, 'b) eff) \<Rightarrow> ('s, 'b) eff" where
  "bind_eff m f = (\<lambda>s. case m s of (r, s') \<Rightarrow> (case r of Inl e \<Rightarrow> (Inl e, s') | Inr a \<Rightarrow> f a s'))"

definition seq_eff :: "('s, 'a) eff \<Rightarrow> ('s, 'b) eff \<Rightarrow> ('s, 'b) eff" where
  "seq_eff m n = bind_eff m (\<lambda>_. n)"

definition require :: "bool \<Rightarrow> http_error \<Rightarrow> ('s, unit) eff" where
  "require c e = (if c then ok () else throw e)"

definition need :: "'a option \<Rightarrow> http_error \<Rightarrow> ('s, 'a) eff" where
  "need v e = (case v of None \<Rightarrow> throw e | Some x \<Rightarrow> ok x)"

definition reads :: "('s \<Rightarrow> 'a) \<Rightarrow> ('s, 'a) eff" where
  "reads f = (\<lambda>s. (Inr (f s), s))"

definition modify :: "('s \<Rightarrow> 's) \<Rightarrow> ('s, unit) eff" where
  "modify f = (\<lambda>s. (Inr (), f s))"

definition lift_res :: "'a res \<Rightarrow> ('s, 'a) eff" where
  "lift_res r = (\<lambda>s. (r, s))"

definition catch_eff :: "('s, 'a) eff \<Rightarrow> (http_error \<Rightarrow> ('s, 'a) eff) \<Rightarrow> ('s, 'a) eff" where
  "catch_eff m h = (\<lambda>s. case m s of (r, s') \<Rightarrow> (case r of
     Inl e \<Rightarrow> if e = Diverges then (Inl Diverges, s') else h e s' | Inr a \<Rightarrow> (Inr a, s')))"

lemmas eff_defs = ok_def throw_def bind_eff_def seq_eff_def require_def need_def reads_def
  modify_def lift_res_def catch_eff_def

lemma ok_apply [eff_simps]: "ok x s = (Inr x, s)"
  by (simp add: ok_def)

lemma throw_apply [eff_simps]: "throw e s = (Inl e, s)"
  by (simp add: throw_def)

lemma reads_apply [eff_simps]: "reads f s = (Inr (f s), s)"
  by (simp add: reads_def)

lemma modify_apply [eff_simps]: "modify f s = (Inr (), f s)"
  by (simp add: modify_def)

lemma lift_res_apply [eff_simps]: "lift_res r s = (r, s)"
  by (simp add: lift_res_def)

lemma bind_eff_apply [eff_simps]:
  "bind_eff m f s = (case m s of (r, s') \<Rightarrow> (case r of Inl e \<Rightarrow> (Inl e, s') | Inr a \<Rightarrow> f a s'))"
  by (simp add: bind_eff_def)

lemma seq_eff_apply [eff_simps]:
  "seq_eff m n s = (case m s of (r, s') \<Rightarrow> (case r of Inl e \<Rightarrow> (Inl e, s') | Inr a \<Rightarrow> n s'))"
  by (simp add: seq_eff_def bind_eff_def)

lemma require_apply [eff_simps]: "require c e s = (if c then (Inr (), s) else (Inl e, s))"
  by (simp add: require_def ok_def throw_def)

lemma need_apply [eff_simps]:
  "need v e s = (case v of None \<Rightarrow> (Inl e, s) | Some x \<Rightarrow> (Inr x, s))"
  by (simp add: need_def ok_def throw_def split: option.splits)

lemma catch_eff_apply [eff_simps]:
  "catch_eff m h s = (case m s of (r, s') \<Rightarrow> (case r of
     Inl e \<Rightarrow> if e = Diverges then (Inl Diverges, s') else h e s' | Inr a \<Rightarrow> (Inr a, s')))"
  by (simp add: catch_eff_def)

lemma bind_eff_Inr [eff_inv]:
  "bind_eff m f s = (Inr y, t) \<longleftrightarrow> (\<exists>x s'. m s = (Inr x, s') \<and> f x s' = (Inr y, t))"
  by (auto simp: bind_eff_def split: prod.splits sum.splits)

lemma seq_eff_Inr [eff_inv]:
  "seq_eff m n s = (Inr y, t) \<longleftrightarrow> (\<exists>x s'. m s = (Inr x, s') \<and> n s' = (Inr y, t))"
  by (simp add: seq_eff_def bind_eff_Inr)

lemma require_Inr [eff_inv]: "require c e s = (Inr x, t) \<longleftrightarrow> c \<and> t = s"
  by (auto simp: require_apply)

lemma need_Inr [eff_inv]: "need v e s = (Inr x, t) \<longleftrightarrow> v = Some x \<and> t = s"
  by (auto simp: need_apply split: option.splits)

lemma ok_Inr [eff_inv]: "ok x s = (Inr y, t) \<longleftrightarrow> y = x \<and> t = s"
  by (auto simp: ok_apply)

lemma throw_Inr [eff_inv]: "throw e s = (Inr y, t) \<longleftrightarrow> False"
  by (simp add: throw_apply)

lemma reads_Inr [eff_inv]: "reads f s = (Inr y, t) \<longleftrightarrow> y = f s \<and> t = s"
  by (auto simp: reads_apply)

lemma modify_Inr [eff_inv]: "modify f s = (Inr y, t) \<longleftrightarrow> t = f s"
  by (auto simp: modify_apply)

lemma lift_res_Inr [eff_inv]: "lift_res r s = (Inr y, t) \<longleftrightarrow> r = Inr y \<and> t = s"
  by (auto simp: lift_res_apply)

text \<open>A predicate on states that an operation keeps, whether it returns or throws.\<close>

definition preserves :: "('s \<Rightarrow> bool) \<Rightarrow> ('s, 'a) eff \<Rightarrow> bool" where
  "preserves P m \<longleftrightarrow> (\<forall>s. P s \<longrightarrow> P (snd (m s)))"

lemma preservesI [intro?]: "(\<And>s. P s \<Longrightarrow> P (snd (m s))) \<Longrightarrow> preserves P m"
  by (simp add: preserves_def)

lemma preservesD: "preserves P m \<Longrightarrow> P s \<Longrightarrow> P (snd (m s))"
  by (simp add: preserves_def)

lemma preserves_pure [preserves_intros]:
  "preserves P (ok x)" "preserves P (throw e)" "preserves P (reads f)" "preserves P (require c e)"
  "preserves P (need v e)" "preserves P (lift_res r)"
  by (auto simp: preserves_def eff_simps split: option.splits)

lemma preserves_modify [preserves_intros]:
  "(\<And>s. P s \<Longrightarrow> P (f s)) \<Longrightarrow> preserves P (modify f)"
  by (simp add: preserves_def eff_simps)

lemma preserves_bind [preserves_intros]:
  "preserves P m \<Longrightarrow> (\<And>x. preserves P (f x)) \<Longrightarrow> preserves P (bind_eff m f)"
  by (force simp: preserves_def eff_simps split: prod.splits sum.splits)

lemma preserves_seq [preserves_intros]:
  "preserves P m \<Longrightarrow> preserves P n \<Longrightarrow> preserves P (seq_eff m n)"
  by (force simp: preserves_def eff_simps split: prod.splits sum.splits)

lemma preserves_catch [preserves_intros]:
  "preserves P m \<Longrightarrow> (\<And>e. preserves P (h e)) \<Longrightarrow> preserves P (catch_eff m h)"
  by (force simp: preserves_def eff_simps split: prod.splits sum.splits)

lemma preserves_if [preserves_intros]:
  "preserves P m \<Longrightarrow> preserves P n \<Longrightarrow> preserves P (if c then m else n)"
  by simp

lemma preserves_case_option [preserves_intros]:
  "preserves P m \<Longrightarrow> (\<And>x. preserves P (f x)) \<Longrightarrow> preserves P (case v of None \<Rightarrow> m | Some x \<Rightarrow> f x)"
  by (cases v) simp_all

text \<open>A loop over a list whose body may throw: the first error stops it.\<close>

fun for_each :: "('a \<Rightarrow> ('s, unit) eff) \<Rightarrow> 'a list \<Rightarrow> ('s, unit) eff" where
  "for_each f [] = ok ()"
| "for_each f (x # xs) = seq_eff (f x) (for_each f xs)"

lemma preserves_for_each [preserves_intros]:
  "(\<And>x. preserves P (f x)) \<Longrightarrow> preserves P (for_each f xs)"
  by (induction xs) (auto intro: preserves_intros)

section \<open>Systems that step\<close>

text \<open>A system whose start states have a property that every step keeps, whichever steps interleave.\<close>

locale safe_system =
  fixes start :: "'s \<Rightarrow> bool" and step :: "'s \<Rightarrow> 's \<Rightarrow> bool" and inv :: "'s \<Rightarrow> bool"
  assumes start_inv: "start s \<Longrightarrow> inv s" and step_inv: "inv s \<Longrightarrow> step s t \<Longrightarrow> inv t"
begin

lemma steps_inv: "step\<^sup>*\<^sup>* s t \<Longrightarrow> inv s \<Longrightarrow> inv t"
  by (induction rule: rtranclp_induct) (auto intro: step_inv)

lemma reached_inv: "start s \<Longrightarrow> step\<^sup>*\<^sup>* s t \<Longrightarrow> inv t"
  by (blast intro: start_inv steps_inv)

end

section \<open>Two parts of a state\<close>

text \<open>An operation on the database, or on the outside world, as an operation on both.\<close>

definition on_fst :: "('s, 'a) eff \<Rightarrow> ('s \<times> 'w, 'a) eff" where
  "on_fst m = (\<lambda>(s, w). case m s of (r, s') \<Rightarrow> (r, (s', w)))"

definition on_snd :: "('w, 'a) eff \<Rightarrow> ('s \<times> 'w, 'a) eff" where
  "on_snd m = (\<lambda>(s, w). case m w of (r, w') \<Rightarrow> (r, (s, w')))"

lemma on_fst_apply [eff_simps]: "on_fst m (s, w) = (case m s of (r, s') \<Rightarrow> (r, (s', w)))"
  by (simp add: on_fst_def)

lemma on_snd_apply [eff_simps]: "on_snd m (s, w) = (case m w of (r, w') \<Rightarrow> (r, (s, w')))"
  by (simp add: on_snd_def)

lemma on_fst_Inr [eff_inv]: "on_fst m sw = (Inr x, sw') \<longleftrightarrow> (\<exists>s'. m (fst sw) = (Inr x, s') \<and> sw' = (s', snd sw))"
  by (auto simp: on_fst_def split: prod.splits)

lemma on_snd_Inr [eff_inv]: "on_snd m sw = (Inr x, sw') \<longleftrightarrow> (\<exists>w'. m (snd sw) = (Inr x, w') \<and> sw' = (fst sw, w'))"
  by (auto simp: on_snd_def split: prod.splits)

lemma preserves_on_fst [preserves_intros]: "preserves P m \<Longrightarrow> preserves (\<lambda>sw. P (fst sw)) (on_fst m)"
  by (auto simp: preserves_def on_fst_def split: prod.splits)

lemma preserves_on_snd [preserves_intros]: "preserves (\<lambda>sw. P (fst sw)) (on_snd m)"
  by (auto simp: preserves_def on_snd_def split: prod.splits)

section \<open>Rows of a table\<close>

text \<open>
  A table is the list of its rows in insertion order. \<open>findUnique\<close> and \<open>findFirst\<close> without an order
  are \<open>find\<close>; \<open>update\<close> and \<open>updateMany\<close> apply a change to the rows of the \<open>where\<close> clause,
  \<open>deleteMany\<close> drops them, \<open>create\<close> appends.
\<close>

definition tb_update :: "('r \<Rightarrow> bool) \<Rightarrow> ('r \<Rightarrow> 'r) \<Rightarrow> 'r list \<Rightarrow> 'r list" where
  "tb_update P f rs = map (\<lambda>r. if P r then f r else r) rs"

definition tb_delete :: "('r \<Rightarrow> bool) \<Rightarrow> 'r list \<Rightarrow> 'r list" where
  "tb_delete P rs = filter (\<lambda>r. \<not> P r) rs"

definition tb_count :: "('r \<Rightarrow> bool) \<Rightarrow> 'r list \<Rightarrow> nat" where
  "tb_count P rs = length (filter P rs)"

definition tb_upsert :: "('r \<Rightarrow> bool) \<Rightarrow> 'r \<Rightarrow> ('r \<Rightarrow> 'r) \<Rightarrow> 'r list \<Rightarrow> 'r list" where
  "tb_upsert P new f rs = (if \<exists>r\<in>set rs. P r then tb_update P f rs else rs @ [new])"

text \<open>\<open>orderBy\<close> ascending or descending on an integer key; the sort is stable.\<close>

definition order_asc :: "('r \<Rightarrow> int) \<Rightarrow> 'r list \<Rightarrow> 'r list" where
  "order_asc k rs = sort_key k rs"

definition order_desc :: "('r \<Rightarrow> int) \<Rightarrow> 'r list \<Rightarrow> 'r list" where
  "order_desc k rs = sort_key (\<lambda>r. - k r) rs"

lemma set_order_asc [tbl_simps]: "set (order_asc k rs) = set rs"
  by (simp add: order_asc_def)

lemma set_order_desc [tbl_simps]: "set (order_desc k rs) = set rs"
  by (simp add: order_desc_def)

lemma length_order [tbl_simps]:
  "length (order_asc k rs) = length rs" "length (order_desc k rs) = length rs"
  by (simp_all add: order_asc_def order_desc_def)

lemma mset_order [tbl_simps]:
  "mset (order_asc k rs) = mset rs" "mset (order_desc k rs) = mset rs"
  by (simp_all add: order_asc_def order_desc_def)

lemma tb_update_map [tbl_simps]:
  "(\<And>r. r \<in> set rs \<Longrightarrow> P r \<Longrightarrow> g (f r) = g r) \<Longrightarrow> map g (tb_update P f rs) = map g rs"
  by (simp add: tb_update_def)

lemma length_tb_update [tbl_simps]: "length (tb_update P f rs) = length rs"
  by (simp add: tb_update_def)

lemma tb_update_none: "(\<And>r. r \<in> set rs \<Longrightarrow> \<not> P r) \<Longrightarrow> tb_update P f rs = rs"
  by (induction rs) (auto simp: tb_update_def)

lemma tb_update_append [tbl_simps]:
  "tb_update P f (rs @ qs) = tb_update P f rs @ tb_update P f qs"
  by (simp add: tb_update_def)

lemma set_tb_update: "set (tb_update P f rs) = f ` {r \<in> set rs. P r} \<union> {r \<in> set rs. \<not> P r}"
  by (auto simp: tb_update_def)

lemma set_tb_delete [tbl_simps]: "set (tb_delete P rs) = {r \<in> set rs. \<not> P r}"
  by (auto simp: tb_delete_def)

lemma tb_delete_count: "length (tb_delete P rs) + tb_count P rs = length rs"
  by (simp add: tb_delete_def tb_count_def sum_length_filter_compl add.commute)

lemma find_SomeD: "find P xs = Some x \<Longrightarrow> x \<in> set xs \<and> P x"
  by (induction xs) (auto split: if_splits)

lemma find_NoneD: "find P xs = None \<Longrightarrow> x \<in> set xs \<Longrightarrow> \<not> P x"
  by (auto simp: find_None_iff)

lemma find_tb_update_key:
  assumes key: "\<And>r. g (f r) = g r" and hit: "find (\<lambda>r. g r = k) rs = Some r"
  shows "find (\<lambda>r. g r = k) (tb_update (\<lambda>r. g r = k) f rs) = Some (f r)"
  using hit by (induction rs) (auto simp: tb_update_def key split: if_splits)

lemma find_tb_update_other:
  assumes key: "\<And>r. g (f r) = g r" and other: "k' \<noteq> k"
  shows "find (\<lambda>r. g r = k') (tb_update (\<lambda>r. g r = k) f rs) = find (\<lambda>r. g r = k') rs"
  using other by (induction rs) (auto simp: tb_update_def key)

lemma find_append_new:
  "find P rs = None \<Longrightarrow> P r \<Longrightarrow> find P (rs @ [r]) = Some r"
  by (induction rs) (auto split: if_splits)

lemma find_append_Some: "find P rs = Some r \<Longrightarrow> find P (rs @ qs) = Some r"
  by (induction rs) (auto split: if_splits)

lemma find_distinct_unique:
  assumes "distinct (map g rs)" and "r \<in> set rs"
  shows "find (\<lambda>q. g q = g r) rs = Some r"
  using assms by (induction rs) (auto simp: image_iff)

section \<open>JavaScript numbers and strings\<close>

text \<open>\<open>Math.min(Math.max(x, lo), hi)\<close>.\<close>

definition clamp :: "int \<Rightarrow> int \<Rightarrow> int \<Rightarrow> int" where
  "clamp lo hi x = min (max x lo) hi"

lemma clamp_bounds: "lo \<le> hi \<Longrightarrow> lo \<le> clamp lo hi x \<and> clamp lo hi x \<le> hi"
  by (auto simp: clamp_def)

definition take_int :: "int \<Rightarrow> 'a list \<Rightarrow> 'a list" where
  "take_int n xs = take (nat n) xs"

lemma length_take_int: "0 \<le> n \<Longrightarrow> int (length (take_int n xs)) \<le> n"
  by (simp add: take_int_def min_def le_nat_iff)

lemma set_take_int: "set (take_int n xs) \<subseteq> set xs"
  by (simp add: take_int_def set_take_subset)

text \<open>\<open>Math.ceil(a / b)\<close> for a non-negative \<open>a\<close> and a positive \<open>b\<close>.\<close>

definition ceil_div :: "int \<Rightarrow> int \<Rightarrow> int" where
  "ceil_div a b = - ((- a) div b)"

lemma ceil_div_spec:
  assumes "0 < b"
  shows "(ceil_div a b - 1) * b < a \<and> a \<le> ceil_div a b * b"
proof -
  obtain q r where q: "q = (- a) div b" and r: "r = (- a) mod b" by blast
  have "q * b + r = - a" unfolding q r by (rule div_mult_mod_eq)
  moreover have "0 \<le> r" "r < b" using assms by (simp_all add: r)
  ultimately show ?thesis by (simp add: ceil_div_def q [symmetric] algebra_simps)
qed

text \<open>\<open>startsWith\<close>, \<open>endsWith\<close>, \<open>includes\<close>, and \<open>toLowerCase\<close> on ASCII.\<close>

definition starts_with :: "string \<Rightarrow> string \<Rightarrow> bool" where
  "starts_with s p \<longleftrightarrow> take (length p) s = p"

definition ends_with :: "string \<Rightarrow> string \<Rightarrow> bool" where
  "ends_with s q \<longleftrightarrow> take (length q) (rev s) = rev q"

fun str_includes :: "string \<Rightarrow> string \<Rightarrow> bool" where
  "str_includes [] q \<longleftrightarrow> q = []"
| "str_includes (c # s) q \<longleftrightarrow> starts_with (c # s) q \<or> str_includes s q"

definition lower_char :: "char \<Rightarrow> char" where
  "lower_char c = (let n = (of_char c :: nat) in if 65 \<le> n \<and> n \<le> 90 then char_of (n + 32) else c)"

definition to_lower :: "string \<Rightarrow> string" where
  "to_lower s = map lower_char s"

lemma starts_with_prefix: "starts_with s p \<longleftrightarrow> prefix p s"
proof
  assume "starts_with s p"
  then have "s = p @ drop (length p) s" by (metis append_take_drop_id starts_with_def)
  then show "prefix p s" by (rule prefixI)
qed (auto simp: starts_with_def prefix_def)

lemma ends_with_suffix: "ends_with s q \<longleftrightarrow> suffix q s"
proof -
  have "ends_with s q = starts_with (rev s) (rev q)"
    by (simp add: ends_with_def starts_with_def)
  then show ?thesis by (simp add: starts_with_prefix suffix_to_prefix)
qed

lemma str_includes_sublist: "str_includes s q \<longleftrightarrow> sublist q s"
  by (induction s) (auto simp: starts_with_prefix sublist_Cons_right)

lemma str_includes_empty [js_simps]: "str_includes s []"
  by (simp add: str_includes_sublist)

lemma length_to_lower [js_simps]: "length (to_lower s) = length s"
  by (simp add: to_lower_def)

definition or_else :: "'a option \<Rightarrow> 'a \<Rightarrow> 'a" where
  "or_else v d = (case v of None \<Rightarrow> d | Some x \<Rightarrow> x)"

lemma or_else_simps [simp]: "or_else None d = d" "or_else (Some x) d = x"
  by (simp_all add: or_else_def)

definition first_some :: "'a option \<Rightarrow> 'a option \<Rightarrow> 'a option" where
  "first_some a b = (case a of None \<Rightarrow> b | Some x \<Rightarrow> Some x)"

lemma first_some_simps [simp]: "first_some None b = b" "first_some (Some x) b = Some x"
  by (simp_all add: first_some_def)

section \<open>JSON and other dynamic values\<close>

text \<open>
  A value of TypeScript type \<open>unknown\<close>: \<open>undefined\<close>, the JSON values, and any other value
  (bigint, symbol, function), carried with its \<open>String(...)\<close> rendering. An object is the list
  of its entries in \<open>Object.entries\<close> order. Numbers are exact rationals.
\<close>

datatype json =
    JUndef
  | JNull
  | JBool bool
  | JNum rat
  | JStr string
  | JArr "json list"
  | JObj "(string \<times> json) list"
  | JOther string

definition jint :: "int \<Rightarrow> json" where "jint n = JNum (of_int n)"

definition jopt :: "('a \<Rightarrow> json) \<Rightarrow> 'a option \<Rightarrow> json" where
  "jopt f v = (case v of None \<Rightarrow> JNull | Some x \<Rightarrow> f x)"

definition jstr_opt :: "string option \<Rightarrow> json" where "jstr_opt v = jopt JStr v"

text \<open>Property access \<open>value.key\<close>: a missing key, or a value that is not an object, is \<open>undefined\<close>.\<close>

fun jget :: "json \<Rightarrow> string \<Rightarrow> json" where
  "jget (JObj kvs) k = (case map_of kvs k of None \<Rightarrow> JUndef | Some v \<Rightarrow> v)"
| "jget _ k = JUndef"

text \<open>\<open>typeof v === "string" && v.length > 0 ? v : null\<close>, and its number and boolean variants.\<close>

fun read_string :: "json \<Rightarrow> string option" where
  "read_string (JStr s) = (if s \<noteq> [] then Some s else None)"
| "read_string _ = None"

fun read_number :: "json \<Rightarrow> rat option" where
  "read_number (JNum n) = Some n"
| "read_number _ = None"

fun read_boolean :: "json \<Rightarrow> bool option" where
  "read_boolean (JBool b) = Some b"
| "read_boolean _ = None"

definition is_object :: "json \<Rightarrow> bool" where
  "is_object v = (case v of JObj _ \<Rightarrow> True | _ \<Rightarrow> False)"

lemma is_object_simps [simp]:
  "is_object (JObj kvs)" "\<not> is_object JUndef" "\<not> is_object JNull" "\<not> is_object (JBool b)"
  "\<not> is_object (JNum n)" "\<not> is_object (JStr s)" "\<not> is_object (JArr vs)" "\<not> is_object (JOther t)"
  by (simp_all add: is_object_def)

end
