(* ===== verification/Redis.thy ===== *)
theory Redis
  imports Prelude
begin

text \<open>
  \<open>apps/api/src/redis/redis.service.ts\<close> in its process-local mode (counters with a window, locks
  with a time to live; the enabled mode asks a Redis server to do the same through \<open>INCR\<close> with
  \<open>EXPIRE NX\<close>, \<open>SET NX EX\<close> and a compare-and-delete script), and
  \<open>apps/api/src/auth/login-rate-limiter.service.ts\<close>. The contract the job worker and the
  scheduler rely on is the locale \<open>lock_service\<close>, interpreted here on \<open>acquireLock\<close> and
  \<open>releaseLock\<close>. Times are milliseconds since the epoch, time-outs are seconds as in the source.
\<close>

record memory_counter_state =
  cs_count :: nat
  cs_expiresAt :: int

record memory_lock_state =
  ls_value :: string
  ls_expiresAt :: int

record redis =
  memoryCounters :: "string \<rightharpoonup> memory_counter_state"
  memoryLocks :: "string \<rightharpoonup> memory_lock_state"

definition empty_redis :: redis where
  "empty_redis = \<lparr>memoryCounters = Map.empty, memoryLocks = Map.empty\<rparr>"

definition redis_key :: "string \<Rightarrow> string \<Rightarrow> string" where
  "redis_key pre suf = pre @ '':'' @ suf"

definition cleanupMemory :: "int \<Rightarrow> redis \<Rightarrow> redis" where
  "cleanupMemory now r =
     r\<lparr>memoryCounters := (\<lambda>k. case memoryCounters r k of
          None \<Rightarrow> None | Some c \<Rightarrow> if cs_expiresAt c \<le> now then None else Some c),
       memoryLocks := (\<lambda>k. case memoryLocks r k of
          None \<Rightarrow> None | Some l \<Rightarrow> if ls_expiresAt l \<le> now then None else Some l)\<rparr>"

definition incrementWithWindow :: "int \<Rightarrow> string \<Rightarrow> int \<Rightarrow> redis \<Rightarrow> nat \<times> redis" where
  "incrementWithWindow now key windowSeconds r0 =
     (let r = cleanupMemory now r0;
          start = (1, r\<lparr>memoryCounters := (memoryCounters r)(key \<mapsto>
                     \<lparr>cs_count = 1, cs_expiresAt = now + windowSeconds * 1000\<rparr>)\<rparr>)
      in case memoryCounters r key of
           None \<Rightarrow> start
         | Some st \<Rightarrow>
             if cs_expiresAt st \<le> now then start
             else (cs_count st + 1,
                   r\<lparr>memoryCounters := (memoryCounters r)(key \<mapsto> st\<lparr>cs_count := cs_count st + 1\<rparr>)\<rparr>))"

text \<open>\<open>String(n)\<close> for a counter and \<open>Number(s)\<close> for a string of decimal digits (\<open>None\<close> is NaN).\<close>

fun nat_to_string :: "nat \<Rightarrow> string" where
  "nat_to_string n =
     (if n < 10 then [char_of (48 + n)] else nat_to_string (n div 10) @ [char_of (48 + n mod 10)])"

declare nat_to_string.simps [simp del]

fun number_of_digits :: "nat \<Rightarrow> string \<Rightarrow> nat option" where
  "number_of_digits acc [] = Some acc"
| "number_of_digits acc (c # s) =
     (let d = (of_char c :: nat) in
      if 48 \<le> d \<and> d \<le> 57 then number_of_digits (10 * acc + (d - 48)) s else None)"

definition js_number :: "string \<Rightarrow> nat option" where
  "js_number s = number_of_digits 0 s"

definition redis_get :: "int \<Rightarrow> string \<Rightarrow> redis \<Rightarrow> string option \<times> redis" where
  "redis_get now key r0 =
     (let r = cleanupMemory now r0 in
      (case memoryCounters r key of
         Some c \<Rightarrow> Some (nat_to_string (cs_count c))
       | None \<Rightarrow> map_option ls_value (memoryLocks r key), r))"

definition redis_delete :: "string \<Rightarrow> redis \<Rightarrow> redis" where
  "redis_delete key r = r\<lparr>memoryCounters := (memoryCounters r)(key := None),
                         memoryLocks := (memoryLocks r)(key := None)\<rparr>"

definition acquireLock :: "int \<Rightarrow> string \<Rightarrow> string \<Rightarrow> int \<Rightarrow> redis \<Rightarrow> bool \<times> redis" where
  "acquireLock now key val ttlSeconds r0 =
     (let r = cleanupMemory now r0;
          take = (True, r\<lparr>memoryLocks := (memoryLocks r)(key \<mapsto>
                   \<lparr>ls_value = val, ls_expiresAt = now + ttlSeconds * 1000\<rparr>)\<rparr>)
      in case memoryLocks r key of
           None \<Rightarrow> take
         | Some l \<Rightarrow> if ls_expiresAt l > now then (False, r) else take)"

definition releaseLock :: "int \<Rightarrow> string \<Rightarrow> string \<Rightarrow> redis \<Rightarrow> bool \<times> redis" where
  "releaseLock now key val r0 =
     (let r = cleanupMemory now r0 in
      case memoryLocks r key of
        None \<Rightarrow> (False, r)
      | Some l \<Rightarrow> if ls_value l \<noteq> val then (False, r)
                  else (True, r\<lparr>memoryLocks := (memoryLocks r)(key := None)\<rparr>))"

section \<open>The lock contract\<close>

text \<open>The value that holds a key's lock at an instant, if the lock is live.\<close>

definition lock_holder :: "redis \<Rightarrow> string \<Rightarrow> int \<Rightarrow> string option" where
  "lock_holder r key t = (case memoryLocks r key of
     None \<Rightarrow> None | Some l \<Rightarrow> if ls_expiresAt l > t then Some (ls_value l) else None)"

text \<open>
  What the lock's clients rely on: a free lock is taken until its time-out, a held lock is
  refused, only the holder's value releases it, other keys are untouched, and nothing an
  operation does revives a lock for later instants.
\<close>

locale lock_service =
  fixes acquire :: "int \<Rightarrow> string \<Rightarrow> string \<Rightarrow> int \<Rightarrow> 's \<Rightarrow> bool \<times> 's"
    and release :: "int \<Rightarrow> string \<Rightarrow> string \<Rightarrow> 's \<Rightarrow> bool \<times> 's"
    and holder :: "'s \<Rightarrow> string \<Rightarrow> int \<Rightarrow> string option"
  assumes acquire_fst: "fst (acquire now k v ttl s) \<longleftrightarrow> holder s k now = None"
    and acquire_holder: "now \<le> t \<Longrightarrow> holder (snd (acquire now k v ttl s)) k' t =
      (if k' = k \<and> holder s k now = None
       then (if t < now + ttl * 1000 then Some v else None) else holder s k' t)"
    and release_fst: "fst (release now k v s) \<longleftrightarrow> holder s k now = Some v"
    and release_holder: "now \<le> t \<Longrightarrow> holder (snd (release now k v s)) k' t =
      (if k' = k \<and> holder s k now = Some v then None else holder s k' t)"
begin

text \<open>Mutual exclusion: between an acquisition and its time-out no second one succeeds.\<close>

lemma second_acquire_fails:
  assumes "fst (acquire now k v ttl s)" and "now \<le> t" and "t < now + ttl * 1000"
  shows "\<not> fst (acquire t k v' ttl' (snd (acquire now k v ttl s)))"
  using assms by (simp add: acquire_fst acquire_holder)

text \<open>A release with another value leaves the lock with its holder.\<close>

lemma foreign_release_keeps:
  assumes "fst (acquire now k v ttl s)" and "now \<le> t" and "t \<le> u" and "u < now + ttl * 1000"
    and "v' \<noteq> v"
  shows "holder (snd (release t k v' (snd (acquire now k v ttl s)))) k u = Some v"
  using assms by (simp add: acquire_fst acquire_holder release_holder)

text \<open>The holder's own release frees the lock at once.\<close>

lemma own_release_frees:
  assumes "fst (acquire now k v ttl s)" and "now \<le> t" and "t < now + ttl * 1000"
  shows "fst (acquire t k v' ttl' (snd (release t k v (snd (acquire now k v ttl s)))))"
  using assms by (simp add: acquire_fst acquire_holder release_holder)

text \<open>After the time-out the lock can be taken whether or not it was released.\<close>

lemma expiry_frees:
  assumes "fst (acquire now k v ttl s)" and "now \<le> t" and "now + ttl * 1000 \<le> t"
  shows "fst (acquire t k v' ttl' (snd (acquire now k v ttl s)))"
  using assms by (simp add: acquire_fst acquire_holder)

end

lemma cleanup_locks:
  "memoryLocks (cleanupMemory now r) k = (case memoryLocks r k of
     None \<Rightarrow> None | Some l \<Rightarrow> if ls_expiresAt l \<le> now then None else Some l)"
  by (simp add: cleanupMemory_def)

lemma cleanup_counters:
  "memoryCounters (cleanupMemory now r) k = (case memoryCounters r k of
     None \<Rightarrow> None | Some c \<Rightarrow> if cs_expiresAt c \<le> now then None else Some c)"
  by (simp add: cleanupMemory_def)

interpretation lk: lock_service acquireLock releaseLock lock_holder
  by unfold_locales
     (auto simp: acquireLock_def releaseLock_def lock_holder_def cleanup_locks Let_def
        split: option.splits)

section \<open>The login rate limiter\<close>

record limiter_config =
  maxAttempts :: nat
  windowSeconds :: int
  redisPrefix :: string

definition toStorageKey :: "limiter_config \<Rightarrow> string \<Rightarrow> string" where
  "toStorageKey c key = redis_key (redisPrefix c) (''login:'' @ key)"

definition limiter_check :: "limiter_config \<Rightarrow> int \<Rightarrow> string \<Rightarrow> (redis, unit) eff" where
  "limiter_check c now key r0 =
     (let (countRaw, r) = redis_get now (toStorageKey c key) r0 in
      case countRaw of
        None \<Rightarrow> (Inr (), r)
      | Some raw \<Rightarrow>
          if raw = [] then (Inr (), r)
          else (case js_number raw of
                  None \<Rightarrow> (Inr (), r)
                | Some n \<Rightarrow>
                    if n \<ge> maxAttempts c
                    then (Inl (TooManyRequests ''Too many login attempts. Please try again later.''), r)
                    else (Inr (), r)))"

definition limiter_registerFailure :: "limiter_config \<Rightarrow> int \<Rightarrow> string \<Rightarrow> redis \<Rightarrow> redis" where
  "limiter_registerFailure c now key r =
     snd (incrementWithWindow now (toStorageKey c key) (windowSeconds c) r)"

definition limiter_clear :: "limiter_config \<Rightarrow> string \<Rightarrow> redis \<Rightarrow> redis" where
  "limiter_clear c key r = redis_delete (toStorageKey c key) r"

lemma digit_char: "n < 10 \<Longrightarrow> of_char (char_of (48 + n :: nat)) = (48 + n :: nat)"
  by (simp add: take_bit_eq_mod)

lemma number_of_digits_append:
  "number_of_digits acc (s @ t) =
     (case number_of_digits acc s of None \<Rightarrow> None | Some a \<Rightarrow> number_of_digits a t)"
  by (induction s arbitrary: acc) (auto simp: Let_def)

lemma js_number_nat_to_string: "js_number (nat_to_string n) = Some n"
  unfolding js_number_def
proof (induction n rule: nat_to_string.induct)
  case (1 n)
  show ?case
  proof (cases "n < 10")
    case True
    then show ?thesis
      by (subst nat_to_string.simps) (simp add: digit_char Let_def)
  next
    case False
    then show ?thesis
      by (subst nat_to_string.simps)
         (simp add: "1.IH" number_of_digits_append digit_char Let_def)
  qed
qed

lemma nat_to_string_ne: "nat_to_string n \<noteq> []"
  by (subst nat_to_string.simps) simp

text \<open>The count of live failures the limiter sees for a key.\<close>

definition live_count :: "limiter_config \<Rightarrow> int \<Rightarrow> string \<Rightarrow> redis \<Rightarrow> nat option" where
  "live_count c now key r = (case memoryCounters r (toStorageKey c key) of
     None \<Rightarrow> None | Some st \<Rightarrow> if cs_expiresAt st \<le> now then None else Some (cs_count st))"

text \<open>When no lock lives under a limiter key, the check refuses exactly a live count at the limit.\<close>

lemma limiter_check_iff:
  assumes "memoryLocks r (toStorageKey c key) = None"
  shows "(\<exists>e. fst (limiter_check c now key r) = Inl e) \<longleftrightarrow>
         (\<exists>n. live_count c now key r = Some n \<and> maxAttempts c \<le> n)"
  using assms
  by (auto simp: limiter_check_def redis_get_def live_count_def cleanup_counters cleanup_locks
      js_number_nat_to_string nat_to_string_ne Let_def split: option.splits)

text \<open>Failures at a list of instants.\<close>

fun register_failures :: "limiter_config \<Rightarrow> string \<Rightarrow> int list \<Rightarrow> redis \<Rightarrow> redis" where
  "register_failures c key [] r = r"
| "register_failures c key (t # ts) r = register_failures c key ts (limiter_registerFailure c t key r)"

lemma registerFailure_counter:
  "memoryCounters (limiter_registerFailure c now key r) (toStorageKey c key) =
     Some (case memoryCounters r (toStorageKey c key) of
        None \<Rightarrow> \<lparr>cs_count = 1, cs_expiresAt = now + windowSeconds c * 1000\<rparr>
      | Some st \<Rightarrow> if cs_expiresAt st \<le> now
                   then \<lparr>cs_count = 1, cs_expiresAt = now + windowSeconds c * 1000\<rparr>
                   else st\<lparr>cs_count := cs_count st + 1\<rparr>)"
  by (auto simp: limiter_registerFailure_def incrementWithWindow_def cleanup_counters Let_def
      split: option.splits)

lemma registerFailure_locks:
  "memoryLocks r k = None \<Longrightarrow> memoryLocks (limiter_registerFailure c now key r) k = None"
  by (auto simp: limiter_registerFailure_def incrementWithWindow_def cleanup_locks Let_def
      split: option.splits)

lemma register_failures_running:
  assumes "memoryCounters r (toStorageKey c key) = Some st"
    and "\<forall>t\<in>set ts. t < cs_expiresAt st"
  shows "memoryCounters (register_failures c key ts r) (toStorageKey c key) =
           Some (st\<lparr>cs_count := cs_count st + length ts\<rparr>)"
  using assms
proof (induction ts arbitrary: r st)
  case (Cons t ts)
  have "memoryCounters (limiter_registerFailure c t key r) (toStorageKey c key) =
        Some (st\<lparr>cs_count := cs_count st + 1\<rparr>)"
    using Cons.prems by (simp add: registerFailure_counter)
  from Cons.IH [OF this] Cons.prems(2) show ?case by simp
qed simp

lemma register_failures_locks:
  "memoryLocks r k = None \<Longrightarrow> memoryLocks (register_failures c key ts r) k = None"
  by (induction ts arbitrary: r) (simp_all add: registerFailure_locks)

text \<open>
  Login throttling: from a state with no count for the key, after failures at instants
  \<open>t # ts\<close> that all fall into the window the first one opened, the check refuses a login exactly
  when it is made inside that window and at least \<open>maxAttempts\<close> failures were registered; later
  failures never prolong the window.
\<close>

theorem login_limiter_window:
  assumes "memoryCounters r (toStorageKey c key) = None" and "memoryLocks r (toStorageKey c key) = None"
    and "\<forall>u\<in>set ts. u < t + windowSeconds c * 1000"
  shows "(\<exists>e. fst (limiter_check c now key (register_failures c key (t # ts) r)) = Inl e) \<longleftrightarrow>
           now < t + windowSeconds c * 1000 \<and> maxAttempts c \<le> Suc (length ts)"
proof -
  let ?until = "t + windowSeconds c * 1000" and ?r = "register_failures c key (t # ts) r"
  have "memoryCounters (limiter_registerFailure c t key r) (toStorageKey c key) =
        Some \<lparr>cs_count = 1, cs_expiresAt = ?until\<rparr>"
    using assms(1) by (simp add: registerFailure_counter)
  from register_failures_running [OF this, of ts] assms(3)
  have cnt: "memoryCounters ?r (toStorageKey c key) =
             Some \<lparr>cs_count = Suc (length ts), cs_expiresAt = ?until\<rparr>" by simp
  have "memoryLocks ?r (toStorageKey c key) = None"
    by (rule register_failures_locks [OF assms(2)])
  from limiter_check_iff [OF this, of now] cnt show ?thesis
    by (simp add: live_count_def)
qed

theorem login_limiter_window_witness:
  "\<exists>e. fst (limiter_check \<lparr>maxAttempts = 2, windowSeconds = 300, redisPrefix = ''p''\<rparr> 1000 ''ip:bob''
      (register_failures \<lparr>maxAttempts = 2, windowSeconds = 300, redisPrefix = ''p''\<rparr> ''ip:bob''
         [10, 500] empty_redis)) = Inl e"
proof -
  let ?c = "\<lparr>maxAttempts = 2, windowSeconds = 300, redisPrefix = ''p''\<rparr>"
  have "(\<exists>e. fst (limiter_check ?c 1000 ''ip:bob''
           (register_failures ?c ''ip:bob'' [10, 500] empty_redis)) = Inl e)
        \<longleftrightarrow> 1000 < 10 + windowSeconds ?c * 1000 \<and> maxAttempts ?c \<le> Suc (length [500::int])"
    by (rule login_limiter_window) (simp_all add: empty_redis_def)
  then show ?thesis by simp
qed

end
