(* ===== verification/Redact.thy ===== *)
theory Redact
  imports Prelude
begin

text \<open>
  Redaction of secrets in audit metadata and job metadata (\<open>sanitizeAuditMetadata\<close> of
  \<open>audit/audit.service.ts\<close>, \<open>sanitizeJobMetadata\<close> of \<open>jobs/jobs.service.ts\<close>) and the request
  context that the audit trail attaches (\<open>attachContextMetadata\<close>, \<open>common/request-context.ts\<close>).
  The lemmas show that no sensitive key survives with its value at any depth, that redaction is
  idempotent, and that it leaves a value without sensitive keys as it is.
\<close>

section \<open>The request context\<close>

datatype ctx_source = CtxHttp | CtxWorker | CtxScript

record request_context =
  rc_requestId :: string
  rc_correlationId :: string
  rc_source :: ctx_source
  rc_userId :: "string option"
  rc_jobId :: "string option"

fun ctx_source_str :: "ctx_source \<Rightarrow> string" where
  "ctx_source_str CtxHttp = ''http''"
| "ctx_source_str CtxWorker = ''worker''"
| "ctx_source_str CtxScript = ''script''"

section \<open>Redaction\<close>

definition REDACT_KEYS :: "string list" where
  "REDACT_KEYS = [''password'', ''secret'', ''token'', ''authorization'', ''credential'',
                  ''accesskey'', ''bindpassword'']"

definition sensitive_key :: "string \<Rightarrow> bool" where
  "sensitive_key key = (let lowered = to_lower key in
     list_ex (\<lambda>segment. str_includes lowered segment) REDACT_KEYS)"

definition redacted_value :: json where
  "redacted_value = JStr ''[REDACTED]''"

fun sanitizeJobMetadata :: "json \<Rightarrow> json" where
  "sanitizeJobMetadata JUndef = JUndef"
| "sanitizeJobMetadata JNull = JNull"
| "sanitizeJobMetadata (JStr s) = JStr s"
| "sanitizeJobMetadata (JNum n) = JNum n"
| "sanitizeJobMetadata (JBool b) = JBool b"
| "sanitizeJobMetadata (JArr vs) = JArr (map sanitizeJobMetadata vs)"
| "sanitizeJobMetadata (JObj kvs) =
     JObj (map (\<lambda>(key, val). (key, if sensitive_key key then redacted_value
                                   else sanitizeJobMetadata val)) kvs)"
| "sanitizeJobMetadata (JOther t) = JStr t"

text \<open>The audit service has a copy of the same function.\<close>

definition sanitizeAuditMetadata :: "json \<Rightarrow> json" where
  "sanitizeAuditMetadata = sanitizeJobMetadata"

text \<open>\<open>{...obj, key: value}\<close>: an existing key keeps its place.\<close>

definition obj_set :: "(string \<times> json) list \<Rightarrow> string \<Rightarrow> json \<Rightarrow> (string \<times> json) list" where
  "obj_set kvs k v = (if k \<in> fst ` set kvs then map (\<lambda>(k', v'). (k', if k' = k then v else v')) kvs
                      else kvs @ [(k, v)])"

definition context_payload :: "request_context \<Rightarrow> json" where
  "context_payload c = JObj
     [(''requestId'', JStr (rc_requestId c)), (''correlationId'', JStr (rc_correlationId c)),
      (''source'', JStr (ctx_source_str (rc_source c))), (''jobId'', jstr_opt (rc_jobId c)),
      (''userId'', jstr_opt (rc_userId c))]"

definition attachContextMetadata :: "json \<Rightarrow> request_context option \<Rightarrow> json" where
  "attachContextMetadata metadata context =
     (case context of
        None \<Rightarrow> metadata
      | Some c \<Rightarrow>
          (case metadata of
             JUndef \<Rightarrow> JObj [(''_context'', context_payload c)]
           | JObj kvs \<Rightarrow> JObj (obj_set kvs ''_context'' (context_payload c))
           | _ \<Rightarrow> JObj [(''value'', metadata), (''_context'', context_payload c)]))"

section \<open>What redaction guarantees\<close>

text \<open>No object, at any depth, holds anything but the marker under a sensitive key.\<close>

fun redacted :: "json \<Rightarrow> bool" where
  "redacted (JArr vs) = list_all redacted vs"
| "redacted (JObj kvs) =
     list_all (\<lambda>(k, v). if sensitive_key k then v = redacted_value else redacted v) kvs"
| "redacted _ = True"

text \<open>A plain JSON value: no key is sensitive and no part is of a type JSON does not have.\<close>

fun plain_json :: "json \<Rightarrow> bool" where
  "plain_json (JArr vs) = list_all plain_json vs"
| "plain_json (JObj kvs) = list_all (\<lambda>(k, v). \<not> sensitive_key k \<and> plain_json v) kvs"
| "plain_json (JOther t) = False"
| "plain_json _ = True"

lemma redacted_sanitize: "redacted (sanitizeJobMetadata v)"
  by (induction v rule: sanitizeJobMetadata.induct) (auto simp: list_all_iff)

text \<open>No part is of a type JSON does not have.\<close>

fun json_only :: "json \<Rightarrow> bool" where
  "json_only (JArr vs) = list_all json_only vs"
| "json_only (JObj kvs) = list_all (\<lambda>(k, v). json_only v) kvs"
| "json_only (JOther t) = False"
| "json_only _ = True"

lemma json_only_sanitize: "json_only (sanitizeJobMetadata v)"
  by (induction v rule: sanitizeJobMetadata.induct) (auto simp: list_all_iff redacted_value_def)

lemma sanitize_fixpoint: "redacted v \<Longrightarrow> json_only v \<Longrightarrow> sanitizeJobMetadata v = v"
proof (induction v rule: sanitizeJobMetadata.induct)
  case (6 vs)
  then show ?case by (auto simp: list_all_iff intro!: map_idI)
next
  case (7 kvs)
  show ?case
    unfolding sanitizeJobMetadata.simps json.inject
  proof (rule map_idI)
    fix p assume p: "p \<in> set kvs"
    obtain k v where kv: "p = (k, v)" by (cases p)
    have "if sensitive_key k then v = redacted_value else redacted v" and "json_only v"
      using "7.prems" p kv by (auto simp: list_all_iff split: if_splits)
    then show "(case p of (key, val) \<Rightarrow> (key, if sensitive_key key then redacted_value
             else sanitizeJobMetadata val)) = p"
      using "7.IH" [OF p kv [symmetric]] kv by (auto split: if_splits)
  qed
qed auto

lemma sanitize_idem: "sanitizeJobMetadata (sanitizeJobMetadata v) = sanitizeJobMetadata v"
  by (rule sanitize_fixpoint [OF redacted_sanitize json_only_sanitize])

lemma plain_redacted: "plain_json v \<Longrightarrow> redacted v \<and> json_only v"
  by (induction v rule: plain_json.induct) (auto simp: list_all_iff)

lemma sanitize_plain: "plain_json v \<Longrightarrow> sanitizeJobMetadata v = v"
  using plain_redacted sanitize_fixpoint by blast

text \<open>The shape is kept: the same keys at every level, in the same order.\<close>

lemma sanitize_keys:
  "sanitizeJobMetadata (JObj kvs) = JObj kvs' \<Longrightarrow> map fst kvs' = map fst kvs"
  by (auto simp: case_prod_beta)

lemma sanitize_get:
  "jget (sanitizeJobMetadata (JObj kvs)) k =
     (case map_of kvs k of None \<Rightarrow> JUndef
      | Some v \<Rightarrow> if sensitive_key k then redacted_value else sanitizeJobMetadata v)"
  by (induction kvs) (auto split: option.splits)

lemma sanitize_jget: "\<not> sensitive_key k \<Longrightarrow> jget (sanitizeJobMetadata w) k = sanitizeJobMetadata (jget w k)"
  by (cases w) (auto simp del: sanitizeJobMetadata.simps(7) jget.simps(1)
      simp: sanitize_get, auto split: option.splits)

lemma obj_set_get: "map_of (obj_set kvs k v) k = Some v"
proof (cases "k \<in> fst ` set kvs")
  case True
  then have "map_of (map (\<lambda>(k', v'). (k', if k' = k then v else v')) kvs) k = Some v"
    by (induction kvs) auto
  with True show ?thesis by (simp add: obj_set_def)
next
  case False
  then have "map_of kvs k = None" by (simp add: map_of_eq_None_iff)
  with False show ?thesis by (simp add: obj_set_def map_add_def)
qed

lemma attach_context_get:
  "jget (attachContextMetadata m (Some c)) ''_context'' = context_payload c"
  by (cases m) (auto simp: attachContextMetadata_def obj_set_get)

lemma context_key_plain: "\<not> sensitive_key ''_context''"
  by code_simp

lemma context_payload_plain: "plain_json (context_payload c)"
proof -
  have "\<not> sensitive_key ''requestId''" "\<not> sensitive_key ''correlationId''" "\<not> sensitive_key ''source''"
    "\<not> sensitive_key ''jobId''" "\<not> sensitive_key ''userId''" by code_simp+
  then show ?thesis
    by (auto simp: context_payload_def jstr_opt_def jopt_def split: option.splits)
qed

text \<open>
  C8. What the audit trail stores: at every depth of the sanitised metadata a sensitive key holds
  only the redaction marker, sanitising again changes nothing, and the request context attached to
  the metadata (even over a caller's own \<open>_context\<close>) survives the redaction unchanged.
\<close>

theorem audit_metadata_redacted:
  "redacted (sanitizeAuditMetadata (attachContextMetadata m c))
   \<and> sanitizeAuditMetadata (sanitizeAuditMetadata m) = sanitizeAuditMetadata m
   \<and> jget (sanitizeAuditMetadata (attachContextMetadata m (Some d))) ''_context'' = context_payload d"
proof -
  have "jget (sanitizeJobMetadata (attachContextMetadata m (Some d))) ''_context'' = context_payload d"
    by (simp only: sanitize_jget [OF context_key_plain] attach_context_get
        sanitize_plain [OF context_payload_plain])
  then show ?thesis
    by (simp add: sanitizeAuditMetadata_def redacted_sanitize sanitize_idem)
qed

end
