(* ===== verification/Schema.thy ===== *)
theory Schema
  imports Redis Redact
begin

text \<open>
  The state the services share: the configuration (\<open>common/env.ts\<close>, with the bounds its schema
  checks), the rows of the database tables (\<open>prisma/schema.prisma\<close>, whose public views are the
  interfaces of \<open>packages/shared\<close>), the process-local Redis state, the request context, and the
  log of metric updates (\<open>metrics/metrics.service.ts\<close>). The record \<open>app\<close> holds all of them; a
  service operation is a function on \<open>app\<close>. Identifiers come from a generator the state carries
  (the database's \<open>cuid()\<close>), so that nothing is assumed of their shape.
\<close>

section \<open>Configuration\<close>

record config =
  SESSION_TTL_HOURS :: int
  LOGIN_MAX_ATTEMPTS :: int
  LOGIN_WINDOW_SECONDS :: int
  REDIS_PREFIX :: string
  JOB_LOCK_TTL_SECONDS :: int
  JOB_RETRY_MAX_ATTEMPTS_BUCKET_SYNC :: int
  JOB_RETRY_MAX_ATTEMPTS_UPLOAD_CLEANUP :: int
  JOB_RETRY_MAX_ATTEMPTS_RETENTION_CLEANUP :: int
  JOB_RETRY_BACKOFF_SECONDS_BUCKET_SYNC :: int
  JOB_RETRY_BACKOFF_SECONDS_UPLOAD_CLEANUP :: int
  JOB_RETRY_BACKOFF_SECONDS_RETENTION_CLEANUP :: int
  JOB_RETRY_MAX_BACKOFF_SECONDS :: int
  UPLOAD_SESSION_TTL_HOURS :: int
  UPLOAD_PART_SIZE_BYTES :: int
  UPLOAD_CLEANUP_BATCH_SIZE :: int
  RETENTION_JOB_EVENTS_DAYS :: int
  RETENTION_FAILED_JOB_DAYS :: int
  RETENTION_TERMINAL_JOB_DAYS :: int
  RETENTION_AUDIT_LOG_DAYS :: int
  RETENTION_SECURITY_AUDIT_DAYS :: int
  RETENTION_UPLOAD_SESSION_DAYS :: int
  RETENTION_ARCHIVE_ENABLED :: bool
  RETENTION_ARCHIVE_BATCH_SIZE :: int
  ARCHIVE_RETENTION_AUDIT_LOG_DAYS :: int
  ARCHIVE_RETENTION_JOB_EVENT_DAYS :: int
  ARCHIVE_RETENTION_SECURITY_AUDIT_DAYS :: int
  MAINTENANCE_SCHEDULER_ENABLED :: bool
  MAINTENANCE_SCHEDULER_TICK_SECONDS :: int
  MAINTENANCE_SCHEDULER_LOCK_TTL_SECONDS :: int
  MAINTENANCE_TASK_RETENTION_ENABLED :: bool
  MAINTENANCE_TASK_UPLOAD_CLEANUP_ENABLED :: bool
  MAINTENANCE_TASK_BUCKET_SYNC_ENABLED :: bool
  MAINTENANCE_RETENTION_INTERVAL_MINUTES :: int
  MAINTENANCE_UPLOAD_CLEANUP_INTERVAL_MINUTES :: int
  MAINTENANCE_BUCKET_SYNC_INTERVAL_MINUTES :: int
  GARAGE_ENDPOINT :: "string option"
  GARAGE_REGION :: string
  GARAGE_FORCE_PATH_STYLE :: bool
  GARAGE_ACCESS_KEY_ID :: "string option"
  GARAGE_SECRET_ACCESS_KEY :: "string option"
  GARAGE_ADMIN_API_URL :: "string option"
  GARAGE_ADMIN_TOKEN :: "string option"

definition default_config :: config where
  "default_config = \<lparr>
     SESSION_TTL_HOURS = 24, LOGIN_MAX_ATTEMPTS = 8, LOGIN_WINDOW_SECONDS = 300,
     REDIS_PREFIX = ''s3gator'', JOB_LOCK_TTL_SECONDS = 60,
     JOB_RETRY_MAX_ATTEMPTS_BUCKET_SYNC = 5, JOB_RETRY_MAX_ATTEMPTS_UPLOAD_CLEANUP = 3,
     JOB_RETRY_MAX_ATTEMPTS_RETENTION_CLEANUP = 3, JOB_RETRY_BACKOFF_SECONDS_BUCKET_SYNC = 15,
     JOB_RETRY_BACKOFF_SECONDS_UPLOAD_CLEANUP = 30, JOB_RETRY_BACKOFF_SECONDS_RETENTION_CLEANUP = 60,
     JOB_RETRY_MAX_BACKOFF_SECONDS = 900, UPLOAD_SESSION_TTL_HOURS = 24,
     UPLOAD_PART_SIZE_BYTES = 10 * 1024 * 1024, UPLOAD_CLEANUP_BATCH_SIZE = 50,
     RETENTION_JOB_EVENTS_DAYS = 30, RETENTION_FAILED_JOB_DAYS = 90, RETENTION_TERMINAL_JOB_DAYS = 30,
     RETENTION_AUDIT_LOG_DAYS = 180, RETENTION_SECURITY_AUDIT_DAYS = 365,
     RETENTION_UPLOAD_SESSION_DAYS = 30, RETENTION_ARCHIVE_ENABLED = False,
     RETENTION_ARCHIVE_BATCH_SIZE = 500, ARCHIVE_RETENTION_AUDIT_LOG_DAYS = 730,
     ARCHIVE_RETENTION_JOB_EVENT_DAYS = 365, ARCHIVE_RETENTION_SECURITY_AUDIT_DAYS = 1460,
     MAINTENANCE_SCHEDULER_ENABLED = False, MAINTENANCE_SCHEDULER_TICK_SECONDS = 30,
     MAINTENANCE_SCHEDULER_LOCK_TTL_SECONDS = 60, MAINTENANCE_TASK_RETENTION_ENABLED = True,
     MAINTENANCE_TASK_UPLOAD_CLEANUP_ENABLED = True, MAINTENANCE_TASK_BUCKET_SYNC_ENABLED = False,
     MAINTENANCE_RETENTION_INTERVAL_MINUTES = 360, MAINTENANCE_UPLOAD_CLEANUP_INTERVAL_MINUTES = 30,
     MAINTENANCE_BUCKET_SYNC_INTERVAL_MINUTES = 0,
     GARAGE_ENDPOINT = None, GARAGE_REGION = ''garage'', GARAGE_FORCE_PATH_STYLE = True,
     GARAGE_ACCESS_KEY_ID = None, GARAGE_SECRET_ACCESS_KEY = None, GARAGE_ADMIN_API_URL = None,
     GARAGE_ADMIN_TOKEN = None\<rparr>"

definition in_range :: "int \<Rightarrow> int \<Rightarrow> int \<Rightarrow> bool" where
  "in_range lo hi x \<longleftrightarrow> lo \<le> x \<and> x \<le> hi"

text \<open>The ranges that \<open>loadEnv\<close> accepts.\<close>

definition config_ok :: "config \<Rightarrow> bool" where
  "config_ok c \<longleftrightarrow>
     in_range 1 168 (SESSION_TTL_HOURS c) \<and> in_range 1 50 (LOGIN_MAX_ATTEMPTS c) \<and>
     in_range 30 86400 (LOGIN_WINDOW_SECONDS c) \<and> in_range 5 3600 (JOB_LOCK_TTL_SECONDS c) \<and>
     in_range 1 20 (JOB_RETRY_MAX_ATTEMPTS_BUCKET_SYNC c) \<and>
     in_range 1 20 (JOB_RETRY_MAX_ATTEMPTS_UPLOAD_CLEANUP c) \<and>
     in_range 1 20 (JOB_RETRY_MAX_ATTEMPTS_RETENTION_CLEANUP c) \<and>
     in_range 1 3600 (JOB_RETRY_BACKOFF_SECONDS_BUCKET_SYNC c) \<and>
     in_range 1 3600 (JOB_RETRY_BACKOFF_SECONDS_UPLOAD_CLEANUP c) \<and>
     in_range 1 3600 (JOB_RETRY_BACKOFF_SECONDS_RETENTION_CLEANUP c) \<and>
     in_range 5 86400 (JOB_RETRY_MAX_BACKOFF_SECONDS c) \<and>
     in_range 1 168 (UPLOAD_SESSION_TTL_HOURS c) \<and>
     in_range (5 * 1024 * 1024) (128 * 1024 * 1024) (UPLOAD_PART_SIZE_BYTES c) \<and>
     in_range 1 500 (UPLOAD_CLEANUP_BATCH_SIZE c) \<and>
     in_range 1 3650 (RETENTION_JOB_EVENTS_DAYS c) \<and> in_range 1 3650 (RETENTION_FAILED_JOB_DAYS c) \<and>
     in_range 1 3650 (RETENTION_TERMINAL_JOB_DAYS c) \<and> in_range 1 3650 (RETENTION_AUDIT_LOG_DAYS c) \<and>
     in_range 1 3650 (RETENTION_SECURITY_AUDIT_DAYS c) \<and> in_range 1 3650 (RETENTION_UPLOAD_SESSION_DAYS c) \<and>
     in_range 10 5000 (RETENTION_ARCHIVE_BATCH_SIZE c) \<and>
     in_range 1 36500 (ARCHIVE_RETENTION_AUDIT_LOG_DAYS c) \<and>
     in_range 1 36500 (ARCHIVE_RETENTION_JOB_EVENT_DAYS c) \<and>
     in_range 1 36500 (ARCHIVE_RETENTION_SECURITY_AUDIT_DAYS c) \<and>
     in_range 5 3600 (MAINTENANCE_SCHEDULER_TICK_SECONDS c) \<and>
     in_range 5 3600 (MAINTENANCE_SCHEDULER_LOCK_TTL_SECONDS c) \<and>
     in_range 1 10080 (MAINTENANCE_RETENTION_INTERVAL_MINUTES c) \<and>
     in_range 1 10080 (MAINTENANCE_UPLOAD_CLEANUP_INTERVAL_MINUTES c) \<and>
     in_range 0 10080 (MAINTENANCE_BUCKET_SYNC_INTERVAL_MINUTES c)"

lemma default_config_ok: "config_ok default_config"
  by (simp add: config_ok_def default_config_def in_range_def)

section \<open>Roles and permissions\<close>

datatype app_role = SUPER_ADMIN | ADMIN | USER
datatype auth_source = LOCAL | LDAP

datatype bucket_permission =
    P_bucket_list | P_object_list | P_object_read | P_object_preview | P_object_download
  | P_object_upload | P_object_delete | P_object_rename | P_folder_create | P_folder_rename
  | P_folder_delete | P_folder_stats | P_search_run

definition APP_ROLES :: "app_role list" where
  "APP_ROLES = [SUPER_ADMIN, ADMIN, USER]"

definition BUCKET_PERMISSIONS :: "bucket_permission list" where
  "BUCKET_PERMISSIONS =
     [P_bucket_list, P_object_list, P_object_read, P_object_preview, P_object_download,
      P_object_upload, P_object_delete, P_object_rename, P_folder_create, P_folder_rename,
      P_folder_delete, P_folder_stats, P_search_run]"

fun permission_code :: "bucket_permission \<Rightarrow> string" where
  "permission_code P_bucket_list = ''bucket:list''"
| "permission_code P_object_list = ''object:list''"
| "permission_code P_object_read = ''object:read''"
| "permission_code P_object_preview = ''object:preview''"
| "permission_code P_object_download = ''object:download''"
| "permission_code P_object_upload = ''object:upload''"
| "permission_code P_object_delete = ''object:delete''"
| "permission_code P_object_rename = ''object:rename''"
| "permission_code P_folder_create = ''folder:create''"
| "permission_code P_folder_rename = ''folder:rename''"
| "permission_code P_folder_delete = ''folder:delete''"
| "permission_code P_folder_stats = ''folder:stats''"
| "permission_code P_search_run = ''search:run''"

record session_user =
  su_id :: string
  su_username :: string
  su_email :: "string option"
  su_role :: app_role
  su_displayName :: "string option"

section \<open>Rows\<close>

record user_row =
  u_id :: string
  u_username :: string
  u_email :: "string option"
  u_displayName :: "string option"
  u_role :: app_role
  u_source :: auth_source
  u_isActive :: bool
  u_createdAt :: int

record bucket_row =
  b_id :: string
  b_name :: string
  b_garageBucketId :: "string option"
  b_connectionId :: "string option"
  b_createdAt :: int

record grant_row =
  g_userId :: string
  g_bucketId :: string
  g_permission :: bucket_permission

record scope_row =
  sc_adminUserId :: string
  sc_bucketId :: string

record session_row =
  s_id :: string
  s_tokenHash :: string
  s_csrfToken :: string
  s_userId :: string
  s_ipAddress :: "string option"
  s_userAgent :: "string option"
  s_lastSeenAt :: int
  s_expiresAt :: int
  s_revokedAt :: "int option"

record conn_row =
  c_id :: string
  c_name :: string
  c_endpoint :: string
  c_region :: string
  c_forcePathStyle :: bool
  c_accessKeyEncrypted :: string
  c_secretKeyEncrypted :: string
  c_adminApiUrl :: "string option"
  c_adminTokenEncrypted :: "string option"
  c_isDefault :: bool
  c_healthStatus :: "string option"
  c_createdAt :: int
  c_updatedAt :: int

record ldap_row =
  l_enabled :: bool
  l_url :: "string option"
  l_bindDn :: "string option"
  l_bindPasswordEncrypted :: "string option"
  l_searchBase :: "string option"
  l_searchFilter :: string
  l_usernameAttribute :: string
  l_emailAttribute :: string
  l_displayNameAttribute :: string
  l_groupAttribute :: string
  l_groupRoleMapping :: "(string \<times> app_role) list"
  l_tlsRejectUnauthorized :: bool

datatype upload_status = UP_INITIATED | UP_IN_PROGRESS | UP_COMPLETED | UP_ABORTED | UP_FAILED

record complete_part =
  part_number :: int
  part_eTag :: string

record upload_row =
  up_id :: string
  up_userId :: string
  up_bucketId :: string
  up_objectKey :: string
  up_uploadId :: string
  up_status :: upload_status
  up_partsMeta :: json
  up_completedParts :: "complete_part list"
  up_partSize :: "int option"
  up_totalParts :: "int option"
  up_fileSize :: "int option"
  up_contentType :: "string option"
  up_relativePath :: "string option"
  up_error :: "string option"
  up_lastActivityAt :: int
  up_createdAt :: int
  up_updatedAt :: int
  up_expiresAt :: int

datatype job_type = FOLDER_RENAME | FOLDER_DELETE | BUCKET_SYNC | UPLOAD_CLEANUP | RETENTION_CLEANUP
datatype job_status = QUEUED | RUNNING | COMPLETED | FAILED | CANCELED
datatype event_level = INFO | WARN | ERROR

record job =
  j_id :: string
  j_type :: job_type
  j_status :: job_status
  j_correlationId :: "string option"
  j_attemptCount :: int
  j_maxAttempts :: int
  j_retryable :: bool
  j_nextRetryAt :: "int option"
  j_lastError :: "string option"
  j_createdByUserId :: "string option"
  j_payload :: json
  j_progress :: json
  j_result :: json
  j_failureSummary :: "string option"
  j_cancelRequestedAt :: "int option"
  j_lockKey :: "string option"
  j_lockedAt :: "int option"
  j_createdAt :: int
  j_startedAt :: "int option"
  j_completedAt :: "int option"

record job_event =
  e_id :: string
  e_jobId :: string
  e_correlationId :: "string option"
  e_type :: string
  e_level :: event_level
  e_message :: string
  e_metadata :: json
  e_createdAt :: int

record audit_row =
  a_id :: string
  a_actorUserId :: "string option"
  a_action :: string
  a_entityType :: string
  a_entityId :: "string option"
  a_metadata :: json
  a_ipAddress :: "string option"
  a_createdAt :: int

record audit_archive_row =
  aa_id :: string
  aa_sourceAuditLogId :: "string option"
  aa_actorUserId :: "string option"
  aa_correlationId :: "string option"
  aa_action :: string
  aa_entityType :: string
  aa_entityId :: "string option"
  aa_metadata :: json
  aa_ipAddress :: "string option"
  aa_createdAt :: int
  aa_archivedAt :: int

record event_archive_row =
  ea_id :: string
  ea_sourceJobEventId :: "string option"
  ea_jobId :: string
  ea_jobType :: "job_type option"
  ea_jobStatus :: "job_status option"
  ea_correlationId :: "string option"
  ea_type :: string
  ea_level :: event_level
  ea_message :: string
  ea_metadata :: json
  ea_createdAt :: int
  ea_archivedAt :: int

section \<open>Metrics\<close>

datatype login_method = M_local | M_ldap | M_unknown
datatype upload_event = UE_start | UE_complete | UE_fail | UE_abort
datatype job_metric = JM_start | JM_complete | JM_fail | JM_cancel
datatype retry_metric = RM_scheduled | RM_started | RM_exhausted | RM_skipped_non_retryable
datatype scheduler_task_key = T_retention_cleanup | T_upload_cleanup | T_bucket_sync
datatype scheduler_result = SR_queued | SR_skipped_active | SR_failed | SR_skipped_disabled

text \<open>One entry per counter increment; durations (seconds) are observed with the entry.\<close>

datatype metric =
    MLogin bool login_method
  | MUpload upload_event
  | MJob job_type job_metric "rat option"
  | MJobRetry job_type retry_metric
  | MJobReclaim job_type
  | MS3Failure string
  | MS3Duration string
  | MLdapFailure string
  | MRetentionCleanup bool
  | MRetentionDeleted string nat
  | MRetentionArchived string nat
  | MArchiveGovernance string nat
  | MSchedulerRun scheduler_task_key scheduler_result

text \<open>\<open>value.toLowerCase().replace(/[^a-z0-9_]/g, "_").slice(0, 64) || "unknown"\<close>.\<close>

definition label_char :: "char \<Rightarrow> char" where
  "label_char c = (let n = (of_char c :: nat) in
     if (97 \<le> n \<and> n \<le> 122) \<or> (48 \<le> n \<and> n \<le> 57) \<or> n = 95 then c else CHR ''_'')"

definition normalizeLabelValue :: "string \<Rightarrow> string" where
  "normalizeLabelValue v = (let t = take 64 (map label_char (to_lower v)) in
     if t = [] then ''unknown'' else t)"

section \<open>The state\<close>

record app =
  cfg :: config
  ctx :: "request_context option"
  redis_st :: redis
  cuid :: "nat \<Rightarrow> string"
  cuid_n :: nat
  roles :: "app_role list"
  permissions :: "bucket_permission list"
  users :: "user_row list"
  localCreds :: "string \<rightharpoonup> string"
  buckets :: "bucket_row list"
  grants :: "grant_row list"
  scopes :: "scope_row list"
  sessions :: "session_row list"
  conns :: "conn_row list"
  settings :: "string \<rightharpoonup> json"
  ldap :: "ldap_row option"
  uploads :: "upload_row list"
  jobs :: "job list"
  events :: "job_event list"
  audits :: "audit_row list"
  auditArchive :: "audit_archive_row list"
  eventArchive :: "event_archive_row list"
  metrics :: "metric list"

text \<open>A database whose roles and permissions are seeded (\<open>bootstrap/seed.ts\<close>) and that is else
  empty; its generator numbers the identifiers in unary.\<close>

definition unary_id :: "nat \<Rightarrow> string" where
  "unary_id n = CHR ''i'' # replicate n (CHR ''x'')"

definition init_app :: app where
  "init_app = \<lparr>cfg = default_config, ctx = None, redis_st = empty_redis, cuid = unary_id, cuid_n = 0,
     roles = APP_ROLES, permissions = BUCKET_PERMISSIONS, users = [], localCreds = Map.empty,
     buckets = [], grants = [], scopes = [], sessions = [], conns = [], settings = Map.empty,
     ldap = None, uploads = [], jobs = [], events = [], audits = [], auditArchive = [],
     eventArchive = [], metrics = []\<rparr>"

definition new_id :: "app \<Rightarrow> string" where
  "new_id s = cuid s (cuid_n s)"

definition bump_id :: "app \<Rightarrow> app" where
  "bump_id s = s\<lparr>cuid_n := Suc (cuid_n s)\<rparr>"

definition add_metric :: "metric \<Rightarrow> app \<Rightarrow> app" where
  "add_metric m s = s\<lparr>metrics := metrics s @ [m]\<rparr>"

definition recordLdapFailure :: "string \<Rightarrow> app \<Rightarrow> app" where
  "recordLdapFailure reason = add_metric (MLdapFailure (normalizeLabelValue reason))"

definition recordRetentionDeleted :: "string \<Rightarrow> nat \<Rightarrow> app \<Rightarrow> app" where
  "recordRetentionDeleted entity n s = (if n \<le> 0 then s else add_metric (MRetentionDeleted entity n) s)"

definition recordRetentionArchived :: "string \<Rightarrow> nat \<Rightarrow> app \<Rightarrow> app" where
  "recordRetentionArchived entity n s = (if n \<le> 0 then s else add_metric (MRetentionArchived entity n) s)"

definition recordArchiveGovernanceDeleted :: "string \<Rightarrow> nat \<Rightarrow> app \<Rightarrow> app" where
  "recordArchiveGovernanceDeleted entity n s =
     (if n \<le> 0 then s else add_metric (MArchiveGovernance entity n) s)"

text \<open>\<open>runWithRequestContext(context, callback)\<close> and \<open>getCorrelationId()\<close>.\<close>

definition runWithRequestContext :: "request_context \<Rightarrow> (app, 'a) eff \<Rightarrow> (app, 'a) eff" where
  "runWithRequestContext c m = (\<lambda>s. case m (s\<lparr>ctx := Some c\<rparr>) of (r, t) \<Rightarrow> (r, t\<lparr>ctx := ctx s\<rparr>))"

definition getCorrelationId :: "app \<Rightarrow> string option" where
  "getCorrelationId s = map_option rc_correlationId (ctx s)"

lemma unary_id_inj: "inj unary_id"
  by (rule injI) (simp add: unary_id_def replicate_eq_replicate)

lemma normalizeLabelValue_bounds:
  "normalizeLabelValue v \<noteq> [] \<and> length (normalizeLabelValue v) \<le> 64"
  by (auto simp: normalizeLabelValue_def Let_def)

end
