(* ===== verification/AuditLog.thy ===== *)
theory AuditLog
  imports Schema
begin

text \<open>
  \<open>apps/api/src/audit/audit.service.ts\<close>: recording an audit row with redacted, context-tagged
  metadata, listing rows and browsing the archive. \<open>parse_date\<close> is the \<open>Date\<close> constructor on a
  string, \<open>None\<close> for an invalid date; it is a parameter, as are the date formats it accepts.
  Rendering a date as an ISO string is left to the reader of the result: dates stay instants.
\<close>

definition audit_record ::
  "int \<Rightarrow> session_user option \<Rightarrow> string \<Rightarrow> string \<Rightarrow> string option \<Rightarrow> json \<Rightarrow> string option \<Rightarrow> app \<Rightarrow> app" where
  "audit_record now actor action entityType entityId metadata ipAddress s =
     bump_id (s\<lparr>audits := audits s @
       [\<lparr>a_id = new_id s,
         a_actorUserId = map_option su_id actor,
         a_action = action,
         a_entityType = entityType,
         a_entityId = entityId,
         a_metadata = sanitizeAuditMetadata (attachContextMetadata metadata (ctx s)),
         a_ipAddress = ipAddress,
         a_createdAt = now\<rparr>]\<rparr>)"

text \<open>\<open>{contains: needle, mode: "insensitive"}\<close>; a null column does not match.\<close>

definition contains_ci :: "string \<Rightarrow> string \<Rightarrow> bool" where
  "contains_ci hay needle = str_includes (to_lower hay) (to_lower needle)"

definition contains_ci_opt :: "string option \<Rightarrow> string \<Rightarrow> bool" where
  "contains_ci_opt hay needle = (case hay of None \<Rightarrow> False | Some h \<Rightarrow> contains_ci h needle)"

text \<open>An optional filter: absent or empty means no condition.\<close>

definition when_set :: "string option \<Rightarrow> (string \<Rightarrow> bool) \<Rightarrow> bool" where
  "when_set v P = (case v of None \<Rightarrow> True | Some x \<Rightarrow> if x = [] then True else P x)"

record list_audit_input =
  la_limit :: "int option"
  la_search :: "string option"
  la_action :: "string option"
  la_entityType :: "string option"

definition audit_where :: "list_audit_input \<Rightarrow> audit_row \<Rightarrow> bool" where
  "audit_where i r \<longleftrightarrow>
     when_set (la_action i) (contains_ci (a_action r))
     \<and> when_set (la_entityType i) (contains_ci (a_entityType r))
     \<and> when_set (la_search i) (\<lambda>q. contains_ci (a_action r) q \<or> contains_ci (a_entityType r) q
          \<or> contains_ci_opt (a_entityId r) q)"

definition audit_list :: "list_audit_input \<Rightarrow> app \<Rightarrow> audit_row list" where
  "audit_list i s =
     (let limit = clamp 1 1000 (or_else (la_limit i) 200)
      in take_int limit (order_desc a_createdAt (filter (audit_where i) (audits s))))"

record list_archive_input =
  lr_limit :: "int option"
  lr_offset :: "int option"
  lr_search :: "string option"
  lr_action :: "string option"
  lr_entityType :: "string option"
  lr_correlationId :: "string option"
  lr_from :: "string option"
  lr_to :: "string option"

definition parseIsoDate :: "(string \<Rightarrow> int option) \<Rightarrow> string option \<Rightarrow> int option" where
  "parseIsoDate parse_date v =
     (case v of None \<Rightarrow> None | Some x \<Rightarrow> if x = [] then None else parse_date x)"

text \<open>\<open>{gte: from, lte: to}\<close> with absent bounds left out.\<close>

definition in_dates :: "int option \<Rightarrow> int option \<Rightarrow> int \<Rightarrow> bool" where
  "in_dates fromDate toDate t \<longleftrightarrow>
     (case fromDate of None \<Rightarrow> True | Some f \<Rightarrow> f \<le> t) \<and> (case toDate of None \<Rightarrow> True | Some u \<Rightarrow> t \<le> u)"

definition archive_where ::
  "(string \<Rightarrow> int option) \<Rightarrow> list_archive_input \<Rightarrow> audit_archive_row \<Rightarrow> bool" where
  "archive_where parse_date i r \<longleftrightarrow>
     when_set (lr_action i) (contains_ci (aa_action r))
     \<and> when_set (lr_entityType i) (contains_ci (aa_entityType r))
     \<and> when_set (lr_correlationId i) (\<lambda>q. aa_correlationId r = Some q)
     \<and> in_dates (parseIsoDate parse_date (lr_from i)) (parseIsoDate parse_date (lr_to i)) (aa_createdAt r)
     \<and> when_set (lr_search i) (\<lambda>q. contains_ci (aa_action r) q \<or> contains_ci (aa_entityType r) q
          \<or> contains_ci_opt (aa_entityId r) q)"

text \<open>\<open>orderBy: [{createdAt: "desc"}, {id: "desc"}]\<close>: two stable sorts, the last key first.\<close>

definition order_created_id_desc :: "('r \<Rightarrow> int) \<Rightarrow> ('r \<Rightarrow> string) \<Rightarrow> 'r list \<Rightarrow> 'r list" where
  "order_created_id_desc created rid rs = order_desc created (rev (sort_key rid rs))"

record 'r page =
  pg_items :: "'r list"
  pg_total :: nat
  pg_limit :: int
  pg_offset :: int

definition page_of :: "int option \<Rightarrow> int option \<Rightarrow> 'r list \<Rightarrow> 'r page" where
  "page_of limit_in offset_in rs =
     (let limit = clamp 1 500 (or_else limit_in 100); offset = max (or_else offset_in 0) 0
      in \<lparr>pg_items = take_int limit (drop (nat offset) rs), pg_total = length rs,
          pg_limit = limit, pg_offset = offset\<rparr>)"

definition audit_listArchive ::
  "(string \<Rightarrow> int option) \<Rightarrow> list_archive_input \<Rightarrow> app \<Rightarrow> audit_archive_row page" where
  "audit_listArchive parse_date i s =
     page_of (lr_limit i) (lr_offset i)
       (order_created_id_desc aa_createdAt aa_id (filter (archive_where parse_date i) (auditArchive s)))"

section \<open>Lemmas\<close>

lemma audit_record_frame [simp]:
  "jobs (audit_record n ac a et ei m ip s) = jobs s" "events (audit_record n ac a et ei m ip s) = events s"
  "users (audit_record n ac a et ei m ip s) = users s" "buckets (audit_record n ac a et ei m ip s) = buckets s"
  "grants (audit_record n ac a et ei m ip s) = grants s" "scopes (audit_record n ac a et ei m ip s) = scopes s"
  "sessions (audit_record n ac a et ei m ip s) = sessions s" "conns (audit_record n ac a et ei m ip s) = conns s"
  "uploads (audit_record n ac a et ei m ip s) = uploads s" "settings (audit_record n ac a et ei m ip s) = settings s"
  "redis_st (audit_record n ac a et ei m ip s) = redis_st s" "cfg (audit_record n ac a et ei m ip s) = cfg s"
  "metrics (audit_record n ac a et ei m ip s) = metrics s" "cuid (audit_record n ac a et ei m ip s) = cuid s"
  "localCreds (audit_record n ac a et ei m ip s) = localCreds s" "ctx (audit_record n ac a et ei m ip s) = ctx s"
  "auditArchive (audit_record n ac a et ei m ip s) = auditArchive s"
  "eventArchive (audit_record n ac a et ei m ip s) = eventArchive s"
  "roles (audit_record n ac a et ei m ip s) = roles s" "permissions (audit_record n ac a et ei m ip s) = permissions s"
  "ldap (audit_record n ac a et ei m ip s) = ldap s"
  "cuid_n (audit_record n ac a et ei m ip s) = Suc (cuid_n s)"
  by (simp_all add: audit_record_def bump_id_def)

text \<open>Every row the service writes is redacted.\<close>

definition audits_redacted :: "app \<Rightarrow> bool" where
  "audits_redacted s \<longleftrightarrow> (\<forall>r\<in>set (audits s). redacted (a_metadata r))"

lemma audit_record_redacted:
  "audits_redacted s \<Longrightarrow> audits_redacted (audit_record n ac a et ei m ip s)"
  by (auto simp: audits_redacted_def audit_record_def bump_id_def sanitizeAuditMetadata_def
      redacted_sanitize)

lemma set_order_created_id_desc [tbl_simps]: "set (order_created_id_desc c i rs) = set rs"
  by (simp add: order_created_id_desc_def tbl_simps)

lemma length_order_created_id_desc [tbl_simps]: "length (order_created_id_desc c i rs) = length rs"
  by (simp add: order_created_id_desc_def tbl_simps)

lemma page_of_bounds:
  "int (length (pg_items (page_of l off rs))) \<le> pg_limit (page_of l off rs)
   \<and> 1 \<le> pg_limit (page_of l off rs) \<and> pg_limit (page_of l off rs) \<le> 500
   \<and> 0 \<le> pg_offset (page_of l off rs) \<and> pg_total (page_of l off rs) = length rs"
proof -
  have b: "1 \<le> clamp 1 500 (or_else l 100)" "clamp 1 500 (or_else l 100) \<le> 500"
    using clamp_bounds [of 1 500 "or_else l 100"] by simp_all
  then show ?thesis
    by (simp add: page_of_def Let_def length_take_int)
qed

lemma order_desc_sorted: "sorted_wrt (\<lambda>a b. k a \<ge> k b) (order_desc k rs)"
proof -
  have "sorted (map (\<lambda>r. - k r) (order_desc k rs))" by (simp add: order_desc_def)
  then show ?thesis by (simp add: sorted_map)
qed

text \<open>Consecutive pages tile the result: no row is skipped or shown twice.\<close>

lemma pages_tile:
  assumes "0 \<le> off" and "1 \<le> l" and "l \<le> 500"
  shows "pg_items (page_of (Some l) (Some off) rs) @ drop (nat (off + l)) rs = drop (nat off) rs"
proof -
  have "nat (off + l) = nat l + nat off" using assms by simp
  moreover have "clamp 1 500 l = l" using assms by (simp add: clamp_def)
  ultimately show ?thesis
    using assms by (simp add: page_of_def take_int_def flip: drop_drop)
qed

text \<open>
  The archive browser: a page has at most its limit (1 to 500) of rows, all from the archive
  and matching the filter, newest first; the total counts every matching row, and the page at
  offset \<open>off\<close> followed by everything from \<open>off + limit\<close> on is the whole rest of the result.
\<close>

theorem audit_archive_paging:
  assumes "0 \<le> off" and "1 \<le> l" and "l \<le> 500"
  shows "let out = audit_listArchive pd (i\<lparr>lr_limit := Some l, lr_offset := Some off\<rparr>) s;
             hits = order_created_id_desc aa_createdAt aa_id (filter (archive_where pd i) (auditArchive s))
         in int (length (pg_items out)) \<le> l
            \<and> set (pg_items out) \<subseteq> {r \<in> set (auditArchive s). archive_where pd i r}
            \<and> sorted_wrt (\<lambda>a b. aa_createdAt a \<ge> aa_createdAt b) (pg_items out)
            \<and> pg_total out = length (filter (archive_where pd i) (auditArchive s))
            \<and> pg_items out @ drop (nat (off + l)) hits = drop (nat off) hits"
proof -
  let ?q = "i\<lparr>lr_limit := Some l, lr_offset := Some off\<rparr>"
  let ?hits = "order_created_id_desc aa_createdAt aa_id (filter (archive_where pd i) (auditArchive s))"
  have wh: "archive_where pd ?q = archive_where pd i"
    by (rule ext) (simp add: archive_where_def)
  have page: "audit_listArchive pd ?q s = page_of (Some l) (Some off) ?hits"
    by (simp add: audit_listArchive_def wh)
  have items: "pg_items (page_of (Some l) (Some off) ?hits) = take_int l (drop (nat off) ?hits)"
    using assms(1-3) by (simp add: page_of_def clamp_def)
  have len: "int (length (take_int l (drop (nat off) ?hits))) \<le> l"
    using assms(2) by (intro length_take_int) simp
  have "sorted_wrt (\<lambda>a b. aa_createdAt a \<ge> aa_createdAt b) ?hits"
    unfolding order_created_id_desc_def by (rule order_desc_sorted)
  then have srt: "sorted_wrt (\<lambda>a b. aa_createdAt a \<ge> aa_createdAt b) (take_int l (drop (nat off) ?hits))"
    by (simp add: take_int_def sorted_wrt_drop sorted_wrt_take)
  have "set (take_int l (drop (nat off) ?hits)) \<subseteq> set ?hits"
    using set_take_int [of l "drop (nat off) ?hits"] set_drop_subset [of "nat off" ?hits] by blast
  then have sub: "set (take_int l (drop (nat off) ?hits)) \<subseteq> {r \<in> set (auditArchive s). archive_where pd i r}"
    by (simp add: tbl_simps)
  have tot: "pg_total (page_of (Some l) (Some off) ?hits) = length (filter (archive_where pd i) (auditArchive s))"
    using page_of_bounds [of "Some l" "Some off" ?hits] by (simp add: tbl_simps)
  show ?thesis
    using len sub srt tot pages_tile [OF assms(1-3), of ?hits] by (simp add: page items Let_def)
qed

theorem audit_archive_paging_witness:
  "int (length (pg_items (audit_listArchive (\<lambda>_. None)
     \<lparr>lr_limit = Some 2, lr_offset = Some 1, lr_search = None, lr_action = None, lr_entityType = None,
      lr_correlationId = None, lr_from = None, lr_to = None\<rparr> init_app))) \<le> 2"
  using audit_archive_paging [of 1 2 "\<lambda>_. None" "\<lparr>lr_limit = None, lr_offset = None, lr_search = None,
      lr_action = None, lr_entityType = None, lr_correlationId = None, lr_from = None, lr_to = None\<rparr>" init_app]
  by (simp add: Let_def)

end
