(* ===== verification/Jobs.thy ===== *)
theory Jobs
  imports AuditLog
begin

text \<open>
  \<open>apps/api/src/jobs/jobs.service.ts\<close>: the job queue. Enqueueing, listing and viewing jobs under
  role and bucket scope, cancelling, claiming the next job under a Redis lock, progress,
  completion, failure with retry and back-off, and the timeline of job events. Every operation is
  a function on the shared state. \<open>claimNext\<close> is the composition of its three remote steps (find a
  candidate, take the lock, conditional update), which are separate definitions because other
  workers act between them. \<open>uuid\<close> is the value of \<open>randomUUID()\<close>.
\<close>

section \<open>Job events\<close>

record job_event_input =
  ei_type :: string
  ei_message :: string
  ei_metadata :: json
  ei_level :: "event_level option"
  ei_correlationId :: "string option"

definition ev :: "string \<Rightarrow> string \<Rightarrow> event_level option \<Rightarrow> json \<Rightarrow> job_event_input" where
  "ev t m l d = \<lparr>ei_type = t, ei_message = m, ei_metadata = d, ei_level = l, ei_correlationId = None\<rparr>"

definition createEvent :: "int \<Rightarrow> string \<Rightarrow> string option \<Rightarrow> job_event_input \<Rightarrow> app \<Rightarrow> app" where
  "createEvent now jobId jobCorrelationId i s =
     bump_id (s\<lparr>events := events s @
       [\<lparr>e_id = new_id s, e_jobId = jobId,
         e_correlationId = first_some (ei_correlationId i) jobCorrelationId,
         e_type = ei_type i, e_level = or_else (ei_level i) INFO, e_message = ei_message i,
         e_metadata = sanitizeJobMetadata (ei_metadata i), e_createdAt = now\<rparr>]\<rparr>)"

definition job_event_for :: "int \<Rightarrow> job \<Rightarrow> job_event_input \<Rightarrow> app \<Rightarrow> app" where
  "job_event_for now j i = createEvent now (j_id j) (j_correlationId j) i"

definition find_job :: "string \<Rightarrow> app \<Rightarrow> job option" where
  "find_job jobId s = find (\<lambda>j. j_id j = jobId) (jobs s)"

definition update_job :: "string \<Rightarrow> (job \<Rightarrow> job) \<Rightarrow> app \<Rightarrow> app" where
  "update_job jobId f s = s\<lparr>jobs := tb_update (\<lambda>j. j_id j = jobId) f (jobs s)\<rparr>"

definition recordEvent :: "int \<Rightarrow> string \<Rightarrow> job_event_input \<Rightarrow> app \<Rightarrow> app" where
  "recordEvent now jobId i s =
     (case find_job jobId s of None \<Rightarrow> s | Some j \<Rightarrow> job_event_for now j i s)"

section \<open>Retry policy\<close>

record job_retry_policy =
  rp_retryable :: bool
  rp_maxAttempts :: int
  rp_baseBackoffSeconds :: int

definition getRetryPolicy :: "config \<Rightarrow> job_type \<Rightarrow> job_retry_policy" where
  "getRetryPolicy c t = (case t of
     BUCKET_SYNC \<Rightarrow> \<lparr>rp_retryable = True, rp_maxAttempts = JOB_RETRY_MAX_ATTEMPTS_BUCKET_SYNC c,
                     rp_baseBackoffSeconds = JOB_RETRY_BACKOFF_SECONDS_BUCKET_SYNC c\<rparr>
   | UPLOAD_CLEANUP \<Rightarrow> \<lparr>rp_retryable = True, rp_maxAttempts = JOB_RETRY_MAX_ATTEMPTS_UPLOAD_CLEANUP c,
                     rp_baseBackoffSeconds = JOB_RETRY_BACKOFF_SECONDS_UPLOAD_CLEANUP c\<rparr>
   | RETENTION_CLEANUP \<Rightarrow> \<lparr>rp_retryable = True, rp_maxAttempts = JOB_RETRY_MAX_ATTEMPTS_RETENTION_CLEANUP c,
                     rp_baseBackoffSeconds = JOB_RETRY_BACKOFF_SECONDS_RETENTION_CLEANUP c\<rparr>
   | _ \<Rightarrow> \<lparr>rp_retryable = False, rp_maxAttempts = 1, rp_baseBackoffSeconds = 0\<rparr>)"

definition computeBackoffSeconds :: "config \<Rightarrow> job_type \<Rightarrow> int \<Rightarrow> int" where
  "computeBackoffSeconds c t attemptCount =
     (let policy = getRetryPolicy c t;
          maxBackoffSeconds = JOB_RETRY_MAX_BACKOFF_SECONDS c;
          exponent = max (attemptCount - 1) 0;
          raw = rp_baseBackoffSeconds policy * 2 ^ nat exponent
      in min (max raw (rp_baseBackoffSeconds policy)) maxBackoffSeconds)"

section \<open>Public views\<close>

record job_public =
  jp_id :: string
  jp_type :: job_type
  jp_status :: job_status
  jp_correlationId :: "string option"
  jp_createdByUserId :: "string option"
  jp_attemptCount :: int
  jp_maxAttempts :: int
  jp_retryable :: bool
  jp_nextRetryAt :: "int option"
  jp_lastError :: "string option"
  jp_createdAt :: int
  jp_startedAt :: "int option"
  jp_completedAt :: "int option"
  jp_cancelRequestedAt :: "int option"
  jp_failureSummary :: "string option"
  jp_progress :: json
  jp_result :: json

definition toPublic :: "job \<Rightarrow> job_public" where
  "toPublic j = \<lparr>jp_id = j_id j, jp_type = j_type j, jp_status = j_status j,
     jp_correlationId = j_correlationId j, jp_createdByUserId = j_createdByUserId j,
     jp_attemptCount = j_attemptCount j, jp_maxAttempts = j_maxAttempts j,
     jp_retryable = j_retryable j, jp_nextRetryAt = j_nextRetryAt j, jp_lastError = j_lastError j,
     jp_createdAt = j_createdAt j, jp_startedAt = j_startedAt j, jp_completedAt = j_completedAt j,
     jp_cancelRequestedAt = j_cancelRequestedAt j, jp_failureSummary = j_failureSummary j,
     jp_progress = j_progress j, jp_result = j_result j\<rparr>"

section \<open>Enqueueing\<close>

definition type_str :: "job_type \<Rightarrow> string" where
  "type_str t = (case t of FOLDER_RENAME \<Rightarrow> ''FOLDER_RENAME'' | FOLDER_DELETE \<Rightarrow> ''FOLDER_DELETE''
     | BUCKET_SYNC \<Rightarrow> ''BUCKET_SYNC'' | UPLOAD_CLEANUP \<Rightarrow> ''UPLOAD_CLEANUP''
     | RETENTION_CLEANUP \<Rightarrow> ''RETENTION_CLEANUP'')"

definition ev_created :: "job \<Rightarrow> job_event_input" where
  "ev_created j = ev ''created'' ''Job queued.'' None (JObj
     [(''type'', JStr (type_str (j_type j))), (''createdByUserId'', jstr_opt (j_createdByUserId j)),
      (''retryable'', JBool (j_retryable j)), (''maxAttempts'', jint (j_maxAttempts j))])"

definition enqueue ::
  "int \<Rightarrow> job_type \<Rightarrow> json \<Rightarrow> string option \<Rightarrow> string option \<Rightarrow> app \<Rightarrow> job_public \<times> app" where
  "enqueue now t payload createdByUserId correlationId s =
     (let resolvedCorrelationId = first_some correlationId (getCorrelationId s);
          policy = getRetryPolicy (cfg s) t;
          created = \<lparr>j_id = new_id s, j_type = t, j_status = QUEUED,
            j_correlationId = resolvedCorrelationId, j_attemptCount = 0,
            j_maxAttempts = rp_maxAttempts policy, j_retryable = rp_retryable policy,
            j_nextRetryAt = None, j_lastError = None, j_createdByUserId = createdByUserId,
            j_payload = sanitizeJobMetadata payload, j_progress = JNull, j_result = JNull,
            j_failureSummary = None, j_cancelRequestedAt = None, j_lockKey = None, j_lockedAt = None,
            j_createdAt = now, j_startedAt = None, j_completedAt = None\<rparr>;
          s1 = bump_id (s\<lparr>jobs := jobs s @ [created]\<rparr>)
      in (toPublic created, job_event_for now created (ev_created created) s1))"

fun role_str :: "app_role \<Rightarrow> string" where
  "role_str SUPER_ADMIN = ''SUPER_ADMIN''"
| "role_str ADMIN = ''ADMIN''"
| "role_str USER = ''USER''"

definition actor_json :: "session_user \<Rightarrow> json" where
  "actor_json a = JObj [(''id'', JStr (su_id a)), (''username'', JStr (su_username a)),
     (''email'', jstr_opt (su_email a)), (''displayName'', jstr_opt (su_displayName a)),
     (''role'', JStr (role_str (su_role a)))]"

text \<open>An optional property: absent when undefined.\<close>

definition opt_field :: "string \<Rightarrow> string option \<Rightarrow> (string \<times> json) list" where
  "opt_field k v = (case v of None \<Rightarrow> [] | Some x \<Rightarrow> [(k, JStr x)])"

record folder_rename_payload =
  fr_actor :: session_user
  fr_bucket :: string
  fr_oldKey :: string
  fr_newKey :: string
  fr_ipAddress :: "string option"
  fr_correlationId :: "string option"

record folder_delete_payload =
  fd_actor :: session_user
  fd_bucket :: string
  fd_key :: string
  fd_ipAddress :: "string option"
  fd_correlationId :: "string option"

datatype job_reason = R_manual | R_scheduled

fun reason_str :: "job_reason \<Rightarrow> string" where
  "reason_str R_manual = ''manual''"
| "reason_str R_scheduled = ''scheduled''"

record maintenance_payload =
  mp_actor :: session_user
  mp_reason :: job_reason
  mp_ipAddress :: "string option"
  mp_correlationId :: "string option"

definition folder_rename_json :: "folder_rename_payload \<Rightarrow> json" where
  "folder_rename_json p = JObj ([(''actor'', actor_json (fr_actor p)), (''bucket'', JStr (fr_bucket p)),
     (''oldKey'', JStr (fr_oldKey p)), (''newKey'', JStr (fr_newKey p))]
     @ opt_field ''ipAddress'' (fr_ipAddress p) @ opt_field ''correlationId'' (fr_correlationId p))"

definition folder_delete_json :: "folder_delete_payload \<Rightarrow> json" where
  "folder_delete_json p = JObj ([(''actor'', actor_json (fd_actor p)), (''bucket'', JStr (fd_bucket p)),
     (''key'', JStr (fd_key p))]
     @ opt_field ''ipAddress'' (fd_ipAddress p) @ opt_field ''correlationId'' (fd_correlationId p))"

definition maintenance_json :: "maintenance_payload \<Rightarrow> json" where
  "maintenance_json p = JObj ([(''actor'', actor_json (mp_actor p)),
     (''reason'', JStr (reason_str (mp_reason p)))]
     @ opt_field ''ipAddress'' (mp_ipAddress p) @ opt_field ''correlationId'' (mp_correlationId p))"

definition enqueueFolderRename :: "int \<Rightarrow> folder_rename_payload \<Rightarrow> app \<Rightarrow> job_public \<times> app" where
  "enqueueFolderRename now p =
     enqueue now FOLDER_RENAME (folder_rename_json p) (Some (su_id (fr_actor p))) (fr_correlationId p)"

definition enqueueFolderDelete :: "int \<Rightarrow> folder_delete_payload \<Rightarrow> app \<Rightarrow> job_public \<times> app" where
  "enqueueFolderDelete now p =
     enqueue now FOLDER_DELETE (folder_delete_json p) (Some (su_id (fd_actor p))) (fd_correlationId p)"

definition enqueueBucketSync :: "int \<Rightarrow> maintenance_payload \<Rightarrow> app \<Rightarrow> job_public \<times> app" where
  "enqueueBucketSync now p =
     enqueue now BUCKET_SYNC (maintenance_json p) (Some (su_id (mp_actor p))) (mp_correlationId p)"

definition enqueueUploadCleanup :: "int \<Rightarrow> maintenance_payload \<Rightarrow> app \<Rightarrow> job_public \<times> app" where
  "enqueueUploadCleanup now p =
     enqueue now UPLOAD_CLEANUP (maintenance_json p) (Some (su_id (mp_actor p))) (mp_correlationId p)"

definition enqueueRetentionCleanup :: "int \<Rightarrow> maintenance_payload \<Rightarrow> app \<Rightarrow> job_public \<times> app" where
  "enqueueRetentionCleanup now p =
     enqueue now RETENTION_CLEANUP (maintenance_json p) (Some (su_id (mp_actor p))) (mp_correlationId p)"

section \<open>Visibility\<close>

definition readPayloadBucket :: "json \<Rightarrow> string option" where
  "readPayloadBucket payload =
     (if \<not> is_object payload then None else read_string (jget payload ''bucket''))"

definition loadAdminScopeBucketNames :: "string \<Rightarrow> app \<Rightarrow> string list" where
  "loadAdminScopeBucketNames adminUserId s =
     List.map_filter (\<lambda>sc. map_option b_name (find (\<lambda>b. b_id b = sc_bucketId sc) (buckets s)))
       (filter (\<lambda>sc. sc_adminUserId sc = adminUserId) (scopes s))"

definition canAdminAccessJob :: "string \<Rightarrow> job \<Rightarrow> string list \<Rightarrow> bool" where
  "canAdminAccessJob adminUserId j scopedBuckets =
     (if j_createdByUserId j = Some adminUserId then True
      else (case readPayloadBucket (j_payload j) of
              None \<Rightarrow> False | Some b \<Rightarrow> b \<in> set scopedBuckets))"

definition canView :: "session_user \<Rightarrow> job \<Rightarrow> app \<Rightarrow> bool" where
  "canView actor j s =
     (if su_role actor = SUPER_ADMIN then True
      else if su_role actor = ADMIN
      then canAdminAccessJob (su_id actor) j (loadAdminScopeBucketNames (su_id actor) s)
      else j_createdByUserId j = Some (su_id actor))"

definition canCancel :: "session_user \<Rightarrow> job \<Rightarrow> app \<Rightarrow> bool" where
  "canCancel actor j s =
     (if su_role actor = SUPER_ADMIN then True
      else if su_role actor = ADMIN
      then canAdminAccessJob (su_id actor) j (loadAdminScopeBucketNames (su_id actor) s)
      else j_createdByUserId j = Some (su_id actor))"

datatype list_scope = Mine | All

definition list_jobs :: "session_user \<Rightarrow> int option \<Rightarrow> list_scope option \<Rightarrow> app \<Rightarrow> job_public list" where
  "list_jobs actor limit_in scope_in s =
     (let limit = clamp 1 500 (or_else limit_in 100); scope = or_else scope_in Mine in
      if scope \<noteq> All \<or> su_role actor = USER
      then map toPublic (take_int limit (order_desc j_createdAt
             (filter (\<lambda>j. j_createdByUserId j = Some (su_id actor)) (jobs s))))
      else if su_role actor = SUPER_ADMIN
      then map toPublic (take_int limit (order_desc j_createdAt (jobs s)))
      else let scopedBuckets = loadAdminScopeBucketNames (su_id actor) s;
               items = take_int (min (limit * 5) 2000) (order_desc j_createdAt (jobs s));
               filtered = filter (\<lambda>j. canAdminAccessJob (su_id actor) j scopedBuckets) items
           in map toPublic (take_int limit filtered))"

definition getById :: "session_user \<Rightarrow> string \<Rightarrow> app \<Rightarrow> job_public res" where
  "getById actor jobId s = (case find_job jobId s of
     None \<Rightarrow> Inl (NotFoundException ''Job not found'')
   | Some item \<Rightarrow> if \<not> canView actor item s then Inl (ForbiddenException ''Not allowed to view this job'')
                  else Inr (toPublic item))"

definition listEvents :: "session_user \<Rightarrow> string \<Rightarrow> int \<Rightarrow> app \<Rightarrow> job_event list res" where
  "listEvents actor jobId limit s = (case find_job jobId s of
     None \<Rightarrow> Inl (NotFoundException ''Job not found'')
   | Some item \<Rightarrow> if \<not> canView actor item s then Inl (ForbiddenException ''Not allowed to view this job'')
                  else Inr (take_int (clamp 1 1000 limit)
                    (order_asc e_createdAt (filter (\<lambda>e. e_jobId e = j_id item) (events s)))))"

definition getDetail ::
  "session_user \<Rightarrow> string \<Rightarrow> int \<Rightarrow> app \<Rightarrow> (job_public \<times> job_event list) res" where
  "getDetail actor jobId eventsLimit s = (case find_job jobId s of
     None \<Rightarrow> Inl (NotFoundException ''Job not found'')
   | Some item \<Rightarrow> if \<not> canView actor item s then Inl (ForbiddenException ''Not allowed to view this job'')
                  else Inr (toPublic item, take_int (clamp 1 1000 eventsLimit)
                    (order_asc e_createdAt (filter (\<lambda>e. e_jobId e = j_id item) (events s)))))"

record list_archived_events_input =
  le_limit :: "int option"
  le_offset :: "int option"
  le_jobId :: "string option"
  le_type :: "string option"
  le_level :: "event_level option"
  le_correlationId :: "string option"
  le_search :: "string option"
  le_from :: "string option"
  le_to :: "string option"

definition event_archive_where ::
  "(string \<Rightarrow> int option) \<Rightarrow> list_archived_events_input \<Rightarrow> event_archive_row \<Rightarrow> bool" where
  "event_archive_where parse_date i r \<longleftrightarrow>
     (case le_jobId i of None \<Rightarrow> True | Some x \<Rightarrow> ea_jobId r = x)
     \<and> when_set (le_type i) (contains_ci (ea_type r))
     \<and> (case le_level i of None \<Rightarrow> True | Some l \<Rightarrow> ea_level r = l)
     \<and> when_set (le_correlationId i) (\<lambda>q. ea_correlationId r = Some q)
     \<and> in_dates (parseIsoDate parse_date (le_from i)) (parseIsoDate parse_date (le_to i)) (ea_createdAt r)
     \<and> when_set (le_search i) (\<lambda>q. contains_ci (ea_type r) q \<or> contains_ci (ea_message r) q)"

definition listArchivedEvents ::
  "(string \<Rightarrow> int option) \<Rightarrow> session_user \<Rightarrow> list_archived_events_input \<Rightarrow> app \<Rightarrow> event_archive_row page res" where
  "listArchivedEvents parse_date actor i s =
     (if su_role actor \<noteq> SUPER_ADMIN
      then Inl (ForbiddenException ''Archived job event access is limited to SUPER_ADMIN'')
      else Inr (page_of (le_limit i) (le_offset i)
        (order_created_id_desc ea_createdAt ea_id
           (filter (event_archive_where parse_date i) (eventArchive s)))))"

end
