(* ===== verification/JobQueue.thy ===== *)
theory JobQueue
  imports Jobs
begin

text \<open>
  The life cycle of a job in \<open>apps/api/src/jobs/jobs.service.ts\<close>: cancellation requests, claiming
  under the Redis lock, progress, completion, failure with retry, cancellation. A database update
  by id of a missing row throws (\<open>P2025\<close>), which the model keeps. The events of each operation are
  separate definitions, so that the operations read like the code they model.
\<close>

definition P2025 :: http_error where
  "P2025 = PlainError ''Record to update not found.''"

section \<open>Locks of jobs\<close>

definition job_lock_key :: "app \<Rightarrow> string \<Rightarrow> string" where
  "job_lock_key s jobId = redis_key (REDIS_PREFIX (cfg s)) (''job:lock:'' @ jobId)"

definition release_lock :: "int \<Rightarrow> string \<Rightarrow> string \<Rightarrow> app \<Rightarrow> app" where
  "release_lock now key val s = s\<lparr>redis_st := snd (releaseLock now key val (redis_st s))\<rparr>"

definition releaseJobLock :: "int \<Rightarrow> job \<Rightarrow> app \<Rightarrow> app" where
  "releaseJobLock now j s = (case j_lockKey j of
     None \<Rightarrow> s
   | Some lockKey \<Rightarrow> if lockKey = [] then s else release_lock now (job_lock_key s (j_id j)) lockKey s)"

section \<open>Cancellation requests\<close>

definition status_str :: "job_status \<Rightarrow> string" where
  "status_str st = (case st of QUEUED \<Rightarrow> ''QUEUED'' | RUNNING \<Rightarrow> ''RUNNING'' | COMPLETED \<Rightarrow> ''COMPLETED''
     | FAILED \<Rightarrow> ''FAILED'' | CANCELED \<Rightarrow> ''CANCELED'')"

definition ev_cancel_requested_queued :: "job_status \<Rightarrow> job_event_input" where
  "ev_cancel_requested_queued st =
     ev ''canceled_requested'' ''Cancellation requested while job was queued.'' (Some WARN)
       (JObj [(''statusAtRequest'', JStr (status_str st)), (''immediateCancel'', JBool True)])"

definition ev_canceled_queued :: job_event_input where
  "ev_canceled_queued = ev ''canceled'' ''Job canceled before execution.'' (Some WARN)
     (JObj [(''reason'', JStr ''cancel_requested_queued'')])"

definition ev_cancel_requested_running :: "job_status \<Rightarrow> job_event_input" where
  "ev_cancel_requested_running st =
     ev ''canceled_requested''
       ''Cancellation requested. Cancel is best-effort and observed at worker checkpoints.'' (Some WARN)
       (JObj [(''statusAtRequest'', JStr (status_str st)), (''bestEffort'', JBool True)])"

definition requestCancel :: "int \<Rightarrow> session_user \<Rightarrow> string \<Rightarrow> (app, job_public) eff" where
  "requestCancel now actor jobId = (\<lambda>s.
     case find_job jobId s of
       None \<Rightarrow> (Inl (NotFoundException ''Job not found''), s)
     | Some item \<Rightarrow>
         if \<not> canCancel actor item s
         then (Inl (ForbiddenException ''Not allowed to cancel this job''), s)
         else if j_status item = QUEUED
         then let canceled = item\<lparr>j_status := CANCELED, j_cancelRequestedAt := Some now,
                               j_completedAt := Some now, j_nextRetryAt := None\<rparr>;
                  s1 = update_job (j_id item) (\<lambda>_. canceled) s;
                  s2 = job_event_for now canceled (ev_cancel_requested_queued (j_status item)) s1;
                  s3 = job_event_for now canceled ev_canceled_queued s2;
                  s4 = add_metric (MJob (j_type item) JM_cancel None) s3
              in (Inr (toPublic canceled), releaseJobLock now canceled s4)
         else let updated = item\<lparr>j_cancelRequestedAt := Some now\<rparr>;
                  s1 = update_job (j_id item) (\<lambda>_. updated) s;
                  s2 = job_event_for now updated (ev_cancel_requested_running (j_status item)) s1
              in (Inr (toPublic updated), s2))"

section \<open>Claiming\<close>

definition claimable :: "int \<Rightarrow> int \<Rightarrow> job \<Rightarrow> bool" where
  "claimable staleBefore now j \<longleftrightarrow>
     (j_status j = QUEUED \<and> (case j_nextRetryAt j of None \<Rightarrow> True | Some t \<Rightarrow> t \<le> now))
     \<or> (j_status j = RUNNING \<and> (case j_lockedAt j of None \<Rightarrow> False | Some t \<Rightarrow> t < staleBefore))"

definition claim_candidate :: "int \<Rightarrow> int \<Rightarrow> app \<Rightarrow> job option" where
  "claim_candidate staleBefore now s =
     (case order_asc j_createdAt (filter (claimable staleBefore now) (jobs s)) of
        [] \<Rightarrow> None | j # _ \<Rightarrow> Some j)"

definition claim_lock :: "int \<Rightarrow> string \<Rightarrow> string \<Rightarrow> int \<Rightarrow> app \<Rightarrow> bool \<times> app" where
  "claim_lock now jobId lockToken lockTtlSeconds s =
     (let (got, r) = acquireLock now (job_lock_key s jobId) lockToken lockTtlSeconds (redis_st s)
      in (got, s\<lparr>redis_st := r\<rparr>))"

definition claimed_row :: "int \<Rightarrow> string \<Rightarrow> job \<Rightarrow> job \<Rightarrow> job" where
  "claimed_row now lockToken candidate j =
     j\<lparr>j_status := RUNNING, j_startedAt := Some (or_else (j_startedAt candidate) now),
       j_lockedAt := Some now, j_lockKey := Some lockToken, j_nextRetryAt := None,
       j_attemptCount := j_attemptCount j + 1\<rparr>"

text \<open>The conditional update: its count, and the state after it.\<close>

definition claim_update :: "int \<Rightarrow> int \<Rightarrow> string \<Rightarrow> job \<Rightarrow> app \<Rightarrow> nat \<times> app" where
  "claim_update staleBefore now lockToken candidate s =
     (let P = (\<lambda>j. j_id j = j_id candidate \<and> claimable staleBefore now j)
      in (tb_count P (jobs s), s\<lparr>jobs := tb_update P (claimed_row now lockToken candidate) (jobs s)\<rparr>))"

definition ev_claimed :: "string \<Rightarrow> bool \<Rightarrow> job \<Rightarrow> job_event_input" where
  "ev_claimed workerId reclaimedStaleRun j = ev ''claimed'' ''Job claimed by worker.'' None
     (JObj [(''workerId'', JStr workerId), (''lockKey'', jstr_opt (j_lockKey j)),
        (''reclaimedStaleRun'', JBool reclaimedStaleRun), (''attemptCount'', jint (j_attemptCount j)),
        (''maxAttempts'', jint (j_maxAttempts j))])"

definition ev_reclaimed :: "string \<Rightarrow> int \<Rightarrow> job \<Rightarrow> job_event_input" where
  "ev_reclaimed workerId staleBefore j =
     ev ''reclaimed'' ''Stale running job reclaimed by worker after lock timeout.'' (Some WARN)
     (JObj [(''workerId'', JStr workerId), (''lockKey'', jstr_opt (j_lockKey j)),
        (''attemptCount'', jint (j_attemptCount j)), (''staleBefore'', jint staleBefore)])"

definition ev_retry_started :: "string \<Rightarrow> job \<Rightarrow> job_event_input" where
  "ev_retry_started workerId j = ev ''retry_started'' ''Retry attempt started.'' (Some WARN)
     (JObj [(''workerId'', JStr workerId), (''lockKey'', jstr_opt (j_lockKey j)),
        (''attemptCount'', jint (j_attemptCount j)), (''maxAttempts'', jint (j_maxAttempts j))])"

definition ev_started :: "string \<Rightarrow> job \<Rightarrow> job_event_input" where
  "ev_started workerId j = ev ''started'' ''Job execution started.'' None
     (JObj [(''workerId'', JStr workerId), (''lockKey'', jstr_opt (j_lockKey j)),
        (''attemptCount'', jint (j_attemptCount j))])"

definition claim_events :: "int \<Rightarrow> int \<Rightarrow> string \<Rightarrow> job \<Rightarrow> job \<Rightarrow> app \<Rightarrow> app" where
  "claim_events staleBefore now workerId candidate claimed s0 =
     (let reclaimedStaleRun = (j_status candidate = RUNNING);
          s1 = job_event_for now claimed (ev_claimed workerId reclaimedStaleRun claimed) s0;
          s2 = (if reclaimedStaleRun
                then job_event_for now claimed (ev_reclaimed workerId staleBefore claimed)
                       (add_metric (MJobReclaim (j_type claimed)) s1)
                else s1);
          s3 = (if j_attemptCount claimed > 1
                then job_event_for now claimed (ev_retry_started workerId claimed)
                       (add_metric (MJobRetry (j_type claimed) RM_started) s2)
                else s2)
      in job_event_for now claimed (ev_started workerId claimed) s3)"

text \<open>\<open>t0\<close> is the instant of \<open>Date.now()\<close>, \<open>now\<close> the instant of \<open>new Date()\<close>.\<close>

definition claimNext ::
  "int \<Rightarrow> int \<Rightarrow> string \<Rightarrow> string \<Rightarrow> int \<Rightarrow> app \<Rightarrow> job option \<times> app" where
  "claimNext t0 now uuid workerId lockTtlSeconds s =
     (let staleBefore = t0 - lockTtlSeconds * 1000 in
      case claim_candidate staleBefore now s of
        None \<Rightarrow> (None, s)
      | Some candidate \<Rightarrow>
          let lockToken = workerId @ '':'' @ uuid;
              (lockAcquired, s1) = claim_lock now (j_id candidate) lockToken lockTtlSeconds s
          in if \<not> lockAcquired then (None, s1)
             else let (n, s2) = claim_update staleBefore now lockToken candidate s1
                  in if n = 0
                     then (None, release_lock now (job_lock_key s2 (j_id candidate)) lockToken s2)
                     else (case find_job (j_id candidate) s2 of
                             None \<Rightarrow> (None, s2)
                           | Some claimed \<Rightarrow>
                               (Some claimed, claim_events staleBefore now workerId candidate claimed s2)))"

section \<open>Progress\<close>

record progress_options =
  po_emitEvent :: bool
  po_message :: "string option"
  po_level :: "event_level option"

definition ev_progress :: "progress_options \<Rightarrow> json \<Rightarrow> job_event_input" where
  "ev_progress opts progress =
     ev ''progress_update'' (or_else (po_message opts) ''Job progress updated.'') (po_level opts) progress"

definition markProgress :: "int \<Rightarrow> string \<Rightarrow> json \<Rightarrow> progress_options option \<Rightarrow> (app, unit) eff" where
  "markProgress now jobId progress options = (\<lambda>s.
     case find_job jobId s of
       None \<Rightarrow> (Inl P2025, s)
     | Some j \<Rightarrow>
         let updated = j\<lparr>j_progress := progress\<rparr>;
             s1 = update_job jobId (\<lambda>_. updated) s
         in (Inr (), case options of
                       None \<Rightarrow> s1
                     | Some opts \<Rightarrow> if po_emitEvent opts then job_event_for now updated (ev_progress opts progress) s1
                                 else s1))"

section \<open>Completion, failure, cancellation\<close>

definition duration_seconds :: "int \<Rightarrow> int option \<Rightarrow> rat option" where
  "duration_seconds now startedAt = map_option (\<lambda>t. of_int (now - t) / 1000) startedAt"

definition jdur :: "rat option \<Rightarrow> json" where
  "jdur d = (case d of None \<Rightarrow> JUndef | Some x \<Rightarrow> JNum x)"

definition ev_completed :: "rat option \<Rightarrow> bool \<Rightarrow> job \<Rightarrow> job_event_input" where
  "ev_completed durationSeconds hasResult j = ev ''completed'' ''Job completed.'' None
     (JObj [(''durationSeconds'', jdur durationSeconds), (''hasResult'', JBool hasResult),
        (''attemptCount'', jint (j_attemptCount j)), (''maxAttempts'', jint (j_maxAttempts j))])"

definition markCompleted :: "int \<Rightarrow> string \<Rightarrow> json option \<Rightarrow> app \<Rightarrow> app" where
  "markCompleted now jobId result s = (case find_job jobId s of
     None \<Rightarrow> s
   | Some existing \<Rightarrow>
       let completed = existing\<lparr>j_status := COMPLETED, j_completedAt := Some now, j_nextRetryAt := None,
             j_lastError := None, j_result := or_else result (j_result existing)\<rparr>;
           s1 = update_job jobId (\<lambda>_. completed) s;
           durationSeconds = duration_seconds now (j_startedAt completed);
           s2 = add_metric (MJob (j_type completed) JM_complete durationSeconds) s1;
           s3 = job_event_for now completed (ev_completed durationSeconds (result \<noteq> None) completed) s2
       in releaseJobLock now completed s3)"

definition ev_retry_scheduled :: "job \<Rightarrow> int \<Rightarrow> int \<Rightarrow> string \<Rightarrow> job_event_input" where
  "ev_retry_scheduled j nextRetryAt delaySeconds truncatedError =
     ev ''retry_scheduled'' ''Job failed and retry was scheduled.'' (Some WARN)
     (JObj [(''attemptCount'', jint (j_attemptCount j)), (''maxAttempts'', jint (j_maxAttempts j)),
        (''nextRetryAt'', jint nextRetryAt), (''delaySeconds'', jint delaySeconds),
        (''error'', JStr truncatedError)])"

definition ev_retry_exhausted :: "job \<Rightarrow> string \<Rightarrow> job_event_input" where
  "ev_retry_exhausted j truncatedError =
     ev ''retry_exhausted'' ''Retry attempts exhausted; job marked failed.'' (Some ERROR)
     (JObj [(''attemptCount'', jint (j_attemptCount j)), (''maxAttempts'', jint (j_maxAttempts j)),
        (''error'', JStr truncatedError)])"

definition ev_retry_skipped :: "job \<Rightarrow> job_event_input" where
  "ev_retry_skipped j =
     ev ''retry_skipped_non_retryable'' ''Retry skipped because job type is non-retryable.'' (Some WARN)
     (JObj [(''attemptCount'', jint (j_attemptCount j)), (''maxAttempts'', jint (j_maxAttempts j))])"

definition ev_failed :: "rat option \<Rightarrow> job \<Rightarrow> string \<Rightarrow> job_event_input" where
  "ev_failed durationSeconds j truncatedError = ev ''failed'' ''Job failed.'' (Some ERROR)
     (JObj [(''durationSeconds'', jdur durationSeconds), (''attemptCount'', jint (j_attemptCount j)),
        (''maxAttempts'', jint (j_maxAttempts j)), (''error'', JStr truncatedError)])"

definition retry_row :: "int \<Rightarrow> string \<Rightarrow> job \<Rightarrow> job" where
  "retry_row nextRetryAt truncatedError j =
     j\<lparr>j_status := QUEUED, j_completedAt := None, j_lockKey := None, j_lockedAt := None,
       j_nextRetryAt := Some nextRetryAt, j_lastError := Some truncatedError,
       j_failureSummary := Some truncatedError\<rparr>"

definition failed_row :: "int \<Rightarrow> string \<Rightarrow> job \<Rightarrow> job" where
  "failed_row now truncatedError j =
     j\<lparr>j_status := FAILED, j_completedAt := Some now, j_nextRetryAt := None,
       j_lastError := Some truncatedError, j_failureSummary := Some truncatedError\<rparr>"

definition markFailed :: "int \<Rightarrow> string \<Rightarrow> string \<Rightarrow> app \<Rightarrow> app" where
  "markFailed now jobId error s = (case find_job jobId s of
     None \<Rightarrow> s
   | Some existing \<Rightarrow>
       let truncatedError = take 2000 error;
           shouldRetry = (j_retryable existing \<and> j_attemptCount existing < j_maxAttempts existing)
       in if shouldRetry
          then let delaySeconds = computeBackoffSeconds (cfg s) (j_type existing) (j_attemptCount existing);
                   nextRetryAt = now + delaySeconds * 1000;
                   retryScheduled = retry_row nextRetryAt truncatedError existing;
                   s1 = update_job jobId (\<lambda>_. retryScheduled) s;
                   s2 = add_metric (MJobRetry (j_type existing) RM_scheduled) s1;
                   s3 = job_event_for now retryScheduled
                          (ev_retry_scheduled existing nextRetryAt delaySeconds truncatedError) s2
               in releaseJobLock now existing s3
          else let failed = failed_row now truncatedError existing;
                   s1 = update_job jobId (\<lambda>_. failed) s;
                   durationSeconds = duration_seconds now (j_startedAt failed);
                   s2 = add_metric (MJob (j_type failed) JM_fail durationSeconds) s1;
                   s3 = (if j_retryable failed
                         then job_event_for now failed (ev_retry_exhausted failed truncatedError)
                                (add_metric (MJobRetry (j_type failed) RM_exhausted) s2)
                         else job_event_for now failed (ev_retry_skipped failed)
                                (add_metric (MJobRetry (j_type failed) RM_skipped_non_retryable) s2));
                   s4 = job_event_for now failed (ev_failed durationSeconds failed truncatedError) s3
               in releaseJobLock now existing s4)"

definition ev_canceled :: "rat option \<Rightarrow> job \<Rightarrow> job_event_input" where
  "ev_canceled durationSeconds j =
     ev ''canceled'' ''Job canceled. In-flight S3 calls may have completed before checkpoint cancellation.''
       (Some WARN)
     (JObj [(''durationSeconds'', jdur durationSeconds), (''bestEffort'', JBool True),
        (''attemptCount'', jint (j_attemptCount j)), (''maxAttempts'', jint (j_maxAttempts j))])"

definition markCanceled :: "int \<Rightarrow> string \<Rightarrow> app \<Rightarrow> app" where
  "markCanceled now jobId s = (case find_job jobId s of
     None \<Rightarrow> s
   | Some existing \<Rightarrow>
       let canceled = existing\<lparr>j_status := CANCELED, j_completedAt := Some now,
             j_cancelRequestedAt := Some (or_else (j_cancelRequestedAt existing) now),
             j_nextRetryAt := None\<rparr>;
           s1 = update_job jobId (\<lambda>_. canceled) s;
           durationSeconds = duration_seconds now (j_startedAt canceled);
           s2 = add_metric (MJob (j_type canceled) JM_cancel durationSeconds) s1;
           s3 = job_event_for now canceled (ev_canceled durationSeconds canceled) s2
       in releaseJobLock now existing s3)"

definition isCancelRequested :: "string \<Rightarrow> app \<Rightarrow> bool" where
  "isCancelRequested jobId s = (case find_job jobId s of
     None \<Rightarrow> False | Some j \<Rightarrow> j_cancelRequestedAt j \<noteq> None)"

section \<open>Frames\<close>

text \<open>Events, metrics and locks leave the job table alone.\<close>

lemma event_frame [simp]:
  "jobs (job_event_for n j i s) = jobs s" "cfg (job_event_for n j i s) = cfg s"
  "redis_st (job_event_for n j i s) = redis_st s" "ctx (job_event_for n j i s) = ctx s"
  "users (job_event_for n j i s) = users s" "uploads (job_event_for n j i s) = uploads s"
  "audits (job_event_for n j i s) = audits s" "buckets (job_event_for n j i s) = buckets s"
  "settings (job_event_for n j i s) = settings s" "scopes (job_event_for n j i s) = scopes s"
  "metrics (job_event_for n j i s) = metrics s" "cuid (job_event_for n j i s) = cuid s"
  "cuid_n (job_event_for n j i s) = Suc (cuid_n s)" "roles (job_event_for n j i s) = roles s"
  "auditArchive (job_event_for n j i s) = auditArchive s"
  "eventArchive (job_event_for n j i s) = eventArchive s"
  by (simp_all add: job_event_for_def createEvent_def bump_id_def)

lemma metric_frame [simp]:
  "jobs (add_metric m s) = jobs s" "cfg (add_metric m s) = cfg s"
  "redis_st (add_metric m s) = redis_st s" "events (add_metric m s) = events s"
  "users (add_metric m s) = users s" "uploads (add_metric m s) = uploads s"
  "audits (add_metric m s) = audits s" "buckets (add_metric m s) = buckets s"
  "settings (add_metric m s) = settings s" "scopes (add_metric m s) = scopes s"
  "ctx (add_metric m s) = ctx s" "cuid (add_metric m s) = cuid s" "cuid_n (add_metric m s) = cuid_n s"
  by (simp_all add: add_metric_def)

lemma release_lock_frame [simp]:
  "jobs (release_lock n k v s) = jobs s" "cfg (release_lock n k v s) = cfg s"
  "events (release_lock n k v s) = events s" "settings (release_lock n k v s) = settings s"
  "metrics (release_lock n k v s) = metrics s" "uploads (release_lock n k v s) = uploads s"
  "redis_st (release_lock n k v s) = snd (releaseLock n k v (redis_st s))"
  "cuid (release_lock n k v s) = cuid s" "cuid_n (release_lock n k v s) = cuid_n s"
  "ctx (release_lock n k v s) = ctx s" "audits (release_lock n k v s) = audits s"
  by (simp_all add: release_lock_def)

lemma releaseJobLock_frame [simp]:
  "jobs (releaseJobLock n j s) = jobs s" "cfg (releaseJobLock n j s) = cfg s"
  "events (releaseJobLock n j s) = events s" "settings (releaseJobLock n j s) = settings s"
  "metrics (releaseJobLock n j s) = metrics s" "uploads (releaseJobLock n j s) = uploads s"
  "cuid (releaseJobLock n j s) = cuid s" "cuid_n (releaseJobLock n j s) = cuid_n s"
  "ctx (releaseJobLock n j s) = ctx s" "audits (releaseJobLock n j s) = audits s"
  by (simp_all add: releaseJobLock_def split: option.splits)

lemma update_job_frame [simp]:
  "jobs (update_job i f s) = tb_update (\<lambda>j. j_id j = i) f (jobs s)"
  "cfg (update_job i f s) = cfg s" "redis_st (update_job i f s) = redis_st s"
  "events (update_job i f s) = events s" "settings (update_job i f s) = settings s"
  "metrics (update_job i f s) = metrics s" "uploads (update_job i f s) = uploads s"
  "cuid (update_job i f s) = cuid s" "cuid_n (update_job i f s) = cuid_n s"
  "ctx (update_job i f s) = ctx s" "audits (update_job i f s) = audits s"
  by (simp_all add: update_job_def)

lemma claim_lock_frame [simp]:
  "jobs (snd (claim_lock n i t l s)) = jobs s" "cfg (snd (claim_lock n i t l s)) = cfg s"
  "cuid (snd (claim_lock n i t l s)) = cuid s" "cuid_n (snd (claim_lock n i t l s)) = cuid_n s"
  "redis_st (snd (claim_lock n i t l s)) = snd (acquireLock n (job_lock_key s i) t l (redis_st s))"
  by (simp_all add: claim_lock_def case_prod_beta)

lemma claim_events_frame [simp]:
  "jobs (claim_events sb n w c j s) = jobs s" "cfg (claim_events sb n w c j s) = cfg s"
  "redis_st (claim_events sb n w c j s) = redis_st s" "cuid (claim_events sb n w c j s) = cuid s"
  "cuid_n s \<le> cuid_n (claim_events sb n w c j s)"
  by (simp_all add: claim_events_def Let_def)

lemma find_job_jobs: "jobs s = jobs t \<Longrightarrow> find_job i s = find_job i t"
  by (simp add: find_job_def)

lemma find_job_frame [simp]:
  "find_job i (job_event_for n j e s) = find_job i s" "find_job i (add_metric m s) = find_job i s"
  "find_job i (releaseJobLock n j s) = find_job i s" "find_job i (release_lock n k v s) = find_job i s"
  by (simp_all add: find_job_def)

lemma find_job_id: "find_job i s = Some j \<Longrightarrow> j_id j = i"
  using find_SomeD by (fastforce simp: find_job_def)

lemma find_job_mem: "find_job i s = Some j \<Longrightarrow> j \<in> set (jobs s)"
  using find_SomeD by (fastforce simp: find_job_def)

text \<open>The operations on one job, seen through \<open>find_job\<close>.\<close>

lemma find_update_job_self:
  assumes "find_job i s = Some j" and "j_id j' = i"
  shows "find_job i (update_job i (\<lambda>_. j') s) = Some j'"
proof -
  have "find (\<lambda>q. j_id q = i) (tb_update (\<lambda>q. j_id q = i) (\<lambda>_. j') qs) = Some j'"
    if "find (\<lambda>q. j_id q = i) qs = Some j" for qs
    using that assms(2) by (induction qs) (auto simp: tb_update_def split: if_splits)
  with assms(1) show ?thesis by (simp add: find_job_def)
qed

lemma find_update_job_other:
  assumes "k \<noteq> i" and "j_id j' = i"
  shows "find_job k (update_job i (\<lambda>_. j') s) = find_job k s"
proof -
  have "find (\<lambda>q. j_id q = k) (tb_update (\<lambda>q. j_id q = i) (\<lambda>_. j') qs) = find (\<lambda>q. j_id q = k) qs" for qs
    using assms by (induction qs) (auto simp: tb_update_def)
  then show ?thesis by (simp add: find_job_def)
qed

end
