(* ===== verification/JobProps.thy ===== *)
theory JobProps
  imports JobQueue
begin

text \<open>
  Correctness of the job queue: the well-formedness of job rows as an invariant of every
  reachable state of the queue, whose operations are the steps of a relation.
\<close>

section \<open>Well-formed rows\<close>

definition retryable_type :: "job_type \<Rightarrow> bool" where
  "retryable_type t \<longleftrightarrow> t \<noteq> FOLDER_RENAME \<and> t \<noteq> FOLDER_DELETE"

definition job_wf :: "job \<Rightarrow> bool" where
  "job_wf j \<longleftrightarrow> 0 \<le> j_attemptCount j \<and> 1 \<le> j_maxAttempts j
     \<and> (j_retryable j \<longleftrightarrow> retryable_type (j_type j)) \<and> (\<not> j_retryable j \<longrightarrow> j_maxAttempts j = 1)
     \<and> (case j_status j of
          QUEUED \<Rightarrow> j_completedAt j = None \<and> j_attemptCount j < j_maxAttempts j
        | RUNNING \<Rightarrow> j_completedAt j = None \<and> j_nextRetryAt j = None \<and> j_lockKey j \<noteq> None
                     \<and> j_lockedAt j \<noteq> None \<and> j_startedAt j \<noteq> None \<and> 1 \<le> j_attemptCount j
        | CANCELED \<Rightarrow> j_completedAt j \<noteq> None \<and> j_nextRetryAt j = None \<and> j_cancelRequestedAt j \<noteq> None
        | _ \<Rightarrow> j_completedAt j \<noteq> None \<and> j_nextRetryAt j = None)"

definition jobs_inv :: "app \<Rightarrow> bool" where
  "jobs_inv s \<longleftrightarrow> distinct (map j_id (jobs s)) \<and> (\<forall>j\<in>set (jobs s). job_wf j)
     \<and> (\<forall>j\<in>set (jobs s). \<exists>n<cuid_n s. j_id j = cuid s n) \<and> inj (cuid s) \<and> config_ok (cfg s)"

lemma jobs_inv_find: "jobs_inv s \<Longrightarrow> find_job i s = Some j \<Longrightarrow> job_wf j"
  using find_job_mem by (auto simp: jobs_inv_def)

lemma jobs_inv_same:
  assumes "jobs_inv s" and "jobs t = jobs s" and "cfg t = cfg s" and "cuid t = cuid s"
    and "cuid_n s \<le> cuid_n t"
  shows "jobs_inv t"
  using assms by (auto simp: jobs_inv_def) (meson order_less_le_trans)

lemma jobs_inv_update:
  assumes inv: "jobs_inv s" and upd: "jobs t = tb_update (\<lambda>j. j_id j = i) (\<lambda>_. j') (jobs s)"
    and wf: "job_wf j'" and j_id: "j_id j' = i"
    and same: "cfg t = cfg s" "cuid t = cuid s" "cuid_n s \<le> cuid_n t"
  shows "jobs_inv t"
proof -
  have ids: "map j_id (jobs t) = map j_id (jobs s)"
    unfolding upd using j_id by (intro tb_update_map) simp
  have "\<exists>n<cuid_n t. j_id j = cuid t n" if "j \<in> set (jobs t)" for j
  proof -
    from that have "j_id j \<in> set (map j_id (jobs s))" unfolding ids [symmetric] by simp
    then obtain q where "q \<in> set (jobs s)" "j_id q = j_id j" by auto
    then show ?thesis using inv same by (auto simp: jobs_inv_def) (metis order_less_le_trans)
  qed
  moreover have "\<forall>j\<in>set (jobs t). job_wf j"
    using inv wf by (auto simp: upd set_tb_update jobs_inv_def)
  ultimately show ?thesis using inv ids same by (simp add: jobs_inv_def)
qed

lemma policy_ok:
  "config_ok c \<Longrightarrow> 1 \<le> rp_maxAttempts (getRetryPolicy c t)
     \<and> (rp_retryable (getRetryPolicy c t) \<longleftrightarrow> retryable_type t)
     \<and> (\<not> rp_retryable (getRetryPolicy c t) \<longrightarrow> rp_maxAttempts (getRetryPolicy c t) = 1)"
  by (cases t) (simp_all add: getRetryPolicy_def config_ok_def in_range_def retryable_type_def)

section \<open>The queue as a transition system\<close>

text \<open>One rule per operation of the service that writes; the operands are the callers' choice.\<close>

inductive queue_step :: "app \<Rightarrow> app \<Rightarrow> bool" where
  enqueue: "queue_step s (snd (enqueue now t payload by corr s))"
| cancel: "queue_step s (snd (requestCancel now actor i s))"
| claim: "queue_step s (snd (claimNext t0 now uuid w ttl s))"
| progress: "queue_step s (snd (markProgress now i p opts s))"
| complete: "queue_step s (markCompleted now i result s)"
| fail: "queue_step s (markFailed now i err s)"
| canceled: "queue_step s (markCanceled now i s)"
| event: "queue_step s (recordEvent now i e s)"

inductive queue_reachable :: "config \<Rightarrow> app \<Rightarrow> bool" for c where
  start: "queue_reachable c (init_app\<lparr>cfg := c\<rparr>)"
| step: "queue_reachable c s \<Longrightarrow> queue_step s t \<Longrightarrow> queue_reachable c t"

lemma enqueue_inv: "jobs_inv s \<Longrightarrow> jobs_inv (snd (enqueue now t payload by corr s))"
proof -
  assume inv: "jobs_inv s"
  let ?u = "snd (enqueue now t payload by corr s)"
  obtain j where j: "jobs ?u = jobs s @ [j]" "j_id j = cuid s (cuid_n s)" "job_wf j"
    "cfg ?u = cfg s" "cuid ?u = cuid s" "cuid_n ?u = cuid_n s + 2"
    using policy_ok [of "cfg s" t] inv
    by (simp add: enqueue_def Let_def bump_id_def new_id_def job_wf_def jobs_inv_def)
  have "j_id j \<notin> j_id ` set (jobs s)"
    using inv by (auto simp: jobs_inv_def j(2) inj_eq)
  moreover have "\<exists>n<cuid_n ?u. j_id q = cuid s n" if "q \<in> set (jobs ?u)" for q
  proof (cases "q = j")
    case False
    with that j(1) obtain n where "n < cuid_n s" "j_id q = cuid s n"
      using inv by (auto simp: jobs_inv_def)
    then show ?thesis using j(6) by (intro exI [of _ n]) simp
  qed (use j in \<open>auto intro: exI [of _ "cuid_n s"]\<close>)
  ultimately show ?thesis
    using inv j by (simp add: jobs_inv_def)
qed

lemma cancel_inv: "jobs_inv s \<Longrightarrow> jobs_inv (snd (requestCancel now actor i s))"
proof -
  assume inv: "jobs_inv s"
  show ?thesis
  proof (cases "find_job i s")
    case (Some j)
    have wf: "job_wf j" "j_id j = i" using inv Some by (auto intro: jobs_inv_find find_job_id)
    show ?thesis
      using inv Some wf
      by (auto simp: requestCancel_def Let_def job_wf_def split: job_status.splits
          intro: jobs_inv_update [OF inv])
  qed (use inv in \<open>simp add: requestCancel_def\<close>)
qed

text \<open>Claiming: the candidate is the oldest claimable row, and the update changes that row only.\<close>

lemma claim_candidate_spec:
  assumes "claim_candidate sb now s = Some c"
  shows "c \<in> set (jobs s) \<and> claimable sb now c
    \<and> (\<forall>q\<in>set (jobs s). claimable sb now q \<longrightarrow> j_createdAt c \<le> j_createdAt q)"
proof -
  let ?ord = "order_asc j_createdAt (filter (claimable sb now) (jobs s))"
  obtain rest where ord: "?ord = c # rest"
    using assms by (auto simp: claim_candidate_def split: list.splits)
  have members: "set ?ord = {q \<in> set (jobs s). claimable sb now q}" by (simp add: tbl_simps)
  have "sorted (map j_createdAt ?ord)" by (simp add: order_asc_def)
  then have "\<forall>q\<in>set ?ord. j_createdAt c \<le> j_createdAt q" by (auto simp: ord)
  moreover have "c \<in> set ?ord" by (simp add: ord)
  ultimately show ?thesis unfolding members by simp
qed

lemma claim_candidate_None: "claim_candidate sb now s = None \<longleftrightarrow> (\<forall>q\<in>set (jobs s). \<not> claimable sb now q)"
proof -
  have "order_asc j_createdAt (filter (claimable sb now) (jobs s)) = []
        \<longleftrightarrow> (\<forall>q\<in>set (jobs s). \<not> claimable sb now q)"
    using length_order(1) [of j_createdAt "filter (claimable sb now) (jobs s)"]
    by (auto simp: filter_empty_conv)
  then show ?thesis
    by (cases "order_asc j_createdAt (filter (claimable sb now) (jobs s))")
       (auto simp: claim_candidate_def)
qed

lemma filter_distinct_key:
  "distinct (map g rs) \<Longrightarrow> c \<in> set rs \<Longrightarrow> P c \<Longrightarrow> filter (\<lambda>r. g r = g c \<and> P r) rs = [c]"
proof (induction rs)
  case (Cons r rs)
  show ?case
  proof (cases "r = c")
    case True
    then have "\<forall>q\<in>set rs. g q \<noteq> g c" using Cons.prems(1) by (auto simp: image_iff)
    then have "filter (\<lambda>r. g r = g c \<and> P r) rs = []" by (auto simp: filter_empty_conv)
    with True Cons.prems(3) show ?thesis by simp
  next
    case False
    then have "c \<in> set rs" "g r \<noteq> g c" using Cons.prems by (auto simp: image_iff)
    then show ?thesis using Cons by simp
  qed
qed simp

lemma tb_update_distinct_key:
  assumes "distinct (map g rs)" and "c \<in> set rs" and "P c"
  shows "tb_update (\<lambda>r. g r = g c \<and> P r) f rs = tb_update (\<lambda>r. g r = g c) (\<lambda>_. f c) rs"
  unfolding tb_update_def
proof (rule map_cong [OF refl])
  fix r assume r: "r \<in> set rs"
  show "(if g r = g c \<and> P r then f r else r) = (if g r = g c then f c else r)"
  proof (cases "g r = g c")
    case True
    then have "r = c" using assms(1,2) r by (auto simp: distinct_map inj_on_def)
    then show ?thesis using assms(3) by simp
  qed simp
qed

lemma claim_update_eq:
  assumes "jobs_inv s" and "c \<in> set (jobs s)" and "claimable sb now c"
  shows "claim_update sb now tok c s = (1, update_job (j_id c) (\<lambda>_. claimed_row now tok c c) s)"
  using assms filter_distinct_key [of j_id "jobs s" c "claimable sb now"]
    tb_update_distinct_key [of j_id "jobs s" c "claimable sb now"]
  by (simp add: claim_update_def Let_def tb_count_def update_job_def jobs_inv_def)

lemma claimed_row_simps [simp]:
  "j_id (claimed_row now tok c j) = j_id j" "j_status (claimed_row now tok c j) = RUNNING"
  "j_attemptCount (claimed_row now tok c j) = j_attemptCount j + 1"
  "j_lockKey (claimed_row now tok c j) = Some tok" "j_lockedAt (claimed_row now tok c j) = Some now"
  "j_type (claimed_row now tok c j) = j_type j" "j_maxAttempts (claimed_row now tok c j) = j_maxAttempts j"
  "j_retryable (claimed_row now tok c j) = j_retryable j" "j_createdAt (claimed_row now tok c j) = j_createdAt j"
  by (simp_all add: claimed_row_def)

lemma claimed_row_wf: "job_wf c \<Longrightarrow> claimable sb now c \<Longrightarrow> job_wf (claimed_row now tok c c)"
  by (auto simp: job_wf_def claimable_def claimed_row_def split: job_status.splits option.splits)

lemma find_job_member: "jobs_inv s \<Longrightarrow> c \<in> set (jobs s) \<Longrightarrow> find_job (j_id c) s = Some c"
  using find_distinct_unique [of j_id "jobs s" c] by (simp add: jobs_inv_def find_job_def)

text \<open>What \<open>claimNext\<close> computes, case by case.\<close>

lemma claimNext_eq:
  assumes inv: "jobs_inv s"
  shows "claimNext t0 now uuid w ttl s =
    (case claim_candidate (t0 - ttl * 1000) now s of
       None \<Rightarrow> (None, s)
     | Some c \<Rightarrow>
         let tok = w @ '':'' @ uuid; s1 = snd (claim_lock now (j_id c) tok ttl s);
             cl = claimed_row now tok c c
         in if fst (claim_lock now (j_id c) tok ttl s)
            then (Some cl, claim_events (t0 - ttl * 1000) now w c cl (update_job (j_id c) (\<lambda>_. cl) s1))
            else (None, s1))"
proof (cases "claim_candidate (t0 - ttl * 1000) now s")
  case (Some c)
  let ?sb = "t0 - ttl * 1000"
  let ?s1 = "\<lambda>tok. snd (claim_lock now (j_id c) tok ttl s)"
  note c = claim_candidate_spec [OF Some]
  have inv1: "jobs_inv (?s1 tok)" for tok using inv by (auto intro: jobs_inv_same)
  have upd: "claim_update ?sb now tok c (?s1 tok)
      = (1, update_job (j_id c) (\<lambda>_. claimed_row now tok c c) (?s1 tok))" for tok
    using c by (intro claim_update_eq [OF inv1]) auto
  have found: "find_job (j_id c) (update_job (j_id c) (\<lambda>_. claimed_row now tok c c) (?s1 tok))
      = Some (claimed_row now tok c c)" for tok
    using c by (intro find_update_job_self [OF find_job_member [OF inv1]]) auto
  show ?thesis
    using Some by (simp add: claimNext_def Let_def case_prod_beta upd found)
qed (simp add: claimNext_def)

lemma claim_events_cuid: "cuid_n s \<le> cuid_n (claim_events sb n w c j s)"
  by simp

lemma claim_inv: "jobs_inv s \<Longrightarrow> jobs_inv (snd (claimNext t0 now uuid w ttl s))"
proof -
  assume inv: "jobs_inv s"
  show ?thesis
  proof (cases "claim_candidate (t0 - ttl * 1000) now s")
    case (Some c)
    note c = claim_candidate_spec [OF Some]
    have wf: "job_wf (claimed_row now tok c c)" for tok
      using inv c by (intro claimed_row_wf) (auto simp: jobs_inv_def)
    have claimed: "jobs_inv (claim_events sb now w c cl (update_job (j_id c) (\<lambda>_. claimed_row now tok c c)
        (snd (claim_lock now (j_id c) tok ttl s))))" for sb cl tok
      by (rule jobs_inv_update [OF inv _ wf, where i = "j_id c"])
         (use inv in \<open>auto intro: order_trans [OF _ claim_events_cuid]\<close>)
    show ?thesis
      using Some inv claimed
      by (auto simp: claimNext_eq [OF inv] Let_def intro: jobs_inv_same [OF inv])
  qed (use inv in \<open>simp add: claimNext_def\<close>)
qed

lemma progress_inv: "jobs_inv s \<Longrightarrow> jobs_inv (snd (markProgress now i p opts s))"
proof -
  assume inv: "jobs_inv s"
  show ?thesis
  proof (cases "find_job i s")
    case (Some j)
    have wf: "job_wf (j\<lparr>j_progress := p\<rparr>)" "j_id j = i"
      using jobs_inv_find [OF inv Some] find_job_id [OF Some]
      by (auto simp: job_wf_def split: job_status.splits)
    show ?thesis
      using Some wf(2)
      by (auto simp: markProgress_def Let_def split: option.splits
          intro!: jobs_inv_update [OF inv _ wf(1)])
  qed (use inv in \<open>simp add: markProgress_def\<close>)
qed

lemma completed_inv: "jobs_inv s \<Longrightarrow> jobs_inv (markCompleted now i r s)"
proof -
  assume inv: "jobs_inv s"
  show ?thesis
  proof (cases "find_job i s")
    case (Some j)
    have wf: "job_wf (j\<lparr>j_status := COMPLETED, j_completedAt := Some now, j_nextRetryAt := None,
        j_lastError := None, j_result := or_else r (j_result j)\<rparr>)" "j_id j = i"
      using jobs_inv_find [OF inv Some] find_job_id [OF Some]
      by (auto simp: job_wf_def split: job_status.splits)
    show ?thesis
      using Some wf(2)
      by (auto simp: markCompleted_def Let_def intro!: jobs_inv_update [OF inv _ wf(1)])
  qed (use inv in \<open>simp add: markCompleted_def\<close>)
qed

lemma failed_row_simps [simp]:
  "j_id (failed_row now e j) = j_id j" "j_retryable (failed_row now e j) = j_retryable j"
  "j_id (retry_row t e j) = j_id j" "j_status (failed_row now e j) = FAILED"
  "j_status (retry_row t e j) = QUEUED" "j_attemptCount (retry_row t e j) = j_attemptCount j"
  "j_attemptCount (failed_row now e j) = j_attemptCount j" "j_nextRetryAt (retry_row t e j) = Some t"
  "j_type (retry_row t e j) = j_type j" "j_maxAttempts (retry_row t e j) = j_maxAttempts j"
  "j_retryable (retry_row t e j) = j_retryable j" "j_completedAt (failed_row now e j) = Some now"
  by (simp_all add: failed_row_def retry_row_def)

lemma failed_inv: "jobs_inv s \<Longrightarrow> jobs_inv (markFailed now i e s)"
proof -
  assume inv: "jobs_inv s"
  show ?thesis
  proof (cases "find_job i s")
    case (Some j)
    have j: "job_wf j" "j_id j = i"
      using jobs_inv_find [OF inv Some] find_job_id [OF Some] by auto
    have f: "job_wf (failed_row now (take 2000 e) j)"
      using j(1) by (auto simp: job_wf_def failed_row_def split: job_status.splits)
    have r: "job_wf (retry_row t (take 2000 e) j)" if "j_attemptCount j < j_maxAttempts j" for t
      using j(1) that by (auto simp: job_wf_def retry_row_def split: job_status.splits)
    show ?thesis
    proof (cases "j_retryable j \<and> j_attemptCount j < j_maxAttempts j")
      case True
      then show ?thesis
        using Some j(2) by (auto simp: markFailed_def Let_def intro!: jobs_inv_update [OF inv _ r])
    next
      case False
      then show ?thesis
        using Some j(2) by (auto simp: markFailed_def Let_def intro!: jobs_inv_update [OF inv _ f])
    qed
  qed (use inv in \<open>simp add: markFailed_def\<close>)
qed

lemma canceled_inv: "jobs_inv s \<Longrightarrow> jobs_inv (markCanceled now i s)"
proof -
  assume inv: "jobs_inv s"
  show ?thesis
  proof (cases "find_job i s")
    case (Some j)
    have wf: "job_wf (j\<lparr>j_status := CANCELED, j_completedAt := Some now,
        j_cancelRequestedAt := Some (or_else (j_cancelRequestedAt j) now), j_nextRetryAt := None\<rparr>)"
      "j_id j = i"
      using jobs_inv_find [OF inv Some] find_job_id [OF Some]
      by (auto simp: job_wf_def split: job_status.splits)
    show ?thesis
      using Some wf(2)
      by (auto simp: markCanceled_def Let_def intro!: jobs_inv_update [OF inv _ wf(1)])
  qed (use inv in \<open>simp add: markCanceled_def\<close>)
qed

lemma recordEvent_inv: "jobs_inv s \<Longrightarrow> jobs_inv (recordEvent now i e s)"
  by (auto simp: recordEvent_def split: option.splits intro: jobs_inv_same)

lemma init_jobs_inv: "config_ok c \<Longrightarrow> jobs_inv (init_app\<lparr>cfg := c\<rparr>)"
  by (simp add: jobs_inv_def init_app_def unary_id_inj)

lemma queue_step_inv: "queue_step s t \<Longrightarrow> jobs_inv s \<Longrightarrow> jobs_inv t"
  by (induction rule: queue_step.induct)
     (auto intro: enqueue_inv cancel_inv claim_inv progress_inv completed_inv failed_inv canceled_inv
        recordEvent_inv)

interpretation queue: safe_system "\<lambda>s. \<exists>c. config_ok c \<and> s = init_app\<lparr>cfg := c\<rparr>" queue_step jobs_inv
  by unfold_locales (auto intro: init_jobs_inv queue_step_inv)

lemma queue_reachable_steps: "queue_reachable c s \<Longrightarrow> queue_step\<^sup>*\<^sup>* (init_app\<lparr>cfg := c\<rparr>) s"
  by (induction rule: queue_reachable.induct) (auto intro: rtranclp.rtrancl_into_rtrancl)

lemma reachable_jobs_inv: "queue_reachable c s \<Longrightarrow> config_ok c \<Longrightarrow> jobs_inv s"
  by (rule queue.reached_inv [OF _ queue_reachable_steps]) auto



end
