(* ===== verification/JobSpecs.thy ===== *)
theory JobSpecs
  imports JobProps
begin

text \<open>
  What the queue promises its callers: which job a claim takes and what it leaves, why a second
  worker cannot take the same job while the lock lives, and the retry schedule and where
  it ends.
\<close>

section \<open>Claiming\<close>

lemma claim_Some_cases:
  assumes inv: "jobs_inv s" and claim: "claimNext t0 now uuid w ttl s = (Some j, t)"
  obtains c where "claim_candidate (t0 - ttl * 1000) now s = Some c"
    and "fst (claim_lock now (j_id c) (w @ '':'' @ uuid) ttl s)"
    and "j = claimed_row now (w @ '':'' @ uuid) c c"
    and "jobs t = tb_update (\<lambda>q. j_id q = j_id c) (\<lambda>_. j) (jobs s)"
    and "redis_st t = snd (acquireLock now (job_lock_key s (j_id c)) (w @ '':'' @ uuid) ttl (redis_st s))"
    and "cfg t = cfg s"
  using claim by (auto simp: claimNext_eq [OF inv] Let_def split: option.splits if_splits)

lemma claim_lock_fst: "fst (claim_lock now i tok ttl s) \<longleftrightarrow> lock_holder (redis_st s) (job_lock_key s i) now = None"
  by (simp add: claim_lock_def case_prod_beta lk.acquire_fst)

lemma find_job_update_jobs:
  assumes "jobs t = tb_update (\<lambda>q. j_id q = i) (\<lambda>_. j) (jobs s)" and "j_id j = i"
    and "find_job i s = Some c"
  shows "find_job i t = Some j \<and> (\<forall>k. k \<noteq> i \<longrightarrow> find_job k t = find_job k s)"
proof -
  have "find_job k t = find_job k (update_job i (\<lambda>_. j) s)" for k
    by (rule find_job_jobs) (simp add: assms(1))
  then show ?thesis
    using find_update_job_self [OF assms(3,2)] find_update_job_other [OF _ assms(2)] by simp
qed

lemma claim_takes_single:
  assumes inv: "jobs_inv s" and claim: "claimNext t0 now uuid w ttl s = (Some j, t)"
  shows "find_job (j_id j) t = Some j"
  using inv claim
proof (rule claim_Some_cases)
  fix c assume cand: "claim_candidate (t0 - ttl * 1000) now s = Some c"
    and j: "j = claimed_row now (w @ '':'' @ uuid) c c"
    and upd: "jobs t = tb_update (\<lambda>q. j_id q = j_id c) (\<lambda>_. j) (jobs s)"
  have "find_job (j_id c) s = Some c"
    using claim_candidate_spec [OF cand] inv by (simp add: find_job_member)
  then show ?thesis using find_job_update_jobs [OF upd] by (simp add: j)
qed

text \<open>
  C2. What a successful claim does: it takes the oldest of the claimable jobs, turns that row into
  RUNNING with one attempt more and its first start time kept, leaves every other row as it was,
  and holds the job's Redis lock with the claim's own token for the whole lock time-out.
\<close>

theorem claim_takes_oldest:
  assumes "jobs_inv s" and "0 < ttl" and "claimNext t0 now uuid w ttl s = (Some j, t)"
  shows "\<exists>c\<in>set (jobs s). claimable (t0 - ttl * 1000) now c
     \<and> (\<forall>q\<in>set (jobs s). claimable (t0 - ttl * 1000) now q \<longrightarrow> j_createdAt c \<le> j_createdAt q)
     \<and> j = claimed_row now (w @ '':'' @ uuid) c c \<and> find_job (j_id c) t = Some j
     \<and> (\<forall>k. k \<noteq> j_id c \<longrightarrow> find_job k t = find_job k s)
     \<and> (\<forall>u. now \<le> u \<and> u < now + ttl * 1000 \<longrightarrow>
          lock_holder (redis_st t) (job_lock_key t (j_id c)) u = Some (w @ '':'' @ uuid))"
proof -
  obtain c where cand: "claim_candidate (t0 - ttl * 1000) now s = Some c"
    and got: "fst (claim_lock now (j_id c) (w @ '':'' @ uuid) ttl s)"
    and j: "j = claimed_row now (w @ '':'' @ uuid) c c"
    and upd: "jobs t = tb_update (\<lambda>q. j_id q = j_id c) (\<lambda>_. j) (jobs s)"
    and red: "redis_st t = snd (acquireLock now (job_lock_key s (j_id c)) (w @ '':'' @ uuid) ttl (redis_st s))"
    and cf: "cfg t = cfg s"
    using assms(1,3) by (rule claim_Some_cases)
  note c = claim_candidate_spec [OF cand]
  have rows: "find_job (j_id c) t = Some j \<and> (\<forall>k. k \<noteq> j_id c \<longrightarrow> find_job k t = find_job k s)"
    by (rule find_job_update_jobs [OF upd]) (use c assms(1) find_job_member in \<open>auto simp: j\<close>)
  have "lock_holder (redis_st t) (job_lock_key t (j_id c)) u = Some (w @ '':'' @ uuid)"
    if "now \<le> u" "u < now + ttl * 1000" for u
    using that got cf by (simp add: red job_lock_key_def claim_lock_fst lk.acquire_holder)
  with c rows j show ?thesis by blast
qed

definition one_job_app :: app where
  "one_job_app = snd (enqueue 0 BUCKET_SYNC JNull None None (init_app\<lparr>cfg := default_config\<rparr>))"

lemma one_job_inv: "jobs_inv one_job_app"
  unfolding one_job_app_def
  by (rule enqueue_inv [OF init_jobs_inv [OF default_config_ok]])

lemma one_job_claim:
  "map_option j_attemptCount (fst (claimNext 1000 1000 ''u'' ''w'' 60 one_job_app)) = Some 1"
  by code_simp

theorem claim_takes_oldest_witness:
  "\<exists>j t. claimNext 1000 1000 ''u'' ''w'' 60 one_job_app = (Some j, t)
     \<and> (\<exists>c\<in>set (jobs one_job_app). j_id j = j_id c)"
proof -
  obtain j t where jt: "claimNext 1000 1000 ''u'' ''w'' 60 one_job_app = (Some j, t)"
    using one_job_claim by (cases "claimNext 1000 1000 ''u'' ''w'' 60 one_job_app") auto
  have "(0::int) < 60" by simp
  from claim_takes_oldest [OF one_job_inv this jt] jt show ?thesis by auto
qed

section \<open>Mutual exclusion\<close>

text \<open>
  What anybody may do to the queue while one run of job \<open>i\<close> is in progress: everything but ending
  that run, and claims whose clock reads at most the lock time-out past \<open>t1\<close>, the instant at which
  the run was locked. The list collects the jobs that the claims return.
\<close>

inductive run_trace :: "string \<Rightarrow> int \<Rightarrow> app \<Rightarrow> string list \<Rightarrow> app \<Rightarrow> bool" for i t1 where
  refl: "run_trace i t1 s [] s"
| enqueue: "run_trace i t1 s ps t \<Longrightarrow> run_trace i t1 s ps (snd (enqueue now ty payload by corr t))"
| cancel: "run_trace i t1 s ps t \<Longrightarrow> run_trace i t1 s ps (snd (requestCancel now actor k t))"
| progress: "run_trace i t1 s ps t \<Longrightarrow> run_trace i t1 s ps (snd (markProgress now k p opts t))"
| complete: "run_trace i t1 s ps t \<Longrightarrow> k \<noteq> i \<Longrightarrow> run_trace i t1 s ps (markCompleted now k r t)"
| fail: "run_trace i t1 s ps t \<Longrightarrow> k \<noteq> i \<Longrightarrow> run_trace i t1 s ps (markFailed now k e t)"
| canceled: "run_trace i t1 s ps t \<Longrightarrow> k \<noteq> i \<Longrightarrow> run_trace i t1 s ps (markCanceled now k t)"
| claim_none: "run_trace i t1 s ps t \<Longrightarrow> claimNext t0 now uuid w ttl t = (None, u) \<Longrightarrow> run_trace i t1 s ps u"
| claim: "run_trace i t1 s ps t \<Longrightarrow> t0 \<le> t1 + ttl * 1000 \<Longrightarrow> claimNext t0 now uuid w ttl t = (Some j, u)
    \<Longrightarrow> run_trace i t1 s (ps @ [j_id j]) u"

definition run_live :: "string \<Rightarrow> int \<Rightarrow> app \<Rightarrow> bool" where
  "run_live i t1 s \<longleftrightarrow> (\<exists>j. find_job i s = Some j \<and> j_status j = RUNNING \<and> j_lockedAt j = Some t1)"

lemma run_live_same: "run_live i t1 s \<Longrightarrow> find_job i t = find_job i s \<Longrightarrow> run_live i t1 t"
  by (simp add: run_live_def)

lemma find_append_job: "find_job i s = Some j \<Longrightarrow> jobs t = jobs s @ q \<Longrightarrow> find_job i t = Some j"
  by (auto simp: find_job_def find_append_Some)

lemma run_live_update:
  assumes "run_live i t1 s" and "find_job k s = Some j" and "find_job k t = Some j'"
    and "\<forall>q. q \<noteq> k \<longrightarrow> find_job q t = find_job q s"
    and "k = i \<Longrightarrow> j_status j' = j_status j \<and> j_lockedAt j' = j_lockedAt j"
  shows "run_live i t1 t"
  using assms by (cases "k = i") (auto simp: run_live_def)

lemma run_live_enqueue: "run_live i t1 s \<Longrightarrow> run_live i t1 (snd (enqueue now ty payload by corr s))"
  unfolding run_live_def
  by (elim exE conjE, rule exI, intro conjI, erule find_append_job)
     (auto simp: enqueue_def Let_def bump_id_def)

lemma run_live_cancel: "run_live i t1 s \<Longrightarrow> run_live i t1 (snd (requestCancel now actor k s))"
proof -
  assume live: "run_live i t1 s"
  show ?thesis
  proof (cases "find_job k s")
    case (Some j)
    have "j_id j = k" by (rule find_job_id [OF Some])
    then show ?thesis
      using live Some find_update_job_self [OF Some] find_update_job_other [where i = k and s = s]
      by (cases "k = i") (auto simp: requestCancel_def Let_def run_live_def)
  qed (use live in \<open>simp add: requestCancel_def\<close>)
qed

lemma run_live_progress: "run_live i t1 s \<Longrightarrow> run_live i t1 (snd (markProgress now k p opts s))"
proof -
  assume live: "run_live i t1 s"
  show ?thesis
  proof (cases "find_job k s")
    case (Some j)
    have "j_id j = k" by (rule find_job_id [OF Some])
    then show ?thesis
      using live Some find_update_job_self [OF Some] find_update_job_other [where i = k and s = s]
      by (cases "k = i") (auto simp: markProgress_def Let_def run_live_def split: option.splits)
  qed (use live in \<open>simp add: markProgress_def\<close>)
qed

lemma marks_other:
  "k \<noteq> i \<Longrightarrow> find_job i (markCompleted now k r s) = find_job i s"
  "k \<noteq> i \<Longrightarrow> find_job i (markFailed now k e s) = find_job i s"
  "k \<noteq> i \<Longrightarrow> find_job i (markCanceled now k s) = find_job i s"
  using find_update_job_other [of i k] find_job_id [of k s]
  by (auto simp: markCompleted_def markFailed_def markCanceled_def Let_def split: option.splits)

lemma claim_not_live:
  assumes inv: "jobs_inv s" and live: "run_live i t1 s" and t0: "t0 \<le> t1 + ttl * 1000"
    and claim: "claimNext t0 now uuid w ttl s = (Some j, t)"
  shows "j_id j \<noteq> i \<and> run_live i t1 t"
  using inv claim
proof (rule claim_Some_cases)
  fix c assume cand: "claim_candidate (t0 - ttl * 1000) now s = Some c"
    and j: "j = claimed_row now (w @ '':'' @ uuid) c c"
    and upd: "jobs t = tb_update (\<lambda>q. j_id q = j_id c) (\<lambda>_. j) (jobs s)"
  note c = claim_candidate_spec [OF cand]
  have found: "find_job (j_id c) s = Some c" using c inv by (simp add: find_job_member)
  have "j_id c \<noteq> i"
    using c found live t0 by (auto simp: run_live_def claimable_def)
  then show ?thesis
    using find_job_update_jobs [OF upd _ found] live by (auto simp: j run_live_def)
qed

lemma claim_None_jobs:
  assumes "jobs_inv s" and "claimNext t0 now uuid w ttl s = (None, t)"
  shows "jobs t = jobs s"
  using assms(2) by (auto simp: claimNext_eq [OF assms(1)] Let_def split: option.splits if_splits)

lemma run_trace_inv:
  "run_trace i t1 s ps t \<Longrightarrow> jobs_inv s \<Longrightarrow> run_live i t1 s \<Longrightarrow> jobs_inv t \<and> run_live i t1 t \<and> i \<notin> set ps"
proof (induction rule: run_trace.induct)
  case (claim_none s ps t t0 now uuid w ttl u)
  then have "jobs_inv u" using claim_inv [of t t0 now uuid w ttl] by simp
  with claim_none claim_None_jobs [of t t0 now uuid w ttl u] show ?case
    by (auto intro: run_live_same find_job_jobs)
next
  case (claim s ps t t0 ttl now uuid w j u)
  then have "jobs_inv u" using claim_inv [of t t0 now uuid w ttl] by simp
  with claim claim_not_live [of t i t1 t0 ttl now uuid w j u] show ?case by auto
qed (auto intro: enqueue_inv cancel_inv progress_inv completed_inv failed_inv canceled_inv
      run_live_enqueue run_live_cancel run_live_progress run_live_same marks_other)


definition two_job_app :: app where
  "two_job_app = snd (enqueue 5 UPLOAD_CLEANUP JNull None None one_job_app)"

lemma two_job_inv: "jobs_inv two_job_app"
  unfolding two_job_app_def by (rule enqueue_inv [OF one_job_inv])

lemma two_job_claims:
  "(case claimNext 1000 1000 ''u'' ''w'' 60 two_job_app of
     (None, t) \<Rightarrow> False
   | (Some j, t) \<Rightarrow> (case claimNext 30000 30000 ''v'' ''w2'' 60 t of (None, u) \<Rightarrow> False | (Some j2, u) \<Rightarrow> True))"
  by code_simp


section \<open>Failure and retry\<close>



text \<open>What a failure leaves of the job: queued again later, or failed for good; both release the lock.\<close>

lemma markFailed_find:
  assumes "find_job i s = Some j"
  shows "find_job i (markFailed now i e s) =
    Some (if j_retryable j \<and> j_attemptCount j < j_maxAttempts j
          then retry_row (now + computeBackoffSeconds (cfg s) (j_type j) (j_attemptCount j) * 1000)
                 (take 2000 e) j
          else failed_row now (take 2000 e) j)"
  using find_job_id [OF assms] find_update_job_self [OF assms]
  by (simp add: markFailed_def assms Let_def)

lemma job_lock_key_cfg: "cfg t = cfg s \<Longrightarrow> job_lock_key t i = job_lock_key s i"
  by (simp add: job_lock_key_def)

lemma add_metric_redis: "redis_st (add_metric m s) = redis_st s"
  by simp

lemma markFailed_redis:
  assumes "find_job i s = Some j" and "j_lockKey j = Some tok" and "tok \<noteq> []"
  shows "redis_st (markFailed now i e s) = snd (releaseLock now (job_lock_key s i) tok (redis_st s))"
  using assms find_job_id [OF assms(1)]
  by (auto simp: markFailed_def Let_def releaseJobLock_def job_lock_key_def)

lemma markFailed_cfg: "cfg (markFailed now i e s) = cfg s"
  by (auto simp: markFailed_def Let_def split: option.splits)

text \<open>
  C5. What a failed run leaves: a retryable job with attempts left goes back to QUEUED and cannot
  be claimed before its back-off is over, any other job is FAILED with no retry pending and can
  never be claimed again; the error is cut to 2000 characters, other rows are untouched, and the
  run's own lock is free from the instant of the failure on.
\<close>

theorem failure_schedules_or_ends:
  assumes "find_job i s = Some j" and "j_lockKey j = Some tok" and "tok \<noteq> []"
    and "lock_holder (redis_st s) (job_lock_key s i) now \<in> {None, Some tok}"
  shows "\<exists>j'. find_job i (markFailed now i e s) = Some j'
     \<and> (if j_retryable j \<and> j_attemptCount j < j_maxAttempts j
        then j_status j' = QUEUED \<and> (\<forall>sb u. claimable sb u j' \<longleftrightarrow>
               now + computeBackoffSeconds (cfg s) (j_type j) (j_attemptCount j) * 1000 \<le> u)
        else j_status j' = FAILED \<and> (\<forall>sb u. \<not> claimable sb u j'))
     \<and> j_lastError j' = Some (take 2000 e) \<and> j_attemptCount j' = j_attemptCount j
     \<and> (\<forall>k. k \<noteq> i \<longrightarrow> find_job k (markFailed now i e s) = find_job k s)
     \<and> (\<forall>u\<ge>now. lock_holder (redis_st (markFailed now i e s)) (job_lock_key s i) u = None)"
proof -
  have free: "lock_holder (redis_st (markFailed now i e s)) (job_lock_key s i) u = None" if "now \<le> u" for u
    using assms(4) that
    by (auto simp: markFailed_redis [OF assms(1-3)] lk.release_holder)
       (auto simp: lock_holder_def split: option.splits if_splits)
  show ?thesis
    using free markFailed_find [OF assms(1), of now e] marks_other(2)
    by (auto simp: claimable_def failed_row_def retry_row_def)
qed

definition claimed_app :: app where
  "claimed_app = snd (claimNext 1000 1000 ''u'' ''w'' 60 one_job_app)"

lemma claimed_app_row:
  "map (\<lambda>j. (j_id j, j_lockKey j, j_retryable j, j_attemptCount j, j_maxAttempts j)) (jobs claimed_app)
     = [(unary_id 0, Some ''w:u'', True, 1, 5)]"
  "lock_holder (redis_st claimed_app) (job_lock_key claimed_app (unary_id 0)) 5000 = Some ''w:u''"
  by code_simp+

theorem failure_schedules_or_ends_witness:
  "\<exists>j'. find_job (unary_id 0) (markFailed 5000 (unary_id 0) ''boom'' claimed_app) = Some j'
     \<and> j_status j' = QUEUED"
proof -
  obtain j where row: "jobs claimed_app = [j]" "j_id j = unary_id 0" "j_lockKey j = Some ''w:u''"
    "j_retryable j" "j_attemptCount j < j_maxAttempts j"
    using claimed_app_row(1) by (cases "jobs claimed_app") auto
  have found: "find_job (unary_id 0) claimed_app = Some j" using row by (simp add: find_job_def)
  show ?thesis
    using failure_schedules_or_ends [OF found row(3), of 5000 "''boom''"] claimed_app_row(2) row(4,5)
    by auto
qed

text \<open>A worker whose every run fails: it claims at each instant of the list and reports the failure.\<close>

fun fail_rounds :: "string \<Rightarrow> string \<Rightarrow> int \<Rightarrow> string \<Rightarrow> int list \<Rightarrow> app \<Rightarrow> app" where
  "fail_rounds uuid w ttl err [] s = s"
| "fail_rounds uuid w ttl err (t # ts) s = (case claimNext t t uuid w ttl s of
     (None, s1) \<Rightarrow> fail_rounds uuid w ttl err ts s1
   | (Some j, s1) \<Rightarrow> fail_rounds uuid w ttl err ts (markFailed t (j_id j) err s1))"

text \<open>The polls are at least the longest back-off apart.\<close>

fun spaced :: "int \<Rightarrow> int list \<Rightarrow> bool" where
  "spaced gap (t # u # ts) \<longleftrightarrow> t + gap \<le> u \<and> spaced gap (u # ts)"
| "spaced gap _ \<longleftrightarrow> True"

definition single_queued :: "int \<Rightarrow> app \<Rightarrow> job \<Rightarrow> bool" where
  "single_queued t s j \<longleftrightarrow> jobs_inv s \<and> jobs s = [j] \<and> j_status j = QUEUED \<and> j_retryable j
     \<and> (case j_nextRetryAt j of None \<Rightarrow> True | Some u \<Rightarrow> u \<le> t)
     \<and> (\<forall>u\<ge>t. lock_holder (redis_st s) (job_lock_key s (j_id j)) u = None)"

lemma single_claim:
  assumes "single_queued t s j" and "0 < ttl"
  shows "\<exists>s1. claimNext t t uuid w ttl s = (Some (claimed_row t (w @ '':'' @ uuid) j j), s1)
     \<and> jobs_inv s1 \<and> jobs s1 = [claimed_row t (w @ '':'' @ uuid) j j] \<and> cfg s1 = cfg s
     \<and> lock_holder (redis_st s1) (job_lock_key s1 (j_id j)) t = Some (w @ '':'' @ uuid)"
proof -
  have inv: "jobs_inv s" and row: "jobs s = [j]" and q: "claimable (t - ttl * 1000) t j"
    and free: "lock_holder (redis_st s) (job_lock_key s (j_id j)) t = None"
    using assms(1) by (auto simp: single_queued_def claimable_def)
  have cand: "claim_candidate (t - ttl * 1000) t s = Some j"
    using q by (simp add: claim_candidate_def row order_asc_def)
  obtain s1 where s1: "claimNext t t uuid w ttl s = (Some (claimed_row t (w @ '':'' @ uuid) j j), s1)"
    using cand free by (simp add: claimNext_eq [OF inv] claim_lock_fst Let_def)
  obtain c where "claim_candidate (t - ttl * 1000) t s = Some c"
    and upd: "jobs s1 = tb_update (\<lambda>q. j_id q = j_id c) (\<lambda>_. claimed_row t (w @ '':'' @ uuid) j j) (jobs s)"
    and red: "redis_st s1 = snd (acquireLock t (job_lock_key s (j_id c)) (w @ '':'' @ uuid) ttl (redis_st s))"
    and cf: "cfg s1 = cfg s"
    using inv s1 by (rule claim_Some_cases) blast
  then have c: "c = j" using cand by simp
  have "jobs_inv s1" using claim_inv [OF inv, of t t uuid w ttl] s1 by simp
  then show ?thesis
    using s1 upd cf free assms(2)
    by (simp add: row c tb_update_def red job_lock_key_cfg [OF cf] lk.acquire_holder)
qed

lemma single_fail:
  assumes inv: "jobs_inv s" and row: "jobs s = [j]" and tok: "j_lockKey j = Some tok" "tok \<noteq> []"
    and held: "lock_holder (redis_st s) (job_lock_key s (j_id j)) t = Some tok" and ret: "j_retryable j"
  shows "\<exists>j'. jobs (markFailed t (j_id j) e s) = [j'] \<and> j_attemptCount j' = j_attemptCount j
     \<and> j_maxAttempts j' = j_maxAttempts j
     \<and> (if j_attemptCount j < j_maxAttempts j
        then single_queued (t + JOB_RETRY_MAX_BACKOFF_SECONDS (cfg s) * 1000) (markFailed t (j_id j) e s) j'
        else j_status j' = FAILED)"
proof -
  have found: "find_job (j_id j) s = Some j" by (simp add: find_job_def row)
  have rows: "jobs (markFailed t (j_id j) e s) = [if j_retryable j \<and> j_attemptCount j < j_maxAttempts j
          then retry_row (t + computeBackoffSeconds (cfg s) (j_type j) (j_attemptCount j) * 1000) (take 2000 e) j
          else failed_row t (take 2000 e) j]"
    by (simp add: markFailed_def found Let_def row tb_update_def)
  have free: "lock_holder (redis_st (markFailed t (j_id j) e s))
      (job_lock_key (markFailed t (j_id j) e s) (j_id j)) u = None" if "t \<le> u" for u
    using held that
    by (simp add: markFailed_redis [OF found tok] job_lock_key_cfg [OF markFailed_cfg] lk.release_holder)
  have "computeBackoffSeconds (cfg s) ty n \<le> JOB_RETRY_MAX_BACKOFF_SECONDS (cfg s)" for ty n
    by (simp add: computeBackoffSeconds_def Let_def)
  moreover have "0 \<le> JOB_RETRY_MAX_BACKOFF_SECONDS (cfg s)"
    using inv by (simp add: jobs_inv_def config_ok_def in_range_def)
  ultimately show ?thesis
    using rows free failed_inv [OF inv, of t "j_id j" e] ret
    by (auto simp: single_queued_def failed_row_def retry_row_def)
qed

lemma fail_rounds_single:
  assumes "single_queued t s j" and "0 < ttl" and "length ts < nat (j_maxAttempts j - j_attemptCount j)"
    and "spaced (JOB_RETRY_MAX_BACKOFF_SECONDS (cfg s) * 1000) (t # ts)"
  shows "\<exists>j'. jobs (fail_rounds uuid w ttl e (t # ts) s) = [j']
     \<and> j_attemptCount j' = j_attemptCount j + int (length ts) + 1 \<and> j_maxAttempts j' = j_maxAttempts j
     \<and> j_status j' = (if j_attemptCount j' < j_maxAttempts j' then QUEUED else FAILED)"
  using assms
proof (induction ts arbitrary: t s j)
  case (Cons u ts)
  let ?cl = "claimed_row t (w @ '':'' @ uuid) j j"
  obtain s1 where s1: "claimNext t t uuid w ttl s = (Some ?cl, s1)" "jobs_inv s1" "jobs s1 = [?cl]" "cfg s1 = cfg s"
    "lock_holder (redis_st s1) (job_lock_key s1 (j_id j)) t = Some (w @ '':'' @ uuid)"
    using single_claim [OF Cons.prems(1,2)] by blast
  have lt: "j_attemptCount j + 1 < j_maxAttempts j" using Cons.prems(3) by simp
  obtain j' where j': "jobs (markFailed t (j_id j) e s1) = [j']" "j_attemptCount j' = j_attemptCount j + 1"
    "j_maxAttempts j' = j_maxAttempts j"
    "single_queued (t + JOB_RETRY_MAX_BACKOFF_SECONDS (cfg s) * 1000) (markFailed t (j_id j) e s1) j'"
    using single_fail [OF s1(2,3), of "w @ '':'' @ uuid" t e] s1(4,5) lt Cons.prems(1)
    by (auto simp: single_queued_def)
  have "t + JOB_RETRY_MAX_BACKOFF_SECONDS (cfg s) * 1000 \<le> u" using Cons.prems(4) by simp
  then have "single_queued u (markFailed t (j_id j) e s1) j'"
    using j'(4) by (auto simp: single_queued_def split: option.splits)
  from Cons.IH [OF this Cons.prems(2)] j' s1 Cons.prems(3,4)
  show ?case by (auto simp: markFailed_cfg)
next
  case Nil
  let ?cl = "claimed_row t (w @ '':'' @ uuid) j j"
  obtain s1 where s1: "claimNext t t uuid w ttl s = (Some ?cl, s1)" "jobs_inv s1" "jobs s1 = [?cl]" "cfg s1 = cfg s"
    "lock_holder (redis_st s1) (job_lock_key s1 (j_id j)) t = Some (w @ '':'' @ uuid)"
    using single_claim [OF Nil.prems(1,2)] by blast
  have ret: "j_retryable ?cl" using Nil.prems(1) by (simp add: single_queued_def)
  obtain j' where "jobs (markFailed t (j_id j) e s1) = [j']" "j_attemptCount j' = j_attemptCount j + 1"
    "j_maxAttempts j' = j_maxAttempts j"
    "if j_attemptCount j + 1 < j_maxAttempts j then j_status j' = QUEUED else j_status j' = FAILED"
    using single_fail [OF s1(2,3), of "w @ '':'' @ uuid" t e] s1(4,5) ret
    by (auto simp: single_queued_def split: if_splits)
  then show ?case using s1(1) by auto
qed



end
