(* ===== verification/JobAccess.thy ===== *)
theory JobAccess
  imports JobSpecs
begin

text \<open>
  Who sees and cancels which job (\<open>list\<close>, \<open>getById\<close>, \<open>listEvents\<close>, \<open>getDetail\<close>, \<open>requestCancel\<close>), and two
  behaviours the queue permits: a stale run of a non-retryable job is started again, and ending a
  run is not fenced by the lock token of that run.
\<close>

section \<open>Visibility\<close>

lemma canView_admin:
  "su_role a = ADMIN \<Longrightarrow> canAdminAccessJob (su_id a) j (loadAdminScopeBucketNames (su_id a) s) \<Longrightarrow> canView a j s"
  by (simp add: canView_def)

lemma canView_own: "j_createdByUserId j = Some (su_id a) \<Longrightarrow> canView a j s"
  by (simp add: canView_def canAdminAccessJob_def)

text \<open>Who may see a job: a super admin, its creator, an admin with a scope on the bucket its payload names.\<close>

definition entitled :: "session_user \<Rightarrow> job \<Rightarrow> app \<Rightarrow> bool" where
  "entitled a j s \<longleftrightarrow> su_role a = SUPER_ADMIN \<or> j_createdByUserId j = Some (su_id a)
     \<or> (su_role a = ADMIN \<and> (\<exists>sc\<in>set (scopes s). sc_adminUserId sc = su_id a
          \<and> (\<exists>b. find (\<lambda>b. b_id b = sc_bucketId sc) (buckets s) = Some b \<and> readPayloadBucket (j_payload j) = Some (b_name b))))"

lemma scope_bucket_names: "n \<in> set (loadAdminScopeBucketNames i s) \<longleftrightarrow>
   (\<exists>sc\<in>set (scopes s). sc_adminUserId sc = i \<and> (\<exists>b. find (\<lambda>b. b_id b = sc_bucketId sc) (buckets s) = Some b \<and> n = b_name b))"
  by (auto simp: loadAdminScopeBucketNames_def List.map_filter_def intro!: rev_image_eqI)

lemma canView_entitled: "canView a j s \<longleftrightarrow> entitled a j s"
  by (cases "su_role a"; cases "readPayloadBucket (j_payload j)")
    (auto simp: canView_def canAdminAccessJob_def entitled_def scope_bucket_names)

lemma canCancel_canView: "canCancel a j s \<longleftrightarrow> canView a j s"
  by (simp add: canCancel_def canView_def)

text \<open>The rows a listing is cut from.\<close>

lemma list_jobs_rows:
  "\<exists>js. list_jobs actor lm sc s = map toPublic js \<and> (\<forall>j\<in>set js. j \<in> set (jobs s) \<and> canView actor j s)
     \<and> int (length js) \<le> clamp 1 500 (or_else lm 100)"
proof -
  let ?l = "clamp 1 500 (or_else lm 100)"
  have l: "0 \<le> ?l" using clamp_bounds [of 1 500 "or_else lm 100"] by simp
  have cut: "set (take_int ?l (order_desc j_createdAt rs)) \<subseteq> set rs" for rs
    using set_take_int [of ?l "order_desc j_createdAt rs"] by (simp add: tbl_simps)
  have len: "int (length (take_int ?l rs)) \<le> ?l" for rs :: "job list"
    using l by (rule length_take_int)
  consider (own) "or_else sc Mine \<noteq> All \<or> su_role actor = USER"
    | (super) "or_else sc Mine = All" "su_role actor = SUPER_ADMIN"
    | (admin) "or_else sc Mine = All" "su_role actor = ADMIN"
    by (cases "su_role actor") auto
  then show ?thesis
  proof cases
    case own
    then show ?thesis
      using cut [of "filter (\<lambda>j. j_createdByUserId j = Some (su_id actor)) (jobs s)"] len
      by (intro exI [of _ "take_int ?l (order_desc j_createdAt
            (filter (\<lambda>j. j_createdByUserId j = Some (su_id actor)) (jobs s)))"])
         (auto simp: list_jobs_def Let_def canView_own)
  next
    case super
    then show ?thesis
      using cut [of "jobs s"] len
      by (intro exI [of _ "take_int ?l (order_desc j_createdAt (jobs s))"])
         (auto simp: list_jobs_def Let_def canView_def)
  next
    case admin
    let ?P = "\<lambda>j. canAdminAccessJob (su_id actor) j (loadAdminScopeBucketNames (su_id actor) s)"
    let ?items = "take_int (min (?l * 5) 2000) (order_desc j_createdAt (jobs s))"
    have "set (take_int ?l (filter ?P ?items)) \<subseteq> {j \<in> set (jobs s). ?P j}"
      using set_take_int [of ?l "filter ?P ?items"]
        set_take_int [of "min (?l * 5) 2000" "order_desc j_createdAt (jobs s)"] by (auto simp: tbl_simps)
    with admin len show ?thesis
      by (intro exI [of _ "take_int ?l (filter ?P ?items)"])
         (auto simp: list_jobs_def Let_def intro: canView_admin)
  qed
qed

text \<open>
  C7. Nothing leaks from the listing: every item is the public view of a row the caller is
  entitled to (its own, any for a super admin, one whose payload names a bucket of the admin's scope), at
  most \<open>limit\<close> items (1 to 500) are returned, and \<open>getById\<close>, \<open>listEvents\<close>, \<open>getDetail\<close> and \<open>requestCancel\<close>
  of a row outside that set are refused without a change of the state.
\<close>

theorem job_visibility:
  "(\<exists>js. list_jobs actor lm sc s = map toPublic js \<and> int (length js) \<le> clamp 1 500 (or_else lm 100)
      \<and> set js \<subseteq> {j \<in> set (jobs s). entitled actor j s})
   \<and> (case find_job i s of
        None \<Rightarrow> getById actor i s = Inl (NotFoundException ''Job not found'')
      | Some j \<Rightarrow> if entitled actor j s then getById actor i s = Inr (toPublic j)
          else (\<forall>r. getById actor i s \<noteq> Inr r) \<and> (\<forall>r. listEvents actor i n s \<noteq> Inr r)
             \<and> (\<forall>r. getDetail actor i n s \<noteq> Inr r)
             \<and> requestCancel now actor i s = (Inl (ForbiddenException ''Not allowed to cancel this job''), s))"
  using list_jobs_rows [of actor lm sc s]
  by (auto simp: getById_def listEvents_def getDetail_def requestCancel_def canCancel_canView
      canView_entitled [symmetric] split: option.splits)

section \<open>What is not fenced\<close>

text \<open>
  The stale take-over ignores the retry policy: a RUNNING job whose lock instant is older than
  the lock time-out and whose Redis lock has lapsed is claimed again when it is the only claimable
  job, even when its type is not retryable and its attempts are used up; its attempt counter then
  exceeds \<open>maxAttempts\<close>.
\<close>

theorem stale_run_restarted:
  assumes "jobs_inv s" and "jobs s = [j]" and "j_status j = RUNNING" and "j_lockedAt j = Some t1"
    and "t1 + ttl * 1000 < t0" and "lock_holder (redis_st s) (job_lock_key s (j_id j)) now = None"
    and "j_attemptCount j = j_maxAttempts j"
  shows "\<exists>j' t. claimNext t0 now uuid w ttl s = (Some j', t) \<and> j_id j' = j_id j \<and> j_status j' = RUNNING
     \<and> j_attemptCount j' = j_maxAttempts j' + 1 \<and> j_retryable j' = j_retryable j"
proof -
  have "claimable (t0 - ttl * 1000) now j" using assms(3-5) by (simp add: claimable_def)
  then have "claim_candidate (t0 - ttl * 1000) now s = Some j"
    by (simp add: claim_candidate_def assms(2) order_asc_def)
  then show ?thesis
    using assms(6,7) by (simp add: claimNext_eq [OF assms(1)] claim_lock_fst Let_def)
qed

definition rename_job_app :: app where
  "rename_job_app = snd (claimNext 1000 1000 ''u'' ''w'' 60
     (snd (enqueue 0 FOLDER_RENAME JNull None None (init_app\<lparr>cfg := default_config\<rparr>))))"

lemma rename_job_app_row:
  "map (\<lambda>j. (j_id j, j_status j, j_lockedAt j, j_attemptCount j, j_maxAttempts j, j_retryable j))
     (jobs rename_job_app) = [(unary_id 0, RUNNING, Some 1000, 1, 1, False)]"
  "lock_holder (redis_st rename_job_app) (job_lock_key rename_job_app (unary_id 0)) 62000 = None"
  by code_simp+

theorem stale_run_restarted_witness:
  "\<exists>j t. claimNext 62000 62000 ''v'' ''w2'' 60 rename_job_app = (Some j, t)
     \<and> j_status j = RUNNING \<and> j_attemptCount j = 2 \<and> j_maxAttempts j = 1 \<and> \<not> j_retryable j"
proof -
  have inv: "jobs_inv rename_job_app"
    unfolding rename_job_app_def
    by (rule claim_inv, rule enqueue_inv, rule init_jobs_inv, rule default_config_ok)
  obtain j where row: "jobs rename_job_app = [j]" "j_id j = unary_id 0" "j_status j = RUNNING"
    "j_lockedAt j = Some 1000" "j_attemptCount j = 1" "j_maxAttempts j = 1" "\<not> j_retryable j"
    using rename_job_app_row(1) by (cases "jobs rename_job_app") auto
  obtain j' t where jt: "claimNext 62000 62000 ''v'' ''w2'' 60 rename_job_app = (Some j', t)"
    "j_id j' = j_id j" "j_status j' = RUNNING" "j_attemptCount j' = j_maxAttempts j' + 1" "\<not> j_retryable j'"
    using stale_run_restarted [OF inv row(1,3,4), of 60 62000 62000 "''v''" "''w2''"] row rename_job_app_row(2)
    by auto
  have "jobs_inv t" using claim_inv [OF inv, of 62000 62000 "''v''" "''w2''" 60] jt(1) by simp
  moreover have "find_job (j_id j') t = Some j'"
    using claim_takes_single [OF inv jt(1)] .
  ultimately have "job_wf j'" by (rule jobs_inv_find)
  then have "j_maxAttempts j' = 1" using jt(5) by (simp add: job_wf_def)
  with jt show ?thesis by auto
qed

text \<open>
  Ending a run takes no proof of holding it: \<open>markCompleted\<close> turns any existing row into
  COMPLETED, whatever its status and whichever worker's token the row carries, and frees the lock
  that this token holds; so a worker whose run was taken over completes the new run, unlocks it,
  and overrides a cancellation.
\<close>

theorem completion_unfenced:
  assumes "find_job i s = Some j" and "j_lockKey j = Some tok" and "tok \<noteq> []"
    and "lock_holder (redis_st s) (job_lock_key s i) now = Some tok"
  shows "(\<exists>j'. find_job i (markCompleted now i r s) = Some j' \<and> j_status j' = COMPLETED
            \<and> j_cancelRequestedAt j' = j_cancelRequestedAt j)
     \<and> (\<forall>u\<ge>now. lock_holder (redis_st (markCompleted now i r s)) (job_lock_key s i) u = None)"
proof -
  have i: "j_id j = i" by (rule find_job_id [OF assms(1)])
  have red: "redis_st (markCompleted now i r s) = snd (releaseLock now (job_lock_key s i) tok (redis_st s))"
    using assms(1-3) i by (simp add: markCompleted_def Let_def releaseJobLock_def job_lock_key_def)
  show ?thesis
    using i find_update_job_self [OF assms(1)] assms(1,4)
    by (auto simp: red lk.release_holder) (simp add: markCompleted_def Let_def)
qed

theorem completion_unfenced_witness:
  "\<exists>j'. find_job (unary_id 0) (markCompleted 5000 (unary_id 0) None claimed_app) = Some j' \<and> j_status j' = COMPLETED"
proof -
  obtain j where row: "jobs claimed_app = [j]" "j_id j = unary_id 0" "j_lockKey j = Some ''w:u''"
    using claimed_app_row(1) by (cases "jobs claimed_app") auto
  have found: "find_job (unary_id 0) claimed_app = Some j" using row by (simp add: find_job_def)
  show ?thesis using completion_unfenced [OF found row(3) _ claimed_app_row(2), of None] by auto
qed

end
