(* ===== verification/PathUtils.thy ===== *)
theory PathUtils
  imports Prelude
begin

text \<open>
  \<open>packages/s3/src/utils.ts\<close>, the pure part: keys and prefixes of objects, base names, content
  types from extensions and the preview class of a content type. The concurrent map of the same
  file is in theory \<open>Concurrency\<close>. The lemmas say that normalisation removes leading and doubled
  slashes and nothing else (the path segments stay), that it is idempotent, and that a prefix it
  returns is empty or ends in a slash.
\<close>

abbreviation slash :: char where "slash \<equiv> CHR ''/''"

section \<open>Normalisation\<close>

text \<open>\<open>s.replace(/^\/+/, "")\<close> and \<open>s.replace(/\/+/g, "/")\<close>.\<close>

definition strip_leading :: "string \<Rightarrow> string" where
  "strip_leading s = dropWhile (\<lambda>c. c = slash) s"

fun squash_slashes :: "string \<Rightarrow> string" where
  "squash_slashes (c # d # s) =
     (if c = slash \<and> d = slash then squash_slashes (d # s) else c # squash_slashes (d # s))"
| "squash_slashes s = s"

definition normalizeKey :: "string \<Rightarrow> string" where
  "normalizeKey key = squash_slashes (strip_leading key)"

definition normalizePrefix :: "string \<Rightarrow> string" where
  "normalizePrefix p =
     (if p = [] then []
      else let cleaned = squash_slashes (strip_leading p)
           in if ends_with cleaned [slash] then cleaned else cleaned @ [slash])"

text \<open>\<open>s.split("/")\<close> and \<open>.filter(Boolean)\<close>.\<close>

fun split_slash :: "string \<Rightarrow> string list" where
  "split_slash [] = [[]]"
| "split_slash (c # s) =
     (if c = slash then [] # split_slash s
      else case split_slash s of [] \<Rightarrow> [[c]] | t # ts \<Rightarrow> (c # t) # ts)"

definition segments :: "string \<Rightarrow> string list" where
  "segments s = filter (\<lambda>t. t \<noteq> []) (split_slash s)"

definition baseNameFromKey :: "string \<Rightarrow> string" where
  "baseNameFromKey key =
     (let cleaned = (if ends_with key [slash] then butlast key else key);
          parts = segments cleaned
      in if parts = [] then cleaned else last parts)"

section \<open>Content types\<close>

definition inferContentTypeFromKey :: "string \<Rightarrow> string" where
  "inferContentTypeFromKey key =
     (let lower = to_lower key in
      if ends_with lower ''.pdf'' then ''application/pdf''
      else if ends_with lower ''.json'' then ''application/json''
      else if ends_with lower ''.txt'' \<or> ends_with lower ''.md'' \<or> ends_with lower ''.log''
              \<or> ends_with lower ''.yaml'' \<or> ends_with lower ''.yml'' then ''text/plain''
      else if ends_with lower ''.html'' then ''text/html''
      else if ends_with lower ''.css'' then ''text/css''
      else if ends_with lower ''.js'' \<or> ends_with lower ''.mjs'' \<or> ends_with lower ''.cjs''
              \<or> ends_with lower ''.ts'' then ''text/javascript''
      else if ends_with lower ''.csv'' then ''text/csv''
      else if ends_with lower ''.png'' then ''image/png''
      else if ends_with lower ''.jpg'' \<or> ends_with lower ''.jpeg'' then ''image/jpeg''
      else if ends_with lower ''.gif'' then ''image/gif''
      else if ends_with lower ''.webp'' then ''image/webp''
      else if ends_with lower ''.svg'' then ''image/svg+xml''
      else if ends_with lower ''.mp4'' then ''video/mp4''
      else if ends_with lower ''.webm'' then ''video/webm''
      else if ends_with lower ''.mp3'' then ''audio/mpeg''
      else if ends_with lower ''.wav'' then ''audio/wav''
      else ''application/octet-stream'')"

datatype preview_type = PImage | PVideo | PAudio | PText | PPdf | PDownload

definition inferPreviewType :: "string \<Rightarrow> preview_type" where
  "inferPreviewType contentType =
     (if starts_with contentType ''image/'' then PImage
      else if starts_with contentType ''video/'' then PVideo
      else if starts_with contentType ''audio/'' then PAudio
      else if contentType = ''application/pdf'' then PPdf
      else if starts_with contentType ''text/'' \<or> str_includes contentType ''json''
              \<or> str_includes contentType ''xml'' \<or> str_includes contentType ''javascript'' then PText
      else PDownload)"

section \<open>Lemmas on normalisation\<close>

text \<open>A key is normal when it has no leading slash and no two slashes in a row.\<close>

fun no_double_slash :: "string \<Rightarrow> bool" where
  "no_double_slash (c # d # s) \<longleftrightarrow> \<not> (c = slash \<and> d = slash) \<and> no_double_slash (d # s)"
| "no_double_slash s \<longleftrightarrow> True"

definition normal_key :: "string \<Rightarrow> bool" where
  "normal_key s \<longleftrightarrow> (s = [] \<or> hd s \<noteq> slash) \<and> no_double_slash s"

lemma squash_hd [simp]: "s \<noteq> [] \<Longrightarrow> squash_slashes s \<noteq> [] \<and> hd (squash_slashes s) = hd s"
  by (induction s rule: squash_slashes.induct) auto

lemma squash_Nil_iff [simp]: "squash_slashes s = [] \<longleftrightarrow> s = []"
  by (cases "s = []") auto

lemma no_double_Cons:
  "no_double_slash (c # s) \<longleftrightarrow> (s = [] \<or> \<not> (c = slash \<and> hd s = slash)) \<and> no_double_slash s"
  by (cases s) auto

lemma no_double_squash: "no_double_slash (squash_slashes s)"
proof (induction s rule: squash_slashes.induct)
  case (1 c d s)
  then show ?case
    by (cases "c = slash \<and> d = slash") (auto simp: no_double_Cons)
qed auto

lemma squash_id: "no_double_slash s \<Longrightarrow> squash_slashes s = s"
  by (induction s rule: squash_slashes.induct) auto

lemma strip_leading_hd: "strip_leading s = [] \<or> hd (strip_leading s) \<noteq> slash"
  unfolding strip_leading_def by (induction s) auto

lemma strip_leading_id: "s = [] \<or> hd s \<noteq> slash \<Longrightarrow> strip_leading s = s"
  by (cases s) (auto simp: strip_leading_def)

lemma normal_key_normalizeKey: "normal_key (normalizeKey s)"
  using strip_leading_hd [of s] by (auto simp: normal_key_def normalizeKey_def no_double_squash)

lemma normalizeKey_id: "normal_key s \<Longrightarrow> normalizeKey s = s"
  by (auto simp: normal_key_def normalizeKey_def strip_leading_id squash_id)

lemma normalizeKey_idem [simp]: "normalizeKey (normalizeKey s) = normalizeKey s"
  by (simp add: normalizeKey_id normal_key_normalizeKey)

lemma split_slash_ne [simp]: "split_slash s \<noteq> []"
  by (cases s) (auto split: list.splits)

lemma segments_slash [simp]: "segments (slash # s) = segments s"
  by (simp add: segments_def)

lemma segments_Nil [simp]: "segments [] = []"
  by (simp add: segments_def)

lemma segments_strip: "segments (strip_leading s) = segments s"
  unfolding strip_leading_def by (induction s) (auto simp: segments_def)

lemma split_slash_Cons_slash: "split_slash (slash # s) = [] # split_slash s"
  by simp

lemma split_slash_Cons_hd:
  "c \<noteq> slash \<Longrightarrow> split_slash (c # s) = (c # hd (split_slash s)) # tl (split_slash s)"
  by (cases "split_slash s") auto

text \<open>Squashing keeps the first piece of the split and the non-empty pieces after it.\<close>

lemma squash_split:
  "hd (split_slash (squash_slashes s)) = hd (split_slash s)
   \<and> filter (\<lambda>t. t \<noteq> []) (tl (split_slash (squash_slashes s)))
     = filter (\<lambda>t. t \<noteq> []) (tl (split_slash s))"
proof (induction s rule: squash_slashes.induct)
  case (1 c d s)
  show ?case
  proof (cases "c = slash \<and> d = slash")
    case True
    then show ?thesis using "1.IH"(1) by simp
  next
    case no: False
    let ?r = "squash_slashes (d # s)"
    have IH: "hd (split_slash ?r) = hd (split_slash (d # s))"
      "filter (\<lambda>t. t \<noteq> []) (tl (split_slash ?r)) = filter (\<lambda>t. t \<noteq> []) (tl (split_slash (d # s)))"
      using "1.IH"(2) [OF no] by blast+
    have pieces: "filter (\<lambda>t. t \<noteq> []) (split_slash ?r) = filter (\<lambda>t. t \<noteq> []) (split_slash (d # s))"
      using IH by (cases "split_slash ?r"; cases "split_slash (d # s)") (auto simp del: split_slash.simps)
    from no have sq: "squash_slashes (c # d # s) = c # ?r" by simp
    show ?thesis
    proof (cases "c = slash")
      case True
      show ?thesis unfolding sq unfolding True using pieces
        by (simp only: split_slash_Cons_slash list.sel simp_thms)
    next
      case False
      then show ?thesis unfolding sq using IH
        by (simp only: split_slash_Cons_hd list.sel simp_thms)
    qed
  qed
qed auto

lemma segments_squash: "segments (squash_slashes s) = segments s"
  using squash_split [of s]
  by (cases "split_slash (squash_slashes s)"; cases "split_slash s") (auto simp: segments_def)

lemma segments_normalizeKey: "segments (normalizeKey s) = segments s"
  by (simp add: normalizeKey_def segments_squash segments_strip)

lemma segments_append_slash: "segments (s @ [slash]) = segments s"
proof -
  have "split_slash (s @ [slash]) = split_slash s @ [[]]"
  proof (induction s)
    case (Cons c s)
    then show ?case by (cases "split_slash s") auto
  qed simp
  then show ?thesis by (simp add: segments_def)
qed

lemma ends_with_slash [js_simps]: "ends_with s [slash] \<longleftrightarrow> s \<noteq> [] \<and> last s = slash"
proof (cases s rule: rev_cases)
  case (snoc ys y)
  then show ?thesis by (auto simp: ends_with_def)
qed (simp add: ends_with_def)

lemma no_double_snoc:
  "no_double_slash (s @ [c]) \<longleftrightarrow> no_double_slash s \<and> (s = [] \<or> \<not> (last s = slash \<and> c = slash))"
proof (induction s)
  case (Cons a s)
  then show ?case by (cases s) (auto simp: no_double_Cons)
qed simp

lemma normalizePrefix_Nil [simp]: "normalizePrefix [] = []"
  by (simp add: normalizePrefix_def)

lemma normalizePrefix_alt:
  "p \<noteq> [] \<Longrightarrow> normalizePrefix p =
     (if ends_with (normalizeKey p) [slash] then normalizeKey p else normalizeKey p @ [slash])"
  by (simp add: normalizePrefix_def normalizeKey_def Let_def)

lemma normalizePrefix_last: "p \<noteq> [] \<Longrightarrow> normalizePrefix p \<noteq> [] \<and> last (normalizePrefix p) = slash"
  by (simp add: normalizePrefix_alt js_simps)

lemma normalizePrefix_no_double: "no_double_slash (normalizePrefix p)"
  using normal_key_normalizeKey [of p]
  by (cases "p = []") (auto simp: normalizePrefix_alt js_simps no_double_snoc normal_key_def)

lemma segments_normalizePrefix: "segments (normalizePrefix p) = segments p"
  by (cases "p = []")
     (auto simp: normalizePrefix_alt segments_append_slash segments_normalizeKey)

text \<open>The one prefix that keeps a leading slash: a path of slashes only becomes \<open>"/"\<close>.\<close>

lemma normalizePrefix_slashes:
  "p \<noteq> [] \<Longrightarrow> strip_leading p = [] \<Longrightarrow> normalizePrefix p = [slash]"
  by (simp add: normalizePrefix_def js_simps)

lemma normalizePrefix_idem: "normalizePrefix (normalizePrefix p) = normalizePrefix p"
proof (cases "normalizeKey p = []")
  case True
  then have strip: "strip_leading p = []" by (simp add: normalizeKey_def)
  have "normalizePrefix [slash] = [slash]"
    by (simp add: normalizePrefix_def strip_leading_def ends_with_def)
  then show ?thesis
    using normalizePrefix_slashes [OF _ strip] by (cases "p = []") simp_all
next
  case False
  let ?k = "normalizeKey p" and ?q = "normalizePrefix p"
  have p: "p \<noteq> []" using False by (auto simp: normalizeKey_def strip_leading_def)
  have q: "?q \<noteq> []" "last ?q = slash" using normalizePrefix_last [OF p] by auto
  have "hd ?q = hd ?k" using False p by (simp add: normalizePrefix_alt)
  moreover have "hd ?k \<noteq> slash"
    using normal_key_normalizeKey [of p] False by (simp add: normal_key_def)
  ultimately have "normal_key ?q"
    using normalizePrefix_no_double [of p] by (simp add: normal_key_def)
  then have "normalizeKey ?q = ?q" by (rule normalizeKey_id)
  with q show ?thesis by (simp add: normalizePrefix_alt js_simps)
qed

end
