(* ===== verification/S3Types.thy ===== *)
theory S3Types
  imports PathUtils
begin

text \<open>
  The S3 commands and responses that \<open>packages/s3/src\<close> uses, and the result types of
  \<open>packages/s3/src/types.ts\<close>. The client \<open>s3.send\<close> and the presigner \<open>getSignedUrl\<close> are not part of
  the repository: they are parameters of the operations, on a world of any type. Fields that the
  service may leave out are options. Strings stand for their UTF-8 bytes, which is what
  \<open>encodeURIComponent\<close> writes out.
\<close>

section \<open>Commands and responses\<close>

datatype s3_cmd =
    ListObjectsV2 string string "string option" "string option" int
  | PutObject string string string
  | DeleteObject string string
  | DeleteObjects string "string option list" bool
  | CopyObject string string string
  | HeadObject string string
  | GetObject string string string string
  | CreateMultipartUpload string string "string option" "(string \<times> string) list option"
  | UploadPart string string string int
  | CompleteMultipartUpload string string string "(int \<times> string) list"
  | AbortMultipartUpload string string string
  | ListBuckets

record s3_object =
  o_Key :: "string option"
  o_Size :: "int option"
  o_LastModified :: "int option"
  o_ETag :: "string option"

record s3_response =
  r_CommonPrefixes :: "string option list"
  r_Contents :: "s3_object list"
  r_NextContinuationToken :: "string option"
  r_IsTruncated :: "bool option"
  r_KeyCount :: "int option"
  r_Deleted :: "string list"
  r_Errors :: "(string option \<times> string option) list"
  r_ContentType :: "string option"
  r_UploadId :: "string option"
  r_ETag :: "string option"

definition empty_response :: s3_response where
  "empty_response = \<lparr>r_CommonPrefixes = [], r_Contents = [], r_NextContinuationToken = None,
     r_IsTruncated = None, r_KeyCount = None, r_Deleted = [], r_Errors = [], r_ContentType = None,
     r_UploadId = None, r_ETag = None\<rparr>"

type_synonym 'w s3_send = "s3_cmd \<Rightarrow> ('w, s3_response) eff"
type_synonym 'w s3_sign = "s3_cmd \<Rightarrow> int \<Rightarrow> ('w, string) eff"

text \<open>\<open>Boolean(value)\<close> of an optional string.\<close>

definition truthy :: "string option \<Rightarrow> bool" where
  "truthy v = (case v of None \<Rightarrow> False | Some s \<Rightarrow> s \<noteq> [])"

lemma truthy_simps [simp]: "\<not> truthy None" "truthy (Some s) \<longleftrightarrow> s \<noteq> []"
  by (simp_all add: truthy_def)

section \<open>URL escapes\<close>

definition hex_digit :: "nat \<Rightarrow> char" where
  "hex_digit n = (if n < 10 then char_of (48 + n) else char_of (55 + n))"

text \<open>The characters \<open>encodeURIComponent\<close> keeps: letters, digits and \<open>- _ . ! ~ * ' ( )\<close>.\<close>

definition uri_unreserved :: "char \<Rightarrow> bool" where
  "uri_unreserved c \<longleftrightarrow> (let n = (of_char c :: nat) in
     (48 \<le> n \<and> n \<le> 57) \<or> (65 \<le> n \<and> n \<le> 90) \<or> (97 \<le> n \<and> n \<le> 122)
     \<or> n \<in> {33, 39, 40, 41, 42, 45, 46, 95, 126})"

definition escape_byte :: "char \<Rightarrow> string" where
  "escape_byte c = (let n = (of_char c :: nat) in [CHR ''%'', hex_digit (n div 16), hex_digit (n mod 16)])"

definition encodeURIComponent :: "string \<Rightarrow> string" where
  "encodeURIComponent s = concat (map (\<lambda>c. if uri_unreserved c then [c] else escape_byte c) s)"

text \<open>\<open>.replace(/%2F/g, "/")\<close>.\<close>

fun unescape_slash :: "string \<Rightarrow> string" where
  "unescape_slash (a # b # c # s) =
     (if [a, b, c] = ''%2F'' then slash # unescape_slash s else a # unescape_slash (b # c # s))"
| "unescape_slash s = s"

definition copy_source :: "string \<Rightarrow> string \<Rightarrow> string" where
  "copy_source bucket key = bucket @ [slash] @ unescape_slash (encodeURIComponent key)"

text \<open>The form encoding of \<open>URLSearchParams\<close>.\<close>

definition form_kept :: "char \<Rightarrow> bool" where
  "form_kept c \<longleftrightarrow> (let n = (of_char c :: nat) in
     (48 \<le> n \<and> n \<le> 57) \<or> (65 \<le> n \<and> n \<le> 90) \<or> (97 \<le> n \<and> n \<le> 122) \<or> n \<in> {42, 45, 46, 95})"

definition form_encode :: "string \<Rightarrow> string" where
  "form_encode s = concat (map (\<lambda>c. if form_kept c then [c] else if c = CHR '' '' then ''+'' else escape_byte c) s)"

section \<open>Result types\<close>

datatype entry =
    FileEntry string string int "int option" "string option" "string option"
  | FolderEntry string string

fun entry_key :: "entry \<Rightarrow> string" where
  "entry_key (FileEntry k n s m e c) = k"
| "entry_key (FolderEntry k n) = k"

fun entry_name :: "entry \<Rightarrow> string" where
  "entry_name (FileEntry k n s m e c) = n"
| "entry_name (FolderEntry k n) = n"

fun is_folder :: "entry \<Rightarrow> bool" where
  "is_folder (FileEntry k n s m e c) \<longleftrightarrow> False"
| "is_folder (FolderEntry k n) \<longleftrightarrow> True"

datatype sort_key = By_name | By_size | By_lastModified | By_type
datatype sort_dir = Asc | Desc

record list_options =
  lo_continuationToken :: "string option"
  lo_recursive :: bool
  lo_pageSize :: "int option"
  lo_sortBy :: "sort_key option"
  lo_sortOrder :: "sort_dir option"

record list_result =
  lf_bucket :: string
  lf_prefix :: string
  lf_entries :: "entry list"
  lf_continuationToken :: "string option"
  lf_isTruncated :: bool

record rename_progress =
  rg_total :: nat
  rg_processed :: nat
  rg_copied :: nat
  rg_deleted :: nat
  rg_failed :: nat
  rg_currentKey :: "string option"

datatype rename_stage = Stage_copy | Stage_delete

record rename_item_error =
  ri_sourceKey :: string
  ri_destinationKey :: string
  ri_stage :: rename_stage
  ri_message :: string

record rename_result =
  rr_bucket :: string
  rr_oldPrefixOrKey :: string
  rr_newPrefixOrKey :: string
  rr_copied :: nat
  rr_deleted :: nat
  rr_failed :: "rename_item_error list"

record delete_result =
  dr_bucket :: string
  dr_deleted :: nat
  dr_failed :: "(string \<times> string) list"

record folder_stats =
  fs_bucket :: string
  fs_prefix :: string
  fs_totalSize :: int
  fs_objectCount :: nat
  fs_folderCount :: nat
  fs_latestModified :: "int option"
  fs_extensionBreakdown :: "(string \<times> (nat \<times> int)) list"

record search_result =
  se_bucket :: string
  se_prefix :: string
  se_term :: string
  se_entries :: "entry list"
  se_continuationToken :: "string option"
  se_scanned :: int

datatype preview_mode = Inline | Download

record preview_result =
  pr_bucket :: string
  pr_key :: string
  pr_url :: string
  pr_mode :: preview_mode
  pr_previewType :: preview_type
  pr_contentType :: string
  pr_expiresIn :: int

record part_spec =
  ps_partNumber :: int
  ps_url :: string
  ps_expiresIn :: int

record init_request =
  mi_bucket :: string
  mi_key :: string
  mi_contentType :: "string option"
  mi_metadata :: "(string \<times> string) list option"

record init_result =
  mr_bucket :: string
  mr_key :: string
  mr_uploadId :: string

record complete_request =
  mc_bucket :: string
  mc_key :: string
  mc_uploadId :: string
  mc_parts :: "(int \<times> string) list"

record complete_result =
  mo_bucket :: string
  mo_key :: string
  mo_uploadId :: string
  mo_eTag :: "string option"

end
