(* ===== verification/Concurrency.thy ===== *)
theory Concurrency
  imports Prelude
begin

text \<open>
  \<open>mapWithConcurrency\<close> of \<open>packages/s3/src/utils.ts\<close>: a pool of workers that share a cursor. An
  asynchronous function is a thread: it has returned, has thrown, or awaits a step on the world of
  which it knows only the continuation. A step of the pool lets one worker run up to its next
  await, so a list of worker numbers is an interleaving of the asynchronous calls, and what holds
  for every such list holds whatever order the calls complete in. \<open>Promise.all\<close> rejects with the
  first error while the other workers go on, which is the field \<open>pl_failure\<close>.
\<close>

section \<open>Threads and the pool\<close>

datatype (dead 'w, dead 'e, 'r) thread =
    Ret 'r
  | Raise 'e
  | Await "'w \<Rightarrow> ('w, 'e, 'r) thread \<times> 'w"

datatype (dead 'w, dead 'e, 'r) worker =
    Idle
  | Busy nat "('w, 'e, 'r) thread"
  | Stopped

record ('w, 'e, 'r) pool =
  pl_cursor :: nat
  pl_workers :: "('w, 'e, 'r) worker list"
  pl_result :: "'r option list"
  pl_failure :: "'e option"

text \<open>\<open>Math.max(1, Math.min(concurrency, input.length || 1))\<close>.\<close>

definition pool_size :: "int \<Rightarrow> nat \<Rightarrow> nat" where
  "pool_size concurrency n = nat (max 1 (min concurrency (if n = 0 then 1 else int n)))"

definition pool_init :: "int \<Rightarrow> 'a option list \<Rightarrow> ('w, 'e, 'r) pool" where
  "pool_init concurrency input =
     \<lparr>pl_cursor = 0, pl_workers = replicate (pool_size concurrency (length input)) Idle,
      pl_result = replicate (length input) None, pl_failure = None\<rparr>"

text \<open>What worker \<open>i\<close> does next; a worker that has stopped does nothing.\<close>

definition pool_step ::
  "'a option list \<Rightarrow> ('a \<Rightarrow> nat \<Rightarrow> ('w, 'e, 'r) thread) \<Rightarrow> nat
    \<Rightarrow> ('w, 'e, 'r) pool \<times> 'w \<Rightarrow> ('w, 'e, 'r) pool \<times> 'w" where
  "pool_step input mapper i pw = (case pw of (p, w) \<Rightarrow>
     if i < length (pl_workers p)
     then (case pl_workers p ! i of
         Idle \<Rightarrow>
           (let index = pl_cursor p; p1 = p\<lparr>pl_cursor := index + 1\<rparr> in
            if index \<ge> length input then (p1\<lparr>pl_workers := (pl_workers p)[i := Stopped]\<rparr>, w)
            else (case input ! index of
                    None \<Rightarrow> (p1, w)
                  | Some item \<Rightarrow> (p1\<lparr>pl_workers := (pl_workers p)[i := Busy index (mapper item index)]\<rparr>, w)))
       | Busy index (Ret r) \<Rightarrow>
           (p\<lparr>pl_result := (pl_result p)[index := Some r], pl_workers := (pl_workers p)[i := Idle]\<rparr>, w)
       | Busy index (Raise e) \<Rightarrow>
           (p\<lparr>pl_failure := (if pl_failure p = None then Some e else pl_failure p),
              pl_workers := (pl_workers p)[i := Stopped]\<rparr>, w)
       | Busy index (Await f) \<Rightarrow>
           (let (t, w1) = f w in (p\<lparr>pl_workers := (pl_workers p)[i := Busy index t]\<rparr>, w1))
       | Stopped \<Rightarrow> (p, w))
     else (p, w))"

fun pool_run ::
  "'a option list \<Rightarrow> ('a \<Rightarrow> nat \<Rightarrow> ('w, 'e, 'r) thread) \<Rightarrow> nat list
    \<Rightarrow> ('w, 'e, 'r) pool \<times> 'w \<Rightarrow> ('w, 'e, 'r) pool \<times> 'w" where
  "pool_run input mapper [] pw = pw"
| "pool_run input mapper (i # is) pw = pool_run input mapper is (pool_step input mapper i pw)"

fun has_stopped :: "('w, 'e, 'r) worker \<Rightarrow> bool" where
  "has_stopped Stopped \<longleftrightarrow> True"
| "has_stopped _ \<longleftrightarrow> False"

definition pool_done :: "('w, 'e, 'r) pool \<Rightarrow> bool" where
  "pool_done p \<longleftrightarrow> (\<forall>wk\<in>set (pl_workers p). has_stopped wk)"

lemma has_stopped_iff: "has_stopped wk \<longleftrightarrow> wk = Stopped"
  by (cases wk) simp_all

lemma pool_done_iff: "pool_done p \<longleftrightarrow> (\<forall>wk\<in>set (pl_workers p). wk = Stopped)"
  by (simp add: pool_done_def has_stopped_iff)

text \<open>The call as a whole under one interleaving: the pool it ends with, and the world.\<close>

definition mapWithConcurrency ::
  "'a option list \<Rightarrow> int \<Rightarrow> ('a \<Rightarrow> nat \<Rightarrow> ('w, 'e, 'r) thread) \<Rightarrow> nat list \<Rightarrow> 'w \<Rightarrow> ('w, 'e, 'r) pool \<times> 'w" where
  "mapWithConcurrency input concurrency mapper sched w =
     pool_run input mapper sched (pool_init concurrency input, w)"

section \<open>Induction over an interleaving\<close>

lemma pool_run_invariant:
  assumes "\<And>i p w. I (p, w) \<Longrightarrow> I (pool_step input mapper i (p, w))" and "I pw"
  shows "I (pool_run input mapper sched pw)"
  using assms(2)
proof (induction sched arbitrary: pw)
  case (Cons i sched)
  then show ?case using assms(1) [of "fst pw" "snd pw" i] by simp
qed simp

text \<open>The four effective moves of a worker.\<close>

lemma pool_step_cases:
  assumes "pool_step input mapper i (p, w) = (q, v)"
  obtains (stutter) "q = p" "v = w"
    | (stop) "i < length (pl_workers p)" "pl_workers p ! i = Idle" "length input \<le> pl_cursor p"
        "q = p\<lparr>pl_cursor := pl_cursor p + 1, pl_workers := (pl_workers p)[i := Stopped]\<rparr>" "v = w"
    | (hole) "i < length (pl_workers p)" "pl_workers p ! i = Idle" "pl_cursor p < length input"
        "input ! pl_cursor p = None" "q = p\<lparr>pl_cursor := pl_cursor p + 1\<rparr>" "v = w"
    | (start) item where "i < length (pl_workers p)" "pl_workers p ! i = Idle" "pl_cursor p < length input"
        "input ! pl_cursor p = Some item"
        "q = p\<lparr>pl_cursor := pl_cursor p + 1,
               pl_workers := (pl_workers p)[i := Busy (pl_cursor p) (mapper item (pl_cursor p))]\<rparr>" "v = w"
    | (ret) index r where "i < length (pl_workers p)" "pl_workers p ! i = Busy index (Ret r)"
        "q = p\<lparr>pl_result := (pl_result p)[index := Some r], pl_workers := (pl_workers p)[i := Idle]\<rparr>" "v = w"
    | (raise) index e where "i < length (pl_workers p)" "pl_workers p ! i = Busy index (Raise e)"
        "q = p\<lparr>pl_failure := (if pl_failure p = None then Some e else pl_failure p),
               pl_workers := (pl_workers p)[i := Stopped]\<rparr>" "v = w"
    | (await) index f t where "i < length (pl_workers p)" "pl_workers p ! i = Busy index (Await f)"
        "f w = (t, v)" "q = p\<lparr>pl_workers := (pl_workers p)[i := Busy index t]\<rparr>"
  using assms
  by (auto simp: pool_step_def Let_def split: if_splits worker.splits thread.splits option.splits prod.splits)

section \<open>Order, exclusiveness and completeness\<close>

text \<open>The values a thread may return, over all worlds it may be resumed in.\<close>

inductive returns :: "('w, 'e, 'r) thread \<Rightarrow> 'r \<Rightarrow> bool" where
  ret: "returns (Ret r) r"
| await: "f w = (t, v) \<Longrightarrow> returns t r \<Longrightarrow> returns (Await f) r"

inductive_cases returns_AwaitE: "returns (Await f) r"

definition busy_at :: "('w, 'e, 'r) worker list \<Rightarrow> nat \<Rightarrow> nat \<Rightarrow> ('w, 'e, 'r) thread \<Rightarrow> bool" where
  "busy_at ws j i t \<longleftrightarrow> j < length ws \<and> ws ! j = Busy i t"

definition stopped_at :: "('w, 'e, 'r) worker list \<Rightarrow> nat \<Rightarrow> bool" where
  "stopped_at ws j \<longleftrightarrow> j < length ws \<and> ws ! j = Stopped"

lemma busy_at_update [simp]:
  "k < length ws \<Longrightarrow> busy_at (ws[k := wk]) j i t \<longleftrightarrow> (if j = k then wk = Busy i t else busy_at ws j i t)"
  by (auto simp: busy_at_def)

lemma stopped_at_update [simp]:
  "k < length ws \<Longrightarrow> stopped_at (ws[k := wk]) j \<longleftrightarrow> (if j = k then wk = Stopped else stopped_at ws j)"
  by (auto simp: stopped_at_def)

lemma busy_atI: "k < length ws \<Longrightarrow> ws ! k = Busy i t \<Longrightarrow> busy_at ws k i t"
  by (simp add: busy_at_def)

text \<open>No two workers hold the same item; a held item is started and has no result yet.\<close>

definition holds_apart :: "('w, 'e, 'r) pool \<Rightarrow> bool" where
  "holds_apart p \<longleftrightarrow> (\<forall>j k i s t. busy_at (pl_workers p) j i s \<longrightarrow> busy_at (pl_workers p) k i t \<longrightarrow> j = k)"

definition holds_ok ::
  "'a option list \<Rightarrow> ('a \<Rightarrow> nat \<Rightarrow> ('w, 'e, 'r) thread) \<Rightarrow> ('w, 'e, 'r) pool \<Rightarrow> bool" where
  "holds_ok input mapper p \<longleftrightarrow> (\<forall>j i t. busy_at (pl_workers p) j i t \<longrightarrow>
     i < length input \<and> i < pl_cursor p \<and> pl_result p ! i = None
     \<and> (\<exists>x. input ! i = Some x \<and> (\<forall>r. returns t r \<longrightarrow> returns (mapper x i) r)))"

definition results_ok ::
  "'a option list \<Rightarrow> ('a \<Rightarrow> nat \<Rightarrow> ('w, 'e, 'r) thread) \<Rightarrow> ('w, 'e, 'r) pool \<Rightarrow> bool" where
  "results_ok input mapper p \<longleftrightarrow> length (pl_result p) = length input
     \<and> (\<forall>i r. i < length input \<longrightarrow> pl_result p ! i = Some r \<longrightarrow>
          i < pl_cursor p \<and> (\<exists>x. input ! i = Some x \<and> returns (mapper x i) r))"

definition nothing_lost :: "'a option list \<Rightarrow> ('w, 'e, 'r) pool \<Rightarrow> bool" where
  "nothing_lost input p \<longleftrightarrow> (pl_failure p = None \<longrightarrow>
     (\<forall>i. i < length input \<longrightarrow> i < pl_cursor p \<longrightarrow> input ! i \<noteq> None \<longrightarrow> pl_result p ! i = None \<longrightarrow>
        (\<exists>j t. busy_at (pl_workers p) j i t))
     \<and> (\<forall>j. stopped_at (pl_workers p) j \<longrightarrow> length input \<le> pl_cursor p))"

definition pool_ok ::
  "'a option list \<Rightarrow> int \<Rightarrow> ('a \<Rightarrow> nat \<Rightarrow> ('w, 'e, 'r) thread) \<Rightarrow> ('w, 'e, 'r) pool \<Rightarrow> bool" where
  "pool_ok input c mapper p \<longleftrightarrow> length (pl_workers p) = pool_size c (length input) \<and> holds_apart p
     \<and> holds_ok input mapper p \<and> results_ok input mapper p \<and> nothing_lost input p"

lemma pool_ok_init: "pool_ok input c mapper (pool_init c input)"
  by (auto simp: pool_ok_def pool_init_def holds_apart_def holds_ok_def results_ok_def nothing_lost_def
      busy_at_def stopped_at_def)

lemma pool_size_pos: "1 \<le> pool_size c n"
  by (simp add: pool_size_def)


lemma holds_apartD: 
  "holds_apart p \<Longrightarrow> busy_at (pl_workers p) j i s \<Longrightarrow> busy_at (pl_workers p) k i t \<Longrightarrow> j = k"
  unfolding holds_apart_def by blast

lemma holds_okD:
  assumes "holds_ok input mapper p" and "busy_at (pl_workers p) j i t"
  shows "i < length input" and "i < pl_cursor p" and "pl_result p ! i = None"
    and "\<exists>x. input ! i = Some x \<and> (\<forall>r. returns t r \<longrightarrow> returns (mapper x i) r)"
  using assms unfolding holds_ok_def by blast+

lemma holds_apart_step: 
  assumes ok: "pool_ok input c mapper p" and step: "pool_step input mapper i (p, w) = (q, v)"
  shows "holds_apart q"
proof -
  have apart: "holds_apart p" and ho: "holds_ok input mapper p" using ok by (simp_all add: pool_ok_def)
  from step show ?thesis
  proof (cases rule: pool_step_cases)
    case (start item)
    have "\<not> busy_at (pl_workers p) j (pl_cursor p) t" for j t
      using holds_okD(2) [OF ho, of j "pl_cursor p" t] by auto
    then show ?thesis using start apart by (simp add: holds_apart_def) blast
  next
    case (await index f t)
    have i: "busy_at (pl_workers p) i index (Await f)" using await by (simp add: busy_atI)
    have "j = i" if "busy_at (pl_workers p) j index s" for j s
      by (rule holds_apartD [OF apart that i])
    then show ?thesis using await apart by (simp add: holds_apart_def) blast
  qed (use apart in \<open>simp add: holds_apart_def; blast\<close>)+
qed

lemma holds_ok_step: 
  assumes ok: "pool_ok input c mapper p" and step: "pool_step input mapper i (p, w) = (q, v)"
  shows "holds_ok input mapper q"
proof -
  have apart: "holds_apart p" and ho: "holds_ok input mapper p" and res: "results_ok input mapper p" 
    using ok by (simp_all add: pool_ok_def)
  have old: "k < length input \<and> k < Suc (pl_cursor p) \<and> pl_result p ! k = None
     \<and> (\<exists>x. input ! k = Some x \<and> (\<forall>r. returns s r \<longrightarrow> returns (mapper x k) r))"
    if "busy_at (pl_workers p) j k s" for j k s
    using holds_okD [OF ho that] by simp
  from step show ?thesis
  proof (cases rule: pool_step_cases)
    case stutter
    then show ?thesis using ho by simp
  next
    case stop
    then show ?thesis using old by (simp add: holds_ok_def)
  next
    case hole
    then show ?thesis using old by (simp add: holds_ok_def)
  next
    case (start item)
    have "pl_result p ! pl_cursor p = None"
      using res start by (cases "pl_result p ! pl_cursor p") (auto simp: results_ok_def)
    then show ?thesis using start old by (simp add: holds_ok_def)
  next
    case (ret index r)
    have i: "busy_at (pl_workers p) i index (Ret r)" using ret by (simp add: busy_atI)
    have "k \<noteq> index" if "busy_at (pl_workers p) j k s" "j \<noteq> i" for j k s
      using holds_apartD [OF apart that(1)] i that(2) by blast
    then show ?thesis using ret holds_okD [OF ho] by (simp add: holds_ok_def) (metis nth_list_update_neq)
  next
    case (raise index e)
    then show ?thesis using ho by (simp add: holds_ok_def)
  next
    case (await index f t)
    have i: "busy_at (pl_workers p) i index (Await f)" using await by (simp add: busy_atI)
    have "returns t r \<Longrightarrow> returns (Await f) r" for r using await(3) by (auto intro: returns.await)
    then show ?thesis using holds_okD [OF ho i] await ho by (auto simp: holds_ok_def)
  qed
qed

lemma results_ok_step: 
  assumes ok: "pool_ok input c mapper p" and step: "pool_step input mapper i (p, w) = (q, v)"
  shows "results_ok input mapper q"
proof -
  have ho: "holds_ok input mapper p" and res: "results_ok input mapper p" 
    using ok by (simp_all add: pool_ok_def)
  from step show ?thesis
  proof (cases rule: pool_step_cases)
    case (ret index r)
    have i: "busy_at (pl_workers p) i index (Ret r)" using ret by (simp add: busy_atI)
    show ?thesis 
      using holds_okD [OF ho i] ret res returns.ret [of r] by (auto simp: results_ok_def nth_list_update)
  qed (use res in \<open>auto simp: results_ok_def less_Suc_eq\<close>)
qed

lemma nothing_lost_step: 
  assumes ok: "pool_ok input c mapper p" and step: "pool_step input mapper i (p, w) = (q, v)"
  shows "nothing_lost input q"
proof -
  have nl: "nothing_lost input p" using ok by (simp add: pool_ok_def)
  have keep: "\<exists>j t. busy_at ((pl_workers p)[i := wk]) j k t"
    if ex: "\<exists>j t. busy_at (pl_workers p) j k t" and i: "i < length (pl_workers p)"
      and wk: "\<And>t. pl_workers p ! i = Busy k t \<Longrightarrow> \<exists>t'. wk = Busy k t'" for k wk
  proof -
    from ex obtain j t where j: "busy_at (pl_workers p) j k t" by blast
    show ?thesis
    proof (cases "j = i")
      case True
      then obtain t' where "wk = Busy k t'" using j wk by (auto simp: busy_at_def)
      then show ?thesis using i by (intro exI [of _ i] exI [of _ t']) simp
    next
      case False
      then show ?thesis using i j by (intro exI [of _ j] exI [of _ t]) simp
    qed
  qed
  from step show ?thesis
  proof (cases rule: pool_step_cases)
    case stop
    then show ?thesis using nl keep by (auto simp: nothing_lost_def)
  next
    case hole
    then show ?thesis using nl by (auto simp: nothing_lost_def less_Suc_eq)
  next
    case (start item)
    show ?thesis unfolding nothing_lost_def
    proof (intro impI conjI allI)
      fix k assume none: "pl_failure q = None" and k: "k < length input" "k < pl_cursor q" "input ! k \<noteq> None"
        "pl_result q ! k = None"
      show "\<exists>j t. busy_at (pl_workers q) j k t"
      proof (cases "k = pl_cursor p")
        case True
        then show ?thesis using start by (intro exI [of _ i] exI [of _ "mapper item (pl_cursor p)"]) simp
      next
        case False
        then have "\<exists>j t. busy_at (pl_workers p) j k t" 
          using nl none k start by (auto simp: nothing_lost_def less_Suc_eq)
        then show ?thesis using start keep by auto
      qed
    next
      fix j assume "pl_failure q = None" "stopped_at (pl_workers q) j"
      then show "length input \<le> pl_cursor q" 
        using start nl by (auto simp: nothing_lost_def le_Suc_eq split: if_splits)
    qed
  next
    case (ret index r)
    show ?thesis unfolding nothing_lost_def
    proof (intro impI conjI allI)
      fix k assume none: "pl_failure q = None" and k: "k < length input" "k < pl_cursor q" "input ! k \<noteq> None"
        "pl_result q ! k = None"
      have "index < length (pl_result p)" 
        using ok ret holds_okD(1) [of input mapper p i index "Ret r"]
        by (simp add: pool_ok_def results_ok_def busy_atI)
      then have ne: "k \<noteq> index" using ret k(4) by auto
      then have "\<exists>j t. busy_at (pl_workers p) j k t" 
        using nl none k ret by (auto simp: nothing_lost_def)
      then show "\<exists>j t. busy_at (pl_workers q) j k t" using ret keep ne by auto
    qed (use nl ret in \<open>auto simp: nothing_lost_def split: if_splits\<close>)
  next
    case (await index f t)
    then show ?thesis using nl keep by (auto simp: nothing_lost_def split: if_splits)
  qed (use nl in \<open>auto simp: nothing_lost_def\<close>)
qed

lemma pool_ok_step:
  assumes "pool_ok input c mapper p"
  shows "pool_ok input c mapper (fst (pool_step input mapper i (p, w)))"
proof -
  obtain q v where q: "pool_step input mapper i (p, w) = (q, v)" by fastforce
  have "length (pl_workers q) = length (pl_workers p)"
    using q by (cases rule: pool_step_cases) auto
  then show ?thesis
    using assms holds_apart_step [OF assms q] holds_ok_step [OF assms q] results_ok_step [OF assms q]
      nothing_lost_step [OF assms q] q by (simp add: pool_ok_def)
qed


lemma pool_ok_run: "pool_ok input c mapper (fst (mapWithConcurrency input c mapper sched w))"
  unfolding mapWithConcurrency_def
  by (rule pool_run_invariant [where I = "\<lambda>pw. pool_ok input c mapper (fst pw)"])
     (auto intro: pool_ok_step pool_ok_init)

lemma pool_complete:
  assumes p: "pool_ok input c mapper p" "pool_done p" "pl_failure p = None" and i: "i < length input"
  shows "(pl_result p ! i = None) = (input ! i = None)"
proof -
  have "pl_workers p \<noteq> []" using p(1) pool_size_pos [of c "length input"] by (auto simp: pool_ok_def)
  then have "stopped_at (pl_workers p) 0" using p(2) by (simp add: stopped_at_def pool_done_iff)
  then have "i < pl_cursor p" using p(1,3) i by (force simp: pool_ok_def nothing_lost_def)
  moreover have "\<not> busy_at (pl_workers p) j k t" for j k t
    using p(2) unfolding busy_at_def pool_done_iff by (metis nth_mem worker.distinct(5))
  ultimately have "input ! i \<noteq> None \<longrightarrow> pl_result p ! i \<noteq> None"
    using p(1,3) i by (auto simp: pool_ok_def nothing_lost_def)
  moreover have "pl_result p ! i \<noteq> None \<longrightarrow> input ! i \<noteq> None"
    using p(1) i by (auto simp: pool_ok_def results_ok_def)
  ultimately show ?thesis by blast
qed

text \<open>
  C10. \<open>mapWithConcurrency\<close> under every interleaving of its asynchronous calls: there are
  \<open>max 1 (min concurrency n)\<close> workers, no item is ever worked on by two of them or worked on again
  after its result is in, and every result that has been stored sits at its item's index and is one
  the item's own call returns. When all workers have stopped and no call has thrown, exactly the
  defined items of the input have a result.
\<close>

theorem concurrent_map_correct:
  "let p = fst (mapWithConcurrency input c mapper sched w) in
     length (pl_workers p) = nat (max 1 (min c (max 1 (int (length input)))))
     \<and> holds_apart p \<and> holds_ok input mapper p \<and> results_ok input mapper p
     \<and> (if pool_done p \<and> pl_failure p = None
        then list_all (\<lambda>i. (pl_result p ! i = None) = (input ! i = None)) [0..<length input] else True)"
proof -
  have size: "pool_size c (length input) = nat (max 1 (min c (max 1 (int (length input)))))"
    by (cases "input = []") (simp_all add: pool_size_def)
  show ?thesis
    using pool_ok_run [of input c mapper sched w] pool_complete [OF pool_ok_run [of input c mapper sched w]]
    by (simp add: Let_def size pool_ok_def list_all_iff)
qed

section \<open>Termination\<close>

text \<open>A thread that awaits at most \<open>d\<close> times whatever the world answers.\<close>

inductive awaits_le :: "nat \<Rightarrow> ('w, 'e, 'r) thread \<Rightarrow> bool" where
  ret: "awaits_le d (Ret r)"
| raise: "awaits_le d (Raise e)"
| await: "(\<And>w. awaits_le d (fst (f w))) \<Longrightarrow> awaits_le (Suc d) (Await f)"

inductive_cases awaits_le_AwaitE: "awaits_le d (Await f)"

text \<open>How many moves a worker has left in its current item, for threads of at most \<open>d\<close> awaits; the
  least such bound is a ghost of the proofs.\<close>

definition rank :: "('w, 'e, 'r) thread \<Rightarrow> nat" where
  "rank t = (LEAST d. awaits_le d t)"

lemma rank_le: "awaits_le d t \<Longrightarrow> rank t \<le> d"
  unfolding rank_def by (rule Least_le)

lemma rank_awaits: "awaits_le d t \<Longrightarrow> awaits_le (rank t) t"
  unfolding rank_def by (rule LeastI)

lemma rank_step: "awaits_le d (Await f) \<Longrightarrow> rank (fst (f w)) < rank (Await f)"
  by (drule rank_awaits, erule awaits_le_AwaitE) (metis Suc_le_eq less_Suc_eq_le rank_le)

fun worker_work :: "('w, 'e, 'r) worker \<Rightarrow> nat" where
  "worker_work Stopped = 0"
| "worker_work Idle = 1"
| "worker_work (Busy i t) = rank t + 2"

definition pool_work :: "nat \<Rightarrow> nat \<Rightarrow> ('w, 'e, 'r) pool \<Rightarrow> nat" where
  "pool_work d n p = sum_list (map worker_work (pl_workers p)) + (n - pl_cursor p) * (d + 2)"

definition threads_le :: "nat \<Rightarrow> ('w, 'e, 'r) pool \<Rightarrow> bool" where
  "threads_le d p \<longleftrightarrow> (\<forall>i t. Busy i t \<in> set (pl_workers p) \<longrightarrow> awaits_le d t)"

lemma awaits_le_mono: "awaits_le d t \<Longrightarrow> d \<le> e \<Longrightarrow> awaits_le e t"
proof (induction arbitrary: e rule: awaits_le.induct)
  case (await d f)
  then obtain e' where "e = Suc e'" by (cases e) auto
  with await show ?case by (auto intro: awaits_le.await)
qed (auto intro: awaits_le.intros)

lemma threads_le_step:
  assumes le: "threads_le d p" and m: "\<And>x i. awaits_le d (mapper x i)"
  shows "threads_le d (fst (pool_step input mapper i (p, w)))"
proof -
  obtain q v where q: "pool_step input mapper i (p, w) = (q, v)" by fastforce
  then show ?thesis
  proof (cases rule: pool_step_cases)
    case (await index f t)
    then have "Busy index (Await f) \<in> set (pl_workers p)" by (metis nth_mem)
    then have a: "awaits_le d (Await f)" using le by (simp add: threads_le_def)
    have "awaits_le d t"
      using a by (rule awaits_le_AwaitE) (use await(3) in \<open>metis awaits_le_mono fst_conv lessI less_imp_le\<close>)
    then show ?thesis
      using q await le set_update_subset_insert [of "pl_workers p" i "Busy index t"]
      by (auto simp: threads_le_def)
  next
    case (start item)
    then show ?thesis
      using q le m set_update_subset_insert [of "pl_workers p" i "Busy (pl_cursor p) (mapper item (pl_cursor p))"]
      by (auto simp: threads_le_def)
  next
    case (ret index r)
    then show ?thesis
      using q le set_update_subset_insert [of "pl_workers p" i Idle] by (auto simp: threads_le_def)
  next
    case (raise index e)
    then show ?thesis
      using q le set_update_subset_insert [of "pl_workers p" i Stopped] by (auto simp: threads_le_def)
  next
    case stop
    then show ?thesis
      using q le set_update_subset_insert [of "pl_workers p" i Stopped] by (auto simp: threads_le_def)
  qed (use le q in \<open>auto simp: threads_le_def\<close>)
qed

lemma sum_work_update:
  "i < length ws \<Longrightarrow> sum_list (map worker_work (ws[i := wk])) + worker_work (ws ! i)
     = sum_list (map worker_work ws) + worker_work wk"
proof (induction ws arbitrary: i)
  case (Cons x ws)
  then show ?case by (cases i) auto
qed simp

text \<open>A move of a worker that has not stopped uses up work.\<close>

lemma pool_step_work:
  assumes le: "threads_le d p" and m: "\<And>x i. awaits_le d (mapper x i)"
    and live: "i < length (pl_workers p)" "pl_workers p ! i \<noteq> Stopped"
  shows "pool_work d (length input) (fst (pool_step input mapper i (p, w))) < pool_work d (length input) p"
proof -
  let ?n = "length input"
  obtain q v where q: "pool_step input mapper i (p, w) = (q, v)" by fastforce
  have upd: "sum_list (map worker_work ((pl_workers p)[i := wk])) + worker_work (pl_workers p ! i)
      = sum_list (map worker_work (pl_workers p)) + worker_work wk" for wk
    by (rule sum_work_update [OF live(1)])
  have cur: "(?n - Suc (pl_cursor p)) * (d + 2) + (d + 2) = (?n - pl_cursor p) * (d + 2)"
    if "pl_cursor p < ?n"
  proof -
    from that have "?n - pl_cursor p = Suc (?n - Suc (pl_cursor p))" by simp
    then show ?thesis by simp
  qed
  consider (idle) "pl_workers p ! i = Idle" | (ret) k r where "pl_workers p ! i = Busy k (Ret r)"
    | (raise) k e where "pl_workers p ! i = Busy k (Raise e)" | (await) k f where "pl_workers p ! i = Busy k (Await f)"
    using live(2) by (metis worker.exhaust thread.exhaust)
  then show ?thesis
  proof cases
    case idle
    show ?thesis
    proof (cases "pl_cursor p < ?n")
      case True
      note less = cur [OF True]
      show ?thesis
      proof (cases "input ! pl_cursor p")
        case None
        then show ?thesis
          using idle live(1) True less by (simp add: pool_step_def pool_work_def Let_def)
      next
        case (Some item)
        then show ?thesis
          using idle live(1) True less upd [of "Busy (pl_cursor p) (mapper item (pl_cursor p))"]
            rank_le [OF m [of item "pl_cursor p"]]
          by (simp add: pool_step_def pool_work_def Let_def)
      qed
    next
      case False
      then show ?thesis using idle live(1) upd [of Stopped] by (simp add: pool_step_def pool_work_def Let_def)
    qed
  next
    case (ret k r)
    then show ?thesis using live(1) upd [of Idle] by (simp add: pool_step_def pool_work_def)
  next
    case (raise k e)
    then show ?thesis using live(1) upd [of Stopped] by (simp add: pool_step_def pool_work_def)
  next
    case (await k f)
    then have "Busy k (Await f) \<in> set (pl_workers p)" using live(1) by (metis nth_mem)
    then have "awaits_le d (Await f)" using le by (simp add: threads_le_def)
    then have "rank (fst (f w)) < rank (Await f)" by (rule rank_step)
    then show ?thesis
      using await live(1) upd [of "Busy k (fst (f w))"]
      by (simp add: pool_step_def pool_work_def case_prod_beta)
  qed
qed


text \<open>The workers that move when the schedule says so, until every worker has stopped.\<close>

fun effective :: "'a option list \<Rightarrow> ('a \<Rightarrow> nat \<Rightarrow> ('w, 'e, 'r) thread) \<Rightarrow> nat list \<Rightarrow> ('w, 'e, 'r) pool \<times> 'w \<Rightarrow> bool" where
  "effective input mapper [] pw \<longleftrightarrow> True"
| "effective input mapper (i # is) pw \<longleftrightarrow>
     i < length (pl_workers (fst pw)) \<and> pl_workers (fst pw) ! i \<noteq> Stopped
     \<and> effective input mapper is (pool_step input mapper i pw)"

lemma effective_bound:
  assumes m: "\<And>x i. awaits_le d (mapper x i)" and "threads_le d (fst pw)" and "effective input mapper sched pw"
  shows "length sched + pool_work d (length input) (fst (pool_run input mapper sched pw))
    \<le> pool_work d (length input) (fst pw)"
  using assms(2,3)
proof (induction sched arbitrary: pw)
  case (Cons i sched)
  obtain p w where pw: "pw = (p, w)" by (cases pw)
  have "threads_le d (fst (pool_step input mapper i pw))"
    using threads_le_step [OF _ m] Cons.prems(1) by (simp add: pw)
  moreover have "pool_work d (length input) (fst (pool_step input mapper i pw)) < pool_work d (length input) p"
    using pool_step_work [OF _ m, where p = p and i = i and input = input and w = w] Cons.prems by (simp add: pw)
  ultimately show ?case using Cons.IH [of "pool_step input mapper i pw"] Cons.prems(2) by (simp add: pw)
qed simp

lemma pool_moves_bounded:
  assumes "\<And>x i. awaits_le d (mapper x i)" and "effective input mapper sched (pool_init c input, w)"
  shows "length sched \<le> pool_size c (length input) + length input * (d + 2)"
proof -
  have "threads_le d (pool_init c input)" by (auto simp: threads_le_def pool_init_def)
  then show ?thesis
    using add_leD1 [OF effective_bound [where mapper = mapper and pw = "(pool_init c input, w)"
        and d = d, OF assms(1) _ assms(2)]]
    by (simp add: pool_work_def pool_init_def sum_list_replicate)
qed

text \<open>
  \<open>mapWithConcurrency\<close> ends: when each call awaits at most \<open>d\<close> times, no interleaving has more
  than \<open>workers + n * (d + 2)\<close> moves of workers that have not stopped yet, and as long as one has not
  stopped a move is possible; so every way of letting the calls complete reaches the state in which
  all workers have stopped.
\<close>

theorem concurrent_map_terminates:
  assumes "\<And>x i. awaits_le d (mapper x i)" and "effective input mapper sched (pool_init c input, w)"
  shows "length sched \<le> pool_size c (length input) + length input * (d + 2)
    \<and> (let p = fst (mapWithConcurrency input c mapper sched w) in pool_done p
        = (\<nexists>i. effective input mapper [i] (p, snd (mapWithConcurrency input c mapper sched w))))"
  using pool_moves_bounded [OF assms] by (simp add: pool_done_iff Let_def all_set_conv_all_nth)

theorem concurrent_map_terminates_witness:
  "length [0, 1, 0, 1, 0, 1, 0::nat] \<le> pool_size 2 2 + 2 * (1 + 2)"
proof -
  let ?m = "\<lambda>x i. Await (\<lambda>w. (Ret (x + i), Suc w)) :: (nat, nat, nat) thread"
  have m: "awaits_le 1 (?m x i)" for x i
    unfolding One_nat_def by (rule awaits_le.await) (simp add: awaits_le.ret)
  have e: "effective [Some 5, Some 6] ?m [0, 1, 0, 1, 0, 1, 0] (pool_init 2 [Some 5, Some 6], 0)"
    by (simp add: pool_init_def pool_size_def pool_step_def Let_def)
  have "length [0, 1, 0, 1, 0, 1, 0::nat] \<le> pool_size 2 (length [Some (5::nat), Some 6])
      + length [Some (5::nat), Some 6] * (1 + 2)"
    by (rule conjunct1 [OF concurrent_map_terminates [OF m e]])
  then show ?thesis by (simp add: numeral_2_eq_2)
qed

end
