(* ===== verification/S3Files.thy ===== *)
theory S3Files
  imports S3Types Concurrency
begin

text \<open>
  \<open>packages/s3/src/file-service.ts\<close>: listing, folders, deletion, renaming, previews, statistics,
  search and multipart uploads over the S3 client. \<open>send\<close> is \<open>s3.send\<close>, \<open>sign\<close> is \<open>getSignedUrl\<close>, and
  \<open>locale_compare\<close> is \<open>localeCompare\<close>. The page loops take a fuel and give \<open>Diverges\<close> when it runs out,
  because the service decides how many pages it sends; the concurrent rename takes the
  interleaving of its calls. \<open>MultiPartUpload\<close> only hands its arguments to the AWS library and is not
  modelled.
\<close>

section \<open>Pages of keys\<close>

definition listObjectKeys ::
  "'w s3_send \<Rightarrow> string \<Rightarrow> string \<Rightarrow> string option \<Rightarrow> int \<Rightarrow> ('w, s3_object list \<times> string option) eff" where
  "listObjectKeys send bucket prf continuationToken maxKeys =
     bind_eff (send (ListObjectsV2 bucket prf None continuationToken maxKeys))
       (\<lambda>response. ok (r_Contents response, r_NextContinuationToken response))"

text \<open>\<open>if (item.Key) keys.push(item.Key)\<close>.\<close>

definition named_keys :: "s3_object list \<Rightarrow> string list" where
  "named_keys objs = List.map_filter (\<lambda>item. if truthy (o_Key item) then o_Key item else None) objs"

fun listAllObjects ::
  "'w s3_send \<Rightarrow> nat \<Rightarrow> string \<Rightarrow> string \<Rightarrow> string option \<Rightarrow> ('w, s3_object list) eff" where
  "listAllObjects send 0 bucket prf token = throw Diverges"
| "listAllObjects send (Suc fuel) bucket prf token =
     bind_eff (listObjectKeys send bucket prf token 1000) (\<lambda>(objects, next_token).
       if truthy next_token
       then bind_eff (listAllObjects send fuel bucket prf next_token) (\<lambda>rest. ok (objects @ rest))
       else ok objects)"

fun listAllKeys ::
  "'w s3_send \<Rightarrow> nat \<Rightarrow> string \<Rightarrow> string \<Rightarrow> string option \<Rightarrow> ('w, string list) eff" where
  "listAllKeys send 0 bucket prf token = throw Diverges"
| "listAllKeys send (Suc fuel) bucket prf token =
     bind_eff (listObjectKeys send bucket prf token 1000) (\<lambda>(objects, next_token).
       if truthy next_token
       then bind_eff (listAllKeys send fuel bucket prf next_token) (\<lambda>rest. ok (named_keys objects @ rest))
       else ok (named_keys objects))"

section \<open>Listing\<close>

text \<open>A stable sort by a comparator, as \<open>Array.prototype.sort\<close>.\<close>

fun insert_by :: "('a \<Rightarrow> 'a \<Rightarrow> int) \<Rightarrow> 'a \<Rightarrow> 'a list \<Rightarrow> 'a list" where
  "insert_by cmp x [] = [x]"
| "insert_by cmp x (y # ys) = (if cmp x y \<le> 0 then x # y # ys else y # insert_by cmp x ys)"

definition sort_by :: "('a \<Rightarrow> 'a \<Rightarrow> int) \<Rightarrow> 'a list \<Rightarrow> 'a list" where
  "sort_by cmp xs = foldr (insert_by cmp) xs []"

fun entry_size :: "entry \<Rightarrow> int" where
  "entry_size (FileEntry k n s m e c) = s"
| "entry_size (FolderEntry k n) = -1"

fun entry_date :: "entry \<Rightarrow> int" where
  "entry_date (FileEntry k n s m e c) = or_else m 0"
| "entry_date (FolderEntry k n) = 0"

definition compare_entries :: "(string \<Rightarrow> string \<Rightarrow> int) \<Rightarrow> sort_key \<Rightarrow> entry \<Rightarrow> entry \<Rightarrow> int" where
  "compare_entries locale_compare sortBy a b = (case sortBy of
     By_type \<Rightarrow> if is_folder a \<noteq> is_folder b then (if is_folder a then -1 else 1)
                else locale_compare (entry_name a) (entry_name b)
   | By_size \<Rightarrow> entry_size a - entry_size b
   | By_lastModified \<Rightarrow> entry_date a - entry_date b
   | By_name \<Rightarrow> locale_compare (entry_name a) (entry_name b))"

definition folder_entries :: "string option list \<Rightarrow> entry list" where
  "folder_entries ps = List.map_filter (\<lambda>p. case p of
     None \<Rightarrow> None | Some v \<Rightarrow> if v = [] then None else Some (FolderEntry v (baseNameFromKey v))) ps"

definition file_entry :: "string \<Rightarrow> s3_object \<Rightarrow> entry" where
  "file_entry key item = FileEntry key (baseNameFromKey key) (or_else (o_Size item) 0)
     (o_LastModified item) (o_ETag item) None"

definition file_entries :: "string \<Rightarrow> s3_object list \<Rightarrow> entry list" where
  "file_entries normalizedPrefix objs = List.map_filter (\<lambda>item. case o_Key item of
     None \<Rightarrow> None
   | Some k \<Rightarrow> if k = [] \<or> k = normalizedPrefix then None else Some (file_entry k item)) objs"

definition listFiles ::
  "(string \<Rightarrow> string \<Rightarrow> int) \<Rightarrow> 'w s3_send \<Rightarrow> string \<Rightarrow> string \<Rightarrow> list_options \<Rightarrow> ('w, list_result) eff" where
  "listFiles locale_compare send prf bucket opts =
     (let normalizedPrefix = (if prf = [] then [] else normalizePrefix prf) in
      bind_eff (send (ListObjectsV2 bucket normalizedPrefix
                 (if lo_recursive opts then None else Some [slash]) (lo_continuationToken opts)
                 (or_else (lo_pageSize opts) 100))) (\<lambda>response.
        let entries = folder_entries (r_CommonPrefixes response)
                        @ file_entries normalizedPrefix (r_Contents response);
            sorted_entries = sort_by (compare_entries locale_compare (or_else (lo_sortBy opts) By_name)) entries;
            ordered = (if or_else (lo_sortOrder opts) Asc = Desc then rev sorted_entries else sorted_entries)
        in ok \<lparr>lf_bucket = bucket, lf_prefix = normalizedPrefix, lf_entries = ordered,
               lf_continuationToken = r_NextContinuationToken response,
               lf_isTruncated = or_else (r_IsTruncated response) False\<rparr>))"

definition addFolder :: "'w s3_send \<Rightarrow> string \<Rightarrow> string \<Rightarrow> ('w, string) eff" where
  "addFolder send folderPath bucket =
     (let key = normalizePrefix folderPath in seq_eff (send (PutObject bucket key [])) (ok key))"

section \<open>Deletion\<close>

fun chunks :: "nat \<Rightarrow> 'a list \<Rightarrow> 'a list list" where
  "chunks n [] = []"
| "chunks n (x # xs) = take (Suc n) (x # xs) # chunks n (drop n xs)"

definition delete_chunk ::
  "'w s3_send \<Rightarrow> string \<Rightarrow> s3_object list \<Rightarrow> nat \<times> (string \<times> string) list
    \<Rightarrow> ('w, nat \<times> (string \<times> string) list) eff" where
  "delete_chunk send bucket chunk acc = (case acc of (deleted, failed) \<Rightarrow>
     catch_eff
       (bind_eff (send (DeleteObjects bucket (map o_Key chunk) True)) (\<lambda>response.
          ok (deleted + length (r_Deleted response),
              failed @ map (\<lambda>(k, m). (or_else k ''(unknown)'', or_else m ''DeleteObjects failed''))
                         (r_Errors response))))
       (\<lambda>error. ok (deleted, failed @ map (\<lambda>item. (or_else (o_Key item) ''(unknown)'', err_message error)) chunk)))"

fun delete_chunks ::
  "'w s3_send \<Rightarrow> string \<Rightarrow> s3_object list list \<Rightarrow> nat \<times> (string \<times> string) list
    \<Rightarrow> ('w, nat \<times> (string \<times> string) list) eff" where
  "delete_chunks send bucket [] acc = ok acc"
| "delete_chunks send bucket (c # cs) acc =
     bind_eff (delete_chunk send bucket c acc) (\<lambda>acc1. delete_chunks send bucket cs acc1)"

fun delete_pages ::
  "'w s3_send \<Rightarrow> nat \<Rightarrow> string \<Rightarrow> string \<Rightarrow> string option \<Rightarrow> nat \<times> (string \<times> string) list
    \<Rightarrow> ('w, nat \<times> (string \<times> string) list) eff" where
  "delete_pages send 0 bucket prf token acc = throw Diverges"
| "delete_pages send (Suc fuel) bucket prf token acc =
     bind_eff (listObjectKeys send bucket prf token 1000) (\<lambda>(objects, next_token).
     bind_eff (delete_chunks send bucket (chunks 999 objects) acc) (\<lambda>acc1.
       if truthy next_token then delete_pages send fuel bucket prf next_token acc1 else ok acc1))"

definition deleteFolderByPrefix ::
  "'w s3_send \<Rightarrow> nat \<Rightarrow> string \<Rightarrow> string \<Rightarrow> ('w, delete_result) eff" where
  "deleteFolderByPrefix send fuel prf bucket =
     bind_eff (delete_pages send fuel bucket prf None (0, [])) (\<lambda>(deleted, failed).
       ok \<lparr>dr_bucket = bucket, dr_deleted = deleted, dr_failed = failed\<rparr>)"

definition deleteFileOrFolder ::
  "'w s3_send \<Rightarrow> nat \<Rightarrow> string \<Rightarrow> string \<Rightarrow> ('w, delete_result) eff" where
  "deleteFileOrFolder send fuel key bucket =
     (let normalized = normalizeKey key in
      if ends_with normalized [slash] then deleteFolderByPrefix send fuel normalized bucket
      else bind_eff
        (catch_eff (seq_eff (send (DeleteObject bucket normalized)) (ok (1, [])))
                   (\<lambda>error. ok (0, [(normalized, err_message error)]))) (\<lambda>(deleted, failed).
        bind_eff (listObjectKeys send bucket (normalizePrefix normalized) None 1) (\<lambda>(objects, _).
          if length objects > 0
          then bind_eff (deleteFolderByPrefix send fuel (normalizePrefix normalized) bucket) (\<lambda>folderDeleted.
                 ok \<lparr>dr_bucket = bucket, dr_deleted = deleted + dr_deleted folderDeleted,
                     dr_failed = failed @ dr_failed folderDeleted\<rparr>)
          else ok \<lparr>dr_bucket = bucket, dr_deleted = deleted, dr_failed = failed\<rparr>)))"

section \<open>Renaming\<close>

text \<open>What the calls of one folder rename share: its counters, its failures, and the progress
  reports made so far.\<close>

record rename_acc =
  ra_copied :: nat
  ra_deleted :: nat
  ra_failed :: "rename_item_error list"
  ra_progress :: rename_progress
  ra_reports :: "rename_progress list"

definition item_error :: "string \<Rightarrow> string \<Rightarrow> rename_stage \<Rightarrow> http_error \<Rightarrow> rename_item_error" where
  "item_error sourceKey destinationKey stage error =
     \<lparr>ri_sourceKey = sourceKey, ri_destinationKey = destinationKey, ri_stage = stage,
      ri_message = err_message error\<rparr>"

definition report :: "rename_acc \<Rightarrow> rename_acc" where
  "report a = a\<lparr>ra_reports := ra_reports a @ [ra_progress a]\<rparr>"

definition on_copied :: "rename_acc \<Rightarrow> rename_acc" where
  "on_copied a = a\<lparr>ra_copied := ra_copied a + 1,
     ra_progress := (ra_progress a)\<lparr>rg_copied := rg_copied (ra_progress a) + 1\<rparr>\<rparr>"

definition on_copy_failed :: "string \<Rightarrow> string \<Rightarrow> http_error \<Rightarrow> rename_acc \<Rightarrow> rename_acc" where
  "on_copy_failed src dst error a = report (a\<lparr>ra_failed := ra_failed a @ [item_error src dst Stage_copy error],
     ra_progress := (ra_progress a)\<lparr>rg_failed := rg_failed (ra_progress a) + 1,
                                    rg_processed := rg_processed (ra_progress a) + 1\<rparr>\<rparr>)"

definition on_processed :: "rename_acc \<Rightarrow> rename_acc" where
  "on_processed a = report (a\<lparr>ra_progress := (ra_progress a)\<lparr>rg_processed := rg_processed (ra_progress a) + 1\<rparr>\<rparr>)"

definition on_deleted :: "rename_acc \<Rightarrow> rename_acc" where
  "on_deleted a = on_processed (a\<lparr>ra_deleted := ra_deleted a + 1,
     ra_progress := (ra_progress a)\<lparr>rg_deleted := rg_deleted (ra_progress a) + 1\<rparr>\<rparr>)"

definition on_delete_failed :: "string \<Rightarrow> string \<Rightarrow> http_error \<Rightarrow> rename_acc \<Rightarrow> rename_acc" where
  "on_delete_failed src dst error a = on_processed (a\<lparr>ra_failed := ra_failed a @ [item_error src dst Stage_delete error],
     ra_progress := (ra_progress a)\<lparr>rg_failed := rg_failed (ra_progress a) + 1\<rparr>\<rparr>)"

text \<open>The mapper of \<open>renameFolder\<close>: note the current key, await the copy, await the deletion.\<close>

definition rename_delete ::
  "'w s3_send \<Rightarrow> string \<Rightarrow> string \<Rightarrow> string \<Rightarrow> ('w \<times> rename_acc, http_error, unit) thread" where
  "rename_delete send bucket src dst = Await (\<lambda>(w, a). case send (DeleteObject bucket src) w of
     (Inl error, w1) \<Rightarrow> (Ret (), (w1, on_delete_failed src dst error a))
   | (Inr _, w1) \<Rightarrow> (Ret (), (w1, on_deleted a)))"

definition rename_copy ::
  "'w s3_send \<Rightarrow> string \<Rightarrow> string \<Rightarrow> string \<Rightarrow> ('w \<times> rename_acc, http_error, unit) thread" where
  "rename_copy send bucket src dst = Await (\<lambda>(w, a).
     case send (CopyObject bucket dst (copy_source bucket src)) w of
       (Inl error, w1) \<Rightarrow> (Ret (), (w1, on_copy_failed src dst error a))
     | (Inr _, w1) \<Rightarrow> (rename_delete send bucket src dst, (w1, on_copied a)))"

definition destination :: "string \<Rightarrow> string \<Rightarrow> string \<Rightarrow> string" where
  "destination sourcePrefix targetPrefix sourceKey = targetPrefix @ drop (length sourcePrefix) sourceKey"

definition rename_item ::
  "'w s3_send \<Rightarrow> string \<Rightarrow> string \<Rightarrow> string \<Rightarrow> string \<Rightarrow> nat \<Rightarrow> ('w \<times> rename_acc, http_error, unit) thread" where
  "rename_item send bucket sourcePrefix targetPrefix sourceKey index = Await (\<lambda>(w, a).
     (rename_copy send bucket sourceKey (destination sourcePrefix targetPrefix sourceKey),
      (w, a\<lparr>ra_progress := (ra_progress a)\<lparr>rg_currentKey := Some sourceKey\<rparr>\<rparr>)))"

definition rename_start :: "string list \<Rightarrow> rename_acc" where
  "rename_start keys = report \<lparr>ra_copied = 0, ra_deleted = 0, ra_failed = [],
     ra_progress = \<lparr>rg_total = length keys, rg_processed = 0, rg_copied = 0, rg_deleted = 0,
                    rg_failed = 0, rg_currentKey = None\<rparr>, ra_reports = []\<rparr>"

text \<open>The result, with the calls of \<open>onProgress\<close> in their order.\<close>

definition renameFolder ::
  "'w s3_send \<Rightarrow> nat \<Rightarrow> nat list \<Rightarrow> string \<Rightarrow> string \<Rightarrow> string \<Rightarrow> int
    \<Rightarrow> ('w, rename_result \<times> rename_progress list) eff" where
  "renameFolder send fuel sched oldPrefix newPrefix bucket concurrency =
     (let sourcePrefix = normalizePrefix oldPrefix; targetPrefix = normalizePrefix newPrefix in
      if sourcePrefix = targetPrefix
      then ok (\<lparr>rr_bucket = bucket, rr_oldPrefixOrKey = sourcePrefix, rr_newPrefixOrKey = targetPrefix,
                rr_copied = 0, rr_deleted = 0, rr_failed = []\<rparr>, [])
      else bind_eff (listAllKeys send fuel bucket sourcePrefix None) (\<lambda>keys w.
        let (p, w1, a) = mapWithConcurrency (map Some keys) concurrency
              (rename_item send bucket sourcePrefix targetPrefix) sched (w, rename_start keys)
        in if pool_done p
           then (Inr (\<lparr>rr_bucket = bucket, rr_oldPrefixOrKey = sourcePrefix, rr_newPrefixOrKey = targetPrefix,
                 rr_copied = ra_copied a, rr_deleted = ra_deleted a, rr_failed = ra_failed a\<rparr>, ra_reports a), w1)
           else (Inl Diverges, w1)))"

definition rename_file ::
  "'w s3_send \<Rightarrow> string \<Rightarrow> string \<Rightarrow> string \<Rightarrow> ('w, rename_result) eff" where
  "rename_file send normalizedOld normalizedNew bucket =
     bind_eff (catch_eff (seq_eff (send (CopyObject bucket normalizedNew (copy_source bucket normalizedOld)))
                                  (ok (1, [])))
        (\<lambda>error. ok (0, [item_error normalizedOld normalizedNew Stage_copy error]))) (\<lambda>(copied, failed).
     bind_eff (if failed = []
        then catch_eff (seq_eff (send (DeleteObject bucket normalizedOld)) (ok (1, failed)))
               (\<lambda>error. ok (0, [item_error normalizedOld normalizedNew Stage_delete error]))
        else ok (0, failed)) (\<lambda>(deleted, failed1).
     ok \<lparr>rr_bucket = bucket, rr_oldPrefixOrKey = normalizedOld, rr_newPrefixOrKey = normalizedNew,
         rr_copied = copied, rr_deleted = deleted, rr_failed = failed1\<rparr>))"

definition renameFileOrFolder ::
  "'w s3_send \<Rightarrow> nat \<Rightarrow> nat list \<Rightarrow> string \<Rightarrow> string \<Rightarrow> string
    \<Rightarrow> ('w, rename_result \<times> rename_progress list) eff" where
  "renameFileOrFolder send fuel sched oldKey newKey bucket =
     (let normalizedOld = normalizeKey oldKey; normalizedNew = normalizeKey newKey in
      if ends_with normalizedOld [slash] \<or> ends_with normalizedNew [slash]
      then renameFolder send fuel sched (normalizePrefix normalizedOld) (normalizePrefix normalizedNew) bucket 5
      else bind_eff (rename_file send normalizedOld normalizedNew bucket) (\<lambda>r. ok (r, [])))"

end
