(* ===== verification/S3Query.thy ===== *)
theory S3Query
  imports S3Files
begin

text \<open>
  \<open>packages/s3/src/file-service.ts\<close>, the read-only and multipart operations: previews, folder
  statistics, search, and the steps of a multipart upload.
\<close>

section \<open>Previews\<close>

definition mode_str :: "preview_mode \<Rightarrow> string" where
  "mode_str m = (case m of Inline \<Rightarrow> ''inline'' | Download \<Rightarrow> ''download'')"

definition content_disposition :: "preview_mode \<Rightarrow> string \<Rightarrow> string" where
  "content_disposition mode key =
     mode_str mode @ ''; filename*=UTF-8'' @ [CHR 0x27, CHR 0x27] @ encodeURIComponent (baseNameFromKey key)"

definition getFilePreview ::
  "'w s3_send \<Rightarrow> 'w s3_sign \<Rightarrow> string \<Rightarrow> bool \<Rightarrow> string \<Rightarrow> int \<Rightarrow> ('w, preview_result) eff" where
  "getFilePreview send sign key download bucket expiresIn =
     (let normalized = normalizeKey key in
      bind_eff (send (HeadObject bucket normalized)) (\<lambda>head.
      let contentType = or_else (r_ContentType head) (inferContentTypeFromKey normalized);
          previewType = inferPreviewType contentType;
          mode = (if download \<or> previewType = PDownload then Download else Inline)
      in bind_eff (sign (GetObject bucket normalized (content_disposition mode normalized) contentType) expiresIn)
           (\<lambda>url. ok \<lparr>pr_bucket = bucket, pr_key = normalized, pr_url = url, pr_mode = mode,
              pr_previewType = previewType, pr_contentType = contentType, pr_expiresIn = expiresIn\<rparr>)))"

section \<open>Folder statistics\<close>

record stats_acc =
  sa_totalSize :: int
  sa_objectCount :: nat
  sa_latestModified :: "int option"
  sa_folders :: "string list"
  sa_ext :: "(string \<times> (nat \<times> int)) list"

text \<open>\<open>Set.add\<close>, in insertion order.\<close>

definition set_add :: "'a \<Rightarrow> 'a list \<Rightarrow> 'a list" where
  "set_add x xs = (if x \<in> set xs then xs else xs @ [x])"

definition alnum :: "char \<Rightarrow> bool" where
  "alnum c \<longleftrightarrow> (let n = (of_char c :: nat) in
     (48 \<le> n \<and> n \<le> 57) \<or> (65 \<le> n \<and> n \<le> 90) \<or> (97 \<le> n \<and> n \<le> 122))"

text \<open>\<open>/\.([a-z0-9]+)$/i\<close>: the run of letters and digits at the end, if a dot stands before it.\<close>

definition extension :: "string \<Rightarrow> string" where
  "extension key =
     (let r = rev key; ext = takeWhile alnum r; rest = dropWhile alnum r in
      if ext \<noteq> [] \<and> rest \<noteq> [] \<and> hd rest = CHR ''.'' then to_lower (rev ext) else ''(none)'')"

text \<open>\<open>breakdown[ext] ??= {count: 0, size: 0}\<close> and the two increments. The object inherits
  \<open>constructor\<close>, the only inherited name an extension can spell: for it nothing is assigned, and
  the increments go to properties of the global \<open>Object\<close> function instead.\<close>

definition add_extension :: "string \<Rightarrow> int \<Rightarrow> (string \<times> (nat \<times> int)) list \<Rightarrow> (string \<times> (nat \<times> int)) list" where
  "add_extension ext sz b =
     (if ext = ''constructor'' then b
      else if ext \<in> fst ` set b
      then map (\<lambda>(e, n, z). if e = ext then (e, n + 1, z + sz) else (e, n, z)) b
      else b @ [(ext, 1, sz)])"

fun join_slash :: "string list \<Rightarrow> string" where
  "join_slash [] = []"
| "join_slash [x] = x"
| "join_slash (x # y # xs) = x @ slash # join_slash (y # xs)"

text \<open>\<open>parts.slice(0, i).join("/")\<close> for \<open>i\<close> from 1 below the number of parts.\<close>

definition parent_folders :: "string list \<Rightarrow> string list" where
  "parent_folders parts = map (\<lambda>i. join_slash (take i parts)) [1..<length parts]"

definition drop_last_slash :: "string \<Rightarrow> string" where
  "drop_last_slash s = (if ends_with s [slash] then butlast s else s)"

definition max_date :: "int option \<Rightarrow> int option \<Rightarrow> int option" where
  "max_date latest modified = (case modified of None \<Rightarrow> latest
     | Some m \<Rightarrow> (case latest of None \<Rightarrow> Some m | Some l \<Rightarrow> if m > l then Some m else Some l))"

definition is_folder_marker :: "string \<Rightarrow> s3_object \<Rightarrow> bool" where
  "is_folder_marker key item \<longleftrightarrow> ends_with key [slash] \<and> or_else (o_Size item) 0 = 0"

definition stats_item :: "string \<Rightarrow> stats_acc \<Rightarrow> s3_object \<Rightarrow> stats_acc" where
  "stats_item normalizedPrefix a item = (case o_Key item of
     None \<Rightarrow> a
   | Some key \<Rightarrow>
       if key = [] then a
       else if is_folder_marker key item
       then let relative = drop_last_slash (drop (length normalizedPrefix) key)
            in if relative = [] then a else a\<lparr>sa_folders := set_add relative (sa_folders a)\<rparr>
       else let sz = or_else (o_Size item) 0;
                parts = segments (drop (length normalizedPrefix) key)
            in a\<lparr>sa_objectCount := sa_objectCount a + 1, sa_totalSize := sa_totalSize a + sz,
                 sa_latestModified := max_date (sa_latestModified a) (o_LastModified item),
                 sa_folders := foldl (\<lambda>fs f. set_add f fs) (sa_folders a) (parent_folders parts),
                 sa_ext := add_extension (extension key) sz (sa_ext a)\<rparr>)"

definition empty_stats :: stats_acc where
  "empty_stats = \<lparr>sa_totalSize = 0, sa_objectCount = 0, sa_latestModified = None, sa_folders = [], sa_ext = []\<rparr>"

definition getFolderStats :: "'w s3_send \<Rightarrow> nat \<Rightarrow> string \<Rightarrow> string \<Rightarrow> ('w, folder_stats) eff" where
  "getFolderStats send fuel prf bucket =
     (let normalizedPrefix = (if prf = [] then [] else normalizePrefix prf) in
      bind_eff (listAllObjects send fuel bucket normalizedPrefix None) (\<lambda>items.
        let a = foldl (stats_item normalizedPrefix) empty_stats items
        in ok \<lparr>fs_bucket = bucket, fs_prefix = normalizedPrefix, fs_totalSize = sa_totalSize a,
               fs_objectCount = sa_objectCount a, fs_folderCount = length (sa_folders a),
               fs_latestModified = sa_latestModified a, fs_extensionBreakdown = sa_ext a\<rparr>))"

section \<open>Search\<close>

text \<open>\<open>Map.set\<close> in insertion order, on entries keyed by their key.\<close>

definition map_set :: "entry \<Rightarrow> entry list \<Rightarrow> entry list" where
  "map_set e es = (if entry_key e \<in> entry_key ` set es
     then map (\<lambda>x. if entry_key x = entry_key e then e else x) es else es @ [e])"

definition matches_term :: "string \<Rightarrow> string \<Rightarrow> bool" where
  "matches_term lowercaseTerm name \<longleftrightarrow> str_includes (to_lower name) lowercaseTerm"

fun search_folders :: "string \<Rightarrow> string \<Rightarrow> string \<Rightarrow> string list \<Rightarrow> entry list \<Rightarrow> entry list" where
  "search_folders normalizedPrefix t running [] es = es"
| "search_folders normalizedPrefix t running (sg # sgs) es =
     (let run1 = (if running = [] then sg else running @ slash # sg)
      in search_folders normalizedPrefix t run1 sgs
           (if matches_term t sg then map_set (FolderEntry (normalizedPrefix @ run1 @ [slash]) sg) es else es))"

definition search_item :: "string \<Rightarrow> string \<Rightarrow> entry list \<times> entry list \<Rightarrow> s3_object \<Rightarrow> entry list \<times> entry list" where
  "search_item normalizedPrefix t acc item = (case acc of (folders, files) \<Rightarrow>
     (case o_Key item of
        None \<Rightarrow> acc
      | Some key \<Rightarrow> if key = [] then acc
          else (search_folders normalizedPrefix t [] (butlast (segments (drop (length normalizedPrefix) key))) folders,
                if matches_term t (baseNameFromKey key) then files @ [file_entry key item] else files)))"

definition searchFilesAndFolders ::
  "'w s3_send \<Rightarrow> string \<Rightarrow> string \<Rightarrow> string \<Rightarrow> string option \<Rightarrow> int \<Rightarrow> ('w, search_result) eff" where
  "searchFilesAndFolders send prf term_in bucket continuationToken pageSize =
     (let normalizedPrefix = (if prf = [] then [] else normalizePrefix prf); t = to_lower term_in in
      bind_eff (send (ListObjectsV2 bucket normalizedPrefix None continuationToken (min pageSize 1000))) (\<lambda>response.
        let (folders, files) = foldl (search_item normalizedPrefix t) ([], []) (r_Contents response)
        in ok \<lparr>se_bucket = bucket, se_prefix = normalizedPrefix, se_term = term_in, se_entries = folders @ files,
               se_continuationToken = r_NextContinuationToken response,
               se_scanned = or_else (r_KeyCount response) 0\<rparr>))"

section \<open>Multipart uploads\<close>

definition upload_id_missing :: http_error where
  "upload_id_missing = PlainError ''Failed to initialize multipart upload: upload id missing''"

definition initMultipartUpload :: "'w s3_send \<Rightarrow> init_request \<Rightarrow> ('w, init_result) eff" where
  "initMultipartUpload send input =
     (let key = normalizeKey (mi_key input) in
      bind_eff (send (CreateMultipartUpload (mi_bucket input) key (mi_contentType input) (mi_metadata input)))
        (\<lambda>result. case r_UploadId result of
            None \<Rightarrow> throw upload_id_missing
          | Some i \<Rightarrow> if i = [] then throw upload_id_missing
                      else ok \<lparr>mr_bucket = mi_bucket input, mr_key = key, mr_uploadId = i\<rparr>))"

definition presignMultipartPart ::
  "'w s3_sign \<Rightarrow> string \<Rightarrow> string \<Rightarrow> string \<Rightarrow> int \<Rightarrow> int \<Rightarrow> ('w, part_spec) eff" where
  "presignMultipartPart sign bucket key uploadId partNumber expiresIn =
     bind_eff (sign (UploadPart bucket (normalizeKey key) uploadId partNumber) expiresIn)
       (\<lambda>url. ok \<lparr>ps_partNumber = partNumber, ps_url = url, ps_expiresIn = expiresIn\<rparr>)"

definition sorted_parts :: "(int \<times> string) list \<Rightarrow> (int \<times> string) list" where
  "sorted_parts parts = sort_by (\<lambda>a b. fst a - fst b) parts"

definition completeMultipartUpload :: "'w s3_send \<Rightarrow> complete_request \<Rightarrow> ('w, complete_result) eff" where
  "completeMultipartUpload send input =
     (let key = normalizeKey (mc_key input) in
      bind_eff (send (CompleteMultipartUpload (mc_bucket input) key (mc_uploadId input) (sorted_parts (mc_parts input))))
        (\<lambda>result. ok \<lparr>mo_bucket = mc_bucket input, mo_key = key, mo_uploadId = mc_uploadId input,
                      mo_eTag = r_ETag result\<rparr>))"

definition abortMultipartUpload :: "'w s3_send \<Rightarrow> string \<Rightarrow> string \<Rightarrow> string \<Rightarrow> ('w, unit) eff" where
  "abortMultipartUpload send bucket key uploadId =
     seq_eff (send (AbortMultipartUpload bucket (normalizeKey key) uploadId)) (ok ())"

section \<open>Lemmas on sorting\<close>

lemma insert_by_mset: "mset (insert_by cmp x ys) = add_mset x (mset ys)"
  by (induction ys) auto

lemma sort_by_mset: "mset (sort_by cmp xs) = mset xs"
  by (induction xs) (simp_all add: sort_by_def insert_by_mset)

lemma sort_by_set: "set (sort_by cmp xs) = set xs"
  using sort_by_mset by (metis set_mset_mset)

text \<open>A comparator as the sort needs it: total and transitive.\<close>

definition comparator :: "('a \<Rightarrow> 'a \<Rightarrow> int) \<Rightarrow> bool" where
  "comparator cmp \<longleftrightarrow> (\<forall>a b. cmp a b > 0 \<longrightarrow> cmp b a \<le> 0)
     \<and> (\<forall>a b c. cmp a b \<le> 0 \<longrightarrow> cmp b c \<le> 0 \<longrightarrow> cmp a c \<le> 0)"

lemma insert_by_sorted:
  assumes "comparator cmp" and "sorted_wrt (\<lambda>a b. cmp a b \<le> 0) ys"
  shows "sorted_wrt (\<lambda>a b. cmp a b \<le> 0) (insert_by cmp x ys)"
  using assms(2)
proof (induction ys)
  case (Cons y ys)
  have "set (insert_by cmp x ys) = insert x (set ys)"
    by (metis insert_by_mset set_mset_add_mset_insert set_mset_mset)
  moreover have "\<not> cmp x y \<le> 0 \<Longrightarrow> cmp y x \<le> 0" using assms(1) by (auto simp: comparator_def)
  moreover have "cmp x y \<le> 0 \<Longrightarrow> \<forall>z\<in>set ys. cmp x z \<le> 0"
    using assms(1) Cons.prems by (auto simp: comparator_def)
  ultimately show ?case using Cons by auto
qed simp

lemma sort_by_sorted:
  "comparator cmp \<Longrightarrow> sorted_wrt (\<lambda>a b. cmp a b \<le> 0) (sort_by cmp xs)"
  by (induction xs) (simp_all add: sort_by_def insert_by_sorted)

lemma comparator_entries: "comparator lc \<Longrightarrow> comparator (compare_entries lc k)"
  by (cases k) (auto simp: comparator_def compare_entries_def split: if_splits)

end
