(* ===== verification/S3Store.thy ===== *)
theory S3Store
  imports S3Query
begin

text \<open>
  What the file service relies on of the S3 service, as named hypotheses on \<open>send\<close>: \<open>objs\<close> reads the
  objects of a bucket off the world and \<open>pos\<close> the key a continuation token stands for. A copy or a
  deletion whose request fails may still have taken effect. \<open>mem_send\<close> is a concrete service in
  memory that meets the hypotheses; the witnesses run on it. Under the hypotheses the page loops
  return every key and end.
\<close>

type_synonym 'w objects = "'w \<Rightarrow> string \<Rightarrow> string \<rightharpoonup> string"

definition copied_to :: "(string \<rightharpoonup> string) \<Rightarrow> string \<Rightarrow> string \<Rightarrow> (string \<rightharpoonup> string)" where
  "copied_to m src dst = m(dst := m src)"

definition copy_contract :: "'w s3_send \<Rightarrow> 'w objects \<Rightarrow> bool" where
  "copy_contract send objs \<longleftrightarrow> (\<forall>b src dst w r w'. send (CopyObject b dst (copy_source b src)) w = (r, w') \<longrightarrow>
     (case r of
        Inr _ \<Rightarrow> objs w b src \<noteq> None \<and> objs w' = (objs w)(b := copied_to (objs w b) src dst)
      | Inl _ \<Rightarrow> objs w' = objs w \<or>
          (objs w b src \<noteq> None \<and> objs w' = (objs w)(b := copied_to (objs w b) src dst))))"

definition delete_contract :: "'w s3_send \<Rightarrow> 'w objects \<Rightarrow> bool" where
  "delete_contract send objs \<longleftrightarrow> (\<forall>b k w r w'. send (DeleteObject b k) w = (r, w') \<longrightarrow>
     (case r of
        Inr _ \<Rightarrow> objs w' = (objs w)(b := (objs w b)(k := None))
      | Inl _ \<Rightarrow> objs w' = objs w \<or> objs w' = (objs w)(b := (objs w b)(k := None))))"

text \<open>The keys of a prefix beyond a token.\<close>

definition keys_after :: "(string \<rightharpoonup> string) \<Rightarrow> string \<Rightarrow> string option \<Rightarrow> string set" where
  "keys_after m prf after = {k \<in> dom m. prefix prf k \<and> (case after of None \<Rightarrow> True | Some t \<Rightarrow> t < k)}"

definition page_of_keys ::
  "(string \<Rightarrow> string) \<Rightarrow> (string \<rightharpoonup> string) \<Rightarrow> string \<Rightarrow> string option \<Rightarrow> s3_response \<Rightarrow> bool" where
  "page_of_keys pos m prf token r \<longleftrightarrow> (\<exists>ks. map o_Key (r_Contents r) = map Some ks
     \<and> sorted_wrt (<) ks \<and> (\<forall>k\<in>set ks. k \<noteq> []) \<and> set ks \<subseteq> keys_after m prf (map_option pos token)
     \<and> (case r_NextContinuationToken r of
          None \<Rightarrow> set ks = keys_after m prf (map_option pos token)
        | Some t \<Rightarrow> t \<noteq> [] \<and> ks \<noteq> [] \<and> pos t = last ks
            \<and> keys_after m prf (map_option pos token) = set ks \<union> keys_after m prf (Some (pos t))))"

definition list_contract :: "'w s3_send \<Rightarrow> 'w objects \<Rightarrow> (string \<Rightarrow> string) \<Rightarrow> bool" where
  "list_contract send objs pos \<longleftrightarrow> (\<forall>b prf token n w r w'.
     1 \<le> n \<longrightarrow> prf \<noteq> [] \<longrightarrow> send (ListObjectsV2 b prf None token n) w = (r, w') \<longrightarrow>
       objs w' = objs w \<and> (case r of Inl e \<Rightarrow> e \<noteq> Diverges | Inr resp \<Rightarrow> page_of_keys pos (objs w b) prf token resp))"

section \<open>Listing every key\<close>

lemma named_keys_map: "map o_Key objs = map Some ks \<Longrightarrow> \<forall>k\<in>set ks. k \<noteq> [] \<Longrightarrow> named_keys objs = ks"
proof (induction objs arbitrary: ks)
  case (Cons x objs)
  then obtain k ks' where "ks = k # ks'" "o_Key x = Some k" "map o_Key objs = map Some ks'"
    by (cases ks) auto
  with Cons show ?case by (simp add: named_keys_def List.map_filter_simps)
qed (simp add: named_keys_def List.map_filter_simps)

lemma listObjectKeys_Inr:
  assumes "list_contract send objs pos" and "1 \<le> n" and "prf \<noteq> []"
    and "listObjectKeys send b prf token n w = (r, w')"
  shows "objs w' = objs w"
    and "r = Inr (os, nt) \<Longrightarrow> \<exists>ks. map o_Key os = map Some ks \<and> named_keys os = ks \<and> sorted_wrt (<) ks
       \<and> set ks \<subseteq> keys_after (objs w b) prf (map_option pos token)
       \<and> (if truthy nt then ks \<noteq> [] \<and> (\<exists>t. nt = Some t \<and> pos t = last ks
            \<and> keys_after (objs w b) prf (map_option pos token) = set ks \<union> keys_after (objs w b) prf (Some (pos t)))
          else set ks = keys_after (objs w b) prf (map_option pos token))"
    and "r \<noteq> Inl Diverges"
proof -
  obtain r1 w1 where s: "send (ListObjectsV2 b prf None token n) w = (r1, w1)" by fastforce
  have c: "objs w1 = objs w \<and> (case r1 of Inl e \<Rightarrow> e \<noteq> Diverges
      | Inr resp \<Rightarrow> page_of_keys pos (objs w b) prf token resp)"
    using assms(1-3) s unfolding list_contract_def by blast
  have r: "w' = w1 \<and> r = (case r1 of Inl e \<Rightarrow> Inl e | Inr resp \<Rightarrow> Inr (r_Contents resp, r_NextContinuationToken resp))"
    using assms(4) s by (auto simp: listObjectKeys_def eff_simps split: sum.splits)
  show "objs w' = objs w" "r \<noteq> Inl Diverges" using c r by (auto split: sum.splits)
  assume "r = Inr (os, nt)"
  then obtain resp where resp: "os = r_Contents resp" "nt = r_NextContinuationToken resp"
    "page_of_keys pos (objs w b) prf token resp"
    using c r by (auto split: sum.splits)
  then obtain ks where ks: "map o_Key os = map Some ks" "sorted_wrt (<) ks" "\<forall>k\<in>set ks. k \<noteq> []"
    "set ks \<subseteq> keys_after (objs w b) prf (map_option pos token)"
    "case nt of None \<Rightarrow> set ks = keys_after (objs w b) prf (map_option pos token)
        | Some t \<Rightarrow> t \<noteq> [] \<and> ks \<noteq> [] \<and> pos t = last ks
            \<and> keys_after (objs w b) prf (map_option pos token) = set ks \<union> keys_after (objs w b) prf (Some (pos t))"
    unfolding page_of_keys_def by blast
  show "\<exists>ks. map o_Key os = map Some ks \<and> named_keys os = ks \<and> sorted_wrt (<) ks
       \<and> set ks \<subseteq> keys_after (objs w b) prf (map_option pos token)
       \<and> (if truthy nt then ks \<noteq> [] \<and> (\<exists>t. nt = Some t \<and> pos t = last ks
            \<and> keys_after (objs w b) prf (map_option pos token) = set ks \<union> keys_after (objs w b) prf (Some (pos t)))
          else set ks = keys_after (objs w b) prf (map_option pos token))"
    using ks named_keys_map [OF ks(1,3)] by (intro exI [of _ ks]) (auto split: option.splits)
qed

lemma sorted_wrt_lt_last: "sorted_wrt (<) (ks :: string list) \<Longrightarrow> k \<in> set ks \<Longrightarrow> k \<le> last ks"
  by (induction ks) (auto split: if_splits intro: less_imp_le dest: last_in_set)

text \<open>The keys of all pages, in order, without repetition; the fuel that is enough.\<close>

lemma listAllKeys_spec:
  assumes lc: "list_contract send objs pos" and pne: "prf \<noteq> []"
  shows "listAllKeys send fuel b prf token w = (r, w') \<Longrightarrow>
    objs w' = objs w \<and> (case r of Inl e \<Rightarrow> True
      | Inr ks \<Rightarrow> sorted_wrt (<) ks \<and> set ks = keys_after (objs w b) prf (map_option pos token))"
proof (induction fuel arbitrary: token w r w')
  case 0
  then show ?case by (auto simp: eff_simps)
next
  case (Suc fuel)
  obtain q w1 where q: "listObjectKeys send b prf token 1000 w = (q, w1)" by fastforce
  have o1: "objs w1 = objs w" using listObjectKeys_Inr(1) [OF lc _ pne q] by simp
  show ?case
  proof (cases q)
    case (Inl e)
    then show ?thesis using Suc.prems q o1 by (auto simp: eff_simps)
  next
    case (Inr a)
    obtain os nt where a: "a = (os, nt)" by (cases a)
    obtain ks where ks: "named_keys os = ks" "sorted_wrt (<) ks"
      "if truthy nt then ks \<noteq> [] \<and> (\<exists>t. nt = Some t \<and> pos t = last ks
            \<and> keys_after (objs w b) prf (map_option pos token) = set ks \<union> keys_after (objs w b) prf (Some (pos t)))
          else set ks = keys_after (objs w b) prf (map_option pos token)"
      using listObjectKeys_Inr(2) [OF lc _ pne q, of os nt] Inr a by auto
    show ?thesis
    proof (cases "truthy nt")
      case False
      then show ?thesis using Suc.prems q o1 ks Inr a by (auto simp: eff_simps)
    next
      case True
      obtain q2 w2 where q2: "listAllKeys send fuel b prf nt w1 = (q2, w2)" by fastforce
      obtain t where t: "nt = Some t" "pos t = last ks"
        "keys_after (objs w b) prf (map_option pos token) = set ks \<union> keys_after (objs w b) prf (Some (pos t))"
        using ks(3) True by auto
      note ih = Suc.IH [OF q2]
      have "k < k'" if "k \<in> set ks" "k' \<in> keys_after (objs w b) prf (Some (pos t))" for k k'
        using that sorted_wrt_lt_last [OF ks(2) that(1)] t(2) by (auto simp: keys_after_def)
      then show ?thesis
        using Suc.prems q o1 ks Inr a True q2 ih t
        by (auto simp: eff_simps sorted_wrt_append split: sum.splits)
    qed
  qed
qed

lemma keys_after_smaller:
  assumes "keys_after m prf after = set ks \<union> keys_after m prf (Some (last ks))" and "ks \<noteq> []"
    and "finite (dom m)"
  shows "card (keys_after m prf (Some (last ks))) < card (keys_after m prf after)"
proof (rule psubset_card_mono)
  show "finite (keys_after m prf after)"
    by (rule finite_subset [OF _ assms(3)]) (auto simp: keys_after_def)
  have "last ks \<in> keys_after m prf after" using assms(1,2) last_in_set by blast
  moreover have "last ks \<notin> keys_after m prf (Some (last ks))" by (simp add: keys_after_def)
  ultimately show "keys_after m prf (Some (last ks)) \<subset> keys_after m prf after" using assms(1) by blast
qed

lemma listAllKeys_ends:
  assumes lc: "list_contract send objs pos" and pne: "prf \<noteq> []"
  shows "finite (dom (objs w b)) \<Longrightarrow> card (keys_after (objs w b) prf (map_option pos token)) < fuel \<Longrightarrow>
    fst (listAllKeys send fuel b prf token w) \<noteq> Inl Diverges"
proof (induction fuel arbitrary: token w)
  case (Suc fuel)
  obtain q w1 where q: "listObjectKeys send b prf token 1000 w = (q, w1)" by fastforce
  have o1: "objs w1 = objs w" "q \<noteq> Inl Diverges"
    using listObjectKeys_Inr(1,3) [OF lc _ pne q] by simp_all
  show ?case
  proof (cases q)
    case (Inl e)
    then show ?thesis using q o1 by (auto simp: eff_simps)
  next
    case (Inr a)
    obtain os nt where a: "a = (os, nt)" by (cases a)
    show ?thesis
    proof (cases "truthy nt")
      case False
      then show ?thesis using q Inr a by (auto simp: eff_simps)
    next
      case True
      obtain ks t where t: "nt = Some t" "pos t = last ks" "ks \<noteq> []"
        "keys_after (objs w b) prf (map_option pos token) = set ks \<union> keys_after (objs w b) prf (Some (pos t))"
        using listObjectKeys_Inr(2) [OF lc _ pne q, of os nt] Inr a True by auto
      have "card (keys_after (objs w b) prf (Some (pos t))) < card (keys_after (objs w b) prf (map_option pos token))"
        using keys_after_smaller [of "objs w b" "prf" "map_option pos token" ks] t Suc.prems(1) by simp
      then have "fst (listAllKeys send fuel b prf nt w1) \<noteq> Inl Diverges"
        using Suc.IH [of w1 nt] Suc.prems o1 t(1) by simp
      then show ?thesis using q Inr a True by (auto simp: eff_simps split: prod.splits sum.splits)
    qed
  qed
qed simp


section \<open>Reading a copy source back\<close>

definition hex_val :: "char \<Rightarrow> nat" where
  "hex_val c = (let n = (of_char c :: nat) in if n \<le> 57 then n - 48 else n - 55)"

text \<open>The service's reading of the header: percent escapes are bytes.\<close>

fun uri_decode :: "string \<Rightarrow> string" where
  "uri_decode (c # s) = (if c = CHR ''%''
     then (case s of a # b # s1 \<Rightarrow> char_of (16 * hex_val a + hex_val b) # uri_decode s1 | _ \<Rightarrow> [])
     else c # uri_decode s)"
| "uri_decode [] = []"

lemma of_char_hex_digit: "d < 16 \<Longrightarrow> (of_char (hex_digit d) :: nat) = (if d < 10 then 48 + d else 55 + d)"
  by (simp add: hex_digit_def)

lemma hex_val_digit: "d < 16 \<Longrightarrow> hex_val (hex_digit d) = d"
  by (simp add: hex_val_def of_char_hex_digit)

lemma hex_digit_not_percent: "d < 16 \<Longrightarrow> hex_digit d \<noteq> CHR ''%''"
  using of_char_hex_digit [of d] by (auto split: if_splits)

lemma slash_code: "(char_of (47 :: nat) :: char) = slash"
  by code_simp

lemma escape_byte_of_slash: "escape_byte slash = ''%2F''"
  by code_simp

lemma unescape_plain: "a \<noteq> CHR ''%'' \<Longrightarrow> unescape_slash (a # s) = a # unescape_slash s"
  by (cases s rule: unescape_slash.cases; cases s) auto

definition escape :: "char \<Rightarrow> string" where
  "escape c = (if uri_unreserved c then [c] else escape_byte c)"

lemma byte_bound: "(of_char c :: nat) < 256"
  by simp

lemma byte_halves: "(of_char c :: nat) div 16 < 16" "(of_char c :: nat) mod 16 < 16"
  using byte_bound [of c] by (simp_all add: div_less_iff_less_mult)

lemma escape_byte_slash:
  assumes "escape_byte c = ''%2F''"
  shows "c = slash"
proof -
  have "hex_val (hex_digit ((of_char c :: nat) div 16)) = hex_val (CHR ''2'')"
    "hex_val (hex_digit ((of_char c :: nat) mod 16)) = hex_val (CHR ''F'')"
    using assms by (simp_all add: escape_byte_def Let_def)
  then have "(of_char c :: nat) div 16 = 2" "(of_char c :: nat) mod 16 = 15"
    by (simp_all add: hex_val_digit byte_halves) (simp_all add: hex_val_def)
  then have "(of_char c :: nat) = 47" by presburger
  then have "char_of (of_char c :: nat) = (char_of (47 :: nat) :: char)" by simp
  then show ?thesis by (simp add: slash_code)
qed

lemma unescape_escape:
  "unescape_slash (escape c @ s) = (if c = slash then [slash] else escape c) @ unescape_slash s"
proof (cases "uri_unreserved c")
  case True
  then have "c \<noteq> CHR ''%''" "c \<noteq> slash" by (auto simp: uri_unreserved_def)
  with True show ?thesis by (simp add: escape_def unescape_plain)
next
  case False
  obtain a b where ab: "escape_byte c = [CHR ''%'', a, b]" "a \<noteq> CHR ''%''" "b \<noteq> CHR ''%''"
    by (simp add: escape_byte_def Let_def hex_digit_not_percent byte_halves)
  show ?thesis
  proof (cases "c = slash")
    case True
    then show ?thesis by (simp add: escape_def uri_unreserved_def escape_byte_of_slash)
  next
    case nslash: False
    then have "[CHR ''%'', a, b] \<noteq> ''%2F''" using escape_byte_slash ab(1) by metis
    then show ?thesis using False ab nslash by (auto simp: escape_def unescape_plain)
  qed
qed

lemma copy_source_escape:
  "copy_source b k = b @ [slash] @ concat (map (\<lambda>c. if c = slash then [slash] else escape c) k)"
proof -
  have "unescape_slash (concat (map escape k)) = concat (map (\<lambda>c. if c = slash then [slash] else escape c) k)"
    by (induction k) (simp_all add: unescape_escape)
  then show ?thesis by (simp add: copy_source_def encodeURIComponent_def escape_def [abs_def])
qed

lemma decode_escape: "uri_decode ((if c = slash then [slash] else escape c) @ s) = c # uri_decode s"
proof (cases "c = slash \<or> uri_unreserved c")
  case True
  then have "c \<noteq> CHR ''%''" by (auto simp: uri_unreserved_def)
  with True show ?thesis by (auto simp: escape_def)
next
  case False
  have "16 * ((of_char c :: nat) div 16) + of_char c mod 16 = (of_char c :: nat)" by simp
  then show ?thesis
    using False by (simp add: escape_def escape_byte_def Let_def hex_val_digit byte_halves)
qed

lemma decode_copy_source:
  "uri_decode (drop (length b + 1) (copy_source b k)) = k"
proof -
  have "uri_decode (concat (map (\<lambda>c. if c = slash then [slash] else escape c) k)) = k"
    by (induction k) (simp_all only: concat.simps list.map decode_escape uri_decode.simps)
  then show ?thesis by (simp add: copy_source_escape)
qed

section \<open>A service in memory\<close>

type_synonym mem = "((string \<times> string) \<times> string) list"

definition mem_objs :: "mem \<Rightarrow> string \<Rightarrow> string \<rightharpoonup> string" where
  "mem_objs w b k = map_of w (b, k)"

definition mem_put :: "string \<Rightarrow> string \<Rightarrow> string \<Rightarrow> mem \<Rightarrow> mem" where
  "mem_put b k v w = ((b, k), v) # w"

definition mem_del :: "string \<Rightarrow> string \<Rightarrow> mem \<Rightarrow> mem" where
  "mem_del b k w = filter (\<lambda>e. fst e \<noteq> (b, k)) w"

definition mem_del_many :: "string \<Rightarrow> string option list \<Rightarrow> mem \<Rightarrow> mem" where
  "mem_del_many b ks w = filter (\<lambda>e. \<not> (fst (fst e) = b \<and> Some (snd (fst e)) \<in> set ks)) w"

definition mem_keys :: "mem \<Rightarrow> string \<Rightarrow> string \<Rightarrow> string option \<Rightarrow> string list" where
  "mem_keys w b pf token = sort (remdups (map (snd \<circ> fst) (filter (\<lambda>e. fst (fst e) = b
     \<and> starts_with (snd (fst e)) pf \<and> (case token of None \<Rightarrow> True | Some t \<Rightarrow> t < snd (fst e))) w)))"

definition mem_object :: "mem \<Rightarrow> string \<Rightarrow> string \<Rightarrow> s3_object" where
  "mem_object w b k = \<lparr>o_Key = Some k, o_Size = map_option (int \<circ> length) (mem_objs w b k),
     o_LastModified = Some 0, o_ETag = None\<rparr>"

definition mem_page :: "mem \<Rightarrow> string \<Rightarrow> string list \<Rightarrow> nat \<Rightarrow> s3_response" where
  "mem_page w b ks n = empty_response\<lparr>r_Contents := map (mem_object w b) (take n ks),
     r_NextContinuationToken := (if n < length ks then Some (last (take n ks)) else None),
     r_KeyCount := Some (int (length (take n ks)))\<rparr>"

fun mem_send :: "mem s3_send" where
  "mem_send (ListObjectsV2 b pf delim token n) w = (Inr (mem_page w b (mem_keys w b pf token) (nat n)), w)"
| "mem_send (PutObject b k body) w = (Inr empty_response, mem_put b k body w)"
| "mem_send (DeleteObject b k) w = (Inr empty_response, mem_del b k w)"
| "mem_send (DeleteObjects b ks quiet) w = (Inr empty_response, mem_del_many b ks w)"
| "mem_send (CopyObject b dst src) w =
     (case mem_objs w b (uri_decode (drop (length b + 1) src)) of
        None \<Rightarrow> (Inl (PlainError ''NoSuchKey''), w)
      | Some v \<Rightarrow> (Inr empty_response, mem_put b dst v w))"
| "mem_send c w = (Inr empty_response, w)"

lemma mem_objs_put: "mem_objs (mem_put b k v w) = (mem_objs w)(b := (mem_objs w b)(k \<mapsto> v))"
  by (intro ext) (auto simp: mem_objs_def mem_put_def)

lemma mem_objs_del: "mem_objs (mem_del b k w) = (mem_objs w)(b := (mem_objs w b)(k := None))"
proof (intro ext)
  fix b' k'
  have "map_of (filter (\<lambda>e. fst e \<noteq> (b, k)) w) (b', k') = (if (b', k') = (b, k) then None else map_of w (b', k'))"
    by (induction w) auto
  then show "mem_objs (mem_del b k w) b' k' = ((mem_objs w)(b := (mem_objs w b)(k := None))) b' k'"
    by (simp add: mem_objs_def mem_del_def)
qed

lemma mem_dom: "mem_objs w b k \<noteq> None \<longleftrightarrow> (b, k) \<in> fst ` set w"
  by (simp add: mem_objs_def map_of_eq_None_iff)

lemma mem_keys_set: "set (mem_keys w b pf token) = keys_after (mem_objs w b) pf token"
proof -
  have "k \<in> set (mem_keys w b pf token) \<longleftrightarrow> (b, k) \<in> fst ` set w \<and> prefix pf k
      \<and> (case token of None \<Rightarrow> True | Some t \<Rightarrow> t < k)" for k
  proof -
    have "(b, k) \<in> fst ` set w \<longleftrightarrow> (\<exists>v. ((b, k), v) \<in> set w)" by force
    moreover have "k \<in> set (mem_keys w b pf token) \<longleftrightarrow> (\<exists>v. ((b, k), v) \<in> set w) \<and> prefix pf k
      \<and> (case token of None \<Rightarrow> True | Some t \<Rightarrow> t < k)"
      unfolding mem_keys_def starts_with_prefix
      by (cases token) (auto simp: image_iff Bex_def split_paired_Ex)
    ultimately show ?thesis by blast
  qed
  then show ?thesis
    unfolding mem_dom [symmetric] by (auto simp: keys_after_def)
qed

text \<open>Cutting an ascending list: what lies beyond the cut's last element is the rest.\<close>

lemma beyond_cut:
  assumes "sorted_wrt (<) (ks :: string list)" and "0 < n" and "n < length ks"
  shows "take n ks \<noteq> [] \<and> last (take n ks) \<in> set ks
    \<and> set ks = set (take n ks) \<union> {k \<in> set ks. last (take n ks) < k}"
proof -
  have ne: "take n ks \<noteq> []" using assms(2,3) by auto
  have srt: "sorted_wrt (<) (take n ks @ drop n ks)" using assms(1) by simp
  then have "\<forall>x\<in>set (take n ks). \<forall>y\<in>set (drop n ks). x < y" unfolding sorted_wrt_append by blast
  then have "\<forall>y\<in>set (drop n ks). last (take n ks) < y" using ne by simp
  moreover have "set ks = set (take n ks) \<union> set (drop n ks)" by (metis append_take_drop_id set_append)
  moreover have "last (take n ks) \<in> set ks" using ne last_in_set set_take_subset by (metis subsetD)
  ultimately show ?thesis using ne by blast
qed

lemma mem_keys_sorted: "sorted_wrt (<) (mem_keys w b pf token)"
  by (simp add: mem_keys_def strict_sorted_iff)

lemma mem_copy_contract: "copy_contract mem_send mem_objs"
  unfolding copy_contract_def
proof (intro allI impI)
  fix b src dst w r and w' :: mem assume "mem_send (CopyObject b dst (copy_source b src)) w = (r, w')"
  then show "case r of
        Inr _ \<Rightarrow> mem_objs w b src \<noteq> None \<and> mem_objs w' = (mem_objs w)(b := copied_to (mem_objs w b) src dst)
      | Inl _ \<Rightarrow> mem_objs w' = mem_objs w \<or>
          (mem_objs w b src \<noteq> None \<and> mem_objs w' = (mem_objs w)(b := copied_to (mem_objs w b) src dst))"
    using decode_copy_source [of b src]
    by (auto simp: mem_objs_put copied_to_def split: option.splits)
qed

lemma mem_delete_contract: "delete_contract mem_send mem_objs"
  by (auto simp: delete_contract_def mem_objs_del split: sum.splits)

lemma mem_list_contract: "list_contract mem_send mem_objs id"
  unfolding list_contract_def
proof (intro allI impI)
  fix b pf token and n :: int and w r and w' :: mem
  assume n: "1 \<le> n" and pne: "pf \<noteq> []" and s: "mem_send (ListObjectsV2 b pf None token n) w = (r, w')"
  let ?K = "mem_keys w b pf token" and ?n = "nat n"
  have srt: "sorted_wrt (<) ?K" by (rule mem_keys_sorted)
  have ne: "\<forall>k\<in>set ?K. k \<noteq> []" using pne by (auto simp: mem_keys_set keys_after_def)
  have tne: "\<forall>k\<in>set (take ?n ?K). k \<noteq> []" using ne set_take_subset by (metis subsetD)
  have keys: "o_Key (mem_object w b k) = Some k" for k
    by (simp add: mem_object_def)
  have "page_of_keys id (mem_objs w b) pf token (mem_page w b ?K ?n)"
  proof (cases "?n < length ?K")
    case True
    let ?l = "last (take ?n ?K)"
    have "0 < ?n" using n by simp
    note cut = beyond_cut [OF srt this True]
    have "keys_after (mem_objs w b) pf (Some ?l) = {k \<in> set ?K. ?l < k}"
    proof -
      have "?l \<in> keys_after (mem_objs w b) pf token" using cut mem_keys_set by metis
      then show ?thesis by (auto simp: mem_keys_set keys_after_def split: option.splits)
    qed
    then have "keys_after (mem_objs w b) pf token = set (take ?n ?K) \<union> keys_after (mem_objs w b) pf (Some ?l)"
      using cut mem_keys_set by metis
    moreover have "?l \<noteq> []" using ne cut by blast
    moreover have "sorted_wrt (<) (take ?n ?K)" using srt by (rule sorted_wrt_take)
    moreover have "set (take ?n ?K) \<subseteq> keys_after (mem_objs w b) pf token"
      using set_take_subset mem_keys_set by metis
    ultimately show ?thesis
      unfolding page_of_keys_def using True cut tne keys
      by (intro exI [of _ "take ?n ?K"]) (simp add: mem_page_def empty_response_def option.map_id)
  next
    case False
    then show ?thesis
      unfolding page_of_keys_def using srt ne keys
      by (intro exI [of _ ?K]) (simp add: mem_page_def empty_response_def option.map_id mem_keys_set)
  qed
  then show "mem_objs w' = mem_objs w \<and> (case r of Inl e \<Rightarrow> e \<noteq> Diverges | Inr resp \<Rightarrow> page_of_keys id (mem_objs w b) pf token resp)"
    using s by auto
qed

end
