(* ===== verification/S3Rename.thy ===== *)
theory S3Rename
  imports S3Store
begin

text \<open>
  Renaming a folder loses no data: an invariant of the worker pool that runs \<open>renameFolder\<close>, for
  every interleaving of the copies and deletions and every pattern of failed requests, as long as
  neither folder contains the other.
\<close>

section \<open>One item\<close>

text \<open>Where the content of item \<open>i\<close> is: what is stored at its source and at its destination.\<close>

type_synonym place = "string option \<times> string option"

definition place_of :: "(string \<rightharpoonup> string) \<Rightarrow> string \<Rightarrow> string \<Rightarrow> place" where
  "place_of m src dst = (m src, m dst)"

definition item_failed :: "string \<Rightarrow> rename_acc \<Rightarrow> bool" where
  "item_failed src a \<longleftrightarrow> (\<exists>e\<in>set (ra_failed a). ri_sourceKey e = src)"

text \<open>An item that is dealt with: moved, or reported as failed with its content at one end.\<close>

definition item_final :: "string \<Rightarrow> string option \<Rightarrow> place \<Rightarrow> rename_acc \<Rightarrow> bool" where
  "item_final src x pl a \<longleftrightarrow> pl = (None, x) \<or> (item_failed src a \<and> (fst pl = x \<or> snd pl = x))"

definition item_state ::
  "'w s3_send \<Rightarrow> string \<Rightarrow> string \<Rightarrow> string \<Rightarrow> string \<Rightarrow> string option
    \<Rightarrow> ('w \<times> rename_acc, http_error, unit) thread \<Rightarrow> place \<Rightarrow> rename_acc \<Rightarrow> bool" where
  "item_state send b sp tp src x t pl a \<longleftrightarrow>
     ((t = rename_item send b sp tp src 0 \<or> t = rename_copy send b src (destination sp tp src)) \<and> fst pl = x)
     \<or> (t = rename_delete send b src (destination sp tp src) \<and> pl = (x, x))
     \<or> (t = Ret () \<and> item_final src x pl a)"

lemma rename_item_index: "rename_item send b sp tp src i = rename_item send b sp tp src 0"
  by (simp add: rename_item_def)

lemma acc_failed_simps [simp]:
  "ra_failed (report a) = ra_failed a" "ra_failed (on_copied a) = ra_failed a"
  "ra_failed (on_processed a) = ra_failed a" "ra_failed (on_deleted a) = ra_failed a"
  "ra_failed (on_copy_failed src dst e a) = ra_failed a @ [item_error src dst Stage_copy e]"
  "ra_failed (on_delete_failed src dst e a) = ra_failed a @ [item_error src dst Stage_delete e]"
  by (simp_all add: report_def on_copied_def on_processed_def on_deleted_def on_copy_failed_def
      on_delete_failed_def)

lemma item_error_source [simp]: "ri_sourceKey (item_error src dst st e) = src"
  by (simp add: item_error_def)

text \<open>The stores an item's step can lead to: they differ at its two keys only.\<close>

definition touches :: "string \<Rightarrow> string \<Rightarrow> string \<Rightarrow> (string \<Rightarrow> string \<rightharpoonup> string) \<Rightarrow> (string \<Rightarrow> string \<rightharpoonup> string) \<Rightarrow> bool" where
  "touches b src dst m m' \<longleftrightarrow> (\<forall>b' k. b' \<noteq> b \<or> k \<noteq> src \<and> k \<noteq> dst \<longrightarrow> m' b' k = m b' k)"

lemma item_step:
  assumes cc: "copy_contract send objs" and dc: "delete_contract send objs"
    and st: "item_state send b sp tp src x t (place_of (objs w b) src (destination sp tp src)) a"
    and x: "x \<noteq> None" and ne: "src \<noteq> destination sp tp src"
    and await: "t = Await f" and f: "f (w, a) = (t', (w', a'))"
  shows "item_state send b sp tp src x t' (place_of (objs w' b) src (destination sp tp src)) a'
    \<and> touches b src (destination sp tp src) (objs w) (objs w')
    \<and> set (ra_failed a) \<subseteq> set (ra_failed a')"
proof -
  let ?d = "destination sp tp src"
  consider (item) "t = rename_item send b sp tp src 0" "objs w b src = x"
    | (copy) "t = rename_copy send b src ?d" "objs w b src = x"
    | (del) "t = rename_delete send b src ?d" "objs w b src = x" "objs w b ?d = x"
    using st await by (auto simp: item_state_def place_of_def)
  then show ?thesis
  proof cases
    case item
    then show ?thesis
      using await f by (auto simp: rename_item_def item_state_def place_of_def touches_def)
  next
    case copy
    obtain r w1 where s: "send (CopyObject b ?d (copy_source b src)) w = (r, w1)" by fastforce
    then have c: "case r of
        Inr _ \<Rightarrow> objs w b src \<noteq> None \<and> objs w1 = (objs w)(b := copied_to (objs w b) src ?d)
      | Inl _ \<Rightarrow> objs w1 = objs w \<or>
          (objs w b src \<noteq> None \<and> objs w1 = (objs w)(b := copied_to (objs w b) src ?d))"
      using cc unfolding copy_contract_def by blast
    show ?thesis
      using copy await f s c ne
      by (cases r) (auto simp: rename_copy_def item_state_def place_of_def touches_def copied_to_def
          item_final_def item_failed_def)
  next
    case del
    obtain r w1 where s: "send (DeleteObject b src) w = (r, w1)" by fastforce
    then have c: "case r of
        Inr _ \<Rightarrow> objs w1 = (objs w)(b := (objs w b)(src := None))
      | Inl _ \<Rightarrow> objs w1 = objs w \<or> objs w1 = (objs w)(b := (objs w b)(src := None))"
      using dc unfolding delete_contract_def by blast
    show ?thesis
      using del await f s c ne
      by (cases r) (auto simp: rename_delete_def item_state_def place_of_def touches_def
          item_final_def item_failed_def)
  qed
qed

lemma item_never_raises: "item_state send b sp tp src x (Raise e) pl a \<Longrightarrow> False"
  by (simp add: item_state_def rename_item_def rename_copy_def rename_delete_def)

lemma item_state_frame:
  "item_state send b sp tp src x t (place_of m src d) a \<Longrightarrow> m' src = m src \<Longrightarrow> m' d = m d
    \<Longrightarrow> set (ra_failed a) \<subseteq> set (ra_failed a') \<Longrightarrow> item_state send b sp tp src x t (place_of m' src d) a'"
  by (auto simp: item_state_def place_of_def item_final_def item_failed_def)

section \<open>All items\<close>

text \<open>Two different sources of disjoint folders have four different keys.\<close>

definition apart :: "string \<Rightarrow> string \<Rightarrow> bool" where
  "apart sp tp \<longleftrightarrow> \<not> prefix sp tp \<and> \<not> prefix tp sp"

lemma prefix_append_drop: "prefix p k \<Longrightarrow> k = p @ drop (length p) k"
  by (auto simp: prefix_def)

lemma apart_keys:
  assumes "apart sp tp" and "prefix sp k"
  shows "\<not> prefix tp k"
  using assms prefix_same_cases by (auto simp: apart_def)

lemma destination_prefix: "prefix tp (destination sp tp k)"
  by (simp add: destination_def)

lemma destination_apart:
  assumes "apart sp tp" and "prefix sp k" and "prefix sp k'"
  shows "destination sp tp k \<noteq> k'"
  using apart_keys [OF assms(1,3)] destination_prefix by metis

lemma destination_inj:
  "prefix sp k \<Longrightarrow> prefix sp k' \<Longrightarrow> destination sp tp k = destination sp tp k' \<Longrightarrow> k = k'"
  by (metis destination_def prefix_append_drop same_append_eq)

definition rename_inv ::
  "'w s3_send \<Rightarrow> 'w objects \<Rightarrow> string \<Rightarrow> string \<Rightarrow> string \<Rightarrow> string list \<Rightarrow> (string \<Rightarrow> string \<rightharpoonup> string)
    \<Rightarrow> int \<Rightarrow> ('w \<times> rename_acc, http_error, unit) pool \<times> 'w \<times> rename_acc \<Rightarrow> bool" where
  "rename_inv send objs b sp tp keys m0 c z \<longleftrightarrow> (case z of (p, w, a) \<Rightarrow>
     pool_ok (map Some keys) c (rename_item send b sp tp) p \<and> pl_failure p = None
     \<and> (\<forall>j i t. busy_at (pl_workers p) j i t \<longrightarrow>
          item_state send b sp tp (keys ! i) (m0 b (keys ! i)) t
            (place_of (objs w b) (keys ! i) (destination sp tp (keys ! i))) a)
     \<and> (\<forall>i<length keys. pl_cursor p \<le> i \<longrightarrow> objs w b (keys ! i) = m0 b (keys ! i))
     \<and> (\<forall>i<length keys. pl_result p ! i \<noteq> None \<longrightarrow>
          item_final (keys ! i) (m0 b (keys ! i)) (place_of (objs w b) (keys ! i) (destination sp tp (keys ! i))) a)
     \<and> (\<forall>b' k. b' \<noteq> b \<or> k \<notin> set keys \<and> k \<notin> destination sp tp ` set keys \<longrightarrow> objs w b' k = m0 b' k))"

lemma rename_inv_step:
  assumes cc: "copy_contract send objs" and dc: "delete_contract send objs"
    and ap: "apart sp tp" and pk: "\<forall>k\<in>set keys. prefix sp k \<and> m0 b k \<noteq> None" and dist: "distinct keys"
    and inv: "rename_inv send objs b sp tp keys m0 c (p, w, a)"
  shows "rename_inv send objs b sp tp keys m0 c (pool_step (map Some keys) (rename_item send b sp tp) i (p, w, a))"
proof -
  let ?m = "rename_item send b sp tp"
  obtain q w' a' where q: "pool_step (map Some keys) ?m i (p, w, a) = (q, (w', a'))"
    by (metis prod.exhaust)
  have ok: "pool_ok (map Some keys) c ?m q"
    using inv pool_ok_step [of "map Some keys" c ?m p i "(w, a)"] q by (simp add: rename_inv_def)
  have okp: "pool_ok (map Some keys) c ?m p" using inv by (simp add: rename_inv_def)
  have states: "item_state send b sp tp (keys ! k) (m0 b (keys ! k)) t
      (place_of (objs w b) (keys ! k) (destination sp tp (keys ! k))) a"
    if "busy_at (pl_workers p) j k t" for j k t
    using inv that by (simp add: rename_inv_def)
  from q show ?thesis
  proof (cases rule: pool_step_cases)
    case stutter
    then show ?thesis using inv q by simp
  next
    case stop
    then show ?thesis using inv q ok by (auto simp: rename_inv_def)
  next
    case hole
    then show ?thesis by simp
  next
    case (start item)
    then have "item = keys ! pl_cursor p" "pl_cursor p < length keys" by auto
    then show ?thesis
      using inv q ok start
      by (auto simp: rename_inv_def item_state_def rename_item_index [of send b sp tp _ "pl_cursor p"] place_of_def)
  next
    case (ret index r)
    have ba: "busy_at (pl_workers p) i index (Ret r)" using ret by (simp add: busy_atI)
    from states [OF this] have "item_final (keys ! index) (m0 b (keys ! index))
        (place_of (objs w b) (keys ! index) (destination sp tp (keys ! index))) a"
      by (simp add: item_state_def rename_item_def rename_copy_def rename_delete_def)
    then show ?thesis
      using inv q ok ret by (simp add: rename_inv_def) (metis nth_list_update_neq)
  next
    case (raise index e)
    then have "busy_at (pl_workers p) i index (Raise e)" by (simp add: busy_atI)
    from item_never_raises [OF states [OF this]] show ?thesis ..
  next
    case (await index f t)
    let ?src = "keys ! index" and ?dst = "destination sp tp (keys ! index)"
    have ba: "busy_at (pl_workers p) i index (Await f)" using await by (simp add: busy_atI)
    have holds: "holds_apart p" "holds_ok (map Some keys) ?m p" using okp by (simp_all add: pool_ok_def)
    note idx = holds_okD [OF holds(2) ba, simplified]
    have st: "item_state send b sp tp ?src (m0 b ?src) (Await f) (place_of (objs w b) ?src ?dst) a"
      by (rule states [OF ba])
    have src: "prefix sp ?src" "m0 b ?src \<noteq> None" using pk idx(1) by simp_all
    have step: "item_state send b sp tp ?src (m0 b ?src) t (place_of (objs w' b) ?src ?dst) a'"
      and tch: "touches b ?src ?dst (objs w) (objs w')" and mono: "set (ra_failed a) \<subseteq> set (ra_failed a')"
      using item_step [OF cc dc st src(2) destination_apart [OF ap src(1,1), symmetric] refl await(3)] by auto
    have other: "objs w' b (keys ! k) = objs w b (keys ! k)
        \<and> objs w' b (destination sp tp (keys ! k)) = objs w b (destination sp tp (keys ! k))"
      if "k < length keys" "k \<noteq> index" for k
    proof -
      have k: "prefix sp (keys ! k)" "keys ! k \<noteq> ?src"
        using pk that idx(1) dist by (auto simp: nth_eq_iff_index_eq)
      then have "destination sp tp (keys ! k) \<noteq> ?dst" using destination_inj [OF _ src(1)] by blast
      then show ?thesis
        using k tch destination_apart [OF ap k(1) src(1)] destination_apart [OF ap src(1) k(1)]
        by (auto simp: touches_def)
    qed
    have busy: "j = i" if "busy_at (pl_workers p) j index s" for j s
      by (rule holds_apartD [OF holds(1) that ba])
    have busy': "item_state send b sp tp (keys ! k) (m0 b (keys ! k)) s
          (place_of (objs w' b) (keys ! k) (destination sp tp (keys ! k))) a'"
      if "busy_at (pl_workers p) j k s" "j \<noteq> i" for j k s
    proof -
      have "k \<noteq> index" using busy that by blast
      then have "objs w' b (keys ! k) = objs w b (keys ! k)
          \<and> objs w' b (destination sp tp (keys ! k)) = objs w b (destination sp tp (keys ! k))"
        using other holds_okD(1) [OF holds(2) that(1)] by simp
      then show ?thesis
        using item_state_frame [OF states [OF that(1)] _ _ mono] by simp
    qed
    have fin: "item_final (keys ! k) (m0 b (keys ! k)) (place_of (objs w' b) (keys ! k) (destination sp tp (keys ! k))) a'"
      if "k < length keys" "pl_result p ! k \<noteq> None" for k
    proof -
      have "k \<noteq> index" using that idx(3) by auto
      then show ?thesis
        using other that inv mono by (fastforce simp: rename_inv_def item_final_def place_of_def item_failed_def)
    qed
    have frame: "objs w' b' k = m0 b' k"
      if "b' \<noteq> b \<or> k \<notin> set keys \<and> k \<notin> destination sp tp ` set keys" for b' k
    proof -
      have "?src \<in> set keys" using idx(1) by simp
      then have "b' \<noteq> b \<or> k \<noteq> ?src \<and> k \<noteq> ?dst" using that by blast
      then have "objs w' b' k = objs w b' k" using tch unfolding touches_def by blast
      also have "\<dots> = m0 b' k" using inv that unfolding rename_inv_def by blast
      finally show ?thesis .
    qed
    have pend: "objs w' b (keys ! k) = m0 b (keys ! k)" if "k < length keys" "pl_cursor p \<le> k" for k
      using other [of k] that idx(2) inv by (auto simp: rename_inv_def)
    show ?thesis
      unfolding q rename_inv_def prod.case
    proof (intro conjI allI impI)
      show "pool_ok (map Some keys) c ?m q" by (rule ok)
      show "pl_failure q = None" using inv await by (simp add: rename_inv_def)
    next
      fix j k s assume "busy_at (pl_workers q) j k s"
      then show "item_state send b sp tp (keys ! k) (m0 b (keys ! k)) s
          (place_of (objs w' b) (keys ! k) (destination sp tp (keys ! k))) a'"
        using await step busy' by (auto split: if_splits)
    qed (use await fin frame pend in auto)
  qed
qed

section \<open>The whole rename\<close>

lemma listAllKeys_keys:
  assumes "list_contract send objs pos" and "sp \<noteq> []" and "listAllKeys send fuel b sp None w = (Inr keys, w1)"
  shows "objs w1 = objs w \<and> distinct keys \<and> set keys = {k. prefix sp k \<and> objs w b k \<noteq> None}"
  using listAllKeys_spec [OF assms(1,2,3)]
  by (auto simp: keys_after_def strict_sorted_iff domIff)

lemma rename_inv_start:
  assumes "distinct keys"
  shows "rename_inv send objs b sp tp keys (objs w) c (pool_init c (map Some keys), w, rename_start keys)"
  using pool_ok_init [of "map Some keys" c "rename_item send b sp tp"]
  by (auto simp: rename_inv_def pool_init_def busy_at_def)

text \<open>In every state of the pool each item has its content at one of its two keys.\<close>

lemma rename_inv_item:
  assumes inv: "rename_inv send objs b sp tp keys m0 c (p, w, a)" and i: "i < length keys"
  shows "objs w b (keys ! i) = m0 b (keys ! i) \<or> objs w b (destination sp tp (keys ! i)) = m0 b (keys ! i)"
    and "pool_done p \<Longrightarrow> item_final (keys ! i) (m0 b (keys ! i))
      (place_of (objs w b) (keys ! i) (destination sp tp (keys ! i))) a"
proof -
  have ok: "pool_ok (map Some keys) c (rename_item send b sp tp) p" and nf: "pl_failure p = None"
    using inv by (simp_all add: rename_inv_def)
  have nl: "nothing_lost (map Some keys) p" using ok by (simp add: pool_ok_def)
  have final: "pl_result p ! i \<noteq> None \<Longrightarrow> item_final (keys ! i) (m0 b (keys ! i))
      (place_of (objs w b) (keys ! i) (destination sp tp (keys ! i))) a"
    using inv i by (simp add: rename_inv_def)
  consider "pl_cursor p \<le> i" | "pl_result p ! i \<noteq> None" | j t where "busy_at (pl_workers p) j i t"
    using nl nf i by (auto simp: nothing_lost_def)
  then show "objs w b (keys ! i) = m0 b (keys ! i) \<or> objs w b (destination sp tp (keys ! i)) = m0 b (keys ! i)"
  proof cases
    case 1
    then show ?thesis using inv i by (simp add: rename_inv_def)
  next
    case 2
    from final [OF this] show ?thesis by (auto simp: item_final_def place_of_def)
  next
    case (3 j t)
    then have "item_state send b sp tp (keys ! i) (m0 b (keys ! i)) t
      (place_of (objs w b) (keys ! i) (destination sp tp (keys ! i))) a"
      using inv by (simp add: rename_inv_def)
    then show ?thesis by (auto simp: item_state_def item_final_def place_of_def)
  qed
  assume pd: "pool_done p"
  have "pl_workers p \<noteq> []" using ok pool_size_pos by (metis list.size(3) not_one_le_zero pool_ok_def)
  then have "stopped_at (pl_workers p) 0" using pd by (simp add: stopped_at_def pool_done_iff)
  then have "i < pl_cursor p" using nl nf i by (force simp: nothing_lost_def)
  moreover have "\<not> busy_at (pl_workers p) j i t" for j t
    using pd unfolding busy_at_def pool_done_iff by (metis nth_mem worker.distinct(5))
  ultimately have "pl_result p ! i \<noteq> None" using nl nf i by (auto simp: nothing_lost_def)
  then show "item_final (keys ! i) (m0 b (keys ! i))
      (place_of (objs w b) (keys ! i) (destination sp tp (keys ! i))) a" by (rule final)
qed

text \<open>
  C9. Renaming a folder loses nothing: if neither folder contains the other, then under every
  interleaving of the concurrent copies and deletions and every pattern of failed requests (a
  failed request may still have taken effect), also when the run is cut short, each object of the
  source folder is still at its old key or already at its new key, and no object outside the two
  folders changes. When the run ends and reports no failure, every object has moved.
\<close>

theorem folder_rename_safe:
  assumes contracts: "copy_contract send objs" "delete_contract send objs" "list_contract send objs pos"
    and ap: "apart (normalizePrefix op) (normalizePrefix np)"
    and run: "renameFolder send fuel sched op np b c w = (r, w')"
  shows "let sp = normalizePrefix op; dest = destination sp (normalizePrefix np) in
    (\<forall>k x. prefix sp k \<and> objs w b k = Some x \<longrightarrow> objs w' b k = Some x \<or> objs w' b (dest k) = Some x)
    \<and> (\<forall>b' k. b' \<noteq> b \<or> \<not> prefix sp k \<and> \<not> prefix (normalizePrefix np) k \<longrightarrow> objs w' b' k = objs w b' k)
    \<and> (case r of Inl e \<Rightarrow> True | Inr (res, reps) \<Rightarrow> rr_failed res = [] \<longrightarrow>
        (\<forall>k x. prefix sp k \<and> objs w b k = Some x \<longrightarrow> objs w' b k = None \<and> objs w' b (dest k) = Some x))"
proof -
  let ?sp = "normalizePrefix op" and ?tp = "normalizePrefix np"
  have neq: "?sp \<noteq> ?tp" and sne: "?sp \<noteq> []" using ap by (auto simp: apart_def)
  obtain q w1 where q: "listAllKeys send fuel b ?sp None w = (q, w1)" by fastforce
  show ?thesis
  proof (cases q)
    case (Inl e)
    have "objs w1 = objs w" using listAllKeys_spec [OF contracts(3) sne q] by simp
    then show ?thesis using run q Inl neq by (auto simp: renameFolder_def Let_def eff_simps)
  next
    case (Inr keys)
    note keys = listAllKeys_keys [OF contracts(3) sne q [unfolded Inr]]
    obtain p w2 a where z: "mapWithConcurrency (map Some keys) c (rename_item send b ?sp ?tp) sched
        (w1, rename_start keys) = (p, w2, a)" by (metis prod.exhaust)
    have pk: "\<forall>k\<in>set keys. prefix ?sp k \<and> objs w1 b k \<noteq> None" using keys by simp
    have step: "rename_inv send objs b ?sp ?tp keys (objs w1) c
        (pool_step (map Some keys) (rename_item send b ?sp ?tp) i (q, v))"
      if "rename_inv send objs b ?sp ?tp keys (objs w1) c (q, v)" for i q v
      using rename_inv_step [where ?m0.0 = "objs w1" and keys = keys and b = b, OF contracts(1,2) ap pk] keys that
      by (cases v) simp
    have inv: "rename_inv send objs b ?sp ?tp keys (objs w1) c (p, w2, a)"
      unfolding z [symmetric] mapWithConcurrency_def
      by (rule pool_run_invariant [where I = "rename_inv send objs b ?sp ?tp keys (objs w1) c"])
         (use step keys rename_inv_start [of keys send objs b ?sp ?tp w1 c] in auto)
    have r: "w' = w2" "r = Inr (res, reps) \<Longrightarrow> pool_done p \<and> rr_failed res = ra_failed a" for res reps
      using run q Inr neq z by (auto simp: renameFolder_def Let_def eff_simps split: if_splits)
    have item: "\<exists>i<length keys. k = keys ! i" if "prefix ?sp k" "objs w b k = Some x" for k x
      using that keys by (metis (mono_tags, lifting) in_set_conv_nth mem_Collect_eq option.distinct(1))
    have safe: "objs w2 b k = Some x \<or> objs w2 b (destination ?sp ?tp k) = Some x"
      if hit: "prefix ?sp k" "objs w b k = Some x" for k x
    proof -
      obtain i where i: "i < length keys" "k = keys ! i" using item [OF hit] by blast
      show ?thesis using rename_inv_item(1) [OF inv i(1)] keys hit(2) i(2) by auto
    qed
    have frame: "objs w2 b' k = objs w b' k" if "b' \<noteq> b \<or> \<not> prefix ?sp k \<and> \<not> prefix ?tp k" for b' k
    proof -
      have "b' \<noteq> b \<or> k \<notin> set keys \<and> k \<notin> destination ?sp ?tp ` set keys"
        using that keys destination_prefix by fastforce
      then show ?thesis using inv keys by (simp add: rename_inv_def)
    qed
    have moved: "objs w2 b k = None \<and> objs w2 b (destination ?sp ?tp k) = Some x"
      if hit: "pool_done p" "ra_failed a = []" "prefix ?sp k" "objs w b k = Some x" for k x
    proof -
      obtain i where i: "i < length keys" "k = keys ! i" using item [OF hit(3,4)] by blast
      show ?thesis
        using rename_inv_item(2) [OF inv i(1) hit(1)] keys hit(2,4) i(2)
        by (auto simp: item_final_def item_failed_def place_of_def)
    qed
    show ?thesis
      using safe frame moved r by (auto simp: Let_def split: sum.splits)
  qed
qed

definition demo_world :: mem where
  "demo_world = [((''b'', ''a/1''), ''x''), ((''b'', ''a/s/2''), ''y''), ((''b'', ''z''), ''other'')]"

definition demo_rename :: "(rename_result \<times> rename_progress list) res \<times> mem" where
  "demo_rename = renameFolder mem_send 5 (concat (replicate 12 [1, 0])) ''a'' ''c'' ''b'' 5 demo_world"

lemma demo_rename_result:
  "(case fst demo_rename of Inl e \<Rightarrow> False | Inr (res, reps) \<Rightarrow> rr_failed res = [] \<and> rr_copied res = 2)"
  by code_simp

theorem folder_rename_safe_witness:
  "mem_objs (snd demo_rename) ''b'' ''c/s/2'' = Some ''y'' \<and> mem_objs (snd demo_rename) ''b'' ''z'' = Some ''other''"
proof -
  have norm: "normalizePrefix ''a'' = ''a/''" "normalizePrefix ''c'' = ''c/''" by code_simp+
  have ap: "apart (normalizePrefix ''a'') (normalizePrefix ''c'')" by (simp add: norm apart_def)
  obtain r w' where run: "renameFolder mem_send 5 (concat (replicate 12 [1, 0])) ''a'' ''c'' ''b'' 5 demo_world = (r, w')"
    by fastforce
  then have eq: "demo_rename = (r, w')" by (simp add: demo_rename_def)
  have rr: "\<exists>res reps. r = Inr (res, reps) \<and> rr_failed res = []"
    using demo_rename_result unfolding eq by (cases r) auto
  have content: "mem_objs demo_world ''b'' ''a/s/2'' = Some ''y''" "mem_objs demo_world ''b'' ''z'' = Some ''other''"
    by code_simp+
  note safe = folder_rename_safe [OF mem_copy_contract mem_delete_contract mem_list_contract ap run,
      unfolded Let_def norm]
  obtain res reps where res: "r = Inr (res, reps)" "rr_failed res = []" using rr by blast
  have "mem_objs w' ''b'' (destination ''a/'' ''c/'' ''a/s/2'') = Some ''y''"
    using safe content(1) res by (simp add: prefix_def)
  moreover have "mem_objs w' ''b'' ''z'' = Some ''other''"
    using safe content(2) by (simp add: prefix_def)
  ultimately show ?thesis by (simp add: eq destination_def)
qed

end
