(* ===== verification/S3Delete.thy ===== *)
theory S3Delete
  imports S3Rename
begin

text \<open>
  Deleting a folder: what \<open>deleteFolderByPrefix\<close> removes and that its page loop ends, with the
  hypothesis on \<open>DeleteObjects\<close>; and what the other destructive operations do where one could expect
  otherwise: \<open>deleteFileOrFolder\<close> of a plain key, renames of a key onto itself and of a folder into
  itself.
\<close>

definition error_keys :: "s3_response \<Rightarrow> string set" where
  "error_keys resp = {k. \<exists>m. (Some k, m) \<in> set (r_Errors resp)}"

text \<open>The keys of the request go, but for those reported as errors; a quiet answer lists none of the
  deleted keys; a failed request may have removed some of its keys.\<close>

definition delete_many_contract :: "'w s3_send \<Rightarrow> 'w objects \<Rightarrow> bool" where
  "delete_many_contract send objs \<longleftrightarrow> (\<forall>b ks w r w'. send (DeleteObjects b ks True) w = (r, w') \<longrightarrow>
     (case r of
        Inr resp \<Rightarrow> r_Deleted resp = [] \<and>
          objs w' = (objs w)(b := (\<lambda>k. if Some k \<in> set ks \<and> k \<notin> error_keys resp then None else objs w b k))
      | Inl e \<Rightarrow> e \<noteq> Diverges \<and> (\<exists>S. (\<forall>k\<in>S. Some k \<in> set ks) \<and>
          objs w' = (objs w)(b := (\<lambda>k. if k \<in> S then None else objs w b k)))))"

lemma chunks_concat: "concat (chunks n xs) = xs"
  by (induction n xs rule: chunks.induct) auto

lemma chunks_length: "c \<in> set (chunks n xs) \<Longrightarrow> c \<noteq> [] \<and> length c \<le> Suc n"
  by (induction n xs rule: chunks.induct) auto

text \<open>One chunk and all chunks of a page: they touch the page's keys only, and all of these are gone
  unless a failure is recorded.\<close>

definition removes :: "string \<Rightarrow> string set \<Rightarrow> (string \<Rightarrow> string \<rightharpoonup> string) \<Rightarrow> (string \<Rightarrow> string \<rightharpoonup> string) \<Rightarrow> bool" where
  "removes b K m m' \<longleftrightarrow> (\<forall>b' k. m' b' k = m b' k \<or> b' = b \<and> k \<in> K \<and> m' b' k = None)"

lemma removes_refl: "removes b K m m"
  by (simp add: removes_def)

lemma removes_trans: "removes b K m m' \<Longrightarrow> removes b L m' m'' \<Longrightarrow> removes b (K \<union> L) m m''"
  unfolding removes_def by (metis Un_iff)

lemma removes_mono: "removes b K m m' \<Longrightarrow> K \<subseteq> L \<Longrightarrow> removes b L m m'"
  unfolding removes_def by blast

lemma removes_gone: "removes b K m m' \<Longrightarrow> m b k = None \<Longrightarrow> m' b k = None"
  unfolding removes_def by metis

lemma delete_chunk_spec:
  assumes dm: "delete_many_contract send objs" and run: "delete_chunk send b chunk (d, f) w = (r, w')"
    and ne: "chunk \<noteq> []" and ks: "map o_Key chunk = map Some ks"
  shows "\<exists>d' f'. r = Inr (d', f') \<and> d' = d \<and> (\<exists>g. f' = f @ g) \<and> removes b (set ks) (objs w) (objs w')
     \<and> (f' = [] \<longrightarrow> (\<forall>k\<in>set ks. objs w' b k = None))"
proof -
  obtain q w1 where q: "send (DeleteObjects b (map o_Key chunk) True) w = (q, w1)" by fastforce
  then have c: "case q of
        Inr resp \<Rightarrow> r_Deleted resp = [] \<and>
          objs w1 = (objs w)(b := (\<lambda>k. if Some k \<in> set (map o_Key chunk) \<and> k \<notin> error_keys resp then None else objs w b k))
      | Inl e \<Rightarrow> e \<noteq> Diverges \<and> (\<exists>S. (\<forall>k\<in>S. Some k \<in> set (map o_Key chunk)) \<and>
          objs w1 = (objs w)(b := (\<lambda>k. if k \<in> S then None else objs w b k)))"
    using dm unfolding delete_many_contract_def by blast
  have mem: "Some k \<in> set (map o_Key chunk) \<longleftrightarrow> k \<in> set ks" for k unfolding ks by auto
  show ?thesis
  proof (cases q)
    case (Inl e)
    then show ?thesis
      using c run q ne by (auto simp: delete_chunk_def eff_simps removes_def mem simp del: set_map split: if_splits)
  next
    case (Inr resp)
    have "r_Errors resp = [] \<Longrightarrow> error_keys resp = {}" by (simp add: error_keys_def)
    then show ?thesis
      using c run q Inr by (auto simp: delete_chunk_def eff_simps removes_def mem simp del: set_map)
  qed
qed

lemma delete_chunks_spec:
  assumes dm: "delete_many_contract send objs"
  shows "delete_chunks send b cs (d, f) w = (r, w') \<Longrightarrow> \<forall>c\<in>set cs. c \<noteq> [] \<Longrightarrow>
     map o_Key (concat cs) = map Some ks \<Longrightarrow>
     \<exists>d' f'. r = Inr (d', f') \<and> d' = d \<and> (\<exists>g. f' = f @ g) \<and> removes b (set ks) (objs w) (objs w')
     \<and> (f' = [] \<longrightarrow> (\<forall>k\<in>set ks. objs w' b k = None))"
proof (induction cs arbitrary: d f w ks)
  case (Cons c cs)
  obtain k1 k2 where k: "ks = k1 @ k2" "map o_Key c = map Some k1" "map o_Key (concat cs) = map Some k2"
    using Cons.prems(3) by (auto simp: append_eq_map_conv map_eq_append_conv)
  obtain q w1 where q: "delete_chunk send b c (d, f) w = (q, w1)" by fastforce
  obtain d1 f1 g1 where 1: "q = Inr (d1, f1)" "d1 = d" "f1 = f @ g1" "removes b (set k1) (objs w) (objs w1)"
    "f1 = [] \<longrightarrow> (\<forall>k\<in>set k1. objs w1 b k = None)"
    using delete_chunk_spec [OF dm q _ k(2)] Cons.prems(2) by auto
  have "delete_chunks send b cs (d1, f1) w1 = (r, w')"
    using Cons.prems(1) q 1(1) by (simp add: eff_simps)
  from Cons.IH [OF this _ k(3)] Cons.prems(2)
  obtain d2 f2 g2 where 2: "r = Inr (d2, f2)" "d2 = d1" "f2 = f1 @ g2" "removes b (set k2) (objs w1) (objs w')"
    "f2 = [] \<longrightarrow> (\<forall>k\<in>set k2. objs w' b k = None)" by auto
  have "f2 = [] \<longrightarrow> (\<forall>k\<in>set k1. objs w' b k = None)"
    using 1(5) 2(3) removes_gone [OF 2(4)] by auto
  then show ?case
    using 1 2 removes_trans [OF 1(4) 2(4)] by (auto simp: k(1))
qed (auto simp: eff_simps removes_refl)

lemma delete_page:
  assumes lc: "list_contract send objs pos" and dm: "delete_many_contract send objs" and pne: "pf \<noteq> []"
    and l: "listObjectKeys send b pf token 1000 w = (Inr (os, nt), w1)"
    and run: "delete_chunks send b (chunks 999 os) (d, f) w1 = (r, w2)"
  shows "\<exists>ks f1 g. r = Inr (d, f1) \<and> f1 = f @ g \<and> removes b (set ks) (objs w) (objs w2)
    \<and> set ks \<subseteq> keys_after (objs w b) pf (map_option pos token)
    \<and> (f1 = [] \<longrightarrow> (\<forall>k\<in>set ks. objs w2 b k = None))
    \<and> (if truthy nt then ks \<noteq> [] \<and> (\<exists>t. nt = Some t \<and> pos t = last ks
            \<and> keys_after (objs w b) pf (map_option pos token) = set ks \<union> keys_after (objs w b) pf (Some (pos t)))
       else set ks = keys_after (objs w b) pf (map_option pos token))"
proof -
  have o1: "objs w1 = objs w" using listObjectKeys_Inr(1) [OF lc _ pne l] by simp
  obtain ks where ks: "map o_Key os = map Some ks" "set ks \<subseteq> keys_after (objs w b) pf (map_option pos token)"
    "if truthy nt then ks \<noteq> [] \<and> (\<exists>t. nt = Some t \<and> pos t = last ks
            \<and> keys_after (objs w b) pf (map_option pos token) = set ks \<union> keys_after (objs w b) pf (Some (pos t)))
       else set ks = keys_after (objs w b) pf (map_option pos token)"
    using listObjectKeys_Inr(2) [OF lc _ pne l, of os nt] by auto
  have "\<forall>c\<in>set (chunks 999 os). c \<noteq> []" using chunks_length by blast
  moreover have "map o_Key (concat (chunks 999 os)) = map Some ks" by (simp only: chunks_concat ks(1))
  ultimately obtain f1 g where "r = Inr (d, f1)" "f1 = f @ g" "removes b (set ks) (objs w1) (objs w2)"
    "f1 = [] \<longrightarrow> (\<forall>k\<in>set ks. objs w2 b k = None)"
    using delete_chunks_spec [OF dm run] by blast
  then show ?thesis
    using ks(2,3) o1 by (intro exI [of _ ks] exI [of _ f1] exI [of _ g]) simp
qed

lemma keys_after_removed:
  "removes b K m m' \<Longrightarrow> keys_after (m' b) pf after \<subseteq> keys_after (m b) pf after"
  unfolding keys_after_def removes_def by (auto simp: dom_def) (metis option.distinct(1))

lemma delete_pages_spec:
  assumes lc: "list_contract send objs pos" and dm: "delete_many_contract send objs" and pne: "pf \<noteq> []"
  shows "delete_pages send fuel b pf token (d, f) w = (r, w') \<Longrightarrow>
     removes b {k. prefix pf k} (objs w) (objs w')
     \<and> (\<forall>d' f'. r = Inr (d', f') \<longrightarrow> d' = d \<and> (\<exists>g. f' = f @ g)
         \<and> (f' = [] \<longrightarrow> (\<forall>k. prefix pf k \<longrightarrow> objs w b k \<noteq> None \<longrightarrow> k \<in> keys_after (objs w b) pf (map_option pos token))
              \<longrightarrow> (\<forall>k. prefix pf k \<longrightarrow> objs w' b k = None)))"
proof (induction fuel arbitrary: token f w)
  case 0
  then show ?case by (auto simp: eff_simps removes_refl)
next
  case (Suc fuel)
  obtain q w1 where q: "listObjectKeys send b pf token 1000 w = (q, w1)" by fastforce
  have o1: "objs w1 = objs w" using listObjectKeys_Inr(1) [OF lc _ pne q] by simp
  show ?case
  proof (cases q)
    case (Inl e)
    then show ?thesis using Suc.prems q o1 by (auto simp: eff_simps removes_refl)
  next
    case (Inr z)
    obtain os nt where z: "z = (os, nt)" by (cases z)
    obtain r2 w2 where c: "delete_chunks send b (chunks 999 os) (d, f) w1 = (r2, w2)" by fastforce
    obtain ks f1 g where p: "r2 = Inr (d, f1)" "f1 = f @ g" "removes b (set ks) (objs w) (objs w2)"
      "set ks \<subseteq> keys_after (objs w b) pf (map_option pos token)"
      "f1 = [] \<longrightarrow> (\<forall>k\<in>set ks. objs w2 b k = None)"
      "if truthy nt then ks \<noteq> [] \<and> (\<exists>t. nt = Some t \<and> pos t = last ks
            \<and> keys_after (objs w b) pf (map_option pos token) = set ks \<union> keys_after (objs w b) pf (Some (pos t)))
       else set ks = keys_after (objs w b) pf (map_option pos token)"
      using delete_page [OF lc dm pne q [unfolded Inr z] c] by auto
    have sub: "set ks \<subseteq> {k. prefix pf k}" using p(4) by (auto simp: keys_after_def)
    show ?thesis
    proof (cases "truthy nt")
      case False
      then have "r = Inr (d, f1)" "w' = w2" using Suc.prems q Inr z c p(1) by (auto simp: eff_simps)
      then show ?thesis
        using p False removes_mono [OF p(3) sub] removes_gone [OF p(3)] by auto
    next
      case True
      then obtain t where t: "nt = Some t"
        "keys_after (objs w b) pf (map_option pos token) = set ks \<union> keys_after (objs w b) pf (Some (pos t))"
        using p(6) by auto
      have rest: "delete_pages send fuel b pf nt (d, f1) w2 = (r, w')"
        using Suc.prems q Inr z c p(1) True by (simp add: eff_simps)
      note ih = Suc.IH [OF rest]
      have left: "k \<in> keys_after (objs w2 b) pf (Some (pos t))"
        if "f1 = []" "prefix pf k" "objs w2 b k \<noteq> None"
          "prefix pf k \<longrightarrow> objs w b k \<noteq> None \<longrightarrow> k \<in> keys_after (objs w b) pf (map_option pos token)" for k
      proof -
        have "objs w b k \<noteq> None" using that(3) removes_gone [OF p(3), of k] by metis
        moreover have "k \<notin> set ks" using that(1,3) p(5) by auto
        ultimately have "k \<in> keys_after (objs w b) pf (Some (pos t))" using that(2,4) t(2) by blast
        then show ?thesis using that(3) by (auto simp: keys_after_def)
      qed
      have "removes b {k. prefix pf k} (objs w) (objs w')"
        using removes_trans [OF removes_mono [OF p(3) sub] conjunct1 [OF ih]] by simp
      moreover have "\<forall>d' f'. r = Inr (d', f') \<longrightarrow> d' = d \<and> (\<exists>g. f' = f @ g)
         \<and> (f' = [] \<longrightarrow> (\<forall>k. prefix pf k \<longrightarrow> objs w b k \<noteq> None \<longrightarrow> k \<in> keys_after (objs w b) pf (map_option pos token))
              \<longrightarrow> (\<forall>k. prefix pf k \<longrightarrow> objs w' b k = None))"
      proof (intro allI impI)
        fix d' f' assume r: "r = Inr (d', f')"
        have "d' = d \<and> (\<exists>g. f' = f1 @ g) \<and> (f' = [] \<longrightarrow>
            (\<forall>k. prefix pf k \<longrightarrow> objs w2 b k \<noteq> None \<longrightarrow> k \<in> keys_after (objs w2 b) pf (Some (pos t)))
            \<longrightarrow> (\<forall>k. prefix pf k \<longrightarrow> objs w' b k = None))"
          using ih r unfolding t(1) by simp
        then obtain g' where g': "d' = d" "f' = f1 @ g'"
          and gone: "f' = [] \<Longrightarrow> \<forall>k. prefix pf k \<longrightarrow> objs w2 b k \<noteq> None \<longrightarrow> k \<in> keys_after (objs w2 b) pf (Some (pos t))
            \<Longrightarrow> \<forall>k. prefix pf k \<longrightarrow> objs w' b k = None"
          by blast
        have "\<forall>k. prefix pf k \<longrightarrow> objs w' b k = None" if "f' = []"
          "\<forall>k. prefix pf k \<longrightarrow> objs w b k \<noteq> None \<longrightarrow> k \<in> keys_after (objs w b) pf (map_option pos token)"
        proof (rule gone [OF that(1)])
          have "f1 = []" using that(1) g'(2) by simp
          then show "\<forall>k. prefix pf k \<longrightarrow> objs w2 b k \<noteq> None \<longrightarrow> k \<in> keys_after (objs w2 b) pf (Some (pos t))"
            using left that(2) by blast
        qed
        then show "d' = d \<and> (\<exists>g. f' = f @ g)
         \<and> (f' = [] \<longrightarrow> (\<forall>k. prefix pf k \<longrightarrow> objs w b k \<noteq> None \<longrightarrow> k \<in> keys_after (objs w b) pf (map_option pos token))
              \<longrightarrow> (\<forall>k. prefix pf k \<longrightarrow> objs w' b k = None))"
          unfolding g'(2) p(2) append.assoc using g'(1) by (metis g'(2) p(2) append.assoc)
      qed
      ultimately show ?thesis by blast
    qed
  qed
qed

lemma delete_pages_ends:
  assumes lc: "list_contract send objs pos" and dm: "delete_many_contract send objs" and pne: "pf \<noteq> []"
  shows "finite (dom (objs w b)) \<Longrightarrow> card (keys_after (objs w b) pf (map_option pos token)) < fuel \<Longrightarrow>
    fst (delete_pages send fuel b pf token (d, f) w) \<noteq> Inl Diverges"
proof (induction fuel arbitrary: token f w)
  case (Suc fuel)
  obtain q w1 where q: "listObjectKeys send b pf token 1000 w = (q, w1)" by fastforce
  have nd: "q \<noteq> Inl Diverges" using listObjectKeys_Inr(3) [OF lc _ pne q] by simp
  show ?case
  proof (cases q)
    case (Inl e)
    then show ?thesis using q nd by (auto simp: eff_simps)
  next
    case (Inr z)
    obtain os nt where z: "z = (os, nt)" by (cases z)
    obtain r2 w2 where c: "delete_chunks send b (chunks 999 os) (d, f) w1 = (r2, w2)" by fastforce
    obtain ks f1 g where p: "r2 = Inr (d, f1)" "removes b (set ks) (objs w) (objs w2)"
      "if truthy nt then ks \<noteq> [] \<and> (\<exists>t. nt = Some t \<and> pos t = last ks
            \<and> keys_after (objs w b) pf (map_option pos token) = set ks \<union> keys_after (objs w b) pf (Some (pos t)))
       else set ks = keys_after (objs w b) pf (map_option pos token)"
      using delete_page [OF lc dm pne q [unfolded Inr z] c] by auto
    show ?thesis
    proof (cases "truthy nt")
      case False
      then show ?thesis using q Inr z c p(1) by (auto simp: eff_simps)
    next
      case True
      then obtain t where t: "nt = Some t" "pos t = last ks" "ks \<noteq> []"
        "keys_after (objs w b) pf (map_option pos token) = set ks \<union> keys_after (objs w b) pf (Some (pos t))"
        using p(3) by auto
      have fin: "finite (keys_after (objs w b) pf (Some (pos t)))"
        by (rule finite_subset [OF _ Suc.prems(1)]) (auto simp: keys_after_def)
      have "card (keys_after (objs w2 b) pf (Some (pos t))) \<le> card (keys_after (objs w b) pf (Some (pos t)))"
        by (rule card_mono [OF fin keys_after_removed [OF p(2)]])
      moreover have "card (keys_after (objs w b) pf (Some (pos t))) < card (keys_after (objs w b) pf (map_option pos token))"
        using keys_after_smaller [of "objs w b" pf "map_option pos token" ks] t Suc.prems(1) by simp
      moreover have "finite (dom (objs w2 b))"
        by (rule finite_subset [OF _ Suc.prems(1)]) (metis domIff removes_gone [OF p(2)] subsetI)
      ultimately have "fst (delete_pages send fuel b pf nt (d, f1) w2) \<noteq> Inl Diverges"
        using Suc.IH [of w2 nt f1] Suc.prems(2) t(1) by simp
      then show ?thesis using q Inr z c p(1) True by (simp add: eff_simps)
    qed
  qed
qed simp

text \<open>
  C11. Deleting a folder: the page loop ends when its fuel exceeds the number of objects in the
  folder; whatever the outcome, the only objects that go are those whose keys start with the
  folder's prefix; when no failure is reported, none of these is left. The count of deleted objects
  is 0 in every case, because the requests ask for a quiet answer.
\<close>

theorem folder_delete_complete:
  assumes "list_contract send objs pos" and "delete_many_contract send objs" and "pf \<noteq> []"
    and "finite (dom (objs w b))" and "card {k. prefix pf k \<and> objs w b k \<noteq> None} < fuel"
    and "deleteFolderByPrefix send fuel pf b w = (r, w')"
  shows "r \<noteq> Inl Diverges
    \<and> (\<forall>b' k. objs w' b' k = objs w b' k \<or> b' = b \<and> prefix pf k \<and> objs w' b' k = None)
    \<and> (\<forall>res. r = Inr res \<longrightarrow> dr_deleted res = 0
        \<and> (dr_failed res = [] \<longrightarrow> (\<forall>k. prefix pf k \<longrightarrow> objs w' b k = None)))"
proof -
  obtain q v where q: "delete_pages send fuel b pf None (0, []) w = (q, v)" by fastforce
  have all: "{k. prefix pf k \<and> objs w b k \<noteq> None} = keys_after (objs w b) pf (map_option pos None)"
    by (auto simp: keys_after_def)
  have "fst (delete_pages send fuel b pf None (0, []) w) \<noteq> Inl Diverges"
    using delete_pages_ends [OF assms(1-3), where b = b and token = None] assms(4,5) unfolding all by blast
  then have "q \<noteq> Inl Diverges" by (simp add: q)
  moreover have "v = w'" and r: "r = (case q of Inl e \<Rightarrow> Inl e
      | Inr (d, f) \<Rightarrow> Inr \<lparr>dr_bucket = b, dr_deleted = d, dr_failed = f\<rparr>)"
    using assms(6) q by (auto simp: deleteFolderByPrefix_def eff_simps split: sum.splits prod.splits)
  moreover note spec = delete_pages_spec [OF assms(1-3) q]
  moreover have "\<forall>k. prefix pf k \<longrightarrow> objs w b k \<noteq> None \<longrightarrow> k \<in> keys_after (objs w b) pf (map_option pos None)"
    by (auto simp: keys_after_def)
  ultimately show ?thesis
    by (auto simp: removes_def split: sum.splits prod.splits) 
qed

lemma mem_objs_del_many:
  "mem_objs (mem_del_many b ks w) = (mem_objs w)(b := (\<lambda>k. if Some k \<in> set ks then None else mem_objs w b k))"
proof (intro ext)
  fix b' k'
  have "map_of (filter (\<lambda>e. \<not> (fst (fst e) = b \<and> Some (snd (fst e)) \<in> set ks)) w) (b', k')
      = (if b' = b \<and> Some k' \<in> set ks then None else map_of w (b', k'))"
    by (induction w) auto
  then show "mem_objs (mem_del_many b ks w) b' k'
      = ((mem_objs w)(b := (\<lambda>k. if Some k \<in> set ks then None else mem_objs w b k))) b' k'"
    by (simp add: mem_objs_def mem_del_many_def)
qed

lemma mem_delete_many_contract: "delete_many_contract mem_send mem_objs"
  unfolding delete_many_contract_def
  by (auto simp: mem_objs_del_many empty_response_def error_keys_def split: sum.splits)

theorem folder_delete_complete_witness:
  "\<exists>res w'. deleteFolderByPrefix mem_send 9 ''a/'' ''b'' demo_world = (Inr res, w') \<and> dr_deleted res = 0
     \<and> mem_objs w' ''b'' ''a/s/2'' = None \<and> mem_objs w' ''b'' ''z'' = Some ''other''"
proof -
  have ok: "(case fst (deleteFolderByPrefix mem_send 9 ''a/'' ''b'' demo_world) of
      Inl e \<Rightarrow> False | Inr res \<Rightarrow> dr_failed res = [])" by code_simp
  obtain res w' where run: "deleteFolderByPrefix mem_send 9 ''a/'' ''b'' demo_world = (Inr res, w')"
    "dr_failed res = []"
    using ok by (cases "deleteFolderByPrefix mem_send 9 ''a/'' ''b'' demo_world") (auto split: sum.splits)
  have sub: "{k. prefix ''a/'' k \<and> mem_objs demo_world ''b'' k \<noteq> None} \<subseteq> {''a/1'', ''a/s/2''}"
    by (auto simp: mem_objs_def demo_world_def split: if_splits)
  have c: "card {k. prefix ''a/'' k \<and> mem_objs demo_world ''b'' k \<noteq> None} < 9"
    using card_mono [OF _ sub] by simp
  have fin: "finite (dom (mem_objs demo_world ''b''))"
    by (rule finite_subset [of _ "{''a/1'', ''a/s/2'', ''z''}"]) (auto simp: mem_objs_def demo_world_def split: if_splits)
  have "mem_objs demo_world ''b'' ''z'' = Some ''other''" by code_simp
  have ne: "''a/'' \<noteq> []" by simp
  note del = folder_delete_complete [OF mem_list_contract mem_delete_many_contract ne fin c run(1)]
  from del have frame: "\<forall>b' k. mem_objs w' b' k = mem_objs demo_world b' k \<or> b' = ''b'' \<and> prefix ''a/'' k \<and> mem_objs w' b' k = None"
    by blast
  have "\<not> prefix ''a/'' ''z''" by simp
  then have "mem_objs w' ''b'' ''z'' = Some ''other''"
    using frame \<open>mem_objs demo_world ''b'' ''z'' = Some ''other''\<close> by metis
  moreover have "prefix ''a/'' ''a/s/2''" by simp
  then have "mem_objs w' ''b'' ''a/s/2'' = None" "dr_deleted res = 0" using del run(2) by blast+
  ultimately show ?thesis using run(1) by blast
qed

section \<open>Renaming one object\<close>

text \<open>
  Renaming a single object: nothing but its old and new key changes; when the normalised keys
  differ, the content is at one of them whatever fails, and without a failure it has moved. When
  they are the same (for instance \<open>a//b\<close> to \<open>a/b\<close>), the object is copied onto itself and then
  deleted: a run that reports one copy, one deletion and no failure has lost it.
\<close>

theorem file_rename_outcome:
  assumes "copy_contract send objs" and "delete_contract send objs"
    and "ends_with (normalizeKey old) [slash] = False" and "ends_with (normalizeKey new) [slash] = False"
    and "objs w b (normalizeKey old) = Some x"
    and "renameFileOrFolder send fuel sched old new b w = (r, w')"
  shows "(\<forall>b' k. b' \<noteq> b \<or> k \<noteq> normalizeKey old \<and> k \<noteq> normalizeKey new \<longrightarrow> objs w' b' k = objs w b' k)
    \<and> (if normalizeKey old = normalizeKey new
       then \<forall>res reps. r = Inr (res, reps) \<and> rr_failed res = [] \<longrightarrow> objs w' b (normalizeKey old) = None
       else (objs w' b (normalizeKey old) = Some x \<or> objs w' b (normalizeKey new) = Some x)
         \<and> (\<forall>res reps. r = Inr (res, reps) \<and> rr_failed res = [] \<longrightarrow>
              objs w' b (normalizeKey old) = None \<and> objs w' b (normalizeKey new) = Some x))"
proof -
  let ?o = "normalizeKey old" and ?n = "normalizeKey new"
  obtain q w1 where c: "send (CopyObject b ?n (copy_source b ?o)) w = (q, w1)" by fastforce
  then have cc: "case q of
        Inr _ \<Rightarrow> objs w b ?o \<noteq> None \<and> objs w1 = (objs w)(b := copied_to (objs w b) ?o ?n)
      | Inl _ \<Rightarrow> objs w1 = objs w \<or> (objs w b ?o \<noteq> None \<and> objs w1 = (objs w)(b := copied_to (objs w b) ?o ?n))"
    using assms(1) unfolding copy_contract_def by blast
  obtain q2 w2 where d: "send (DeleteObject b ?o) w1 = (q2, w2)" by fastforce
  then have dd: "case q2 of
        Inr _ \<Rightarrow> objs w2 = (objs w1)(b := (objs w1 b)(?o := None))
      | Inl _ \<Rightarrow> objs w2 = objs w1 \<or> objs w2 = (objs w1)(b := (objs w1 b)(?o := None))"
    using assms(2) unfolding delete_contract_def by blast
  have run: "rename_file send ?o ?n b w = (fst (rename_file send ?o ?n b w), w')
      \<and> (\<forall>res reps. r = Inr (res, reps) \<longrightarrow> fst (rename_file send ?o ?n b w) = Inr res)"
    using assms(3,4,6) by (auto simp: renameFileOrFolder_def Let_def eff_simps split: prod.splits sum.splits)
  show ?thesis
  proof (cases q)
    case (Inl e)
    then show ?thesis
      using run c cc assms(5) by (auto simp: rename_file_def eff_simps copied_to_def split: if_splits)
  next
    case (Inr resp)
    show ?thesis
    proof (cases q2)
      case (Inl e)
      then show ?thesis
        using run c cc d dd Inr assms(5) by (auto simp: rename_file_def eff_simps copied_to_def split: if_splits)
    next
      case (Inr resp2)
      then show ?thesis
        using run c cc d dd \<open>q = Inr resp\<close> assms(5) by (auto simp: rename_file_def eff_simps copied_to_def)
    qed
  qed
qed

theorem file_rename_outcome_witness:
  "mem_objs (snd (renameFileOrFolder mem_send 1 [] ''a//1'' ''a/1'' ''b'' demo_world)) ''b'' ''a/1'' = None"
proof -
  have n: "normalizeKey ''a//1'' = ''a/1''" "normalizeKey ''a/1'' = ''a/1''" by code_simp+
  have ok: "case fst (renameFileOrFolder mem_send 1 [] ''a//1'' ''a/1'' ''b'' demo_world) of
     Inl e \<Rightarrow> False | Inr (res, reps) \<Rightarrow> rr_failed res = []" by code_simp
  obtain res reps w' where run: "renameFileOrFolder mem_send 1 [] ''a//1'' ''a/1'' ''b'' demo_world = (Inr (res, reps), w')"
    "rr_failed res = []"
    using ok by (cases "renameFileOrFolder mem_send 1 [] ''a//1'' ''a/1'' ''b'' demo_world") (auto split: sum.splits)
  have x: "mem_objs demo_world ''b'' (normalizeKey ''a//1'') = Some ''x''" by code_simp
  have e: "ends_with (normalizeKey ''a//1'') [slash] = False" "ends_with (normalizeKey ''a/1'') [slash] = False"
    by code_simp+
  show ?thesis
    using file_rename_outcome [OF mem_copy_contract mem_delete_contract e x run(1)] run n by simp
qed

section \<open>Renaming a folder into itself\<close>

definition nested_world :: mem where
  "nested_world = [((''b'', ''a/x''), ''one''), ((''b'', ''a/a/x''), ''two'')]"

text \<open>
  The premise of the safe rename is needed: renaming folder \<open>a\<close> to \<open>a/a\<close>, which the operation
  accepts, can destroy an object. There is an interleaving of the concurrent calls under which every
  request succeeds and no failure is reported, but the content of \<open>a/a/x\<close> is stored nowhere
  afterwards, because \<open>a/x\<close> was copied over it before it had been copied itself.
\<close>

theorem nested_rename_loses:
  "\<exists>sched. case renameFolder mem_send 9 sched ''a'' ''a/a'' ''b'' 5 nested_world of
     (Inr (res, reps), w') \<Rightarrow> rr_failed res = [] \<and> rr_copied res = 2 \<and> ''two'' \<notin> set (map snd w')
   | (Inl e, w') \<Rightarrow> False"
proof (intro exI)
  show "case renameFolder mem_send 9 [0, 1, 1, 1, 0, 0, 0, 0, 0, 1, 1, 1, 1] ''a'' ''a/a'' ''b'' 5 nested_world of
     (Inr (res, reps), w') \<Rightarrow> rr_failed res = [] \<and> rr_copied res = 2 \<and> ''two'' \<notin> set (map snd w')
   | (Inl e, w') \<Rightarrow> False"
    by code_simp
qed

end
