(* ===== verification/S3Props.thy ===== *)
theory S3Props
  imports S3Delete
begin

text \<open>
  Correctness of the read-only operations of the file service: the copy source header, a page of a
  listing, the folder statistics, and the order of the parts in the completion of an upload.
\<close>

text \<open>
  The copy source header names the object: whatever bytes the key consists of, the header is the
  bucket, a slash and an escaped key that the service decodes to exactly that key, so two different
  keys never give the same header.
\<close>

theorem copy_source_roundtrip:
  "starts_with (copy_source b k) (b @ [slash])
   \<and> uri_decode (drop (length b + 1) (copy_source b k)) = k
   \<and> (copy_source b k = copy_source b k') = (k = k')"
proof -
  have "copy_source b k = copy_source b k' \<Longrightarrow> k = k'"
    by (metis decode_copy_source)
  moreover have "starts_with (copy_source b k) (b @ [slash])"
    by (simp add: copy_source_def starts_with_def)
  ultimately show ?thesis using decode_copy_source by blast
qed

section \<open>Listing\<close>

lemma folder_entries_folder: "e \<in> set (folder_entries ps) \<Longrightarrow> is_folder e"
  by (induction ps) (auto simp: folder_entries_def List.map_filter_simps split: option.splits if_splits)

lemma file_entries_key: "e \<in> set (file_entries np os) \<Longrightarrow> entry_key e \<noteq> np \<and> entry_key e \<noteq> []"
  by (induction os) (auto simp: file_entries_def List.map_filter_simps file_entry_def split: option.splits if_splits)



section \<open>Folder statistics\<close>

text \<open>The objects that count: named, and not a folder marker.\<close>

definition counted :: "s3_object \<Rightarrow> bool" where
  "counted item \<longleftrightarrow> (case o_Key item of None \<Rightarrow> False | Some k \<Rightarrow> k \<noteq> [] \<and> \<not> is_folder_marker k item)"

definition item_size :: "s3_object \<Rightarrow> int" where
  "item_size item = or_else (o_Size item) 0"

definition with_ext :: "string \<Rightarrow> s3_object \<Rightarrow> bool" where
  "with_ext e item \<longleftrightarrow> counted item \<and> extension (or_else (o_Key item) []) = e"

text \<open>Not modified later than the given date.\<close>

definition dated_by :: "int option \<Rightarrow> s3_object \<Rightarrow> bool" where
  "dated_by latest x = (case o_LastModified x of None \<Rightarrow> True
     | Some m \<Rightarrow> (case latest of None \<Rightarrow> False | Some l \<Rightarrow> m \<le> l))"

lemma dated_by_max:
  "dated_by latest y \<Longrightarrow> dated_by (max_date latest d) y" "dated_by (max_date latest (o_LastModified x)) x"
  by (auto simp: dated_by_def max_date_def split: option.splits)

definition breakdown :: "s3_object list \<Rightarrow> string \<Rightarrow> (nat \<times> int) option" where
  "breakdown items e = (if e = ''constructor'' \<or> filter (with_ext e) items = [] then None
     else Some (length (filter (with_ext e) items), sum_list (map item_size (filter (with_ext e) items))))"

lemma add_extension_get:
  "map_of (add_extension e z b) x = (if e = ''constructor'' \<or> x \<noteq> e then map_of b x
     else (case map_of b e of None \<Rightarrow> Some (1, z) | Some (n, y) \<Rightarrow> Some (n + 1, y + z)))"
proof (cases "e = ''constructor''")
  case False
  show ?thesis
  proof (cases "e \<in> fst ` set b")
    case True
    have "map_of (map (\<lambda>(f, n, y). if f = e then (f, n + 1, y + z) else (f, n, y)) b) x
        = (if x \<noteq> e then map_of b x else map_option (\<lambda>(n, y). (n + 1, y + z)) (map_of b e))"
      by (induction b) auto
    moreover obtain ny where "map_of b e = Some ny" using True by (metis map_of_eq_None_iff not_None_eq)
    ultimately show ?thesis using True False by (simp add: add_extension_def split: prod.splits)
  next
    case nin: False
    then have "map_of b e = None" by (simp add: map_of_eq_None_iff)
    then show ?thesis using nin False by (simp add: add_extension_def map_add_def split: option.splits)
  qed
qed (simp add: add_extension_def)

lemma stats_item_counted:
  assumes "counted item"
  shows "sa_objectCount (stats_item p a item) = sa_objectCount a + 1"
    and "sa_totalSize (stats_item p a item) = sa_totalSize a + item_size item"
    and "sa_latestModified (stats_item p a item) = max_date (sa_latestModified a) (o_LastModified item)"
    and "sa_ext (stats_item p a item) = add_extension (extension (or_else (o_Key item) [])) (item_size item) (sa_ext a)"
  using assms by (auto simp: counted_def stats_item_def item_size_def Let_def split: option.splits)

lemma stats_item_ignored:
  assumes "\<not> counted item"
  shows "sa_objectCount (stats_item p a item) = sa_objectCount a"
    and "sa_totalSize (stats_item p a item) = sa_totalSize a"
    and "sa_latestModified (stats_item p a item) = sa_latestModified a"
    and "sa_ext (stats_item p a item) = sa_ext a"
  using assms by (auto simp: counted_def stats_item_def Let_def split: option.splits if_splits)

lemma stats_fold:
  "let a = foldl (stats_item p) empty_stats items in
     sa_objectCount a = length (filter counted items)
     \<and> sa_totalSize a = sum_list (map item_size (filter counted items))
     \<and> (\<forall>x\<in>set items. counted x \<longrightarrow> dated_by (sa_latestModified a) x)
     \<and> (\<forall>e. map_of (sa_ext a) e = breakdown items e)"
proof (induction items rule: rev_induct)
  case (snoc x items)
  let ?a = "foldl (stats_item p) empty_stats items"
  show ?case
  proof (cases "counted x")
    case True
    have ext: "map_of (add_extension (extension (or_else (o_Key x) [])) (item_size x) (sa_ext ?a)) e
        = breakdown (items @ [x]) e" for e
      using snoc True by (auto simp: Let_def add_extension_get breakdown_def with_ext_def)
    show ?thesis
      using snoc ext by (simp add: Let_def stats_item_counted [OF True] True dated_by_max)
  next
    case False
    have "breakdown (items @ [x]) e = breakdown items e" for e
      using False by (simp add: breakdown_def with_ext_def)
    then show ?thesis using snoc False by (simp add: Let_def stats_item_ignored [OF False])
  qed
qed (simp add: empty_stats_def breakdown_def)

text \<open>
  The folder statistics: over all pages, the object count and total size are those of the named
  objects that are not empty folder markers, no counted object was modified after \<open>latestModified\<close>,
  and the breakdown gives for every extension the number and the total size of its objects. The one
  exception is the extension \<open>constructor\<close>, which the breakdown never lists, because the record the
  code counts in inherits a property of that name.
\<close>

theorem folder_stats_correct:
  assumes "listAllObjects send fuel b (if pf = [] then [] else normalizePrefix pf) None w = (Inr items, w')"
  shows "\<exists>st. getFolderStats send fuel pf b w = (Inr st, w')
     \<and> fs_objectCount st = length (filter counted items)
     \<and> fs_totalSize st = sum_list (map item_size (filter counted items))
     \<and> (\<forall>x\<in>set items. counted x \<longrightarrow> dated_by (fs_latestModified st) x)
     \<and> (\<forall>e. e \<noteq> ''constructor'' \<longrightarrow> filter (with_ext e) items \<noteq> [] \<longrightarrow>
          map_of (fs_extensionBreakdown st) e
            = Some (length (filter (with_ext e) items), sum_list (map item_size (filter (with_ext e) items))))
     \<and> map_of (fs_extensionBreakdown st) ''constructor'' = None"
proof -
  define np where "np = (if pf = [] then [] else normalizePrefix pf)"
  define a where "a = foldl (stats_item np) empty_stats items"
  define st where "st = \<lparr>fs_bucket = b, fs_prefix = np, fs_totalSize = sa_totalSize a,
        fs_objectCount = sa_objectCount a, fs_folderCount = length (sa_folders a),
        fs_latestModified = sa_latestModified a, fs_extensionBreakdown = sa_ext a\<rparr>"
  have "getFolderStats send fuel pf b w = (Inr st, w')"
    using assms by (simp add: getFolderStats_def Let_def eff_simps st_def a_def np_def)
  moreover note stats_fold [of np items, folded a_def, unfolded Let_def]
  ultimately show ?thesis
    by (intro exI [of _ st]) (simp add: st_def breakdown_def)
qed

theorem folder_stats_correct_witness:
  "\<exists>st. getFolderStats mem_send 3 ''a'' ''b'' demo_world = (Inr st, demo_world)
     \<and> fs_objectCount st = 2 \<and> fs_totalSize st = 2"
proof -
  let ?items = "r_Contents (mem_page demo_world ''b'' (mem_keys demo_world ''b'' ''a/'' None) 1000)"
  have np: "normalizePrefix ''a'' = ''a/''" by code_simp
  have last: "r_NextContinuationToken (mem_page demo_world ''b'' (mem_keys demo_world ''b'' ''a/'' None) 1000) = None"
    by code_simp
  have items: "listAllObjects mem_send 3 ''b'' (if ''a'' = [] then [] else normalizePrefix ''a'') None demo_world
      = (Inr ?items, demo_world)"
    using last by (simp add: numeral_3_eq_3 eff_simps listObjectKeys_def np)
  have n: "length (filter counted ?items) = 2" "sum_list (map item_size (filter counted ?items)) = 2"
    by code_simp+
  show ?thesis using folder_stats_correct [OF items] n by auto
qed

section \<open>Multipart completion\<close>

lemma comparator_parts: "comparator (\<lambda>a b :: int \<times> string. fst a - fst b)"
  by (auto simp: comparator_def)

text \<open>
  Completing a multipart upload makes one request, which lists exactly the given parts in
  ascending order of their part numbers, under the normalised key; its outcome is the outcome of
  the operation.
\<close>

theorem complete_parts_sorted:
  "\<exists>parts. mset parts = mset (mc_parts i) \<and> sorted (map fst parts)
     \<and> completeMultipartUpload send i w =
         (case send (CompleteMultipartUpload (mc_bucket i) (normalizeKey (mc_key i)) (mc_uploadId i) parts) w of
            (Inl e, v) \<Rightarrow> (Inl e, v)
          | (Inr resp, v) \<Rightarrow> (Inr \<lparr>mo_bucket = mc_bucket i, mo_key = normalizeKey (mc_key i),
              mo_uploadId = mc_uploadId i, mo_eTag = r_ETag resp\<rparr>, v))"
proof (intro exI conjI)
  show "mset (sorted_parts (mc_parts i)) = mset (mc_parts i)" by (simp add: sorted_parts_def sort_by_mset)
  show "sorted (map fst (sorted_parts (mc_parts i)))"
    using sort_by_sorted [OF comparator_parts, of "mc_parts i"] by (simp add: sorted_parts_def sorted_map)
qed (auto simp: completeMultipartUpload_def Let_def eff_simps split: prod.splits sum.splits)

end
