(* ===== verification/Retention.thy ===== *)
theory Retention
  imports JobQueue
begin

text \<open>
  \<open>apps/api/src/jobs/job-retention.service.ts\<close>: the retention policy, the clean-up run with its two
  modes (delete at once, or archive in batches and then delete), the purge of the archives, and the
  record of the last run. A job's events are deleted with the job (\<open>onDelete: Cascade\<close> in
  \<open>prisma/schema.prisma\<close>). \<open>fault\<close> says which database calls fail, and how; each failing call has no
  effect. The batch loop deletes at least one row per turn, which is its termination measure.
\<close>

section \<open>Policy\<close>

definition SECURITY_AUDIT_ACTION_PREFIXES :: "string list" where
  "SECURITY_AUDIT_ACTION_PREFIXES = [''auth.'', ''user.'', ''settings.'', ''bucket.grants'',
     ''bucket.admin_scope'', ''connection.'', ''session.'']"

definition RETENTION_LAST_RUN_KEY :: string where
  "RETENTION_LAST_RUN_KEY = ''maintenance.retention.last_run''"

record retention_policy =
  ret_jobEventsDays :: int
  ret_failedJobDays :: int
  ret_terminalJobDays :: int
  ret_auditLogDays :: int
  ret_securityAuditDays :: int
  ret_uploadSessionDays :: int
  ret_archiveEnabled :: bool
  ret_archiveBatchSize :: int
  ret_archiveAuditLogDays :: int
  ret_archiveSecurityAuditDays :: int
  ret_archiveJobEventDays :: int

definition getPolicy :: "config \<Rightarrow> retention_policy" where
  "getPolicy c = \<lparr>ret_jobEventsDays = RETENTION_JOB_EVENTS_DAYS c,
     ret_failedJobDays = RETENTION_FAILED_JOB_DAYS c, ret_terminalJobDays = RETENTION_TERMINAL_JOB_DAYS c,
     ret_auditLogDays = RETENTION_AUDIT_LOG_DAYS c, ret_securityAuditDays = RETENTION_SECURITY_AUDIT_DAYS c,
     ret_uploadSessionDays = RETENTION_UPLOAD_SESSION_DAYS c, ret_archiveEnabled = RETENTION_ARCHIVE_ENABLED c,
     ret_archiveBatchSize = RETENTION_ARCHIVE_BATCH_SIZE c,
     ret_archiveAuditLogDays = ARCHIVE_RETENTION_AUDIT_LOG_DAYS c,
     ret_archiveSecurityAuditDays = ARCHIVE_RETENTION_SECURITY_AUDIT_DAYS c,
     ret_archiveJobEventDays = ARCHIVE_RETENTION_JOB_EVENT_DAYS c\<rparr>"

definition days_before :: "int \<Rightarrow> int \<Rightarrow> int" where
  "days_before now days = now - days * 24 * 60 * 60 * 1000"

record retention_thresholds =
  th_jobEventsBefore :: int
  th_failedJobsBefore :: int
  th_terminalJobsBefore :: int
  th_auditLogsBefore :: int
  th_securityAuditBefore :: int
  th_uploadSessionsBefore :: int
  th_archiveJobEventsBefore :: int
  th_archiveAuditLogsBefore :: int
  th_archiveSecurityAuditBefore :: int

definition thresholds :: "int \<Rightarrow> retention_policy \<Rightarrow> retention_thresholds" where
  "thresholds now p = \<lparr>th_jobEventsBefore = days_before now (ret_jobEventsDays p),
     th_failedJobsBefore = days_before now (ret_failedJobDays p),
     th_terminalJobsBefore = days_before now (ret_terminalJobDays p),
     th_auditLogsBefore = days_before now (ret_auditLogDays p),
     th_securityAuditBefore = days_before now (ret_securityAuditDays p),
     th_uploadSessionsBefore = days_before now (ret_uploadSessionDays p),
     th_archiveJobEventsBefore = days_before now (ret_archiveJobEventDays p),
     th_archiveAuditLogsBefore = days_before now (ret_archiveAuditLogDays p),
     th_archiveSecurityAuditBefore = days_before now (ret_archiveSecurityAuditDays p)\<rparr>"

datatype retention_mode = Hard_delete | Archive_and_prune

record retention_archived =
  ar_jobEventsCompletedCanceled :: nat
  ar_jobEventsFailed :: nat
  ar_auditLogsGeneral :: nat
  ar_auditLogsSecurity :: nat

record retention_deleted =
  de_jobEventsCompletedCanceled :: nat
  de_jobEventsFailed :: nat
  de_auditLogsGeneral :: nat
  de_auditLogsSecurity :: nat
  de_jobsCompletedCanceled :: nat
  de_jobsFailed :: nat
  de_uploadSessions :: nat

record retention_purged =
  pu_jobEvents :: nat
  pu_auditLogsGeneral :: nat
  pu_auditLogsSecurity :: nat

record retention_summary =
  rs_policy :: retention_policy
  rs_mode :: retention_mode
  rs_thresholds :: retention_thresholds
  rs_archived :: retention_archived
  rs_deleted :: retention_deleted
  rs_archivePurged :: retention_purged

section \<open>Which rows\<close>

definition security_action :: "string \<Rightarrow> bool" where
  "security_action action \<longleftrightarrow> (\<exists>p\<in>set SECURITY_AUDIT_ACTION_PREFIXES. starts_with action p)"

definition event_job_status :: "app \<Rightarrow> job_event \<Rightarrow> job_status option" where
  "event_job_status s e = map_option j_status (find_job (e_jobId e) s)"

definition events_done_where :: "int \<Rightarrow> app \<Rightarrow> job_event \<Rightarrow> bool" where
  "events_done_where before s e \<longleftrightarrow> e_createdAt e < before
     \<and> event_job_status s e \<in> {Some COMPLETED, Some CANCELED}"

definition events_failed_where :: "int \<Rightarrow> app \<Rightarrow> job_event \<Rightarrow> bool" where
  "events_failed_where before s e \<longleftrightarrow> e_createdAt e < before \<and> event_job_status s e = Some FAILED"

definition audit_general_where :: "int \<Rightarrow> audit_row \<Rightarrow> bool" where
  "audit_general_where before r \<longleftrightarrow> a_createdAt r < before \<and> \<not> security_action (a_action r)"

definition audit_security_where :: "int \<Rightarrow> audit_row \<Rightarrow> bool" where
  "audit_security_where before r \<longleftrightarrow> a_createdAt r < before \<and> security_action (a_action r)"

section \<open>Database calls that may fail\<close>

datatype retention_call =
    RC_events_done | RC_events_failed | RC_audit_general | RC_audit_security | RC_jobs_done
  | RC_jobs_failed | RC_uploads | RC_archive_events | RC_archive_general | RC_archive_security | RC_last_run

type_synonym fault = "retention_call \<Rightarrow> nat \<Rightarrow> string option"

definition no_fault :: fault where
  "no_fault c n = None"

definition db_call :: "fault \<Rightarrow> retention_call \<Rightarrow> nat \<Rightarrow> (app, 'a) eff \<Rightarrow> (app, 'a) eff" where
  "db_call fault c n m = (case fault c n of None \<Rightarrow> m | Some e \<Rightarrow> throw (PlainError e))"

definition delete_events :: "(app \<Rightarrow> job_event \<Rightarrow> bool) \<Rightarrow> (app, nat) eff" where
  "delete_events P = (\<lambda>s. (Inr (tb_count (P s) (events s)), s\<lparr>events := tb_delete (P s) (events s)\<rparr>))"

definition delete_audits :: "(audit_row \<Rightarrow> bool) \<Rightarrow> (app, nat) eff" where
  "delete_audits P = (\<lambda>s. (Inr (tb_count P (audits s)), s\<lparr>audits := tb_delete P (audits s)\<rparr>))"

section \<open>Archiving in batches\<close>

definition archive_event_row :: "int \<Rightarrow> app \<Rightarrow> job_event \<Rightarrow> event_archive_row" where
  "archive_event_row now s e =
     \<lparr>ea_id = new_id s, ea_sourceJobEventId = Some (e_id e), ea_jobId = e_jobId e,
      ea_jobType = map_option j_type (find_job (e_jobId e) s), ea_jobStatus = event_job_status s e,
      ea_correlationId = e_correlationId e, ea_type = e_type e, ea_level = e_level e,
      ea_message = e_message e, ea_metadata = e_metadata e, ea_createdAt = e_createdAt e,
      ea_archivedAt = now\<rparr>"

text \<open>\<open>createMany\<close> with \<open>skipDuplicates\<close>: a row whose unique source id is archived already is skipped.\<close>

definition archive_event :: "int \<Rightarrow> app \<Rightarrow> job_event \<Rightarrow> app" where
  "archive_event now s e =
     (if \<exists>a\<in>set (eventArchive s). ea_sourceJobEventId a = Some (e_id e) then s
      else bump_id (s\<lparr>eventArchive := eventArchive s @ [archive_event_row now s e]\<rparr>))"

definition event_batch :: "(app \<Rightarrow> job_event \<Rightarrow> bool) \<Rightarrow> int \<Rightarrow> app \<Rightarrow> job_event list" where
  "event_batch P batchSize s = take_int batchSize (order_asc e_createdAt (filter (P s) (events s)))"

definition archive_event_batch :: "int \<Rightarrow> job_event list \<Rightarrow> app \<Rightarrow> app" where
  "archive_event_batch now rows s =
     (let s1 = foldl (archive_event now) s rows
      in s1\<lparr>events := tb_delete (\<lambda>e. e_id e \<in> set (map e_id rows)) (events s1)\<rparr>)"

lemma archive_event_frame [simp]:
  "events (archive_event now s e) = events s" "jobs (archive_event now s e) = jobs s"
  "audits (archive_event now s e) = audits s" "auditArchive (archive_event now s e) = auditArchive s"
  "cuid (archive_event now s e) = cuid s" "uploads (archive_event now s e) = uploads s"
  "settings (archive_event now s e) = settings s" "metrics (archive_event now s e) = metrics s"
  "cfg (archive_event now s e) = cfg s"
  by (simp_all add: archive_event_def bump_id_def)

lemma archive_events_frame [simp]:
  "events (foldl (archive_event now) s rows) = events s" "jobs (foldl (archive_event now) s rows) = jobs s"
  "audits (foldl (archive_event now) s rows) = audits s"
  "auditArchive (foldl (archive_event now) s rows) = auditArchive s"
  "cuid (foldl (archive_event now) s rows) = cuid s" "uploads (foldl (archive_event now) s rows) = uploads s"
  "settings (foldl (archive_event now) s rows) = settings s" "metrics (foldl (archive_event now) s rows) = metrics s"
  "cfg (foldl (archive_event now) s rows) = cfg s"
  by (induction rows arbitrary: s) simp_all

lemma event_batch_set: "set (event_batch P n s) \<subseteq> {e \<in> set (events s). P s e}"
  using set_take_int [of n "order_asc e_createdAt (filter (P s) (events s))"]
  by (auto simp: event_batch_def tbl_simps)

lemma tb_delete_less: "x \<in> set rs \<Longrightarrow> P x \<Longrightarrow> length (tb_delete P rs) < length rs"
  unfolding tb_delete_def by (rule length_filter_less) auto

lemma archive_event_batch_less:
  assumes "event_batch P n s = r # rs"
  shows "length (events (archive_event_batch now (r # rs) s)) < length (events s)"
proof -
  have "r \<in> set (events s)" using event_batch_set [of P n s] assms by auto
  then show ?thesis by (auto simp: archive_event_batch_def Let_def intro: tb_delete_less)
qed

function archiveAndDeleteJobEvents ::
  "fault \<Rightarrow> retention_call \<Rightarrow> nat \<Rightarrow> int \<Rightarrow> (app \<Rightarrow> job_event \<Rightarrow> bool) \<Rightarrow> int \<Rightarrow> nat \<Rightarrow> app \<Rightarrow> nat res \<times> app" where
  "archiveAndDeleteJobEvents fault c turn now P batchSize archived s =
     (case fault c turn of Some e \<Rightarrow> (Inl (PlainError e), s)
      | None \<Rightarrow> (case event_batch P batchSize s of
          [] \<Rightarrow> (Inr archived, s)
        | r # rs \<Rightarrow> archiveAndDeleteJobEvents fault c (turn + 1) now P batchSize
                      (archived + length (r # rs)) (archive_event_batch now (r # rs) s)))"
  by auto

termination
  by (relation "measure (\<lambda>(f, c, t, n, P, b, a, s). length (events s))")
     (auto intro: archive_event_batch_less)

declare archiveAndDeleteJobEvents.simps [simp del]

definition extractCorrelationIdFromAuditMetadata :: "json \<Rightarrow> string option" where
  "extractCorrelationIdFromAuditMetadata value =
     (if \<not> is_object value then None
      else let context = jget value ''_context'' in
        if \<not> is_object context then None else read_string (jget context ''correlationId''))"

definition archive_audit_row :: "int \<Rightarrow> app \<Rightarrow> audit_row \<Rightarrow> audit_archive_row" where
  "archive_audit_row now s r =
     \<lparr>aa_id = new_id s, aa_sourceAuditLogId = Some (a_id r), aa_actorUserId = a_actorUserId r,
      aa_correlationId = extractCorrelationIdFromAuditMetadata (a_metadata r), aa_action = a_action r,
      aa_entityType = a_entityType r, aa_entityId = a_entityId r, aa_metadata = a_metadata r,
      aa_ipAddress = a_ipAddress r, aa_createdAt = a_createdAt r, aa_archivedAt = now\<rparr>"

definition archive_audit :: "int \<Rightarrow> app \<Rightarrow> audit_row \<Rightarrow> app" where
  "archive_audit now s r =
     (if \<exists>a\<in>set (auditArchive s). aa_sourceAuditLogId a = Some (a_id r) then s
      else bump_id (s\<lparr>auditArchive := auditArchive s @ [archive_audit_row now s r]\<rparr>))"

definition audit_batch :: "(audit_row \<Rightarrow> bool) \<Rightarrow> int \<Rightarrow> app \<Rightarrow> audit_row list" where
  "audit_batch P batchSize s = take_int batchSize (order_asc a_createdAt (filter P (audits s)))"

definition archive_audit_batch :: "int \<Rightarrow> audit_row list \<Rightarrow> app \<Rightarrow> app" where
  "archive_audit_batch now rows s =
     (let s1 = foldl (archive_audit now) s rows
      in s1\<lparr>audits := tb_delete (\<lambda>r. a_id r \<in> set (map a_id rows)) (audits s1)\<rparr>)"

lemma archive_audit_frame [simp]:
  "audits (archive_audit now s e) = audits s" "jobs (archive_audit now s e) = jobs s"
  "events (archive_audit now s e) = events s" "eventArchive (archive_audit now s e) = eventArchive s"
  "uploads (archive_audit now s e) = uploads s" "settings (archive_audit now s e) = settings s"
  "metrics (archive_audit now s e) = metrics s" "cfg (archive_audit now s e) = cfg s"
  by (simp_all add: archive_audit_def bump_id_def)

lemma archive_audits_frame [simp]:
  "audits (foldl (archive_audit now) s rows) = audits s" "jobs (foldl (archive_audit now) s rows) = jobs s"
  "events (foldl (archive_audit now) s rows) = events s"
  "eventArchive (foldl (archive_audit now) s rows) = eventArchive s"
  "uploads (foldl (archive_audit now) s rows) = uploads s" "settings (foldl (archive_audit now) s rows) = settings s"
  "metrics (foldl (archive_audit now) s rows) = metrics s" "cfg (foldl (archive_audit now) s rows) = cfg s"
  by (induction rows arbitrary: s) simp_all

lemma audit_batch_set: "set (audit_batch P n s) \<subseteq> {r \<in> set (audits s). P r}"
  using set_take_int [of n "order_asc a_createdAt (filter P (audits s))"]
  by (auto simp: audit_batch_def tbl_simps)

lemma archive_audit_batch_less:
  assumes "audit_batch P n s = r # rs"
  shows "length (audits (archive_audit_batch now (r # rs) s)) < length (audits s)"
proof -
  have "r \<in> set (audits s)" using audit_batch_set [of P n s] assms by auto
  then show ?thesis by (auto simp: archive_audit_batch_def Let_def intro: tb_delete_less)
qed

function archiveAndDeleteAuditLogs ::
  "fault \<Rightarrow> retention_call \<Rightarrow> nat \<Rightarrow> int \<Rightarrow> (audit_row \<Rightarrow> bool) \<Rightarrow> int \<Rightarrow> nat \<Rightarrow> app \<Rightarrow> nat res \<times> app" where
  "archiveAndDeleteAuditLogs fault c turn now P batchSize archived s =
     (case fault c turn of Some e \<Rightarrow> (Inl (PlainError e), s)
      | None \<Rightarrow> (case audit_batch P batchSize s of
          [] \<Rightarrow> (Inr archived, s)
        | r # rs \<Rightarrow> archiveAndDeleteAuditLogs fault c (turn + 1) now P batchSize
                      (archived + length (r # rs)) (archive_audit_batch now (r # rs) s)))"
  by auto

termination
  by (relation "measure (\<lambda>(f, c, t, n, P, b, a, s). length (audits s))")
     (auto intro: archive_audit_batch_less)

declare archiveAndDeleteAuditLogs.simps [simp del]

section \<open>Deleting jobs, uploads and archives\<close>

definition terminal_where :: "job_status list \<Rightarrow> int \<Rightarrow> job \<Rightarrow> bool" where
  "terminal_where statuses threshold j \<longleftrightarrow> j_status j \<in> set statuses
     \<and> (case j_completedAt j of None \<Rightarrow> False | Some t \<Rightarrow> t < threshold)"

text \<open>The events of a deleted job go with it.\<close>

definition deleteTerminalJobs :: "job_status list \<Rightarrow> int \<Rightarrow> (app, nat) eff" where
  "deleteTerminalJobs statuses threshold = (\<lambda>s.
     let P = terminal_where statuses threshold; gone = map j_id (filter P (jobs s))
     in (Inr (tb_count P (jobs s)),
         s\<lparr>jobs := tb_delete P (jobs s), events := tb_delete (\<lambda>e. e_jobId e \<in> set gone) (events s)\<rparr>))"

definition delete_upload_sessions :: "int \<Rightarrow> (app, nat) eff" where
  "delete_upload_sessions before = (\<lambda>s.
     let P = (\<lambda>u. up_status u \<in> {UP_COMPLETED, UP_ABORTED, UP_FAILED} \<and> up_updatedAt u < before)
     in (Inr (tb_count P (uploads s)), s\<lparr>uploads := tb_delete P (uploads s)\<rparr>))"

definition purge_event_archive :: "int \<Rightarrow> (app, nat) eff" where
  "purge_event_archive before = (\<lambda>s. let P = (\<lambda>a. ea_createdAt a < before)
     in (Inr (tb_count P (eventArchive s)), s\<lparr>eventArchive := tb_delete P (eventArchive s)\<rparr>))"

definition purge_audit_archive :: "(audit_archive_row \<Rightarrow> bool) \<Rightarrow> (app, nat) eff" where
  "purge_audit_archive P = (\<lambda>s.
     (Inr (tb_count P (auditArchive s)), s\<lparr>auditArchive := tb_delete P (auditArchive s)\<rparr>))"

text \<open>\<open>Promise.all\<close> of the three deletions: all are made, the first failure is thrown.\<close>

definition applyArchiveGovernance :: "fault \<Rightarrow> retention_thresholds \<Rightarrow> (app, retention_purged) eff" where
  "applyArchiveGovernance fault th = (\<lambda>s.
     let (r1, s1) = db_call fault RC_archive_events 0 (purge_event_archive (th_archiveJobEventsBefore th)) s;
         (r2, s2) = db_call fault RC_archive_general 0 (purge_audit_archive (\<lambda>a.
           aa_createdAt a < th_archiveAuditLogsBefore th \<and> \<not> security_action (aa_action a))) s1;
         (r3, s3) = db_call fault RC_archive_security 0 (purge_audit_archive (\<lambda>a.
           aa_createdAt a < th_archiveSecurityAuditBefore th \<and> security_action (aa_action a))) s2
     in case (r1, r2, r3) of
          (Inr n1, Inr n2, Inr n3) \<Rightarrow>
            (Inr \<lparr>pu_jobEvents = n1, pu_auditLogsGeneral = n2, pu_auditLogsSecurity = n3\<rparr>, s3)
        | (Inl e, _, _) \<Rightarrow> (Inl e, s3) | (_, Inl e, _) \<Rightarrow> (Inl e, s3) | (_, _, Inl e) \<Rightarrow> (Inl e, s3))"

section \<open>The state of the last run\<close>

record last_run_state =
  lr_ranAt :: int
  lr_failure :: bool
  lr_mode :: retention_mode
  lr_reason :: job_reason
  lr_jobId :: "string option"
  lr_error :: "string option"
  lr_archived :: "(string \<times> rat) list"
  lr_deleted :: "(string \<times> rat) list"
  lr_archivePurged :: "(string \<times> rat) list"

fun mode_name :: "retention_mode \<Rightarrow> string" where
  "mode_name Hard_delete = ''hard_delete''"
| "mode_name Archive_and_prune = ''archive_and_prune''"

definition archived_counts :: "retention_archived \<Rightarrow> (string \<times> rat) list" where
  "archived_counts a = [(''jobEventsCompletedCanceled'', of_nat (ar_jobEventsCompletedCanceled a)),
     (''jobEventsFailed'', of_nat (ar_jobEventsFailed a)), (''auditLogsGeneral'', of_nat (ar_auditLogsGeneral a)),
     (''auditLogsSecurity'', of_nat (ar_auditLogsSecurity a))]"

definition deleted_counts :: "retention_deleted \<Rightarrow> (string \<times> rat) list" where
  "deleted_counts d = [(''jobEventsCompletedCanceled'', of_nat (de_jobEventsCompletedCanceled d)),
     (''jobEventsFailed'', of_nat (de_jobEventsFailed d)), (''auditLogsGeneral'', of_nat (de_auditLogsGeneral d)),
     (''auditLogsSecurity'', of_nat (de_auditLogsSecurity d)),
     (''jobsCompletedCanceled'', of_nat (de_jobsCompletedCanceled d)), (''jobsFailed'', of_nat (de_jobsFailed d)),
     (''uploadSessions'', of_nat (de_uploadSessions d))]"

definition purged_counts :: "retention_purged \<Rightarrow> (string \<times> rat) list" where
  "purged_counts p = [(''jobEvents'', of_nat (pu_jobEvents p)), (''auditLogsGeneral'', of_nat (pu_auditLogsGeneral p)),
     (''auditLogsSecurity'', of_nat (pu_auditLogsSecurity p))]"

definition counts_json :: "(string \<times> rat) list \<Rightarrow> json" where
  "counts_json cs = JObj (map (\<lambda>(k, n). (k, JNum n)) cs)"

definition last_run_json :: "last_run_state \<Rightarrow> json" where
  "last_run_json v = JObj [(''ranAt'', jint (lr_ranAt v)),
     (''status'', JStr (if lr_failure v then ''failure'' else ''success'')),
     (''mode'', JStr (mode_name (lr_mode v))), (''reason'', JStr (reason_str (lr_reason v))),
     (''jobId'', jstr_opt (lr_jobId v)), (''error'', jstr_opt (lr_error v)),
     (''archived'', counts_json (lr_archived v)), (''deleted'', counts_json (lr_deleted v)),
     (''archivePurged'', counts_json (lr_archivePurged v))]"

definition setLastRunState :: "last_run_state \<Rightarrow> (app, unit) eff" where
  "setLastRunState v = modify (\<lambda>s. s\<lparr>settings := (settings s)(RETENTION_LAST_RUN_KEY \<mapsto> last_run_json v)\<rparr>)"

text \<open>\<open>ranAt\<close> is an ISO string in the database; as an instant it is read back by \<open>read_date\<close>, which is
  \<open>None\<close> for anything that is not a date the code wrote.\<close>

fun read_date :: "json \<Rightarrow> int option" where
  "read_date (JNum n) = Some (floor n)"
| "read_date _ = None"

definition readNumberRecord :: "json \<Rightarrow> (string \<times> rat) list" where
  "readNumberRecord value = (case value of
     JObj kvs \<Rightarrow> List.map_filter (\<lambda>(k, v). map_option (\<lambda>n. (k, n)) (read_number v)) kvs
   | _ \<Rightarrow> [])"

definition getLastRunState :: "app \<Rightarrow> last_run_state option" where
  "getLastRunState s = (case settings s RETENTION_LAST_RUN_KEY of
     None \<Rightarrow> None
   | Some value \<Rightarrow> if \<not> is_object value then None
       else Some \<lparr>lr_ranAt = or_else (read_date (jget value ''ranAt'')) 0,
         lr_failure = (read_string (jget value ''status'') = Some ''failure''),
         lr_mode = (if read_string (jget value ''mode'') = Some ''archive_and_prune'' then Archive_and_prune else Hard_delete),
         lr_reason = (if read_string (jget value ''reason'') = Some ''scheduled'' then R_scheduled else R_manual),
         lr_jobId = read_string (jget value ''jobId''), lr_error = read_string (jget value ''error''),
         lr_archived = readNumberRecord (jget value ''archived''),
         lr_deleted = readNumberRecord (jget value ''deleted''),
         lr_archivePurged = readNumberRecord (jget value ''archivePurged'')\<rparr>)"

definition policy_mode :: "retention_policy \<Rightarrow> retention_mode" where
  "policy_mode p = (if ret_archiveEnabled p then Archive_and_prune else Hard_delete)"

text \<open>A failure to record the failure is only logged.\<close>

definition markLastRunFailure ::
  "fault \<Rightarrow> int \<Rightarrow> string \<Rightarrow> retention_mode option \<Rightarrow> job_reason option \<Rightarrow> string option \<Rightarrow> (app, unit) eff" where
  "markLastRunFailure fault now errorMessage md reason jobId = (\<lambda>s.
     catch_eff (db_call fault RC_last_run 1 (setLastRunState
       \<lparr>lr_ranAt = now, lr_failure = True, lr_mode = or_else md (policy_mode (getPolicy (cfg s))),
        lr_reason = or_else reason R_manual, lr_jobId = jobId, lr_error = Some (take 2000 errorMessage),
        lr_archived = [], lr_deleted = [], lr_archivePurged = []\<rparr>)) (\<lambda>_. ok ()) s)"

section \<open>The clean-up run\<close>

definition prune_counts ::
  "fault \<Rightarrow> int \<Rightarrow> retention_policy \<Rightarrow> retention_thresholds \<Rightarrow> (app, nat \<times> nat \<times> nat \<times> nat) eff" where
  "prune_counts fault now p th = (
     let done_P = events_done_where (th_jobEventsBefore th); failed_P = events_failed_where (th_failedJobsBefore th);
         gen_P = audit_general_where (th_auditLogsBefore th); sec_P = audit_security_where (th_securityAuditBefore th);
         n = ret_archiveBatchSize p
     in if ret_archiveEnabled p
        then bind_eff (archiveAndDeleteJobEvents fault RC_events_done 0 now done_P n 0) (\<lambda>a.
             bind_eff (archiveAndDeleteJobEvents fault RC_events_failed 0 now failed_P n 0) (\<lambda>b.
             bind_eff (archiveAndDeleteAuditLogs fault RC_audit_general 0 now gen_P n 0) (\<lambda>c.
             bind_eff (archiveAndDeleteAuditLogs fault RC_audit_security 0 now sec_P n 0) (\<lambda>d. ok (a, b, c, d)))))
        else bind_eff (db_call fault RC_events_done 0 (delete_events done_P)) (\<lambda>a.
             bind_eff (db_call fault RC_events_failed 0 (delete_events failed_P)) (\<lambda>b.
             bind_eff (db_call fault RC_audit_general 0 (delete_audits gen_P)) (\<lambda>c.
             bind_eff (db_call fault RC_audit_security 0 (delete_audits sec_P)) (\<lambda>d. ok (a, b, c, d))))))"

definition retention_metrics :: "retention_archived \<Rightarrow> retention_deleted \<Rightarrow> retention_purged \<Rightarrow> app \<Rightarrow> app" where
  "retention_metrics ar de pu s =
     recordArchiveGovernanceDeleted ''audit_logs_archive'' (pu_auditLogsGeneral pu + pu_auditLogsSecurity pu)
      (recordArchiveGovernanceDeleted ''job_events_archive'' (pu_jobEvents pu)
      (recordRetentionArchived ''audit_logs'' (ar_auditLogsGeneral ar + ar_auditLogsSecurity ar)
      (recordRetentionArchived ''job_events'' (ar_jobEventsCompletedCanceled ar + ar_jobEventsFailed ar)
      (recordRetentionDeleted ''upload_sessions'' (de_uploadSessions de)
      (recordRetentionDeleted ''jobs'' (de_jobsCompletedCanceled de + de_jobsFailed de)
      (recordRetentionDeleted ''audit_logs'' (de_auditLogsGeneral de + de_auditLogsSecurity de)
      (recordRetentionDeleted ''job_events'' (de_jobEventsCompletedCanceled de + de_jobEventsFailed de)
      (add_metric (MRetentionCleanup True) s))))))))"

text \<open>The run from the deletion of the failed jobs on, with the counts so far.\<close>

definition cleanup_tail ::
  "fault \<Rightarrow> int \<Rightarrow> job_reason option \<Rightarrow> string option \<Rightarrow> retention_policy \<Rightarrow> retention_thresholds
    \<Rightarrow> nat \<times> nat \<times> nat \<times> nat \<Rightarrow> nat \<Rightarrow> (app, retention_summary) eff" where
  "cleanup_tail fault t1 reason jobId p th counts j1 = (case counts of (a, b, c, d) \<Rightarrow>
     bind_eff (db_call fault RC_jobs_failed 0 (deleteTerminalJobs [FAILED] (th_failedJobsBefore th))) (\<lambda>j2.
     bind_eff (db_call fault RC_uploads 0 (delete_upload_sessions (th_uploadSessionsBefore th))) (\<lambda>u.
     bind_eff (applyArchiveGovernance fault th) (\<lambda>pu.
       let arch = (if ret_archiveEnabled p
                   then \<lparr>ar_jobEventsCompletedCanceled = a, ar_jobEventsFailed = b, ar_auditLogsGeneral = c,
                         ar_auditLogsSecurity = d\<rparr>
                   else \<lparr>ar_jobEventsCompletedCanceled = 0, ar_jobEventsFailed = 0, ar_auditLogsGeneral = 0,
                         ar_auditLogsSecurity = 0\<rparr>);
           del = \<lparr>de_jobEventsCompletedCanceled = a, de_jobEventsFailed = b, de_auditLogsGeneral = c,
                  de_auditLogsSecurity = d, de_jobsCompletedCanceled = j1, de_jobsFailed = j2, de_uploadSessions = u\<rparr>
       in seq_eff (modify (retention_metrics arch del pu))
          (seq_eff (db_call fault RC_last_run 0 (setLastRunState
             \<lparr>lr_ranAt = t1, lr_failure = False, lr_mode = policy_mode p, lr_reason = or_else reason R_manual,
              lr_jobId = jobId, lr_error = None, lr_archived = archived_counts arch,
              lr_deleted = deleted_counts del, lr_archivePurged = purged_counts pu\<rparr>))
           (ok \<lparr>rs_policy = p, rs_mode = policy_mode p, rs_thresholds = th, rs_archived = arch,
                rs_deleted = del, rs_archivePurged = pu\<rparr>))))))"

definition cleanup_body ::
  "fault \<Rightarrow> int \<Rightarrow> int \<Rightarrow> job_reason option \<Rightarrow> string option \<Rightarrow> retention_policy \<Rightarrow> (app, retention_summary) eff" where
  "cleanup_body fault now t1 reason jobId p = (
     let th = thresholds now p in
     bind_eff (prune_counts fault now p th) (\<lambda>counts.
     bind_eff (db_call fault RC_jobs_done 0 (deleteTerminalJobs [COMPLETED, CANCELED] (th_terminalJobsBefore th)))
       (\<lambda>j1. cleanup_tail fault t1 reason jobId p th counts j1)))"

text \<open>\<open>now\<close> is read at the start, \<open>t1\<close> when the state of the run is recorded.\<close>

definition runCleanup ::
  "fault \<Rightarrow> int \<Rightarrow> int \<Rightarrow> job_reason option \<Rightarrow> string option \<Rightarrow> (app, retention_summary) eff" where
  "runCleanup fault now t1 reason jobId = (\<lambda>s.
     let p = getPolicy (cfg s) in
     catch_eff (cleanup_body fault now t1 reason jobId p) (\<lambda>error.
       seq_eff (modify (add_metric (MRetentionCleanup False)))
       (seq_eff (markLastRunFailure fault t1 (err_message error) (Some (policy_mode p)) (Some (or_else reason R_manual)) jobId)
        (throw error))) s)"

record archive_stats =
  as_enabled :: bool
  as_auditLogArchiveCount :: nat
  as_jobEventArchiveCount :: nat
  as_lastArchivedAt :: "int option"
  as_archiveAuditLogDays :: int
  as_archiveSecurityAuditDays :: int
  as_archiveJobEventDays :: int

definition latest :: "int list \<Rightarrow> int option" where
  "latest ts = (if ts = [] then None else Some (Max (set ts)))"

definition getArchiveStats :: "app \<Rightarrow> archive_stats" where
  "getArchiveStats s = (let p = getPolicy (cfg s) in
     \<lparr>as_enabled = ret_archiveEnabled p, as_auditLogArchiveCount = length (auditArchive s),
      as_jobEventArchiveCount = length (eventArchive s),
      as_lastArchivedAt = latest (map aa_archivedAt (auditArchive s) @ map ea_archivedAt (eventArchive s)),
      as_archiveAuditLogDays = ret_archiveAuditLogDays p,
      as_archiveSecurityAuditDays = ret_archiveSecurityAuditDays p,
      as_archiveJobEventDays = ret_archiveJobEventDays p\<rparr>)"

end
