(* ===== verification/RetentionProps.thy ===== *)
theory RetentionProps
  imports Retention
begin

text \<open>
  What a retention run does to the rows it may delete: no audit row is lost while an archive is kept,
  rows inside their window stay, the jobs at work are not touched, and the state of the run is
  recorded.
\<close>

section \<open>A batch\<close>

lemma tb_delete_sub:
  "(\<And>r. r \<in> set rs \<Longrightarrow> Q r \<Longrightarrow> P r) \<Longrightarrow> tb_delete P (tb_delete Q rs) = tb_delete P rs"
  by (induction rs) (auto simp: tb_delete_def)

lemma tb_count_split:
  "(\<And>r. r \<in> set rs \<Longrightarrow> Q r \<Longrightarrow> P r) \<Longrightarrow> tb_count P rs = tb_count Q rs + tb_count P (tb_delete Q rs)"
  by (induction rs) (auto simp: tb_delete_def tb_count_def)

lemma batch_delete:
  assumes ids: "distinct (map g rs)" and b: "b = take_int n (order_asc k (filter P rs))"
  shows "tb_delete P (tb_delete (\<lambda>r. g r \<in> set (map g b)) rs) = tb_delete P rs"
    and "tb_count P rs = length b + tb_count P (tb_delete (\<lambda>r. g r \<in> set (map g b)) rs)"
proof -
  define Q where "Q r = (g r \<in> set (map g b))" for r
  have bsub: "set b \<subseteq> {r \<in> set rs. P r}"
    using set_take_int [of n "order_asc k (filter P rs)"] by (auto simp: b tbl_simps)
  have Qb: "Q r \<longleftrightarrow> r \<in> set b" if r: "r \<in> set rs" for r
    using bsub ids r by (auto simp: Q_def distinct_map dest: inj_onD)
  have QP: "\<And>r. r \<in> set rs \<Longrightarrow> Q r \<Longrightarrow> P r" using Qb bsub by auto
  have "distinct rs" using ids by (simp add: distinct_map)
  then have db: "distinct b"
    by (simp add: b take_int_def order_asc_def)
  have "set (filter Q rs) = set b" using Qb bsub by auto
  with db \<open>distinct rs\<close> have "length (filter Q rs) = length b"
    by (metis distinct_card distinct_filter)
  then have len: "tb_count Q rs = length b" by (simp add: tb_count_def)
  show "tb_delete P (tb_delete (\<lambda>r. g r \<in> set (map g b)) rs) = tb_delete P rs"
    using tb_delete_sub [of rs Q P, OF QP] by (simp add: Q_def [abs_def])
  show "tb_count P rs = length b + tb_count P (tb_delete (\<lambda>r. g r \<in> set (map g b)) rs)"
    using tb_count_split [of rs Q P, OF QP] len by (simp add: Q_def [abs_def])
qed

lemma batch_empty:
  assumes "take_int n (order_asc k (filter P rs)) = []" and "0 < n"
  shows "tb_delete P rs = rs" and "tb_count P rs = 0"
proof -
  have "order_asc k (filter P rs) = []" using assms by (simp add: take_int_def)
  then have "filter P rs = []" by (metis length_0_conv length_order(1))
  then show "tb_delete P rs = rs" "tb_count P rs = 0"
    by (auto simp: tb_delete_def tb_count_def filter_empty_conv)
qed

lemma distinct_tb_delete: "distinct (map g rs) \<Longrightarrow> distinct (map g (tb_delete P rs))"
  by (simp add: tb_delete_def distinct_map_filter)

section \<open>Archiving without a failure\<close>

lemma audit_loop_no_fault:
  assumes "distinct (map a_id (audits s))" and "0 < n"
  shows "fst (archiveAndDeleteAuditLogs no_fault c t now P n k s) = Inr (k + tb_count P (audits s))
    \<and> audits (snd (archiveAndDeleteAuditLogs no_fault c t now P n k s)) = tb_delete P (audits s)"
  using assms
proof (induction no_fault c t now P n k s rule: archiveAndDeleteAuditLogs.induct)
  case (1 c t now P n k s)
  show ?case
  proof (cases "audit_batch P n s")
    case Nil
    then show ?thesis using batch_empty [of n a_createdAt P "audits s"] 1(3)
      by (simp add: archiveAndDeleteAuditLogs.simps [of no_fault] no_fault_def audit_batch_def)
  next
    case (Cons r rs)
    let ?s = "archive_audit_batch now (r # rs) s"
    note bd = batch_delete [OF 1(2), of "r # rs" n a_createdAt P, unfolded audit_batch_def [symmetric], OF Cons [symmetric]]
    have au: "audits ?s = tb_delete (\<lambda>x. a_id x \<in> set (map a_id (r # rs))) (audits s)"
      by (simp add: archive_audit_batch_def Let_def)
    have dist: "distinct (map a_id (audits ?s))" using 1(2) by (simp only: au distinct_tb_delete)
    have "no_fault c t = None" by (simp add: no_fault_def)
    from 1(1) [OF this Cons dist 1(3)] show ?thesis
      using bd unfolding archiveAndDeleteAuditLogs.simps [of no_fault c t now P n k s] Cons au
      by (simp add: no_fault_def)
  qed
qed

lemma event_loop_no_fault:
  assumes "distinct (map e_id (events s))" and "0 < n"
    and "\<And>s1. jobs s1 = jobs s \<Longrightarrow> P s1 = P s"
  shows "fst (archiveAndDeleteJobEvents no_fault c t now P n k s) = Inr (k + tb_count (P s) (events s))
    \<and> events (snd (archiveAndDeleteJobEvents no_fault c t now P n k s)) = tb_delete (P s) (events s)"
  using assms
proof (induction no_fault c t now P n k s rule: archiveAndDeleteJobEvents.induct)
  case (1 c t now P n k s)
  show ?case
  proof (cases "event_batch P n s")
    case Nil
    then show ?thesis using batch_empty [of n e_createdAt "P s" "events s"] 1(3)
      by (simp add: archiveAndDeleteJobEvents.simps [of no_fault] no_fault_def event_batch_def)
  next
    case (Cons r rs)
    let ?s = "archive_event_batch now (r # rs) s"
    note bd = batch_delete [OF 1(2), of "r # rs" n e_createdAt "P s", unfolded event_batch_def [symmetric], OF Cons [symmetric]]
    have au: "events ?s = tb_delete (\<lambda>x. e_id x \<in> set (map e_id (r # rs))) (events s)"
      and jo: "jobs ?s = jobs s"
      by (simp_all add: archive_event_batch_def Let_def)
    have dist: "distinct (map e_id (events ?s))" using 1(2) by (simp only: au distinct_tb_delete)
    have Ps: "P ?s = P s" using 1(4) jo by blast
    have nf: "no_fault c t = None" by (simp add: no_fault_def)
    have PP: "\<And>s1. jobs s1 = jobs ?s \<Longrightarrow> P s1 = P ?s" using 1(4) jo Ps by metis
    note ih = 1(1) [OF nf Cons dist 1(3) PP]
    show ?thesis
      using bd ih unfolding archiveAndDeleteJobEvents.simps [of no_fault c t now P n k s] Cons
      by (simp add: no_fault_def Ps au)
  qed
qed


section \<open>No audit row is lost\<close>

definition audit_copy :: "audit_row \<Rightarrow> audit_archive_row \<Rightarrow> bool" where
  "audit_copy r a \<longleftrightarrow> aa_sourceAuditLogId a = Some (a_id r) \<and> aa_actorUserId a = a_actorUserId r
     \<and> aa_action a = a_action r \<and> aa_entityType a = a_entityType r \<and> aa_entityId a = a_entityId r
     \<and> aa_metadata a = a_metadata r \<and> aa_ipAddress a = a_ipAddress r \<and> aa_createdAt a = a_createdAt r"

text \<open>Identifiers are primary keys, and a row in the log has not been archived yet.\<close>

definition audit_keys :: "app \<Rightarrow> bool" where
  "audit_keys s \<longleftrightarrow> distinct (map a_id (audits s))
     \<and> (\<forall>a\<in>set (auditArchive s). \<forall>r\<in>set (audits s). aa_sourceAuditLogId a \<noteq> Some (a_id r))"

definition archive_bound :: "retention_thresholds \<Rightarrow> audit_row \<Rightarrow> int" where
  "archive_bound th r = (if security_action (a_action r) then th_archiveSecurityAuditBefore th
     else th_archiveAuditLogsBefore th)"

definition audit_trail :: "retention_thresholds \<Rightarrow> audit_row list \<Rightarrow> app \<Rightarrow> bool" where
  "audit_trail th old s \<longleftrightarrow> audit_keys s \<and> (\<forall>r\<in>set old. r \<in> set (audits s)
     \<or> (\<exists>a\<in>set (auditArchive s). audit_copy r a) \<or> a_createdAt r < archive_bound th r)"

lemma audit_trail_frame:
  "audit_trail th old s \<Longrightarrow> audits t = audits s \<Longrightarrow> auditArchive t = auditArchive s \<Longrightarrow> audit_trail th old t"
  by (simp add: audit_trail_def audit_keys_def)

lemma archive_audits_spec:
  assumes "distinct (map a_id rows)"
    and "\<forall>a\<in>set (auditArchive s). \<forall>r\<in>set rows. aa_sourceAuditLogId a \<noteq> Some (a_id r)"
  shows "set (auditArchive s) \<subseteq> set (auditArchive (foldl (archive_audit now) s rows))
    \<and> (\<forall>r\<in>set rows. \<exists>a\<in>set (auditArchive (foldl (archive_audit now) s rows)). audit_copy r a)
    \<and> (\<forall>a\<in>set (auditArchive (foldl (archive_audit now) s rows)).
         a \<in> set (auditArchive s) \<or> (\<exists>r\<in>set rows. aa_sourceAuditLogId a = Some (a_id r)))"
  using assms
proof (induction rows arbitrary: s)
  case (Cons r rows)
  let ?s = "archive_audit now s r"
  have fresh: "\<not> (\<exists>a\<in>set (auditArchive s). aa_sourceAuditLogId a = Some (a_id r))" using Cons.prems(2) by auto
  then have ar: "auditArchive ?s = auditArchive s @ [archive_audit_row now s r]"
    by (simp add: archive_audit_def bump_id_def)
  have copy: "audit_copy r (archive_audit_row now s r)"
    and src: "aa_sourceAuditLogId (archive_audit_row now s r) = Some (a_id r)"
    by (simp_all add: audit_copy_def archive_audit_row_def)
  have pre: "\<forall>a\<in>set (auditArchive ?s). \<forall>q\<in>set rows. aa_sourceAuditLogId a \<noteq> Some (a_id q)"
    using Cons.prems by (auto simp: ar src image_iff)
  have "distinct (map a_id rows)" using Cons.prems(1) by simp
  note ih = Cons.IH [OF this pre]
  show ?case using ih copy src unfolding ar by auto
qed simp

lemma archive_audit_batch_trail:
  assumes trail: "audit_trail th old s" and sub: "set rows \<subseteq> set (audits s)" and dist: "distinct (map a_id rows)"
  shows "audit_trail th old (archive_audit_batch now rows s)"
proof -
  let ?t = "archive_audit_batch now rows s"
  have keys: "audit_keys s" using trail by (simp add: audit_trail_def)
  have fresh: "\<forall>a\<in>set (auditArchive s). \<forall>r\<in>set rows. aa_sourceAuditLogId a \<noteq> Some (a_id r)"
    using keys sub by (auto simp: audit_keys_def)
  have au: "audits ?t = tb_delete (\<lambda>x. a_id x \<in> set (map a_id rows)) (audits s)"
    and ar: "auditArchive ?t = auditArchive (foldl (archive_audit now) s rows)"
    by (simp_all add: archive_audit_batch_def Let_def)
  note spec = archive_audits_spec [OF dist fresh, of now, folded ar]
  have row: "x \<in> set rows" if "x \<in> set (audits s)" "a_id x \<in> set (map a_id rows)" for x
  proof -
    obtain y where y: "y \<in> set rows" "a_id y = a_id x" using \<open>a_id x \<in> set (map a_id rows)\<close> by auto
    have "inj_on a_id (set (audits s))" using keys by (simp add: audit_keys_def distinct_map)
    then have "y = x" using y sub \<open>x \<in> set (audits s)\<close> by (meson inj_onD subsetD)
    then show ?thesis using y by simp
  qed
  have "audit_keys ?t"
    unfolding audit_keys_def
  proof (intro conjI ballI)
    show "distinct (map a_id (audits ?t))"
      using keys unfolding au by (simp add: audit_keys_def distinct_tb_delete)
    fix a r assume a: "a \<in> set (auditArchive ?t)" and r: "r \<in> set (audits ?t)"
    have r': "r \<in> set (audits s)" "a_id r \<notin> set (map a_id rows)" using r by (simp_all add: au tbl_simps)
    from spec a have "a \<in> set (auditArchive s) \<or> (\<exists>q\<in>set rows. aa_sourceAuditLogId a = Some (a_id q))" by blast
    then show "aa_sourceAuditLogId a \<noteq> Some (a_id r)" using keys r' by (auto simp: audit_keys_def image_iff)
  qed
  moreover have "r \<in> set (audits ?t) \<or> (\<exists>a\<in>set (auditArchive ?t). audit_copy r a) \<or> a_createdAt r < archive_bound th r"
    if "r \<in> set old" for r
  proof -
    from trail \<open>r \<in> set old\<close> consider "r \<in> set (audits s)" | "\<exists>a\<in>set (auditArchive s). audit_copy r a"
      | "a_createdAt r < archive_bound th r" by (auto simp: audit_trail_def)
    then show ?thesis
    proof cases
      case 1
      then show ?thesis using row [of r] spec by (cases "a_id r \<in> set (map a_id rows)") (auto simp: au tbl_simps)
    next
      case 2
      then show ?thesis using spec by blast
    qed simp
  qed
  ultimately show ?thesis by (simp add: audit_trail_def)
qed

lemma distinct_batch:
  "distinct (map g rs) \<Longrightarrow> distinct (map g (take_int n (order_asc k (filter P rs))))"
proof -
  assume "distinct (map g rs)"
  then have "distinct (filter P rs)" "inj_on g (set (filter P rs))"
    by (auto simp: distinct_map intro: inj_on_subset)
  then have "distinct (map g (order_asc k (filter P rs)))" by (simp add: order_asc_def distinct_map)
  then show ?thesis by (simp add: take_int_def distinct_map) (meson distinct_take inj_on_subset set_take_subset)
qed

lemma archive_audits_trail:
  "audit_trail th old s \<Longrightarrow> audit_trail th old (snd (archiveAndDeleteAuditLogs fault c t now P n k s))"
proof (induction fault c t now P n k s rule: archiveAndDeleteAuditLogs.induct)
  case (1 fault c t now P n k s)
  show ?case
  proof (cases "fault c t")
    case None
    show ?thesis
    proof (cases "audit_batch P n s")
      case (Cons r rs)
      have "distinct (map a_id (audit_batch P n s))"
        using 1(2) by (simp add: audit_batch_def audit_trail_def audit_keys_def distinct_batch)
      then have d: "distinct (map a_id (r # rs))" by (simp only: Cons)
      have sub: "set (r # rs) \<subseteq> set (audits s)" using audit_batch_set [of P n s] Cons by auto
      from 1(1) [OF None Cons archive_audit_batch_trail [OF 1(2) sub d]] show ?thesis
        unfolding archiveAndDeleteAuditLogs.simps [of fault c t now P n k s] by (simp add: None Cons)
    qed (simp add: archiveAndDeleteAuditLogs.simps [of fault] None 1(2))
  qed (simp add: archiveAndDeleteAuditLogs.simps [of fault] 1(2))
qed

lemma archive_events_audits:
  "audits (snd (archiveAndDeleteJobEvents fault c t now P n k s)) = audits s
   \<and> auditArchive (snd (archiveAndDeleteJobEvents fault c t now P n k s)) = auditArchive s
   \<and> jobs (snd (archiveAndDeleteJobEvents fault c t now P n k s)) = jobs s"
proof (induction fault c t now P n k s rule: archiveAndDeleteJobEvents.induct)
  case (1 fault c t now P n k s)
  have "audits (archive_event_batch now rows s) = audits s" "jobs (archive_event_batch now rows s) = jobs s"
    "auditArchive (archive_event_batch now rows s) = auditArchive s" for rows
    by (simp_all add: archive_event_batch_def Let_def)
  then show ?case
    using 1 by (simp add: archiveAndDeleteJobEvents.simps [of fault c t now P n k s] split: option.split list.split)
qed

lemma purge_audits_trail:
  assumes "audit_trail th old s"
    and "\<And>a r. audit_copy r a \<Longrightarrow> Q a \<Longrightarrow> a_createdAt r < archive_bound th r"
  shows "audit_trail th old (snd (purge_audit_archive Q s))"
  using assms unfolding purge_audit_archive_def audit_trail_def audit_keys_def
  by (auto simp: tbl_simps) blast


lemma governance_snd:
  "snd (applyArchiveGovernance fault th s) =
     snd (db_call fault RC_archive_security 0 (purge_audit_archive (\<lambda>a.
           aa_createdAt a < th_archiveSecurityAuditBefore th \<and> security_action (aa_action a)))
      (snd (db_call fault RC_archive_general 0 (purge_audit_archive (\<lambda>a.
           aa_createdAt a < th_archiveAuditLogsBefore th \<and> \<not> security_action (aa_action a)))
      (snd (db_call fault RC_archive_events 0 (purge_event_archive (th_archiveJobEventsBefore th)) s)))))"
  by (simp add: applyArchiveGovernance_def Let_def split: prod.split sum.split)

lemma preserves_db_call [preserves_intros]: "preserves P m \<Longrightarrow> preserves P (db_call fault c n m)"
  by (auto simp: db_call_def intro: preserves_intros split: option.split)

lemma preserves_governance [preserves_intros]:
  assumes "preserves P (purge_event_archive (th_archiveJobEventsBefore th))"
    and "preserves P (purge_audit_archive (\<lambda>a. aa_createdAt a < th_archiveAuditLogsBefore th \<and> \<not> security_action (aa_action a)))"
    and "preserves P (purge_audit_archive (\<lambda>a. aa_createdAt a < th_archiveSecurityAuditBefore th \<and> security_action (aa_action a)))"
  shows "preserves P (applyArchiveGovernance fault th)"
proof (rule preservesI)
  fix s assume "P s"
  then show "P (snd (applyArchiveGovernance fault th s))"
    unfolding governance_snd
    by (rule preservesD [OF preserves_db_call [OF assms(3)]
          preservesD [OF preserves_db_call [OF assms(2)] preservesD [OF preserves_db_call [OF assms(1)]]]])
qed

definition less_metrics :: "app \<Rightarrow> app" where
  "less_metrics s = s\<lparr>metrics := []\<rparr>"

lemma less_metrics_record [simp]:
  "less_metrics (add_metric m s) = less_metrics s"
  "less_metrics (recordRetentionDeleted e n s) = less_metrics s"
  "less_metrics (recordRetentionArchived e n s) = less_metrics s"
  "less_metrics (recordArchiveGovernanceDeleted e n s) = less_metrics s"
  by (simp_all add: less_metrics_def add_metric_def recordRetentionDeleted_def recordRetentionArchived_def
      recordArchiveGovernanceDeleted_def)

lemma retention_metrics_only: "less_metrics (retention_metrics a d u s) = less_metrics s"
  by (simp only: retention_metrics_def less_metrics_record)

lemma less_metrics_fields:
  assumes "less_metrics t = less_metrics s"
  shows "audits t = audits s" "auditArchive t = auditArchive s" "jobs t = jobs s" "events t = events s"
    "settings t = settings s" "cfg t = cfg s" "eventArchive t = eventArchive s" "uploads t = uploads s"
proof -
  have "audits (less_metrics t) = audits (less_metrics s)" "auditArchive (less_metrics t) = auditArchive (less_metrics s)"
    "jobs (less_metrics t) = jobs (less_metrics s)" "events (less_metrics t) = events (less_metrics s)"
    "settings (less_metrics t) = settings (less_metrics s)" "cfg (less_metrics t) = cfg (less_metrics s)"
    "eventArchive (less_metrics t) = eventArchive (less_metrics s)" "uploads (less_metrics t) = uploads (less_metrics s)"
    using assms by simp_all
  then show "audits t = audits s" "auditArchive t = auditArchive s" "jobs t = jobs s" "events t = events s"
    "settings t = settings s" "cfg t = cfg s" "eventArchive t = eventArchive s" "uploads t = uploads s"
    by (simp_all add: less_metrics_def)
qed

lemma metrics_frame [simp]:
  "audits (retention_metrics a d u s) = audits s" "auditArchive (retention_metrics a d u s) = auditArchive s"
  "jobs (retention_metrics a d u s) = jobs s" "events (retention_metrics a d u s) = events s"
  "settings (retention_metrics a d u s) = settings s" "cfg (retention_metrics a d u s) = cfg s"
  "eventArchive (retention_metrics a d u s) = eventArchive s" "uploads (retention_metrics a d u s) = uploads s"
  by (rule less_metrics_fields [OF retention_metrics_only])+

text \<open>A run keeps what each of its deletions keeps.\<close>

lemma preserves_markLastRunFailure:
  assumes "\<And>v. preserves P (setLastRunState v)"
  shows "preserves P (markLastRunFailure fault now m md rn jobId)"
proof (rule preservesI)
  fix s assume "P s"
  have "preserves P (catch_eff (db_call fault RC_last_run 1 (setLastRunState v)) (\<lambda>_. ok ()))" for v
    by (intro preserves_catch preserves_db_call assms preserves_pure)
  then show "P (snd (markLastRunFailure fault now m md rn jobId s))"
    using \<open>P s\<close> unfolding markLastRunFailure_def by (rule preservesD)
qed

lemma preserves_runCleanup:
  assumes prune: "\<And>p. getPolicy (cfg s) = p \<Longrightarrow> preserves P (prune_counts fault now p (thresholds now p))"
    and jobs: "\<And>ss th. set ss \<subseteq> {COMPLETED, CANCELED, FAILED} \<Longrightarrow> preserves P (deleteTerminalJobs ss th)"
    and ups: "\<And>th. preserves P (delete_upload_sessions th)"
    and gov: "preserves P (applyArchiveGovernance fault (thresholds now (getPolicy (cfg s))))"
    and met: "\<And>m. preserves P (modify (add_metric m))" "\<And>a d u. preserves P (modify (retention_metrics a d u))"
    and last: "\<And>v. preserves P (setLastRunState v)"
    and start: "P s"
  shows "P (snd (runCleanup fault now t1 reason jobId s))"
proof -
  let ?p = "getPolicy (cfg s)"
  have "preserves P (cleanup_body fault now t1 reason jobId ?p)"
    unfolding cleanup_body_def cleanup_tail_def Let_def split_def
    by (intro preserves_intros prune jobs ups gov met last refl) simp_all
  then have "preserves P (catch_eff (cleanup_body fault now t1 reason jobId ?p) (\<lambda>error.
       seq_eff (modify (add_metric (MRetentionCleanup False)))
       (seq_eff (markLastRunFailure fault t1 (err_message error) (Some (policy_mode ?p)) (Some (or_else reason R_manual)) jobId)
        (throw error))))"
    by (intro preserves_catch preserves_seq met preserves_markLastRunFailure last preserves_pure) 
  then show ?thesis using start by (auto simp: runCleanup_def Let_def dest: preservesD)
qed

lemma archive_bound_copy:
  "audit_copy r a \<Longrightarrow> aa_createdAt a < th_archiveAuditLogsBefore th \<and> \<not> security_action (aa_action a)
     \<Longrightarrow> a_createdAt r < archive_bound th r"
  "audit_copy r a \<Longrightarrow> aa_createdAt a < th_archiveSecurityAuditBefore th \<and> security_action (aa_action a)
     \<Longrightarrow> a_createdAt r < archive_bound th r"
  by (simp_all add: audit_copy_def archive_bound_def)

lemma governance_trail: "preserves (audit_trail th old) (applyArchiveGovernance fault th)"
proof (rule preserves_governance)
  show "preserves (audit_trail th old) (purge_event_archive (th_archiveJobEventsBefore th))"
    by (rule preservesI, erule audit_trail_frame) (simp_all add: purge_event_archive_def Let_def)
qed (rule preservesI, erule purge_audits_trail, erule (1) archive_bound_copy)+

lemma preserves_archive_trail:
  "preserves (audit_trail th old) (archiveAndDeleteAuditLogs fault c t now P n k)"
  "preserves (audit_trail th old) (archiveAndDeleteJobEvents fault c t now Q n k)"
  by (rule preservesI, erule archive_audits_trail)
     (rule preservesI, erule audit_trail_frame, simp_all add: archive_events_audits)

lemma prune_trail:
  "ret_archiveEnabled p \<Longrightarrow> preserves (audit_trail th old) (prune_counts fault now p ph)"
  unfolding prune_counts_def Let_def split_def
  by (simp only: if_True simp_thms, intro preserves_bind preserves_pure preserves_archive_trail)

text \<open>
  C13. With the archive enabled, a retention run loses no audit row, whichever of its database calls
  fail and however often: every row of the log is still there afterwards, or the archive holds a copy
  of all its fields, or the row is older than the archive's own window (the longer one for security
  actions). Source identifiers stay unique, so the next run archives as reliably.
\<close>

theorem audit_rows_survive:
  assumes "audit_keys s" and "RETENTION_ARCHIVE_ENABLED (cfg s)"
    and run: "runCleanup fault now t1 reason jobId s = (res, s')" and r: "r \<in> set (audits s)"
  shows "(r \<in> set (audits s') \<or> (\<exists>a\<in>set (auditArchive s'). audit_copy r a)
      \<or> a_createdAt r < archive_bound (thresholds now (getPolicy (cfg s))) r) \<and> audit_keys s'"
proof -
  let ?P = "audit_trail (thresholds now (getPolicy (cfg s))) (audits s)"
  have "?P (snd (runCleanup fault now t1 reason jobId s))"
  proof (rule preserves_runCleanup [where P = ?P])
    show "?P s" using assms(1) by (simp add: audit_trail_def)
    show "preserves ?P (prune_counts fault now p (thresholds now p))" if "getPolicy (cfg s) = p" for p
      using that assms(2) by (intro prune_trail) (auto simp: getPolicy_def)
  qed (rule governance_trail | rule preservesI, erule audit_trail_frame, simp_all add: deleteTerminalJobs_def
      delete_upload_sessions_def Let_def setLastRunState_def modify_def add_metric_def)+
  then show ?thesis using r run by (auto simp: audit_trail_def)
qed


definition retention_example :: app where
  "retention_example = init_app\<lparr>cfg := default_config\<lparr>RETENTION_ARCHIVE_ENABLED := True\<rparr>,
     audits := [\<lparr>a_id = ''a1'', a_actorUserId = None, a_action = ''file.rename'', a_entityType = ''file'',
        a_entityId = None, a_metadata = JNull, a_ipAddress = None, a_createdAt = 0\<rparr>,
       \<lparr>a_id = ''a2'', a_actorUserId = Some ''u'', a_action = ''auth.login'', a_entityType = ''session'',
        a_entityId = None, a_metadata = JNull, a_ipAddress = None, a_createdAt = 10\<rparr>]\<rparr>"

theorem audit_rows_survive_witness:
  "\<exists>res s'. runCleanup (\<lambda>c n. if c = RC_audit_security then Some ''connection lost'' else None)
      100000000000 100000000001 None None retention_example = (res, s')
    \<and> list_all (\<lambda>r. r \<in> set (audits s') \<or> (\<exists>a\<in>set (auditArchive s'). audit_copy r a)
        \<or> a_createdAt r < archive_bound (thresholds 100000000000 (getPolicy (cfg retention_example))) r)
        (audits retention_example)"
proof -
  let ?f = "\<lambda>c n. if c = RC_audit_security then Some ''connection lost'' else None"
  obtain res s' where run: "runCleanup ?f 100000000000 100000000001 None None retention_example = (res, s')"
    by (cases "runCleanup ?f 100000000000 100000000001 None None retention_example") blast
  have k: "audit_keys retention_example" and e: "RETENTION_ARCHIVE_ENABLED (cfg retention_example)"
    by (simp_all add: audit_keys_def retention_example_def init_app_def)
  show ?thesis unfolding list_all_iff using audit_rows_survive [OF k e run] run by blast
qed

section \<open>The jobs at work\<close>

definition active :: "job \<Rightarrow> bool" where
  "active j \<longleftrightarrow> j_status j \<in> {QUEUED, RUNNING}"

definition events_of :: "job \<Rightarrow> app \<Rightarrow> job_event list" where
  "events_of j s = filter (\<lambda>e. e_jobId e = j_id j) (events s)"

definition active_kept :: "app \<Rightarrow> app \<Rightarrow> bool" where
  "active_kept old s \<longleftrightarrow> distinct (map j_id (jobs s)) \<and> distinct (map e_id (events s))
     \<and> (\<forall>j\<in>set (jobs old). active j \<longrightarrow> j \<in> set (jobs s) \<and> events_of j s = events_of j old)"

lemma active_kept_frame:
  "active_kept old s \<Longrightarrow> jobs t = jobs s \<Longrightarrow> events t = events s \<Longrightarrow> active_kept old t"
  by (simp add: active_kept_def events_of_def)

lemma filter_tb_delete: "(\<And>e. e \<in> set es \<Longrightarrow> F e \<Longrightarrow> \<not> Q e) \<Longrightarrow> filter F (tb_delete Q es) = filter F es"
  by (induction es) (auto simp: tb_delete_def)

lemma active_kept_events:
  assumes kept: "active_kept old s" and ev: "events t = tb_delete Q (events s)" and jo: "jobs t = jobs s"
    and spare: "\<And>e j. e \<in> set (events s) \<Longrightarrow> j \<in> set (jobs s) \<Longrightarrow> active j \<Longrightarrow> e_jobId e = j_id j \<Longrightarrow> \<not> Q e"
  shows "active_kept old t"
  unfolding active_kept_def
proof (intro conjI ballI impI)
  show "distinct (map j_id (jobs t))" "distinct (map e_id (events t))"
    using kept by (simp_all add: active_kept_def ev jo distinct_tb_delete)
  fix j assume j: "j \<in> set (jobs old)" "active j"
  then have js: "j \<in> set (jobs s)" "events_of j s = events_of j old" using kept by (auto simp: active_kept_def)
  then show "j \<in> set (jobs t)" by (simp add: jo)
  have "filter (\<lambda>e. e_jobId e = j_id j) (tb_delete Q (events s)) = filter (\<lambda>e. e_jobId e = j_id j) (events s)"
    by (rule filter_tb_delete) (blast dest: spare [OF _ js(1) j(2)])
  then show "events_of j t = events_of j old" using js(2) by (simp add: events_of_def ev)
qed

lemma active_status:
  assumes "distinct (map j_id (jobs s))" and "j \<in> set (jobs s)" and "e_jobId e = j_id j"
  shows "event_job_status s e = Some (j_status j)"
  using find_distinct_unique [OF assms(1,2)] assms(3) by (simp add: event_job_status_def find_job_def)

definition spares_active :: "(app \<Rightarrow> job_event \<Rightarrow> bool) \<Rightarrow> bool" where
  "spares_active P \<longleftrightarrow> (\<forall>s e j. event_job_status s e = Some (j_status j) \<longrightarrow> active j \<longrightarrow> \<not> P s e)"

lemma spares_where [simp]: "spares_active (events_done_where b)" "spares_active (events_failed_where b)"
  by (auto simp: spares_active_def events_done_where_def events_failed_where_def active_def)

lemma delete_events_active: "spares_active P \<Longrightarrow> preserves (active_kept old) (delete_events P)"
proof (rule preservesI)
  fix s assume sp: "spares_active P" and kept: "active_kept old s"
  show "active_kept old (snd (delete_events P s))"
  proof (rule active_kept_events [OF kept])
    fix e :: job_event and j assume "j \<in> set (jobs s)" "active j" "e_jobId e = j_id j"
    then show "\<not> P s e" using sp kept active_status [of s j e] by (auto simp: spares_active_def active_kept_def)
  qed (simp_all add: delete_events_def)
qed

lemma event_batch_active:
  assumes sp: "spares_active P" and kept: "active_kept old s" and b: "event_batch P n s = rows"
  shows "active_kept old (archive_event_batch now rows s)"
proof (rule active_kept_events [OF kept])
  show "events (archive_event_batch now rows s) = tb_delete (\<lambda>e. e_id e \<in> set (map e_id rows)) (events s)"
    "jobs (archive_event_batch now rows s) = jobs s"
    by (simp_all add: archive_event_batch_def Let_def)
  fix e j assume e: "e \<in> set (events s)" and j: "j \<in> set (jobs s)" "active j" "e_jobId e = j_id j"
  show "\<not> e_id e \<in> set (map e_id rows)"
  proof
    assume "e_id e \<in> set (map e_id rows)"
    then obtain x where x: "x \<in> set rows" "e_id x = e_id e" by auto
    have xs: "x \<in> set (events s)" "P s x" using event_batch_set [of P n s] x(1) b by auto
    have "inj_on e_id (set (events s))" using kept by (simp add: active_kept_def distinct_map)
    then have "x = e" using x(2) xs(1) e by (meson inj_onD)
    then show False using xs(2) sp j kept active_status [of s j e] by (auto simp: spares_active_def active_kept_def)
  qed
qed

lemma archive_events_active:
  "spares_active P \<Longrightarrow> active_kept old s \<Longrightarrow> active_kept old (snd (archiveAndDeleteJobEvents fault c t now P n k s))"
proof (induction fault c t now P n k s rule: archiveAndDeleteJobEvents.induct)
  case (1 fault c t now P n k s)
  show ?case
  proof (cases "fault c t")
    case None
    show ?thesis
    proof (cases "event_batch P n s")
      case (Cons r rs)
      from 1(1) [OF None Cons 1(2) event_batch_active [OF 1(2,3) Cons]] show ?thesis
        unfolding archiveAndDeleteJobEvents.simps [of fault c t now P n k s] by (simp add: None Cons)
    qed (simp add: archiveAndDeleteJobEvents.simps [of fault] None 1(3))
  qed (simp add: archiveAndDeleteJobEvents.simps [of fault] 1(3))
qed

lemma archive_audits_jobs:
  "jobs (snd (archiveAndDeleteAuditLogs fault c t now P n k s)) = jobs s
   \<and> events (snd (archiveAndDeleteAuditLogs fault c t now P n k s)) = events s"
proof (induction fault c t now P n k s rule: archiveAndDeleteAuditLogs.induct)
  case (1 fault c t now P n k s)
  have "events (archive_audit_batch now rows s) = events s" "jobs (archive_audit_batch now rows s) = jobs s" for rows
    by (simp_all add: archive_audit_batch_def Let_def)
  then show ?case
    using 1 by (simp add: archiveAndDeleteAuditLogs.simps [of fault c t now P n k s] split: option.split list.split)
qed

lemma preserves_snd: "preserves P m \<Longrightarrow> m s = (r, t) \<Longrightarrow> P s \<Longrightarrow> P t"
  by (metis preservesD snd_conv)

lemma prune_jobs: "jobs (snd (prune_counts fault now p th s)) = jobs s"
proof -
  have "preserves (\<lambda>t. jobs t = jobs s) (prune_counts fault now p th)"
    unfolding prune_counts_def Let_def
    by (intro preserves_if preserves_bind preserves_pure preserves_db_call preservesI)
       (simp_all add: archive_events_audits archive_audits_jobs delete_events_def delete_audits_def)
  then show ?thesis by (simp add: preserves_def)
qed

lemma deleteTerminalJobs_active:
  assumes "set ss \<subseteq> {COMPLETED, CANCELED, FAILED}"
  shows "preserves (active_kept old) (deleteTerminalJobs ss th)"
proof (rule preservesI)
  fix s assume kept: "active_kept old s"
  let ?P = "terminal_where ss th" and ?gone = "map j_id (filter (terminal_where ss th) (jobs s))"
  let ?t = "snd (deleteTerminalJobs ss th s)"
  have t: "jobs ?t = tb_delete ?P (jobs s)" "events ?t = tb_delete (\<lambda>e. e_jobId e \<in> set ?gone) (events s)"
    by (simp_all add: deleteTerminalJobs_def Let_def)
  have nt: "\<not> ?P j" if "active j" for j using that assms by (auto simp: terminal_where_def active_def)
  have ng: "j_id j \<notin> set ?gone" if "j \<in> set (jobs s)" "active j" for j
  proof
    assume "j_id j \<in> set ?gone"
    then obtain x where "x \<in> set (jobs s)" "?P x" "j_id x = j_id j" by auto
    moreover have "inj_on j_id (set (jobs s))" using kept by (simp add: active_kept_def distinct_map)
    ultimately have "?P j" using that(1) by (metis inj_onD)
    then show False using nt that(2) by blast
  qed
  have "active_kept old (s\<lparr>events := events ?t\<rparr>)"
  proof (rule active_kept_events [OF kept])
    show "events (s\<lparr>events := events ?t\<rparr>) = tb_delete (\<lambda>e. e_jobId e \<in> set ?gone) (events s)" using t(2) by simp
    show "jobs (s\<lparr>events := events ?t\<rparr>) = jobs s" by simp
    show "e_jobId e \<notin> set ?gone" if "j \<in> set (jobs s)" "active j" "e_jobId e = j_id j" for e :: job_event and j
      using ng [OF that(1,2)] that(3) by simp
  qed
  then show "active_kept old ?t"
    using nt unfolding active_kept_def by (auto simp: t(1) distinct_tb_delete tbl_simps events_of_def)
qed

lemma prune_active: "preserves (active_kept old) (prune_counts fault now p th)"
proof -
  have a: "preserves (active_kept old) (archiveAndDeleteAuditLogs fault c t now P n k)"
    "preserves (active_kept old) (delete_audits P)" for c t P n k
    by (rule preservesI, erule active_kept_frame, simp_all add: archive_audits_jobs delete_audits_def)+
  have e: "preserves (active_kept old) (archiveAndDeleteJobEvents fault c t now P n k)" if "spares_active P" for c t P n k
    using that by (intro preservesI archive_events_active)
  show ?thesis
    unfolding prune_counts_def Let_def
    by (intro preserves_if preserves_bind preserves_pure preserves_db_call a e delete_events_active spares_where)
qed

text \<open>
  C14. A retention run, in either mode and whichever of its database calls fail, leaves every queued or
  running job in its table as it was, with all of its events in their order.
\<close>

theorem active_jobs_untouched:
  assumes "distinct (map j_id (jobs s))" and "distinct (map e_id (events s))"
    and run: "runCleanup fault now t1 reason jobId s = (res, s')"
    and "j \<in> set (jobs s)" and "j_status j \<in> {QUEUED, RUNNING}"
  shows "j \<in> set (jobs s') \<and> filter (\<lambda>e. e_jobId e = j_id j) (events s') = filter (\<lambda>e. e_jobId e = j_id j) (events s)"
proof -
  have "active_kept s (snd (runCleanup fault now t1 reason jobId s))"
  proof (rule preserves_runCleanup [where P = "active_kept s"])
    show "active_kept s s" using assms(1,2) by (simp add: active_kept_def)
  qed (rule prune_active | erule deleteTerminalJobs_active
      | rule preserves_governance
      | rule preservesI, erule active_kept_frame, simp_all add: delete_upload_sessions_def purge_event_archive_def
          purge_audit_archive_def Let_def setLastRunState_def modify_def add_metric_def)+
  then show ?thesis using run assms(4,5) by (auto simp: active_kept_def active_def events_of_def)
qed


definition retention_job :: "string \<Rightarrow> job_status \<Rightarrow> int option \<Rightarrow> job" where
  "retention_job i st done_at = \<lparr>j_id = i, j_type = BUCKET_SYNC, j_status = st, j_correlationId = None,
     j_attemptCount = 1, j_maxAttempts = 3, j_retryable = True, j_nextRetryAt = None, j_lastError = None,
     j_createdByUserId = None, j_payload = JNull, j_progress = JNull, j_result = JNull,
     j_failureSummary = None, j_cancelRequestedAt = None, j_lockKey = None, j_lockedAt = None,
     j_createdAt = 0, j_startedAt = Some 0, j_completedAt = done_at\<rparr>"

definition retention_event :: "string \<Rightarrow> string \<Rightarrow> int \<Rightarrow> job_event" where
  "retention_event i j at_ms = \<lparr>e_id = i, e_jobId = j, e_correlationId = None, e_type = ''progress'',
     e_level = INFO, e_message = ''m'', e_metadata = JNull, e_createdAt = at_ms\<rparr>"

definition retention_jobs_example :: app where
  "retention_jobs_example = init_app\<lparr>
     jobs := [retention_job ''done'' COMPLETED (Some 0), retention_job ''busy'' RUNNING None],
     events := [retention_event ''e1'' ''done'' 0, retention_event ''e2'' ''busy'' 0]\<rparr>"

theorem active_jobs_untouched_witness:
  "\<exists>res s'. runCleanup no_fault 100000000000 100000000001 None None retention_jobs_example = (res, s')
    \<and> retention_job ''busy'' RUNNING None \<in> set (jobs s')
    \<and> filter (\<lambda>e. e_jobId e = ''busy'') (events s') = [retention_event ''e2'' ''busy'' 0]"
proof -
  let ?s = retention_jobs_example and ?j = "retention_job ''busy'' RUNNING None"
  obtain res s' where run: "runCleanup no_fault 100000000000 100000000001 None None ?s = (res, s')"
    by (cases "runCleanup no_fault 100000000000 100000000001 None None ?s") blast
  have d: "distinct (map j_id (jobs ?s))" "distinct (map e_id (events ?s))" "?j \<in> set (jobs ?s)"
    "j_status ?j \<in> {QUEUED, RUNNING}"
    by (simp_all add: retention_jobs_example_def retention_job_def retention_event_def)
  from active_jobs_untouched [OF d(1,2) run d(3,4)] run show ?thesis
    by (simp add: retention_jobs_example_def retention_job_def retention_event_def)
qed

section \<open>The record of the run\<close>

lemma readNumberRecord_counts: "readNumberRecord (counts_json cs) = cs"
  by (induction cs) (auto simp: readNumberRecord_def counts_json_def map_filter_def)

lemma last_run_roundtrip:
  assumes "settings s RETENTION_LAST_RUN_KEY = Some (last_run_json v)" and "lr_jobId v \<noteq> Some []" and "lr_error v \<noteq> Some []"
  shows "getLastRunState s = Some v"
proof -
  have "read_string (jstr_opt x) = x" if "x \<noteq> Some []" for x
    using that by (cases x) (auto simp: jstr_opt_def jopt_def)
  moreover have "or_else (read_date (jint n)) 0 = n" for n by (simp add: jint_def)
  moreover have "(if read_string (JStr (mode_name m)) = Some ''archive_and_prune'' then Archive_and_prune else Hard_delete) = m" for m
    by (cases m) simp_all
  moreover have "(if read_string (JStr (reason_str r)) = Some ''scheduled'' then R_scheduled else R_manual) = r" for r
    by (cases r) simp_all
  moreover have "read_string (JStr (if b then ''failure'' else ''success'')) = Some ''failure'' \<longleftrightarrow> b" for b
    by simp
  ultimately show ?thesis
    using assms by (cases v) (simp add: getLastRunState_def last_run_json_def readNumberRecord_counts del: read_string.simps split del: if_split)
qed

text \<open>The errors an operation raises.\<close>

definition raises :: "(http_error \<Rightarrow> bool) \<Rightarrow> ('s, 'a) eff \<Rightarrow> bool" where
  "raises Q m \<longleftrightarrow> (\<forall>s e. fst (m s) = Inl e \<longrightarrow> Q e)"

lemma raises_intros:
  "raises Q (ok x)" "raises Q (modify f)"
  "raises Q m \<Longrightarrow> (\<And>x. raises Q (g x)) \<Longrightarrow> raises Q (bind_eff m g)"
  "raises Q m \<Longrightarrow> raises Q n \<Longrightarrow> raises Q (seq_eff m n)"
  "raises Q m \<Longrightarrow> raises Q m' \<Longrightarrow> raises Q (if c then m else m')"
  by (auto simp: raises_def ok_apply modify_apply bind_eff_apply seq_eff_apply split: prod.splits sum.splits)
    (metis fst_conv)+

lemma raisesD: "raises Q m \<Longrightarrow> fst (m s) = Inl e \<Longrightarrow> Q e"
  by (simp add: raises_def)

lemma raises_db_call:
  "(\<And>e. fault c n = Some e \<Longrightarrow> Q (PlainError e)) \<Longrightarrow> raises Q m \<Longrightarrow> raises Q (db_call fault c n m)"
  by (auto simp: raises_def throw_def db_call_def split: option.splits)

definition injected :: "fault \<Rightarrow> http_error \<Rightarrow> bool" where
  "injected fault e \<longleftrightarrow> (\<exists>c n m. fault c n = Some m \<and> e = PlainError m)"

lemma raises_event_loop:
  "fst (archiveAndDeleteJobEvents fault c t now P n k s) = Inl e \<Longrightarrow> injected fault e"
proof (induction fault c t now P n k s rule: archiveAndDeleteJobEvents.induct)
  case (1 fault c t now P n k s)
  from 1(2) show ?case
    unfolding archiveAndDeleteJobEvents.simps [of fault c t now P n k s]
    by (auto simp: injected_def split: option.splits list.splits dest: 1(1) [unfolded injected_def])
qed

lemma raises_audit_loop:
  "fst (archiveAndDeleteAuditLogs fault c t now P n k s) = Inl e \<Longrightarrow> injected fault e"
proof (induction fault c t now P n k s rule: archiveAndDeleteAuditLogs.induct)
  case (1 fault c t now P n k s)
  from 1(2) show ?case
    unfolding archiveAndDeleteAuditLogs.simps [of fault c t now P n k s]
    by (auto simp: injected_def split: option.splits list.splits dest: 1(1) [unfolded injected_def])
qed

lemma raises_cleanup: "raises (injected fault) (cleanup_body fault now t1 reason jobId p)"
proof -
  have pure: "raises (injected fault) (delete_events P)" "raises (injected fault) (delete_audits R)"
    "raises (injected fault) (deleteTerminalJobs ss th)" "raises (injected fault) (delete_upload_sessions th)"
    "raises (injected fault) (setLastRunState v)" for P R ss th v
    by (simp_all add: raises_def delete_events_def delete_audits_def deleteTerminalJobs_def
        delete_upload_sessions_def setLastRunState_def modify_def Let_def)
  have f: "injected fault (PlainError e)" if "fault c n = Some e" for c n e
    using that by (auto simp: injected_def)
  have loops: "raises (injected fault) (archiveAndDeleteJobEvents fault c t now P n k)"
    "raises (injected fault) (archiveAndDeleteAuditLogs fault c t now R n k)" for c t P R n k
    by (auto simp: raises_def intro: raises_event_loop raises_audit_loop)
  have purge: "fst (purge_event_archive th s) \<noteq> Inl e" "fst (purge_audit_archive R s) \<noteq> Inl e" for th s R e
    by (simp_all add: purge_event_archive_def purge_audit_archive_def Let_def)
  have call: "injected fault e" if "db_call fault c n m s = (Inl e, s')" "\<And>s e. fst (m s) \<noteq> Inl e" for c n m s s' e
    using that by (auto simp: db_call_def throw_def injected_def split: option.splits) (metis fst_conv)
  have gov: "raises (injected fault) (applyArchiveGovernance fault th)" for th
    unfolding raises_def applyArchiveGovernance_def Let_def
    by (auto split: prod.splits sum.splits dest!: call [OF _ purge(1)] call [OF _ purge(2)])
  show ?thesis
    unfolding cleanup_body_def cleanup_tail_def prune_counts_def Let_def split_def
    by (intro raises_intros raises_db_call pure loops gov f)
qed


definition success_state :: "int \<Rightarrow> job_reason option \<Rightarrow> string option \<Rightarrow> retention_summary \<Rightarrow> last_run_state" where
  "success_state t1 reason jobId sm = \<lparr>lr_ranAt = t1, lr_failure = False, lr_mode = rs_mode sm,
     lr_reason = or_else reason R_manual, lr_jobId = jobId, lr_error = None,
     lr_archived = archived_counts (rs_archived sm), lr_deleted = deleted_counts (rs_deleted sm),
     lr_archivePurged = purged_counts (rs_archivePurged sm)\<rparr>"

definition failure_state :: "int \<Rightarrow> job_reason option \<Rightarrow> string option \<Rightarrow> retention_mode \<Rightarrow> string \<Rightarrow> last_run_state" where
  "failure_state t1 reason jobId md m = \<lparr>lr_ranAt = t1, lr_failure = True, lr_mode = md,
     lr_reason = or_else reason R_manual, lr_jobId = jobId, lr_error = Some (take 2000 m),
     lr_archived = [], lr_deleted = [], lr_archivePurged = []\<rparr>"

lemma cleanup_body_recorded:
  assumes "cleanup_body fault now t1 reason jobId p s = (Inr sm, s')"
  shows "settings s' RETENTION_LAST_RUN_KEY = Some (last_run_json (success_state t1 reason jobId sm))"
  using assms
  by (auto simp: cleanup_body_def cleanup_tail_def Let_def split_def eff_inv db_call_def setLastRunState_def success_state_def
      split: option.splits)

lemma runCleanup_cases:
  assumes "runCleanup fault now t1 reason jobId s = (res, s')"
  obtains sm where "res = Inr sm" "cleanup_body fault now t1 reason jobId (getPolicy (cfg s)) s = (Inr sm, s')"
  | m s1 where "res = Inl (PlainError m)" "injected fault (PlainError m)"
      "s' = snd (markLastRunFailure fault t1 m (Some (policy_mode (getPolicy (cfg s)))) (Some (or_else reason R_manual))
          jobId (add_metric (MRetentionCleanup False) s1))"
proof (cases "cleanup_body fault now t1 reason jobId (getPolicy (cfg s)) s")
  case (Pair r s1)
  show ?thesis
  proof (cases r)
    case (Inr sm)
    then show ?thesis using that(1) assms Pair by (simp add: runCleanup_def Let_def catch_eff_apply)
  next
    case (Inl e)
    then have "fst (cleanup_body fault now t1 reason jobId (getPolicy (cfg s)) s) = Inl e" using Pair by simp
    with raises_cleanup have "injected fault e" by (rule raisesD)
    then obtain m where e: "e = PlainError m" "injected fault (PlainError m)" by (auto simp: injected_def)
    have fst: "fst (markLastRunFailure fault t1 m x y jobId t) = Inr ()" for x y t
      by (simp add: markLastRunFailure_def catch_eff_apply db_call_def setLastRunState_def throw_def modify_def
          ok_def split: option.split)
    show ?thesis
      using assms Pair Inl e fst [of "Some (policy_mode (getPolicy (cfg s)))" "Some (or_else reason R_manual)"
          "add_metric (MRetentionCleanup False) s1"]
      by (intro that(2) [of m s1]) (auto simp: runCleanup_def Let_def catch_eff_apply seq_eff_apply modify_apply throw_def
          split: prod.splits sum.splits)
  qed
qed

text \<open>
  Every retention run that can write its record leaves the record of this very run, and reading it
  back gives it exactly: after a run that returns, the mode, reason, job and the three groups of counts
  of the summary; after a run that throws, the first 2000 characters of the error and no counts. What a
  run throws is always the error of the database call that failed.
\<close>

theorem last_run_recorded:
  assumes run: "runCleanup fault now t1 reason jobId s = (res, s')"
    and "jobId \<noteq> Some []" and "fault RC_last_run 1 = None" and "\<And>c n. fault c n \<noteq> Some []"
  shows "case res of
       Inr sm \<Rightarrow> getLastRunState s' = Some \<lparr>lr_ranAt = t1, lr_failure = False, lr_mode = rs_mode sm,
          lr_reason = or_else reason R_manual, lr_jobId = jobId, lr_error = None,
          lr_archived = archived_counts (rs_archived sm), lr_deleted = deleted_counts (rs_deleted sm),
          lr_archivePurged = purged_counts (rs_archivePurged sm)\<rparr>
     | Inl e \<Rightarrow> (\<exists>c n m. fault c n = Some m \<and> e = PlainError m
         \<and> getLastRunState s' = Some \<lparr>lr_ranAt = t1, lr_failure = True,
             lr_mode = policy_mode (getPolicy (cfg s)), lr_reason = or_else reason R_manual, lr_jobId = jobId,
             lr_error = Some (take 2000 m), lr_archived = [], lr_deleted = [], lr_archivePurged = []\<rparr>)"
  using run
proof (cases rule: runCleanup_cases)
  case (1 sm)
  have "getLastRunState s' = Some (success_state t1 reason jobId sm)"
    using assms(2) by (intro last_run_roundtrip cleanup_body_recorded [OF 1(2)]) (simp_all add: success_state_def)
  then show ?thesis using 1(1) by (simp add: success_state_def)
next
  case (2 m s1)
  let ?md = "policy_mode (getPolicy (cfg s))"
  have "m \<noteq> []" using 2(2) assms(4) by (auto simp: injected_def)
  then have ne: "take 2000 m \<noteq> []" by (cases m) simp_all
  have "settings s' RETENTION_LAST_RUN_KEY = Some (last_run_json (failure_state t1 reason jobId ?md m))"
    using assms(3) unfolding 2(3)
    by (simp add: markLastRunFailure_def catch_eff_apply db_call_def setLastRunState_def modify_def failure_state_def)
  then have "getLastRunState s' = Some (failure_state t1 reason jobId ?md m)"
    using assms(2) ne by (intro last_run_roundtrip) (simp_all add: failure_state_def)
  then show ?thesis using 2(1,2) by (auto simp: failure_state_def injected_def)
qed

theorem last_run_recorded_witness:
  "\<exists>res s'. runCleanup (\<lambda>c n. if c = RC_jobs_done then Some ''timeout'' else None) 9 10 None (Some ''j1'')
      retention_jobs_example = (res, s') \<and> getLastRunState s' \<noteq> None"
proof -
  let ?f = "\<lambda>c n. if c = RC_jobs_done then Some ''timeout'' else None"
  obtain res s' where run: "runCleanup ?f 9 10 None (Some ''j1'') retention_jobs_example = (res, s')"
    by (cases "runCleanup ?f 9 10 None (Some ''j1'') retention_jobs_example") blast
  have h: "Some ''j1'' \<noteq> Some []" "?f RC_last_run 1 = None" "\<And>c n. ?f c n \<noteq> Some []" by simp_all
  from last_run_recorded [OF run h] run show ?thesis by (cases res) auto
qed


section \<open>The windows\<close>

lemma db_call_no_fault [simp]: "db_call no_fault c n m = m"
  by (simp add: db_call_def no_fault_def)

lemma bind_ok: "m s = (Inr x, s') \<Longrightarrow> bind_eff m f s = f x s'"
  by (simp add: bind_eff_def)

lemma runCleanup_returns: "\<exists>sm s'. runCleanup no_fault now t1 reason jobId s = (Inr sm, s')"
proof (cases "runCleanup no_fault now t1 reason jobId s")
  case (Pair res s')
  then show ?thesis using Pair by (cases rule: runCleanup_cases) (auto simp: injected_def no_fault_def)
qed

lemma event_loop_result: "\<exists>a s1. archiveAndDeleteJobEvents no_fault c t now P n k s = (Inr a, s1)
    \<and> audits s1 = audits s \<and> jobs s1 = jobs s \<and> uploads s1 = uploads s"
proof -
  have "uploads (snd (archiveAndDeleteJobEvents f c t now P n k s)) = uploads s" for f
  proof (induction f c t now P n k s rule: archiveAndDeleteJobEvents.induct)
    case (1 fault c t now P n k s)
    have "uploads (archive_event_batch now rows s) = uploads s" for rows
      by (simp add: archive_event_batch_def Let_def)
    then show ?case
      using 1 by (simp add: archiveAndDeleteJobEvents.simps [of fault c t now P n k s] split: option.split list.split)
  qed
  moreover have "\<not> injected no_fault e" for e by (simp add: injected_def no_fault_def)
  ultimately show ?thesis
    using archive_events_audits [of no_fault c t now P n k s] raises_event_loop [of no_fault c t now P n k s]
    by (cases "archiveAndDeleteJobEvents no_fault c t now P n k s"; cases "fst (archiveAndDeleteJobEvents no_fault c t now P n k s)")
       (auto, metis snd_conv)
qed

lemma audit_loop_result:
  assumes "distinct (map a_id (audits s))" and "0 < n"
  shows "\<exists>s1. archiveAndDeleteAuditLogs no_fault c t now P n 0 s = (Inr (tb_count P (audits s)), s1)
    \<and> audits s1 = tb_delete P (audits s) \<and> jobs s1 = jobs s \<and> uploads s1 = uploads s"
proof -
  have "uploads (snd (archiveAndDeleteAuditLogs f c t now P n k s)) = uploads s" for f k
  proof (induction f c t now P n k s rule: archiveAndDeleteAuditLogs.induct)
    case (1 fault c t now P n k s)
    have "uploads (archive_audit_batch now rows s) = uploads s" for rows
      by (simp add: archive_audit_batch_def Let_def)
    then show ?case
      using 1 by (simp add: archiveAndDeleteAuditLogs.simps [of fault c t now P n k s] split: option.split list.split)
  qed
  from this [of no_fault 0] show ?thesis
    using audit_loop_no_fault [OF assms, of c t now P 0] archive_audits_jobs [of no_fault c t now P n 0 s]
    by (cases "archiveAndDeleteAuditLogs no_fault c t now P n 0 s") simp
qed

lemma prune_result:
  fixes th :: retention_thresholds
  assumes "distinct (map a_id (audits s))" and "0 < ret_archiveBatchSize p"
  defines "G \<equiv> audit_general_where (th_auditLogsBefore th)" and "S \<equiv> audit_security_where (th_securityAuditBefore th)"
  shows "\<exists>a b s1. prune_counts no_fault now p th s
      = (Inr (a, b, tb_count G (audits s), tb_count S (tb_delete G (audits s))), s1)
    \<and> audits s1 = tb_delete S (tb_delete G (audits s)) \<and> jobs s1 = jobs s \<and> uploads s1 = uploads s"
proof (cases "ret_archiveEnabled p")
  case True
  let ?n = "ret_archiveBatchSize p"
  let ?D = "events_done_where (th_jobEventsBefore th)" and ?F = "events_failed_where (th_failedJobsBefore th)"
  obtain a s1 where 1: "archiveAndDeleteJobEvents no_fault RC_events_done 0 now ?D ?n 0 s = (Inr a, s1)"
    "audits s1 = audits s" "jobs s1 = jobs s" "uploads s1 = uploads s"
    using event_loop_result [of RC_events_done 0 now ?D ?n 0 s] by blast
  obtain b s2 where 2: "archiveAndDeleteJobEvents no_fault RC_events_failed 0 now ?F ?n 0 s1 = (Inr b, s2)"
    "audits s2 = audits s" "jobs s2 = jobs s" "uploads s2 = uploads s"
    using event_loop_result [of RC_events_failed 0 now ?F ?n 0 s1] 1 by auto
  have "distinct (map a_id (audits s2))" using assms(1) 2 by simp
  from audit_loop_result [OF this assms(2), of RC_audit_general 0 now G] obtain s3 where
    3: "archiveAndDeleteAuditLogs no_fault RC_audit_general 0 now G ?n 0 s2 = (Inr (tb_count G (audits s)), s3)"
    "audits s3 = tb_delete G (audits s)" "jobs s3 = jobs s" "uploads s3 = uploads s"
    using 2 by auto
  have "distinct (map a_id (audits s3))" using assms(1) 3 by (simp add: distinct_tb_delete)
  from audit_loop_result [OF this assms(2), of RC_audit_security 0 now S] 3 show ?thesis
    by (auto simp: prune_counts_def Let_def True bind_eff_def ok_def 1(1) 2(1) 3(1) G_def [symmetric] S_def [symmetric])
next
  case False
  then show ?thesis
    by (simp add: prune_counts_def Let_def bind_eff_def ok_def delete_events_def delete_audits_def G_def S_def)
qed

lemma governance_result:
  "\<exists>pu s1. applyArchiveGovernance no_fault th s = (Inr pu, s1) \<and> audits s1 = audits s \<and> jobs s1 = jobs s \<and> uploads s1 = uploads s"
  by (simp add: applyArchiveGovernance_def purge_event_archive_def purge_audit_archive_def Let_def)

lemma tb_delete_delete: "tb_delete P (tb_delete Q rs) = filter (\<lambda>r. \<not> Q r \<and> \<not> P r) rs"
  by (simp add: tb_delete_def)

text \<open>
  C15. A retention run whose database calls all succeed returns, and keeps exactly the rows inside their
  windows: audit rows by the security or the general window of their action, jobs unless they are
  completed, canceled or failed and ended before the window of their status, upload sessions unless
  they have ended and are older than theirs. The counts of the summary are the numbers of rows deleted.
\<close>

theorem retention_windows:
  assumes "distinct (map a_id (audits s))" and "0 < RETENTION_ARCHIVE_BATCH_SIZE (cfg s)"
    and th: "th = thresholds now (getPolicy (cfg s))"
  shows "\<exists>sm s'. runCleanup no_fault now t1 reason jobId s = (Inr sm, s') \<and> rs_thresholds sm = th
    \<and> audits s' = filter (\<lambda>r. (if security_action (a_action r) then th_securityAuditBefore th
                              else th_auditLogsBefore th) \<le> a_createdAt r) (audits s)
    \<and> jobs s' = filter (\<lambda>j. \<not> terminal_where [COMPLETED, CANCELED] (th_terminalJobsBefore th) j
                         \<and> \<not> terminal_where [FAILED] (th_failedJobsBefore th) j) (jobs s)
    \<and> uploads s' = filter (\<lambda>u. up_status u \<in> {UP_INITIATED, UP_IN_PROGRESS}
                            \<or> th_uploadSessionsBefore th \<le> up_updatedAt u) (uploads s)
    \<and> de_auditLogsGeneral (rs_deleted sm) + de_auditLogsSecurity (rs_deleted sm) + length (audits s') = length (audits s)
    \<and> de_jobsCompletedCanceled (rs_deleted sm) + de_jobsFailed (rs_deleted sm) + length (jobs s') = length (jobs s)
    \<and> de_uploadSessions (rs_deleted sm) + length (uploads s') = length (uploads s)"
proof -
  let ?p = "getPolicy (cfg s)"
  define G where "G = audit_general_where (th_auditLogsBefore th)"
  define S where "S = audit_security_where (th_securityAuditBefore th)"
  define A where "A = terminal_where [COMPLETED, CANCELED] (th_terminalJobsBefore th)"
  define B where "B = terminal_where [FAILED] (th_failedJobsBefore th)"
  define U :: "upload_row \<Rightarrow> bool" where "U = (\<lambda>u. up_status u \<in> {UP_COMPLETED, UP_ABORTED, UP_FAILED} \<and> up_updatedAt u < th_uploadSessionsBefore th)"
  have n: "0 < ret_archiveBatchSize ?p" using assms(2) by (simp add: getPolicy_def)
  obtain a b s1 where 1: "prune_counts no_fault now ?p th s = (Inr (a, b, tb_count G (audits s), tb_count S (tb_delete G (audits s))), s1)"
    "audits s1 = tb_delete S (tb_delete G (audits s))" "jobs s1 = jobs s" "uploads s1 = uploads s"
    using prune_result [OF assms(1) n, of now th] by (auto simp: G_def S_def)
  obtain s2 where 2: "deleteTerminalJobs [COMPLETED, CANCELED] (th_terminalJobsBefore th) s1 = (Inr (tb_count A (jobs s)), s2)"
    "jobs s2 = tb_delete A (jobs s)" "audits s2 = audits s1" "uploads s2 = uploads s"
    by (simp add: deleteTerminalJobs_def Let_def A_def 1)
  obtain s3 where 3: "deleteTerminalJobs [FAILED] (th_failedJobsBefore th) s2 = (Inr (tb_count B (tb_delete A (jobs s))), s3)"
    "jobs s3 = tb_delete B (tb_delete A (jobs s))" "audits s3 = audits s1" "uploads s3 = uploads s"
    using 2 by (simp add: deleteTerminalJobs_def Let_def B_def)
  obtain s4 where 4: "delete_upload_sessions (th_uploadSessionsBefore th) s3 = (Inr (tb_count U (uploads s)), s4)"
    "uploads s4 = tb_delete U (uploads s)" "audits s4 = audits s1" "jobs s4 = jobs s3"
    using 3 by (simp add: delete_upload_sessions_def Let_def U_def)
  obtain pu s5 where 5: "applyArchiveGovernance no_fault th s4 = (Inr pu, s5)"
    "audits s5 = audits s4" "jobs s5 = jobs s4" "uploads s5 = uploads s4"
    using governance_result by blast
  let ?del = "\<lparr>de_jobEventsCompletedCanceled = a, de_jobEventsFailed = b, de_auditLogsGeneral = tb_count G (audits s),
     de_auditLogsSecurity = tb_count S (tb_delete G (audits s)), de_jobsCompletedCanceled = tb_count A (jobs s),
     de_jobsFailed = tb_count B (tb_delete A (jobs s)), de_uploadSessions = tb_count U (uploads s)\<rparr>"
  have "\<exists>arch v. cleanup_body no_fault now t1 reason jobId ?p s
     = seq_eff (modify (retention_metrics arch ?del pu)) (seq_eff (setLastRunState v)
         (ok \<lparr>rs_policy = ?p, rs_mode = policy_mode ?p, rs_thresholds = th, rs_archived = arch,
              rs_deleted = ?del, rs_archivePurged = pu\<rparr>)) s5"
    unfolding cleanup_body_def cleanup_tail_def Let_def th [symmetric] db_call_no_fault prod.case
      bind_ok [of "prune_counts no_fault now ?p th", OF 1(1)]
      bind_ok [of "deleteTerminalJobs [COMPLETED, CANCELED] (th_terminalJobsBefore th)", OF 2(1)]
      bind_ok [of "deleteTerminalJobs [FAILED] (th_failedJobsBefore th)", OF 3(1)]
      bind_ok [of "delete_upload_sessions (th_uploadSessionsBefore th)", OF 4(1)]
      bind_ok [of "applyArchiveGovernance no_fault th", OF 5(1)]
    by (rule exI)+ (rule refl)
  then have "\<exists>sm s'. cleanup_body no_fault now t1 reason jobId ?p s = (Inr sm, s') \<and> rs_thresholds sm = th
     \<and> audits s' = audits s5 \<and> jobs s' = jobs s5 \<and> uploads s' = uploads s5 \<and> rs_deleted sm = ?del"
    by (elim exE) (simp add: seq_eff_apply modify_apply setLastRunState_def ok_apply)
  then obtain sm s' where body: "cleanup_body no_fault now t1 reason jobId ?p s = (Inr sm, s')" "rs_thresholds sm = th"
    and st: "audits s' = audits s5" "jobs s' = jobs s5" "uploads s' = uploads s5"
    and del: "rs_deleted sm = ?del" by blast
  have ct: "de_auditLogsGeneral (rs_deleted sm) = tb_count G (audits s)"
     "de_auditLogsSecurity (rs_deleted sm) = tb_count S (tb_delete G (audits s))"
     "de_jobsCompletedCanceled (rs_deleted sm) = tb_count A (jobs s)"
     "de_jobsFailed (rs_deleted sm) = tb_count B (tb_delete A (jobs s))"
     "de_uploadSessions (rs_deleted sm) = tb_count U (uploads s)" by (simp_all add: del)
  have run: "runCleanup no_fault now t1 reason jobId s = (Inr sm, s')"
    using body by (simp add: runCleanup_def Let_def catch_eff_apply)
  have au: "audits s' = tb_delete S (tb_delete G (audits s))" using st 5 4 1 by simp
  have jo: "jobs s' = tb_delete B (tb_delete A (jobs s))" using st 5 4 3 by simp
  have up: "uploads s' = tb_delete U (uploads s)" using st 5 4 by simp
  have w1: "audits s' = filter (\<lambda>r. (if security_action (a_action r) then th_securityAuditBefore th
                              else th_auditLogsBefore th) \<le> a_createdAt r) (audits s)"
    unfolding au tb_delete_delete G_def S_def audit_general_where_def audit_security_where_def
    by (rule filter_cong) auto
  have w2: "jobs s' = filter (\<lambda>j. \<not> A j \<and> \<not> B j) (jobs s)"
    unfolding jo tb_delete_delete by simp
  have "(\<not> U u) = (up_status u \<in> {UP_INITIATED, UP_IN_PROGRESS} \<or> th_uploadSessionsBefore th \<le> up_updatedAt u)" for u :: upload_row
    by (cases "up_status u") (auto simp: U_def)
  then have w3: "uploads s' = filter (\<lambda>u. up_status u \<in> {UP_INITIATED, UP_IN_PROGRESS}
       \<or> th_uploadSessionsBefore th \<le> up_updatedAt u) (uploads s)"
    unfolding up tb_delete_def by simp
  have len: "tb_count G (audits s) + tb_count S (tb_delete G (audits s)) + length (audits s') = length (audits s)"
    "tb_count A (jobs s) + tb_count B (tb_delete A (jobs s)) + length (jobs s') = length (jobs s)"
    "tb_count U (uploads s) + length (uploads s') = length (uploads s)"
    unfolding au jo up using tb_delete_count [of G "audits s"] tb_delete_count [of S "tb_delete G (audits s)"]
      tb_delete_count [of A "jobs s"] tb_delete_count [of B "tb_delete A (jobs s)"] tb_delete_count [of U "uploads s"]
    by linarith+
  show ?thesis
    by (intro exI [of _ sm] exI [of _ s'] conjI)
       (rule run body(2) w1 w2 [unfolded A_def B_def] w3 len [folded ct])+
qed

theorem retention_windows_witness:
  "\<exists>sm s'. runCleanup no_fault 100000000000 100000000001 None None retention_example = (Inr sm, s')
    \<and> de_auditLogsGeneral (rs_deleted sm) + de_auditLogsSecurity (rs_deleted sm) + length (audits s') = 2"
proof -
  have h: "distinct (map a_id (audits retention_example))" "0 < RETENTION_ARCHIVE_BATCH_SIZE (cfg retention_example)"
    by (simp_all add: retention_example_def default_config_def)
  have "length (audits retention_example) = 2" by (simp add: retention_example_def)
  with retention_windows [OF h refl, of 100000000000 100000000001 None None] show ?thesis by auto
qed

end
