(* ===== verification/RetentionCascade.thy ===== *)
theory RetentionCascade
  imports RetentionProps
begin

text \<open>
  What the cascade from a job to its events means for the archive: an event that a run deletes with its
  job, while its own window is still open, is not archived.
\<close>

section \<open>Events that go with their job\<close>

definition not_archived :: "job_event \<Rightarrow> app \<Rightarrow> bool" where
  "not_archived e s \<longleftrightarrow> distinct (map e_id (events s)) \<and> (\<forall>x\<in>set (events s). e_id x = e_id e \<longrightarrow> x = e)
     \<and> (\<forall>a\<in>set (eventArchive s). ea_sourceJobEventId a \<noteq> Some (e_id e))"

lemma not_archived_frame:
  "not_archived e s \<Longrightarrow> events t = events s \<Longrightarrow> eventArchive t = eventArchive s \<Longrightarrow> not_archived e t"
  by (simp add: not_archived_def)

lemma archive_event_other:
  "e_id r \<noteq> e_id e \<Longrightarrow> \<forall>a\<in>set (eventArchive s). ea_sourceJobEventId a \<noteq> Some (e_id e)
    \<Longrightarrow> \<forall>a\<in>set (eventArchive (archive_event now s r)). ea_sourceJobEventId a \<noteq> Some (e_id e)"
  by (auto simp: archive_event_def archive_event_row_def bump_id_def)

lemma archive_events_other:
  "\<forall>r\<in>set rows. e_id r \<noteq> e_id e \<Longrightarrow> \<forall>a\<in>set (eventArchive s). ea_sourceJobEventId a \<noteq> Some (e_id e)
    \<Longrightarrow> \<forall>a\<in>set (eventArchive (foldl (archive_event now) s rows)). ea_sourceJobEventId a \<noteq> Some (e_id e)"
proof (induction rows arbitrary: s)
  case (Cons r rows)
  show ?case
    unfolding foldl_Cons by (rule Cons.IH) (use Cons.prems archive_event_other [of r e s now] in auto)
qed simp

lemma event_batch_other:
  assumes "not_archived e s" and "\<And>s. \<not> P s e" and "event_batch P n s = rows"
  shows "not_archived e (archive_event_batch now rows s)"
proof -
  have "e_id r \<noteq> e_id e" if "r \<in> set rows" for r
    using that event_batch_set [of P n s] assms by (auto simp: not_archived_def)
  then show ?thesis
    using assms(1) archive_events_other [of rows e s now]
    by (auto simp: not_archived_def archive_event_batch_def Let_def distinct_tb_delete tbl_simps)
qed

lemma archive_loop_other:
  "not_archived e s \<Longrightarrow> (\<And>s. \<not> P s e) \<Longrightarrow> not_archived e (snd (archiveAndDeleteJobEvents fault c t now P n k s))"
proof (induction fault c t now P n k s rule: archiveAndDeleteJobEvents.induct)
  case (1 fault c t now P n k s)
  show ?case
  proof (cases "fault c t")
    case None
    show ?thesis
    proof (cases "event_batch P n s")
      case (Cons r rs)
      from 1(1) [OF None Cons event_batch_other [OF 1(2,3) Cons] 1(3)] show ?thesis
        unfolding archiveAndDeleteJobEvents.simps [of fault c t now P n k s] by (simp add: None Cons)
    qed (simp add: archiveAndDeleteJobEvents.simps [of fault] None 1(2))
  qed (simp add: archiveAndDeleteJobEvents.simps [of fault] 1(2))
qed

lemma archive_audits_eventArchive:
  "eventArchive (snd (archiveAndDeleteAuditLogs fault c t now P n k s)) = eventArchive s"
proof (induction fault c t now P n k s rule: archiveAndDeleteAuditLogs.induct)
  case (1 fault c t now P n k s)
  have "eventArchive (archive_audit_batch now rows s) = eventArchive s" for rows
    by (simp add: archive_audit_batch_def Let_def)
  then show ?case
    using 1 by (simp add: archiveAndDeleteAuditLogs.simps [of fault c t now P n k s] split: option.split list.split)
qed

lemma not_archived_less:
  "not_archived e s \<Longrightarrow> events t = tb_delete Q (events s) \<Longrightarrow> set (eventArchive t) \<subseteq> set (eventArchive s) \<Longrightarrow> not_archived e t"
  by (auto simp: not_archived_def distinct_tb_delete tbl_simps)

lemma prune_other:
  assumes "th_jobEventsBefore th \<le> e_createdAt e" and "th_failedJobsBefore th \<le> e_createdAt e"
  shows "preserves (not_archived e) (prune_counts fault now p th)"
proof -
  have n: "\<not> events_done_where (th_jobEventsBefore th) s e" "\<not> events_failed_where (th_failedJobsBefore th) s e" for s
    using assms by (simp_all add: events_done_where_def events_failed_where_def)
  have ev: "preserves (not_archived e) (archiveAndDeleteJobEvents fault c t now P m k)" if "\<And>s. \<not> P s e" for c t P m k
    using that by (intro preservesI archive_loop_other)
  have au: "preserves (not_archived e) (archiveAndDeleteAuditLogs fault c t now P m k)"
    "preserves (not_archived e) (delete_audits P)" for c t P m k
    by (rule preservesI, erule not_archived_frame, simp_all add: archive_audits_jobs archive_audits_eventArchive delete_audits_def)+
  have de: "preserves (not_archived e) (delete_events P)" for P
    by (rule preservesI, erule not_archived_less) (auto simp: delete_events_def)
  show ?thesis
    unfolding prune_counts_def Let_def
    by (intro preserves_if preserves_bind preserves_pure preserves_db_call ev au de n)
qed

lemma cleanup_other:
  assumes "th_jobEventsBefore (thresholds now p) \<le> e_createdAt e" and "th_failedJobsBefore (thresholds now p) \<le> e_createdAt e"
  shows "preserves (not_archived e) (cleanup_body fault now t1 reason jobId p)"
proof -
  have m: "preserves (not_archived e) (modify (retention_metrics a d u))" "preserves (not_archived e) (setLastRunState v)"
    "preserves (not_archived e) (delete_upload_sessions th)" for a d u v th
    by (rule preservesI, erule not_archived_frame, simp_all add: modify_def setLastRunState_def delete_upload_sessions_def Let_def)+
  have j: "preserves (not_archived e) (deleteTerminalJobs ss th)" "preserves (not_archived e) (purge_event_archive th)"
    "preserves (not_archived e) (purge_audit_archive Q)" for ss th Q
    by (rule preservesI, erule not_archived_less [where Q = "\<lambda>_. False", OF _ trans] not_archived_less,
        auto simp: deleteTerminalJobs_def purge_event_archive_def purge_audit_archive_def Let_def tbl_simps tb_delete_def)+
  show ?thesis
    unfolding cleanup_body_def cleanup_tail_def Let_def split_def
    by (intro preserves_intros prune_other assms m j preserves_governance)
qed


lemma cleanup_cascade:
  assumes run: "cleanup_body fault now t1 reason jobId p s = (Inr sm, s')"
    and j: "j \<in> set (jobs s)" "terminal_where [COMPLETED, CANCELED] (th_terminalJobsBefore (thresholds now p)) j"
  shows "\<forall>x\<in>set (events s'). e_jobId x \<noteq> j_id j"
proof -
  let ?N = "\<lambda>t. \<forall>x\<in>set (events t). e_jobId x \<noteq> j_id j"
  let ?th = "thresholds now p"
  have tail: "preserves ?N (cleanup_tail fault t1 reason jobId p ?th counts j1)" for counts j1
    unfolding cleanup_tail_def Let_def split_def
    by (intro preserves_bind preserves_seq preserves_pure preserves_db_call preserves_governance preservesI)
       (auto simp: deleteTerminalJobs_def delete_upload_sessions_def purge_event_archive_def
          purge_audit_archive_def setLastRunState_def modify_def Let_def tbl_simps)
  obtain counts s1 j1 s2 where 1: "prune_counts fault now p ?th s = (Inr counts, s1)"
    and 2: "db_call fault RC_jobs_done 0 (deleteTerminalJobs [COMPLETED, CANCELED] (th_terminalJobsBefore ?th)) s1 = (Inr j1, s2)"
    and 3: "cleanup_tail fault t1 reason jobId p ?th counts j1 s2 = (Inr sm, s')"
    using run unfolding cleanup_body_def Let_def by (auto simp only: bind_eff_Inr)
  have "jobs s1 = jobs s" using prune_jobs [of fault now p ?th s] 1 by simp
  then have "j \<in> set (jobs s1)" using j(1) by simp
  with 2 j(2) have "?N s2"
    by (auto simp: db_call_def throw_def deleteTerminalJobs_def Let_def tbl_simps split: option.splits)
  with preserves_snd [OF tail 3] show ?thesis by blast
qed


text \<open>
  The archive does not cover every event. When the window of ended jobs is shorter than that of
  their events, a run deletes a completed or canceled job that is past its own window, and an event of
  it that is inside the events' windows goes with it: it is neither in the table nor, in archive mode,
  in the archive.
\<close>

theorem cascaded_event_not_archived:
  assumes run: "runCleanup fault now t1 reason jobId s = (Inr sm, s')"
    and th: "th = thresholds now (getPolicy (cfg s))"
    and j: "j \<in> set (jobs s)" "terminal_where [COMPLETED, CANCELED] (th_terminalJobsBefore th) j"
    and e: "e \<in> set (events s)" "e_jobId e = j_id j"
      "th_jobEventsBefore th \<le> e_createdAt e" "th_failedJobsBefore th \<le> e_createdAt e"
    and keys: "distinct (map e_id (events s))" "\<forall>a\<in>set (eventArchive s). ea_sourceJobEventId a \<noteq> Some (e_id e)"
  shows "e \<notin> set (events s') \<and> (\<forall>a\<in>set (eventArchive s'). ea_sourceJobEventId a \<noteq> Some (e_id e))"
proof -
  have body: "cleanup_body fault now t1 reason jobId (getPolicy (cfg s)) s = (Inr sm, s')"
    using run by (cases rule: runCleanup_cases) auto
  have "inj_on e_id (set (events s))" using keys(1) by (simp add: distinct_map)
  then have "not_archived e s" using keys e(1) by (auto simp: not_archived_def dest: inj_onD)
  with preserves_snd [OF cleanup_other body] e(3,4) th have "not_archived e s'" by blast
  moreover have "\<forall>x\<in>set (events s'). e_jobId x \<noteq> j_id j"
    using cleanup_cascade [OF body j(1)] j(2) th by blast
  ultimately show ?thesis using e(2) by (auto simp: not_archived_def)
qed

theorem cascaded_event_not_archived_witness:
  "\<exists>sm s'. runCleanup no_fault 5000000000 5000000000 None None
      (init_app\<lparr>cfg := default_config\<lparr>RETENTION_ARCHIVE_ENABLED := True, RETENTION_TERMINAL_JOB_DAYS := 1\<rparr>,
         jobs := [retention_job ''done'' COMPLETED (Some 3000000000)],
         events := [retention_event ''e1'' ''done'' 3000000000]\<rparr>) = (Inr sm, s')
     \<and> retention_event ''e1'' ''done'' 3000000000 \<notin> set (events s')
     \<and> list_all (\<lambda>a. ea_sourceJobEventId a \<noteq> Some ''e1'') (eventArchive s')"
proof -
  let ?s = "init_app\<lparr>cfg := default_config\<lparr>RETENTION_ARCHIVE_ENABLED := True, RETENTION_TERMINAL_JOB_DAYS := 1\<rparr>,
         jobs := [retention_job ''done'' COMPLETED (Some 3000000000)],
         events := [retention_event ''e1'' ''done'' 3000000000]\<rparr>"
  obtain sm s' where run: "runCleanup no_fault 5000000000 5000000000 None None ?s = (Inr sm, s')"
    using runCleanup_returns by blast
  have h: "retention_job ''done'' COMPLETED (Some 3000000000) \<in> set (jobs ?s)"
    "terminal_where [COMPLETED, CANCELED] (th_terminalJobsBefore (thresholds 5000000000 (getPolicy (cfg ?s))))
       (retention_job ''done'' COMPLETED (Some 3000000000))"
    "retention_event ''e1'' ''done'' 3000000000 \<in> set (events ?s)"
    "e_jobId (retention_event ''e1'' ''done'' 3000000000) = j_id (retention_job ''done'' COMPLETED (Some 3000000000))"
    "th_jobEventsBefore (thresholds 5000000000 (getPolicy (cfg ?s))) \<le> e_createdAt (retention_event ''e1'' ''done'' 3000000000)"
    "th_failedJobsBefore (thresholds 5000000000 (getPolicy (cfg ?s))) \<le> e_createdAt (retention_event ''e1'' ''done'' 3000000000)"
    "distinct (map e_id (events ?s))"
    "\<forall>a\<in>set (eventArchive ?s). ea_sourceJobEventId a \<noteq> Some (e_id (retention_event ''e1'' ''done'' 3000000000))"
    by (simp_all add: retention_job_def retention_event_def terminal_where_def thresholds_def getPolicy_def
        days_before_def default_config_def init_app_def)
  from cascaded_event_not_archived [OF run refl h] run show ?thesis by (simp add: retention_event_def list_all_iff)
qed

end
