(* ===== verification/Crypto.thy ===== *)
theory Crypto
  imports Schema
begin

text \<open>
  \<open>apps/api/src/common/crypto.service.ts\<close>: the form in which secrets are stored. Strings stand for
  their bytes. AES-256-GCM, SHA-256 and the random bytes come from the platform and are parameters:
  \<open>seal key iv plaintext\<close> is the pair of ciphertext and tag, \<open>open key iv tag body\<close> the plaintext or
  \<open>None\<close> when the tag does not fit. The base64 coding is written out, because a stored secret is split
  at its dots before it is decoded.
\<close>

section \<open>Base64\<close>

definition b64_digit :: "nat \<Rightarrow> char" where
  "b64_digit n = (if n < 26 then char_of (65 + n) else if n < 52 then char_of (71 + n)
     else if n < 62 then char_of (n - 4) else if n = 62 then CHR ''-'' else CHR ''_'')"

text \<open>\<open>buffer.toString("base64url")\<close>: no padding.\<close>

fun b64url_encode :: "string \<Rightarrow> string" where
  "b64url_encode [] = []"
| "b64url_encode [a] = (let x = of_char a :: nat in [b64_digit (x div 4), b64_digit (x mod 4 * 16)])"
| "b64url_encode [a, b] = (let x = of_char a :: nat; y = of_char b in
     [b64_digit (x div 4), b64_digit (x mod 4 * 16 + y div 16), b64_digit (y mod 16 * 4)])"
| "b64url_encode (a # b # c # s) = (let x = of_char a :: nat; y = of_char b; z = of_char c in
     [b64_digit (x div 4), b64_digit (x mod 4 * 16 + y div 16), b64_digit (y mod 16 * 4 + z div 64),
      b64_digit (z mod 64)] @ b64url_encode s)"

text \<open>The value of a digit of either alphabet.\<close>

definition b64_value :: "char \<Rightarrow> nat option" where
  "b64_value c = (let n = (of_char c :: nat) in
     if 65 \<le> n \<and> n \<le> 90 then Some (n - 65) else if 97 \<le> n \<and> n \<le> 122 then Some (n - 71)
     else if 48 \<le> n \<and> n \<le> 57 then Some (n + 4) else if n = 45 \<or> n = 43 then Some 62
     else if n = 95 \<or> n = 47 then Some 63 else None)"

fun sextets :: "nat list \<Rightarrow> string" where
  "sextets (p # q # r # s # t) = char_of (p * 4 + q div 16) # char_of (q mod 16 * 16 + r div 4)
     # char_of (r mod 4 * 64 + s) # sextets t"
| "sextets [p, q, r] = [char_of (p * 4 + q div 16), char_of (q mod 16 * 16 + r div 4)]"
| "sextets [p, q] = [char_of (p * 4 + q div 16)]"
| "sextets _ = []"

text \<open>\<open>Buffer.from(text, "base64")\<close>, which takes both alphabets, ends at the padding and passes over
  every other character.\<close>

definition b64_decode :: "string \<Rightarrow> string" where
  "b64_decode s = sextets (List.map_filter b64_value (takeWhile (\<lambda>c. c \<noteq> CHR ''='') s))"

section \<open>The service\<close>

record crypto =
  cr_seal :: "string \<Rightarrow> string \<Rightarrow> string \<Rightarrow> string \<times> string"
  cr_open :: "string \<Rightarrow> string \<Rightarrow> string \<Rightarrow> string \<Rightarrow> string option"
  cr_sha256 :: "string \<Rightarrow> string"

definition hex_value :: "char \<Rightarrow> nat option" where
  "hex_value c = (let n = (of_char c :: nat) in
     if 48 \<le> n \<and> n \<le> 57 then Some (n - 48) else if 97 \<le> n \<and> n \<le> 102 then Some (n - 87)
     else if 65 \<le> n \<and> n \<le> 70 then Some (n - 55) else None)"

fun hex_pairs :: "nat list \<Rightarrow> string" where
  "hex_pairs (p # q # r) = char_of (p * 16 + q) # hex_pairs r"
| "hex_pairs _ = []"

definition hex_decode :: "string \<Rightarrow> string" where
  "hex_decode s = hex_pairs (List.map_filter hex_value s)"

text \<open>\<open>/^[a-f0-9]{64}$/i\<close>.\<close>

definition is_hex64 :: "string \<Rightarrow> bool" where
  "is_hex64 s \<longleftrightarrow> length s = 64 \<and> list_all (\<lambda>c. hex_value c \<noteq> None) s"

definition normalizeKeyMaterial :: "crypto \<Rightarrow> string \<Rightarrow> string" where
  "normalizeKeyMaterial cr value =
     (if is_hex64 value then hex_decode value
      else let maybe = b64_decode value in
        if length maybe \<ge> 32 then take 32 maybe else cr_sha256 cr value)"

definition dot :: char where "dot = CHR ''.''"

text \<open>\<open>iv\<close> is the value of \<open>randomBytes(12)\<close>.\<close>

definition encrypt :: "crypto \<Rightarrow> string \<Rightarrow> string \<Rightarrow> string \<Rightarrow> string" where
  "encrypt cr key iv plaintext = (case cr_seal cr key iv plaintext of (encrypted, tag) \<Rightarrow>
     b64url_encode iv @ [dot] @ b64url_encode tag @ [dot] @ b64url_encode encrypted)"

text \<open>\<open>text.split(".")\<close>.\<close>

fun split_dot :: "string \<Rightarrow> string list" where
  "split_dot [] = [[]]"
| "split_dot (c # s) = (if c = dot then [] # split_dot s
     else case split_dot s of [] \<Rightarrow> [[c]] | p # ps \<Rightarrow> (c # p) # ps)"

definition nth_part :: "string list \<Rightarrow> nat \<Rightarrow> string" where
  "nth_part ps n = (if n < length ps then ps ! n else [])"

definition decrypt :: "crypto \<Rightarrow> string \<Rightarrow> string \<Rightarrow> string res" where
  "decrypt cr key ciphertext =
     (let parts = split_dot ciphertext; ivPart = nth_part parts 0; tagPart = nth_part parts 1; bodyPart = nth_part parts 2 in
      if ivPart = [] \<or> tagPart = [] \<or> bodyPart = [] then Inl (PlainError ''Invalid encrypted payload'')
      else case cr_open cr key (b64_decode ivPart) (b64_decode tagPart) (b64_decode bodyPart) of
          None \<Rightarrow> Inl (PlainError ''Unsupported state or unable to authenticate data'')
        | Some x \<Rightarrow> Inr x)"

definition hex_char :: "nat \<Rightarrow> char" where
  "hex_char n = (if n < 10 then char_of (48 + n) else char_of (87 + n))"

definition hex_encode :: "string \<Rightarrow> string" where
  "hex_encode s = concat (map (\<lambda>c. let n = of_char c :: nat in [hex_char (n div 16), hex_char (n mod 16)]) s)"

definition hashToken :: "crypto \<Rightarrow> string \<Rightarrow> string" where
  "hashToken cr token = hex_encode (cr_sha256 cr token)"

text \<open>What the platform documents of AES-GCM: what was sealed opens to the plaintext, the ciphertext
  has the length of the plaintext, and a tag has 16 bytes.\<close>

definition aead_ok :: "crypto \<Rightarrow> bool" where
  "aead_ok cr \<longleftrightarrow> (\<forall>key iv x. cr_open cr key iv (snd (cr_seal cr key iv x)) (fst (cr_seal cr key iv x)) = Some x
     \<and> length (fst (cr_seal cr key iv x)) = length x \<and> length (snd (cr_seal cr key iv x)) = 16)"

section \<open>Lemmas\<close>

lemma b64_digit_code:
  "n < 64 \<Longrightarrow> (of_char (b64_digit n) :: nat) = (if n < 26 then 65 + n else if n < 52 then 71 + n
     else if n < 62 then n - 4 else if n = 62 then 45 else 95)"
  by (simp add: b64_digit_def)

lemma b64_value_digit: "n < 64 \<Longrightarrow> b64_value (b64_digit n) = Some n"
  by (auto simp: b64_value_def b64_digit_code Let_def)

lemma b64_digit_plain:
  assumes "n < 64"
  shows "b64_digit n \<noteq> CHR ''='' \<and> b64_digit n \<noteq> dot"
proof -
  have "(of_char (b64_digit n) :: nat) \<noteq> 61" "(of_char (b64_digit n) :: nat) \<noteq> 46"
    using assms by (auto simp: b64_digit_code)
  then show ?thesis by (auto simp: dot_def)
qed

lemma char_lt: "(of_char c :: nat) < 256"
  by simp

text \<open>The digits of an encoding are small, and the digits determine the bytes.\<close>

fun digits_of :: "string \<Rightarrow> nat list" where
  "digits_of [] = []"
| "digits_of [a] = (let x = of_char a :: nat in [x div 4, x mod 4 * 16])"
| "digits_of [a, b] = (let x = of_char a :: nat; y = of_char b in [x div 4, x mod 4 * 16 + y div 16, y mod 16 * 4])"
| "digits_of (a # b # c # s) = (let x = of_char a :: nat; y = of_char b; z = of_char c in
     [x div 4, x mod 4 * 16 + y div 16, y mod 16 * 4 + z div 64, z mod 64] @ digits_of s)"

lemma encode_digits: "b64url_encode s = map b64_digit (digits_of s)"
  by (induction s rule: digits_of.induct) (simp_all add: Let_def)

lemma byte_parts:
  fixes x y :: nat
  assumes "x < 256" and "y < 256"
  shows "x div 4 < 64" "x mod 4 * 16 + y div 16 < 64" "x mod 4 * 16 < 64" "y mod 16 * 4 < 64"
    "x mod 16 * 4 + y div 64 < 64" "x mod 64 < 64"
proof -
  have "x mod 4 < 4" "x mod 16 < 16" "y div 16 < 16" "y div 64 < 4" "y mod 16 < 16" using assms by auto
  then show "x div 4 < 64" "x mod 4 * 16 + y div 16 < 64" "x mod 4 * 16 < 64" "y mod 16 * 4 < 64"
    "x mod 16 * 4 + y div 64 < 64" "x mod 64 < 64" using assms by auto
qed

lemma digits_small: "\<forall>d\<in>set (digits_of s). d < 64"
  by (induction s rule: digits_of.induct) (auto simp: Let_def byte_parts [OF char_lt char_lt])

lemma byte_join:
  fixes x y z :: nat
  assumes "x < 256" and "y < 256" and "z < 256"
  shows "x div 4 * 4 + (x mod 4 * 16 + y div 16) div 16 = x"
    and "(x mod 4 * 16 + y div 16) mod 16 * 16 + (y mod 16 * 4 + z div 64) div 4 = y"
    and "(y mod 16 * 4 + z div 64) mod 4 * 64 + z mod 64 = z"
    and "x div 4 * 4 + (x mod 4 * 16) div 16 = x"
    and "(x mod 4 * 16 + y div 16) mod 16 * 16 + (y mod 16 * 4) div 4 = y"
proof -
  have "y div 16 < 16" "z div 64 < 4" using assms by auto
  then have "(x mod 4 * 16 + y div 16) div 16 = x mod 4" "(x mod 4 * 16 + y div 16) mod 16 = y div 16"
    "(y mod 16 * 4 + z div 64) div 4 = y mod 16" "(y mod 16 * 4 + z div 64) mod 4 = z div 64"
    by (simp_all only: div_mult_self3 mod_mult_self3 div_less mod_less add_0_right)
  then show "x div 4 * 4 + (x mod 4 * 16 + y div 16) div 16 = x"
    "(x mod 4 * 16 + y div 16) mod 16 * 16 + (y mod 16 * 4 + z div 64) div 4 = y"
    "(y mod 16 * 4 + z div 64) mod 4 * 64 + z mod 64 = z"
    "x div 4 * 4 + (x mod 4 * 16) div 16 = x"
    "(x mod 4 * 16 + y div 16) mod 16 * 16 + (y mod 16 * 4) div 4 = y"
    by simp_all
qed

lemma sextets_digits: "sextets (digits_of s) = s"
proof (induction s rule: digits_of.induct)
  case (2 a)
  show ?case using byte_join(4) [of "of_char a" 0 0] by (simp add: Let_def char_lt)
next
  case (3 a b)
  show ?case using byte_join(1,5) [of "of_char a" "of_char b" 0] by (simp add: Let_def char_lt)
next
  case (4 a b c s)
  show ?case using 4 byte_join(1-3) [of "of_char a" "of_char b" "of_char c"] by (simp add: Let_def char_lt)
qed simp

lemma b64_roundtrip: "b64_decode (b64url_encode s) = s"
proof -
  have "takeWhile (\<lambda>c. c \<noteq> CHR ''='') (map b64_digit (digits_of s)) = map b64_digit (digits_of s)"
    using digits_small [of s] by (auto simp: takeWhile_eq_all_conv dest!: b64_digit_plain)
  moreover have "List.map_filter b64_value (map b64_digit ds) = ds" if "\<forall>d\<in>set ds. d < 64" for ds
    using that by (induction ds) (simp_all add: map_filter_def b64_value_digit)
  ultimately show ?thesis
    using digits_small [of s] sextets_digits [of s] by (metis b64_decode_def encode_digits)
qed

lemma encode_no_dot: "dot \<notin> set (b64url_encode s)"
  using digits_small [of s] b64_digit_plain by (fastforce simp: encode_digits)

lemma encode_Nil: "b64url_encode s = [] \<longleftrightarrow> s = []"
  by (cases s rule: b64url_encode.cases) (simp_all add: Let_def)

lemma split_dot_plain: "dot \<notin> set s \<Longrightarrow> split_dot s = [s]"
  by (induction s) auto

lemma split_dot_append: "dot \<notin> set s \<Longrightarrow> split_dot (s @ dot # t) = s # split_dot t"
  by (induction s) auto

lemma encrypt_parts:
  "cr_seal cr key iv x = (body, tag) \<Longrightarrow>
   split_dot (encrypt cr key iv x) = [b64url_encode iv, b64url_encode tag, b64url_encode body]"
  by (simp add: encrypt_def split_dot_append split_dot_plain encode_no_dot)

lemma decrypt_encrypt:
  assumes "aead_ok cr" and "iv \<noteq> []"
  shows "decrypt cr key (encrypt cr key iv x) =
    (if x = [] then Inl (PlainError ''Invalid encrypted payload'') else Inr x)"
proof -
  obtain body tag where seal: "cr_seal cr key iv x = (body, tag)" by (cases "cr_seal cr key iv x")
  have "cr_open cr key iv (snd (cr_seal cr key iv x)) (fst (cr_seal cr key iv x)) = Some x
     \<and> length (fst (cr_seal cr key iv x)) = length x \<and> length (snd (cr_seal cr key iv x)) = 16"
    using assms(1) by (simp add: aead_ok_def)
  then have law: "cr_open cr key iv tag body = Some x" "length body = length x" "tag \<noteq> []"
    using seal by auto
  show ?thesis
    using law assms(2) by (auto simp: decrypt_def encrypt_parts [OF seal] nth_part_def Let_def b64_roundtrip encode_Nil)
qed

text \<open>
  C18. Stored secrets: a non-empty plaintext encrypted under any non-empty nonce decrypts to itself.
  The empty plaintext does not: its stored form has an empty body and is refused as invalid.
\<close>

theorem secret_roundtrip:
  assumes "aead_ok cr" and "iv \<noteq> []"
  shows "decrypt cr key (encrypt cr key iv x) =
    (if x = [] then Inl (PlainError ''Invalid encrypted payload'') else Inr x)"
  using assms by (rule decrypt_encrypt)

text \<open>A cipher for the witnesses: it leaves the text in place and tags it with sixteen bytes.\<close>

definition plain_crypto :: crypto where
  "plain_crypto = \<lparr>cr_seal = (\<lambda>key iv x. (x, replicate 16 (CHR ''t''))),
     cr_open = (\<lambda>key iv tag body. if tag = replicate 16 (CHR ''t'') then Some body else None),
     cr_sha256 = (\<lambda>x. take 32 (x @ replicate 32 (CHR ''h'')))\<rparr>"

lemma plain_crypto_ok: "aead_ok plain_crypto"
  by (simp add: aead_ok_def plain_crypto_def)

theorem secret_roundtrip_witness:
  "decrypt plain_crypto ''k'' (encrypt plain_crypto ''k'' ''nonce'' ''secret'') = Inr ''secret''"
  using secret_roundtrip [OF plain_crypto_ok, of "''nonce''" "''k''" "''secret''"] by simp

end
