(* ===== verification/Connections.thy ===== *)
theory Connections
  imports Crypto AuditLog S3Types
begin

text \<open>
  \<open>apps/api/src/connections/connections.service.ts\<close> and \<open>packages/s3/src/admin-client.ts\<close>: the stored
  connections to a Garage cluster, their encrypted credentials, the choice of the default connection
  with its fallback to the environment, and the health check. The S3 client and \<open>fetch\<close> are parameters
  on a world of any type; the health check acts on the pair of database and world. \<open>rnd\<close> gives the
  nonces, \<open>rnd i\<close> being the one of the \<open>i\<close>-th encryption of an operation.
\<close>

section \<open>Garage admin API\<close>

record garage_bucket_summary =
  gb_id :: string
  gb_globalAliases :: "string list"

text \<open>A response of \<open>fetch\<close>: status, text, and the parsed body at the type the caller declares.\<close>

record 'b http_response =
  hr_ok :: bool
  hr_status :: int
  hr_statusText :: string
  hr_text :: string
  hr_value :: 'b

record http_request =
  hq_method :: string
  hq_url :: string
  hq_headers :: "(string \<times> string) list"

type_synonym ('w, 'b) fetcher = "http_request \<Rightarrow> ('w, 'b http_response) eff"

record admin_client =
  ac_baseUrl :: string
  ac_token :: string
  ac_defaultHeaders :: "(string \<times> string) list"

text \<open>\<open>baseUrl.replace(/\/+$/, "")\<close>.\<close>

definition new_admin_client :: "string \<Rightarrow> string \<Rightarrow> (string \<times> string) list \<Rightarrow> admin_client" where
  "new_admin_client baseUrl token headers =
     \<lparr>ac_baseUrl = rev (dropWhile (\<lambda>c. c = slash) (rev baseUrl)), ac_token = token, ac_defaultHeaders = headers\<rparr>"

definition fetchRaw :: "('w, 'b) fetcher \<Rightarrow> admin_client \<Rightarrow> string \<Rightarrow> string \<Rightarrow> ('w, 'b http_response) eff" where
  "fetchRaw fetch c method path = fetch \<lparr>hq_method = method, hq_url = ac_baseUrl c @ path,
     hq_headers = [(''Authorization'', ''Bearer '' @ ac_token c), (''Content-Type'', ''application/json'')]
       @ ac_defaultHeaders c\<rparr>"

definition int_to_string :: "int \<Rightarrow> string" where
  "int_to_string n = (if n < 0 then CHR ''-'' # nat_to_string (nat (- n)) else nat_to_string (nat n))"

text \<open>A 204 response has no value: the result is \<open>undefined\<close>.\<close>

definition admin_request ::
  "('w, 'b) fetcher \<Rightarrow> admin_client \<Rightarrow> string \<Rightarrow> string \<Rightarrow> ('w, 'b option) eff" where
  "admin_request fetch c method path =
     bind_eff (fetchRaw fetch c method path) (\<lambda>response.
       if \<not> hr_ok response
       then throw (PlainError (''Garage admin API '' @ int_to_string (hr_status response) @ '': ''
              @ (if hr_text response \<noteq> [] then hr_text response else hr_statusText response)))
       else if hr_status response = 204 then ok None else ok (Some (hr_value response)))"

definition listBuckets ::
  "('w, garage_bucket_summary list) fetcher \<Rightarrow> admin_client \<Rightarrow> ('w, garage_bucket_summary list option) eff" where
  "listBuckets fetch c = admin_request fetch c ''GET'' ''/v2/ListBuckets''"

definition admin_healthCheck :: "('w, 'b) fetcher \<Rightarrow> admin_client \<Rightarrow> ('w, bool) eff" where
  "admin_healthCheck fetch c = bind_eff (fetchRaw fetch c ''GET'' ''/health'') (\<lambda>response. ok (hr_ok response))"

section \<open>Connections\<close>

definition P2002 :: http_error where
  "P2002 = PlainError ''Unique constraint failed''"

record upsert_connection =
  uc_name :: string
  uc_endpoint :: string
  uc_region :: string
  uc_forcePathStyle :: "bool option"
  uc_accessKeyId :: string
  uc_secretAccessKey :: string
  uc_adminApiUrl :: "string option"
  uc_adminToken :: "string option"
  uc_isDefault :: "bool option"

record connection_public =
  cp_id :: string
  cp_name :: string
  cp_endpoint :: string
  cp_region :: string
  cp_forcePathStyle :: bool
  cp_adminApiUrl :: "string option"
  cp_isDefault :: bool
  cp_healthStatus :: "string option"
  cp_createdAt :: int
  cp_updatedAt :: int

definition conn_toPublic :: "conn_row \<Rightarrow> connection_public" where
  "conn_toPublic c = \<lparr>cp_id = c_id c, cp_name = c_name c, cp_endpoint = c_endpoint c, cp_region = c_region c,
     cp_forcePathStyle = c_forcePathStyle c, cp_adminApiUrl = c_adminApiUrl c, cp_isDefault = c_isDefault c,
     cp_healthStatus = c_healthStatus c, cp_createdAt = c_createdAt c, cp_updatedAt = c_updatedAt c\<rparr>"

text \<open>\<open>orderBy: [{isDefault: "desc"}, {name: "asc"}]\<close>: stable sorts, the last key first.\<close>

definition listPublic :: "app \<Rightarrow> connection_public list" where
  "listPublic s = map conn_toPublic
     (sort_key (\<lambda>c. if c_isDefault c then 0 else 1 :: nat) (sort_key c_name (conns s)))"

text \<open>\<open>updateMany({where: {isDefault: true, ...}, data: {isDefault: false}})\<close>.\<close>

definition clear_default :: "int \<Rightarrow> (conn_row \<Rightarrow> bool) \<Rightarrow> app \<Rightarrow> app" where
  "clear_default now P s = s\<lparr>conns := tb_update (\<lambda>c. c_isDefault c \<and> P c)
     (\<lambda>c. c\<lparr>c_isDefault := False, c_updatedAt := now\<rparr>) (conns s)\<rparr>"

text \<open>\<open>create\<close>, with its unique name.\<close>

definition insert_conn :: "conn_row \<Rightarrow> (app, conn_row) eff" where
  "insert_conn row = (\<lambda>s. if \<exists>c\<in>set (conns s). c_name c = c_name row then (Inl P2002, s)
     else (Inr row, bump_id (s\<lparr>conns := conns s @ [row]\<rparr>)))"

definition encrypt_opt :: "crypto \<Rightarrow> string \<Rightarrow> string \<Rightarrow> string option \<Rightarrow> string option" where
  "encrypt_opt cr key iv v = (case v of None \<Rightarrow> None | Some x \<Rightarrow> if x = [] then None else Some (encrypt cr key iv x))"

definition created_conn :: "crypto \<Rightarrow> string \<Rightarrow> (nat \<Rightarrow> string) \<Rightarrow> int \<Rightarrow> upsert_connection \<Rightarrow> string \<Rightarrow> conn_row" where
  "created_conn cr key rnd now i newId = \<lparr>c_id = newId, c_name = uc_name i, c_endpoint = uc_endpoint i,
     c_region = uc_region i, c_forcePathStyle = or_else (uc_forcePathStyle i) True,
     c_accessKeyEncrypted = encrypt cr key (rnd 0) (uc_accessKeyId i),
     c_secretKeyEncrypted = encrypt cr key (rnd 1) (uc_secretAccessKey i),
     c_adminApiUrl = uc_adminApiUrl i, c_adminTokenEncrypted = encrypt_opt cr key (rnd 2) (uc_adminToken i),
     c_isDefault = or_else (uc_isDefault i) False, c_healthStatus = None, c_createdAt = now, c_updatedAt = now\<rparr>"

definition conn_flags :: "conn_row \<Rightarrow> (string \<times> json) list" where
  "conn_flags c = [(''name'', JStr (c_name c)), (''endpoint'', JStr (c_endpoint c)),
     (''region'', JStr (c_region c)), (''forcePathStyle'', JBool (c_forcePathStyle c)),
     (''isDefault'', JBool (c_isDefault c)), (''hasAdminApi'', JBool (truthy (c_adminApiUrl c))),
     (''hasAdminToken'', JBool (truthy (c_adminTokenEncrypted c)))]"

definition create_connection ::
  "crypto \<Rightarrow> string \<Rightarrow> (nat \<Rightarrow> string) \<Rightarrow> int \<Rightarrow> session_user \<Rightarrow> upsert_connection \<Rightarrow> string option
    \<Rightarrow> (app, connection_public) eff" where
  "create_connection cr key rnd now actor i ipAddress =
     seq_eff (if uc_isDefault i = Some True then modify (clear_default now (\<lambda>_. True)) else ok ())
     (bind_eff (\<lambda>s. insert_conn (created_conn cr key rnd now i (new_id s)) s) (\<lambda>created.
        seq_eff (modify (audit_record now (Some actor) ''connection.create'' ''garage_connection'' (Some (c_id created))
                   (JObj (conn_flags created)) ipAddress))
        (ok (conn_toPublic created))))"

text \<open>A field of a partial input: absent, null, or a value.\<close>

datatype 'a patch = Keep | SetNull | SetTo 'a

record patch_connection =
  pc_fields :: "string list"
  pc_name :: "string option"
  pc_endpoint :: "string option"
  pc_region :: "string option"
  pc_forcePathStyle :: "bool option"
  pc_accessKeyId :: "string option"
  pc_secretAccessKey :: "string option"
  pc_adminApiUrl :: "string patch"
  pc_adminToken :: "string patch"
  pc_isDefault :: "bool option"

definition patched_conn :: "crypto \<Rightarrow> string \<Rightarrow> (nat \<Rightarrow> string) \<Rightarrow> int \<Rightarrow> patch_connection \<Rightarrow> conn_row \<Rightarrow> conn_row" where
  "patched_conn cr key rnd now i c = c\<lparr>c_name := or_else (pc_name i) (c_name c),
     c_endpoint := or_else (pc_endpoint i) (c_endpoint c), c_region := or_else (pc_region i) (c_region c),
     c_forcePathStyle := or_else (pc_forcePathStyle i) (c_forcePathStyle c),
     c_accessKeyEncrypted := or_else (encrypt_opt cr key (rnd 0) (pc_accessKeyId i)) (c_accessKeyEncrypted c),
     c_secretKeyEncrypted := or_else (encrypt_opt cr key (rnd 1) (pc_secretAccessKey i)) (c_secretKeyEncrypted c),
     c_adminApiUrl := (case pc_adminApiUrl i of Keep \<Rightarrow> c_adminApiUrl c | SetNull \<Rightarrow> None | SetTo u \<Rightarrow> Some u),
     c_adminTokenEncrypted := (case pc_adminToken i of Keep \<Rightarrow> c_adminTokenEncrypted c | SetNull \<Rightarrow> None
       | SetTo t \<Rightarrow> if t = [] then c_adminTokenEncrypted c else Some (encrypt cr key (rnd 2) t)),
     c_isDefault := or_else (pc_isDefault i) (c_isDefault c), c_updatedAt := now\<rparr>"

definition find_conn :: "string \<Rightarrow> app \<Rightarrow> conn_row option" where
  "find_conn i s = find (\<lambda>c. c_id c = i) (conns s)"

text \<open>\<open>update({where: {id}})\<close>, with the unique name.\<close>

definition update_conn :: "string \<Rightarrow> (conn_row \<Rightarrow> conn_row) \<Rightarrow> (app, conn_row) eff" where
  "update_conn i f = (\<lambda>s. case find_conn i s of
     None \<Rightarrow> (Inl (PlainError ''Record to update not found''), s)
   | Some c \<Rightarrow> if \<exists>d\<in>set (conns s). c_id d \<noteq> i \<and> c_name d = c_name (f c) then (Inl P2002, s)
       else (Inr (f c), s\<lparr>conns := tb_update (\<lambda>c. c_id c = i) f (conns s)\<rparr>))"

definition update_connection ::
  "crypto \<Rightarrow> string \<Rightarrow> (nat \<Rightarrow> string) \<Rightarrow> int \<Rightarrow> session_user \<Rightarrow> string \<Rightarrow> patch_connection \<Rightarrow> string option
    \<Rightarrow> (app, connection_public) eff" where
  "update_connection cr key rnd now actor i input ipAddress =
     bind_eff (reads (find_conn i)) (\<lambda>existing.
     seq_eff (require (existing \<noteq> None) (NotFoundException ''Connection not found''))
     (seq_eff (if pc_isDefault input = Some True then modify (clear_default now (\<lambda>c. c_id c \<noteq> i)) else ok ())
     (bind_eff (update_conn i (patched_conn cr key rnd now input)) (\<lambda>updated.
        seq_eff (modify (audit_record now (Some actor) ''connection.update'' ''garage_connection'' (Some (c_id updated))
                   (JObj ((''updatedFields'', JArr (map JStr (pc_fields input))) # conn_flags updated)) ipAddress))
        (ok (conn_toPublic updated))))))"

record connection_secrets =
  cs_id :: string
  cs_name :: string
  cs_endpoint :: string
  cs_region :: string
  cs_forcePathStyle :: bool
  cs_accessKeyId :: string
  cs_secretAccessKey :: string
  cs_adminApiUrl :: "string option"
  cs_adminToken :: "string option"

definition env_conn :: "crypto \<Rightarrow> string \<Rightarrow> (nat \<Rightarrow> string) \<Rightarrow> int \<Rightarrow> config \<Rightarrow> string \<Rightarrow> conn_row" where
  "env_conn cr key rnd now c newId = \<lparr>c_id = newId, c_name = ''env-default'', c_endpoint = or_else (GARAGE_ENDPOINT c) [],
     c_region = GARAGE_REGION c, c_forcePathStyle = GARAGE_FORCE_PATH_STYLE c,
     c_accessKeyEncrypted = encrypt cr key (rnd 0) (or_else (GARAGE_ACCESS_KEY_ID c) []),
     c_secretKeyEncrypted = encrypt cr key (rnd 1) (or_else (GARAGE_SECRET_ACCESS_KEY c) []),
     c_adminApiUrl = GARAGE_ADMIN_API_URL c,
     c_adminTokenEncrypted = encrypt_opt cr key (rnd 2) (GARAGE_ADMIN_TOKEN c),
     c_isDefault = True, c_healthStatus = None, c_createdAt = now, c_updatedAt = now\<rparr>"

definition ensureEnvFallbackConnection ::
  "crypto \<Rightarrow> string \<Rightarrow> (nat \<Rightarrow> string) \<Rightarrow> int \<Rightarrow> (app, conn_row option) eff" where
  "ensureEnvFallbackConnection cr key rnd now = (\<lambda>s.
     if \<not> truthy (GARAGE_ENDPOINT (cfg s)) \<or> \<not> truthy (GARAGE_ACCESS_KEY_ID (cfg s))
        \<or> \<not> truthy (GARAGE_SECRET_ACCESS_KEY (cfg s)) then (Inr None, s)
     else case find (\<lambda>c. c_name c = ''env-default'') (conns s) of
         Some existing \<Rightarrow> (Inr (Some existing),
           if \<not> c_isDefault existing
           then s\<lparr>conns := tb_update (\<lambda>c. c_id c = c_id existing) (\<lambda>c. c\<lparr>c_isDefault := True, c_updatedAt := now\<rparr>) (conns s)\<rparr>
           else s)
       | None \<Rightarrow> bind_eff (\<lambda>t. insert_conn (env_conn cr key rnd now (cfg t) (new_id t)) t) (\<lambda>row. ok (Some row))
           (clear_default now (\<lambda>_. True) s))"

definition with_secrets :: "crypto \<Rightarrow> string \<Rightarrow> conn_row \<Rightarrow> connection_secrets res" where
  "with_secrets cr key c =
     (case decrypt cr key (c_accessKeyEncrypted c) of Inl e \<Rightarrow> Inl e | Inr accessKeyId \<Rightarrow>
     (case decrypt cr key (c_secretKeyEncrypted c) of Inl e \<Rightarrow> Inl e | Inr secretAccessKey \<Rightarrow>
     (case (if truthy (c_adminTokenEncrypted c)
            then map_sum id Some (decrypt cr key (or_else (c_adminTokenEncrypted c) [])) else Inr None) of
        Inl e \<Rightarrow> Inl e
      | Inr adminToken \<Rightarrow> Inr \<lparr>cs_id = c_id c, cs_name = c_name c, cs_endpoint = c_endpoint c, cs_region = c_region c,
          cs_forcePathStyle = c_forcePathStyle c, cs_accessKeyId = accessKeyId, cs_secretAccessKey = secretAccessKey,
          cs_adminApiUrl = c_adminApiUrl c, cs_adminToken = adminToken\<rparr>)))"

definition getDefaultConnectionWithSecrets ::
  "crypto \<Rightarrow> string \<Rightarrow> (nat \<Rightarrow> string) \<Rightarrow> int \<Rightarrow> (app, connection_secrets) eff" where
  "getDefaultConnectionWithSecrets cr key rnd now =
     bind_eff (reads (\<lambda>s. find c_isDefault (conns s))) (\<lambda>found.
     bind_eff (case found of Some c \<Rightarrow> ok (Some c) | None \<Rightarrow> ensureEnvFallbackConnection cr key rnd now) (\<lambda>connection.
     bind_eff (need connection (NotFoundException ''No Garage connection configured'')) (\<lambda>c.
       lift_res (with_secrets cr key c))))"

section \<open>Health check\<close>

record s3_config =
  s3_endpoint :: string
  s3_region :: string
  s3_forcePathStyle :: bool
  s3_accessKeyId :: string
  s3_secretAccessKey :: string

record health_result =
  he_id :: string
  he_s3Ok :: bool
  he_adminOk :: "bool option"
  he_error :: "string option"

definition health_label :: "bool \<Rightarrow> bool option \<Rightarrow> string" where
  "health_label s3Ok adminOk = (if s3Ok \<and> adminOk \<noteq> Some False then ''healthy'' else ''degraded'')"

definition probe_s3 :: "'w s3_send \<Rightarrow> ('w, bool \<times> string option) eff" where
  "probe_s3 send = catch_eff (seq_eff (send ListBuckets) (ok (True, None))) (\<lambda>err. ok (False, Some (err_message err)))"

definition probe_admin ::
  "crypto \<Rightarrow> string \<Rightarrow> ('w, 'b) fetcher \<Rightarrow> string option \<Rightarrow> conn_row \<Rightarrow> string option \<Rightarrow> ('w, bool option \<times> string option) eff" where
  "probe_admin cr key fetch correlationId item error =
     (if truthy (c_adminApiUrl item) \<and> truthy (c_adminTokenEncrypted item)
      then catch_eff
        (bind_eff (lift_res (decrypt cr key (or_else (c_adminTokenEncrypted item) []))) (\<lambda>token.
         bind_eff (admin_healthCheck fetch (new_admin_client (or_else (c_adminApiUrl item) []) token
           (case correlationId of Some c \<Rightarrow> if c \<noteq> [] then [(''x-request-id'', c)] else [] | None \<Rightarrow> []))) (\<lambda>b. ok (Some b, error))))
        (\<lambda>err. ok (Some False, first_some error (Some (err_message err))))
      else ok (None, error))"

definition healthCheck ::
  "crypto \<Rightarrow> string \<Rightarrow> (s3_config \<Rightarrow> 'w s3_send) \<Rightarrow> ('w, 'b) fetcher \<Rightarrow> int \<Rightarrow> session_user \<Rightarrow> string \<Rightarrow> string option
    \<Rightarrow> (app \<times> 'w, health_result) eff" where
  "healthCheck cr key client fetch now actor i ipAddress =
     bind_eff (reads (\<lambda>sw. find_conn i (fst sw))) (\<lambda>found.
     bind_eff (need found (NotFoundException ''Connection not found'')) (\<lambda>item.
     bind_eff (reads (\<lambda>sw. getCorrelationId (fst sw))) (\<lambda>correlationId.
     bind_eff (lift_res (decrypt cr key (c_accessKeyEncrypted item))) (\<lambda>accessKeyId.
     bind_eff (lift_res (decrypt cr key (c_secretKeyEncrypted item))) (\<lambda>secretAccessKey.
     bind_eff (on_snd (probe_s3 (client \<lparr>s3_endpoint = c_endpoint item, s3_region = c_region item,
        s3_forcePathStyle = c_forcePathStyle item, s3_accessKeyId = accessKeyId,
        s3_secretAccessKey = secretAccessKey\<rparr>))) (\<lambda>(s3Ok, e1).
     bind_eff (on_snd (probe_admin cr key fetch correlationId item e1)) (\<lambda>(adminOk, error).
     bind_eff (on_fst (update_conn (c_id item) (\<lambda>c. c\<lparr>c_healthStatus := Some (health_label s3Ok adminOk), c_updatedAt := now\<rparr>))) (\<lambda>_.
     seq_eff (on_fst (modify (audit_record now (Some actor) ''connection.health.check'' ''garage_connection'' (Some (c_id item))
        (JObj [(''s3Ok'', JBool s3Ok), (''adminOk'', jopt JBool adminOk), (''result'', JStr (health_label s3Ok adminOk)),
               (''error'', jstr_opt error)]) ipAddress)))
     (ok \<lparr>he_id = c_id item, he_s3Ok = s3Ok, he_adminOk = adminOk, he_error = error\<rparr>)))))))))"

section \<open>At most one default connection\<close>

definition conns_ok :: "app \<Rightarrow> bool" where
  "conns_ok s \<longleftrightarrow> inj (cuid s) \<and> (\<forall>c\<in>set (conns s). \<exists>n<cuid_n s. c_id c = cuid s n)
     \<and> distinct (map c_id (conns s)) \<and> distinct (map c_name (conns s)) \<and> tb_count c_isDefault (conns s) \<le> 1"

lemma conns_ok_frame:
  "conns_ok s \<Longrightarrow> conns t = conns s \<Longrightarrow> cuid t = cuid s \<Longrightarrow> cuid_n s \<le> cuid_n t \<Longrightarrow> conns_ok t"
  unfolding conns_ok_def by (metis order_less_le_trans)

lemma conns_ok_audit [intro]: "conns_ok s \<Longrightarrow> conns_ok (audit_record n ac a et ei m ip s)"
  by (erule conns_ok_frame) simp_all

lemma tb_count_zero: "tb_count P rs = 0 \<longleftrightarrow> (\<forall>r\<in>set rs. \<not> P r)"
  by (simp add: tb_count_def filter_empty_conv)

lemma tb_count_append [simp]: "tb_count P (xs @ ys) = tb_count P xs + tb_count P ys"
  by (simp add: tb_count_def)

lemma tb_count_clear:
  "tb_count c_isDefault (tb_update (\<lambda>c. c_isDefault c \<and> P c) (\<lambda>c. c\<lparr>c_isDefault := False, c_updatedAt := n\<rparr>) rs)
   = tb_count (\<lambda>c. c_isDefault c \<and> \<not> P c) rs"
  by (induction rs) (auto simp: tb_count_def tb_update_def)

lemma tb_count_mono: "(\<And>r. r \<in> set rs \<Longrightarrow> P r \<Longrightarrow> Q r) \<Longrightarrow> tb_count P rs \<le> tb_count Q rs"
  by (induction rs) (auto simp: tb_count_def)

lemma tb_count_key: "distinct (map g rs) \<Longrightarrow> tb_count (\<lambda>r. g r = k) rs \<le> 1"
proof (induction rs)
  case (Cons r rs)
  show ?case
  proof (cases "g r = k")
    case True
    then have "\<forall>q\<in>set rs. g q \<noteq> k" using Cons.prems by (auto simp: image_iff)
    then have "tb_count (\<lambda>r. g r = k) rs = 0" by (simp add: tb_count_zero)
    then show ?thesis by (simp add: tb_count_def)
  qed (use Cons in \<open>simp add: tb_count_def\<close>)
qed (simp add: tb_count_def)

lemma tb_update_keeps:
  "(\<And>r. g (f r) = g r) \<Longrightarrow> map g (tb_update P f rs) = map g rs"
  by (rule tbl_simps) simp

lemma clear_default_map [simp]:
  "map c_id (conns (clear_default n P s)) = map c_id (conns s)" "map c_name (conns (clear_default n P s)) = map c_name (conns s)"
  "cuid (clear_default n P s) = cuid s" "cuid_n (clear_default n P s) = cuid_n s" "cfg (clear_default n P s) = cfg s"
  by (simp_all add: clear_default_def tb_update_keeps)

lemma ids_fresh:
  "(\<forall>c\<in>set cs. \<exists>n<k. c_id c = f n) \<longleftrightarrow> set (map c_id cs) \<subseteq> f ` {..<k}"
  by auto

lemma conns_ok_clear: "conns_ok s \<Longrightarrow> conns_ok (clear_default n P s)"
proof -
  assume ok: "conns_ok s"
  have "tb_count c_isDefault (conns (clear_default n P s)) \<le> tb_count c_isDefault (conns s)"
    unfolding clear_default_def by (simp add: tb_count_clear) (rule tb_count_mono, simp)
  then show ?thesis using ok unfolding conns_ok_def ids_fresh by simp
qed

lemma clear_default_none: "tb_count c_isDefault (conns (clear_default n (\<lambda>_. True) s)) = 0"
  by (auto simp: clear_default_def tb_count_zero tb_update_def)

lemma insert_conn_ok:
  assumes "conns_ok s" and "c_id row = new_id s" and "c_isDefault row \<Longrightarrow> tb_count c_isDefault (conns s) = 0"
  shows "conns_ok (snd (insert_conn row s))"
proof (cases "\<exists>c\<in>set (conns s). c_name c = c_name row")
  case False
  have "new_id s \<notin> c_id ` set (conns s)"
    using assms(1) by (force simp: conns_ok_def new_id_def dest: injD)
  moreover have "c_name row \<notin> c_name ` set (conns s)" using False by auto
  moreover have "\<exists>n<Suc (cuid_n s). c_id c = cuid s n" if "c \<in> set (conns s)" for c
    using assms(1) that unfolding conns_ok_def by (metis less_SucI)
  moreover have "c_id row = cuid s (cuid_n s)" using assms(2) by (simp add: new_id_def)
  moreover have "tb_count c_isDefault (conns s @ [row]) \<le> 1"
    using assms(1,3) by (cases "c_isDefault row") (auto simp: conns_ok_def tb_count_def)
  ultimately show ?thesis
    using assms False by (auto simp: insert_conn_def conns_ok_def bump_id_def)
qed (use assms(1) in \<open>simp add: insert_conn_def\<close>)

lemma create_connection_ok: "preserves conns_ok (create_connection cr key rnd now actor i ip)"
proof (rule preservesI)
  fix s assume ok: "conns_ok s"
  define t where "t = (if uc_isDefault i = Some True then clear_default now (\<lambda>_. True) s else s)"
  have t: "conns_ok t" "uc_isDefault i = Some True \<Longrightarrow> tb_count c_isDefault (conns t) = 0"
    using ok by (simp_all add: t_def conns_ok_clear clear_default_none)
  let ?row = "created_conn cr key rnd now i (new_id t)"
  have "c_isDefault ?row \<Longrightarrow> uc_isDefault i = Some True" "c_id ?row = new_id t"
    by (cases "uc_isDefault i"; simp add: created_conn_def)+
  then have ins: "conns_ok (snd (insert_conn ?row t))" using t by (intro insert_conn_ok) auto
  then show "conns_ok (snd (create_connection cr key rnd now actor i ip s))"
    by (auto simp: create_connection_def eff_simps t_def split: prod.splits sum.splits if_splits)
qed

lemma update_conn_ok:
  assumes ok: "conns_ok s" and i: "\<And>c. c_id (f c) = c_id c"
    and d: "\<And>c. c_isDefault (f c) \<longrightarrow> c_isDefault c \<or> tb_count (\<lambda>c. c_isDefault c \<and> c_id c \<noteq> k) (conns s) = 0"
  shows "conns_ok (snd (update_conn k f s))"
proof (cases "find_conn k s")
  case (Some c)
  have c: "c \<in> set (conns s)" "c_id c = k" using find_SomeD [OF Some [unfolded find_conn_def]] by auto
  have uniq: "x = c" if "x \<in> set (conns s)" "c_id x = k" for x
    using ok c that by (auto simp: conns_ok_def distinct_map dest: inj_onD)
  show ?thesis
  proof (cases "\<exists>d\<in>set (conns s). c_id d \<noteq> k \<and> c_name d = c_name (f c)")
    case False
    let ?t = "s\<lparr>conns := tb_update (\<lambda>c. c_id c = k) f (conns s)\<rparr>"
    have ids: "map c_id (conns ?t) = map c_id (conns s)" using i by (simp add: tb_update_keeps)
    have "distinct (map c_name (conns ?t))"
      using ok False uniq by (auto simp: conns_ok_def tb_update_def distinct_map inj_on_def comp_def)
    moreover have "tb_count c_isDefault (conns ?t) \<le> 1"
    proof (cases "c_isDefault (f c) \<and> \<not> c_isDefault c")
      case True
      then have z: "tb_count (\<lambda>c. c_isDefault c \<and> c_id c \<noteq> k) (conns s) = 0" using d by blast
      have "tb_count c_isDefault (conns ?t) \<le> tb_count (\<lambda>c. c_id c = k) (conns ?t)"
        using z i by (intro tb_count_mono) (auto simp: tb_count_zero tb_update_def)
      also have "\<dots> \<le> 1" using ok ids by (intro tb_count_key) (simp only: conns_ok_def)
      finally show ?thesis .
    next
      case False
      have "tb_count c_isDefault (tb_update (\<lambda>c. c_id c = k) f rs) \<le> tb_count c_isDefault rs"
        if "set rs \<subseteq> set (conns s)" for rs
        using that False uniq by (induction rs) (auto simp: tb_count_def tb_update_def)
      from this [of "conns s"] show ?thesis using ok by (simp add: conns_ok_def)
    qed
    ultimately show ?thesis
      using ok ids False unfolding update_conn_def Some conns_ok_def ids_fresh by (simp del: set_map)
  qed (use ok in \<open>simp add: update_conn_def Some\<close>)
qed (use ok in \<open>simp add: update_conn_def\<close>)

lemma update_connection_ok: "preserves conns_ok (update_connection cr key rnd now actor k i ip)"
proof (rule preservesI)
  fix s assume ok: "conns_ok s"
  define t where "t = (if pc_isDefault i = Some True then clear_default now (\<lambda>c. c_id c \<noteq> k) s else s)"
  have t: "conns_ok t" using ok by (simp add: t_def conns_ok_clear)
  have z: "tb_count (\<lambda>c. c_isDefault c \<and> c_id c \<noteq> k) (conns t) = 0" if "pc_isDefault i = Some True"
    using that by (auto simp: t_def clear_default_def tb_count_zero tb_update_def)
  have upd: "conns_ok (snd (update_conn k (patched_conn cr key rnd now i) t))"
  proof (rule update_conn_ok [OF t])
    fix c
    show "c_id (patched_conn cr key rnd now i c) = c_id c" by (simp add: patched_conn_def)
    show "c_isDefault (patched_conn cr key rnd now i c) \<longrightarrow> c_isDefault c
        \<or> tb_count (\<lambda>c. c_isDefault c \<and> c_id c \<noteq> k) (conns t) = 0"
      using z by (cases "pc_isDefault i") (auto simp: patched_conn_def)
  qed
  then show "conns_ok (snd (update_connection cr key rnd now actor k i ip s))"
    using ok by (auto simp: update_connection_def eff_simps t_def split: prod.splits sum.splits if_splits)
qed

lemma ensureEnv_ok:
  assumes ok: "conns_ok s" and none: "find c_isDefault (conns s) = None"
  shows "conns_ok (snd (ensureEnvFallbackConnection cr key rnd now s))"
proof -
  have z: "tb_count c_isDefault (conns s) = 0" using none by (simp add: tb_count_zero find_None_iff)
  have upd: "conns_ok (s\<lparr>conns := tb_update (\<lambda>c. c_id c = k) (\<lambda>c. c\<lparr>c_isDefault := True, c_updatedAt := now\<rparr>) (conns s)\<rparr>)"
    (is "conns_ok ?t") for k
  proof -
    have ids: "map c_id (conns ?t) = map c_id (conns s)" "map c_name (conns ?t) = map c_name (conns s)"
      by (simp_all add: tb_update_keeps)
    have "tb_count c_isDefault (conns ?t) \<le> tb_count (\<lambda>c. c_id c = k) (conns ?t)"
      using z by (intro tb_count_mono) (auto simp: tb_count_zero tb_update_def)
    also have "\<dots> \<le> 1" using ok ids by (intro tb_count_key) (simp only: conns_ok_def)
    finally show ?thesis using ok ids unfolding conns_ok_def ids_fresh by simp
  qed
  have ins: "conns_ok (snd (insert_conn (env_conn cr key rnd now c (new_id (clear_default now (\<lambda>_. True) s)))
      (clear_default now (\<lambda>_. True) s)))" for c
    using ok by (intro insert_conn_ok conns_ok_clear clear_default_none) (simp_all add: env_conn_def)
  show ?thesis
    using ok upd ins [of "cfg s"]
    by (cases "insert_conn (env_conn cr key rnd now (cfg s) (new_id (clear_default now (\<lambda>_. True) s))) (clear_default now (\<lambda>_. True) s)")
       (auto simp: ensureEnvFallbackConnection_def eff_simps split: option.splits sum.splits)
qed

lemma getDefault_ok: "preserves conns_ok (getDefaultConnectionWithSecrets cr key rnd now)"
proof (rule preservesI)
  fix s assume ok: "conns_ok s"
  show "conns_ok (snd (getDefaultConnectionWithSecrets cr key rnd now s))"
    using ok ensureEnv_ok [OF ok, of cr key rnd now]
    by (auto simp: getDefaultConnectionWithSecrets_def eff_simps split: option.splits prod.splits sum.splits)
qed

lemma healthCheck_ok: "preserves (\<lambda>sw. conns_ok (fst sw)) (healthCheck cr key client fetch now actor k ip)"
proof -
  have upd: "preserves conns_ok (update_conn i (\<lambda>c. c\<lparr>c_healthStatus := h, c_updatedAt := now\<rparr>))" for i h
    by (intro preservesI update_conn_ok) simp_all
  have aud: "preserves conns_ok (modify (audit_record n ac a et ei m ipa))" for n ac a et ei m ipa
    by (intro preserves_modify conns_ok_audit)
  show ?thesis
    unfolding healthCheck_def split_def
    by (intro preserves_intros upd aud)
qed

text \<open>
  C17. However connections are created, changed, looked up and probed, there is never more than one
  default connection, and names stay unique: each operation keeps this, whether it returns or throws
  half-way.
\<close>

theorem default_connection_unique:
  assumes "conns_ok s"
  shows "conns_ok (snd (create_connection cr key rnd now actor i ip s))
    \<and> conns_ok (snd (update_connection cr key rnd now actor k p ip s))
    \<and> conns_ok (snd (getDefaultConnectionWithSecrets cr key rnd now s))
    \<and> conns_ok (fst (snd (healthCheck cr key client fetch now actor k ip (s, w))))"
  using assms create_connection_ok update_connection_ok getDefault_ok
    preservesD [OF healthCheck_ok, where s = "(s, w)"] by (simp add: preserves_def)

definition demo_connection :: upsert_connection where
  "demo_connection = \<lparr>uc_name = ''main'', uc_endpoint = ''http://g'', uc_region = ''garage'', uc_forcePathStyle = None,
     uc_accessKeyId = ''AK'', uc_secretAccessKey = ''SK'', uc_adminApiUrl = None, uc_adminToken = None,
     uc_isDefault = Some True\<rparr>"

definition demo_actor :: session_user where
  "demo_actor = \<lparr>su_id = ''u1'', su_username = ''root'', su_email = None, su_role = SUPER_ADMIN, su_displayName = None\<rparr>"

lemma init_conns_ok: "conns_ok init_app"
  by (simp add: conns_ok_def init_app_def unary_id_inj tb_count_def)

theorem default_connection_unique_witness:
  "conns_ok (snd (create_connection plain_crypto ''k'' (\<lambda>i. ''nonce'') 0 demo_actor demo_connection None init_app))"
  by (rule conjunct1 [OF default_connection_unique [OF init_conns_ok]])

lemma created_cases:
  assumes "create_connection cr key rnd now actor i ip s = (Inr pub, s')"
  defines "t \<equiv> (if uc_isDefault i = Some True then clear_default now (\<lambda>_. True) s else s)"
  shows "conns s' = conns t @ [created_conn cr key rnd now i (new_id t)]
    \<and> pub = conn_toPublic (created_conn cr key rnd now i (new_id t))"
proof -
  define row where "row = created_conn cr key rnd now i (new_id t)"
  have first: "seq_eff (if uc_isDefault i = Some True then modify (clear_default now (\<lambda>_. True)) else ok ()) m s = m t" for m :: "(app, 'a) eff"
    by (simp add: t_def seq_eff_apply modify_apply ok_apply)
  then obtain x u where ins: "insert_conn row t = (Inr x, u)" and fin: "conns s' = conns u" "pub = conn_toPublic x"
    using assms(1) unfolding create_connection_def first row_def
    by (auto simp: bind_eff_Inr seq_eff_Inr modify_Inr ok_Inr)
  from ins show ?thesis
    unfolding fin row_def [symmetric] insert_conn_def by (auto simp: bump_id_def split: if_splits)
qed

text \<open>
  A connection created as the default is the one the services use from then on, with the same
  endpoint and, through encryption and decryption, the same credentials and admin token.
\<close>

theorem created_default_is_used:
  assumes "aead_ok cr" and "\<And>i. rnd i \<noteq> []" and "uc_isDefault i = Some True"
    and "uc_accessKeyId i \<noteq> []" and "uc_secretAccessKey i \<noteq> []" and "uc_adminToken i \<noteq> Some []"
    and created: "create_connection cr key rnd now actor i ip s = (Inr pub, s')"
  shows "getDefaultConnectionWithSecrets cr key rnd' now' s' =
    (Inr \<lparr>cs_id = cp_id pub, cs_name = uc_name i, cs_endpoint = uc_endpoint i, cs_region = uc_region i,
       cs_forcePathStyle = or_else (uc_forcePathStyle i) True, cs_accessKeyId = uc_accessKeyId i,
       cs_secretAccessKey = uc_secretAccessKey i, cs_adminApiUrl = uc_adminApiUrl i,
       cs_adminToken = uc_adminToken i\<rparr>, s')"
proof -
  let ?t = "clear_default now (\<lambda>_. True) s"
  let ?row = "created_conn cr key rnd now i (new_id ?t)"
  have s': "conns s' = conns ?t @ [?row]" and pub: "pub = conn_toPublic ?row"
    using created_cases [OF created] by (simp_all only: assms(3) if_True simp_thms)
  have "\<forall>c\<in>set (conns ?t). \<not> c_isDefault c" using clear_default_none [of now s] by (simp only: tb_count_zero)
  then have "find c_isDefault (conns ?t) = None" by (auto simp: find_None_iff)
  then have f: "find c_isDefault (conns s') = Some ?row"
    unfolding s' by (rule find_append_new) (simp add: created_conn_def assms(3))
  have dec: "decrypt cr key (encrypt cr key (rnd n) x) = Inr x" if "x \<noteq> []" for n x
    using that by (simp add: decrypt_encrypt [OF assms(1) assms(2)])
  have "encrypt cr key (rnd n) x \<noteq> []" for n x by (simp add: encrypt_def split_def)
  then show ?thesis
    using f assms(4-6) dec
    by (cases "uc_adminToken i") (simp_all add: getDefaultConnectionWithSecrets_def eff_simps with_secrets_def
        created_conn_def pub conn_toPublic_def encrypt_opt_def)
qed

theorem created_default_is_used_witness:
  "\<exists>pub s'. create_connection plain_crypto ''k'' (\<lambda>i. ''nonce'') 0 demo_actor demo_connection None init_app = (Inr pub, s')
     \<and> map_sum id cs_secretAccessKey (fst (getDefaultConnectionWithSecrets plain_crypto ''k'' (\<lambda>i. []) 1 s')) = Inr ''SK''"
proof -
  have "\<exists>pub s'. create_connection plain_crypto ''k'' (\<lambda>i. ''nonce'') 0 demo_actor demo_connection None init_app = (Inr pub, s')"
    by (simp add: create_connection_def eff_simps demo_connection_def insert_conn_def clear_default_def init_app_def tb_update_def)
  then obtain pub s' where c: "create_connection plain_crypto ''k'' (\<lambda>i. ''nonce'') 0 demo_actor demo_connection None init_app = (Inr pub, s')"
    by blast
  from created_default_is_used [OF plain_crypto_ok _ _ _ _ _ c, of "\<lambda>i. []" 1] c show ?thesis
    by (simp add: demo_connection_def)
qed

text \<open>
  Creating a default connection under a name that is taken fails, but the flag of the previous
  default has already been cleared by then: afterwards no stored connection is the default one.
\<close>

theorem conflicting_create_drops_default:
  assumes "uc_isDefault i = Some True" and "c \<in> set (conns s)" and "c_name c = uc_name i"
  shows "\<exists>s'. create_connection cr key rnd now actor i ip s = (Inl P2002, s')
    \<and> find c_isDefault (conns s') = None \<and> length (conns s') = length (conns s)"
proof -
  let ?t = "clear_default now (\<lambda>_. True) s"
  have "c_name c \<in> set (map c_name (conns ?t))" using assms(2) by (simp only: clear_default_map) simp
  then have "\<exists>d\<in>set (conns ?t). c_name d = uc_name i" unfolding assms(3) by (metis imageE list.set_map)
  then have "insert_conn (created_conn cr key rnd now i (new_id ?t)) ?t = (Inl P2002, ?t)"
    by (simp add: insert_conn_def created_conn_def)
  moreover have "find c_isDefault (conns ?t) = None"
    using clear_default_none [of now s] by (simp add: tb_count_zero find_None_iff)
  moreover have "length (conns ?t) = length (conns s)" by (simp add: clear_default_def tbl_simps)
  ultimately show ?thesis using assms(1) by (simp add: create_connection_def eff_simps)
qed

theorem conflicting_create_drops_default_witness:
  "\<exists>s'. create_connection plain_crypto ''k'' (\<lambda>i. ''nonce'') 5 demo_actor demo_connection None
      (init_app\<lparr>conns := [created_conn plain_crypto ''k'' (\<lambda>i. ''nonce'') 0 demo_connection ''c1'']\<rparr>) = (Inl P2002, s')
    \<and> find c_isDefault (conns s') = None"
  using conflicting_create_drops_default [of demo_connection "created_conn plain_crypto ''k'' (\<lambda>i. ''nonce'') 0 demo_connection ''c1''"
      "init_app\<lparr>conns := [created_conn plain_crypto ''k'' (\<lambda>i. ''nonce'') 0 demo_connection ''c1'']\<rparr>" plain_crypto "''k''"
      "\<lambda>i. ''nonce''" 5 demo_actor None]
  by (auto simp: demo_connection_def created_conn_def)

end
