(* ===== verification/Worker.thy ===== *)
theory Worker
  imports Connections Retention S3Files
begin

text \<open>
  \<open>apps/api/src/jobs/jobs.worker.service.ts\<close>: one tick of the worker. It claims a job, parses the
  payload, runs the executor of the job's type, and records how it ended. The state is the pair of the
  database and the outside world (the S3 service and the admin API). \<open>we_clock\<close> gives the instants the
  executor reads, in order of its call sites, \<open>we_end\<close> the one at which its end is recorded; \<open>we_meddle c n\<close> is what other requests do to the database
  before the \<open>n\<close>-th visit of the cancellation checkpoint \<open>c\<close>. Progress updates of a rename are not
  awaited by the code; the model lets them land before the rename returns, and drops their errors.
  Spans and log lines are left out.
\<close>

record 'w worker_env =
  we_clock :: "nat \<Rightarrow> int"
  we_end :: int
  we_meddle :: "string \<Rightarrow> nat \<Rightarrow> app \<Rightarrow> app"
  we_crypto :: crypto
  we_key :: string
  we_rnd :: "nat \<Rightarrow> string"
  we_client :: "s3_config \<Rightarrow> 'w s3_send"
  we_fetch :: "('w, garage_bucket_summary list) fetcher"
  we_fuel :: nat
  we_sched :: "nat list"
  we_fault :: fault
  we_zod_message :: "json \<Rightarrow> string"

section \<open>Payload schemas\<close>

text \<open>\<open>z.string()\<close>, \<open>z.string().min(1)\<close>, \<open>z.string().nullable()\<close>, \<open>z.string().optional()\<close>: the outer
  option is the failure of the parse.\<close>

fun z_string :: "json \<Rightarrow> string option" where
  "z_string (JStr s) = Some s"
| "z_string _ = None"

definition z_string1 :: "json \<Rightarrow> string option" where
  "z_string1 v = (case z_string v of None \<Rightarrow> None | Some s \<Rightarrow> if s = [] then None else Some s)"

fun z_nullable :: "json \<Rightarrow> string option option" where
  "z_nullable JNull = Some None"
| "z_nullable (JStr s) = Some (Some s)"
| "z_nullable _ = None"

fun z_optional :: "json \<Rightarrow> string option option" where
  "z_optional JUndef = Some None"
| "z_optional (JStr s) = Some (Some s)"
| "z_optional _ = None"

definition roleSchema :: "json \<Rightarrow> app_role option" where
  "roleSchema v = (case z_string v of None \<Rightarrow> None | Some s \<Rightarrow> find (\<lambda>r. role_str r = s) APP_ROLES)"

definition bind_opt :: "'a option \<Rightarrow> ('a \<Rightarrow> 'b option) \<Rightarrow> 'b option" where
  "bind_opt v f = (case v of None \<Rightarrow> None | Some x \<Rightarrow> f x)"

lemma bind_opt_simps [simp]: "bind_opt None f = None" "bind_opt (Some x) f = f x"
  by (simp_all add: bind_opt_def)

definition actorSchema :: "json \<Rightarrow> session_user option" where
  "actorSchema v = (if \<not> is_object v then None else
     bind_opt (z_string (jget v ''id'')) (\<lambda>i.
     bind_opt (z_string (jget v ''username'')) (\<lambda>n.
     bind_opt (z_nullable (jget v ''email'')) (\<lambda>e.
     bind_opt (z_nullable (jget v ''displayName'')) (\<lambda>d.
     bind_opt (roleSchema (jget v ''role'')) (\<lambda>r.
       Some \<lparr>su_id = i, su_username = n, su_email = e, su_role = r, su_displayName = d\<rparr>))))))"

definition folderRenamePayloadSchema :: "json \<Rightarrow> folder_rename_payload option" where
  "folderRenamePayloadSchema v = (if \<not> is_object v then None else
     bind_opt (actorSchema (jget v ''actor'')) (\<lambda>a.
     bind_opt (z_string1 (jget v ''bucket'')) (\<lambda>b.
     bind_opt (z_string1 (jget v ''oldKey'')) (\<lambda>k.
     bind_opt (z_string1 (jget v ''newKey'')) (\<lambda>k'.
     bind_opt (z_optional (jget v ''ipAddress'')) (\<lambda>ip.
     bind_opt (z_optional (jget v ''correlationId'')) (\<lambda>c.
       Some \<lparr>fr_actor = a, fr_bucket = b, fr_oldKey = k, fr_newKey = k', fr_ipAddress = ip, fr_correlationId = c\<rparr>)))))))"

definition folderDeletePayloadSchema :: "json \<Rightarrow> folder_delete_payload option" where
  "folderDeletePayloadSchema v = (if \<not> is_object v then None else
     bind_opt (actorSchema (jget v ''actor'')) (\<lambda>a.
     bind_opt (z_string1 (jget v ''bucket'')) (\<lambda>b.
     bind_opt (z_string1 (jget v ''key'')) (\<lambda>k.
     bind_opt (z_optional (jget v ''ipAddress'')) (\<lambda>ip.
     bind_opt (z_optional (jget v ''correlationId'')) (\<lambda>c.
       Some \<lparr>fd_actor = a, fd_bucket = b, fd_key = k, fd_ipAddress = ip, fd_correlationId = c\<rparr>))))))"

fun z_reason :: "json \<Rightarrow> job_reason option" where
  "z_reason (JStr s) = (if s = ''manual'' then Some R_manual else if s = ''scheduled'' then Some R_scheduled else None)"
| "z_reason _ = None"

text \<open>\<open>.default("manual")\<close>.\<close>

definition z_reason_default :: "json \<Rightarrow> job_reason option" where
  "z_reason_default v = (if v = JUndef then Some R_manual else z_reason v)"

definition bucketSyncPayloadSchema :: "json \<Rightarrow> maintenance_payload option" where
  "bucketSyncPayloadSchema v = (if \<not> is_object v then None else
     bind_opt (actorSchema (jget v ''actor'')) (\<lambda>a.
     bind_opt (z_reason_default (jget v ''reason'')) (\<lambda>r.
     bind_opt (z_optional (jget v ''ipAddress'')) (\<lambda>ip.
     bind_opt (z_optional (jget v ''correlationId'')) (\<lambda>c.
       Some \<lparr>mp_actor = a, mp_reason = r, mp_ipAddress = ip, mp_correlationId = c\<rparr>)))))"

definition uploadCleanupPayloadSchema :: "json \<Rightarrow> maintenance_payload option" where
  "uploadCleanupPayloadSchema v = (if \<not> is_object v then None else
     bind_opt (actorSchema (jget v ''actor'')) (\<lambda>a.
     bind_opt (z_reason (jget v ''reason'')) (\<lambda>r.
     bind_opt (z_optional (jget v ''correlationId'')) (\<lambda>c.
       Some \<lparr>mp_actor = a, mp_reason = r, mp_ipAddress = None, mp_correlationId = c\<rparr>))))"

definition retentionCleanupPayloadSchema :: "json \<Rightarrow> maintenance_payload option" where
  "retentionCleanupPayloadSchema v = (if \<not> is_object v then None else
     bind_opt (actorSchema (jget v ''actor'')) (\<lambda>a.
     bind_opt (z_reason_default (jget v ''reason'')) (\<lambda>r.
     bind_opt (z_optional (jget v ''correlationId'')) (\<lambda>c.
       Some \<lparr>mp_actor = a, mp_reason = r, mp_ipAddress = None, mp_correlationId = c\<rparr>))))"

definition parse_payload :: "'w worker_env \<Rightarrow> (json \<Rightarrow> 'a option) \<Rightarrow> json \<Rightarrow> (app \<times> 'w, 'a) eff" where
  "parse_payload E schema v = need (schema v) (PlainError (we_zod_message E v))"

section \<open>Checkpoints and shared steps\<close>

definition record_event :: "int \<Rightarrow> string \<Rightarrow> job_event_input \<Rightarrow> (app \<times> 'w, unit) eff" where
  "record_event now jobId i = on_fst (modify (recordEvent now jobId i))"

definition ev_cancel_observed :: "string \<Rightarrow> job_event_input" where
  "ev_cancel_observed checkpoint = ev ''cancel_observed'' ''Cancel request observed at worker checkpoint.'' (Some WARN)
     (JObj [(''checkpoint'', JStr checkpoint), (''bestEffort'', JBool True)])"

definition throwIfCancelRequested :: "'w worker_env \<Rightarrow> int \<Rightarrow> nat \<Rightarrow> string \<Rightarrow> string \<Rightarrow> (app \<times> 'w, unit) eff" where
  "throwIfCancelRequested E now n jobId checkpoint =
     seq_eff (on_fst (modify (we_meddle E checkpoint n)))
     (bind_eff (reads (\<lambda>sw. isCancelRequested jobId (fst sw))) (\<lambda>requested.
        if requested then seq_eff (record_event now jobId (ev_cancel_observed checkpoint)) (throw JobCanceledError)
        else ok ()))"

definition default_connection :: "'w worker_env \<Rightarrow> int \<Rightarrow> (app \<times> 'w, connection_secrets) eff" where
  "default_connection E now = on_fst (getDefaultConnectionWithSecrets (we_crypto E) (we_key E) (we_rnd E) now)"

definition getS3Client :: "'w worker_env \<Rightarrow> int \<Rightarrow> (app \<times> 'w, 'w s3_send) eff" where
  "getS3Client E now = bind_eff (default_connection E now) (\<lambda>conn.
     ok (we_client E \<lparr>s3_endpoint = cs_endpoint conn, s3_region = cs_region conn,
       s3_forcePathStyle = cs_forcePathStyle conn, s3_accessKeyId = cs_accessKeyId conn,
       s3_secretAccessKey = cs_secretAccessKey conn\<rparr>))"

definition add_metric_eff :: "metric \<Rightarrow> (app \<times> 'w, unit) eff" where
  "add_metric_eff m = on_fst (modify (add_metric m))"

definition audit_eff ::
  "int \<Rightarrow> session_user \<Rightarrow> string \<Rightarrow> string \<Rightarrow> string option \<Rightarrow> json \<Rightarrow> string option \<Rightarrow> (app \<times> 'w, unit) eff" where
  "audit_eff now actor action entityType entityId metadata ip =
     on_fst (modify (audit_record now (Some actor) action entityType entityId metadata ip))"

definition jnat :: "nat \<Rightarrow> json" where "jnat n = JNum (of_nat n)"

section \<open>Folder rename\<close>

text \<open>When a progress report is also written to the timeline: \<open>(lastProcessed, lastAt)\<close> is the last one.\<close>

definition rename_emits :: "int \<Rightarrow> rename_progress \<Rightarrow> nat \<times> int \<Rightarrow> bool" where
  "rename_emits now p lst = (case lst of (lastProcessed, lastAt) \<Rightarrow>
     rg_processed p = rg_total p
     \<or> int (rg_processed p) - int lastProcessed \<ge> max 1 (ceil_div (max (int (rg_total p)) 1) 20)
     \<or> now - lastAt \<ge> 5000)"

definition rename_progress_json :: "rename_progress \<Rightarrow> json" where
  "rename_progress_json p = JObj [(''totalItems'', jnat (rg_total p)), (''processedItems'', jnat (rg_processed p)),
     (''metadata'', JObj [(''copied'', jnat (rg_copied p)), (''deleted'', jnat (rg_deleted p)),
        (''failed'', jnat (rg_failed p)), (''currentKey'', jstr_opt (rg_currentKey p))])]"

definition progress_message :: "bool \<Rightarrow> string \<Rightarrow> progress_options" where
  "progress_message emit m = \<lparr>po_emitEvent = emit, po_message = Some m, po_level = None\<rparr>"

fun rename_reports :: "(nat \<Rightarrow> int) \<Rightarrow> string \<Rightarrow> nat \<Rightarrow> nat \<times> int \<Rightarrow> rename_progress list \<Rightarrow> (app, unit) eff" where
  "rename_reports clock jobId k lst [] = ok ()"
| "rename_reports clock jobId k lst (p # ps) =
     (let now = clock k; emit = rename_emits now p lst in
      seq_eff (catch_eff (markProgress now jobId (rename_progress_json p)
                 (Some (progress_message emit ''Folder rename progress updated.''))) (\<lambda>_. ok ()))
        (rename_reports clock jobId (Suc k) (if emit then (rg_processed p, now) else lst) ps))"

definition item_error_json :: "rename_item_error \<Rightarrow> json" where
  "item_error_json e = JObj [(''sourceKey'', JStr (ri_sourceKey e)), (''destinationKey'', JStr (ri_destinationKey e)),
     (''stage'', JStr (case ri_stage e of Stage_copy \<Rightarrow> ''copy'' | Stage_delete \<Rightarrow> ''delete'')), (''message'', JStr (ri_message e))]"

definition rename_result_fields :: "rename_result \<Rightarrow> (string \<times> json) list" where
  "rename_result_fields r = [(''bucket'', JStr (rr_bucket r)), (''oldPrefixOrKey'', JStr (rr_oldPrefixOrKey r)),
     (''newPrefixOrKey'', JStr (rr_newPrefixOrKey r)), (''copied'', jnat (rr_copied r)), (''deleted'', jnat (rr_deleted r)),
     (''failed'', JArr (map item_error_json (rr_failed r)))]"

definition seconds_between :: "int \<Rightarrow> int \<Rightarrow> rat" where
  "seconds_between t0 t1 = of_int (t1 - t0) / 1000"

definition executeFolderRename :: "'w worker_env \<Rightarrow> job \<Rightarrow> string \<Rightarrow> (app \<times> 'w, json) eff" where
  "executeFolderRename E j correlationId =
     bind_eff (parse_payload E folderRenamePayloadSchema (j_payload j)) (\<lambda>payload.
     seq_eff (record_event (we_clock E 1) (j_id j) (ev ''folder_rename.started'' ''Folder rename started.'' None
        (JObj [(''bucket'', JStr (fr_bucket payload)), (''oldKey'', JStr (fr_oldKey payload)), (''newKey'', JStr (fr_newKey payload))])))
     (bind_eff (getS3Client E (we_clock E 2)) (\<lambda>s3.
     seq_eff (throwIfCancelRequested E (we_clock E 3) 0 (j_id j) ''before_rename_start'')
     (bind_eff (on_snd (renameFileOrFolder s3 (we_fuel E) (we_sched E) (fr_oldKey payload) (fr_newKey payload) (fr_bucket payload)))
        (\<lambda>(renameResult, reports).
     seq_eff (on_fst (rename_reports (\<lambda>k. we_clock E (9 + k)) (j_id j) 0 (0, 0) reports))
     (seq_eff (throwIfCancelRequested E (we_clock E 4) 0 (j_id j) ''after_rename_end'')
     (seq_eff (add_metric_eff (MS3Duration ''folder_rename''))
     (seq_eff (if rr_failed renameResult \<noteq> [] then add_metric_eff (MS3Failure ''folder_rename'') else ok ())
     (seq_eff (record_event (we_clock E 5) (j_id j) (ev ''folder_rename.completed_step'' ''Folder rename step completed.''
        (Some (if rr_failed renameResult \<noteq> [] then WARN else INFO))
        (JObj [(''copied'', jnat (rr_copied renameResult)), (''deleted'', jnat (rr_deleted renameResult)),
               (''failed'', jnat (length (rr_failed renameResult)))])))
     (seq_eff (audit_eff (we_clock E 6) (fr_actor payload) ''object.rename'' ''object'' (Some (fr_bucket payload @ [slash] @ fr_oldKey payload))
        (JObj [(''mode'', JStr ''job''), (''jobId'', JStr (j_id j)), (''correlationId'', JStr correlationId),
               (''result'', JObj (rename_result_fields renameResult))]) (fr_ipAddress payload))
     (ok (JObj (rename_result_fields renameResult @ [(''mode'', JStr ''job'')])))))))))))))"

section \<open>Folder delete\<close>

definition delete_result_fields :: "delete_result \<Rightarrow> (string \<times> json) list" where
  "delete_result_fields r = [(''bucket'', JStr (dr_bucket r)), (''deleted'', jnat (dr_deleted r)),
     (''failed'', JArr (map (\<lambda>(k, m). JObj [(''key'', JStr k), (''message'', JStr m)]) (dr_failed r)))]"

definition delete_counts_json :: "delete_result \<Rightarrow> json" where
  "delete_counts_json r = JObj [(''deleted'', jnat (dr_deleted r)), (''failed'', jnat (length (dr_failed r)))]"

definition executeFolderDelete :: "'w worker_env \<Rightarrow> job \<Rightarrow> string \<Rightarrow> (app \<times> 'w, json) eff" where
  "executeFolderDelete E j correlationId =
     bind_eff (parse_payload E folderDeletePayloadSchema (j_payload j)) (\<lambda>payload.
     seq_eff (record_event (we_clock E 1) (j_id j) (ev ''folder_delete.started'' ''Folder delete started.'' None
        (JObj [(''bucket'', JStr (fd_bucket payload)), (''key'', JStr (fd_key payload))])))
     (seq_eff (on_fst (markProgress (we_clock E 2) (j_id j) (JObj [(''metadata'', JObj [(''stage'', JStr ''deleting'')])])
        (Some (progress_message True ''Folder delete started.''))))
     (bind_eff (getS3Client E (we_clock E 3)) (\<lambda>s3.
     seq_eff (throwIfCancelRequested E (we_clock E 4) 0 (j_id j) ''before_delete_start'')
     (bind_eff (on_snd (deleteFileOrFolder s3 (we_fuel E) (fd_key payload) (fd_bucket payload))) (\<lambda>deleteResult.
     seq_eff (throwIfCancelRequested E (we_clock E 5) 0 (j_id j) ''after_delete_end'')
     (seq_eff (add_metric_eff (MS3Duration ''folder_delete''))
     (seq_eff (if dr_failed deleteResult \<noteq> [] then add_metric_eff (MS3Failure ''folder_delete'') else ok ())
     (seq_eff (on_fst (markProgress (we_clock E 6) (j_id j)
        (JObj [(''totalItems'', jnat (dr_deleted deleteResult + length (dr_failed deleteResult))),
               (''processedItems'', jnat (dr_deleted deleteResult + length (dr_failed deleteResult))),
               (''metadata'', delete_counts_json deleteResult)])
        (Some (progress_message True ''Folder delete step completed.''))))
     (seq_eff (record_event (we_clock E 7) (j_id j) (ev ''folder_delete.completed_step'' ''Folder delete step completed.''
        (Some (if dr_failed deleteResult \<noteq> [] then WARN else INFO)) (delete_counts_json deleteResult)))
     (seq_eff (audit_eff (we_clock E 8) (fd_actor payload) ''object.delete'' ''object'' (Some (fd_bucket payload @ [slash] @ fd_key payload))
        (JObj [(''mode'', JStr ''job''), (''jobId'', JStr (j_id j)), (''correlationId'', JStr correlationId),
               (''result'', JObj (delete_result_fields deleteResult))]) (fd_ipAddress payload))
     (ok (JObj (delete_result_fields deleteResult @ [(''mode'', JStr ''job'')]))))))))))))))"

section \<open>Bucket sync\<close>

definition preferredName :: "garage_bucket_summary \<Rightarrow> string" where
  "preferredName b = (case gb_globalAliases b of [] \<Rightarrow> gb_id b | a # _ \<Rightarrow> a)"

definition upsert_bucket :: "int \<Rightarrow> string \<Rightarrow> string \<Rightarrow> string \<Rightarrow> app \<Rightarrow> app" where
  "upsert_bucket now name garageId connId s =
     (if \<exists>b\<in>set (buckets s). b_name b = name
      then s\<lparr>buckets := tb_update (\<lambda>b. b_name b = name) (\<lambda>b. b\<lparr>b_garageBucketId := Some garageId, b_connectionId := Some connId\<rparr>) (buckets s)\<rparr>
      else bump_id (s\<lparr>buckets := buckets s @ [\<lparr>b_id = new_id s, b_name = name, b_garageBucketId = Some garageId,
             b_connectionId = Some connId, b_createdAt = now\<rparr>]\<rparr>))"

definition sync_emits :: "int \<Rightarrow> nat \<Rightarrow> nat \<Rightarrow> int \<Rightarrow> bool" where
  "sync_emits now processed tot lastAt \<longleftrightarrow> processed = tot
     \<or> int processed mod max 1 (ceil_div (max (int tot) 1) 10) = 0 \<or> now - lastAt \<ge> 5000"

fun sync_loop ::
  "'w worker_env \<Rightarrow> string \<Rightarrow> string \<Rightarrow> nat \<Rightarrow> nat \<Rightarrow> int \<Rightarrow> garage_bucket_summary list \<Rightarrow> (app \<times> 'w, unit) eff" where
  "sync_loop E jobId connId tot processed lastAt [] = ok ()"
| "sync_loop E jobId connId tot processed lastAt (b # bs) =
     (let now = we_clock E (10 + processed); emit = sync_emits now (Suc processed) tot lastAt in
      seq_eff (throwIfCancelRequested E now processed jobId ''bucket_sync_loop'')
      (seq_eff (on_fst (modify (upsert_bucket now (preferredName b) (gb_id b) connId)))
      (seq_eff (on_fst (markProgress now jobId
         (JObj [(''totalItems'', jnat tot), (''processedItems'', jnat (Suc processed)),
                (''metadata'', JObj [(''lastBucket'', JStr (preferredName b))])])
         (Some (progress_message emit ''Bucket sync progress updated.''))))
      (sync_loop E jobId connId tot (Suc processed) (if emit then now else lastAt) bs))))"

definition executeBucketSync :: "'w worker_env \<Rightarrow> job \<Rightarrow> string \<Rightarrow> (app \<times> 'w, json) eff" where
  "executeBucketSync E j correlationId =
     bind_eff (parse_payload E bucketSyncPayloadSchema (j_payload j)) (\<lambda>payload.
     seq_eff (record_event (we_clock E 1) (j_id j) (ev ''bucket_sync.started'' ''Bucket sync started.'' None
        (JObj [(''actorUserId'', JStr (su_id (mp_actor payload))), (''reason'', JStr (reason_str (mp_reason payload)))])))
     (bind_eff (default_connection E (we_clock E 2)) (\<lambda>conn.
     seq_eff (require (truthy (cs_adminApiUrl conn) \<and> truthy (cs_adminToken conn))
        (PlainError ''Default connection does not include Admin API credentials''))
     (bind_eff (on_snd (listBuckets (we_fetch E) (new_admin_client (or_else (cs_adminApiUrl conn) []) (or_else (cs_adminToken conn) [])
        [(''x-request-id'', correlationId)]))) (\<lambda>answer.
     bind_eff (need answer (PlainError ''remoteBuckets is not iterable'')) (\<lambda>remoteBuckets.
     seq_eff (sync_loop E (j_id j) (cs_id conn) (length remoteBuckets) 0 0 remoteBuckets)
     (seq_eff (record_event (we_clock E 3) (j_id j) (ev ''bucket_sync.completed_step'' ''Bucket sync step completed.'' None
        (JObj [(''synced'', jnat (length remoteBuckets)), (''connectionId'', JStr (cs_id conn)),
               (''reason'', JStr (reason_str (mp_reason payload)))])))
     (seq_eff (audit_eff (we_clock E 4) (mp_actor payload) ''bucket.sync'' ''bucket'' None
        (JObj [(''mode'', JStr ''job''), (''jobId'', JStr (j_id j)), (''correlationId'', JStr correlationId),
               (''synced'', jnat (length remoteBuckets)), (''connectionId'', JStr (cs_id conn)),
               (''reason'', JStr (reason_str (mp_reason payload)))]) (mp_ipAddress payload))
     (ok (JObj [(''synced'', jnat (length remoteBuckets)), (''connectionId'', JStr (cs_id conn)),
                (''reason'', JStr (reason_str (mp_reason payload))), (''mode'', JStr ''job'')]))))))))))"

section \<open>Upload clean-up\<close>

definition expired_uploads :: "int \<Rightarrow> int \<Rightarrow> app \<Rightarrow> upload_row list" where
  "expired_uploads now batch s = take_int batch
     (filter (\<lambda>u. up_status u \<in> {UP_INITIATED, UP_IN_PROGRESS} \<and> up_expiresAt u < now) (uploads s))"

definition expire_upload :: "int \<Rightarrow> string \<Rightarrow> (app, unit) eff" where
  "expire_upload now i = (\<lambda>s. if \<exists>u\<in>set (uploads s). up_id u = i
     then (Inr (), s\<lparr>uploads := tb_update (\<lambda>u. up_id u = i) (\<lambda>u. u\<lparr>up_status := UP_FAILED,
        up_error := Some ''Upload session expired'', up_lastActivityAt := now, up_updatedAt := now\<rparr>) (uploads s)\<rparr>)
     else (Inl P2025, s))"

definition bucket_of :: "app \<Rightarrow> upload_row \<Rightarrow> bucket_row option" where
  "bucket_of s u = find (\<lambda>b. b_id b = up_bucketId u) (buckets s)"

definition cleanup_session ::
  "'w worker_env \<Rightarrow> string \<Rightarrow> maintenance_payload \<Rightarrow> nat \<Rightarrow> nat \<Rightarrow> upload_row \<times> bucket_row option \<Rightarrow> (app \<times> 'w, unit) eff" where
  "cleanup_session E jobId payload tot processed ub = (case ub of (u, bucket) \<Rightarrow>
     let now = we_clock E (10 + processed) in
     seq_eff (throwIfCancelRequested E now processed jobId ''upload_cleanup_loop'')
     (seq_eff (on_fst (markProgress now jobId
        (JObj [(''totalItems'', jnat tot), (''processedItems'', jnat processed),
               (''metadata'', JObj [(''currentUploadSessionId'', JStr (up_id u))])])
        (Some (progress_message (processed = 0 \<or> int processed = int tot - 1 \<or> processed mod 10 = 0)
           ''Upload cleanup progress updated.''))))
     (seq_eff (on_fst (expire_upload now (up_id u)))
     (seq_eff (record_event now jobId (ev ''upload_cleanup.item_processed'' ''Expired upload session marked as failed.'' None
        (JObj [(''uploadSessionId'', JStr (up_id u)), (''bucket'', jstr_opt (map_option b_name bucket)),
               (''objectKey'', JStr (up_objectKey u))])))
     (case bucket of None \<Rightarrow> ok ()
      | Some b \<Rightarrow> seq_eff (add_metric_eff (MS3Duration ''upload_cleanup''))
          (audit_eff now (mp_actor payload) ''object.upload.cleanup'' ''upload_session'' (Some (up_id u))
             (JObj [(''bucket'', JStr (b_name b)), (''objectKey'', JStr (up_objectKey u)),
                    (''reason'', JStr (reason_str (mp_reason payload)))]) None))))))"

definition ev_cleanup_failed :: "upload_row \<Rightarrow> http_error \<Rightarrow> job_event_input" where
  "ev_cleanup_failed u error = ev ''upload_cleanup.item_failed'' ''Upload cleanup failed for session.'' (Some WARN)
     (JObj [(''uploadSessionId'', JStr (up_id u)), (''error'', JStr (err_message error))])"

text \<open>Every error of a session is caught, a cancellation included.\<close>

fun cleanup_loop ::
  "'w worker_env \<Rightarrow> string \<Rightarrow> maintenance_payload \<Rightarrow> nat \<Rightarrow> nat \<Rightarrow> (upload_row \<times> bucket_row option) list \<Rightarrow> (app \<times> 'w, unit) eff" where
  "cleanup_loop E jobId payload tot processed [] = ok ()"
| "cleanup_loop E jobId payload tot processed (ub # rest) =
     seq_eff (catch_eff (cleanup_session E jobId payload tot processed ub)
        (\<lambda>error. seq_eff (add_metric_eff (MS3Failure ''upload_cleanup''))
           (record_event (we_clock E (10 + processed)) jobId (ev_cleanup_failed (fst ub) error))))
     (cleanup_loop E jobId payload tot (Suc processed) rest)"

definition executeUploadCleanup :: "'w worker_env \<Rightarrow> job \<Rightarrow> (app \<times> 'w, json) eff" where
  "executeUploadCleanup E j =
     bind_eff (parse_payload E uploadCleanupPayloadSchema (j_payload j)) (\<lambda>payload.
     bind_eff (reads (\<lambda>sw. UPLOAD_CLEANUP_BATCH_SIZE (cfg (fst sw)))) (\<lambda>batch.
     seq_eff (record_event (we_clock E 1) (j_id j) (ev ''upload_cleanup.started'' ''Upload cleanup started.'' None
        (JObj [(''reason'', JStr (reason_str (mp_reason payload))), (''batchSize'', jint batch)])))
     (bind_eff (reads (\<lambda>sw. map (\<lambda>u. (u, bucket_of (fst sw) u)) (expired_uploads (we_clock E 2) batch (fst sw)))) (\<lambda>expired.
     seq_eff (cleanup_loop E (j_id j) payload (length expired) 0 expired)
     (seq_eff (record_event (we_clock E 3) (j_id j) (ev ''upload_cleanup.completed_step'' ''Upload cleanup completed.'' None
        (JObj [(''cleaned'', jnat (length expired)), (''totalExpired'', jnat (length expired))])))
     (ok (JObj [(''cleaned'', jnat (length expired)), (''totalExpired'', jnat (length expired))])))))))"

section \<open>Retention clean-up\<close>

definition archived_json :: "retention_archived \<Rightarrow> json" where
  "archived_json a = counts_json (archived_counts a)"

definition deleted_json :: "retention_deleted \<Rightarrow> json" where
  "deleted_json d = counts_json (deleted_counts d)"

definition thresholds_json :: "retention_thresholds \<Rightarrow> json" where
  "thresholds_json th = JObj [(''jobEventsBefore'', jint (th_jobEventsBefore th)), (''failedJobsBefore'', jint (th_failedJobsBefore th)),
     (''terminalJobsBefore'', jint (th_terminalJobsBefore th)), (''auditLogsBefore'', jint (th_auditLogsBefore th)),
     (''securityAuditBefore'', jint (th_securityAuditBefore th)), (''uploadSessionsBefore'', jint (th_uploadSessionsBefore th)),
     (''archiveJobEventsBefore'', jint (th_archiveJobEventsBefore th)), (''archiveAuditLogsBefore'', jint (th_archiveAuditLogsBefore th)),
     (''archiveSecurityAuditBefore'', jint (th_archiveSecurityAuditBefore th))]"

definition policy_json :: "retention_policy \<Rightarrow> json" where
  "policy_json p = JObj [(''jobEventsDays'', jint (ret_jobEventsDays p)), (''failedJobDays'', jint (ret_failedJobDays p)),
     (''terminalJobDays'', jint (ret_terminalJobDays p)), (''auditLogDays'', jint (ret_auditLogDays p)),
     (''securityAuditDays'', jint (ret_securityAuditDays p)), (''uploadSessionDays'', jint (ret_uploadSessionDays p)),
     (''archiveEnabled'', JBool (ret_archiveEnabled p)), (''archiveBatchSize'', jint (ret_archiveBatchSize p)),
     (''archiveAuditLogDays'', jint (ret_archiveAuditLogDays p)), (''archiveSecurityAuditDays'', jint (ret_archiveSecurityAuditDays p)),
     (''archiveJobEventDays'', jint (ret_archiveJobEventDays p))]"

definition summary_json :: "retention_summary \<Rightarrow> json" where
  "summary_json sm = JObj [(''policy'', policy_json (rs_policy sm)), (''mode'', JStr (mode_name (rs_mode sm))),
     (''thresholds'', thresholds_json (rs_thresholds sm)), (''archived'', archived_json (rs_archived sm)),
     (''deleted'', deleted_json (rs_deleted sm)), (''archivePurged'', counts_json (purged_counts (rs_archivePurged sm)))]"

definition executeRetentionCleanup :: "'w worker_env \<Rightarrow> job \<Rightarrow> string \<Rightarrow> (app \<times> 'w, json) eff" where
  "executeRetentionCleanup E j correlationId =
     bind_eff (parse_payload E retentionCleanupPayloadSchema (j_payload j)) (\<lambda>payload.
     seq_eff (record_event (we_clock E 1) (j_id j) (ev ''retention_cleanup.started'' ''Retention cleanup started.'' None
        (JObj [(''reason'', JStr (reason_str (mp_reason payload)))])))
     (seq_eff (throwIfCancelRequested E (we_clock E 2) 0 (j_id j) ''before_retention_cleanup'')
     (bind_eff (on_fst (runCleanup (we_fault E) (we_clock E 3) (we_clock E 4) (Some (mp_reason payload)) (Some (j_id j)))) (\<lambda>summary.
     seq_eff (throwIfCancelRequested E (we_clock E 5) 0 (j_id j) ''after_retention_cleanup'')
     (seq_eff (on_fst (markProgress (we_clock E 6) (j_id j)
        (JObj [(''metadata'', JObj [(''mode'', JStr (mode_name (rs_mode summary))), (''archived'', archived_json (rs_archived summary)),
           (''deleted'', deleted_json (rs_deleted summary)), (''thresholds'', thresholds_json (rs_thresholds summary))])])
        (Some (progress_message True ''Retention cleanup summary recorded.''))))
     (seq_eff (record_event (we_clock E 7) (j_id j) (ev ''retention_cleanup.completed_step'' ''Retention cleanup completed.'' None
        (JObj [(''reason'', JStr (reason_str (mp_reason payload))), (''mode'', JStr (mode_name (rs_mode summary))),
               (''archived'', archived_json (rs_archived summary)), (''deleted'', deleted_json (rs_deleted summary))])))
     (seq_eff (audit_eff (we_clock E 8) (mp_actor payload) ''maintenance.retention.cleanup'' ''maintenance'' (Some (j_id j))
        (JObj [(''mode'', JStr ''job''), (''jobId'', JStr (j_id j)), (''correlationId'', JStr correlationId),
               (''reason'', JStr (reason_str (mp_reason payload))), (''retentionMode'', JStr (mode_name (rs_mode summary))),
               (''archived'', archived_json (rs_archived summary)), (''deleted'', deleted_json (rs_deleted summary))]) None)
     (ok (summary_json summary)))))))))"

section \<open>A tick\<close>

definition ev_cancel_before_start :: job_event_input where
  "ev_cancel_before_start = ev ''cancel_observed'' ''Cancel request observed before job execution started.'' (Some WARN)
     (JObj [(''checkpoint'', JStr ''before_start''), (''bestEffort'', JBool True)])"

definition ev_step_error :: "string \<Rightarrow> job_event_input" where
  "ev_step_error m = ev ''step_error'' ''Job step failed.'' (Some ERROR) (JObj [(''error'', JStr m)])"

definition run_executor :: "'w worker_env \<Rightarrow> job \<Rightarrow> string \<Rightarrow> (app \<times> 'w, json) eff" where
  "run_executor E j correlationId = (case j_type j of
     FOLDER_RENAME \<Rightarrow> executeFolderRename E j correlationId
   | FOLDER_DELETE \<Rightarrow> executeFolderDelete E j correlationId
   | BUCKET_SYNC \<Rightarrow> executeBucketSync E j correlationId
   | UPLOAD_CLEANUP \<Rightarrow> executeUploadCleanup E j
   | RETENTION_CLEANUP \<Rightarrow> executeRetentionCleanup E j correlationId)"

definition on_job_error :: "int \<Rightarrow> job \<Rightarrow> http_error \<Rightarrow> (app \<times> 'w, unit) eff" where
  "on_job_error now j error =
     (if error = JobCanceledError then on_fst (modify (markCanceled now (j_id j)))
      else seq_eff (if j_type j = RETENTION_CLEANUP then add_metric_eff (MRetentionCleanup False) else ok ())
       (seq_eff (record_event now (j_id j) (ev_step_error (err_message error)))
       (on_fst (modify (markFailed now (j_id j) (err_message error))))))"

definition execute :: "'w worker_env \<Rightarrow> job \<Rightarrow> string \<Rightarrow> (app \<times> 'w, unit) eff" where
  "execute E j correlationId = catch_eff
     (bind_eff (reads (\<lambda>sw. isCancelRequested (j_id j) (fst sw))) (\<lambda>canceledBeforeStart.
        if canceledBeforeStart
        then seq_eff (record_event (we_clock E 0) (j_id j) ev_cancel_before_start)
               (on_fst (modify (markCanceled (we_end E) (j_id j))))
        else bind_eff (run_executor E j correlationId) (\<lambda>result.
               on_fst (modify (markCompleted (we_end E) (j_id j) (Some result))))))
     (on_job_error (we_end E) j)"

definition with_context :: "request_context \<Rightarrow> (app \<times> 'w, 'a) eff \<Rightarrow> (app \<times> 'w, 'a) eff" where
  "with_context c m = (\<lambda>(s, w). case m (s\<lparr>ctx := Some c\<rparr>, w) of (r, (s', w')) \<Rightarrow> (r, (s'\<lparr>ctx := ctx s\<rparr>, w')))"

definition job_correlation :: "job \<Rightarrow> string" where
  "job_correlation j = or_else (j_correlationId j) (''job-'' @ j_id j)"

definition job_context :: "job \<Rightarrow> request_context" where
  "job_context j = \<lparr>rc_requestId = job_correlation j, rc_correlationId = job_correlation j, rc_source = CtxWorker,
     rc_userId = j_createdByUserId j, rc_jobId = Some (j_id j)\<rparr>"

text \<open>\<open>running\<close> is the flag that keeps ticks from overlapping; an error of the tick is only logged.\<close>

definition tick :: "'w worker_env \<Rightarrow> bool \<Rightarrow> string \<Rightarrow> string \<Rightarrow> (app \<times> 'w, unit) eff" where
  "tick E running uuid workerId =
     (if running then ok () else catch_eff
       (bind_eff (\<lambda>(s, w). case claimNext (we_clock E 0) (we_clock E 0) uuid workerId (JOB_LOCK_TTL_SECONDS (cfg s)) s of
            (claimed, s') \<Rightarrow> (Inr claimed, (s', w))) (\<lambda>claimed.
          case claimed of None \<Rightarrow> ok ()
          | Some j \<Rightarrow> with_context (job_context j)
              (seq_eff (add_metric_eff (MJob (j_type j) JM_start None)) (execute E j (job_correlation j)))))
       (\<lambda>_. ok ()))"

end
