(* ===== verification/WorkerProps.thy ===== *)
theory WorkerProps
  imports Worker RetentionProps JobSpecs
begin

text \<open>
  What a run of the worker guarantees: payloads are read back as they were enqueued, a run never leaves
  its job running, a cancellation that is seen stops the work before the next S3 call, and the loop over
  expired uploads is the one place that passes over a cancellation.
\<close>

section \<open>Payloads\<close>

lemma payload_keys_plain:
  "\<not> sensitive_key ''actor''" "\<not> sensitive_key ''bucket''" "\<not> sensitive_key ''oldKey''" "\<not> sensitive_key ''newKey''"
  "\<not> sensitive_key ''key''" "\<not> sensitive_key ''ipAddress''" "\<not> sensitive_key ''correlationId''" "\<not> sensitive_key ''reason''"
  "\<not> sensitive_key ''id''" "\<not> sensitive_key ''username''" "\<not> sensitive_key ''email''" "\<not> sensitive_key ''displayName''"
  "\<not> sensitive_key ''role''"
  by code_simp+

lemma plain_opt_field: "\<not> sensitive_key k \<Longrightarrow> list_all (\<lambda>(k, v). \<not> sensitive_key k \<and> plain_json v) (opt_field k v)"
  by (cases v) (simp_all add: opt_field_def)

lemma plain_str_opt [simp]: "plain_json (jstr_opt v)"
  by (cases v) (simp_all add: jstr_opt_def jopt_def)

lemma actor_json_plain: "plain_json (actor_json a)"
  by (simp add: actor_json_def payload_keys_plain)

lemmas payload_plain = actor_json_plain payload_keys_plain plain_opt_field list_all_append

lemma rename_json_sanitized: "sanitizeJobMetadata (folder_rename_json p) = folder_rename_json p"
  by (rule sanitize_plain) (simp add: folder_rename_json_def payload_plain)

lemma delete_json_sanitized: "sanitizeJobMetadata (folder_delete_json p) = folder_delete_json p"
  by (rule sanitize_plain) (simp add: folder_delete_json_def payload_plain)

lemma maintenance_json_sanitized: "sanitizeJobMetadata (maintenance_json p) = maintenance_json p"
  by (rule sanitize_plain) (simp add: maintenance_json_def payload_plain)

lemma z_nullable_opt [simp]: "z_nullable (jstr_opt v) = Some v"
  by (cases v) (simp_all add: jstr_opt_def jopt_def)

lemma roleSchema_role [simp]: "roleSchema (JStr (role_str r)) = Some r"
  by (cases r) (simp_all add: roleSchema_def APP_ROLES_def)

lemma actorSchema_json [simp]: "actorSchema (actor_json a) = Some a"
  by (simp add: actorSchema_def actor_json_def)

lemma z_reason_str [simp]: "z_reason (JStr (reason_str r)) = Some r" "z_reason_default (JStr (reason_str r)) = Some r"
  by (cases r; simp add: z_reason_default_def)+

lemma z_string1_str [simp]: "s \<noteq> [] \<Longrightarrow> z_string1 (JStr s) = Some s"
  by (simp add: z_string1_def)

lemma optional_fields:
  "map_of (opt_field ''ipAddress'' ip @ opt_field ''correlationId'' c) ''ipAddress'' = map_option JStr ip"
  "map_of (opt_field ''ipAddress'' ip @ opt_field ''correlationId'' c) ''correlationId'' = map_option JStr c"
  by (cases ip; cases c; simp add: opt_field_def del: map_of_append)+

lemma z_optional_field [simp]:
  "z_optional (case v of None \<Rightarrow> JUndef | Some x \<Rightarrow> ((\<lambda>v. v) \<circ> JStr) x) = Some v"
  by (cases v) simp_all

text \<open>
  What is enqueued is what the worker reads: the payload of each kind of job, sanitised as the queue
  stores it, parses back to the same actor, keys, reason and context. The clean-up payloads lose the
  caller's address, which their schemas do not have.
\<close>

theorem payload_roundtrip:
  assumes "fr_bucket p \<noteq> []" and "fr_oldKey p \<noteq> []" and "fr_newKey p \<noteq> []" and "fd_bucket d \<noteq> []" and "fd_key d \<noteq> []"
  shows "folderRenamePayloadSchema (sanitizeJobMetadata (folder_rename_json p)) = Some p
    \<and> folderDeletePayloadSchema (sanitizeJobMetadata (folder_delete_json d)) = Some d
    \<and> bucketSyncPayloadSchema (sanitizeJobMetadata (maintenance_json m)) = Some m
    \<and> uploadCleanupPayloadSchema (sanitizeJobMetadata (maintenance_json m)) = Some (m\<lparr>mp_ipAddress := None\<rparr>)
    \<and> retentionCleanupPayloadSchema (sanitizeJobMetadata (maintenance_json m)) = Some (m\<lparr>mp_ipAddress := None\<rparr>)"
  unfolding rename_json_sanitized delete_json_sanitized maintenance_json_sanitized
  using assms
  by (simp add: folderRenamePayloadSchema_def
      folder_rename_json_def folderDeletePayloadSchema_def folder_delete_json_def bucketSyncPayloadSchema_def
      uploadCleanupPayloadSchema_def retentionCleanupPayloadSchema_def maintenance_json_def optional_fields
      del: map_of_append z_reason.simps)

definition demo_rename_payload :: folder_rename_payload where
  "demo_rename_payload = \<lparr>fr_actor = demo_actor, fr_bucket = ''b'', fr_oldKey = ''x/'', fr_newKey = ''y/'',
     fr_ipAddress = None, fr_correlationId = Some ''c''\<rparr>"

definition demo_delete_payload :: folder_delete_payload where
  "demo_delete_payload = \<lparr>fd_actor = demo_actor, fd_bucket = ''b'', fd_key = ''x/'', fd_ipAddress = Some ''::1'',
     fd_correlationId = None\<rparr>"

theorem payload_roundtrip_witness:
  "folderRenamePayloadSchema (sanitizeJobMetadata (folder_rename_json demo_rename_payload)) = Some demo_rename_payload"
  by (rule conjunct1 [OF payload_roundtrip [where d = demo_delete_payload]])
     (simp_all add: demo_rename_payload_def demo_delete_payload_def)

section \<open>The job stays at work while its executor runs\<close>

definition at_work :: "string \<Rightarrow> app \<Rightarrow> bool" where
  "at_work i s \<longleftrightarrow> distinct (map j_id (jobs s)) \<and> (\<exists>j. find_job i s = Some j \<and> j_status j = RUNNING)"

lemma at_work_jobs: "at_work i s \<Longrightarrow> jobs t = jobs s \<Longrightarrow> at_work i t"
  unfolding at_work_def find_job_def by simp

lemma at_work_update:
  assumes "at_work i s" and "\<And>j. j_id (f j) = j_id j" and "\<And>j. j_status (f j) = j_status j"
    and "jobs t = tb_update (\<lambda>j. j_id j = k) f (jobs s)"
  shows "at_work i t"
proof -
  have "map j_id (jobs t) = map j_id (jobs s)" unfolding assms(4) by (rule tb_update_map) (simp add: assms(2))
  moreover have "find (\<lambda>j. j_id j = i) (tb_update (\<lambda>j. j_id j = k) f qs)
      = map_option (\<lambda>j. if j_id j = k then f j else j) (find (\<lambda>j. j_id j = i) qs)" for qs
    by (induction qs) (auto simp: tb_update_def assms(2))
  moreover obtain j where "find (\<lambda>j. j_id j = i) (jobs s) = Some j" "j_status j = RUNNING"
    using assms(1) by (auto simp: at_work_def find_job_def)
  ultimately show ?thesis using assms(1) by (simp add: at_work_def find_job_def assms(3,4))
qed

lemma recordEvent_jobs [simp]: "jobs (recordEvent now i e s) = jobs s"
  by (simp add: recordEvent_def split: option.split)

lemma at_work_progress: "preserves (at_work i) (markProgress now k p opts)"
proof (rule preservesI)
  fix s assume w: "at_work i s"
  show "at_work i (snd (markProgress now k p opts s))"
  proof (cases "find_job k s")
    case (Some j)
    have "jobs (snd (markProgress now k p opts s)) = tb_update (\<lambda>q. j_id q = k) (\<lambda>_. j\<lparr>j_progress := p\<rparr>) (jobs s)"
      using Some by (simp add: markProgress_def Let_def split: option.split)
    also have "\<dots> = tb_update (\<lambda>q. j_id q = k) (\<lambda>q. q\<lparr>j_progress := p\<rparr>) (jobs s)"
      using w find_job_mem [OF Some] find_job_id [OF Some]
      by (auto simp: at_work_def tb_update_def distinct_map dest: inj_onD)
    finally show ?thesis by (intro at_work_update [OF w]) simp_all
  qed (use w in \<open>simp add: markProgress_def\<close>)
qed

lemma at_work_same: "(\<And>s. jobs (f s) = jobs s) \<Longrightarrow> preserves (at_work i) (modify f)"
  by (intro preserves_modify) (erule at_work_jobs, simp)

lemma audit_jobs: "jobs (audit_record n ac a et ei m ip s) = jobs s"
  by simp

lemma upsert_bucket_jobs: "jobs (upsert_bucket n b g c s) = jobs s"
  by (simp add: upsert_bucket_def bump_id_def)

lemma conn_jobs:
  "jobs (snd (insert_conn r s)) = jobs s" "jobs (snd (update_conn i f s)) = jobs s" "jobs (clear_default n Q s) = jobs s"
  by (auto simp: insert_conn_def update_conn_def clear_default_def bump_id_def split: option.splits)

lemma ensureEnv_jobs: "jobs (snd (ensureEnvFallbackConnection cr key rnd now s)) = jobs s"
proof -
  let ?t = "clear_default now (\<lambda>_. True) s"
  have "jobs (snd (insert_conn (env_conn cr key rnd now (cfg s) (new_id ?t)) ?t)) = jobs s" by (simp add: conn_jobs)
  then show ?thesis
    by (cases "insert_conn (env_conn cr key rnd now (cfg s) (new_id ?t)) ?t")
       (auto simp: ensureEnvFallbackConnection_def bind_eff_apply ok_apply split: option.split sum.split)
qed

lemma at_work_connection: "preserves (at_work i) (getDefaultConnectionWithSecrets cr key rnd now)"
  unfolding getDefaultConnectionWithSecrets_def
  by (intro preserves_intros) (auto intro!: preservesI elim: at_work_jobs simp: ensureEnv_jobs ok_apply split: option.split)

lemma at_work_upload: "preserves (at_work i) (expire_upload now k)"
  by (intro preservesI) (erule at_work_jobs, simp add: expire_upload_def)

lemma at_work_retention: "preserves (at_work i) (runCleanup fault now t1 reason jobId)"
proof (rule preservesI)
  fix s assume w: "at_work i s"
  have del: "preserves (at_work i) (deleteTerminalJobs ss th)" if ss: "set ss \<subseteq> {COMPLETED, CANCELED, FAILED}" for ss th
  proof (rule preservesI)
    fix s assume w: "at_work i s"
    obtain j where j: "find_job i s = Some j" "j_status j = RUNNING" using w by (auto simp: at_work_def)
    have "\<not> terminal_where ss th j" using j(2) ss by (auto simp: terminal_where_def)
    then have "find (\<lambda>q. j_id q = i) (tb_delete (terminal_where ss th) qs) = Some j"
      if "find (\<lambda>q. j_id q = i) qs = Some j" "distinct (map j_id qs)" for qs
      using that by (induction qs) (auto simp: tb_delete_def split: if_splits)
    then show "at_work i (snd (deleteTerminalJobs ss th s))"
      using w j by (simp add: at_work_def find_job_def deleteTerminalJobs_def Let_def distinct_tb_delete)
  qed
  show "at_work i (snd (runCleanup fault now t1 reason jobId s))"
  proof (rule preserves_runCleanup [where P = "at_work i"])
    show "preserves (at_work i) (prune_counts fault now p th)" for p th
      by (intro preservesI) (erule at_work_jobs, rule prune_jobs)
  qed (rule w | erule del | rule preserves_governance
      | intro preservesI, erule at_work_jobs, simp add: delete_upload_sessions_def purge_event_archive_def
          purge_audit_archive_def setLastRunState_def modify_def Let_def)+
qed

text \<open>What the other requests do at a checkpoint does not end the job.\<close>

definition leaves_running :: "'w worker_env \<Rightarrow> string \<Rightarrow> bool" where
  "leaves_running E i \<longleftrightarrow> (\<forall>c n s. at_work i s \<longrightarrow> at_work i (we_meddle E c n s))"

abbreviation keeps_work :: "string \<Rightarrow> (app \<times> 'w, 'a) eff \<Rightarrow> bool" where
  "keeps_work i m \<equiv> preserves (\<lambda>sw. at_work i (fst sw)) m"

lemma keeps_parts:
  "keeps_work i (record_event now k e)" "keeps_work i (add_metric_eff m)" "keeps_work i (audit_eff n ac a et ei md ip)"
  "keeps_work i (parse_payload E sch v)" "keeps_work i (default_connection E n)" "keeps_work i (on_fst (expire_upload n u))"
  "keeps_work i (on_fst (markProgress n u p opts))" "keeps_work i (on_fst (runCleanup f n t1 r jid))"
  "keeps_work i (on_fst (modify (upsert_bucket n b g c)))"
  unfolding record_event_def add_metric_eff_def audit_eff_def parse_payload_def default_connection_def
  by (intro preserves_intros at_work_same at_work_connection at_work_upload at_work_progress at_work_retention
      recordEvent_jobs metric_frame audit_jobs upsert_bucket_jobs)+

lemma keeps_checkpoint: "leaves_running E i \<Longrightarrow> keeps_work i (throwIfCancelRequested E now n k c)"
  unfolding throwIfCancelRequested_def
  by (intro preserves_intros keeps_parts) (simp add: leaves_running_def)

lemma keeps_client: "keeps_work i (getS3Client E now)"
  unfolding getS3Client_def by (intro preserves_intros keeps_parts)

lemma keeps_reports: "preserves (at_work i) (rename_reports clock k n lst ps)"
  by (induction ps arbitrary: n lst) (auto simp: Let_def intro!: preserves_intros at_work_progress)

lemma keeps_sync: "leaves_running E i \<Longrightarrow> keeps_work i (sync_loop E k c t n l bs)"
  by (induction bs arbitrary: n l) (auto simp: Let_def intro!: preserves_intros keeps_parts keeps_checkpoint)

lemma keeps_cleanup: "leaves_running E i \<Longrightarrow> keeps_work i (cleanup_loop E k p t n us)"
proof (induction us arbitrary: n)
  case (Cons ub us)
  have "keeps_work i (cleanup_session E k p t n ub)"
    unfolding cleanup_session_def Let_def
    by (cases ub) (auto intro!: preserves_intros keeps_parts keeps_checkpoint Cons.prems split: option.split)
  then show ?case by (auto intro!: preserves_intros keeps_parts Cons)
qed (auto intro: preserves_intros)

lemma keeps_executor: "leaves_running E i \<Longrightarrow> keeps_work i (run_executor E j c)"
  unfolding run_executor_def executeFolderRename_def executeFolderDelete_def executeBucketSync_def
    executeUploadCleanup_def executeRetentionCleanup_def split_def
  by (cases "j_type j") (simp_all, (intro preserves_intros keeps_parts keeps_checkpoint keeps_client keeps_reports
      keeps_sync keeps_cleanup; assumption)+)

section \<open>How a run ends\<close>

lemma markCompleted_find:
  assumes "find_job i s = Some j"
  shows "find_job i (markCompleted now i r s) = Some (j\<lparr>j_status := COMPLETED, j_completedAt := Some now,
    j_nextRetryAt := None, j_lastError := None, j_result := or_else r (j_result j)\<rparr>)"
  using find_job_id [OF assms] find_update_job_self [OF assms] by (simp add: markCompleted_def assms Let_def)

lemma markCanceled_find:
  assumes "find_job i s = Some j"
  shows "find_job i (markCanceled now i s) = Some (j\<lparr>j_status := CANCELED, j_completedAt := Some now,
    j_cancelRequestedAt := Some (or_else (j_cancelRequestedAt j) now), j_nextRetryAt := None\<rparr>)"
  using find_job_id [OF assms] find_update_job_self [OF assms] by (simp add: markCanceled_def assms Let_def)

definition ended :: "job \<Rightarrow> bool" where
  "ended j \<longleftrightarrow> j_status j \<in> {COMPLETED, CANCELED, FAILED}
     \<or> j_status j = QUEUED \<and> j_retryable j \<and> j_attemptCount j < j_maxAttempts j \<and> j_nextRetryAt j \<noteq> None"

definition job_ended :: "string \<Rightarrow> app \<Rightarrow> bool" where
  "job_ended i s \<longleftrightarrow> (\<exists>j. find_job i s = Some j \<and> ended j)"

lemma completed_ends: "at_work i s \<Longrightarrow> job_ended i (markCompleted now i r s)"
  by (auto simp: at_work_def job_ended_def ended_def dest: markCompleted_find)

lemma canceled_ends: "at_work i s \<Longrightarrow> job_ended i (markCanceled now i s)"
  by (auto simp: at_work_def job_ended_def ended_def dest: markCanceled_find)

lemma failed_ends: "at_work i s \<Longrightarrow> job_ended i (markFailed now i m s)"
  by (auto simp: at_work_def job_ended_def ended_def markFailed_find retry_row_def failed_row_def)

lemma on_job_error_ends:
  assumes "at_work (j_id j) s"
  shows "\<exists>s'. on_job_error now j e (s, w) = (Inr (), (s', w)) \<and> job_ended (j_id j) s'"
proof -
  have "at_work (j_id j) (recordEvent now (j_id j) x s)" "at_work (j_id j) (recordEvent now (j_id j) x (add_metric m s))" for x m
    using assms by (auto elim: at_work_jobs)
  then show ?thesis
    using assms by (auto simp: on_job_error_def eff_simps add_metric_eff_def record_event_def canceled_ends failed_ends)
qed

lemma execute_steps:
  "execute E j c (s, w) =
    (if isCancelRequested (j_id j) s
     then (Inr (), (markCanceled (we_end E) (j_id j) (recordEvent (we_clock E 0) (j_id j) ev_cancel_before_start s), w))
     else case run_executor E j c (s, w) of
         (Inr result, (s', w')) \<Rightarrow> (Inr (), (markCompleted (we_end E) (j_id j) (Some result) s', w'))
       | (Inl e, sw') \<Rightarrow> if e = Diverges then (Inl Diverges, sw') else on_job_error (we_end E) j e sw')"
  by (auto simp: execute_def eff_simps record_event_def split: prod.split sum.split)



definition quiet_env :: "(string \<Rightarrow> nat \<Rightarrow> app \<Rightarrow> app) \<Rightarrow> 'w s3_send \<Rightarrow> 'w worker_env" where
  "quiet_env meddle send = \<lparr>we_clock = (\<lambda>k. 1000 + int k), we_end = 5000, we_meddle = meddle, we_crypto = plain_crypto,
     we_key = ''k'', we_rnd = (\<lambda>_. ''nonce''), we_client = (\<lambda>_. send), we_fetch = (\<lambda>_. throw (PlainError ''offline'')),
     we_fuel = 10, we_sched = [], we_fault = no_fault, we_zod_message = (\<lambda>_. ''invalid payload'')\<rparr>"

definition running_job :: "job_type \<Rightarrow> json \<Rightarrow> job" where
  "running_job t p = \<lparr>j_id = ''j1'', j_type = t, j_status = RUNNING, j_correlationId = None,
     j_attemptCount = 1, j_maxAttempts = 3, j_retryable = True, j_nextRetryAt = None, j_lastError = None,
     j_createdByUserId = None, j_payload = p, j_progress = JNull, j_result = JNull,
     j_failureSummary = None, j_cancelRequestedAt = None, j_lockKey = Some ''l'', j_lockedAt = Some 0,
     j_createdAt = 0, j_startedAt = Some 0, j_completedAt = None\<rparr>"


section \<open>Cancellation\<close>

text \<open>A step that leaves the outside world alone and returns or throws.\<close>

definition local_step :: "(app \<times> 'w, 'a) eff \<Rightarrow> bool" where
  "local_step m \<longleftrightarrow> (\<forall>s w. snd (snd (m (s, w))) = w \<and> fst (m (s, w)) \<noteq> Inl Diverges)"

lemma local_bind: "local_step m \<Longrightarrow> (\<And>x. local_step (g x)) \<Longrightarrow> local_step (bind_eff m g)"
  unfolding local_step_def bind_eff_def by (auto split: prod.splits sum.splits) (metis fst_conv snd_conv)+

lemma local_seq: "local_step m \<Longrightarrow> local_step n \<Longrightarrow> local_step (seq_eff m n)"
  unfolding seq_eff_def by (rule local_bind)

lemma local_fst: "(\<And>s. fst (d s) \<noteq> Inl Diverges) \<Longrightarrow> local_step (on_fst d)"
  unfolding local_step_def on_fst_def by (auto split: prod.splits) (metis fst_conv)

lemma local_pure:
  "local_step (ok x)" "local_step (reads f)" "e \<noteq> Diverges \<Longrightarrow> local_step (need v e)" "e \<noteq> Diverges \<Longrightarrow> local_step (throw e)"
  by (auto simp: local_step_def eff_simps split: option.splits)

lemma decrypt_plain: "decrypt cr key x = Inl e \<Longrightarrow> e \<noteq> Diverges"
  by (auto simp: decrypt_def Let_def split: if_splits option.splits)

lemma with_secrets_plain: "with_secrets cr key c \<noteq> Inl Diverges"
  using decrypt_plain [of cr key]
  by (auto simp: with_secrets_def map_sum_def split: sum.splits if_splits) 

lemma connection_returns: "fst (getDefaultConnectionWithSecrets cr key rnd now s) \<noteq> Inl Diverges"
proof -
  have i: "fst (insert_conn r t) \<noteq> Inl Diverges" for r t by (simp add: insert_conn_def P2002_def)
  have e: "fst (ensureEnvFallbackConnection cr key rnd now s) \<noteq> Inl Diverges"
    using i by (auto simp: ensureEnvFallbackConnection_def bind_eff_apply ok_apply split: option.split prod.split sum.split)
      (metis fst_conv)?
  show ?thesis
    using e with_secrets_plain
    by (auto simp: getDefaultConnectionWithSecrets_def eff_simps split: option.split prod.split sum.split)
qed

lemma local_parts:
  "local_step (record_event now k x)" "local_step (parse_payload E sch v)" "local_step (getS3Client E now)"
  "local_step (on_fst (markProgress now k p opts))"
proof -
  show "local_step (record_event now k x)" unfolding record_event_def by (intro local_fst) (simp add: modify_apply)
  show "local_step (parse_payload E sch v)" unfolding parse_payload_def by (intro local_pure) simp
  show "local_step (getS3Client E now)"
    unfolding getS3Client_def default_connection_def by (intro local_bind local_fst local_pure connection_returns)
  show "local_step (on_fst (markProgress now k p opts))"
    by (intro local_fst) (simp add: markProgress_def P2025_def Let_def split: option.split)
qed

text \<open>Code that, while the job is at work, throws before it reaches the outside world.\<close>

definition stops_local :: "string \<Rightarrow> (app \<times> 'w, 'a) eff \<Rightarrow> bool" where
  "stops_local i m \<longleftrightarrow> (\<forall>s w. at_work i s \<longrightarrow> (\<exists>e s'. m (s, w) = (Inl e, (s', w)) \<and> e \<noteq> Diverges))"

lemma stops_checkpoint:
  assumes "\<And>s. at_work k s \<Longrightarrow> isCancelRequested k (we_meddle E c n s)"
  shows "stops_local k (seq_eff (throwIfCancelRequested E now n k c) m)"
  using assms by (simp add: stops_local_def throwIfCancelRequested_def eff_simps record_event_def)

lemma stops_after:
  assumes "keeps_work i m" and "local_step m" and "\<And>x. stops_local i (g x)"
  shows "stops_local i (bind_eff m g)"
  unfolding stops_local_def
proof (intro allI impI)
  fix s w assume w: "at_work i s"
  obtain r s' w' where m: "m (s, w) = (r, (s', w'))" by (cases "m (s, w)") auto
  then have w': "w' = w" "r \<noteq> Inl Diverges" using assms(2) unfolding local_step_def by (metis fst_conv snd_conv)+
  have "at_work i s'" using preservesD [OF assms(1), of "(s, w)"] w m by simp
  then show "\<exists>e s'. bind_eff m g (s, w) = (Inl e, (s', w)) \<and> e \<noteq> Diverges"
    using m w' assms(3) by (cases r) (auto simp: bind_eff_apply stops_local_def)
qed

lemma stops_after_seq:
  "keeps_work i m \<Longrightarrow> local_step m \<Longrightarrow> stops_local i n \<Longrightarrow> stops_local i (seq_eff m n)"
  unfolding seq_eff_def by (rule stops_after)

lemma folder_jobs_stop:
  assumes "\<And>s. at_work (j_id j) s \<Longrightarrow> isCancelRequested (j_id j) (we_meddle E ''before_rename_start'' 0 s)"
    and "\<And>s. at_work (j_id j) s \<Longrightarrow> isCancelRequested (j_id j) (we_meddle E ''before_delete_start'' 0 s)"
  shows "stops_local (j_id j) (executeFolderRename E j c)" "stops_local (j_id j) (executeFolderDelete E j c)"
  unfolding executeFolderRename_def executeFolderDelete_def
  by (intro stops_after stops_after_seq local_parts keeps_parts keeps_client stops_checkpoint assms; assumption)+

text \<open>
  A folder job whose cancellation is in place at the latest when its last checkpoint before the S3
  operation is passed does not touch S3: the outside world is as it was, the execution returns, and the
  job has ended.
\<close>

theorem canceled_folder_job_touches_nothing:
  assumes "j_type j \<in> {FOLDER_RENAME, FOLDER_DELETE}"
    and "\<And>s. at_work (j_id j) s \<Longrightarrow> isCancelRequested (j_id j) (we_meddle E ''before_rename_start'' 0 s)"
    and "\<And>s. at_work (j_id j) s \<Longrightarrow> isCancelRequested (j_id j) (we_meddle E ''before_delete_start'' 0 s)"
    and others: "leaves_running E (j_id j)" and "at_work (j_id j) s"
  shows "\<exists>s'. execute E j c (s, w) = (Inr (), (s', w)) \<and> job_ended (j_id j) s'"
proof (cases "isCancelRequested (j_id j) s")
  case True
  have "at_work (j_id j) (recordEvent n (j_id j) x s)" for n x using assms(5) by (rule at_work_jobs) simp
  with True canceled_ends show ?thesis by (simp add: execute_steps)
next
  case False
  have "stops_local (j_id j) (run_executor E j c)"
    using assms(1) folder_jobs_stop [of j E c, OF assms(2,3)] by (auto simp: run_executor_def)
  then obtain e s1 where run: "run_executor E j c (s, w) = (Inl e, (s1, w))" "e \<noteq> Diverges"
    using assms(5) unfolding stops_local_def by blast
  have "at_work (j_id j) s1"
    using preservesD [OF keeps_executor [OF others], of "(s, w)" j c] run(1) assms(5) by simp
  from on_job_error_ends [OF this] False run show ?thesis by (simp add: execute_steps)
qed

definition cancel_all :: "app \<Rightarrow> app" where
  "cancel_all s = s\<lparr>jobs := map (\<lambda>j. j\<lparr>j_cancelRequestedAt := Some 1\<rparr>) (jobs s)\<rparr>"

lemma cancel_all_find: "find_job i (cancel_all s) = map_option (\<lambda>j. j\<lparr>j_cancelRequestedAt := Some 1\<rparr>) (find_job i s)"
proof -
  have "find (\<lambda>j. j_id j = i) (map (\<lambda>j. j\<lparr>j_cancelRequestedAt := Some 1\<rparr>) qs)
      = map_option (\<lambda>j. j\<lparr>j_cancelRequestedAt := Some 1\<rparr>) (find (\<lambda>j. j_id j = i) qs)" for qs :: "job list"
    by (induction qs) auto
  then show ?thesis by (simp add: find_job_def cancel_all_def)
qed

lemma cancel_all_at_work: "at_work i s \<Longrightarrow> at_work i (cancel_all s)" "at_work i s \<Longrightarrow> isCancelRequested i (cancel_all s)"
  by (auto simp: at_work_def cancel_all_find isCancelRequested_def) (simp add: cancel_all_def comp_def)

theorem canceled_folder_job_touches_nothing_witness:
  "\<exists>s'. execute (quiet_env (\<lambda>_ _. cancel_all) (\<lambda>_ w. (Inl (PlainError ''refused''), w + 1)))
      (running_job FOLDER_DELETE (folder_delete_json demo_delete_payload)) ''c''
      (init_app\<lparr>jobs := [running_job FOLDER_DELETE (folder_delete_json demo_delete_payload)]\<rparr>, 0 :: nat)
    = (Inr (), (s', 0))"
proof -
  let ?j = "running_job FOLDER_DELETE (folder_delete_json demo_delete_payload)"
  let ?E = "quiet_env (\<lambda>_ _. cancel_all) (\<lambda>_ w. (Inl (PlainError ''refused''), w + 1 :: nat))"
  have h: "j_type ?j \<in> {FOLDER_RENAME, FOLDER_DELETE}" "leaves_running ?E (j_id ?j)"
    "at_work (j_id ?j) (init_app\<lparr>jobs := [?j]\<rparr>)"
    by (simp add: running_job_def, simp add: leaves_running_def quiet_env_def cancel_all_at_work,
        simp add: running_job_def at_work_def find_job_def)
  have "isCancelRequested (j_id ?j) (we_meddle ?E k 0 s)" if "at_work (j_id ?j) s" for k s
    using that by (simp add: quiet_env_def cancel_all_at_work)
  from canceled_folder_job_touches_nothing [OF h(1) this this h(2,3), of "''c''" 0] show ?thesis by blast
qed

end
