(* ===== verification/WorkerCleanup.thy ===== *)
theory WorkerCleanup
  imports WorkerProps
begin

text \<open>
  The two maintenance executors that change rows: the clean-up of expired uploads, with and without a
  cancellation, and the synchronisation of buckets with the cluster.
\<close>

section \<open>Expired uploads\<close>

lemma recordEvent_uploads [simp]: "uploads (recordEvent now i e s) = uploads s" "cfg (recordEvent now i e s) = cfg s"
  "buckets (recordEvent now i e s) = buckets s"
  by (simp_all add: recordEvent_def split: option.split)

lemma at_work_event: "at_work i s \<Longrightarrow> at_work i (recordEvent n k e s)" "at_work i s \<Longrightarrow> at_work i (add_metric m s)"
  by (auto elim: at_work_jobs)

lemma find_job_event [simp]: "find_job i (recordEvent n k e s) = find_job i s"
  "find_job i (audit_record n ac a et ei m ip s) = find_job i s"
  by (rule find_job_jobs, simp)+

lemma loop_canceled:
  assumes "leaves_running E i" and "\<And>s n. at_work i s \<Longrightarrow> isCancelRequested i (we_meddle E ''upload_cleanup_loop'' n s)"
    and "\<And>s n. uploads (we_meddle E ''upload_cleanup_loop'' n s) = uploads s"
  shows "at_work i s \<Longrightarrow> \<exists>s'. cleanup_loop E i p t k us (s, w) = (Inr (), (s', w)) \<and> at_work i s' \<and> uploads s' = uploads s"
proof (induction us arbitrary: s k)
  case (Cons ub us)
  let ?m = "we_meddle E ''upload_cleanup_loop'' k s"
  let ?c = "recordEvent (we_clock E (10 + k)) i (ev_cancel_observed ''upload_cleanup_loop'') ?m"
  let ?h = "recordEvent (we_clock E (10 + k)) i (ev_cleanup_failed (fst ub) JobCanceledError) (add_metric (MS3Failure ''upload_cleanup'') ?c)"
  have m: "at_work i ?m" using assms(1) Cons.prems by (simp add: leaves_running_def)
  have "cleanup_session E i p t k ub (s, w) = (Inl JobCanceledError, (?c, w))"
    using assms(2) [OF Cons.prems]
    by (cases ub) (simp add: cleanup_session_def Let_def throwIfCancelRequested_def eff_simps record_event_def)
  moreover have "at_work i ?h" "uploads ?h = uploads s" using m assms(3) by (simp_all add: at_work_event)
  moreover note Cons.IH [of ?h "Suc k"]
  ultimately show ?case by (auto simp: eff_simps add_metric_eff_def record_event_def)
qed (auto simp: ok_apply)

lemma cleanup_execution:
  fixes E :: "'w worker_env"
  assumes pay: "uploadCleanupPayloadSchema (j_payload j) = Some p" and ty: "j_type j = UPLOAD_CLEANUP"
    and nc: "\<not> isCancelRequested (j_id j) s"
  defines "s1 \<equiv> recordEvent (we_clock E 1) (j_id j) (ev ''upload_cleanup.started'' ''Upload cleanup started.'' None
      (JObj [(''reason'', JStr (reason_str (mp_reason p))), (''batchSize'', jint (UPLOAD_CLEANUP_BATCH_SIZE (cfg s)))])) s"
    and "us \<equiv> expired_uploads (we_clock E 2) (UPLOAD_CLEANUP_BATCH_SIZE (cfg s)) s"
  assumes lp: "cleanup_loop E (j_id j) p (length us) 0 (map (\<lambda>u. (u, bucket_of s u)) us) (s1, w) = (Inr (), (s2, w))"
    and at_w: "find_job (j_id j) s2 = Some row"
  shows "\<exists>s'. execute E j c (s, w) = (Inr (), (s', w)) \<and> uploads s' = uploads s2
    \<and> find_job (j_id j) s' = Some (row\<lparr>j_status := COMPLETED, j_completedAt := Some (we_end E), j_nextRetryAt := None,
        j_lastError := None, j_result := JObj [(''cleaned'', jnat (length us)), (''totalExpired'', jnat (length us))]\<rparr>)"
proof -
  let ?d = "JObj [(''cleaned'', jnat (length us)), (''totalExpired'', jnat (length us))]"
  let ?s3 = "recordEvent (we_clock E 3) (j_id j) (ev ''upload_cleanup.completed_step'' ''Upload cleanup completed.'' None ?d) s2"
  have us: "expired_uploads (we_clock E 2) (UPLOAD_CLEANUP_BATCH_SIZE (cfg s)) s1 = us" "bucket_of s1 = bucket_of s"
    by (simp_all add: s1_def us_def expired_uploads_def bucket_of_def fun_eq_iff)
  have "executeUploadCleanup E j (s, w) = (Inr ?d, (?s3, w))"
    using lp unfolding executeUploadCleanup_def parse_payload_def
    by (simp add: eff_simps pay record_event_def s1_def [symmetric] us del: One_nat_def)
  then have "execute E j c (s, w) = (Inr (), (markCompleted (we_end E) (j_id j) (Some ?d) ?s3, w))"
    using nc ty by (simp add: execute_steps run_executor_def)
  moreover have "find_job (j_id j) ?s3 = Some row" using at_w by simp
  from markCompleted_find [OF this] have "find_job (j_id j) (markCompleted (we_end E) (j_id j) (Some ?d) ?s3) = Some (row\<lparr>j_status := COMPLETED,
      j_completedAt := Some (we_end E), j_nextRetryAt := None, j_lastError := None, j_result := ?d\<rparr>)" by simp
  moreover have "uploads (markCompleted n k r t) = uploads t" for n k r t
    by (simp add: markCompleted_def Let_def split: option.split)
  ultimately show ?thesis by simp
qed

text \<open>
  The clean-up of expired uploads passes over a cancellation. If a cancellation arrives before its
  first session, no session is changed, and yet the job ends as completed and its result counts every
  expired session of the batch as cleaned.
\<close>

theorem upload_cleanup_ignores_cancel:
  assumes ty: "j_type j = UPLOAD_CLEANUP" and pay: "uploadCleanupPayloadSchema (j_payload j) = Some p"
    and start: "at_work (j_id j) s" "\<not> isCancelRequested (j_id j) s" and others: "leaves_running E (j_id j)"
    and cancel: "\<And>s n. at_work (j_id j) s \<Longrightarrow> isCancelRequested (j_id j) (we_meddle E ''upload_cleanup_loop'' n s)"
    and same: "\<And>s n. uploads (we_meddle E ''upload_cleanup_loop'' n s) = uploads s"
  shows "\<exists>s' j'. execute E j c (s, w) = (Inr (), (s', w)) \<and> uploads s' = uploads s
    \<and> find_job (j_id j) s' = Some j' \<and> j_status j' = COMPLETED
    \<and> jget (j_result j') ''cleaned'' = jnat (length (expired_uploads (we_clock E 2) (UPLOAD_CLEANUP_BATCH_SIZE (cfg s)) s))"
proof -
  let ?s1 = "recordEvent (we_clock E 1) (j_id j) (ev ''upload_cleanup.started'' ''Upload cleanup started.'' None
      (JObj [(''reason'', JStr (reason_str (mp_reason p))), (''batchSize'', jint (UPLOAD_CLEANUP_BATCH_SIZE (cfg s)))])) s"
  let ?us = "expired_uploads (we_clock E 2) (UPLOAD_CLEANUP_BATCH_SIZE (cfg s)) s"
  from loop_canceled [OF others cancel same at_work_event(1) [OF start(1)]]
  obtain s2 where s2: "cleanup_loop E (j_id j) p (length ?us) 0 (map (\<lambda>u. (u, bucket_of s u)) ?us) (?s1, w) = (Inr (), (s2, w))"
    "at_work (j_id j) s2" "uploads s2 = uploads ?s1" by blast
  from s2(2) obtain row where row: "find_job (j_id j) s2 = Some row" by (auto simp: at_work_def)
  from cleanup_execution [OF pay ty start(2) s2(1) row, of c] s2(3) show ?thesis by auto
qed

definition expired_upload :: upload_row where
  "expired_upload = \<lparr>up_id = ''up1'', up_userId = ''u1'', up_bucketId = ''b1'', up_objectKey = ''k'', up_uploadId = ''m1'',
     up_status = UP_INITIATED, up_partsMeta = JNull, up_completedParts = [], up_partSize = None, up_totalParts = None,
     up_fileSize = None, up_contentType = None, up_relativePath = None, up_error = None, up_lastActivityAt = 0,
     up_createdAt = 0, up_updatedAt = 0, up_expiresAt = 5\<rparr>"

definition cleanup_payload :: maintenance_payload where
  "cleanup_payload = \<lparr>mp_actor = demo_actor, mp_reason = R_scheduled, mp_ipAddress = None, mp_correlationId = None\<rparr>"

definition cleanup_job :: job where
  "cleanup_job = running_job UPLOAD_CLEANUP (maintenance_json cleanup_payload)"

definition cleanup_app :: app where
  "cleanup_app = init_app\<lparr>jobs := [cleanup_job], uploads := [expired_upload]\<rparr>"

lemma cleanup_app_facts:
  "j_type cleanup_job = UPLOAD_CLEANUP" "uploadCleanupPayloadSchema (j_payload cleanup_job) = Some cleanup_payload"
  "at_work (j_id cleanup_job) cleanup_app" "\<not> isCancelRequested (j_id cleanup_job) cleanup_app"
proof -
  show "uploadCleanupPayloadSchema (j_payload cleanup_job) = Some cleanup_payload"
    by (simp add: cleanup_job_def running_job_def uploadCleanupPayloadSchema_def maintenance_json_def cleanup_payload_def opt_field_def)
qed (simp_all add: cleanup_job_def running_job_def cleanup_app_def at_work_def find_job_def isCancelRequested_def)

lemma cleanup_app_expired: "expired_uploads 1002 (UPLOAD_CLEANUP_BATCH_SIZE (cfg cleanup_app)) cleanup_app = [expired_upload]"
  by (simp add: expired_uploads_def cleanup_app_def init_app_def default_config_def expired_upload_def take_int_def)

theorem upload_cleanup_ignores_cancel_witness:
  "\<exists>s' j'. execute (quiet_env (\<lambda>_ _. cancel_all) (\<lambda>_. throw (PlainError ''offline''))) cleanup_job ''c'' (cleanup_app, ())
      = (Inr (), (s', ())) \<and> uploads s' = [expired_upload] \<and> find_job ''j1'' s' = Some j' \<and> j_status j' = COMPLETED
    \<and> jget (j_result j') ''cleaned'' = JNum 1"
proof -
  let ?E = "quiet_env (\<lambda>_ _. cancel_all) (\<lambda>_. throw (PlainError ''offline'')) :: unit worker_env"
  have l: "leaves_running ?E (j_id cleanup_job)" by (simp add: leaves_running_def quiet_env_def cancel_all_at_work)
  have "at_work (j_id cleanup_job) s \<Longrightarrow> isCancelRequested (j_id cleanup_job) (we_meddle ?E ''upload_cleanup_loop'' n s)"
    "uploads (we_meddle ?E ''upload_cleanup_loop'' n s) = uploads s" for s n
    by (simp add: quiet_env_def cancel_all_at_work, simp add: quiet_env_def cancel_all_def)
  from upload_cleanup_ignores_cancel [OF cleanup_app_facts l this, of "''c''" "()"] show ?thesis
    by (simp add: quiet_env_def cleanup_app_expired jnat_def) (simp add: cleanup_app_def cleanup_job_def running_job_def)
qed


text \<open>The job is at work and nobody has asked to cancel it.\<close>

definition undisturbed :: "string \<Rightarrow> app \<Rightarrow> bool" where
  "undisturbed i s \<longleftrightarrow> at_work i s \<and> \<not> isCancelRequested i s"

lemma undisturbed_jobs: "undisturbed i s \<Longrightarrow> jobs t = jobs s \<Longrightarrow> undisturbed i t"
  unfolding undisturbed_def at_work_def isCancelRequested_def find_job_def by simp

lemma undisturbed_progress:
  assumes "undisturbed i s"
  shows "\<exists>s'. markProgress n i p opts s = (Inr (), s') \<and> undisturbed i s' \<and> uploads s' = uploads s \<and> buckets s' = buckets s \<and> cuid s' = cuid s"
proof -
  obtain j where j: "find_job i s = Some j" "j_status j = RUNNING" "j_cancelRequestedAt j = None"
    using assms by (auto simp: undisturbed_def at_work_def isCancelRequested_def)
  let ?u = "j\<lparr>j_progress := p\<rparr>"
  obtain s' where s': "markProgress n i p opts s = (Inr (), s')" "jobs s' = tb_update (\<lambda>q. j_id q = i) (\<lambda>_. ?u) (jobs s)"
    "uploads s' = uploads s" "buckets s' = buckets s" "cuid s' = cuid s"
    using j(1) by (auto simp: markProgress_def Let_def update_job_def split: option.split)
  have "at_work i s'" using preservesD [OF at_work_progress, of i s n i p opts] assms s'(1) by (simp add: undisturbed_def)
  moreover have "find_job i s' = Some ?u"
    using find_update_job_self [OF j(1), of ?u] find_job_id [OF j(1)] s'(2) by (simp add: find_job_def)
  then have "\<not> isCancelRequested i s'" using j(3) by (simp add: isCancelRequested_def)
  ultimately show ?thesis using s' by (auto simp: undisturbed_def)
qed

definition upload_state :: "upload_row \<Rightarrow> string \<times> upload_status \<times> string option" where
  "upload_state u = (up_id u, up_status u, up_error u)"

definition expired_state :: "string set \<Rightarrow> string \<times> upload_status \<times> string option \<Rightarrow> string \<times> upload_status \<times> string option" where
  "expired_state ids = (\<lambda>(i, st, e). if i \<in> ids then (i, UP_FAILED, Some ''Upload session expired'') else (i, st, e))"

lemma cleanup_session_done:
  assumes s: "undisturbed i s" and id_env: "\<And>s n. we_meddle E ''upload_cleanup_loop'' n s = s"
    and u: "up_id u \<in> up_id ` set (uploads s)"
  shows "\<exists>s'. cleanup_session E i p t k (u, b) (s, w) = (Inr (), (s', w)) \<and> undisturbed i s'
    \<and> map upload_state (uploads s') = map (expired_state {up_id u}) (map upload_state (uploads s))"
proof -
  let ?now = "we_clock E (10 + k)"
  obtain s1 where s1: "markProgress ?now i (JObj [(''totalItems'', jnat t), (''processedItems'', jnat k),
               (''metadata'', JObj [(''currentUploadSessionId'', JStr (up_id u))])])
        (Some (progress_message (k = 0 \<or> int k = int t - 1 \<or> k mod 10 = 0) ''Upload cleanup progress updated.'')) s = (Inr (), s1)"
    "undisturbed i s1" "uploads s1 = uploads s"
    using undisturbed_progress [OF s] by blast
  define s2 where "s2 = s1\<lparr>uploads := tb_update (\<lambda>x. up_id x = up_id u) (\<lambda>x. x\<lparr>up_status := UP_FAILED,
        up_error := Some ''Upload session expired'', up_lastActivityAt := ?now, up_updatedAt := ?now\<rparr>) (uploads s1)\<rparr>"
  have "\<exists>x\<in>set (uploads s1). up_id x = up_id u" using u s1(3) by auto
  then have s2: "expire_upload ?now (up_id u) s1 = (Inr (), s2)" "jobs s2 = jobs s1"
    "uploads s2 = tb_update (\<lambda>x. up_id x = up_id u) (\<lambda>x. x\<lparr>up_status := UP_FAILED, up_error := Some ''Upload session expired'',
        up_lastActivityAt := ?now, up_updatedAt := ?now\<rparr>) (uploads s)"
    by (simp_all add: expire_upload_def s2_def s1(3))
  have "map upload_state (uploads s2) = map (expired_state {up_id u}) (map upload_state (uploads s))"
    unfolding s2(3) by (auto simp: tb_update_def upload_state_def expired_state_def)
  moreover have "undisturbed i s2" using s1(2) s2(2) by (rule undisturbed_jobs)
  moreover have "throwIfCancelRequested E ?now k i ''upload_cleanup_loop'' (s, w) = (Inr (), (s, w))"
    using s by (simp add: throwIfCancelRequested_def eff_simps id_env undisturbed_def)
  ultimately show ?thesis
    using s1(1) s2(1)
    by (cases b) (auto simp: cleanup_session_def Let_def eff_simps record_event_def add_metric_eff_def audit_eff_def
        elim!: undisturbed_jobs)
qed

lemma expired_state_union: "expired_state B (expired_state A x) = expired_state (A \<union> B) x"
  by (cases x) (auto simp: expired_state_def)

lemma loop_undisturbed:
  assumes id_env: "\<And>s n. we_meddle E ''upload_cleanup_loop'' n s = s"
  shows "undisturbed i s \<Longrightarrow> (up_id \<circ> fst) ` set us \<subseteq> up_id ` set (uploads s) \<Longrightarrow>
    \<exists>s'. cleanup_loop E i p t k us (s, w) = (Inr (), (s', w)) \<and> undisturbed i s'
    \<and> map upload_state (uploads s') = map (expired_state ((up_id \<circ> fst) ` set us)) (map upload_state (uploads s))"
proof (induction us arbitrary: s k)
  case Nil
  have "expired_state {} x = x" for x by (cases x) (simp add: expired_state_def)
  then show ?case using Nil by (auto simp: ok_apply map_idI)
next
  case (Cons ub us)
  obtain u b where ub: "ub = (u, b)" by (cases ub)
  have u: "up_id u \<in> up_id ` set (uploads s)" using Cons.prems(2) by (simp add: ub)
  from cleanup_session_done [OF Cons.prems(1) id_env u, of p t k b w]
  obtain s1 where s1: "cleanup_session E i p t k (u, b) (s, w) = (Inr (), (s1, w))" "undisturbed i s1"
    "map upload_state (uploads s1) = map (expired_state {up_id u}) (map upload_state (uploads s))" by blast
  have "fst (expired_state A x) = fst x" for A x by (cases x) (simp add: expired_state_def)
  then have "map up_id (uploads s1) = map up_id (uploads s)"
    using arg_cong [OF s1(3), of "map fst"] by (simp add: comp_def upload_state_def)
  then have "up_id ` set (uploads s1) = up_id ` set (uploads s)" by (metis list.set_map)
  then have "(up_id \<circ> fst) ` set us \<subseteq> up_id ` set (uploads s1)" using Cons.prems(2) by auto
  from Cons.IH [OF s1(2) this, of "Suc k"] obtain s2 where s2: "cleanup_loop E i p t (Suc k) us (s1, w) = (Inr (), (s2, w))"
    "undisturbed i s2" "map upload_state (uploads s2) = map (expired_state ((up_id \<circ> fst) ` set us)) (map upload_state (uploads s1))"
    by blast
  have "map upload_state (uploads s2) = map (expired_state ((up_id \<circ> fst) ` set (ub # us))) (map upload_state (uploads s))"
    unfolding s2(3) s1(3) by (simp add: expired_state_union ub)
  then show ?case using s1(1) s2(1,2) by (auto simp: eff_simps ub)
qed

text \<open>
  Undisturbed, the clean-up completes and marks exactly the expired sessions of its batch as failed;
  every other session keeps its status and error, and none is added or removed.
\<close>

theorem upload_cleanup_expires:
  assumes ty: "j_type j = UPLOAD_CLEANUP" and pay: "uploadCleanupPayloadSchema (j_payload j) = Some p"
    and start: "at_work (j_id j) s" "\<not> isCancelRequested (j_id j) s"
    and quiet: "\<And>s n. we_meddle E ''upload_cleanup_loop'' n s = s"
  shows "\<exists>s' j'. execute E j c (s, w) = (Inr (), (s', w)) \<and> find_job (j_id j) s' = Some j' \<and> j_status j' = COMPLETED
    \<and> map (\<lambda>u. (up_id u, up_status u, up_error u)) (uploads s')
      = map (\<lambda>u. if up_id u \<in> up_id ` set (expired_uploads (we_clock E 2) (UPLOAD_CLEANUP_BATCH_SIZE (cfg s)) s)
               then (up_id u, UP_FAILED, Some ''Upload session expired'')
               else (up_id u, up_status u, up_error u)) (uploads s)"
proof -
  let ?s1 = "recordEvent (we_clock E 1) (j_id j) (ev ''upload_cleanup.started'' ''Upload cleanup started.'' None
      (JObj [(''reason'', JStr (reason_str (mp_reason p))), (''batchSize'', jint (UPLOAD_CLEANUP_BATCH_SIZE (cfg s)))])) s"
  let ?us = "expired_uploads (we_clock E 2) (UPLOAD_CLEANUP_BATCH_SIZE (cfg s)) s"
  have u: "undisturbed (j_id j) ?s1" using start by (auto simp: undisturbed_def isCancelRequested_def at_work_event)
  have "set ?us \<subseteq> set (uploads s)"
    using set_take_int [of "UPLOAD_CLEANUP_BATCH_SIZE (cfg s)"
        "filter (\<lambda>u. up_status u \<in> {UP_INITIATED, UP_IN_PROGRESS} \<and> up_expiresAt u < we_clock E 2) (uploads s)"]
    by (auto simp: expired_uploads_def)
  then have "(up_id \<circ> fst) ` set (map (\<lambda>u. (u, bucket_of s u)) ?us) \<subseteq> up_id ` set (uploads ?s1)" by auto
  from loop_undisturbed [OF quiet u this, of p "length ?us" 0 w]
  obtain s2 where s2: "cleanup_loop E (j_id j) p (length ?us) 0 (map (\<lambda>u. (u, bucket_of s u)) ?us) (?s1, w) = (Inr (), (s2, w))"
    "undisturbed (j_id j) s2"
    "map upload_state (uploads s2) = map (expired_state ((up_id \<circ> fst) ` set (map (\<lambda>u. (u, bucket_of s u)) ?us))) (map upload_state (uploads ?s1))"
    by blast
  have ids: "(up_id \<circ> fst) ` set (map (\<lambda>u. (u, bucket_of s u)) ?us) = up_id ` set ?us" by force
  from s2(2) obtain row where row: "find_job (j_id j) s2 = Some row" by (auto simp: undisturbed_def at_work_def)
  from cleanup_execution [OF pay ty start(2) s2(1) row, of c] s2(3) show ?thesis
    unfolding ids by (auto simp: upload_state_def [abs_def] expired_state_def)
qed

theorem upload_cleanup_expires_witness:
  "\<exists>s' j'. execute (quiet_env (\<lambda>_ _ s. s) (\<lambda>_. throw (PlainError ''offline''))) cleanup_job ''c'' (cleanup_app, ())
      = (Inr (), (s', ())) \<and> find_job ''j1'' s' = Some j' \<and> j_status j' = COMPLETED
    \<and> map up_status (uploads s') = [UP_FAILED]"
proof -
  let ?E = "quiet_env (\<lambda>_ _ s. s) (\<lambda>_. throw (PlainError ''offline'')) :: unit worker_env"
  have q: "we_meddle ?E ''upload_cleanup_loop'' n s = s" for s n by (simp add: quiet_env_def)
  have k: "we_clock ?E 2 = 1002" "j_id cleanup_job = ''j1''" "uploads cleanup_app = [expired_upload]"
    by (simp_all add: quiet_env_def cleanup_job_def running_job_def cleanup_app_def)
  from upload_cleanup_expires [OF cleanup_app_facts q, of "''c''" "()"]
  obtain s' j' where r: "execute ?E cleanup_job ''c'' (cleanup_app, ()) = (Inr (), (s', ()))" "find_job ''j1'' s' = Some j'"
    "j_status j' = COMPLETED" and m: "map (\<lambda>u. (up_id u, up_status u, up_error u)) (uploads s')
      = [(''up1'', UP_FAILED, Some ''Upload session expired'')]"
    by (auto simp: k cleanup_app_expired) (auto simp: expired_upload_def)
  from arg_cong [OF m, of "map (fst \<circ> snd)"] r show ?thesis by (auto simp: comp_def)
qed

end
