(* ===== verification/Authz.thy ===== *)
theory Authz
  imports AuditLog Crypto S3Types
begin

text \<open>
  Who may do what: \<open>apps/api/src/authorization/\<close> (the service, the role guard and the bucket
  permission guard), \<open>apps/api/src/auth/session.service.ts\<close> with the session and CSRF guards, and the
  order in which \<open>app.module.ts\<close> and the controllers apply the guards. The cookie parser is a
  parameter (package \<open>cookie\<close>), as are the random bytes. An operation reads the clock once.
\<close>

section \<open>The authorization service\<close>

definition requireRole :: "session_user option \<Rightarrow> app_role list \<Rightarrow> (app, unit) eff" where
  "requireRole user allowed = (case user of
     None \<Rightarrow> throw (ForbiddenException ''Not authenticated'')
   | Some u \<Rightarrow> require (su_role u \<in> set allowed) (ForbiddenException ''Insufficient role''))"

definition has_grant :: "app \<Rightarrow> string \<Rightarrow> string \<Rightarrow> bucket_permission \<Rightarrow> bool" where
  "has_grant s userId bucketId p \<longleftrightarrow>
     list_ex (\<lambda>g. g_userId g = userId \<and> g_bucketId g = bucketId \<and> g_permission g = p) (grants s)"

definition missing_permission :: "bucket_permission \<Rightarrow> string \<Rightarrow> http_error" where
  "missing_permission p bucketName = ForbiddenException
     (''Missing permission '' @ permission_code p @ '' on bucket '' @ bucketName)"

definition requireBucketPermission ::
  "session_user option \<Rightarrow> string option \<Rightarrow> bucket_permission \<Rightarrow> (app, unit) eff" where
  "requireBucketPermission user bucketName p = (case user of
     None \<Rightarrow> throw (ForbiddenException ''Not authenticated'')
   | Some u \<Rightarrow>
       if su_role u = SUPER_ADMIN then ok ()
       else if \<not> truthy bucketName then throw (ForbiddenException ''Missing bucket scope'')
       else bind_eff (reads (\<lambda>s. find (\<lambda>b. b_name b = or_else bucketName []) (buckets s))) (\<lambda>found.
            bind_eff (need found (ForbiddenException ''Unknown bucket'')) (\<lambda>bucket.
            bind_eff (reads (\<lambda>s. has_grant s (su_id u) (b_id bucket) p)) (\<lambda>granted.
              require granted (missing_permission p (or_else bucketName []))))))"

text \<open>\<open>orderBy: {name: "asc"}\<close>: \<open>collate\<close> is the sort key that the database's collation gives a name.\<close>

definition listAccessibleBuckets :: "(string \<Rightarrow> string) \<Rightarrow> session_user \<Rightarrow> app \<Rightarrow> bucket_row list" where
  "listAccessibleBuckets collate u s =
     (if su_role u = SUPER_ADMIN then sort_key (\<lambda>b. collate (b_name b)) (buckets s)
      else sort_key (\<lambda>b. collate (b_name b)) (filter (\<lambda>b. has_grant s (su_id u) (b_id b) P_bucket_list) (buckets s)))"

section \<open>Requests and routes\<close>

datatype header = H_absent | H_one string | H_many "string list"

record api_request =
  rq_method :: string
  rq_cookie :: "string option"
  rq_csrfHeader :: header
  rq_query :: json
  rq_body :: json
  rq_params :: json
  rq_user :: "session_user option"
  rq_sessionId :: "string option"
  rq_csrfToken :: "string option"

datatype req_source = From_query | From_body | From_params

record bucket_requirement =
  bq_permission :: bucket_permission
  bq_field :: string
  bq_source :: req_source

text \<open>The metadata the decorators \<open>Public\<close>, \<open>RequireRoles\<close> and \<open>RequireBucketPermission\<close> leave on a route.\<close>

record route =
  rt_public :: bool
  rt_roles :: "app_role list option"
  rt_bucket :: "bucket_requirement option"

fun rq_part :: "req_source \<Rightarrow> api_request \<Rightarrow> json" where
  "rq_part From_query r = rq_query r"
| "rq_part From_body r = rq_body r"
| "rq_part From_params r = rq_params r"

text \<open>\<open>String(value)\<close>. Numbers are rendered by \<open>num\<close>. An object with a \<open>toString\<close> of its own has no
  primitive value, since JSON holds no functions; in an array \<open>null\<close> and \<open>undefined\<close> are empty.\<close>

fun js_string :: "(rat \<Rightarrow> string) \<Rightarrow> json \<Rightarrow> string res"
  and js_join :: "(rat \<Rightarrow> string) \<Rightarrow> json list \<Rightarrow> string res" where
  "js_string num JUndef = Inr ''undefined''"
| "js_string num JNull = Inr ''null''"
| "js_string num (JBool b) = Inr (if b then ''true'' else ''false'')"
| "js_string num (JNum n) = Inr (num n)"
| "js_string num (JStr s) = Inr s"
| "js_string num (JOther t) = Inr t"
| "js_string num (JArr vs) = js_join num vs"
| "js_string num (JObj kvs) = (if ''toString'' \<in> fst ` set kvs
     then Inl (PlainError ''Cannot convert object to primitive value'') else Inr ''[object Object]'')"
| "js_join num [] = Inr []"
| "js_join num (v # vs) =
     (case (if v = JNull \<or> v = JUndef then Inr [] else js_string num v) of
        Inl e \<Rightarrow> Inl e
      | Inr x \<Rightarrow> (if vs = [] then Inr x
                  else case js_join num vs of Inl e \<Rightarrow> Inl e | Inr y \<Rightarrow> Inr (x @ '','' @ y)))"

text \<open>\<open>String(request[source]?.[field] ?? "")\<close>, and \<open>|| undefined\<close>.\<close>

definition guarded_bucket :: "(rat \<Rightarrow> string) \<Rightarrow> bucket_requirement \<Rightarrow> api_request \<Rightarrow> string option res" where
  "guarded_bucket num q r = (let v = jget (rq_part (bq_source q) r) (bq_field q) in
     case js_string num (if v = JNull \<or> v = JUndef then JStr [] else v) of
       Inl e \<Rightarrow> Inl e
     | Inr name \<Rightarrow> Inr (if name = [] then None else Some name))"

definition bucket_guard :: "(rat \<Rightarrow> string) \<Rightarrow> route \<Rightarrow> api_request \<Rightarrow> (app, unit) eff" where
  "bucket_guard num rt r = (case rt_bucket rt of
     None \<Rightarrow> ok ()
   | Some q \<Rightarrow> bind_eff (lift_res (guarded_bucket num q r)) (\<lambda>name.
       requireBucketPermission (rq_user r) name (bq_permission q)))"

definition role_guard :: "route \<Rightarrow> api_request \<Rightarrow> (app, unit) eff" where
  "role_guard rt r = (case rt_roles rt of
     None \<Rightarrow> ok ()
   | Some required \<Rightarrow> if required = [] then ok () else requireRole (rq_user r) required)"

section \<open>Sessions\<close>

text \<open>\<open>token\<close> and \<open>csrf\<close> are the hex strings of the two calls of \<open>randomBytes\<close>.\<close>

definition createSession ::
  "crypto \<Rightarrow> int \<Rightarrow> string \<Rightarrow> string \<Rightarrow> string \<Rightarrow> string option \<Rightarrow> string option \<Rightarrow> (app, string \<times> string) eff" where
  "createSession cr now token csrf userId ip agent = (\<lambda>s.
     (Inr (token, csrf), bump_id (s\<lparr>sessions := sessions s @
        [\<lparr>s_id = new_id s, s_tokenHash = hashToken cr token, s_csrfToken = csrf, s_userId = userId,
          s_ipAddress = ip, s_userAgent = agent, s_lastSeenAt = now,
          s_expiresAt = now + SESSION_TTL_HOURS (cfg s) * 60 * 60 * 1000, s_revokedAt = None\<rparr>]\<rparr>)))"

record resolved_session =
  rs_user :: session_user
  rs_sessionId :: string
  rs_csrfToken :: string

definition user_of_row :: "user_row \<Rightarrow> session_user" where
  "user_of_row u = \<lparr>su_id = u_id u, su_username = u_username u, su_email = u_email u,
     su_role = u_role u, su_displayName = u_displayName u\<rparr>"

definition session_live :: "int \<Rightarrow> session_row \<Rightarrow> user_row \<Rightarrow> bool" where
  "session_live now x u \<longleftrightarrow> s_revokedAt x = None \<and> \<not> s_expiresAt x < now \<and> u_isActive u"

text \<open>The row's user exists: \<open>Session.userId\<close> is a foreign key, and deleting a user deletes its sessions.\<close>

definition getSessionUser :: "crypto \<Rightarrow> int \<Rightarrow> string \<Rightarrow> (app, resolved_session option) eff" where
  "getSessionUser cr now token = (\<lambda>s.
     case find (\<lambda>x. s_tokenHash x = hashToken cr token) (sessions s) of
       None \<Rightarrow> (Inr None, s)
     | Some x \<Rightarrow> (case find (\<lambda>u. u_id u = s_userId x) (users s) of
         None \<Rightarrow> (Inr None, s)
       | Some u \<Rightarrow>
           if \<not> session_live now x u then (Inr None, s)
           else (Inr (Some \<lparr>rs_user = user_of_row u, rs_sessionId = s_id x, rs_csrfToken = s_csrfToken x\<rparr>),
                 s\<lparr>sessions := tb_update (\<lambda>y. s_id y = s_id x) (\<lambda>y. y\<lparr>s_lastSeenAt := now\<rparr>) (sessions s)\<rparr>)))"

definition revokeSession :: "int \<Rightarrow> string \<Rightarrow> app \<Rightarrow> app" where
  "revokeSession now sessionId s =
     s\<lparr>sessions := tb_update (\<lambda>x. s_id x = sessionId \<and> s_revokedAt x = None) (\<lambda>x. x\<lparr>s_revokedAt := Some now\<rparr>) (sessions s)\<rparr>"

section \<open>The guards of every route\<close>

definition session_guard ::
  "crypto \<Rightarrow> (string \<Rightarrow> string \<Rightarrow> string option) \<Rightarrow> string \<Rightarrow> int \<Rightarrow> route \<Rightarrow> api_request \<Rightarrow> (app, api_request) eff" where
  "session_guard cr parse_cookie cookieName now rt r =
     (if rt_public rt then ok r
      else let token = parse_cookie (or_else (rq_cookie r) []) cookieName in
        if \<not> truthy token then throw (UnauthorizedException ''Not authenticated'')
        else bind_eff (getSessionUser cr now (or_else token [])) (\<lambda>resolved.
          case resolved of
            None \<Rightarrow> throw (UnauthorizedException ''Session expired or invalid'')
          | Some x \<Rightarrow> ok (r\<lparr>rq_user := Some (rs_user x), rq_sessionId := Some (rs_sessionId x),
                            rq_csrfToken := Some (rs_csrfToken x)\<rparr>)))"

definition SAFE_METHODS :: "string list" where
  "SAFE_METHODS = [''GET'', ''HEAD'', ''OPTIONS'']"

definition upper_char :: "char \<Rightarrow> char" where
  "upper_char c = (let n = (of_char c :: nat) in if 97 \<le> n \<and> n \<le> 122 then char_of (n - 32) else c)"

definition to_upper :: "string \<Rightarrow> string" where
  "to_upper s = map upper_char s"

fun header_token :: "header \<Rightarrow> string option" where
  "header_token H_absent = None"
| "header_token (H_one t) = Some t"
| "header_token (H_many ts) = (case ts of [] \<Rightarrow> None | t # _ \<Rightarrow> Some t)"

definition csrf_guard :: "route \<Rightarrow> api_request \<Rightarrow> (app, unit) eff" where
  "csrf_guard rt r =
     (if rt_public rt then ok ()
      else if to_upper (rq_method r) \<in> set SAFE_METHODS then ok ()
      else let token = header_token (rq_csrfHeader r) in
        require (truthy token \<and> truthy (rq_csrfToken r) \<and> token = rq_csrfToken r)
          (ForbiddenException ''CSRF validation failed''))"

text \<open>The global guards in the order of \<open>app.module.ts\<close>, then those of the controller.\<close>

definition admit ::
  "crypto \<Rightarrow> (string \<Rightarrow> string \<Rightarrow> string option) \<Rightarrow> (rat \<Rightarrow> string) \<Rightarrow> string \<Rightarrow> int \<Rightarrow> route \<Rightarrow> api_request
    \<Rightarrow> (app, api_request) eff" where
  "admit cr parse_cookie num cookieName now rt r =
     bind_eff (session_guard cr parse_cookie cookieName now rt r) (\<lambda>r1.
     seq_eff (csrf_guard rt r1) (seq_eff (bucket_guard num rt r1) (seq_eff (role_guard rt r1) (ok r1))))"

end
