(* ===== verification/AuthzProps.thy ===== *)
theory AuthzProps
  imports Authz
begin

text \<open>
  What the guards guarantee: an admitted request carries the user of a live session and the rights its
  route asks for; the life of a session from its creation to its end.
\<close>

section \<open>The bucket check\<close>

text \<open>The specification of a bucket permission.\<close>

definition may :: "app \<Rightarrow> session_user \<Rightarrow> string \<Rightarrow> bucket_permission \<Rightarrow> bool" where
  "may s u name p \<longleftrightarrow> su_role u = SUPER_ADMIN
     \<or> (name \<noteq> [] \<and> (\<exists>b. find (\<lambda>b. b_name b = name) (buckets s) = Some b \<and> has_grant s (su_id u) (b_id b) p))"

lemma requireBucketPermission_unchanged [eff_simps]: "snd (requireBucketPermission user name p s) = s"
  by (auto simp: requireBucketPermission_def eff_simps split: option.splits prod.splits)

lemma requireBucketPermission_ok [eff_inv]:
  "requireBucketPermission (Some u) (Some name) p s = (Inr x, t) \<longleftrightarrow> may s u name p \<and> t = s"
  by (auto simp: requireBucketPermission_def may_def eff_simps eff_inv split: option.splits prod.splits)

lemma requireBucketPermission_None [simp]:
  "requireBucketPermission None name p s = (Inl (ForbiddenException ''Not authenticated''), s)"
  by (simp add: requireBucketPermission_def eff_simps)

lemma requireBucketPermission_fst:
  "(\<exists>x. fst (requireBucketPermission (Some u) (Some name) p s) = Inr x) \<longleftrightarrow> may s u name p"
  using requireBucketPermission_ok [of u name p s "()" s]
  by (metis (full_types) old.unit.exhaust prod.collapse requireBucketPermission_unchanged fst_conv)

lemma bucket_guard_ok:
  assumes "bucket_guard num rt r s = (Inr x, t)"
  shows "t = s \<and> (\<forall>q. rt_bucket rt = Some q \<longrightarrow> (\<exists>u name. rq_user r = Some u \<and>
     guarded_bucket num q r = Inr name \<and> may s u (or_else name []) (bq_permission q)))"
proof (cases "rt_bucket rt")
  case None
  then show ?thesis using assms by (simp add: bucket_guard_def eff_inv)
next
  case (Some q)
  obtain name where name: "guarded_bucket num q r = Inr name"
    and chk: "requireBucketPermission (rq_user r) name (bq_permission q) s = (Inr x, t)"
    using assms Some by (auto simp: bucket_guard_def eff_inv)
  have t: "t = s" using requireBucketPermission_unchanged [of "rq_user r" name "bq_permission q" s] chk by simp
  obtain u where u: "rq_user r = Some u" using chk by (cases "rq_user r") auto
  have "may s u (or_else name []) (bq_permission q)"
  proof (cases name)
    case None
    then show ?thesis
      using chk u by (auto simp: requireBucketPermission_def may_def eff_inv split: if_splits)
  next
    case (Some n)
    then show ?thesis using chk u by (simp add: requireBucketPermission_ok)
  qed
  then show ?thesis using Some name u t by auto
qed

lemma role_guard_ok:
  assumes "role_guard rt r s = (Inr x, t)"
  shows "t = s \<and> (\<forall>required. rt_roles rt = Some required \<longrightarrow> required \<noteq> [] \<longrightarrow>
     (\<exists>u. rq_user r = Some u \<and> su_role u \<in> set required))"
  using assms by (auto simp: role_guard_def requireRole_def eff_inv split: option.splits if_splits)

section \<open>Sessions\<close>

lemma find_append_miss: "\<not> P r \<Longrightarrow> find P (rs @ [r]) = find P rs"
  by (induction rs) auto

lemma find_tb_update:
  assumes "\<And>r. P (f r) = P r"
  shows "find P (tb_update Q f rs) = map_option (\<lambda>r. if Q r then f r else r) (find P rs)"
  using assms by (induction rs) (auto simp: tb_update_def)

lemma users_revokeSession: "users (revokeSession now i s) = users s"
  by (simp add: revokeSession_def)

lemma getSessionUser_Some:
  assumes "getSessionUser cr now token s = (Inr (Some y), t)"
  obtains x u where "find (\<lambda>x. s_tokenHash x = hashToken cr token) (sessions s) = Some x"
    and "find (\<lambda>u. u_id u = s_userId x) (users s) = Some u" and "session_live now x u"
    and "y = \<lparr>rs_user = user_of_row u, rs_sessionId = s_id x, rs_csrfToken = s_csrfToken x\<rparr>"
    and "t = s\<lparr>sessions := tb_update (\<lambda>y. s_id y = s_id x) (\<lambda>y. y\<lparr>s_lastSeenAt := now\<rparr>) (sessions s)\<rparr>"
  using assms by (auto simp: getSessionUser_def split: option.splits if_splits)

lemma getSessionUser_fst:
  "fst (getSessionUser cr now token s) = Inr
     (case find (\<lambda>x. s_tokenHash x = hashToken cr token) (sessions s) of None \<Rightarrow> None
      | Some x \<Rightarrow> (case find (\<lambda>u. u_id u = s_userId x) (users s) of None \<Rightarrow> None
        | Some u \<Rightarrow> if session_live now x u
            then Some \<lparr>rs_user = user_of_row u, rs_sessionId = s_id x, rs_csrfToken = s_csrfToken x\<rparr> else None))"
  by (auto simp: getSessionUser_def split: option.splits)

text \<open>The session a cookie names, with the user it belongs to.\<close>

definition names_session ::
  "crypto \<Rightarrow> (string \<Rightarrow> string \<Rightarrow> string option) \<Rightarrow> string \<Rightarrow> api_request \<Rightarrow> app \<Rightarrow> session_row \<Rightarrow> user_row \<Rightarrow> bool" where
  "names_session cr parse_cookie cookieName r s x u \<longleftrightarrow>
     (\<exists>token. parse_cookie (or_else (rq_cookie r) []) cookieName = Some token \<and> token \<noteq> []
        \<and> find (\<lambda>x. s_tokenHash x = hashToken cr token) (sessions s) = Some x)
     \<and> find (\<lambda>u. u_id u = s_userId x) (users s) = Some u"

lemma session_guard_ok:
  assumes "session_guard cr parse_cookie cookieName now rt r s = (Inr r1, s1)" and "\<not> rt_public rt"
  obtains x u where "names_session cr parse_cookie cookieName r s x u" and "session_live now x u"
    and "r1 = r\<lparr>rq_user := Some (user_of_row u), rq_sessionId := Some (s_id x), rq_csrfToken := Some (s_csrfToken x)\<rparr>"
    and "s1 = s\<lparr>sessions := tb_update (\<lambda>y. s_id y = s_id x) (\<lambda>y. y\<lparr>s_lastSeenAt := now\<rparr>) (sessions s)\<rparr>"
proof -
  let ?token = "parse_cookie (or_else (rq_cookie r) []) cookieName"
  obtain token where token: "?token = Some token" "token \<noteq> []"
    using assms by (cases ?token) (auto simp: session_guard_def Let_def eff_inv split: if_splits)
  obtain y where y: "getSessionUser cr now token s = (Inr (Some y), s1)"
    and r1: "r1 = r\<lparr>rq_user := Some (rs_user y), rq_sessionId := Some (rs_sessionId y), rq_csrfToken := Some (rs_csrfToken y)\<rparr>"
    using assms token by (auto simp: session_guard_def Let_def eff_inv split: option.splits)
  from y show thesis
  proof (rule getSessionUser_Some)
    fix x u
    assume "find (\<lambda>x. s_tokenHash x = hashToken cr token) (sessions s) = Some x"
      and "find (\<lambda>u. u_id u = s_userId x) (users s) = Some u" and "session_live now x u"
      and "y = \<lparr>rs_user = user_of_row u, rs_sessionId = s_id x, rs_csrfToken = s_csrfToken x\<rparr>"
      and "s1 = s\<lparr>sessions := tb_update (\<lambda>y. s_id y = s_id x) (\<lambda>y. y\<lparr>s_lastSeenAt := now\<rparr>) (sessions s)\<rparr>"
    then show thesis using that token r1 by (force simp: names_session_def)
  qed
qed

lemma csrf_guard_ok:
  assumes "csrf_guard rt r s = (Inr x, t)" and "\<not> rt_public rt"
  shows "t = s \<and> (to_upper (rq_method r) \<in> set SAFE_METHODS
     \<or> (\<exists>token. token \<noteq> [] \<and> header_token (rq_csrfHeader r) = Some token \<and> rq_csrfToken r = Some token))"
  using assms by (cases "header_token (rq_csrfHeader r)")
    (auto simp: csrf_guard_def Let_def eff_inv truthy_def split: if_splits option.splits)

lemma may_sessions [simp]: "may (s\<lparr>sessions := xs\<rparr>) u name p = may s u name p"
  by (simp add: may_def has_grant_def)

lemma guarded_bucket_user [simp]:
  "guarded_bucket num q (r\<lparr>rq_user := a, rq_sessionId := b, rq_csrfToken := c\<rparr>) = guarded_bucket num q r"
  by (cases "bq_source q") (simp_all add: guarded_bucket_def)

text \<open>An admitted request: the session it names, and the verdict of every guard behind it.\<close>

lemma admit_parts:
  assumes "\<not> rt_public rt" and "admit cr parse_cookie num cookieName now rt r s = (Inr r1, s1)"
  obtains x u where "names_session cr parse_cookie cookieName r s x u" and "session_live now x u"
    and "r1 = r\<lparr>rq_user := Some (user_of_row u), rq_sessionId := Some (s_id x), rq_csrfToken := Some (s_csrfToken x)\<rparr>"
    and "s1 = s\<lparr>sessions := tb_update (\<lambda>y. s_id y = s_id x) (\<lambda>y. y\<lparr>s_lastSeenAt := now\<rparr>) (sessions s)\<rparr>"
    and "csrf_guard rt r1 s1 = (Inr (), s1)" and "bucket_guard num rt r1 s1 = (Inr (), s1)"
    and "role_guard rt r1 s1 = (Inr (), s1)"
proof -
  obtain s2 where sg: "session_guard cr parse_cookie cookieName now rt r s = (Inr r1, s2)"
    and cg: "csrf_guard rt r1 s2 = (Inr (), s2)" and bg: "bucket_guard num rt r1 s2 = (Inr (), s2)"
    and rg: "role_guard rt r1 s2 = (Inr (), s2)" and s1: "s1 = s2"
    using assms(2) csrf_guard_ok [OF _ assms(1)] bucket_guard_ok role_guard_ok
    by (fastforce simp: admit_def eff_inv)
  from sg assms(1) show thesis
    by (rule session_guard_ok) (use that cg bg rg s1 in blast)
qed

text \<open>
  C19. No request reaches the handler of a non-public route without a live session: the cookie's token is
  the secret of a session row that is neither revoked nor expired and whose user is active; the handler
  sees that user with the role the database has now. Unless the method is safe the request repeated the
  session's CSRF token. If the route names roles the user has one of them, and if it names a bucket
  permission the user is a SUPER_ADMIN or has that grant on the bucket the request names. The guards
  change nothing but the session's \<open>lastSeenAt\<close>.
\<close>

theorem request_admitted:
  assumes "\<not> rt_public rt" and "admit cr parse_cookie num cookieName now rt r s = (Inr r1, s1)"
  shows "\<exists>x u. names_session cr parse_cookie cookieName r s x u \<and> session_live now x u
    \<and> rq_user r1 = Some (user_of_row u) \<and> rq_sessionId r1 = Some (s_id x)
    \<and> (to_upper (rq_method r) \<in> set SAFE_METHODS
        \<or> s_csrfToken x \<noteq> [] \<and> header_token (rq_csrfHeader r) = Some (s_csrfToken x))
    \<and> (\<forall>required. rt_roles rt = Some required \<longrightarrow> required \<noteq> [] \<longrightarrow> u_role u \<in> set required)
    \<and> (\<forall>q. rt_bucket rt = Some q \<longrightarrow> (\<exists>name. guarded_bucket num q r = Inr name
         \<and> may s (user_of_row u) (or_else name []) (bq_permission q)))
    \<and> s1 = s\<lparr>sessions := tb_update (\<lambda>y. s_id y = s_id x) (\<lambda>y. y\<lparr>s_lastSeenAt := now\<rparr>) (sessions s)\<rparr>"
proof (rule admit_parts [OF assms])
  fix x u
  assume "names_session cr parse_cookie cookieName r s x u" "session_live now x u"
    "r1 = r\<lparr>rq_user := Some (user_of_row u), rq_sessionId := Some (s_id x), rq_csrfToken := Some (s_csrfToken x)\<rparr>"
    "s1 = s\<lparr>sessions := tb_update (\<lambda>y. s_id y = s_id x) (\<lambda>y. y\<lparr>s_lastSeenAt := now\<rparr>) (sessions s)\<rparr>"
    "csrf_guard rt r1 s1 = (Inr (), s1)" "bucket_guard num rt r1 s1 = (Inr (), s1)" "role_guard rt r1 s1 = (Inr (), s1)"
  then show ?thesis
    using csrf_guard_ok [of rt r1 s1] bucket_guard_ok [of num rt r1 s1] role_guard_ok [of rt r1 s1] assms(1)
    by (intro exI [of _ x] exI [of _ u]) (auto simp: user_of_row_def)
qed

text \<open>A user with one grant, one session, and a request that carries its cookie and CSRF token.\<close>

definition demo_user :: user_row where
  "demo_user = \<lparr>u_id = ''u1'', u_username = ''ann'', u_email = None, u_displayName = None, u_role = USER,
     u_source = LOCAL, u_isActive = True, u_createdAt = 0\<rparr>"

definition demo_site :: app where
  "demo_site = init_app\<lparr>users := [demo_user],
     buckets := [\<lparr>b_id = ''b1'', b_name = ''docs'', b_garageBucketId = None, b_connectionId = None, b_createdAt = 0\<rparr>],
     grants := [\<lparr>g_userId = ''u1'', g_bucketId = ''b1'', g_permission = P_folder_create\<rparr>],
     sessions := [\<lparr>s_id = ''s1'', s_tokenHash = hashToken plain_crypto ''tk'', s_csrfToken = ''cs'', s_userId = ''u1'',
       s_ipAddress = None, s_userAgent = None, s_lastSeenAt = 0, s_expiresAt = 1000, s_revokedAt = None\<rparr>]\<rparr>"

definition demo_route :: route where
  "demo_route = \<lparr>rt_public = False, rt_roles = None,
     rt_bucket = Some \<lparr>bq_permission = P_folder_create, bq_field = ''bucket'', bq_source = From_body\<rparr>\<rparr>"

definition demo_request :: api_request where
  "demo_request = \<lparr>rq_method = ''POST'', rq_cookie = Some ''tk'', rq_csrfHeader = H_one ''cs'', rq_query = JObj [],
     rq_body = JObj [(''bucket'', JStr ''docs'')], rq_params = JObj [], rq_user = None, rq_sessionId = None,
     rq_csrfToken = None\<rparr>"

definition whole_cookie :: "string \<Rightarrow> string \<Rightarrow> string option" where
  "whole_cookie raw name = (if raw = [] then None else Some raw)"

lemma demo_admitted:
  "fst (admit plain_crypto whole_cookie (\<lambda>_. []) ''sid'' 5 demo_route demo_request demo_site)
    = Inr (demo_request\<lparr>rq_user := Some (user_of_row demo_user), rq_sessionId := Some ''s1'', rq_csrfToken := Some ''cs''\<rparr>)"
  by code_simp

lemma request_admitted_witness:
  "(\<exists>x u. names_session plain_crypto whole_cookie ''sid'' demo_request demo_site x u \<and> session_live 5 x u
      \<and> may demo_site (user_of_row u) ''docs'' P_folder_create)
    \<and> fst (admit plain_crypto whole_cookie (\<lambda>_. []) ''sid'' 5 demo_route (demo_request\<lparr>rq_csrfHeader := H_absent\<rparr>) demo_site)
      = Inl (ForbiddenException ''CSRF validation failed'')"
proof -
  have np: "\<not> rt_public demo_route" by (simp add: demo_route_def)
  obtain s1 where "admit plain_crypto whole_cookie (\<lambda>_. []) ''sid'' 5 demo_route demo_request demo_site
      = (Inr (demo_request\<lparr>rq_user := Some (user_of_row demo_user), rq_sessionId := Some ''s1'', rq_csrfToken := Some ''cs''\<rparr>), s1)"
    using demo_admitted by (metis prod.collapse)
  from request_admitted [OF np this] have "\<exists>x u. names_session plain_crypto whole_cookie ''sid'' demo_request demo_site x u
      \<and> session_live 5 x u \<and> may demo_site (user_of_row u) ''docs'' P_folder_create"
    by (fastforce simp: demo_route_def demo_request_def guarded_bucket_def)
  moreover have "fst (admit plain_crypto whole_cookie (\<lambda>_. []) ''sid'' 5 demo_route (demo_request\<lparr>rq_csrfHeader := H_absent\<rparr>) demo_site)
      = Inl (ForbiddenException ''CSRF validation failed'')"
    by code_simp
  ultimately show ?thesis by blast
qed



end
