(* ===== verification/Files.thy ===== *)
theory Files
  imports Authz Worker S3Query
begin

text \<open>
  \<open>apps/api/src/files/files.service.ts\<close>: every file operation of the API checks a permission on its
  bucket, opens a client of the default connection, runs the operation of \<open>packages/s3\<close> and records
  metrics and audit rows; the multipart operations keep one row per upload. From
  \<open>files.controller.ts\<close> the handlers of deletion, renaming, folder creation and previews, which hand
  folders to the job queue; the other handlers are in \<open>FileRequests\<close>. The state is the database with the
  S3 service, as in \<open>Worker\<close>. An operation reads the clock once, spans are left out.
\<close>

record 'w files_env =
  fe_now :: int
  fe_crypto :: crypto
  fe_key :: string
  fe_rnd :: "nat \<Rightarrow> string"
  fe_client :: "s3_config \<Rightarrow> 'w s3_send"
  fe_sign :: "s3_config \<Rightarrow> 'w s3_sign"
  fe_fuel :: nat
  fe_sched :: "nat list"
  fe_compare :: "string \<Rightarrow> string \<Rightarrow> int"
  fe_zod_message :: "json \<Rightarrow> string"

section \<open>Shared steps\<close>

text \<open>\<open>requireBucketPermission\<close> of the signed-in user.\<close>

definition guard_bucket :: "session_user \<Rightarrow> string \<Rightarrow> bucket_permission \<Rightarrow> (app \<times> 'w, unit) eff" where
  "guard_bucket user bucket p = on_fst (requireBucketPermission (Some user) (Some bucket) p)"

definition delete_permission :: "string \<Rightarrow> bucket_permission" where
  "delete_permission key = (if ends_with key [slash] then P_folder_delete else P_object_delete)"

definition ensureDeletePermission :: "session_user \<Rightarrow> string \<Rightarrow> string \<Rightarrow> (app \<times> 'w, unit) eff" where
  "ensureDeletePermission user bucket key = guard_bucket user bucket (delete_permission key)"

definition rename_permission :: "string \<Rightarrow> bucket_permission" where
  "rename_permission oldKey = (if ends_with oldKey [slash] then P_folder_rename else P_object_rename)"

definition ensureRenamePermission :: "session_user \<Rightarrow> string \<Rightarrow> string \<Rightarrow> (app \<times> 'w, unit) eff" where
  "ensureRenamePermission user bucket oldKey = guard_bucket user bucket (rename_permission oldKey)"

definition client_config :: "connection_secrets \<Rightarrow> s3_config" where
  "client_config conn = \<lparr>s3_endpoint = cs_endpoint conn, s3_region = cs_region conn,
     s3_forcePathStyle = cs_forcePathStyle conn, s3_accessKeyId = cs_accessKeyId conn,
     s3_secretAccessKey = cs_secretAccessKey conn\<rparr>"

definition files_s3 :: "'w files_env \<Rightarrow> (app \<times> 'w, s3_config) eff" where
  "files_s3 E = bind_eff (on_fst (getDefaultConnectionWithSecrets (fe_crypto E) (fe_key E) (fe_rnd E) (fe_now E)))
     (\<lambda>conn. ok (client_config conn))"

definition files_audit ::
  "'w files_env \<Rightarrow> session_user \<Rightarrow> string \<Rightarrow> string \<Rightarrow> json \<Rightarrow> string option \<Rightarrow> (app \<times> 'w, unit) eff" where
  "files_audit E user action entityId metadata ip =
     audit_eff (fe_now E) user action ''object'' (Some entityId) metadata ip"

section \<open>Listing, folders, deletion, renaming, previews\<close>

definition files_list :: "'w files_env \<Rightarrow> session_user \<Rightarrow> string \<Rightarrow> string \<Rightarrow> list_options \<Rightarrow> (app \<times> 'w, list_result) eff" where
  "files_list E user bucket prf opts =
     seq_eff (guard_bucket user bucket P_object_list)
     (bind_eff (files_s3 E) (\<lambda>c. on_snd (listFiles (fe_compare E) (fe_client E c) prf bucket opts)))"

definition files_createFolder :: "'w files_env \<Rightarrow> session_user \<Rightarrow> string \<Rightarrow> string \<Rightarrow> string option \<Rightarrow> (app \<times> 'w, string) eff" where
  "files_createFolder E user bucket folderPath ip =
     seq_eff (guard_bucket user bucket P_folder_create)
     (bind_eff (files_s3 E) (\<lambda>c.
      bind_eff (on_snd (addFolder (fe_client E c) folderPath bucket)) (\<lambda>key.
      seq_eff (files_audit E user ''folder.create'' (bucket @ [slash] @ key)
                 (JObj [(''bucket'', JStr bucket), (''key'', JStr key)]) ip)
      (ok key))))"

text \<open>\<open>operation(...).catch(error => { recordS3Failure(...); throw error; })\<close>.\<close>

definition counting_failure :: "string \<Rightarrow> (app \<times> 'w, 'a) eff \<Rightarrow> (app \<times> 'w, 'a) eff" where
  "counting_failure op m = catch_eff m (\<lambda>error. seq_eff (add_metric_eff (MS3Failure op)) (throw error))"

definition files_remove :: "'w files_env \<Rightarrow> session_user \<Rightarrow> string \<Rightarrow> string \<Rightarrow> string option \<Rightarrow> (app \<times> 'w, delete_result) eff" where
  "files_remove E user bucket key ip =
     (let op = (if ends_with key [slash] then ''folder_delete'' else ''object_delete'') in
      seq_eff (ensureDeletePermission user bucket key)
      (bind_eff (files_s3 E) (\<lambda>c.
       bind_eff (counting_failure op (on_snd (deleteFileOrFolder (fe_client E c) (fe_fuel E) key bucket))) (\<lambda>result.
       seq_eff (add_metric_eff (MS3Duration op))
       (seq_eff (files_audit E user ''object.delete'' (bucket @ [slash] @ key) (JObj (delete_result_fields result)) ip)
       (ok result))))))"

definition files_rename ::
  "'w files_env \<Rightarrow> session_user \<Rightarrow> string \<Rightarrow> string \<Rightarrow> string \<Rightarrow> string option \<Rightarrow> (app \<times> 'w, rename_result) eff" where
  "files_rename E user bucket oldKey newKey ip =
     (let op = (if ends_with oldKey [slash] then ''folder_rename'' else ''object_rename'') in
      seq_eff (ensureRenamePermission user bucket oldKey)
      (bind_eff (files_s3 E) (\<lambda>c.
       bind_eff (counting_failure op
         (on_snd (renameFileOrFolder (fe_client E c) (fe_fuel E) (fe_sched E) oldKey newKey bucket))) (\<lambda>(result, _).
       seq_eff (add_metric_eff (MS3Duration op))
       (seq_eff (files_audit E user ''object.rename'' (bucket @ [slash] @ oldKey) (JObj (rename_result_fields result)) ip)
       (ok result))))))"

definition preview_permission :: "bool \<Rightarrow> bucket_permission" where
  "preview_permission download = (if download then P_object_download else P_object_preview)"

definition files_preview :: "'w files_env \<Rightarrow> session_user \<Rightarrow> string \<Rightarrow> string \<Rightarrow> bool \<Rightarrow> (app \<times> 'w, preview_result) eff" where
  "files_preview E user bucket key download =
     seq_eff (guard_bucket user bucket (preview_permission download))
     (bind_eff (files_s3 E) (\<lambda>c. on_snd (getFilePreview (fe_client E c) (fe_sign E c) key download bucket 900)))"

definition files_stats :: "'w files_env \<Rightarrow> session_user \<Rightarrow> string \<Rightarrow> string \<Rightarrow> (app \<times> 'w, folder_stats) eff" where
  "files_stats E user bucket prf =
     seq_eff (guard_bucket user bucket P_folder_stats)
     (bind_eff (files_s3 E) (\<lambda>c. on_snd (getFolderStats (fe_client E c) (fe_fuel E) prf bucket)))"

definition files_search ::
  "'w files_env \<Rightarrow> session_user \<Rightarrow> string \<Rightarrow> string \<Rightarrow> string \<Rightarrow> string option \<Rightarrow> int \<Rightarrow> (app \<times> 'w, search_result) eff" where
  "files_search E user bucket prf term_in token pageSize =
     seq_eff (guard_bucket user bucket P_search_run)
     (bind_eff (files_s3 E) (\<lambda>c. on_snd (searchFilesAndFolders (fe_client E c) prf term_in bucket token pageSize)))"

section \<open>Upload sessions\<close>

definition find_upload :: "string \<Rightarrow> app \<Rightarrow> upload_row option" where
  "find_upload i s = find (\<lambda>u. up_id u = i) (uploads s)"

definition update_upload :: "int \<Rightarrow> string \<Rightarrow> (upload_row \<Rightarrow> upload_row) \<Rightarrow> (app, unit) eff" where
  "update_upload now i f = (\<lambda>s. if find_upload i s = None then (Inl P2025, s)
     else (Inr (), s\<lparr>uploads := tb_update (\<lambda>u. up_id u = i) (\<lambda>u. (f u)\<lparr>up_updatedAt := now\<rparr>) (uploads s)\<rparr>))"

record init_input =
  ii_bucket :: string
  ii_key :: string
  ii_contentType :: "string option"
  ii_fileSize :: "int option"
  ii_partSize :: "int option"
  ii_totalParts :: "int option"
  ii_relativePath :: "string option"

definition part_size :: "config \<Rightarrow> init_input \<Rightarrow> int" where
  "part_size c i = or_else (ii_partSize i) (UPLOAD_PART_SIZE_BYTES c)"

definition total_parts :: "config \<Rightarrow> init_input \<Rightarrow> int option" where
  "total_parts c i = first_some (ii_totalParts i)
     (map_option (\<lambda>fileSize. max 1 (ceil_div fileSize (max (part_size c i) 1))) (ii_fileSize i))"

record init_reply =
  ir_uploadSessionId :: string
  ir_uploadId :: string
  ir_key :: string
  ir_bucket :: string

definition new_upload :: "int \<Rightarrow> config \<Rightarrow> string \<Rightarrow> string \<Rightarrow> string \<Rightarrow> init_input \<Rightarrow> init_result \<Rightarrow> upload_row" where
  "new_upload now c newId userId bucketId i r = \<lparr>up_id = newId, up_userId = userId, up_bucketId = bucketId,
     up_objectKey = mr_key r, up_uploadId = mr_uploadId r, up_status = UP_INITIATED, up_partsMeta = JArr [],
     up_completedParts = [], up_partSize = Some (part_size c i), up_totalParts = total_parts c i,
     up_fileSize = ii_fileSize i, up_contentType = ii_contentType i, up_relativePath = ii_relativePath i,
     up_error = None, up_lastActivityAt = now, up_createdAt = now, up_updatedAt = now,
     up_expiresAt = now + UPLOAD_SESSION_TTL_HOURS c * 60 * 60 * 1000\<rparr>"

definition create_upload :: "(string \<Rightarrow> config \<Rightarrow> upload_row) \<Rightarrow> (app, upload_row) eff" where
  "create_upload row = (\<lambda>s. (Inr (row (new_id s) (cfg s)), bump_id (s\<lparr>uploads := uploads s @ [row (new_id s) (cfg s)]\<rparr>)))"

definition initMultipartSession :: "'w files_env \<Rightarrow> session_user \<Rightarrow> init_input \<Rightarrow> (app \<times> 'w, init_reply) eff" where
  "initMultipartSession E user i =
     seq_eff (guard_bucket user (ii_bucket i) P_object_upload)
     (bind_eff (reads (\<lambda>sw. find (\<lambda>b. b_name b = ii_bucket i) (buckets (fst sw)))) (\<lambda>found.
      bind_eff (need found (NotFoundException ''Bucket not found in app database. Sync buckets first.'')) (\<lambda>bucket.
      bind_eff (files_s3 E) (\<lambda>c.
      bind_eff (on_snd (initMultipartUpload (fe_client E c)
        \<lparr>mi_bucket = ii_bucket i, mi_key = ii_key i, mi_contentType = ii_contentType i, mi_metadata = None\<rparr>)) (\<lambda>initialized.
      bind_eff (on_fst (create_upload (\<lambda>newId conf.
        new_upload (fe_now E) conf newId (su_id user) (b_id bucket) i initialized))) (\<lambda>session.
      seq_eff (add_metric_eff (MUpload UE_start))
      (ok \<lparr>ir_uploadSessionId = up_id session, ir_uploadId = mr_uploadId initialized, ir_key = mr_key initialized,
           ir_bucket = mr_bucket initialized\<rparr>)))))))"

text \<open>Only the owner and a SUPER_ADMIN reach a session; for reading also an ADMIN scoped to its bucket.\<close>

definition session_access :: "session_user \<Rightarrow> bool \<Rightarrow> upload_row \<Rightarrow> app \<Rightarrow> unit res" where
  "session_access user allowPrivilegedAccess u s =
     (if up_userId u = su_id user then Inr ()
      else if \<not> (su_role user = SUPER_ADMIN \<or> (allowPrivilegedAccess \<and> su_role user = ADMIN))
      then Inl (ForbiddenException ''Upload session not owned by user'')
      else if su_role user = ADMIN
           \<and> \<not> list_ex (\<lambda>sc. sc_adminUserId sc = su_id user \<and> sc_bucketId sc = up_bucketId u) (scopes s)
      then Inl (ForbiddenException ''ADMIN is not scoped to this upload session bucket'')
      else Inr ())"

definition getUploadSessionForUser :: "int \<Rightarrow> session_user \<Rightarrow> string \<Rightarrow> bool \<Rightarrow> (app, upload_row) eff" where
  "getUploadSessionForUser now user i allowPrivilegedAccess =
     bind_eff (reads (find_upload i)) (\<lambda>found.
     bind_eff (need found (NotFoundException ''Upload session not found'')) (\<lambda>u.
     seq_eff (\<lambda>s. (session_access user allowPrivilegedAccess u s, s))
     (seq_eff (require (\<not> (up_expiresAt u < now \<and> up_status u \<noteq> UP_COMPLETED \<and> up_status u \<noteq> UP_ABORTED))
                 (ForbiddenException ''Upload session expired''))
     (ok u))))"

definition upload_bucket :: "upload_row \<Rightarrow> (app, bucket_row) eff" where
  "upload_bucket u = bind_eff (reads (\<lambda>s. find (\<lambda>b. b_id b = up_bucketId u) (buckets s)))
     (\<lambda>found. need found (NotFoundException ''Bucket not found''))"

text \<open>The first steps of every operation on a session: its row, its bucket, the permission.\<close>

definition open_session :: "'w files_env \<Rightarrow> session_user \<Rightarrow> string \<Rightarrow> (app \<times> 'w, upload_row \<times> bucket_row) eff" where
  "open_session E user i =
     bind_eff (on_fst (getUploadSessionForUser (fe_now E) user i False)) (\<lambda>session.
     bind_eff (on_fst (upload_bucket session)) (\<lambda>bucket.
     seq_eff (guard_bucket user (b_name bucket) P_object_upload) (ok (session, bucket))))"

fun presign_parts ::
  "'w s3_sign \<Rightarrow> string \<Rightarrow> string \<Rightarrow> string \<Rightarrow> int list \<Rightarrow> ('w, part_spec list) eff" where
  "presign_parts sign bucket key uploadId [] = ok []"
| "presign_parts sign bucket key uploadId (n # ns) =
     bind_eff (presignMultipartPart sign bucket key uploadId n 900) (\<lambda>p.
     bind_eff (presign_parts sign bucket key uploadId ns) (\<lambda>ps. ok (p # ps)))"

definition signMultipartParts ::
  "'w files_env \<Rightarrow> session_user \<Rightarrow> string \<Rightarrow> int list \<Rightarrow> (app \<times> 'w, part_spec list) eff" where
  "signMultipartParts E user i partNumbers =
     bind_eff (open_session E user i) (\<lambda>(session, bucket).
     bind_eff (files_s3 E) (\<lambda>c.
     bind_eff (on_snd (presign_parts (fe_sign E c) (b_name bucket) (up_objectKey session) (up_uploadId session) partNumbers)) (\<lambda>parts.
     seq_eff (on_fst (update_upload (fe_now E) i (\<lambda>u. u\<lparr>up_status := UP_IN_PROGRESS,
        up_partsMeta := JArr (map jint partNumbers), up_lastActivityAt := fe_now E, up_error := None\<rparr>)))
     (ok parts))))"

definition part_json :: "complete_part \<Rightarrow> json" where
  "part_json p = JObj [(''partNumber'', jint (part_number p)), (''eTag'', JStr (part_eTag p))]"

definition complete_result_fields :: "complete_result \<Rightarrow> (string \<times> json) list" where
  "complete_result_fields r = [(''bucket'', JStr (mo_bucket r)), (''key'', JStr (mo_key r)),
     (''uploadId'', JStr (mo_uploadId r)), (''eTag'', case mo_eTag r of None \<Rightarrow> JUndef | Some e \<Rightarrow> JStr e)]"

definition completeMultipart ::
  "'w files_env \<Rightarrow> session_user \<Rightarrow> string \<Rightarrow> complete_part list \<Rightarrow> string option \<Rightarrow> (app \<times> 'w, complete_result) eff" where
  "completeMultipart E user i parts ip =
     bind_eff (open_session E user i) (\<lambda>(session, bucket).
     bind_eff (files_s3 E) (\<lambda>c.
     bind_eff (on_snd (completeMultipartUpload (fe_client E c)
       \<lparr>mc_bucket = b_name bucket, mc_key = up_objectKey session, mc_uploadId = up_uploadId session,
        mc_parts = map (\<lambda>p. (part_number p, part_eTag p)) parts\<rparr>)) (\<lambda>result.
     seq_eff (on_fst (update_upload (fe_now E) i (\<lambda>u. u\<lparr>up_status := UP_COMPLETED, up_completedParts := parts,
        up_partsMeta := JArr (map part_json parts), up_lastActivityAt := fe_now E, up_error := None\<rparr>)))
     (seq_eff (files_audit E user ''object.upload.complete'' (b_name bucket @ [slash] @ up_objectKey session)
        (JObj (complete_result_fields result)) ip)
     (seq_eff (add_metric_eff (MUpload UE_complete))
     (ok result))))))"

text \<open>Abort in the object store; its error is kept as a message.\<close>

definition try_abort :: "'w files_env \<Rightarrow> s3_config \<Rightarrow> bucket_row \<Rightarrow> upload_row \<Rightarrow> (app \<times> 'w, string option) eff" where
  "try_abort E c bucket session =
     catch_eff (seq_eff (on_snd (abortMultipartUpload (fe_client E c) (b_name bucket) (up_objectKey session) (up_uploadId session)))
                  (ok None))
       (\<lambda>error. ok (Some (err_message error)))"

definition abortMultipart :: "'w files_env \<Rightarrow> session_user \<Rightarrow> string \<Rightarrow> string option \<Rightarrow> (app \<times> 'w, string option) eff" where
  "abortMultipart E user i ip =
     bind_eff (open_session E user i) (\<lambda>(session, bucket).
     bind_eff (files_s3 E) (\<lambda>c.
     bind_eff (try_abort E c bucket session) (\<lambda>abortError.
     seq_eff (on_fst (update_upload (fe_now E) i (\<lambda>u. u\<lparr>up_status := UP_ABORTED,
        up_lastActivityAt := fe_now E, up_error := abortError\<rparr>)))
     (seq_eff (files_audit E user ''object.upload.abort'' (b_name bucket @ [slash] @ up_objectKey session)
        (JObj [(''abortError'', jstr_opt abortError)]) ip)
     (seq_eff (add_metric_eff (MUpload UE_abort))
     (ok abortError))))))"

definition failMultipart ::
  "'w files_env \<Rightarrow> session_user \<Rightarrow> string \<Rightarrow> string option \<Rightarrow> string option \<Rightarrow> (app \<times> 'w, string \<times> string option) eff" where
  "failMultipart E user i errorMessage ip =
     bind_eff (open_session E user i) (\<lambda>(session, bucket).
     bind_eff (files_s3 E) (\<lambda>c.
     bind_eff (try_abort E c bucket session) (\<lambda>abortError.
     seq_eff (on_fst (update_upload (fe_now E) i (\<lambda>u. u\<lparr>up_status := UP_FAILED, up_lastActivityAt := fe_now E,
        up_error := Some (or_else (first_some errorMessage abortError) ''Multipart upload failed'')\<rparr>)))
     (seq_eff (files_audit E user ''object.upload.failed'' (b_name bucket @ [slash] @ up_objectKey session)
        (JObj [(''error'', jstr_opt errorMessage), (''abortError'', jstr_opt abortError)]) ip)
     (seq_eff (add_metric_eff (MUpload UE_fail))
     (ok (or_else errorMessage ''Multipart upload failed'', abortError)))))))"

text \<open>\<open>Map.set\<close> keyed by the part number, in insertion order; the entries of the stored list are
  set first, so that the list is free of duplicate numbers.\<close>

definition put_part :: "complete_part \<Rightarrow> complete_part list \<Rightarrow> complete_part list" where
  "put_part p ps = (if part_number p \<in> part_number ` set ps
     then map (\<lambda>q. if part_number q = part_number p then p else q) ps else ps @ [p])"

definition merge_part :: "complete_part \<Rightarrow> complete_part list \<Rightarrow> complete_part list" where
  "merge_part p existing = sort_by (\<lambda>a b. part_number a - part_number b) (put_part p (fold put_part existing []))"

definition store_parts :: "int \<Rightarrow> string \<Rightarrow> complete_part list \<Rightarrow> (app, unit) eff" where
  "store_parts now i parts = update_upload now i (\<lambda>u. u\<lparr>up_status := UP_IN_PROGRESS,
     up_completedParts := parts, up_lastActivityAt := now\<rparr>)"

definition recordMultipartPart :: "'w files_env \<Rightarrow> session_user \<Rightarrow> string \<Rightarrow> complete_part \<Rightarrow> (app \<times> 'w, int list) eff" where
  "recordMultipartPart E user i input =
     bind_eff (open_session E user i) (\<lambda>(session, bucket).
     bind_eff (ok (merge_part input (up_completedParts session))) (\<lambda>completedParts.
     seq_eff (on_fst (store_parts (fe_now E) i completedParts))
     (ok (map part_number completedParts))))"

section \<open>Session queries\<close>

record upload_public =
  us_id :: string
  us_bucketId :: string
  us_bucketName :: string
  us_objectKey :: string
  us_uploadId :: string
  us_status :: upload_status
  us_partSize :: "int option"
  us_totalParts :: "int option"
  us_fileSize :: "string option"
  us_contentType :: "string option"
  us_completedPartNumbers :: "int list"
  us_completedParts :: "complete_part list"
  us_error :: "string option"
  us_createdAt :: int
  us_updatedAt :: int
  us_expiresAt :: int

definition toUploadSessionPublic :: "upload_row \<Rightarrow> string \<Rightarrow> upload_public" where
  "toUploadSessionPublic u bucketName = \<lparr>us_id = up_id u, us_bucketId = up_bucketId u, us_bucketName = bucketName,
     us_objectKey = up_objectKey u, us_uploadId = up_uploadId u, us_status = up_status u, us_partSize = up_partSize u,
     us_totalParts = up_totalParts u, us_fileSize = map_option int_to_string (up_fileSize u),
     us_contentType = up_contentType u,
     us_completedPartNumbers = sort_by (\<lambda>a b. a - b) (map part_number (up_completedParts u)),
     us_completedParts = sort_by (\<lambda>a b. part_number a - part_number b) (up_completedParts u),
     us_error = up_error u, us_createdAt = up_createdAt u, us_updatedAt = up_updatedAt u, us_expiresAt = up_expiresAt u\<rparr>"

record recover_input =
  ri_bucket :: string
  ri_key :: string
  ri_fileSize :: int
  ri_partSize :: int

definition recoverable :: "int \<Rightarrow> string \<Rightarrow> string \<Rightarrow> recover_input \<Rightarrow> upload_row \<Rightarrow> bool" where
  "recoverable now userId bucketId i u \<longleftrightarrow> up_userId u = userId \<and> up_bucketId u = bucketId \<and> up_objectKey u = ri_key i
     \<and> up_status u \<in> {UP_INITIATED, UP_IN_PROGRESS, UP_FAILED} \<and> up_expiresAt u > now
     \<and> up_partSize u = Some (ri_partSize i) \<and> up_fileSize u = Some (ri_fileSize i)"

definition findRecoverableSession ::
  "'w files_env \<Rightarrow> session_user \<Rightarrow> recover_input \<Rightarrow> (app \<times> 'w, upload_public option) eff" where
  "findRecoverableSession E user i =
     seq_eff (guard_bucket user (ri_bucket i) P_object_upload)
     (bind_eff (reads (\<lambda>sw. find (\<lambda>b. b_name b = ri_bucket i) (buckets (fst sw)))) (\<lambda>found.
       case found of
         None \<Rightarrow> ok None
       | Some bucket \<Rightarrow> bind_eff (reads (\<lambda>sw. order_desc up_createdAt
             (filter (recoverable (fe_now E) (su_id user) (b_id bucket) i) (uploads (fst sw))))) (\<lambda>existing.
           ok (case existing of [] \<Rightarrow> None | u # _ \<Rightarrow> Some (toUploadSessionPublic u (b_name bucket))))))"

text \<open>\<open>adminScopes: {some: {adminUserId}}\<close> of the row's bucket.\<close>

definition in_admin_scope :: "app \<Rightarrow> string \<Rightarrow> string \<Rightarrow> bool" where
  "in_admin_scope s adminUserId bucketId \<longleftrightarrow>
     list_ex (\<lambda>sc. sc_adminUserId sc = adminUserId \<and> sc_bucketId sc = bucketId) (scopes s)"

definition upload_visible :: "session_user \<Rightarrow> list_scope option \<Rightarrow> app \<Rightarrow> upload_row \<Rightarrow> bool" where
  "upload_visible user scope s u =
     (if scope = Some All \<and> su_role user = SUPER_ADMIN then True
      else if scope = Some All \<and> su_role user = ADMIN then in_admin_scope s (su_id user) (up_bucketId u)
      else up_userId u = su_id user)"

definition bucket_name :: "app \<Rightarrow> upload_row \<Rightarrow> string" where
  "bucket_name s u = (case find (\<lambda>b. b_id b = up_bucketId u) (buckets s) of None \<Rightarrow> [] | Some b \<Rightarrow> b_name b)"

text \<open>Every row has its bucket: the relation is a foreign key.\<close>

definition listMultipartSessions ::
  "session_user \<Rightarrow> upload_status list option \<Rightarrow> list_scope option \<Rightarrow> int option \<Rightarrow> app \<Rightarrow> upload_public list" where
  "listMultipartSessions user status scope limit s =
     map (\<lambda>u. toUploadSessionPublic u (bucket_name s u))
       (take_int (clamp 1 500 (or_else limit 100)) (order_desc up_updatedAt
         (filter (\<lambda>u. (or_else status [] = [] \<or> up_status u \<in> set (or_else status [])) \<and> upload_visible user scope s u)
            (uploads s))))"

definition getMultipartSession :: "int \<Rightarrow> session_user \<Rightarrow> string \<Rightarrow> (app, upload_public) eff" where
  "getMultipartSession now user i =
     bind_eff (getUploadSessionForUser now user i True) (\<lambda>session.
     bind_eff (upload_bucket session) (\<lambda>bucket. ok (toUploadSessionPublic session (b_name bucket))))"

definition fail_expired :: "int \<Rightarrow> upload_row \<Rightarrow> upload_row" where
  "fail_expired now u = u\<lparr>up_status := UP_FAILED, up_error := Some ''Upload session expired'', up_lastActivityAt := now\<rparr>"

definition cleanup_candidate :: "session_user \<Rightarrow> int \<Rightarrow> app \<Rightarrow> upload_row \<Rightarrow> bool" where
  "cleanup_candidate actor now s u \<longleftrightarrow> up_status u \<in> {UP_INITIATED, UP_IN_PROGRESS} \<and> up_expiresAt u < now
     \<and> (su_role actor = ADMIN \<longrightarrow> in_admin_scope s (su_id actor) (up_bucketId u))"

text \<open>The rows come without an order: \<open>take\<close> keeps the first ones the database returns.\<close>

definition cleanupExpiredMultipartSessions :: "int \<Rightarrow> session_user \<Rightarrow> int \<Rightarrow> (app, nat \<times> nat) eff" where
  "cleanupExpiredMultipartSessions now actor limit =
     seq_eff (require (su_role actor = SUPER_ADMIN \<or> su_role actor = ADMIN) (ForbiddenException ''Insufficient role''))
     (bind_eff (reads (\<lambda>s. take_int (clamp 1 500 limit) (filter (cleanup_candidate actor now s) (uploads s)))) (\<lambda>expired.
      seq_eff (for_each (\<lambda>u. update_upload now (up_id u) (fail_expired now)) expired)
      (ok (length expired, length expired))))"

section \<open>Deletion and renaming requests\<close>

definition createFolderSchema :: "json \<Rightarrow> (string \<times> string) option" where
  "createFolderSchema v = (if \<not> is_object v then None else
     bind_opt (z_string1 (jget v ''bucket'')) (\<lambda>b. bind_opt (z_string1 (jget v ''folderPath'')) (\<lambda>p. Some (b, p))))"

definition renameSchema :: "json \<Rightarrow> (string \<times> string \<times> string) option" where
  "renameSchema v = (if \<not> is_object v then None else
     bind_opt (z_string1 (jget v ''bucket'')) (\<lambda>b. bind_opt (z_string1 (jget v ''oldKey'')) (\<lambda>k.
     bind_opt (z_string1 (jget v ''newKey'')) (\<lambda>k'. Some (b, k, k')))))"

definition deleteSchema :: "json \<Rightarrow> (string \<times> string) option" where
  "deleteSchema v = (if \<not> is_object v then None else
     bind_opt (z_string1 (jget v ''bucket'')) (\<lambda>b. bind_opt (z_string1 (jget v ''key'')) (\<lambda>k. Some (b, k))))"

text \<open>\<open>z.union([z.boolean(), z.string().regex(/^(true|false)$/)])\<close> with its default.\<close>

fun z_flag :: "json \<Rightarrow> bool option" where
  "z_flag JUndef = Some False"
| "z_flag (JBool b) = Some b"
| "z_flag (JStr t) = (if t = ''true'' then Some True else if t = ''false'' then Some False else None)"
| "z_flag _ = None"

definition previewSchema :: "json \<Rightarrow> (string \<times> string \<times> bool) option" where
  "previewSchema v = (if \<not> is_object v then None else
     bind_opt (z_string1 (jget v ''bucket'')) (\<lambda>b. bind_opt (z_string1 (jget v ''key'')) (\<lambda>k.
     bind_opt (z_flag (jget v ''download'')) (\<lambda>d. Some (b, k, d)))))"

definition fe_parse :: "'w files_env \<Rightarrow> (json \<Rightarrow> 'a option) \<Rightarrow> json \<Rightarrow> (app \<times> 'w, 'a) eff" where
  "fe_parse E schema v = need (schema v) (PlainError (fe_zod_message E v))"

text \<open>What a handler answers: a result, a queued job, or the refusal without a user.\<close>

datatype 'a reply = Not_authenticated | Done 'a | Queued job_public

definition enqueue_eff :: "(app \<Rightarrow> job_public \<times> app) \<Rightarrow> (app \<times> 'w, job_public) eff" where
  "enqueue_eff f = on_fst (\<lambda>s. case f s of (j, t) \<Rightarrow> (Inr j, t))"

definition done_eff :: "(app \<times> 'w, 'a) eff \<Rightarrow> (app \<times> 'w, 'a reply) eff" where
  "done_eff m = bind_eff m (\<lambda>x. ok (Done x))"

definition delete_handler ::
  "'w files_env \<Rightarrow> session_user option \<Rightarrow> json \<Rightarrow> string option \<Rightarrow> string option \<Rightarrow> (app \<times> 'w, delete_result reply) eff" where
  "delete_handler E user body ip correlationId = (case user of
     None \<Rightarrow> ok Not_authenticated
   | Some u \<Rightarrow> bind_eff (fe_parse E deleteSchema body) (\<lambda>(bucket, key).
       if ends_with key [slash]
       then seq_eff (ensureDeletePermission u bucket key)
         (bind_eff (enqueue_eff (enqueueFolderDelete (fe_now E) \<lparr>fd_actor = u, fd_bucket = bucket, fd_key = key,
            fd_ipAddress = ip, fd_correlationId = correlationId\<rparr>)) (\<lambda>j. ok (Queued j)))
       else done_eff (files_remove E u bucket key ip)))"

definition rename_handler ::
  "'w files_env \<Rightarrow> session_user option \<Rightarrow> json \<Rightarrow> string option \<Rightarrow> string option \<Rightarrow> (app \<times> 'w, rename_result reply) eff" where
  "rename_handler E user body ip correlationId = (case user of
     None \<Rightarrow> ok Not_authenticated
   | Some u \<Rightarrow> bind_eff (fe_parse E renameSchema body) (\<lambda>(bucket, oldKey, newKey).
       if ends_with oldKey [slash] \<or> ends_with newKey [slash]
       then seq_eff (ensureRenamePermission u bucket oldKey)
         (bind_eff (enqueue_eff (enqueueFolderRename (fe_now E) \<lparr>fr_actor = u, fr_bucket = bucket, fr_oldKey = oldKey,
            fr_newKey = newKey, fr_ipAddress = ip, fr_correlationId = correlationId\<rparr>)) (\<lambda>j. ok (Queued j)))
       else done_eff (files_rename E u bucket oldKey newKey ip)))"

definition create_folder_handler ::
  "'w files_env \<Rightarrow> session_user option \<Rightarrow> json \<Rightarrow> string option \<Rightarrow> (app \<times> 'w, string reply) eff" where
  "create_folder_handler E user body ip = (case user of
     None \<Rightarrow> ok Not_authenticated
   | Some u \<Rightarrow> bind_eff (fe_parse E createFolderSchema body) (\<lambda>(bucket, folderPath).
       done_eff (files_createFolder E u bucket folderPath ip)))"

definition preview_handler :: "'w files_env \<Rightarrow> session_user option \<Rightarrow> json \<Rightarrow> (app \<times> 'w, preview_result reply) eff" where
  "preview_handler E user query = (case user of
     None \<Rightarrow> ok Not_authenticated
   | Some u \<Rightarrow> bind_eff (fe_parse E previewSchema query) (\<lambda>(bucket, key, download).
       done_eff (files_preview E u bucket key download)))"

text \<open>The metadata of these routes: deletion and renaming have none, their service checks instead.\<close>

definition open_route :: route where
  "open_route = \<lparr>rt_public = False, rt_roles = None, rt_bucket = None\<rparr>"

definition bucket_route :: "bucket_permission \<Rightarrow> req_source \<Rightarrow> route" where
  "bucket_route p src = \<lparr>rt_public = False, rt_roles = None,
     rt_bucket = Some \<lparr>bq_permission = p, bq_field = ''bucket'', bq_source = src\<rparr>\<rparr>"

definition admin_route :: route where
  "admin_route = \<lparr>rt_public = False, rt_roles = Some [SUPER_ADMIN, ADMIN], rt_bucket = None\<rparr>"

text \<open>The routes of the controller: method, path, metadata.\<close>

definition file_routes :: "(string \<times> string \<times> route) list" where
  "file_routes =
     [(''GET'', ''list'', bucket_route P_object_list From_query),
      (''POST'', ''folder'', bucket_route P_folder_create From_body),
      (''DELETE'', '''', open_route),
      (''POST'', ''rename'', open_route),
      (''GET'', ''preview'', bucket_route P_object_preview From_query),
      (''GET'', ''search'', bucket_route P_search_run From_query),
      (''GET'', ''stats'', bucket_route P_folder_stats From_query),
      (''POST'', ''multipart/init'', bucket_route P_object_upload From_body),
      (''POST'', ''multipart/recover'', bucket_route P_object_upload From_body),
      (''POST'', ''multipart/:uploadSessionId/sign-parts'', open_route),
      (''POST'', ''multipart/:uploadSessionId/part-complete'', open_route),
      (''POST'', ''multipart/:uploadSessionId/complete'', open_route),
      (''POST'', ''multipart/:uploadSessionId/abort'', open_route),
      (''POST'', ''multipart/:uploadSessionId/fail'', open_route),
      (''GET'', ''multipart/sessions'', open_route),
      (''GET'', ''multipart/sessions/:uploadSessionId'', open_route),
      (''POST'', ''multipart/cleanup-expired'', admin_route)]"

end
