(* ===== verification/FilesProps.thy ===== *)
theory FilesProps
  imports Files AuthzProps S3Store
begin

text \<open>
  What the file operations guarantee: without the permission nothing is done, an upload session obeys
  its owner only and only until it expires, and the recorded parts form a map from part numbers to tags.
\<close>

section \<open>Refusals\<close>

text \<open>An operation that answers 403 and has done nothing.\<close>

definition refused :: "('s, 'a) eff \<Rightarrow> 's \<Rightarrow> bool" where
  "refused m s \<longleftrightarrow> (\<exists>msg. m s = (Inl (ForbiddenException msg), s))"

lemma refused_bind: "refused m s \<Longrightarrow> refused (bind_eff m f) s" "refused m s \<Longrightarrow> refused (seq_eff m n) s"
  by (auto simp: refused_def eff_simps)

lemma requireBucketPermission_refused:
  assumes "\<not> may s u b p"
  shows "\<exists>msg. requireBucketPermission (Some u) (Some b) p s = (Inl (ForbiddenException msg), s)"
  using assms by (auto simp: requireBucketPermission_def may_def missing_permission_def eff_simps split: option.splits)

lemma guard_refused: "\<not> may s u b p \<Longrightarrow> refused (guard_bucket u b p) (s, w)"
  using requireBucketPermission_refused [of s u b p]
  by (auto simp: refused_def guard_bucket_def on_fst_apply)

lemma guard_ok [eff_inv]: "guard_bucket u b p sw = (Inr x, t) \<longleftrightarrow> may (fst sw) u b p \<and> t = sw"
  by (auto simp: guard_bucket_def on_fst_Inr requireBucketPermission_ok)

lemma guard_pass: "may s u b p \<Longrightarrow> guard_bucket u b p (s, w) = (Inr (), (s, w))"
  by (simp add: guard_ok)

lemma parsed: "schema v = Some x \<Longrightarrow> bind_eff (fe_parse E schema v) f sw = f x sw"
  by (simp add: fe_parse_def need_def eff_simps)

lemma fe_parse_ok: "schema v = Some x \<Longrightarrow> fe_parse E schema v = ok x"
  by (simp add: fe_parse_def need_def)

lemma refused_parsed: "schema v = Some x \<Longrightarrow> refused (f x) sw \<Longrightarrow> refused (bind_eff (fe_parse E schema v) f) sw"
  by (simp add: refused_def parsed)

lemma handlers_refused:
  "deleteSchema body = Some (b, key) \<Longrightarrow> \<not> may s u b (delete_permission key)
    \<Longrightarrow> refused (delete_handler E (Some u) body ip c) (s, w)"
  "renameSchema body = Some (b, oldKey, newKey) \<Longrightarrow> \<not> may s u b (rename_permission oldKey)
    \<Longrightarrow> refused (rename_handler E (Some u) body ip c) (s, w)"
  unfolding delete_handler_def rename_handler_def option.case
  by (erule refused_parsed, simp_all add: done_eff_def files_remove_def files_rename_def Let_def
      ensureDeletePermission_def ensureRenamePermission_def refused_bind guard_refused)
    (erule refused_parsed, simp add: done_eff_def files_remove_def files_rename_def Let_def
      ensureDeletePermission_def ensureRenamePermission_def refused_bind guard_refused)


section \<open>Upload sessions\<close>

text \<open>When an operation on a session is allowed.\<close>

definition session_expired :: "int \<Rightarrow> upload_row \<Rightarrow> bool" where
  "session_expired now x \<longleftrightarrow> up_expiresAt x < now \<and> up_status x \<noteq> UP_COMPLETED \<and> up_status x \<noteq> UP_ABORTED"

definition may_operate :: "int \<Rightarrow> session_user \<Rightarrow> string \<Rightarrow> app \<Rightarrow> upload_row \<Rightarrow> bucket_row \<Rightarrow> bool" where
  "may_operate now u i s x b \<longleftrightarrow> find_upload i s = Some x
     \<and> (up_userId x = su_id u \<or> su_role u = SUPER_ADMIN) \<and> \<not> session_expired now x
     \<and> find (\<lambda>b. b_id b = up_bucketId x) (buckets s) = Some b \<and> may s u (b_name b) P_object_upload"

lemma getUploadSessionForUser_ok [eff_inv]:
  "getUploadSessionForUser now u i False s = (Inr x, t) \<longleftrightarrow> find_upload i s = Some x
     \<and> (up_userId x = su_id u \<or> su_role u = SUPER_ADMIN) \<and> \<not> session_expired now x \<and> t = s"
  by (auto simp: getUploadSessionForUser_def session_access_def session_expired_def eff_inv split: if_splits)

lemma getUploadSessionForUser_state: "snd (getUploadSessionForUser now u i a s) = s"
  by (simp add: getUploadSessionForUser_def need_def eff_simps split: option.split sum.split)

lemma upload_bucket_ok [eff_inv]:
  "upload_bucket x s = (Inr b, t) \<longleftrightarrow> find (\<lambda>b. b_id b = up_bucketId x) (buckets s) = Some b \<and> t = s"
  by (auto simp: upload_bucket_def eff_inv)

lemma upload_bucket_state: "snd (upload_bucket x s) = s"
  by (simp add: upload_bucket_def need_def eff_simps split: option.split)

lemma open_session_ok [eff_inv]:
  "open_session E u i sw = (Inr (x, b), t) \<longleftrightarrow> may_operate (fe_now E) u i (fst sw) x b \<and> t = sw"
  by (auto simp: open_session_def may_operate_def eff_inv)

lemma on_fst_state: "snd (m (fst sw)) = fst sw \<Longrightarrow> snd (on_fst m sw) = sw"
  by (cases sw, cases "m (fst sw)") (simp add: on_fst_def)

lemma bind_state:
  "snd (m s) = s \<Longrightarrow> (\<And>x. snd (f x s) = s) \<Longrightarrow> snd (bind_eff m f s) = s"
  "snd (m s) = s \<Longrightarrow> snd (n s) = s \<Longrightarrow> snd (seq_eff m n s) = s"
  by (auto simp: eff_simps split: prod.splits sum.splits)

lemma open_session_state: "snd (open_session E u i sw) = sw"
  unfolding open_session_def guard_bucket_def
  by (intro bind_state on_fst_state getUploadSessionForUser_state upload_bucket_state requireBucketPermission_unchanged)
    (simp add: ok_apply)

text \<open>An operation that fails and has done nothing.\<close>

definition stopped :: "('s, 'a) eff \<Rightarrow> 's \<Rightarrow> bool" where
  "stopped m s \<longleftrightarrow> (\<exists>e. m s = (Inl e, s))"

lemma stopped_bind: "stopped m s \<Longrightarrow> stopped (bind_eff m f) s"
  by (auto simp: stopped_def eff_simps)

lemma open_session_stopped:
  assumes "\<nexists>x b. may_operate (fe_now E) u i s x b"
  shows "stopped (open_session E u i) (s, w)"
proof -
  obtain r t where Pair: "open_session E u i (s, w) = (r, t)" by (metis surj_pair)
  then have t: "t = (s, w)" using open_session_state [of E u i "(s, w)"] by simp
  show ?thesis
  proof (cases r)
    case (Inl e)
    then show ?thesis using Pair t by (auto simp: stopped_def)
  next
    case (Inr xb)
    then show ?thesis using Pair assms open_session_ok [of E u i "(s, w)" "fst xb" "snd xb" t] by auto
  qed
qed

text \<open>
  An upload session obeys its owner until it expires. Signing, recording, completing, aborting and
  failing all fail and change nothing, neither in the database nor in the object store, unless the session exists, belongs to the
  user or the user is a SUPER_ADMIN, has not expired while open, and its bucket exists and the user may
  upload to it.
\<close>

theorem upload_sessions_guarded:
  fixes E :: "'w files_env"
  assumes "\<nexists>x b. may_operate (fe_now E) u i s x b"
  shows "stopped (signMultipartParts E u i ns) (s, w) \<and> stopped (recordMultipartPart E u i part) (s, w)
    \<and> stopped (completeMultipart E u i parts ip) (s, w) \<and> stopped (abortMultipart E u i ip) (s, w)
    \<and> stopped (failMultipart E u i msg ip) (s, w)"
  using open_session_stopped [OF assms]
  by (simp add: signMultipartParts_def recordMultipartPart_def completeMultipart_def abortMultipart_def
      failMultipart_def stopped_bind)

section \<open>Recorded parts\<close>

text \<open>What a list of parts stands for: the tag of each part number, a later entry winning.\<close>

definition parts_map :: "complete_part list \<Rightarrow> int \<rightharpoonup> string" where
  "parts_map ps = map_of (rev (map (\<lambda>p. (part_number p, part_eTag p)) ps))"

definition numbers_distinct :: "complete_part list \<Rightarrow> bool" where
  "numbers_distinct ps \<longleftrightarrow> distinct (map part_number ps)"

lemma put_part_numbers: "map part_number (put_part p ps) =
   (if part_number p \<in> part_number ` set ps then map part_number ps else map part_number ps @ [part_number p])"
  by (auto simp: put_part_def)

lemma put_part_distinct: "numbers_distinct ps \<Longrightarrow> numbers_distinct (put_part p ps)"
  unfolding numbers_distinct_def put_part_numbers by auto

lemma dom_parts_map: "dom (parts_map ps) = part_number ` set ps"
  by (auto simp: parts_map_def dom_map_of_conv_image_fst image_image simp flip: rev_map)

lemma replace_part: "map_of (map (\<lambda>p. (part_number p, part_eTag p)) (map (\<lambda>q. if part_number q = part_number p then p else q) qs)) n
    = (if n = part_number p \<and> part_number p \<in> part_number ` set qs then Some (part_eTag p)
       else map_of (map (\<lambda>p. (part_number p, part_eTag p)) qs) n)"
  by (induction qs) auto

lemma parts_map_put: "parts_map (put_part p ps) = (parts_map ps)(part_number p \<mapsto> part_eTag p)"
proof
  fix n
  show "parts_map (put_part p ps) n = ((parts_map ps)(part_number p \<mapsto> part_eTag p)) n"
    using replace_part [of p "rev ps" n]
    by (auto simp: parts_map_def put_part_def rev_map [symmetric])
qed

lemma put_parts: "parts_map (fold put_part ps acc) = parts_map acc ++ parts_map ps
    \<and> (numbers_distinct acc \<longrightarrow> numbers_distinct (fold put_part ps acc))"
proof (induction ps arbitrary: acc)
  case (Cons p ps)
  have "parts_map (p # ps) = [part_number p \<mapsto> part_eTag p] ++ parts_map ps"
    by (simp add: parts_map_def)
  then show ?case using Cons [of "put_part p acc"] by (auto simp: parts_map_put put_part_distinct map_add_def fun_eq_iff split: option.splits)
qed (simp add: parts_map_def)

lemma parts_map_mset:
  assumes "mset ps = mset qs" and "numbers_distinct ps"
  shows "parts_map ps = parts_map qs \<and> numbers_distinct qs"
proof -
  let ?f = "\<lambda>p. (part_number p, part_eTag p)"
  have "numbers_distinct qs" using assms unfolding numbers_distinct_def
    by (metis mset_eq_imp_distinct_iff mset_map)
  moreover have "map_of (rev (map ?f ps)) = map_of (rev (map ?f qs))"
    using assms calculation
    by (subst map_of_inject_set) (auto simp: numbers_distinct_def rev_map [symmetric] o_def distinct_rev dest: mset_eq_setD)
  ultimately show ?thesis by (simp add: parts_map_def)
qed

lemma merge_part_map:
  "parts_map (merge_part p ps) = (parts_map ps)(part_number p \<mapsto> part_eTag p)"
  "numbers_distinct (merge_part p ps)"
proof -
  let ?qs = "put_part p (fold put_part ps [])"
  have d: "numbers_distinct ?qs"
    using put_parts [of ps "[]"] put_part_distinct [of "fold put_part ps []" p] by (simp add: numbers_distinct_def)
  have "mset ?qs = mset (merge_part p ps)" by (simp add: merge_part_def sort_by_mset)
  from parts_map_mset [OF this d] show "numbers_distinct (merge_part p ps)"
    and "parts_map (merge_part p ps) = (parts_map ps)(part_number p \<mapsto> part_eTag p)"
    using put_parts [of ps "[]"] by (simp_all add: parts_map_put) (simp add: parts_map_def)
qed

lemma merge_part_sorted: "sorted_wrt (<) (map part_number (merge_part p ps))"
proof -
  have "comparator (\<lambda>a b. part_number a - part_number b)" by (auto simp: comparator_def)
  then have "sorted (map part_number (merge_part p ps))"
    by (auto simp: merge_part_def sorted_wrt_map intro: sorted_wrt_mono_rel [rotated] dest: sort_by_sorted)
  then show ?thesis
    using merge_part_map(2) [of p ps] by (simp add: numbers_distinct_def strict_sorted_iff)
qed

lemma update_upload_hit:
  assumes x: "find_upload i s = Some x" and key: "\<And>u. up_id (f u) = up_id u"
  shows "update_upload now i f s =
      (Inr (), s\<lparr>uploads := tb_update (\<lambda>u. up_id u = i) (\<lambda>u. (f u)\<lparr>up_updatedAt := now\<rparr>) (uploads s)\<rparr>)"
    and "find_upload i (snd (update_upload now i f s)) = Some ((f x)\<lparr>up_updatedAt := now\<rparr>)"
    and "k \<noteq> i \<Longrightarrow> find_upload k (snd (update_upload now i f s)) = find_upload k s"
proof -
  show eq: "update_upload now i f s =
      (Inr (), s\<lparr>uploads := tb_update (\<lambda>u. up_id u = i) (\<lambda>u. (f u)\<lparr>up_updatedAt := now\<rparr>) (uploads s)\<rparr>)"
    using x by (simp add: update_upload_def)
  show "find_upload i (snd (update_upload now i f s)) = Some ((f x)\<lparr>up_updatedAt := now\<rparr>)"
    using find_tb_update_key [of up_id "\<lambda>u. (f u)\<lparr>up_updatedAt := now\<rparr>" i "uploads s" x] x key
    by (simp add: eq find_upload_def)
  show "find_upload k (snd (update_upload now i f s)) = find_upload k s" if "k \<noteq> i"
    using find_tb_update_other [of up_id "\<lambda>u. (f u)\<lparr>up_updatedAt := now\<rparr>" k i "uploads s"] that key
    by (simp add: eq find_upload_def)
qed

text \<open>
  C22. Recording a part refines a map update. A request on an open session of the user's own stores a
  list of parts in strictly ascending order of their numbers which stands for the old map with the new
  part's tag at its number, whatever the old list was; it answers the numbers recorded, puts the session
  in progress, and touches no other session and not the object store.
\<close>

theorem part_recording_refines_map:
  fixes E :: "'w files_env"
  assumes "may_operate (fe_now E) u i s x b"
  shows "\<exists>s' x'. recordMultipartPart E u i part (s, w) = (Inr (map part_number (up_completedParts x')), (s', w))
    \<and> find_upload i s' = Some x' \<and> up_status x' = UP_IN_PROGRESS
    \<and> parts_map (up_completedParts x') = (parts_map (up_completedParts x))(part_number part \<mapsto> part_eTag part)
    \<and> sorted_wrt (<) (map part_number (up_completedParts x'))
    \<and> (\<forall>k. k \<noteq> i \<longrightarrow> find_upload k s' = find_upload k s)"
proof -
  let ?parts = "merge_part part (up_completedParts x)"
  let ?f = "\<lambda>u. u\<lparr>up_status := UP_IN_PROGRESS, up_completedParts := ?parts, up_lastActivityAt := fe_now E\<rparr>"
  have x: "find_upload i s = Some x" using assms by (simp add: may_operate_def)
  have op: "open_session E u i (s, w) = (Inr (x, b), (s, w))" using assms by (simp add: open_session_ok)
  note hit = update_upload_hit [OF x, where f = ?f and now = "fe_now E"]
  let ?s' = "snd (update_upload (fe_now E) i ?f s)"
  have "recordMultipartPart E u i part (s, w) = (Inr (map part_number ?parts), (?s', w))"
    using hit(1) by (simp add: recordMultipartPart_def store_parts_def eff_simps op)
  moreover have "find_upload i ?s' = Some ((?f x)\<lparr>up_updatedAt := fe_now E\<rparr>)"
    using hit(2) by simp
  moreover have "\<forall>k. k \<noteq> i \<longrightarrow> find_upload k ?s' = find_upload k s" using hit(3) by simp
  ultimately show ?thesis
    by (intro exI [of _ ?s'] exI [of _ "(?f x)\<lparr>up_updatedAt := fe_now E\<rparr>"])
      (simp add: merge_part_map merge_part_sorted)
qed

text \<open>Two requests that read the session before either has stored its part: the first part is lost,
  although both requests answer that it was recorded.\<close>

lemma overlapping_parts_lost:
  assumes "find_upload i s = Some x" and "part_number p1 \<noteq> part_number p2"
    and "parts_map (up_completedParts x) (part_number p1) = None"
  shows "\<exists>s' x'. seq_eff (store_parts t1 i (merge_part p1 (up_completedParts x)))
      (store_parts t2 i (merge_part p2 (up_completedParts x))) s = (Inr (), s') \<and> find_upload i s' = Some x'
    \<and> parts_map (up_completedParts x') (part_number p1) = None"
proof -
  let ?f = "\<lambda>t p u. u\<lparr>up_status := UP_IN_PROGRESS, up_completedParts := merge_part p (up_completedParts x), up_lastActivityAt := t\<rparr>"
  note one = update_upload_hit [OF assms(1), where f = "?f t1 p1" and now = t1]
  let ?s1 = "snd (update_upload t1 i (?f t1 p1) s)"
  have x1: "find_upload i ?s1 = Some ((?f t1 p1 x)\<lparr>up_updatedAt := t1\<rparr>)" using one(2) by simp
  note two = update_upload_hit [OF x1, where f = "?f t2 p2" and now = t2]
  have "seq_eff (store_parts t1 i (merge_part p1 (up_completedParts x)))
      (store_parts t2 i (merge_part p2 (up_completedParts x))) s = (Inr (), snd (update_upload t2 i (?f t2 p2) ?s1))"
    using one(1) two(1) by (simp add: store_parts_def eff_simps)
  moreover have "find_upload i (snd (update_upload t2 i (?f t2 p2) ?s1))
      = Some (?f t2 p2 ((?f t1 p1 x)\<lparr>up_updatedAt := t1\<rparr>)\<lparr>up_updatedAt := t2\<rparr>)"
    using two(2) by simp
  ultimately show ?thesis using assms(2,3) by (simp add: merge_part_map)
qed

section \<open>Witnesses\<close>

definition demo_files :: "mem files_env" where
  "demo_files = \<lparr>fe_now = 5, fe_crypto = plain_crypto, fe_key = ''k'', fe_rnd = (\<lambda>_. ''nonce''), fe_client = (\<lambda>_. mem_send),
     fe_sign = (\<lambda>_ _ _. ok ''url''), fe_fuel = 9, fe_sched = [], fe_compare = (\<lambda>a b. if a = b then 0 else if a < b then -1 else 1),
     fe_zod_message = (\<lambda>_. ''invalid'')\<rparr>"

definition demo_upload :: upload_row where
  "demo_upload = \<lparr>up_id = ''up'', up_userId = ''u1'', up_bucketId = ''b1'', up_objectKey = ''a'', up_uploadId = ''x'',
     up_status = UP_INITIATED, up_partsMeta = JArr [],
     up_completedParts = [\<lparr>part_number = 2, part_eTag = ''two''\<rparr>, \<lparr>part_number = 1, part_eTag = ''one''\<rparr>],
     up_partSize = None, up_totalParts = None, up_fileSize = None, up_contentType = None, up_relativePath = None,
     up_error = None, up_lastActivityAt = 0, up_createdAt = 0, up_updatedAt = 0, up_expiresAt = 9\<rparr>"

definition demo_uploading :: app where
  "demo_uploading = demo_site\<lparr>uploads := [demo_upload],
     grants := [\<lparr>g_userId = ''u1'', g_bucketId = ''b1'', g_permission = P_object_upload\<rparr>]\<rparr>"


lemma upload_sessions_guarded_witness:
  "stopped (completeMultipart demo_files (user_of_row demo_user\<lparr>su_id := ''u2''\<rparr>) ''up'' [] None) (demo_uploading, [])"
proof -
  have "\<nexists>x b. may_operate (fe_now demo_files) (user_of_row demo_user\<lparr>su_id := ''u2''\<rparr>) ''up'' demo_uploading x b"
    by (simp add: may_operate_def demo_uploading_def find_upload_def demo_upload_def user_of_row_def demo_user_def)
  from upload_sessions_guarded [OF this] show ?thesis by simp
qed

lemma part_recording_refines_map_witness:
  "fst (recordMultipartPart demo_files (user_of_row demo_user) ''up'' \<lparr>part_number = 3, part_eTag = ''three''\<rparr> (demo_uploading, []))
     = Inr [1, 2, 3]"
proof -
  let ?b = "\<lparr>b_id = ''b1'', b_name = ''docs'', b_garageBucketId = None, b_connectionId = None, b_createdAt = 0\<rparr> :: bucket_row"
  let ?p = "\<lparr>part_number = 3, part_eTag = ''three''\<rparr> :: complete_part"
  have op: "may_operate (fe_now demo_files) (user_of_row demo_user) ''up'' demo_uploading demo_upload ?b"
    by (simp add: may_operate_def demo_uploading_def find_upload_def demo_upload_def user_of_row_def demo_user_def
        demo_site_def may_def has_grant_def session_expired_def demo_files_def)
  from part_recording_refines_map [OF op, of ?p "[]"] obtain s' x'
    where recorded: "recordMultipartPart demo_files (user_of_row demo_user) ''up'' ?p (demo_uploading, [])
        = (Inr (map part_number (up_completedParts x')), (s', []))
      \<and> find_upload ''up'' s' = Some x' \<and> up_status x' = UP_IN_PROGRESS
      \<and> parts_map (up_completedParts x') = (parts_map (up_completedParts demo_upload))(part_number ?p \<mapsto> part_eTag ?p)
      \<and> sorted_wrt (<) (map part_number (up_completedParts x'))
      \<and> (\<forall>k. k \<noteq> ''up'' \<longrightarrow> find_upload k s' = find_upload k demo_uploading)"
    by (elim exE) (rule that)
  then have m: "parts_map (up_completedParts x') = (parts_map (up_completedParts demo_upload))(3 \<mapsto> ''three'')"
    and srt: "sorted_wrt (<) (map part_number (up_completedParts x'))" by simp_all
  have "set (map part_number (up_completedParts x')) = {1, 2, 3}"
    using arg_cong [OF m, of dom] by (auto simp: dom_parts_map demo_upload_def)
  then have "map part_number (up_completedParts x') = [1, 2, 3]"
    using srt by (intro strict_sorted_equal) (auto simp: strict_sorted_iff)
  then show ?thesis using recorded by simp
qed

section \<open>A gap in the rename check\<close>

text \<open>A source without and a target with a trailing slash is a folder rename, queued as a job, yet the
  request is checked for \<open>object:rename\<close> alone.\<close>

lemma folder_rename_with_object_permission:
  fixes E :: "'w files_env"
  assumes "renameSchema body = Some (b, oldKey, newKey)" and "\<not> ends_with oldKey [slash]" and "ends_with newKey [slash]"
    and "may s u b P_object_rename"
  shows "\<exists>j s'. rename_handler E (Some u) body ip c (s, w) = (Inr (Queued j), (s', w)) \<and> jp_type j = FOLDER_RENAME"
  using assms
  by (auto simp: rename_handler_def fe_parse_ok eff_simps ensureRenamePermission_def rename_permission_def guard_pass
      enqueue_eff_def on_fst_apply enqueueFolderRename_def enqueue_def toPublic_def Let_def split: prod.splits)

end
