(* ===== verification/FilesRecover.thy ===== *)
theory FilesRecover
  imports FilesProps
begin

text \<open>
  Recovery of an upload: which session \<open>findRecoverableSession\<close> answers, and what that means after an
  upload has failed.
\<close>

lemma order_desc_hd:
  assumes "x \<in> set rs" and "\<And>y. y \<in> set rs \<Longrightarrow> y \<noteq> x \<Longrightarrow> k y < k x"
  shows "\<exists>rest. order_desc k rs = x # rest"
proof -
  have s: "set (order_desc k rs) = set rs" by (simp add: set_order_desc)
  then obtain y rest where y: "order_desc k rs = y # rest" using assms(1) by (cases "order_desc k rs") auto
  have "sorted (map (\<lambda>r. - k r) (order_desc k rs))" by (simp add: order_desc_def)
  then have "\<forall>z\<in>set (order_desc k rs). k z \<le> k y" by (auto simp: y)
  then have "y = x" using assms s y by (metis linorder_not_less list.set_intros(1))
  then show ?thesis using y by simp
qed

lemma first_some_None [simp]: "first_some v None = v"
  by (cases v) simp_all

lemma failMultipart_outcome:
  fixes E :: "'w files_env"
  assumes op: "may_operate (fe_now E) u i s x b" and conn: "files_s3 E (s, w) = (Inr c, (s, w))"
    and abort: "fe_client E c (AbortMultipartUpload (b_name b) (normalizeKey (up_objectKey x)) (up_uploadId x)) w = (Inr r, w1)"
  shows "\<exists>s1. failMultipart E u i msg ip (s, w) = (Inr (or_else msg ''Multipart upload failed'', None), (s1, w1))
    \<and> uploads s1 = tb_update (\<lambda>v. up_id v = i)
        (\<lambda>v. v\<lparr>up_status := UP_FAILED, up_lastActivityAt := fe_now E,
           up_error := Some (or_else msg ''Multipart upload failed''), up_updatedAt := fe_now E\<rparr>) (uploads s)
    \<and> buckets s1 = buckets s \<and> grants s1 = grants s"
proof -
  have x: "find_upload i s = Some x" using op by (simp add: may_operate_def)
  have opened: "open_session E u i (s, w) = (Inr (x, b), (s, w))" using op by (simp add: open_session_ok)
  have aborted: "try_abort E c b x (s, w) = (Inr None, (s, w1))"
    by (simp add: try_abort_def catch_eff_def abortMultipartUpload_def eff_simps abort)
  show ?thesis
    by (simp add: failMultipart_def eff_simps opened conn aborted update_upload_hit(1) [OF x] files_audit_def audit_eff_def
        add_metric_eff_def audit_record_def bump_id_def add_metric_def Let_def)
qed

lemma findRecoverable_hd:
  assumes "find (\<lambda>d. b_name d = ri_bucket q) (buckets s) = Some b" and "may s u (ri_bucket q) P_object_upload"
    and "order_desc up_createdAt (filter (recoverable (fe_now E) (su_id u) (b_id b) q) (uploads s)) = y # others"
  shows "findRecoverableSession E u q (s, v) = (Inr (Some (toUploadSessionPublic y (b_name b))), (s, v))"
  using assms by (simp add: findRecoverableSession_def eff_simps guard_pass)

text \<open>
  A failed upload is offered for recovery although its object-store upload is gone. When an upload
  fails, \<open>failMultipart\<close> aborts it in the object store and marks its session FAILED; from then until the
  session expires, the recovery request for the same object, size and part size answers that very
  session, with the upload id that has been aborted, if no younger session matches.
\<close>

theorem failed_upload_offered_again:
  fixes E :: "'w files_env" and E' :: "'v files_env"
  assumes op: "may_operate (fe_now E) u i s x b" and conn: "files_s3 E (s, w) = (Inr c, (s, w))"
    and abort: "fe_client E c (AbortMultipartUpload (b_name b) (normalizeKey (up_objectKey x)) (up_uploadId x)) w = (Inr r, w1)"
    and own: "up_userId x = su_id u" and name: "find (\<lambda>d. b_name d = b_name b) (buckets s) = Some b"
    and sizes: "up_partSize x = Some p" "up_fileSize x = Some n" and later: "fe_now E' < up_expiresAt x"
    and ids: "distinct (map up_id (uploads s))"
    and youngest: "\<And>y. y \<in> set (uploads s) \<Longrightarrow> y \<noteq> x \<Longrightarrow> up_createdAt y < up_createdAt x"
  shows "\<exists>s1 y. failMultipart E u i msg ip (s, w) = (Inr (or_else msg ''Multipart upload failed'', None), (s1, w1))
    \<and> findRecoverableSession E' u \<lparr>ri_bucket = b_name b, ri_key = up_objectKey x, ri_fileSize = n, ri_partSize = p\<rparr> (s1, v)
        = (Inr (Some y), (s1, v))
    \<and> us_id y = i \<and> us_uploadId y = up_uploadId x \<and> us_status y = UP_FAILED"
proof -
  let ?f = "\<lambda>v. v\<lparr>up_status := UP_FAILED, up_lastActivityAt := fe_now E,
           up_error := Some (or_else msg ''Multipart upload failed''), up_updatedAt := fe_now E\<rparr>"
  obtain s1 where fail: "failMultipart E u i msg ip (s, w) = (Inr (or_else msg ''Multipart upload failed'', None), (s1, w1))"
    and up: "uploads s1 = tb_update (\<lambda>v. up_id v = i) ?f (uploads s)" and rest: "buckets s1 = buckets s" "grants s1 = grants s"
    using failMultipart_outcome [OF op conn abort] by blast
  let ?i = "\<lparr>ri_bucket = b_name b, ri_key = up_objectKey x, ri_fileSize = n, ri_partSize = p\<rparr>"
  have x: "x \<in> set (uploads s)" "up_id x = i"
    using op by (auto simp: may_operate_def find_upload_def dest: find_SomeD)
  have b: "b_id b = up_bucketId x" "may s u (b_name b) P_object_upload"
    using op by (auto simp: may_operate_def dest: find_SomeD)
  have may: "may s1 u (b_name b) P_object_upload" using b(2) rest by (simp add: may_def has_grant_def)
  have same: "y = x" if "y \<in> set (uploads s)" "up_id y = i" for y
    using that x ids by (metis distinct_map inj_onD)
  have "?f x \<in> set (filter (recoverable (fe_now E') (su_id u) (b_id b) ?i) (uploads s1))"
    using x own sizes later b(1) by (auto simp: up set_tb_update recoverable_def)
  moreover have "up_createdAt y < up_createdAt (?f x)"
    if "y \<in> set (filter (recoverable (fe_now E') (su_id u) (b_id b) ?i) (uploads s1))" "y \<noteq> ?f x" for y
  proof -
    have "y \<in> ?f ` {r \<in> set (uploads s). up_id r = i} \<union> {r \<in> set (uploads s). up_id r \<noteq> i}"
      using that(1) by (simp only: up set_tb_update set_filter mem_Collect_eq)
    then have "y \<in> set (uploads s)" "up_id y \<noteq> i" using that(2) same by blast+
    then show ?thesis using youngest [of y] x by auto
  qed
  ultimately have "\<exists>others. order_desc up_createdAt (filter (recoverable (fe_now E') (su_id u) (b_id b) ?i) (uploads s1))
      = ?f x # others"
    by (rule order_desc_hd)
  then have "findRecoverableSession E' u ?i (s1, v) = (Inr (Some (toUploadSessionPublic (?f x) (b_name b))), (s1, v))"
    using name may rest by (elim exE) (rule findRecoverable_hd, simp_all)
  then show ?thesis
    using fail x(2) by (intro exI [of _ s1] exI [of _ "toUploadSessionPublic (?f x) (b_name b)"])
      (simp add: toUploadSessionPublic_def)
qed

text \<open>A site with a default connection and one upload of five bytes.\<close>

definition demo_conn :: conn_row where
  "demo_conn = \<lparr>c_id = ''c1'', c_name = ''main'', c_endpoint = ''http://s3'', c_region = ''garage'', c_forcePathStyle = True,
     c_accessKeyEncrypted = encrypt plain_crypto ''k'' ''nonce'' ''a'', c_secretKeyEncrypted = encrypt plain_crypto ''k'' ''nonce'' ''b'',
     c_adminApiUrl = None, c_adminTokenEncrypted = None, c_isDefault = True, c_healthStatus = None,
     c_createdAt = 0, c_updatedAt = 0\<rparr>"

definition demo_failing :: app where
  "demo_failing = demo_uploading\<lparr>conns := [demo_conn],
     uploads := [demo_upload\<lparr>up_partSize := Some 5, up_fileSize := Some 5\<rparr>]\<rparr>"

definition accepting :: "unit files_env" where
  "accepting = \<lparr>fe_now = 5, fe_crypto = plain_crypto, fe_key = ''k'', fe_rnd = (\<lambda>_. ''nonce''),
     fe_client = (\<lambda>_ _. ok empty_response), fe_sign = (\<lambda>_ _ _. ok ''url''), fe_fuel = 9, fe_sched = [],
     fe_compare = (\<lambda>a b. 0), fe_zod_message = (\<lambda>_. ''invalid'')\<rparr>"

lemma failed_upload_offered_again_witness:
  "\<exists>s1 y. failMultipart accepting (user_of_row demo_user) ''up'' None None (demo_failing, ())
      = (Inr (''Multipart upload failed'', None), (s1, ()))
    \<and> findRecoverableSession (accepting\<lparr>fe_now := 8\<rparr>) (user_of_row demo_user)
        \<lparr>ri_bucket = ''docs'', ri_key = ''a'', ri_fileSize = 5, ri_partSize = 5\<rparr> (s1, ()) = (Inr (Some y), (s1, ()))
    \<and> us_uploadId y = ''x''"
proof -
  let ?b = "\<lparr>b_id = ''b1'', b_name = ''docs'', b_garageBucketId = None, b_connectionId = None, b_createdAt = 0\<rparr> :: bucket_row"
  let ?x = "demo_upload\<lparr>up_partSize := Some 5, up_fileSize := Some 5\<rparr>"
  have op: "may_operate (fe_now accepting) (user_of_row demo_user) ''up'' demo_failing ?x ?b"
    by (simp add: may_operate_def demo_failing_def demo_uploading_def find_upload_def demo_upload_def user_of_row_def
        demo_user_def demo_site_def may_def has_grant_def session_expired_def accepting_def)
  have "decrypt plain_crypto ''k'' (encrypt plain_crypto ''k'' ''nonce'' t) = Inr t" if "t \<noteq> []" for t
    using that plain_crypto_ok by (simp add: decrypt_encrypt)
  then obtain c where conn: "files_s3 accepting (demo_failing, ()) = (Inr c, (demo_failing, ()))"
    by (simp add: files_s3_def getDefaultConnectionWithSecrets_def eff_simps need_def accepting_def demo_failing_def
        demo_conn_def with_secrets_def)
  have "\<exists>s1 y. failMultipart accepting (user_of_row demo_user) ''up'' None None (demo_failing, ())
        = (Inr (or_else None ''Multipart upload failed'', None), (s1, ()))
      \<and> findRecoverableSession (accepting\<lparr>fe_now := 8\<rparr>) (user_of_row demo_user)
        \<lparr>ri_bucket = b_name ?b, ri_key = up_objectKey ?x, ri_fileSize = 5, ri_partSize = 5\<rparr> (s1, ()) = (Inr (Some y), (s1, ()))
      \<and> us_id y = ''up'' \<and> us_uploadId y = up_uploadId ?x \<and> us_status y = UP_FAILED"
    by (rule failed_upload_offered_again [OF op conn, where r = empty_response])
      (auto simp: accepting_def ok_def demo_upload_def user_of_row_def demo_user_def demo_failing_def demo_uploading_def demo_site_def)
  then show ?thesis by (simp add: demo_upload_def) blast
qed

end
