(* ===== verification/WebUpload.thy ===== *)
theory WebUpload
  imports S3Query Redis
begin

text \<open>
  \<open>apps/web/lib/multipart-upload.ts\<close>: the browser's side of a multipart upload. A file is the list of
  its bytes. The parts are uploaded by a pool of workers on one cursor, which is the pool of
  \<open>Concurrency\<close>: an upload is a thread that awaits the PUT, the pauses between attempts and the
  callback \<open>onPartComplete\<close>. \<open>fetch\<close>, the abort signal, the passing of time and the callback act on a
  world of any type. Also \<open>calculateUploadedBytes\<close> and the planning of the parts of
  \<open>apps/web/app/files/page.tsx\<close>.
\<close>

section \<open>Parts of a file\<close>

text \<open>\<open>Blob.slice(start, end)\<close>: negative positions count from the end, both are cut to the size.\<close>

definition blob_slice :: "'b list \<Rightarrow> int \<Rightarrow> int \<Rightarrow> 'b list" where
  "blob_slice file startPos endPos =
     (let size = int (length file);
          clip = (\<lambda>x. if x < 0 then max (size + x) 0 else min x size)
      in take (nat (max (clip endPos - clip startPos) 0)) (drop (nat (clip startPos)) file))"

definition getChunk :: "'b list \<Rightarrow> int \<Rightarrow> int \<Rightarrow> 'b list" where
  "getChunk file partNumber partSize =
     (let startPos = (partNumber - 1) * partSize; endPos = min (startPos + partSize) (int (length file))
      in blob_slice file startPos endPos)"

text \<open>\<open>Math.max(1, Math.ceil(file.size / partSize))\<close> and \<open>Array.from({length: totalParts}, (_, i) => i + 1)\<close>.\<close>

definition planned_parts :: "'b list \<Rightarrow> int \<Rightarrow> int" where
  "planned_parts file partSize = max 1 (ceil_div (int (length file)) partSize)"

definition part_numbers :: "int \<Rightarrow> int list" where
  "part_numbers totalParts = [1..totalParts]"

definition missing_parts :: "int \<Rightarrow> int list \<Rightarrow> int list" where
  "missing_parts totalParts completed = filter (\<lambda>n. n \<notin> set completed) (part_numbers totalParts)"

section \<open>Uploading one part\<close>

datatype upload_error = AbortError | UploadError string

record signed_part =
  sp_partNumber :: int
  sp_url :: string

record completed_part =
  cp_partNumber :: int
  cp_eTag :: string

record put_response =
  pu_ok :: bool
  pu_status :: int
  pu_etag :: "string option"

record 'w upload_env =
  ue_fetch :: "string \<Rightarrow> string option \<Rightarrow> string \<Rightarrow> 'w \<Rightarrow> (upload_error + put_response) \<times> 'w"
  ue_aborted :: "'w \<Rightarrow> bool"
  ue_sleep :: "nat \<Rightarrow> 'w \<Rightarrow> 'w"
  ue_onPartComplete :: "completed_part \<Rightarrow> 'w \<Rightarrow> (upload_error + unit) \<times> 'w"

record upload_options =
  uo_file :: string
  uo_partSize :: int
  uo_contentType :: "string option"
  uo_concurrency :: "int option"
  uo_maxRetries :: "int option"

definition strip_quotes :: "string \<Rightarrow> string" where
  "strip_quotes s = filter (\<lambda>c. c \<noteq> CHR 0x22) s"

text \<open>One turn of the loop: the abort check, the PUT, and the checks of its response.\<close>

definition put_part_once ::
  "'w upload_env \<Rightarrow> upload_options \<Rightarrow> signed_part \<Rightarrow> 'w \<Rightarrow> (upload_error + completed_part) \<times> 'w" where
  "put_part_once E opt part w =
     (if ue_aborted E w then (Inl AbortError, w)
      else case ue_fetch E (sp_url part) (uo_contentType opt) (getChunk (uo_file opt) (sp_partNumber part) (uo_partSize opt)) w of
          (Inl e, w1) \<Rightarrow> (Inl e, w1)
        | (Inr response, w1) \<Rightarrow>
            if \<not> pu_ok response
            then (Inl (UploadError (''Part upload failed ('' @ nat_to_string (nat (pu_status response)) @ '')'')), w1)
            else let eTag = strip_quotes (or_else (pu_etag response) []) in
              if eTag = [] then (Inl (UploadError ''Missing ETag in multipart response''), w1)
              else (Inr \<lparr>cp_partNumber = sp_partNumber part, cp_eTag = eTag\<rparr>, w1))"

type_synonym 'w part_thread = "('w, upload_error, completed_part) thread"

text \<open>\<open>left\<close> attempts remain after this one; an abort and the last error leave the loop.\<close>

fun upload_attempt :: "'w upload_env \<Rightarrow> upload_options \<Rightarrow> signed_part \<Rightarrow> nat \<Rightarrow> nat \<Rightarrow> 'w part_thread" where
  "upload_attempt E opt part 0 attempt = Await (\<lambda>w. case put_part_once E opt part w of
     (Inr c, w1) \<Rightarrow> (Ret c, w1) | (Inl e, w1) \<Rightarrow> (Raise e, w1))"
| "upload_attempt E opt part (Suc left) attempt = Await (\<lambda>w. case put_part_once E opt part w of
     (Inr c, w1) \<Rightarrow> (Ret c, w1)
   | (Inl e, w1) \<Rightarrow> if e = AbortError then (Raise e, w1)
       else (Await (\<lambda>v. (upload_attempt E opt part left (Suc attempt), ue_sleep E (250 * 2 ^ attempt) v)), w1))"

definition uploadPartWithRetry :: "'w upload_env \<Rightarrow> upload_options \<Rightarrow> signed_part \<Rightarrow> 'w part_thread" where
  "uploadPartWithRetry E opt part =
     (let maxRetries = or_else (uo_maxRetries opt) 3 in
      if maxRetries < 0 then Raise (UploadError ''Multipart retry loop failed unexpectedly'')
      else upload_attempt E opt part (nat maxRetries) 0)"

section \<open>Uploading all parts\<close>

text \<open>The bytes confirmed so far and the calls of \<open>onProgress\<close>.\<close>

record upload_acc =
  ua_bytes :: int
  ua_progress :: "(int \<times> int) list"

primrec then_thread :: "('w, 'e, 'r) thread \<Rightarrow> ('r \<Rightarrow> ('w, 'e, 'r) thread) \<Rightarrow> ('w, 'e, 'r) thread" where
  "then_thread (Ret r) f = f r"
| "then_thread (Raise e) f = Raise e"
| "then_thread (Await g) f = Await (map_prod (\<lambda>t. then_thread t f) id \<circ> g)"

text \<open>A thread on the world alone, run beside the accumulator.\<close>

primrec lift_thread :: "('w, 'e, 'r) thread \<Rightarrow> ('w \<times> 'a, 'e, 'r) thread" where
  "lift_thread (Ret r) = Ret r"
| "lift_thread (Raise e) = Raise e"
| "lift_thread (Await g) = Await (\<lambda>(w, a). case map_prod lift_thread id (g w) of (t, w1) \<Rightarrow> (t, (w1, a)))"

definition part_bytes :: "upload_options \<Rightarrow> int \<Rightarrow> int" where
  "part_bytes opt partNumber = (let startPos = (partNumber - 1) * uo_partSize opt in
     min (startPos + uo_partSize opt) (int (length (uo_file opt))) - startPos)"

definition count_part :: "upload_options \<Rightarrow> int \<Rightarrow> upload_acc \<Rightarrow> upload_acc" where
  "count_part opt partNumber a = (let bytes = ua_bytes a + part_bytes opt partNumber; total = int (length (uo_file opt)) in
     a\<lparr>ua_bytes := bytes, ua_progress := ua_progress a @ [(min bytes total, total)]\<rparr>)"

definition part_done :: "'w upload_env \<Rightarrow> upload_options \<Rightarrow> completed_part \<Rightarrow> ('w \<times> upload_acc) part_thread" where
  "part_done E opt c = Await (\<lambda>(w, a). case ue_onPartComplete E c w of
     (Inl e, w1) \<Rightarrow> (Raise e, (w1, a))
   | (Inr _, w1) \<Rightarrow> (Ret c, (w1, count_part opt (cp_partNumber c) a)))"

definition upload_worker :: "'w upload_env \<Rightarrow> upload_options \<Rightarrow> signed_part \<Rightarrow> nat \<Rightarrow> ('w \<times> upload_acc) part_thread" where
  "upload_worker E opt part index = then_thread (lift_thread (uploadPartWithRetry E opt part)) (part_done E opt)"

definition ordered_parts :: "signed_part list \<Rightarrow> signed_part list" where
  "ordered_parts parts = sort_by (\<lambda>a b. sp_partNumber a - sp_partNumber b) parts"

definition upload_pool ::
  "'w upload_env \<Rightarrow> upload_options \<Rightarrow> signed_part list \<Rightarrow> nat list \<Rightarrow> 'w
    \<Rightarrow> ('w \<times> upload_acc, upload_error, completed_part) pool \<times> 'w \<times> upload_acc" where
  "upload_pool E opt parts sched w =
     mapWithConcurrency (map Some (ordered_parts parts)) (or_else (uo_concurrency opt) 4) (upload_worker E opt) sched
       (w, \<lparr>ua_bytes = 0, ua_progress = [(0, int (length (uo_file opt)))]\<rparr>)"

text \<open>The promise under one interleaving: pending, rejected with the first error, or the parts.\<close>

datatype 'a promise = Pending | Rejected upload_error | Resolved 'a

definition uploadPartsWithConcurrency ::
  "'w upload_env \<Rightarrow> upload_options \<Rightarrow> signed_part list \<Rightarrow> nat list \<Rightarrow> 'w \<Rightarrow> completed_part list promise" where
  "uploadPartsWithConcurrency E opt parts sched w =
     (let p = fst (upload_pool E opt parts sched w) in
      case pl_failure p of
        Some e \<Rightarrow> Rejected e
      | None \<Rightarrow> if pool_done p then Resolved (List.map_filter (\<lambda>x. x) (pl_result p)) else Pending)"

section \<open>Progress on the page\<close>

text \<open>\<open>calculateUploadedBytes\<close>: the bytes of the parts that an earlier attempt has uploaded.\<close>

definition calculateUploadedBytes :: "int \<Rightarrow> int \<Rightarrow> int list \<Rightarrow> int" where
  "calculateUploadedBytes fileSize partSize partNumbers = foldl (\<lambda>total partNumber.
     let startPos = (partNumber - 1) * partSize; endPos = min (startPos + partSize) fileSize in
     if partNumber < 1 then total else if startPos \<ge> fileSize then total
     else total + max (endPos - startPos) 0) 0 partNumbers"

end
