(* ===== verification/WebUploadProps.thy ===== *)
theory WebUploadProps
  imports WebUpload FilesProps
begin

text \<open>
  An upload end to end: the parts the browser cuts cover the file and agree with the session the API
  keeps, and the pool of uploads ends and answers every part once.
\<close>

section \<open>The parts cover the file\<close>

lemma getChunk_take_drop:
  assumes "0 < p"
  shows "getChunk file (int k + 1) (int p) = take p (drop (k * p) file)"
proof -
  define d where "d = k * p"
  have start: "(int k + 1 - 1) * int p = int d" by (simp add: d_def)
  have slice: "getChunk file (int k + 1) (int p) = blob_slice file (int d) (min (int d + int p) (int (length file)))"
    by (simp only: getChunk_def Let_def start)
  have "nat (max (min (int d + int p) (int (length file)) - int d) 0) = min p (length file - d)" if "d \<le> length file"
    using that by auto
  then show ?thesis
    unfolding slice d_def [symmetric] by (cases "d \<le> length file") (auto simp: blob_slice_def Let_def min_def)
qed

lemma chunks_take: "concat (map (\<lambda>k. take p (drop (k * p) file)) [0..<m]) = take (m * p) file"
proof (induction m)
  case (Suc m)
  have "Suc m * p = m * p + p" by simp
  then show ?case using Suc by (simp only: take_add upt_Suc map_append concat_append) simp
qed simp

lemma part_numbers_upt: "part_numbers (int m) = map (\<lambda>k. int k + 1) [0..<m]"
proof (induction m)
  case (Suc m)
  have "[1..int (Suc m)] = [1..int m] @ [int (Suc m)]"
    by (subst upto_rec2) simp_all
  then show ?case using Suc by (simp add: part_numbers_def)
qed (simp add: part_numbers_def)

lemma planned_parts_spec:
  assumes "0 < p"
  shows "1 \<le> planned_parts file p" "int (length file) \<le> planned_parts file p * p"
    "file \<noteq> [] \<Longrightarrow> (planned_parts file p - 1) * p < int (length file)"
proof -
  note c = ceil_div_spec [OF assms, of "int (length file)"]
  show "1 \<le> planned_parts file p" by (simp add: planned_parts_def)
  have "ceil_div (int (length file)) p * p \<le> planned_parts file p * p"
    using assms by (intro mult_right_mono) (simp_all add: planned_parts_def)
  then show "int (length file) \<le> planned_parts file p * p" using c by linarith
  show "(planned_parts file p - 1) * p < int (length file)" if "file \<noteq> []"
    using that c by (cases "1 \<le> ceil_div (int (length file)) p") (auto simp: planned_parts_def max_def)
qed

lemma chunk_length:
  assumes "0 < p" and "1 \<le> n" and "n * p \<le> int (length file)"
  shows "int (length (getChunk file n p)) = p"
proof -
  obtain q where q: "p = int q" using assms(1) zero_le_imp_eq_int [of p] by auto
  define k where "k = nat (n - 1)"
  have k: "n = int k + 1" using assms(2) by (simp add: k_def)
  have "int (k * q + q) \<le> int (length file)" using assms(3) by (simp add: q k algebra_simps)
  then have "q \<le> length file - k * q" by linarith
  then show ?thesis using assms(1) by (simp add: q k getChunk_take_drop)
qed

lemma parts_joined:
  assumes "0 < p"
  shows "concat (map (\<lambda>n. getChunk file n p) (part_numbers (planned_parts file p))) = file"
proof -
  obtain q where q: "p = int q" "0 < q" using assms zero_le_imp_eq_int [of p] by auto
  obtain m where m: "planned_parts file p = int m"
    using planned_parts_spec(1) [OF assms, of "file"] zero_le_imp_eq_int [of "planned_parts file p"] by auto
  have "int (length file) \<le> int (m * q)"
    using planned_parts_spec(2) [OF assms, of "file"] by (simp add: m [unfolded q(1)] q(1))
  then have len: "length file \<le> m * q" by linarith
  have "concat (map (\<lambda>n. getChunk file n p) (part_numbers (planned_parts file p)))
      = concat (map (\<lambda>k. take q (drop (k * q) file)) [0..<m])"
    unfolding m part_numbers_upt using q(2) by (simp add: q(1) getChunk_take_drop o_def)
  then show ?thesis unfolding chunks_take using len by simp
qed

text \<open>
  C23. What the browser uploads is the file. For every positive part size the planned parts, joined in
  order, are the file, and every part but the last has exactly the part size. The session the API
  opens for a file of that size with that part size counts the same number of parts; for the sizes the
  request schema lets through the number fits the 32-bit column.
\<close>

theorem parts_cover_file:
  assumes "0 < p"
  shows "concat (map (\<lambda>n. getChunk file n p) (part_numbers (planned_parts file p))) = file
    \<and> (\<forall>n. 1 \<le> n \<longrightarrow> n < planned_parts file p \<longrightarrow> int (length (getChunk file n p)) = p)
    \<and> total_parts c \<lparr>ii_bucket = b, ii_key = k, ii_contentType = t, ii_fileSize = Some (int (length file)),
         ii_partSize = Some p, ii_totalParts = None, ii_relativePath = r\<rparr> = Some (planned_parts file p)
    \<and> (5 * 1024 * 1024 \<le> p \<longrightarrow> int (length file) < 2 ^ 53 \<longrightarrow> planned_parts file p < 2 ^ 31)"
proof -
  have full: "int (length (getChunk file n p)) = p" if "1 \<le> n" "n < planned_parts file p" for n
  proof -
    have "file \<noteq> []" using that by (auto simp: planned_parts_def ceil_div_def)
    then have "(planned_parts file p - 1) * p < int (length file)" by (rule planned_parts_spec(3) [OF assms])
    moreover have "n * p \<le> (planned_parts file p - 1) * p" using that(2) assms by (intro mult_right_mono) auto
    ultimately have "n * p \<le> int (length file)" by linarith
    then show ?thesis using assms that(1) by (intro chunk_length)
  qed
  have bound: "planned_parts file p < 2 ^ 31" if p: "5 * 1024 * 1024 \<le> p" and size: "int (length file) < 2 ^ 53"
  proof (cases "file = []")
    case False
    have "(planned_parts file p - 1) * (5 * 1024 * 1024) \<le> (planned_parts file p - 1) * p"
      using p planned_parts_spec(1) [OF assms, of "file"] by (intro mult_left_mono) auto
    then have "(planned_parts file p - 1) * (5 * 1024 * 1024) < 2 ^ 53"
      using planned_parts_spec(3) [OF assms False] size by linarith
    then show ?thesis by simp
  qed (simp add: planned_parts_def ceil_div_def)
  have "max p 1 = p" using assms by simp
  then have "total_parts c \<lparr>ii_bucket = b, ii_key = k, ii_contentType = t, ii_fileSize = Some (int (length file)),
      ii_partSize = Some p, ii_totalParts = None, ii_relativePath = r\<rparr> = Some (planned_parts file p)"
    by (simp add: total_parts_def part_size_def planned_parts_def)
  then show ?thesis using parts_joined [OF assms] full bound by blast
qed

lemma parts_cover_file_witness:
  "concat (map (\<lambda>n. getChunk ''abcdefg'' n 3) (part_numbers (planned_parts ''abcdefg'' 3))) = ''abcdefg''
    \<and> planned_parts ''abcdefg'' 3 = 3"
  using parts_cover_file [of 3 "''abcdefg''"] by (simp add: planned_parts_def ceil_div_def)

section \<open>The pool of uploads\<close>

inductive_cases returns_RetE: "returns (Ret x) r"
inductive_cases returns_RaiseE: "returns (Raise e) r"

lemma returns_then:
  assumes "returns (then_thread t f) r"
  shows "\<exists>r0. returns t r0 \<and> returns (f r0) r"
  using assms
proof (induction "then_thread t f" r arbitrary: t rule: returns.induct)
  case (ret r)
  then show ?case by (cases t) (auto intro: returns.ret, metis returns.ret)
next
  case (await g w t1 v r)
  show ?case
  proof (cases t)
    case (Ret r0)
    then have "returns (f r0) r" using await(4) returns.await [where f = g and w = w, OF await(1,2)] by simp
    then show ?thesis using Ret by (auto intro: returns.ret)
  next
    case (Await h)
    then have "t1 = then_thread (fst (h w)) f" using await(1,4) by (cases "h w") auto
    then obtain r0 where "returns (fst (h w)) r0" "returns (f r0) r" using await(3) by blast
    moreover from this have "returns (Await h) r0"
      by (intro returns.await [where f = h and w = w and t = "fst (h w)" and v = "snd (h w)"]) simp_all
    ultimately show ?thesis using Await by blast
  qed (use await in auto)
qed

lemma returns_lift:
  fixes t :: "('w, 'e, 'r) thread"
  assumes "returns (lift_thread t :: ('w \<times> 'a, 'e, 'r) thread) r"
  shows "returns t r"
  using assms
proof (induction "lift_thread t :: ('w \<times> 'a, 'e, 'r) thread" r arbitrary: t rule: returns.induct)
  case (ret r)
  then show ?case by (cases t) (auto intro: returns.ret)
next
  case (await g w t1 v r)
  show ?case
  proof (cases t)
    case (Await h)
    then have "t1 = lift_thread (fst (h (fst w)))"
      using await(1,4) by (cases w, cases "h (fst w)") auto
    then have "returns (fst (h (fst w))) r" using await(3) by blast
    then show ?thesis using Await by (auto intro: returns.await [of h "fst w" "fst (h (fst w))" "snd (h (fst w))"])
  qed (use await in auto)
qed

text \<open>The answer to a part: its number and a tag that is neither empty nor quoted.\<close>

definition answers :: "signed_part \<Rightarrow> completed_part \<Rightarrow> bool" where
  "answers part c \<longleftrightarrow> cp_partNumber c = sp_partNumber part \<and> cp_eTag c \<noteq> [] \<and> CHR 0x22 \<notin> set (cp_eTag c)"

lemma put_part_once_answers: "put_part_once E opt part w = (Inr c, w1) \<Longrightarrow> answers part c"
  by (auto simp: put_part_once_def answers_def strip_quotes_def Let_def split: if_splits sum.splits prod.splits)

lemma attempt_answers: "returns (upload_attempt E opt part left k) c \<Longrightarrow> answers part c"
proof (induction left arbitrary: k)
  case 0
  then show ?case
    by (auto elim!: returns_AwaitE returns_RetE returns_RaiseE split: sum.splits prod.splits dest: put_part_once_answers)
next
  case (Suc left)
  then obtain w t v where step: "(case put_part_once E opt part w of
      (Inr c, w1) \<Rightarrow> (Ret c, w1)
    | (Inl e, w1) \<Rightarrow> if e = AbortError then (Raise e, w1)
       else (Await (\<lambda>v. (upload_attempt E opt part left (Suc k), ue_sleep E (250 * 2 ^ k) v)), w1)) = (t, v)"
    and ret: "returns t c"
    by (auto elim!: returns_AwaitE)
  obtain r w1 where put: "put_part_once E opt part w = (r, w1)" by fastforce
  show ?case
  proof (cases r)
    case (Inr c1)
    then have "t = Ret c1" using step put by simp
    then have "c1 = c" using ret by (auto elim: returns_RetE)
    then show ?thesis using Inr put by (simp add: put_part_once_answers)
  next
    case (Inl e)
    then show ?thesis
      using step put ret Suc.IH by (auto split: if_splits elim!: returns_AwaitE returns_RetE returns_RaiseE)
  qed
qed

lemma worker_answers:
  fixes E :: "'w upload_env"
  assumes "returns (upload_worker E opt part i) c"
  shows "answers part c"
proof -
  from assms obtain c0 where lifted: "returns (lift_thread (uploadPartWithRetry E opt part) :: ('w \<times> upload_acc) part_thread) c0"
    and c0: "returns (part_done E opt c0) c"
    unfolding upload_worker_def by (blast dest: returns_then)
  from lifted have "returns (uploadPartWithRetry E opt part) c0" by (rule returns_lift)
  then have "answers part c0"
    by (auto simp: uploadPartWithRetry_def Let_def split: if_splits elim: returns_RaiseE attempt_answers)
  moreover have "c = c0"
    using c0 by (auto simp: part_done_def elim!: returns_AwaitE returns_RetE returns_RaiseE split: prod.splits sum.splits)
  ultimately show ?thesis by simp
qed

lemma awaits_then:
  "awaits_le d t \<Longrightarrow> (\<And>r. awaits_le n (f r)) \<Longrightarrow> awaits_le (d + n) (then_thread t f)"
proof (induction rule: awaits_le.induct)
  case (ret d r)
  have "awaits_le (d + n) (f r)" using ret awaits_le_mono [of n "f r" "d + n"] by simp
  then show ?case by simp
next
  case (await d g)
  then show ?case by (auto intro!: awaits_le.await)
qed (auto intro: awaits_le.raise)

lemma awaits_lift:
  fixes t :: "('w, 'e, 'r) thread"
  shows "awaits_le d t \<Longrightarrow> awaits_le d (lift_thread t :: ('w \<times> 'a, 'e, 'r) thread)"
proof (induction rule: awaits_le.induct)
  case (await d g)
  have "awaits_le d (fst (case map_prod lift_thread id (g w) of (t, w1) \<Rightarrow> (t :: ('w \<times> 'a, 'e, 'r) thread, (w1, a))))" for w and a :: 'a
    using await(2) [of w] by (cases "g w") simp
  then show ?case by (auto intro!: awaits_le.await)
qed (auto intro: awaits_le.intros)

lemma attempt_awaits: "awaits_le (2 * left + 1) (upload_attempt E opt part left k)"
proof (induction left arbitrary: k)
  case 0
  then show ?case
    by (auto intro!: awaits_le.await awaits_le.ret awaits_le.raise split: prod.splits sum.splits)
next
  case (Suc left)
  have "awaits_le (Suc (2 * left + 1)) (Await (\<lambda>v. (upload_attempt E opt part left (Suc k), ue_sleep E (250 * 2 ^ k) v)))"
    using Suc by (intro awaits_le.await) simp
  then have "awaits_le (Suc (Suc (2 * left + 1))) (upload_attempt E opt part (Suc left) k)"
    by (auto intro!: awaits_le.await awaits_le.ret awaits_le.raise split: prod.splits sum.splits)
  then show ?case by simp
qed

lemma worker_awaits: "awaits_le (2 * nat (or_else (uo_maxRetries opt) 3) + 2) (upload_worker E opt part i)"
proof -
  have "awaits_le (2 * nat (or_else (uo_maxRetries opt) 3) + 1) (uploadPartWithRetry E opt part)"
    using attempt_awaits by (auto simp: uploadPartWithRetry_def Let_def intro: awaits_le.raise)
  moreover have "awaits_le 1 (part_done E opt c)" for c
    unfolding part_done_def One_nat_def
    by (auto intro!: awaits_le.await awaits_le.ret awaits_le.raise split: prod.splits sum.splits)
  ultimately show ?thesis
    using awaits_then [OF awaits_lift] by (fastforce simp: upload_worker_def)
qed

definition upload_start :: "upload_options \<Rightarrow> upload_acc" where
  "upload_start opt = \<lparr>ua_bytes = 0, ua_progress = [(0, int (length (uo_file opt)))]\<rparr>"

lemma filter_answers:
  assumes "length rs = length ps" and "\<And>i. i < length ps \<Longrightarrow> \<exists>c. rs ! i = Some c \<and> answers (ps ! i) c"
  shows "list_all2 answers ps (List.map_filter (\<lambda>x. x) rs)"
  using assms
proof (induction ps arbitrary: rs)
  case (Cons p ps)
  then obtain x qs where rs: "rs = x # qs" by (cases rs) auto
  have "list_all2 answers ps (List.map_filter (\<lambda>x. x) qs)"
    using Cons.prems rs by (intro Cons.IH) force+
  moreover obtain c where "x = Some c" "answers p c" using Cons.prems(2) [of 0] rs by auto
  ultimately show ?case by (simp add: rs List.map_filter_simps)
qed (simp add: List.map_filter_simps)

lemma resolved_answers:
  assumes "uploadPartsWithConcurrency E opt parts sched w = Resolved cs"
  shows "list_all2 answers (ordered_parts parts) cs"
proof -
  let ?input = "map Some (ordered_parts parts)" and ?c = "or_else (uo_concurrency opt) 4"
  define p where "p = fst (upload_pool E opt parts sched w)"
  have ok: "pool_ok ?input ?c (upload_worker E opt) p"
    unfolding p_def upload_pool_def by (rule pool_ok_run)
  have fin: "pool_done p" "pl_failure p = None" "cs = List.map_filter (\<lambda>x. x) (pl_result p)"
    using assms by (auto simp: uploadPartsWithConcurrency_def Let_def p_def split: option.splits if_splits)
  show ?thesis
    unfolding fin(3)
  proof (rule filter_answers)
    show "length (pl_result p) = length (ordered_parts parts)" using ok by (simp add: pool_ok_def results_ok_def)
    fix i assume i: "i < length (ordered_parts parts)"
    then obtain c where c: "pl_result p ! i = Some c" using pool_complete [OF ok fin(1,2), of i] by auto
    then have "returns (upload_worker E opt (ordered_parts parts ! i) i) c"
      using ok i by (auto simp: pool_ok_def results_ok_def)
    then show "\<exists>c. pl_result p ! i = Some c \<and> answers (ordered_parts parts ! i) c"
      using c worker_answers by blast
  qed
qed

lemma answers_numbers: "list_all2 answers ps cs \<Longrightarrow> map cp_partNumber cs = map sp_partNumber ps
    \<and> list_all (\<lambda>c. cp_eTag c \<noteq> [] \<and> CHR 0x22 \<notin> set (cp_eTag c)) cs"
  by (induction rule: list_all2_induct) (auto simp: answers_def)

lemma ordered_parts_sorted: "sorted (map sp_partNumber (ordered_parts parts)) \<and> mset (ordered_parts parts) = mset parts"
proof -
  have "comparator (\<lambda>a b. sp_partNumber a - sp_partNumber b)" by (auto simp: comparator_def)
  then have "sorted_wrt (\<lambda>a b. sp_partNumber a - sp_partNumber b \<le> 0) (ordered_parts parts)"
    unfolding ordered_parts_def by (rule sort_by_sorted)
  then show ?thesis by (simp add: sorted_wrt_map ordered_parts_def sort_by_mset)
qed

text \<open>
  C24. The upload of the parts of a file, under every interleaving of its requests. When it resolves, it
  answers every part it was given exactly once, in ascending order of the part numbers, each with a tag that is
  neither empty nor quoted. And it ends: with \<open>maxRetries\<close> retries there are at most
  \<open>workers + parts * (2 * maxRetries + 4)\<close> moves before all workers have stopped, whatever the requests
  answer.
\<close>

theorem upload_of_parts:
  shows "(uploadPartsWithConcurrency E opt parts sched w = Resolved cs \<longrightarrow>
      mset (map cp_partNumber cs) = mset (map sp_partNumber parts) \<and> sorted (map cp_partNumber cs)
      \<and> list_all (\<lambda>c. cp_eTag c \<noteq> [] \<and> CHR 0x22 \<notin> set (cp_eTag c)) cs)
    \<and> (effective (map Some (ordered_parts parts)) (upload_worker E opt) sched
         (pool_init (or_else (uo_concurrency opt) 4) (map Some (ordered_parts parts)), (w, upload_start opt)) \<longrightarrow>
       length sched \<le> pool_size (or_else (uo_concurrency opt) 4) (length parts)
         + length parts * (2 * nat (or_else (uo_maxRetries opt) 3) + 4))"
proof -
  have len: "length (ordered_parts parts) = length parts"
    using ordered_parts_sorted [of parts] mset_eq_length by blast
  have nums: "mset (map sp_partNumber (ordered_parts parts)) = mset (map sp_partNumber parts)"
    using ordered_parts_sorted [of parts] by simp
  have bound: "length sched \<le> pool_size (or_else (uo_concurrency opt) 4) (length parts)
      + length parts * (2 * nat (or_else (uo_maxRetries opt) 3) + 4)"
    if "effective (map Some (ordered_parts parts)) (upload_worker E opt) sched
         (pool_init (or_else (uo_concurrency opt) 4) (map Some (ordered_parts parts)), (w, upload_start opt))"
    using pool_moves_bounded [OF worker_awaits that] by (simp add: len distrib_left)
  show ?thesis
    using bound answers_numbers [OF resolved_answers [of E opt parts sched w cs]] nums ordered_parts_sorted [of parts]
    by simp
qed

definition demo_put :: "unit upload_env" where
  "demo_put = \<lparr>ue_fetch = (\<lambda>url t body w. (Inr \<lparr>pu_ok = True, pu_status = 200, pu_etag = Some [CHR 0x22, CHR ''t'', CHR 0x22]\<rparr>, w)),
     ue_aborted = (\<lambda>_. False), ue_sleep = (\<lambda>_ w. w), ue_onPartComplete = (\<lambda>_ w. (Inr (), w))\<rparr>"

definition demo_options :: upload_options where
  "demo_options = \<lparr>uo_file = ''abcde'', uo_partSize = 3, uo_contentType = None, uo_concurrency = Some 2, uo_maxRetries = Some 0\<rparr>"

definition demo_signed :: "signed_part list" where
  "demo_signed = [\<lparr>sp_partNumber = 2, sp_url = ''b''\<rparr>, \<lparr>sp_partNumber = 1, sp_url = ''a''\<rparr>]"

definition demo_schedule :: "nat list" where
  "demo_schedule = [0, 1, 0, 1, 0, 1, 0, 1, 0, 1]"

lemma demo_upload_resolves: "uploadPartsWithConcurrency demo_put demo_options demo_signed demo_schedule ()
   = Resolved [\<lparr>cp_partNumber = 1, cp_eTag = ''t''\<rparr>, \<lparr>cp_partNumber = 2, cp_eTag = ''t''\<rparr>]"
  by code_simp

lemma upload_of_parts_witness:
  "mset [1, 2] = mset (map sp_partNumber demo_signed)
    \<and> uploadPartsWithConcurrency demo_put demo_options demo_signed demo_schedule () \<noteq> Pending"
  using upload_of_parts [of demo_put demo_options demo_signed demo_schedule "()"
      "[\<lparr>cp_partNumber = 1, cp_eTag = ''t''\<rparr>, \<lparr>cp_partNumber = 2, cp_eTag = ''t''\<rparr>]"]
  by (simp add: demo_upload_resolves)

end
