(* ===== verification/Scheduler.thy ===== *)
theory Scheduler
  imports Retention AuditLog
begin

text \<open>
  \<open>apps/api/src/jobs/maintenance-scheduler.service.ts\<close>: three maintenance tasks, each with an interval,
  queued as jobs under one Redis lock by a tick, or by an administrator's request. Per task the database
  keeps a record of the last run, whose \<open>nextRunAt\<close> decides when the task is due. \<open>sd_iso\<close> is
  \<open>Date.toISOString\<close> and \<open>sd_parse\<close> the \<open>Date\<close> constructor, \<open>None\<close> for an invalid date. A tick reads the
  clock once, and again (\<open>sd_end\<close>) when it releases the lock. \<open>sd_fault\<close> gives the database errors inside
  the \<open>try\<close> of \<open>executeTask\<close>; log lines are left out.
\<close>

datatype sched_call = SC_enqueue | SC_write | SC_audit

record sched_env =
  sd_now :: int
  sd_end :: int
  sd_instance :: string
  sd_iso :: "int \<Rightarrow> string"
  sd_parse :: "string \<Rightarrow> int option"
  sd_fault :: "sched_call \<Rightarrow> string option"

section \<open>Tasks\<close>

datatype sched_trigger = Trg_scheduled | Trg_manual

record task_def =
  td_key :: scheduler_task_key
  td_jobType :: job_type
  td_interval :: int
  td_enabled :: bool

definition positive_interval :: "int \<Rightarrow> int" where
  "positive_interval n = (if n > 0 then n else 0)"

definition getTaskDefinitions :: "config \<Rightarrow> task_def list" where
  "getTaskDefinitions c =
     [\<lparr>td_key = T_retention_cleanup, td_jobType = RETENTION_CLEANUP,
       td_interval = positive_interval (MAINTENANCE_RETENTION_INTERVAL_MINUTES c), td_enabled = MAINTENANCE_TASK_RETENTION_ENABLED c\<rparr>,
      \<lparr>td_key = T_upload_cleanup, td_jobType = UPLOAD_CLEANUP,
       td_interval = positive_interval (MAINTENANCE_UPLOAD_CLEANUP_INTERVAL_MINUTES c), td_enabled = MAINTENANCE_TASK_UPLOAD_CLEANUP_ENABLED c\<rparr>,
      \<lparr>td_key = T_bucket_sync, td_jobType = BUCKET_SYNC,
       td_interval = positive_interval (MAINTENANCE_BUCKET_SYNC_INTERVAL_MINUTES c), td_enabled = MAINTENANCE_TASK_BUCKET_SYNC_ENABLED c\<rparr>]"

definition isScheduledTaskEnabled :: "config \<Rightarrow> task_def \<Rightarrow> bool" where
  "isScheduledTaskEnabled c task \<longleftrightarrow> MAINTENANCE_SCHEDULER_ENABLED c \<and> td_enabled task \<and> td_interval task > 0"

definition resolveLockTtlSeconds :: "config \<Rightarrow> int" where
  "resolveLockTtlSeconds c = (let minLockTtl = MAINTENANCE_SCHEDULER_TICK_SECONDS c + 5 in
     if MAINTENANCE_SCHEDULER_LOCK_TTL_SECONDS c \<ge> minLockTtl then MAINTENANCE_SCHEDULER_LOCK_TTL_SECONDS c else minLockTtl)"

definition next_instant :: "int \<Rightarrow> task_def \<Rightarrow> int" where
  "next_instant now task = now + td_interval task * 60 * 1000"

definition computeNextRunAt :: "sched_env \<Rightarrow> config \<Rightarrow> task_def \<Rightarrow> sched_trigger \<Rightarrow> string option" where
  "computeNextRunAt E c task trigger =
     (if \<not> td_enabled task \<or> td_interval task \<le> 0 then None
      else if trigger = Trg_scheduled \<or> isScheduledTaskEnabled c task
      then Some (sd_iso E (next_instant (sd_now E) task)) else None)"

section \<open>The stored state of a task\<close>

fun task_name :: "scheduler_task_key \<Rightarrow> string" where
  "task_name T_retention_cleanup = ''retention_cleanup''"
| "task_name T_upload_cleanup = ''upload_cleanup''"
| "task_name T_bucket_sync = ''bucket_sync''"

fun result_name :: "scheduler_result \<Rightarrow> string" where
  "result_name SR_queued = ''queued''"
| "result_name SR_skipped_active = ''skipped_active''"
| "result_name SR_failed = ''failed''"
| "result_name SR_skipped_disabled = ''skipped_disabled''"

fun trigger_name :: "sched_trigger \<Rightarrow> string" where
  "trigger_name Trg_scheduled = ''scheduled''"
| "trigger_name Trg_manual = ''manual''"

definition SCHEDULER_STATE_PREFIX :: string where
  "SCHEDULER_STATE_PREFIX = ''maintenance.scheduler.task.''"

definition SCHEDULER_HEARTBEAT_KEY :: string where
  "SCHEDULER_HEARTBEAT_KEY = ''maintenance.scheduler.heartbeat''"

definition state_key :: "scheduler_task_key \<Rightarrow> string" where
  "state_key k = SCHEDULER_STATE_PREFIX @ task_name k"

record task_state =
  ts_ranAt :: string
  ts_nextRunAt :: "string option"
  ts_result :: scheduler_result
  ts_trigger :: sched_trigger
  ts_taskEnabled :: bool
  ts_intervalMinutes :: rat
  ts_lastSuccessAt :: "string option"
  ts_lastFailureAt :: "string option"
  ts_lastHeartbeatAt :: "string option"
  ts_lastJobId :: "string option"
  ts_error :: "string option"

fun readSchedulerResult :: "json \<Rightarrow> scheduler_result option" where
  "readSchedulerResult (JStr t) = (if t = ''queued'' then Some SR_queued else if t = ''skipped_active'' then Some SR_skipped_active
     else if t = ''failed'' then Some SR_failed else if t = ''skipped_disabled'' then Some SR_skipped_disabled else None)"
| "readSchedulerResult _ = None"

fun readSchedulerTrigger :: "json \<Rightarrow> sched_trigger option" where
  "readSchedulerTrigger (JStr t) = (if t = ''scheduled'' then Some Trg_scheduled
     else if t = ''manual'' then Some Trg_manual else None)"
| "readSchedulerTrigger _ = None"

definition readTaskState :: "scheduler_task_key \<Rightarrow> app \<Rightarrow> task_state option" where
  "readTaskState k s = (case settings s (state_key k) of
     None \<Rightarrow> None
   | Some v \<Rightarrow> if \<not> is_object v then None
       else (case (readSchedulerResult (jget v ''result''), read_string (jget v ''ranAt''), readSchedulerTrigger (jget v ''trigger'')) of
          (Some r, Some ranAt, Some t) \<Rightarrow> Some \<lparr>ts_ranAt = ranAt, ts_nextRunAt = read_string (jget v ''nextRunAt''),
             ts_result = r, ts_trigger = t, ts_taskEnabled = or_else (read_boolean (jget v ''taskEnabled'')) False,
             ts_intervalMinutes = or_else (read_number (jget v ''intervalMinutes'')) 0,
             ts_lastSuccessAt = read_string (jget v ''lastSuccessAt''), ts_lastFailureAt = read_string (jget v ''lastFailureAt''),
             ts_lastHeartbeatAt = read_string (jget v ''lastHeartbeatAt''), ts_lastJobId = read_string (jget v ''lastJobId''),
             ts_error = read_string (jget v ''error'')\<rparr>
        | _ \<Rightarrow> None))"

definition task_state_json :: "task_state \<Rightarrow> json" where
  "task_state_json v = JObj [(''ranAt'', JStr (ts_ranAt v)), (''nextRunAt'', jstr_opt (ts_nextRunAt v)),
     (''result'', JStr (result_name (ts_result v))), (''trigger'', JStr (trigger_name (ts_trigger v))),
     (''taskEnabled'', JBool (ts_taskEnabled v)), (''intervalMinutes'', JNum (ts_intervalMinutes v)),
     (''lastSuccessAt'', jstr_opt (ts_lastSuccessAt v)), (''lastFailureAt'', jstr_opt (ts_lastFailureAt v)),
     (''lastHeartbeatAt'', jstr_opt (ts_lastHeartbeatAt v)), (''lastJobId'', jstr_opt (ts_lastJobId v)),
     (''error'', jstr_opt (ts_error v))]"

text \<open>The last success and failure are carried over from the record that is replaced.\<close>

definition new_task_state ::
  "sched_env \<Rightarrow> task_def \<Rightarrow> string option \<Rightarrow> scheduler_result \<Rightarrow> sched_trigger \<Rightarrow> bool \<Rightarrow> string option \<Rightarrow> string option
    \<Rightarrow> task_state option \<Rightarrow> task_state" where
  "new_task_state E task nextRunAt r trigger taskEnabled lastJobId error previous =
     (let ranAt = sd_iso E (sd_now E) in
      \<lparr>ts_ranAt = ranAt, ts_nextRunAt = nextRunAt, ts_result = r, ts_trigger = trigger, ts_taskEnabled = taskEnabled,
       ts_intervalMinutes = of_int (td_interval task),
       ts_lastSuccessAt = (if r = SR_queued then Some ranAt else Option.bind previous ts_lastSuccessAt),
       ts_lastFailureAt = (if r = SR_failed then Some ranAt else Option.bind previous ts_lastFailureAt),
       ts_lastHeartbeatAt = Some ranAt, ts_lastJobId = lastJobId, ts_error = error\<rparr>)"

definition writeTaskState ::
  "sched_env \<Rightarrow> task_def \<Rightarrow> string option \<Rightarrow> scheduler_result \<Rightarrow> sched_trigger \<Rightarrow> bool \<Rightarrow> string option \<Rightarrow> string option
    \<Rightarrow> app \<Rightarrow> app" where
  "writeTaskState E task nextRunAt r trigger taskEnabled lastJobId error s =
     s\<lparr>settings := (settings s)(state_key (td_key task) \<mapsto> task_state_json
         (new_task_state E task nextRunAt r trigger taskEnabled lastJobId error (readTaskState (td_key task) s)))\<rparr>"

definition writeHeartbeat :: "sched_env \<Rightarrow> app \<Rightarrow> app" where
  "writeHeartbeat E s = s\<lparr>settings := (settings s)(SCHEDULER_HEARTBEAT_KEY \<mapsto> JStr (sd_iso E (sd_now E)))\<rparr>"

definition readHeartbeat :: "app \<Rightarrow> string option" where
  "readHeartbeat s = (case settings s SCHEDULER_HEARTBEAT_KEY of None \<Rightarrow> None | Some v \<Rightarrow> read_string v)"

section \<open>Running a task\<close>

record task_run =
  tr_task :: scheduler_task_key
  tr_result :: scheduler_result
  tr_jobId :: "string option"
  tr_error :: "string option"
  tr_nextRunAt :: "string option"

definition sched_user :: "user_row \<Rightarrow> session_user" where
  "sched_user u = \<lparr>su_id = u_id u, su_username = u_username u, su_email = u_email u, su_role = u_role u,
     su_displayName = u_displayName u\<rparr>"

text \<open>The oldest active SUPER_ADMIN, else the oldest active ADMIN.\<close>

definition oldest_active :: "app_role \<Rightarrow> app \<Rightarrow> user_row option" where
  "oldest_active role s = (case order_asc u_createdAt (filter (\<lambda>u. u_isActive u \<and> u_role u = role) (users s)) of
     [] \<Rightarrow> None | u # _ \<Rightarrow> Some u)"

definition resolveSchedulerActor :: "app \<Rightarrow> session_user option" where
  "resolveSchedulerActor s = map_option sched_user (first_some (oldest_active SUPER_ADMIN s) (oldest_active ADMIN s))"

definition trigger_reason :: "sched_trigger \<Rightarrow> job_reason" where
  "trigger_reason t = (case t of Trg_scheduled \<Rightarrow> R_scheduled | Trg_manual \<Rightarrow> R_manual)"

definition enqueueTask :: "int \<Rightarrow> task_def \<Rightarrow> session_user \<Rightarrow> string \<Rightarrow> sched_trigger \<Rightarrow> app \<Rightarrow> job_public \<times> app" where
  "enqueueTask now task actor correlationId trigger =
     (let payload = \<lparr>mp_actor = actor, mp_reason = trigger_reason trigger, mp_ipAddress = None,
                     mp_correlationId = Some correlationId\<rparr> in
      case td_key task of
        T_retention_cleanup \<Rightarrow> enqueueRetentionCleanup now payload
      | T_upload_cleanup \<Rightarrow> enqueueUploadCleanup now payload
      | T_bucket_sync \<Rightarrow> enqueueBucketSync now payload)"

definition sched_call :: "sched_env \<Rightarrow> sched_call \<Rightarrow> (app, 'a) eff \<Rightarrow> (app, 'a) eff" where
  "sched_call E c m = (case sd_fault E c of None \<Rightarrow> m | Some msg \<Rightarrow> throw (PlainError msg))"

definition active_job :: "job_type \<Rightarrow> app \<Rightarrow> job option" where
  "active_job t s = find (\<lambda>j. j_type j = t \<and> j_status j \<in> {QUEUED, RUNNING}) (jobs s)"

definition no_actor_message :: string where
  "no_actor_message = ''No active SUPER_ADMIN or ADMIN user available for maintenance actor.''"

text \<open>A run that queues nothing: its metric, its record, its answer.\<close>

definition settle ::
  "sched_env \<Rightarrow> task_def \<Rightarrow> string option \<Rightarrow> scheduler_result \<Rightarrow> sched_trigger \<Rightarrow> string option \<Rightarrow> string option
    \<Rightarrow> (app, task_run) eff" where
  "settle E task nextRunAt r trigger jobId error =
     seq_eff (if r = SR_skipped_disabled then ok () else modify (add_metric (MSchedulerRun (td_key task) r)))
     (seq_eff (modify (writeTaskState E task nextRunAt r trigger (td_enabled task) jobId error))
     (ok \<lparr>tr_task = td_key task, tr_result = r, tr_jobId = jobId, tr_error = error, tr_nextRunAt = nextRunAt\<rparr>))"

definition queue_task ::
  "sched_env \<Rightarrow> task_def \<Rightarrow> string option \<Rightarrow> session_user \<Rightarrow> string \<Rightarrow> sched_trigger \<Rightarrow> (app, task_run) eff" where
  "queue_task E task nextRunAt actor correlationId trigger =
     bind_eff (sched_call E SC_enqueue (\<lambda>s. case enqueueTask (sd_now E) task actor correlationId trigger s of
        (j, s') \<Rightarrow> (Inr j, s'))) (\<lambda>j.
     seq_eff (modify (add_metric (MSchedulerRun (td_key task) SR_queued)))
     (seq_eff (sched_call E SC_write (modify (writeTaskState E task nextRunAt SR_queued trigger (td_enabled task) (Some (jp_id j)) None)))
     (seq_eff (sched_call E SC_audit (modify (audit_record (sd_now E) (Some actor) ''maintenance.scheduler.enqueue'' ''job'' (Some (jp_id j))
        (JObj [(''task'', JStr (task_name (td_key task))), (''reason'', JStr (trigger_name trigger)),
               (''correlationId'', JStr correlationId), (''intervalMinutes'', jint (td_interval task))]) None)))
     (ok \<lparr>tr_task = td_key task, tr_result = SR_queued, tr_jobId = Some (jp_id j), tr_error = None, tr_nextRunAt = nextRunAt\<rparr>))))"

definition executeTask ::
  "sched_env \<Rightarrow> task_def \<Rightarrow> session_user option \<Rightarrow> string \<Rightarrow> sched_trigger \<Rightarrow> (app, task_run) eff" where
  "executeTask E task actor correlationId trigger =
     bind_eff (reads (\<lambda>s. computeNextRunAt E (cfg s) task trigger)) (\<lambda>nextRunAt.
     if \<not> td_enabled task then settle E task nextRunAt SR_skipped_disabled trigger None None
     else case actor of
         None \<Rightarrow> settle E task nextRunAt SR_failed trigger None (Some no_actor_message)
       | Some a \<Rightarrow> bind_eff (reads (active_job (td_jobType task))) (\<lambda>active.
           case active of
             Some j \<Rightarrow> settle E task nextRunAt SR_skipped_active trigger (Some (j_id j)) None
           | None \<Rightarrow> catch_eff (queue_task E task nextRunAt a correlationId trigger)
               (\<lambda>error. settle E task nextRunAt SR_failed trigger None (Some (take 2000 (err_message error))))))"

definition disabled_recorded :: "task_def \<Rightarrow> task_state option \<Rightarrow> bool" where
  "disabled_recorded task existing = (case existing of None \<Rightarrow> False
     | Some x \<Rightarrow> ts_result x = SR_skipped_disabled \<and> \<not> ts_taskEnabled x \<and> ts_intervalMinutes x = of_int (td_interval task))"

text \<open>Not due: the stored date is valid and after this instant. A comparison with an invalid date is false.\<close>

definition not_due :: "sched_env \<Rightarrow> task_state option \<Rightarrow> bool" where
  "not_due E current = (case Option.bind current ts_nextRunAt of None \<Rightarrow> False
     | Some t \<Rightarrow> (case sd_parse E t of None \<Rightarrow> False | Some n \<Rightarrow> n > sd_now E))"

definition executeTaskIfDue ::
  "sched_env \<Rightarrow> session_user option \<Rightarrow> string \<Rightarrow> task_def \<Rightarrow> (app, unit) eff" where
  "executeTaskIfDue E actor correlationId task =
     bind_eff (reads (\<lambda>s. isScheduledTaskEnabled (cfg s) task)) (\<lambda>scheduled.
     bind_eff (reads (readTaskState (td_key task))) (\<lambda>current.
       if \<not> scheduled
       then (if disabled_recorded task current then ok ()
             else modify (writeTaskState E task None SR_skipped_disabled Trg_scheduled False None None))
       else if not_due E current then ok ()
       else bind_eff (executeTask E task actor correlationId Trg_scheduled) (\<lambda>_. ok ())))"

section \<open>The tick\<close>

definition tick_lock_key :: "app \<Rightarrow> string" where
  "tick_lock_key s = redis_key (REDIS_PREFIX (cfg s)) ''maintenance:scheduler:tick''"

definition acquire_tick_lock :: "sched_env \<Rightarrow> string \<Rightarrow> (app, bool) eff" where
  "acquire_tick_lock E lockValue = (\<lambda>s.
     case acquireLock (sd_now E) (tick_lock_key s) lockValue (resolveLockTtlSeconds (cfg s)) (redis_st s) of
       (acquired, r) \<Rightarrow> (Inr acquired, s\<lparr>redis_st := r\<rparr>))"

definition release_tick_lock :: "sched_env \<Rightarrow> string \<Rightarrow> app \<Rightarrow> app" where
  "release_tick_lock E lockValue s = release_lock (sd_end E) (tick_lock_key s) lockValue s"

definition stamp :: "sched_env \<Rightarrow> string" where
  "stamp E = nat_to_string (nat (sd_now E))"

definition script_context :: "string \<Rightarrow> string option \<Rightarrow> request_context" where
  "script_context correlationId userId = \<lparr>rc_requestId = correlationId, rc_correlationId = correlationId,
     rc_source = CtxScript, rc_userId = userId, rc_jobId = None\<rparr>"

definition run_due_tasks :: "sched_env \<Rightarrow> string \<Rightarrow> (app, unit) eff" where
  "run_due_tasks E correlationId =
     bind_eff (reads resolveSchedulerActor) (\<lambda>actor.
     seq_eff (modify (writeHeartbeat E))
     (bind_eff (reads (\<lambda>s. getTaskDefinitions (cfg s))) (\<lambda>tasks.
        for_each (executeTaskIfDue E actor correlationId) tasks)))"

text \<open>\<open>running\<close> is the flag that keeps the ticks of a process from overlapping.\<close>

definition sched_tick :: "sched_env \<Rightarrow> bool \<Rightarrow> app \<Rightarrow> app" where
  "sched_tick E running s =
     (if \<not> MAINTENANCE_SCHEDULER_ENABLED (cfg s) \<or> running then s
      else let lockValue = sd_instance E @ '':'' @ stamp E; correlationId = sd_instance E @ ''-'' @ stamp E in
        release_tick_lock E lockValue (snd (catch_eff
          (bind_eff (acquire_tick_lock E lockValue) (\<lambda>acquired.
             if \<not> acquired then ok ()
             else runWithRequestContext (script_context correlationId None) (run_due_tasks E correlationId)))
          (\<lambda>_. ok ()) s)))"

section \<open>A run on request\<close>

definition failed_run :: "scheduler_task_key \<Rightarrow> string \<Rightarrow> task_run" where
  "failed_run k message = \<lparr>tr_task = k, tr_result = SR_failed, tr_jobId = None, tr_error = Some message, tr_nextRunAt = None\<rparr>"

definition run_once_audit :: "sched_env \<Rightarrow> session_user \<Rightarrow> string \<Rightarrow> task_run \<Rightarrow> app \<Rightarrow> app" where
  "run_once_audit E actor correlationId r = audit_record (sd_now E) (Some actor) ''maintenance.scheduler.run_once''
     ''maintenance_task'' (Some (task_name (tr_task r)))
     (JObj [(''task'', JStr (task_name (tr_task r))), (''result'', JStr (result_name (tr_result r))),
        (''jobId'', jstr_opt (tr_jobId r)), (''error'', jstr_opt (tr_error r)), (''reason'', JStr ''manual''),
        (''correlationId'', JStr correlationId)]) None"

text \<open>The key is one of the three by its type, so \<open>find\<close> succeeds; the model keeps the check.\<close>

definition runTaskNow :: "sched_env \<Rightarrow> scheduler_task_key \<Rightarrow> session_user \<Rightarrow> string option \<Rightarrow> app \<Rightarrow> task_run res \<times> app" where
  "runTaskNow E taskKey actor correlationId s =
     (case find (\<lambda>t. td_key t = taskKey) (getTaskDefinitions (cfg s)) of
        None \<Rightarrow> (Inr (failed_run taskKey ''Unknown maintenance task.''), s)
      | Some task \<Rightarrow>
          let runCorrelationId = or_else correlationId (sd_instance E @ ''-manual-'' @ stamp E);
              lockValue = sd_instance E @ '':manual:'' @ task_name taskKey @ '':'' @ stamp E
          in (case acquire_tick_lock E lockValue s of
                (Inr True, s1) \<Rightarrow>
                  (case bind_eff (runWithRequestContext (script_context runCorrelationId (Some (su_id actor)))
                             (executeTask E task (Some actor) runCorrelationId Trg_manual))
                           (\<lambda>r. seq_eff (modify (run_once_audit E actor runCorrelationId r)) (ok r)) s1 of
                     (r, s2) \<Rightarrow> (r, release_tick_lock E lockValue s2))
              | (_, s1) \<Rightarrow> (Inr (failed_run taskKey ''Scheduler lock is busy. Try again shortly.''), s1)))"

section \<open>Status\<close>

record task_status =
  st_task :: scheduler_task_key
  st_enabled :: bool
  st_intervalMinutes :: int
  st_state :: "task_state option"

text \<open>The other fields of a task's status are those of its stored state, or null without one.\<close>

record scheduler_status =
  ss_enabled :: bool
  ss_tickSeconds :: int
  ss_lockTtlSeconds :: int
  ss_lastHeartbeatAt :: "string option"
  ss_tasks :: "task_status list"

definition getStatus :: "app \<Rightarrow> scheduler_status" where
  "getStatus s = \<lparr>ss_enabled = MAINTENANCE_SCHEDULER_ENABLED (cfg s), ss_tickSeconds = MAINTENANCE_SCHEDULER_TICK_SECONDS (cfg s),
     ss_lockTtlSeconds = resolveLockTtlSeconds (cfg s), ss_lastHeartbeatAt = readHeartbeat s,
     ss_tasks = map (\<lambda>task. \<lparr>st_task = td_key task, st_enabled = isScheduledTaskEnabled (cfg s) task,
        st_intervalMinutes = td_interval task, st_state = readTaskState (td_key task) s\<rparr>) (getTaskDefinitions (cfg s))\<rparr>"

end
