(* ===== verification/SchedulerProps.thy ===== *)
theory SchedulerProps
  imports Scheduler
begin

text \<open>
  What the scheduler guarantees: it never adds a job beside an active one of the same type, and a task
  that is due is queued once per interval.
\<close>

section \<open>What a task run leaves alone\<close>

lemma jobs_frame [simp]:
  "jobs (add_metric m s) = jobs s" "jobs (writeTaskState E task n r t en j e s) = jobs s"
  "jobs (writeHeartbeat E s) = jobs s" "cfg (writeTaskState E task n r t en j e s) = cfg s"
  "cfg (add_metric m s) = cfg s" "settings (add_metric m s) = settings s"
  by (simp_all add: add_metric_def writeTaskState_def writeHeartbeat_def)

lemma jobs_release [simp]: "jobs (release_lock n k v s) = jobs s"
  by (simp add: release_lock_def)

fun job_type_of :: "scheduler_task_key \<Rightarrow> job_type" where
  "job_type_of T_retention_cleanup = RETENTION_CLEANUP"
| "job_type_of T_upload_cleanup = UPLOAD_CLEANUP"
| "job_type_of T_bucket_sync = BUCKET_SYNC"

lemma task_definitions_typed: "task \<in> set (getTaskDefinitions c) \<Longrightarrow> td_jobType task = job_type_of (td_key task)"
  by (auto simp: getTaskDefinitions_def)

lemma job_event_frame [simp]: "jobs (job_event_for now j i s) = jobs s" "settings (job_event_for now j i s) = settings s"
  "cfg (job_event_for now j i s) = cfg s"
  by (simp_all add: job_event_for_def createEvent_def bump_id_def)

lemma enqueue_appends:
  assumes "enqueueTask now task a c t s = (p, s1)" and "td_jobType task = job_type_of (td_key task)"
  shows "\<exists>j. jobs s1 = jobs s @ [j] \<and> j_type j = td_jobType task \<and> j_status j = QUEUED
    \<and> j_createdByUserId j = Some (su_id a) \<and> j_id j = new_id s \<and> jp_id p = new_id s \<and> settings s1 = settings s \<and> cfg s1 = cfg s"
  using assms
  by (cases "td_key task") (auto simp: enqueueTask_def enqueueRetentionCleanup_def enqueueUploadCleanup_def
      enqueueBucketSync_def enqueue_def Let_def toPublic_def bump_id_def)

lemma settle_apply: "settle E task n r t j e s = (Inr \<lparr>tr_task = td_key task, tr_result = r, tr_jobId = j, tr_error = e, tr_nextRunAt = n\<rparr>,
    writeTaskState E task n r t (td_enabled task) j e
      (if r = SR_skipped_disabled then s else add_metric (MSchedulerRun (td_key task) r) s))"
  by (simp add: settle_def eff_simps)

lemma queue_task_jobs:
  assumes "td_jobType task = job_type_of (td_key task)"
  shows "jobs (snd (queue_task E task n a c t s)) = jobs s
    \<or> (\<exists>j. jobs (snd (queue_task E task n a c t s)) = jobs s @ [j] \<and> j_type j = td_jobType task \<and> j_status j = QUEUED)"
proof -
  obtain p s1 where q: "enqueueTask (sd_now E) task a c t s = (p, s1)" by fastforce
  show ?thesis
    using enqueue_appends [OF q assms]
    by (cases "sd_fault E SC_enqueue"; cases "sd_fault E SC_write"; cases "sd_fault E SC_audit")
      (auto simp: queue_task_def sched_call_def eff_simps q)
qed

lemma executeTask_jobs:
  assumes "td_jobType task = job_type_of (td_key task)"
  shows "jobs (snd (executeTask E task actor c t s)) = jobs s
    \<or> active_job (td_jobType task) s = None
      \<and> (\<exists>j. jobs (snd (executeTask E task actor c t s)) = jobs s @ [j] \<and> j_type j = td_jobType task \<and> j_status j = QUEUED)"
proof (cases "td_enabled task \<and> actor \<noteq> None \<and> active_job (td_jobType task) s = None")
  case True
  then obtain a where a: "actor = Some a" by auto
  have "jobs (snd (executeTask E task actor c t s))
      = jobs (snd (queue_task E task (computeNextRunAt E (cfg s) task t) a c t s))"
    using True by (simp add: executeTask_def eff_simps a catch_eff_def settle_apply split: prod.split sum.split)
  then show ?thesis using True queue_task_jobs [OF assms] by metis
next
  case False
  then show ?thesis by (auto simp: executeTask_def eff_simps settle_apply split: option.splits)
qed

section \<open>No job beside an active one\<close>

text \<open>The state has grown from \<open>s0\<close> by queued maintenance jobs of different types, none of which had
  an active job in \<open>s0\<close>.\<close>

definition grown :: "app \<Rightarrow> app \<Rightarrow> bool" where
  "grown s0 s \<longleftrightarrow> (\<exists>new. jobs s = jobs s0 @ new \<and> distinct (map j_type new)
     \<and> (\<forall>j\<in>set new. j_status j = QUEUED \<and> j_type j \<in> {RETENTION_CLEANUP, UPLOAD_CLEANUP, BUCKET_SYNC}
          \<and> active_job (j_type j) s0 = None))"

lemma grown_refl: "grown s s"
  by (auto simp: grown_def intro: exI [of _ "[]"])

lemma grown_jobs: "grown s0 s \<Longrightarrow> jobs t = jobs s \<Longrightarrow> grown s0 t"
  by (simp add: grown_def)

lemma grown_enqueue:
  assumes "grown s0 s" and "active_job t s = None" and "jobs s1 = jobs s @ [j]" and "j_type j = t" and "j_status j = QUEUED"
    and "t = job_type_of k"
  shows "grown s0 s1"
proof -
  obtain new where new: "jobs s = jobs s0 @ new" "distinct (map j_type new)"
    "\<forall>j\<in>set new. j_status j = QUEUED \<and> j_type j \<in> {RETENTION_CLEANUP, UPLOAD_CLEANUP, BUCKET_SYNC} \<and> active_job (j_type j) s0 = None"
    using assms(1) by (auto simp: grown_def)
  have idle: "\<not> (j_type x = t \<and> j_status x \<in> {QUEUED, RUNNING})" if "x \<in> set (jobs s)" for x
    using assms(2) that unfolding active_job_def by (rule find_NoneD)
  then have "t \<notin> j_type ` set new" using new(1,3) by auto
  moreover have "active_job t s0 = None" using idle new(1) by (auto simp: active_job_def find_None_iff)
  moreover have "t \<in> {RETENTION_CLEANUP, UPLOAD_CLEANUP, BUCKET_SYNC}" using assms(6) by (cases k) auto
  ultimately show ?thesis
    using new assms(3-5) by (auto simp: grown_def intro!: exI [of _ "new @ [j]"])
qed

lemma executeTask_grown:
  "td_jobType task = job_type_of (td_key task) \<Longrightarrow> preserves (grown s0) (executeTask E task actor c t)"
  using executeTask_jobs grown_enqueue grown_jobs by (blast intro: preservesI)

lemma executeTaskIfDue_grown:
  "td_jobType task = job_type_of (td_key task) \<Longrightarrow> preserves (grown s0) (executeTaskIfDue E actor c task)"
  unfolding executeTaskIfDue_def
  by (intro preserves_intros executeTask_grown) (auto elim: grown_jobs)

lemma preserves_context:
  assumes "preserves P m" and "\<And>s c. P (s\<lparr>ctx := c\<rparr>) = P s"
  shows "preserves P (runWithRequestContext c m)"
proof
  fix s assume "P s"
  then have "P (snd (m (s\<lparr>ctx := Some c\<rparr>)))" using assms by (simp add: preservesD)
  then show "P (snd (runWithRequestContext c m s))"
    using assms(2) by (cases "m (s\<lparr>ctx := Some c\<rparr>)") (simp add: runWithRequestContext_def)
qed

lemma grown_ctx: "grown s0 (s\<lparr>ctx := c\<rparr>) = grown s0 s"
  by (simp add: grown_def)

lemma preserves_for_each_set:
  "(\<And>x. x \<in> set xs \<Longrightarrow> preserves P (f x)) \<Longrightarrow> preserves P (for_each f xs)"
  by (induction xs) (auto intro: preserves_intros)

lemma run_due_grown: "preserves (grown s0) (run_due_tasks E c)"
proof
  fix s assume s: "grown s0 s"
  have "preserves (grown s0) (for_each (executeTaskIfDue E (resolveSchedulerActor s) c) (getTaskDefinitions (cfg (writeHeartbeat E s))))"
    by (intro preserves_for_each_set executeTaskIfDue_grown task_definitions_typed)
  moreover have "grown s0 (writeHeartbeat E s)" using s by (rule grown_jobs) simp
  ultimately have "grown s0 (snd (for_each (executeTaskIfDue E (resolveSchedulerActor s) c)
      (getTaskDefinitions (cfg (writeHeartbeat E s))) (writeHeartbeat E s)))"
    by (rule preservesD)
  then show "grown s0 (snd (run_due_tasks E c s))" by (simp add: run_due_tasks_def eff_simps)
qed

lemma acquire_grown: "preserves (grown s0) (acquire_tick_lock E v)"
  by (rule preservesI) (auto simp: acquire_tick_lock_def elim!: grown_jobs split: prod.split)

lemma release_tick_grown: "grown s0 (release_tick_lock E v s) = grown s0 s"
  by (simp add: grown_def release_tick_lock_def)

lemma sched_tick_grown: "grown s (sched_tick E running s)"
proof -
  let ?m = "\<lambda>v c. catch_eff (bind_eff (acquire_tick_lock E v) (\<lambda>acquired. if \<not> acquired then ok ()
    else runWithRequestContext (script_context c None) (run_due_tasks E c))) (\<lambda>_. ok ())"
  have "preserves (grown s) (?m v c)" for v c
    by (intro preserves_intros acquire_grown preserves_context run_due_grown grown_ctx)
  then have "grown s (snd (?m v c s))" for v c using grown_refl by (rule preservesD)
  then show ?thesis
    unfolding sched_tick_def Let_def by (simp add: grown_refl release_tick_grown)
qed

lemma jobs_run_once_audit: "jobs (run_once_audit E a c r s) = jobs s"
  by (simp add: run_once_audit_def audit_record_def bump_id_def Let_def)

lemma runTaskNow_grown: "grown s (snd (runTaskNow E k actor c s))"
proof (cases "find (\<lambda>t. td_key t = k) (getTaskDefinitions (cfg s))")
  case None
  then show ?thesis by (simp add: runTaskNow_def grown_refl)
next
  case (Some task)
  then have typed: "td_jobType task = job_type_of (td_key task)"
    by (metis find_Some_iff nth_mem task_definitions_typed)
  let ?m = "\<lambda>c. bind_eff (runWithRequestContext (script_context c (Some (su_id actor)))
      (executeTask E task (Some actor) c Trg_manual)) (\<lambda>r. seq_eff (modify (run_once_audit E actor c r)) (ok r))"
  have run: "preserves (grown s) (?m c)" for c
    by (intro preserves_intros preserves_context executeTask_grown typed grown_ctx)
      (erule grown_jobs, simp add: jobs_run_once_audit)
  have lock: "grown s (snd (acquire_tick_lock E v s))" for v
    by (rule preservesD [OF acquire_grown grown_refl])
  have lockD: "acquire_tick_lock E v s = (r, s1) \<Longrightarrow> grown s s1" for v r s1
    using lock [of v] by simp
  have runD: "?m c s1 = (r, s2) \<Longrightarrow> grown s s1 \<Longrightarrow> grown s s2" for c s1 r s2
    using preservesD [OF run, of s1 c] by simp
  show ?thesis
    using Some by (auto simp: runTaskNow_def Let_def release_tick_grown
        split: prod.split sum.split bool.split dest!: lockD runD)
qed

section \<open>Once per interval\<close>

lemma read_written:
  assumes "sd_iso E (sd_now E) \<noteq> []" and "n \<noteq> Some []"
  shows "Option.bind (readTaskState (td_key task) (writeTaskState E task n r t en j e s)) ts_nextRunAt = n"
  using assms
  by (cases r; cases t; cases n)
    (simp_all add: readTaskState_def writeTaskState_def task_state_json_def new_task_state_def Let_def jstr_opt_def jopt_def)

lemma due_run_queues:
  assumes "sd_fault E = (\<lambda>_. None)" and "task \<in> set (getTaskDefinitions (cfg s))"
    and "isScheduledTaskEnabled (cfg s) task" and "\<not> not_due E (readTaskState (td_key task) s)"
    and "active_job (td_jobType task) s = None"
  shows "\<exists>j s0. jobs s0 = jobs s @ [j] \<and> j_type j = td_jobType task \<and> j_status j = QUEUED \<and> j_createdByUserId j = Some (su_id a)
    \<and> cfg s0 = cfg s \<and> (\<exists>jid. settings (snd (executeTaskIfDue E (Some a) c task s)) (state_key (td_key task))
        = settings (writeTaskState E task (Some (sd_iso E (next_instant (sd_now E) task))) SR_queued Trg_scheduled True jid None s0)
            (state_key (td_key task)))
    \<and> jobs (snd (executeTaskIfDue E (Some a) c task s)) = jobs s0
    \<and> fst (executeTaskIfDue E (Some a) c task s) = Inr ()"
proof -
  obtain p s1 where q: "enqueueTask (sd_now E) task a c Trg_scheduled s = (p, s1)" by fastforce
  obtain j where j: "jobs s1 = jobs s @ [j]" "j_type j = td_jobType task" "j_status j = QUEUED"
    "j_createdByUserId j = Some (su_id a)" "cfg s1 = cfg s"
    using enqueue_appends [OF q task_definitions_typed [OF assms(2)]] by blast
  have on: "td_enabled task" "td_interval task > 0" using assms(3) by (simp_all add: isScheduledTaskEnabled_def)
  let ?w = "writeTaskState E task (Some (sd_iso E (next_instant (sd_now E) task))) SR_queued Trg_scheduled True (Some (jp_id p)) None
      (add_metric (MSchedulerRun (td_key task) SR_queued) s1)"
  have run: "executeTaskIfDue E (Some a) c task s = (Inr (), audit_record (sd_now E) (Some a) ''maintenance.scheduler.enqueue'' ''job''
      (Some (jp_id p)) (JObj [(''task'', JStr (task_name (td_key task))), (''reason'', JStr (trigger_name Trg_scheduled)),
         (''correlationId'', JStr c), (''intervalMinutes'', jint (td_interval task))]) None ?w)"
    using assms on by (simp add: executeTaskIfDue_def executeTask_def queue_task_def computeNextRunAt_def sched_call_def
        eff_simps catch_eff_def q)
  have audit: "jobs (audit_record n u x y z w v t) = jobs t" "settings (audit_record n u x y z w v t) = settings t"
    for n u x y z w v t by (simp_all add: audit_record_def bump_id_def Let_def)
  show ?thesis
    using j by (intro exI [of _ j] exI [of _ "add_metric (MSchedulerRun (td_key task) SR_queued) s1"]) (auto simp: run audit)
qed

lemma written_state:
  assumes "sd_iso E (sd_now E) \<noteq> []" and "n \<noteq> Some []"
    and "settings s2 (state_key (td_key task)) = settings (writeTaskState E task n r t en j e s) (state_key (td_key task))"
  shows "Option.bind (readTaskState (td_key task) s2) ts_nextRunAt = n"
proof -
  have "readTaskState (td_key task) s2 = readTaskState (td_key task) (writeTaskState E task n r t en j e s)"
    unfolding readTaskState_def by (simp only: assms(3))
  then show ?thesis using read_written [OF assms(1,2)] by simp
qed

definition maintenance_types :: "job_type list" where
  "maintenance_types = [RETENTION_CLEANUP, UPLOAD_CLEANUP, BUCKET_SYNC]"

definition active_jobs :: "app \<Rightarrow> job_type \<Rightarrow> job list" where
  "active_jobs s t = filter (\<lambda>j. j_type j = t \<and> j_status j \<in> {QUEUED, RUNNING}) (jobs s)"

definition one_active :: "app \<Rightarrow> bool" where
  "one_active s = list_all (\<lambda>t. length (active_jobs s t) \<le> 1) maintenance_types"

lemma no_active_job: "active_job t s = None \<Longrightarrow> active_jobs s t = []"
  by (auto simp: active_job_def active_jobs_def find_None_iff filter_empty_conv)

lemma few_of_type: "distinct (map j_type xs) \<Longrightarrow> length (filter (\<lambda>j. j_type j = t \<and> Q j) xs) \<le> 1"
proof (induction xs)
  case (Cons x xs)
  then show ?case
    by (cases "j_type x = t") (auto simp: filter_empty_conv image_iff)
qed simp

lemma grown_one_active:
  assumes "grown s0 s" and "one_active s0"
  shows "one_active s"
proof -
  obtain new where new: "jobs s = jobs s0 @ new" "distinct (map j_type new)" "\<forall>j\<in>set new. active_job (j_type j) s0 = None"
    using assms(1) by (auto simp: grown_def)
  have "length (active_jobs s t) \<le> 1" if t: "length (active_jobs s0 t) \<le> 1" for t
  proof (cases "active_job t s0 = None")
    case True
    then show ?thesis using few_of_type [OF new(2)] no_active_job [OF True] by (simp add: active_jobs_def new(1))
  next
    case False
    then have "filter (\<lambda>j. j_type j = t \<and> j_status j \<in> {QUEUED, RUNNING}) new = []"
      using new(3) by (auto simp: filter_empty_conv)
    then show ?thesis using t by (simp add: active_jobs_def new(1))
  qed
  then show ?thesis using assms(2) by (simp add: one_active_def list_all_iff)
qed

section \<open>The properties\<close>

text \<open>
  C26. The scheduler never queues a maintenance job beside an active one: if each of the three types has at
  most one queued or running job, so it is after a tick and after an administrator's run. Both only append
  jobs, all of them queued, of different types, and of types that had no active job.
\<close>

theorem scheduler_never_duplicates:
  assumes "one_active s"
  shows "one_active (sched_tick E running s) \<and> one_active (snd (runTaskNow E k actor c s))
    \<and> grown s (sched_tick E running s) \<and> grown s (snd (runTaskNow E k actor c s))"
  using grown_one_active [OF _ assms] sched_tick_grown runTaskNow_grown by blast

text \<open>An instant is written in unary with its sign.\<close>

definition unary_iso :: "int \<Rightarrow> string" where
  "unary_iso t = (if t < 0 then CHR ''-'' else CHR ''+'') # replicate (nat \<bar>t\<bar>) CHR ''1''"

definition unary_parse :: "string \<Rightarrow> int option" where
  "unary_parse x = (case x of [] \<Rightarrow> None | c # cs \<Rightarrow> Some (if c = CHR ''-'' then - int (length cs) else int (length cs)))"

definition demo_clock :: sched_env where
  "demo_clock = \<lparr>sd_now = 5, sd_end = 6, sd_instance = ''api'', sd_iso = unary_iso, sd_parse = unary_parse,
     sd_fault = (\<lambda>_. None)\<rparr>"

definition demo_admin :: user_row where
  "demo_admin = \<lparr>u_id = ''a1'', u_username = ''root'', u_email = None, u_displayName = None, u_role = SUPER_ADMIN,
     u_source = LOCAL, u_isActive = True, u_createdAt = 0\<rparr>"

definition demo_schedule_site :: app where
  "demo_schedule_site = init_app\<lparr>users := [demo_admin],
     cfg := default_config\<lparr>MAINTENANCE_SCHEDULER_ENABLED := True, MAINTENANCE_UPLOAD_CLEANUP_INTERVAL_MINUTES := 0\<rparr>\<rparr>"

theorem scheduler_never_duplicates_witness:
  "one_active (sched_tick demo_clock False demo_schedule_site)"
proof -
  have "one_active demo_schedule_site"
    by (simp add: one_active_def active_jobs_def demo_schedule_site_def init_app_def maintenance_types_def)
  from scheduler_never_duplicates [OF this, of demo_clock False T_bucket_sync "sched_user demo_admin" None] show ?thesis by simp
qed

text \<open>
  C27. A task that is due runs once per interval. With no database error, an actor and no active job of its
  type, a due task queues exactly one job in the actor's name; from then on, whatever other settings change,
  a tick before the next instant (now plus the interval) leaves the task alone, and a tick at or after it
  queues the job again unless one is still active.
\<close>

theorem due_task_queued_once_per_interval:
  assumes clock: "\<And>t. sd_iso E t \<noteq> [] \<and> sd_parse E (sd_iso E t) = Some t" and calls: "sd_fault E = (\<lambda>_. None)"
    and task: "task \<in> set (getTaskDefinitions (cfg s))" "isScheduledTaskEnabled (cfg s) task"
    and due: "\<not> not_due E (readTaskState (td_key task) s)" "active_job (td_jobType task) s = None"
    and run: "executeTaskIfDue E (Some a) c task s = (r, s1)"
    and later: "settings s2 (state_key (td_key task)) = settings s1 (state_key (td_key task))" "cfg s2 = cfg s"
  shows "(\<exists>j. jobs s1 = jobs s @ [j] \<and> j_type j = td_jobType task \<and> j_status j = QUEUED \<and> j_createdByUserId j = Some (su_id a))
    \<and> (t < next_instant (sd_now E) task \<longrightarrow> executeTaskIfDue (E\<lparr>sd_now := t\<rparr>) b c' task s2 = (Inr (), s2))
    \<and> (t \<ge> next_instant (sd_now E) task \<longrightarrow> active_job (td_jobType task) s2 = None \<longrightarrow>
        (\<exists>j. jobs (snd (executeTaskIfDue (E\<lparr>sd_now := t\<rparr>) (Some a) c' task s2)) = jobs s2 @ [j]
          \<and> j_type j = td_jobType task \<and> j_status j = QUEUED))"
proof -
  obtain j s0 jid where q: "jobs s0 = jobs s @ [j]" "j_type j = td_jobType task" "j_status j = QUEUED"
    "j_createdByUserId j = Some (su_id a)" "jobs s1 = jobs s0"
    "settings s1 (state_key (td_key task)) = settings (writeTaskState E task (Some (sd_iso E (next_instant (sd_now E) task)))
        SR_queued Trg_scheduled True jid None s0) (state_key (td_key task))"
    using due_run_queues [OF calls task due, of a c] unfolding run by auto
  have at: "Option.bind (readTaskState (td_key task) s2) ts_nextRunAt = Some (sd_iso E (next_instant (sd_now E) task))"
    by (rule written_state [OF _ _ later(1) [unfolded q(6)]]) (simp_all add: clock)
  then have nd: "not_due (E\<lparr>sd_now := t\<rparr>) (readTaskState (td_key task) s2) \<longleftrightarrow> t < next_instant (sd_now E) task"
    by (simp add: not_due_def clock)
  have enabled: "isScheduledTaskEnabled (cfg s2) task" "task \<in> set (getTaskDefinitions (cfg s2))"
    using task later(2) by simp_all
  have "executeTaskIfDue (E\<lparr>sd_now := t\<rparr>) b c' task s2 = (Inr (), s2)" if "t < next_instant (sd_now E) task"
    using that nd enabled by (simp add: executeTaskIfDue_def eff_simps)
  moreover have "\<exists>j. jobs (snd (executeTaskIfDue (E\<lparr>sd_now := t\<rparr>) (Some a) c' task s2)) = jobs s2 @ [j]
      \<and> j_type j = td_jobType task \<and> j_status j = QUEUED"
    if "t \<ge> next_instant (sd_now E) task" "active_job (td_jobType task) s2 = None"
    using due_run_queues [of "E\<lparr>sd_now := t\<rparr>" task s2 a c'] that nd enabled calls by auto
  ultimately show ?thesis using q by auto
qed

definition demo_task :: task_def where
  "demo_task = \<lparr>td_key = T_retention_cleanup, td_jobType = RETENTION_CLEANUP, td_interval = 360, td_enabled = True\<rparr>"

theorem due_task_queued_once_per_interval_witness:
  "\<exists>j. jobs (snd (executeTaskIfDue demo_clock (Some (sched_user demo_admin)) ''c'' demo_task demo_schedule_site)) = [j]
    \<and> j_type j = RETENTION_CLEANUP \<and> j_status j = QUEUED"
proof -
  have clock: "sd_iso demo_clock t \<noteq> [] \<and> sd_parse demo_clock (sd_iso demo_clock t) = Some t" for t
    by (simp add: demo_clock_def unary_iso_def unary_parse_def)
  obtain r s1 where run: "executeTaskIfDue demo_clock (Some (sched_user demo_admin)) ''c'' demo_task demo_schedule_site = (r, s1)"
    by fastforce
  have fresh: "\<not> not_due demo_clock (readTaskState (td_key demo_task) demo_schedule_site)"
    "active_job (td_jobType demo_task) demo_schedule_site = None"
    by (simp_all add: not_due_def readTaskState_def active_job_def demo_schedule_site_def init_app_def)
  have task: "demo_task \<in> set (getTaskDefinitions (cfg demo_schedule_site))" "isScheduledTaskEnabled (cfg demo_schedule_site) demo_task"
    by (simp_all add: demo_task_def getTaskDefinitions_def isScheduledTaskEnabled_def demo_schedule_site_def init_app_def
        default_config_def positive_interval_def)
  have calls: "sd_fault demo_clock = (\<lambda>_. None)" by (simp add: demo_clock_def)
  have later: "settings (s1\<lparr>cfg := cfg demo_schedule_site\<rparr>) (state_key (td_key demo_task)) = settings s1 (state_key (td_key demo_task))"
    "cfg (s1\<lparr>cfg := cfg demo_schedule_site\<rparr>) = cfg demo_schedule_site" by simp_all
  have "jobs demo_schedule_site = []" "td_jobType demo_task = RETENTION_CLEANUP"
    by (simp_all add: demo_schedule_site_def init_app_def demo_task_def)
  with due_task_queued_once_per_interval [OF clock calls task fresh run later, of 0 None "''c''"]
  show ?thesis unfolding run by auto
qed

end
