(* ===== verification/Zod.thy ===== *)
theory Zod
  imports Authz Worker
begin

text \<open>
  How the controllers read a request: the pieces of the \<open>zod\<close> schemas they use. A parser answers
  \<open>None\<close> where \<open>parse\<close> throws. JSON holds no \<open>undefined\<close>, so that a key is absent exactly when its
  value is \<open>JUndef\<close>. \<open>num\<close> and \<open>num_of\<close> are the two conversions between numbers and strings.
\<close>

section \<open>Fields\<close>

text \<open>\<open>.optional()\<close>, \<open>.nullable()\<close>, both, and \<open>.default(d)\<close>.\<close>

definition z_opt :: "(json \<Rightarrow> 'a option) \<Rightarrow> json \<Rightarrow> 'a option option" where
  "z_opt p v = (if v = JUndef then Some None else map_option Some (p v))"

definition z_null :: "(json \<Rightarrow> 'a option) \<Rightarrow> json \<Rightarrow> 'a option option" where
  "z_null p v = (if v = JNull then Some None else map_option Some (p v))"

definition z_patch :: "(json \<Rightarrow> 'a option) \<Rightarrow> json \<Rightarrow> 'a patch option" where
  "z_patch p v = (if v = JUndef then Some Keep else if v = JNull then Some SetNull else map_option SetTo (p v))"

definition z_default :: "'a \<Rightarrow> (json \<Rightarrow> 'a option) \<Rightarrow> json \<Rightarrow> 'a option" where
  "z_default d p v = (if v = JUndef then Some d else p v)"

text \<open>\<open>z.string().min(lo)\<close> and \<open>z.string().min(lo).max(hi)\<close>.\<close>

definition z_string_min :: "nat \<Rightarrow> json \<Rightarrow> string option" where
  "z_string_min lo v = (case z_string v of None \<Rightarrow> None | Some s \<Rightarrow> if lo \<le> length s then Some s else None)"

definition z_string_in :: "nat \<Rightarrow> nat \<Rightarrow> json \<Rightarrow> string option" where
  "z_string_in lo hi v = (case z_string_min lo v of None \<Rightarrow> None | Some s \<Rightarrow> if length s \<le> hi then Some s else None)"

definition z_checked :: "(string \<Rightarrow> bool) \<Rightarrow> json \<Rightarrow> string option" where
  "z_checked ok_string v = (case z_string v of None \<Rightarrow> None | Some s \<Rightarrow> if ok_string s then Some s else None)"

fun z_bool :: "json \<Rightarrow> bool option" where
  "z_bool (JBool b) = Some b"
| "z_bool _ = None"

fun z_all :: "(json \<Rightarrow> 'a option) \<Rightarrow> json list \<Rightarrow> 'a list option" where
  "z_all p [] = Some []"
| "z_all p (v # vs) = bind_opt (p v) (\<lambda>x. bind_opt (z_all p vs) (\<lambda>xs. Some (x # xs)))"

definition z_array :: "(json \<Rightarrow> 'a option) \<Rightarrow> json \<Rightarrow> 'a list option" where
  "z_array p v = (case v of JArr vs \<Rightarrow> z_all p vs | _ \<Rightarrow> None)"

fun z_values :: "(json \<Rightarrow> 'a option) \<Rightarrow> (string \<times> json) list \<Rightarrow> (string \<times> 'a) list option" where
  "z_values p [] = Some []"
| "z_values p (kv # kvs) = bind_opt (p (snd kv)) (\<lambda>x. bind_opt (z_values p kvs) (\<lambda>xs. Some ((fst kv, x) # xs)))"

definition z_record :: "(json \<Rightarrow> 'a option) \<Rightarrow> json \<Rightarrow> (string \<times> 'a) list option" where
  "z_record p v = (case v of JObj kvs \<Rightarrow> z_values p kvs | _ \<Rightarrow> None)"

section \<open>Coerced numbers\<close>

text \<open>\<open>Number(value)\<close>; \<open>None\<close> is \<open>NaN\<close>, which \<open>z.number()\<close> refuses, as it is for a value with no primitive.\<close>

fun js_Number :: "(rat \<Rightarrow> string) \<Rightarrow> (string \<Rightarrow> rat option) \<Rightarrow> json \<Rightarrow> rat option" where
  "js_Number num num_of JUndef = None"
| "js_Number num num_of JNull = Some 0"
| "js_Number num num_of (JBool b) = Some (if b then 1 else 0)"
| "js_Number num num_of (JNum n) = Some n"
| "js_Number num num_of v = (case js_string num v of Inl _ \<Rightarrow> None | Inr t \<Rightarrow> num_of t)"

definition z_int_in :: "(rat \<Rightarrow> string) \<Rightarrow> (string \<Rightarrow> rat option) \<Rightarrow> int \<Rightarrow> int \<Rightarrow> json \<Rightarrow> int option" where
  "z_int_in num num_of lo hi v = (case js_Number num num_of v of None \<Rightarrow> None
     | Some n \<Rightarrow> if n = of_int \<lfloor>n\<rfloor> \<and> lo \<le> \<lfloor>n\<rfloor> \<and> \<lfloor>n\<rfloor> \<le> hi then Some \<lfloor>n\<rfloor> else None)"

text \<open>\<open>z.coerce.number().int().min(lo)\<close>: an integer is a safe one, of at most 53 bits.\<close>

definition max_safe_integer :: int where
  "max_safe_integer = 9007199254740991"

definition z_int_min :: "(rat \<Rightarrow> string) \<Rightarrow> (string \<Rightarrow> rat option) \<Rightarrow> int \<Rightarrow> json \<Rightarrow> int option" where
  "z_int_min num num_of lo = z_int_in num num_of lo max_safe_integer"

section \<open>Objects\<close>

text \<open>\<open>schema.parse(body)\<close>: the error is a \<open>ZodError\<close>, whose message is left to \<open>zod_message\<close>.\<close>

definition parse_body :: "(json \<Rightarrow> string) \<Rightarrow> (json \<Rightarrow> 'a option) \<Rightarrow> json \<Rightarrow> ('s, 'a) eff" where
  "parse_body zod_message schema body = need (schema body) (PlainError (zod_message body))"

lemma bind_opt_Some: "bind_opt v f = Some y \<longleftrightarrow> (\<exists>x. v = Some x \<and> f x = Some y)"
  by (cases v) simp_all

lemma z_patch_string1: "z_patch z_string1 v = Some (SetTo p) \<Longrightarrow> p \<noteq> []"
  by (auto simp: z_patch_def z_string1_def split: if_splits option.splits)

lemma z_int_in_bounds: "z_int_in num num_of lo hi v = Some n \<Longrightarrow> lo \<le> n \<and> n \<le> hi"
  by (auto simp: z_int_in_def split: option.splits if_splits)

lemma z_int_min_bound: "z_int_min num num_of lo v = Some n \<Longrightarrow> lo \<le> n"
  by (auto simp: z_int_min_def dest: z_int_in_bounds)

lemma z_opt_cases: "z_opt p v = Some r \<Longrightarrow> r = None \<and> v = JUndef \<or> (\<exists>x. r = Some x \<and> p v = Some x)"
  by (auto simp: z_opt_def split: if_splits)

end
