(* ===== verification/Accounts.thy ===== *)
theory Accounts
  imports Zod
begin

text \<open>
  User administration: \<open>apps/api/src/users/users.service.ts\<close> and the handlers of
  \<open>users.controller.ts\<close>. Password hashing (package \<open>argon2\<close>) and the e-mail check of \<open>zod\<close> are
  parameters; a database write fails when it breaks a unique column.
\<close>

record accounts_env =
  ae_now :: int
  ae_hash :: "string \<Rightarrow> string"
  ae_is_email :: "string \<Rightarrow> bool"
  ae_collate :: "string \<Rightarrow> string"
  ae_zod_message :: "json \<Rightarrow> string"

section \<open>Inputs\<close>

record create_user =
  cu_username :: string
  cu_email :: "string option"
  cu_displayName :: "string option"
  cu_password :: string
  cu_role :: app_role

record update_user =
  uu_email :: "string patch"
  uu_displayName :: "string patch"
  uu_role :: "app_role option"
  uu_isActive :: "bool option"
  uu_password :: "string option"

text \<open>\<open>Object.keys(input)\<close>, in the order of the schema.\<close>

definition changed_fields :: "update_user \<Rightarrow> string list" where
  "changed_fields i = (if uu_email i = Keep then [] else [''email'']) @ (if uu_displayName i = Keep then [] else [''displayName''])
     @ (if uu_role i = None then [] else [''role'']) @ (if uu_isActive i = None then [] else [''isActive''])
     @ (if uu_password i = None then [] else [''password''])"

definition createUserSchema :: "(string \<Rightarrow> bool) \<Rightarrow> json \<Rightarrow> create_user option" where
  "createUserSchema is_email v = (if \<not> is_object v then None else
     bind_opt (z_string1 (jget v ''username'')) (\<lambda>n.
     bind_opt (z_opt (z_checked is_email) (jget v ''email'')) (\<lambda>e.
     bind_opt (z_opt z_string1 (jget v ''displayName'')) (\<lambda>d.
     bind_opt (z_string_min 8 (jget v ''password'')) (\<lambda>p.
     bind_opt (z_default USER roleSchema (jget v ''role'')) (\<lambda>r.
       Some \<lparr>cu_username = n, cu_email = e, cu_displayName = d, cu_password = p, cu_role = r\<rparr>))))))"

definition updateUserSchema :: "(string \<Rightarrow> bool) \<Rightarrow> json \<Rightarrow> update_user option" where
  "updateUserSchema is_email v = (if \<not> is_object v then None else
     bind_opt (z_patch (z_checked is_email) (jget v ''email'')) (\<lambda>e.
     bind_opt (z_patch z_string1 (jget v ''displayName'')) (\<lambda>d.
     bind_opt (z_opt roleSchema (jget v ''role'')) (\<lambda>r.
     bind_opt (z_opt z_bool (jget v ''isActive'')) (\<lambda>a.
     bind_opt (z_opt (z_string_min 8) (jget v ''password'')) (\<lambda>p.
       let i = \<lparr>uu_email = e, uu_displayName = d, uu_role = r, uu_isActive = a, uu_password = p\<rparr>
       in if changed_fields i = [] then None else Some i))))))"

section \<open>The table of users\<close>

fun source_str :: "auth_source \<Rightarrow> string" where
  "source_str LOCAL = ''LOCAL''"
| "source_str LDAP = ''LDAP''"

definition find_user :: "string \<Rightarrow> app \<Rightarrow> user_row option" where
  "find_user i s = find (\<lambda>u. u_id u = i) (users s)"

definition find_username :: "string \<Rightarrow> app \<Rightarrow> user_row option" where
  "find_username n s = find (\<lambda>u. u_username u = n) (users s)"

text \<open>A row clashes with another when they share the username or the e-mail address; \<open>own\<close> is the row that
  an update replaces.\<close>

definition user_clash :: "string option \<Rightarrow> user_row \<Rightarrow> app \<Rightarrow> bool" where
  "user_clash own u s \<longleftrightarrow> list_ex (\<lambda>q. Some (u_id q) \<noteq> own
     \<and> (u_username q = u_username u \<or> u_email u \<noteq> None \<and> u_email q = u_email u)) (users s)"

definition insert_user :: "(string \<Rightarrow> user_row) \<Rightarrow> (app, user_row) eff" where
  "insert_user row = (\<lambda>s. let u = row (new_id s) in
     if user_clash None u s then (Inl P2002, s) else (Inr u, bump_id (s\<lparr>users := users s @ [u]\<rparr>)))"

definition update_user_row :: "string \<Rightarrow> (user_row \<Rightarrow> user_row) \<Rightarrow> (app, user_row) eff" where
  "update_user_row i f = (\<lambda>s. case find_user i s of
     None \<Rightarrow> (Inl (PlainError ''Record to update not found''), s)
   | Some u \<Rightarrow> if user_clash (Some i) (f u) s then (Inl P2002, s)
       else (Inr (f u), s\<lparr>users := tb_update (\<lambda>u. u_id u = i) f (users s)\<rparr>))"

definition set_password :: "string \<Rightarrow> string \<Rightarrow> app \<Rightarrow> app" where
  "set_password userId passwordHash s = s\<lparr>localCreds := (localCreds s)(userId \<mapsto> passwordHash)\<rparr>"

section \<open>The service\<close>

definition list_users :: "(string \<Rightarrow> string) \<Rightarrow> session_user \<Rightarrow> app \<Rightarrow> user_row list" where
  "list_users collate actor s =
     (if su_role actor = SUPER_ADMIN then sort_key (\<lambda>u. collate (u_username u)) (users s)
      else sort_key (\<lambda>u. collate (u_username u)) (filter (\<lambda>u. u_role u = USER) (users s)))"

definition created_user :: "int \<Rightarrow> create_user \<Rightarrow> string \<Rightarrow> user_row" where
  "created_user now i newId = \<lparr>u_id = newId, u_username = cu_username i, u_email = cu_email i,
     u_displayName = cu_displayName i, u_role = cu_role i, u_source = LOCAL, u_isActive = True, u_createdAt = now\<rparr>"

text \<open>The user and its credential are one statement of the database.\<close>

definition createLocal :: "accounts_env \<Rightarrow> create_user \<Rightarrow> session_user \<Rightarrow> string option \<Rightarrow> (app, user_row) eff" where
  "createLocal E i actor ip =
     seq_eff (require (su_role actor = SUPER_ADMIN) (ForbiddenException ''Only SUPER_ADMIN can create users''))
     (bind_eff (reads (\<lambda>s. cu_role i \<in> set (roles s))) (\<lambda>role.
     seq_eff (require role (NotFoundException ''Role not found''))
     (bind_eff (insert_user (created_user (ae_now E) i)) (\<lambda>created.
     seq_eff (modify (set_password (u_id created) (ae_hash E (cu_password i))))
     (seq_eff (modify (audit_record (ae_now E) (Some actor) ''user.create'' ''user'' (Some (u_id created))
        (JObj [(''username'', JStr (u_username created)), (''role'', JStr (role_str (u_role created))),
               (''source'', JStr (source_str (u_source created)))]) ip))
     (ok created))))))"

definition assertActorCanManageTarget :: "session_user \<Rightarrow> string \<Rightarrow> app_role \<Rightarrow> update_user \<Rightarrow> (app, unit) eff" where
  "assertActorCanManageTarget actor targetUserId targetRole i =
     (if uu_isActive i = Some False \<and> su_id actor = targetUserId
      then throw (ForbiddenException ''You cannot deactivate your own account'')
      else if su_id actor = targetUserId \<and> uu_role i \<noteq> None
      then throw (ForbiddenException ''ADMIN cannot change own role'')
      else if su_role actor = SUPER_ADMIN then ok ()
      else if su_role actor \<noteq> ADMIN then throw (ForbiddenException ''Insufficient role'')
      else if targetRole \<noteq> USER then throw (ForbiddenException ''ADMIN can only manage USER accounts'')
      else if uu_role i \<noteq> None \<and> uu_role i \<noteq> Some USER
      then throw (ForbiddenException ''ADMIN cannot assign elevated roles'')
      else ok ())"

definition patch_opt :: "'a patch \<Rightarrow> 'a option \<Rightarrow> 'a option" where
  "patch_opt p v = (case p of Keep \<Rightarrow> v | SetNull \<Rightarrow> None | SetTo x \<Rightarrow> Some x)"

definition patched_user :: "update_user \<Rightarrow> user_row \<Rightarrow> user_row" where
  "patched_user i u = u\<lparr>u_email := patch_opt (uu_email i) (u_email u),
     u_displayName := patch_opt (uu_displayName i) (u_displayName u),
     u_role := or_else (uu_role i) (u_role u), u_isActive := or_else (uu_isActive i) (u_isActive u)\<rparr>"

text \<open>What an update writes to the audit log, after the general entry.\<close>

definition user_audit ::
  "int \<Rightarrow> session_user \<Rightarrow> string \<Rightarrow> string \<Rightarrow> json \<Rightarrow> string option \<Rightarrow> app \<Rightarrow> app" where
  "user_audit now actor action userId metadata ip = audit_record now (Some actor) action ''user'' (Some userId) metadata ip"

definition audit_user_update ::
  "int \<Rightarrow> session_user \<Rightarrow> update_user \<Rightarrow> user_row \<Rightarrow> bool \<Rightarrow> string option \<Rightarrow> app \<Rightarrow> app" where
  "audit_user_update now actor i existing passwordChanged ip s =
     (let nextRole = or_else (uu_role i) (u_role existing); nextIsActive = or_else (uu_isActive i) (u_isActive existing);
          s1 = user_audit now actor ''user.update'' (u_id existing)
            (JObj [(''changedFields'', JArr (map JStr (changed_fields i))), (''roleBefore'', JStr (role_str (u_role existing))),
                   (''roleAfter'', JStr (role_str nextRole)), (''activeBefore'', JBool (u_isActive existing)),
                   (''activeAfter'', JBool nextIsActive), (''passwordChanged'', JBool passwordChanged)]) ip s;
          s2 = (if u_role existing \<noteq> nextRole then user_audit now actor ''user.role.change'' (u_id existing)
            (JObj [(''roleBefore'', JStr (role_str (u_role existing))), (''roleAfter'', JStr (role_str nextRole))]) ip s1 else s1);
          s3 = (if u_isActive existing \<noteq> nextIsActive then user_audit now actor
            (if nextIsActive then ''user.account.activated'' else ''user.account.deactivated'') (u_id existing)
            (JObj [(''activeBefore'', JBool (u_isActive existing)), (''activeAfter'', JBool nextIsActive)]) ip s2 else s2)
      in if passwordChanged then user_audit now actor ''user.password.reset'' (u_id existing) JUndef ip s3 else s3)"

text \<open>\<open>if (input.password)\<close>: an empty password is no password.\<close>

definition updateUser ::
  "accounts_env \<Rightarrow> session_user \<Rightarrow> string \<Rightarrow> update_user \<Rightarrow> string option \<Rightarrow> (app, user_row option) eff" where
  "updateUser E actor userId i ip =
     bind_eff (reads (find_user userId)) (\<lambda>found.
     bind_eff (need found (NotFoundException ''User not found'')) (\<lambda>existing.
     seq_eff (assertActorCanManageTarget actor (u_id existing) (u_role existing) i)
     (bind_eff (reads (\<lambda>s. case uu_role i of None \<Rightarrow> True | Some r \<Rightarrow> r \<in> set (roles s))) (\<lambda>role.
     seq_eff (require role (NotFoundException ''Role not found''))
     (bind_eff (update_user_row userId (patched_user i)) (\<lambda>_.
     seq_eff (if truthy (uu_password i) then modify (set_password userId (ae_hash E (or_else (uu_password i) []))) else ok ())
     (bind_eff (reads (find_user userId)) (\<lambda>updated.
     seq_eff (modify (audit_user_update (ae_now E) actor i existing (truthy (uu_password i)) ip))
     (ok updated)))))))))"

section \<open>Requests\<close>

text \<open>Without a user, which the guards rule out, a handler answers the empty list: \<open>None\<close>.\<close>

definition users_list_handler :: "accounts_env \<Rightarrow> session_user option \<Rightarrow> app \<Rightarrow> user_row list" where
  "users_list_handler E actor s = (case actor of None \<Rightarrow> [] | Some a \<Rightarrow> list_users (ae_collate E) a s)"

definition users_create_handler ::
  "accounts_env \<Rightarrow> session_user option \<Rightarrow> json \<Rightarrow> string option \<Rightarrow> (app, user_row option) eff" where
  "users_create_handler E actor body ip = (case actor of
     None \<Rightarrow> ok None
   | Some a \<Rightarrow> bind_eff (parse_body (ae_zod_message E) (createUserSchema (ae_is_email E)) body) (\<lambda>i.
       bind_eff (createLocal E i a ip) (\<lambda>u. ok (Some u))))"

definition users_update_handler ::
  "accounts_env \<Rightarrow> session_user option \<Rightarrow> string \<Rightarrow> json \<Rightarrow> string option \<Rightarrow> (app, user_row option) eff" where
  "users_update_handler E actor i body ip = (case actor of
     None \<Rightarrow> ok None
   | Some a \<Rightarrow> bind_eff (parse_body (ae_zod_message E) (updateUserSchema (ae_is_email E)) body) (\<lambda>input.
       updateUser E a i input ip))"

definition users_route :: route where
  "users_route = \<lparr>rt_public = False, rt_roles = Some [SUPER_ADMIN, ADMIN], rt_bucket = None\<rparr>"

definition users_create_route :: route where
  "users_create_route = \<lparr>rt_public = False, rt_roles = Some [SUPER_ADMIN], rt_bucket = None\<rparr>"

end
