(* ===== verification/BucketAdmin.thy ===== *)
theory BucketAdmin
  imports Accounts
begin

text \<open>
  Buckets as the administrators see them: \<open>apps/api/src/buckets/buckets.service.ts\<close> and the handlers of
  \<open>buckets.controller.ts\<close>. Listings, the grants of a user on a bucket, the scopes of an admin.
  \<open>runSyncFromGarage\<close> has no caller and is left out: the controller queues a job instead. \<open>createMany\<close> is one
  statement, which fails as a whole on a broken key.
\<close>

section \<open>Listings\<close>

record conn_summary =
  cm_id :: string
  cm_name :: string
  cm_endpoint :: string
  cm_region :: string
  cm_forcePathStyle :: bool
  cm_isDefault :: bool

definition conn_summary_of :: "conn_row \<Rightarrow> conn_summary" where
  "conn_summary_of c = \<lparr>cm_id = c_id c, cm_name = c_name c, cm_endpoint = c_endpoint c, cm_region = c_region c,
     cm_forcePathStyle = c_forcePathStyle c, cm_isDefault = c_isDefault c\<rparr>"

definition with_connection :: "app \<Rightarrow> bucket_row \<Rightarrow> bucket_row \<times> conn_summary option" where
  "with_connection s b = (b, case b_connectionId b of None \<Rightarrow> None
     | Some i \<Rightarrow> map_option conn_summary_of (find_conn i s))"

definition has_scope :: "app \<Rightarrow> string \<Rightarrow> string \<Rightarrow> bool" where
  "has_scope s adminUserId bucketId \<longleftrightarrow>
     list_ex (\<lambda>x. sc_adminUserId x = adminUserId \<and> sc_bucketId x = bucketId) (scopes s)"

definition listAll :: "(string \<Rightarrow> string) \<Rightarrow> session_user \<Rightarrow> app \<Rightarrow> (bucket_row \<times> conn_summary option) list res" where
  "listAll collate actor s =
     (if su_role actor = SUPER_ADMIN
      then Inr (map (with_connection s) (sort_key (\<lambda>b. collate (b_name b)) (buckets s)))
      else if su_role actor = ADMIN
      then Inr (map (with_connection s) (sort_key (\<lambda>b. collate (b_name b))
             (filter (\<lambda>b. has_scope s (su_id actor) (b_id b)) (buckets s))))
      else Inl (ForbiddenException ''Insufficient role''))"

definition assertActorCanManageBucket :: "session_user \<Rightarrow> string \<Rightarrow> (app, unit) eff" where
  "assertActorCanManageBucket actor bucketId =
     (if su_role actor = SUPER_ADMIN then ok ()
      else if su_role actor \<noteq> ADMIN then throw (ForbiddenException ''Insufficient role'')
      else bind_eff (reads (\<lambda>s. has_scope s (su_id actor) bucketId)) (\<lambda>scoped.
        require scoped (ForbiddenException ''ADMIN is not scoped to this bucket'')))"

section \<open>Grants\<close>

text \<open>Two stable sorts: by the username, then by the permission's code.\<close>

definition bucket_grants :: "(string \<Rightarrow> string) \<Rightarrow> string \<Rightarrow> app \<Rightarrow> (user_row \<times> bucket_permission) list" where
  "bucket_grants collate bucketId s =
     sort_key (\<lambda>(u, p). collate (u_username u)) (sort_key (\<lambda>(u, p). collate (permission_code p))
       (List.map_filter (\<lambda>g. map_option (\<lambda>u. (u, g_permission g)) (find_user (g_userId g) s))
         (filter (\<lambda>g. g_bucketId g = bucketId) (grants s))))"

definition getBucketGrants ::
  "(string \<Rightarrow> string) \<Rightarrow> session_user \<Rightarrow> string \<Rightarrow> (app, (user_row \<times> bucket_permission) list) eff" where
  "getBucketGrants collate actor bucketId =
     seq_eff (assertActorCanManageBucket actor bucketId) (reads (bucket_grants collate bucketId))"

definition replace_grants :: "string \<Rightarrow> string \<Rightarrow> bucket_permission list \<Rightarrow> app \<Rightarrow> app" where
  "replace_grants userId bucketId ps s = s\<lparr>grants :=
     tb_delete (\<lambda>g. g_userId g = userId \<and> g_bucketId g = bucketId) (grants s)
     @ map (\<lambda>p. \<lparr>g_userId = userId, g_bucketId = bucketId, g_permission = p\<rparr>) ps\<rparr>"

definition setUserBucketPermissions ::
  "accounts_env \<Rightarrow> session_user \<Rightarrow> string \<Rightarrow> string \<Rightarrow> bucket_permission list \<Rightarrow> string option
    \<Rightarrow> (app, (user_row \<times> bucket_permission) list) eff" where
  "setUserBucketPermissions E actor userId bucketId ps ip =
     seq_eff (assertActorCanManageBucket actor bucketId)
     (bind_eff (reads (\<lambda>s. find (\<lambda>b. b_id b = bucketId) (buckets s))) (\<lambda>found.
     bind_eff (need found (NotFoundException ''Bucket not found'')) (\<lambda>bucket.
     bind_eff (reads (find_user userId)) (\<lambda>target.
     bind_eff (need target (NotFoundException ''Target user not found'')) (\<lambda>targetUser.
     seq_eff (require (\<not> (su_role actor = ADMIN \<and> u_role targetUser \<noteq> USER))
        (ForbiddenException ''ADMIN can only manage bucket grants for USER accounts''))
     (bind_eff (reads (\<lambda>s. filter (\<lambda>p. p \<in> set ps) (permissions s))) (\<lambda>permissionRows.
     seq_eff (modify (replace_grants userId bucketId permissionRows))
     (seq_eff (modify (audit_record (ae_now E) (Some actor) ''bucket.grants.update'' ''bucket'' (Some (b_id bucket))
        (JObj [(''bucketName'', JStr (b_name bucket)), (''targetUserId'', JStr userId),
               (''targetUsername'', JStr (u_username targetUser)),
               (''permissions'', JArr (map (\<lambda>p. JStr (permission_code p)) ps))]) ip))
     (getBucketGrants (ae_collate E) actor bucketId)))))))))"

section \<open>Scopes\<close>

definition admin_scopes :: "(string \<Rightarrow> string) \<Rightarrow> string \<Rightarrow> app \<Rightarrow> (string \<times> string) list" where
  "admin_scopes collate adminUserId s = sort_key (\<lambda>(i, n). collate n)
     (List.map_filter (\<lambda>x. map_option (\<lambda>b. (sc_bucketId x, b_name b)) (find (\<lambda>b. b_id b = sc_bucketId x) (buckets s)))
       (filter (\<lambda>x. sc_adminUserId x = adminUserId) (scopes s)))"

definition getAdminScopes :: "(string \<Rightarrow> string) \<Rightarrow> session_user \<Rightarrow> string \<Rightarrow> (app, (string \<times> string) list) eff" where
  "getAdminScopes collate actor adminUserId =
     (if su_role actor \<noteq> SUPER_ADMIN \<and> su_role actor \<noteq> ADMIN then throw (ForbiddenException ''Insufficient role'')
      else if su_role actor = ADMIN \<and> su_id actor \<noteq> adminUserId
      then throw (ForbiddenException ''ADMIN can view only own scope'')
      else reads (admin_scopes collate adminUserId))"

definition P2003 :: http_error where
  "P2003 = PlainError ''Foreign key constraint failed''"

definition insert_scopes :: "string \<Rightarrow> string list \<Rightarrow> (app, unit) eff" where
  "insert_scopes adminUserId bucketIds = (\<lambda>s.
     if \<not> distinct bucketIds \<or> list_ex (has_scope s adminUserId) bucketIds then (Inl P2002, s)
     else if list_ex (\<lambda>i. find (\<lambda>b. b_id b = i) (buckets s) = None) bucketIds then (Inl P2003, s)
     else (Inr (), s\<lparr>scopes := scopes s @ map (\<lambda>i. \<lparr>sc_adminUserId = adminUserId, sc_bucketId = i\<rparr>) bucketIds\<rparr>))"

definition setAdminScopes ::
  "accounts_env \<Rightarrow> session_user \<Rightarrow> string \<Rightarrow> string list \<Rightarrow> string option \<Rightarrow> (app, (string \<times> string) list) eff" where
  "setAdminScopes E actor adminUserId bucketIds ip =
     seq_eff (require (su_role actor = SUPER_ADMIN) (ForbiddenException ''Only SUPER_ADMIN can manage admin scopes''))
     (bind_eff (reads (find_user adminUserId)) (\<lambda>found.
     bind_eff (need found (NotFoundException ''Admin user not found'')) (\<lambda>adminUser.
     seq_eff (require (u_role adminUser = ADMIN) (ForbiddenException ''Scopes can only be assigned to ADMIN users''))
     (seq_eff (modify (\<lambda>s. s\<lparr>scopes := tb_delete (\<lambda>x. sc_adminUserId x = adminUserId) (scopes s)\<rparr>))
     (seq_eff (if bucketIds = [] then ok () else insert_scopes adminUserId bucketIds)
     (seq_eff (modify (audit_record (ae_now E) (Some actor) ''admin.scope.update'' ''user'' (Some adminUserId)
        (JObj [(''bucketIds'', JArr (map JStr bucketIds))]) ip))
     (getAdminScopes (ae_collate E) actor adminUserId)))))))"

section \<open>Requests\<close>

definition permissionSchema :: "json \<Rightarrow> bucket_permission option" where
  "permissionSchema v = (case z_string v of None \<Rightarrow> None
     | Some t \<Rightarrow> find (\<lambda>p. permission_code p = t) BUCKET_PERMISSIONS)"

definition setPermissionsSchema :: "json \<Rightarrow> bucket_permission list option" where
  "setPermissionsSchema v = (if \<not> is_object v then None
     else z_default [] (z_array permissionSchema) (jget v ''permissions''))"

definition adminScopesSchema :: "json \<Rightarrow> string list option" where
  "adminScopesSchema v = (if \<not> is_object v then None
     else z_default [] (z_array z_string1) (jget v ''bucketIds''))"

text \<open>Without a user, which the guards rule out, a handler answers the empty list.\<close>

definition buckets_handler :: "accounts_env \<Rightarrow> session_user option \<Rightarrow> app \<Rightarrow> bucket_row list" where
  "buckets_handler E user s = (case user of None \<Rightarrow> [] | Some u \<Rightarrow> listAccessibleBuckets (ae_collate E) u s)"

definition all_buckets_handler ::
  "accounts_env \<Rightarrow> session_user option \<Rightarrow> (app, (bucket_row \<times> conn_summary option) list) eff" where
  "all_buckets_handler E actor = (case actor of None \<Rightarrow> ok []
     | Some a \<Rightarrow> bind_eff (reads (listAll (ae_collate E) a)) lift_res)"

definition sync_handler ::
  "accounts_env \<Rightarrow> session_user option \<Rightarrow> string option \<Rightarrow> string option \<Rightarrow> app \<Rightarrow> job_public option \<times> app" where
  "sync_handler E actor ip correlationId s = (case actor of None \<Rightarrow> (None, s)
     | Some a \<Rightarrow> map_prod Some id (enqueueBucketSync (ae_now E)
         \<lparr>mp_actor = a, mp_reason = R_manual, mp_ipAddress = ip, mp_correlationId = correlationId\<rparr> s))"

definition set_grants_handler ::
  "accounts_env \<Rightarrow> session_user option \<Rightarrow> string \<Rightarrow> string \<Rightarrow> json \<Rightarrow> string option
    \<Rightarrow> (app, (user_row \<times> bucket_permission) list) eff" where
  "set_grants_handler E actor bucketId userId body ip = (case actor of None \<Rightarrow> ok []
     | Some a \<Rightarrow> bind_eff (parse_body (ae_zod_message E) setPermissionsSchema body) (\<lambda>ps.
         setUserBucketPermissions E a userId bucketId ps ip))"

definition grants_handler ::
  "accounts_env \<Rightarrow> session_user option \<Rightarrow> string \<Rightarrow> (app, (user_row \<times> bucket_permission) list) eff" where
  "grants_handler E actor bucketId = (case actor of None \<Rightarrow> ok []
     | Some a \<Rightarrow> getBucketGrants (ae_collate E) a bucketId)"

definition scopes_handler ::
  "accounts_env \<Rightarrow> session_user option \<Rightarrow> string \<Rightarrow> (app, (string \<times> string) list) eff" where
  "scopes_handler E actor adminUserId = (case actor of None \<Rightarrow> ok []
     | Some a \<Rightarrow> getAdminScopes (ae_collate E) a adminUserId)"

definition set_scopes_handler ::
  "accounts_env \<Rightarrow> session_user option \<Rightarrow> string \<Rightarrow> json \<Rightarrow> string option \<Rightarrow> (app, (string \<times> string) list) eff" where
  "set_scopes_handler E actor adminUserId body ip = (case actor of None \<Rightarrow> ok []
     | Some a \<Rightarrow> bind_eff (parse_body (ae_zod_message E) adminScopesSchema body) (\<lambda>bucketIds.
         setAdminScopes E a adminUserId bucketIds ip))"

end
