(* ===== verification/AccountsProps.thy ===== *)
theory AccountsProps
  imports Accounts
begin

text \<open>
  What user administration guarantees: who can change which account and how, and that an update by a
  signed-in administrator never leaves the system without an active super administrator.
\<close>

lemma user_audit_frame [simp]:
  "users (user_audit n a x k m ip s) = users s" "localCreds (user_audit n a x k m ip s) = localCreds s"
  "roles (user_audit n a x k m ip s) = roles s" "sessions (user_audit n a x k m ip s) = sessions s"
  "audits (user_audit n a x k m ip s) = audits s @ [last (audits (user_audit n a x k m ip s))]"
  "a_action (last (audits (user_audit n a x k m ip s))) = x"
  "a_entityId (last (audits (user_audit n a x k m ip s))) = Some k"
  by (simp_all add: user_audit_def audit_record_def bump_id_def)

lemma audit_update_frame [simp]:
  "users (audit_user_update n a i u p ip s) = users s" "localCreds (audit_user_update n a i u p ip s) = localCreds s"
  "sessions (audit_user_update n a i u p ip s) = sessions s"
  by (simp_all add: audit_user_update_def Let_def)

lemma set_password_frame [simp]: "users (set_password i h s) = users s" "sessions (set_password i h s) = sessions s"
  "localCreds (set_password i h s) = (localCreds s)(i \<mapsto> h)"
  by (simp_all add: set_password_def)

lemma patched_user_id [simp]: "u_id (patched_user i u) = u_id u"
  by (simp add: patched_user_def)

lemma find_user_id: "find_user i s = Some u \<Longrightarrow> u_id u = i \<and> u \<in> set (users s)"
  unfolding find_user_def by (drule find_SomeD) simp

text \<open>A successful update, step by step.\<close>

lemma updateUser_cases:
  obtains e where "updateUser E actor i inp ip s = (Inl e, s)"
  | u h where "find_user i s = Some u" "assertActorCanManageTarget actor i (u_role u) inp s = (Inr (), s)"
    "users (snd (updateUser E actor i inp ip s)) = tb_update (\<lambda>u. u_id u = i) (patched_user inp) (users s)"
    "localCreds (snd (updateUser E actor i inp ip s)) = (if truthy (uu_password inp) then (localCreds s)(i \<mapsto> h) else localCreds s)"
    "fst (updateUser E actor i inp ip s) = Inr (Some (patched_user inp u))"
    "snd (updateUser E actor i inp ip s) = audit_user_update (ae_now E) actor inp u (truthy (uu_password inp)) ip
       (let t = s\<lparr>users := tb_update (\<lambda>u. u_id u = i) (patched_user inp) (users s)\<rparr> in
        if truthy (uu_password inp) then set_password i h t else t)"
    "\<not> user_clash (Some i) (patched_user inp u) s" "\<And>r. uu_role inp = Some r \<Longrightarrow> r \<in> set (roles s)"
proof (cases "find_user i s")
  case None
  then have "updateUser E actor i inp ip s = (Inl (NotFoundException ''User not found''), s)"
    by (simp add: updateUser_def eff_simps)
  then show thesis by (rule that(1))
next
  case (Some u)
  have i: "u_id u = i" using find_user_id [OF Some] by simp
  let ?guard = "assertActorCanManageTarget actor i (u_role u) inp s"
  have guard: "snd ?guard = s" by (auto simp: assertActorCanManageTarget_def eff_simps)
  have hit: "find_user i (s\<lparr>users := tb_update (\<lambda>u. u_id u = i) (patched_user inp) (users s)\<rparr>) = Some (patched_user inp u)"
    using find_tb_update_key [of u_id "patched_user inp" i "users s" u] Some by (simp add: find_user_def)
  show thesis
  proof (cases "fst ?guard = Inr () \<and> (case uu_role inp of None \<Rightarrow> True | Some r \<Rightarrow> r \<in> set (roles s))
      \<and> \<not> user_clash (Some i) (patched_user inp u) s")
    case True
    then have g: "?guard = (Inr (), s)" using guard by (metis prod.collapse)
    let ?s1 = "s\<lparr>users := tb_update (\<lambda>u. u_id u = i) (patched_user inp) (users s)\<rparr>"
    let ?s2 = "if truthy (uu_password inp) then set_password i (ae_hash E (or_else (uu_password inp) [])) ?s1 else ?s1"
    have hit2: "find_user i ?s2 = Some (patched_user inp u)" using hit by (simp add: find_user_def)
    have run: "updateUser E actor i inp ip s = (Inr (Some (patched_user inp u)),
        audit_user_update (ae_now E) actor inp u (truthy (uu_password inp)) ip ?s2)"
      using True hit2 by (simp add: updateUser_def eff_simps Some i g update_user_row_def split: if_splits)
    show thesis
    proof (rule that(2) [OF Some g, where h = "ae_hash E (or_else (uu_password inp) [])"])
      show "r \<in> set (roles s)" if "uu_role inp = Some r" for r using True that by simp
    qed (use True in \<open>simp_all add: run Let_def\<close>)
  next
    case False
    have "\<exists>e. updateUser E actor i inp ip s = (Inl e, s)"
    proof (cases "fst ?guard")
      case (Inl e)
      then have "?guard = (Inl e, s)" using guard by (metis prod.collapse)
      then show ?thesis by (simp add: updateUser_def eff_simps Some i)
    next
      case (Inr x)
      then have "?guard = (Inr (), s)" using guard by (metis (full_types) old.unit.exhaust prod.collapse)
      then show ?thesis using False by (auto simp: updateUser_def eff_simps Some i update_user_row_def split: option.splits)
    qed
    then show thesis using that(1) by blast
  qed
qed

lemma managed: "assertActorCanManageTarget actor i r inp s = (Inr (), s) \<longleftrightarrow>
   (su_id actor = i \<longrightarrow> uu_isActive inp \<noteq> Some False \<and> uu_role inp = None)
   \<and> (su_role actor = SUPER_ADMIN \<or> su_role actor = ADMIN \<and> r = USER \<and> uu_role inp \<in> {None, Some USER})"
  by (auto simp: assertActorCanManageTarget_def eff_simps)

lemma stays_active: "v \<noteq> Some False \<Longrightarrow> or_else v True"
  by (cases v) auto

text \<open>
  C28. Administration stays within the caller's rank. An update that is refused changes nothing at all. One
  that succeeds changes no account but its target, and only for a super admin, or for an admin whose target
  was and stays a plain user; the target's id, username and origin never change, its credential only when a
  password is given. Nobody changes the own role or deactivates the own account. Creating a user is for super
  admins, and adds one active local account under a fresh name.
\<close>

theorem user_updates_contained:
  assumes "updateUser E actor i inp ip s = (r, t)"
  shows "((\<exists>e. r = Inl e) \<longrightarrow> t = s)
    \<and> (\<forall>k. k \<noteq> i \<longrightarrow> find_user k t = find_user k s \<and> localCreds t k = localCreds s k)
    \<and> (t \<noteq> s \<longrightarrow> (\<exists>u u'. find_user i s = Some u \<and> find_user i t = Some u' \<and> r = Inr (Some u')
        \<and> (su_role actor = SUPER_ADMIN \<or> su_role actor = ADMIN \<and> u_role u = USER \<and> u_role u' = USER)
        \<and> u_username u' = u_username u \<and> u_source u' = u_source u
        \<and> (su_id actor = i \<longrightarrow> u_role u' = u_role u \<and> (u_isActive u \<longrightarrow> u_isActive u'))
        \<and> (localCreds t i \<noteq> localCreds s i \<longrightarrow> truthy (uu_password inp))))
    \<and> (\<forall>c n. fst (createLocal E c actor ip s) = Inr n \<longrightarrow> su_role actor = SUPER_ADMIN \<and> u_isActive n
        \<and> u_source n = LOCAL \<and> find_username (cu_username c) s = None
        \<and> users (snd (createLocal E c actor ip s)) = users s @ [n])"
proof -
  have created: "su_role actor = SUPER_ADMIN \<and> u_isActive n \<and> u_source n = LOCAL \<and> find_username (cu_username c) s = None
      \<and> users (snd (createLocal E c actor ip s)) = users s @ [n]"
    if "fst (createLocal E c actor ip s) = Inr n" for c n
    using that by (auto simp: createLocal_def eff_simps insert_user_def created_user_def Let_def user_clash_def
        find_username_def audit_record_def bump_id_def list_ex_iff find_None_iff new_id_def split: if_splits)
  show ?thesis
  proof (cases rule: updateUser_cases [of E actor i inp ip s])
    case (1 e)
    then show ?thesis using assms created by auto
  next
    case (2 u h)
    have t: "users t = tb_update (\<lambda>u. u_id u = i) (patched_user inp) (users s)" using 2(3) assms by simp
    have other: "find_user k t = find_user k s" if "k \<noteq> i" for k
      using find_tb_update_other [of u_id "patched_user inp" k i "users s"] that by (simp add: find_user_def t)
    have hit: "find_user i t = Some (patched_user inp u)"
      using find_tb_update_key [of u_id "patched_user inp" i "users s" u] 2(1) by (simp add: find_user_def t)
    show ?thesis
      using 2 assms created other hit by (auto simp: managed patched_user_def stays_active)
  qed
qed

section \<open>The last super administrator\<close>

definition has_super :: "app \<Rightarrow> bool" where
  "has_super s = list_ex (\<lambda>u. u_role u = SUPER_ADMIN \<and> u_isActive u) (users s)"

lemma has_super_update:
  assumes "has_super s" and "users t = tb_update (\<lambda>u. u_id u = i) f (users s)"
    and "\<And>u. u \<in> set (users s) \<Longrightarrow> u_id u = i \<Longrightarrow> u_role u = SUPER_ADMIN \<Longrightarrow> u_isActive u \<Longrightarrow>
      (u_role (f u) = SUPER_ADMIN \<and> u_isActive (f u))
      \<or> (\<exists>v\<in>set (users s). u_id v \<noteq> i \<and> u_role v = SUPER_ADMIN \<and> u_isActive v)"
  shows "has_super t"
proof -
  obtain x where x: "x \<in> set (users s)" "u_role x = SUPER_ADMIN" "u_isActive x"
    using assms(1) by (auto simp: has_super_def list_ex_iff)
  have keep: "has_super t" if "v \<in> set (users s)" "u_id v \<noteq> i" "u_role v = SUPER_ADMIN" "u_isActive v" for v
    using that by (auto simp: has_super_def list_ex_iff assms(2) set_tb_update)
  show ?thesis
  proof (cases "u_id x = i")
    case True
    then consider "u_role (f x) = SUPER_ADMIN" "u_isActive (f x)" | v where "v \<in> set (users s)" "u_id v \<noteq> i"
        "u_role v = SUPER_ADMIN" "u_isActive v"
      using assms(3) [OF x(1) _ x(2,3)] by blast
    then show ?thesis
    proof cases
      case 1
      then show ?thesis using x True by (auto simp: has_super_def list_ex_iff assms(2) set_tb_update)
    qed (rule keep)
  next
    case False
    then show ?thesis using keep x by blast
  qed
qed

text \<open>
  C29. The system is never locked out: while some active super admin exists, one exists after every update
  and every creation of a user by a signed-in user (whose row is active and has the role of the session).
\<close>

theorem super_admin_remains:
  assumes "has_super s" and "distinct (map u_id (users s))"
    and "find_user (su_id actor) s = Some a" and "u_isActive a" and "u_role a = su_role actor"
  shows "has_super (snd (updateUser E actor i inp ip s)) \<and> has_super (snd (createLocal E c actor ip s))"
proof
  show "has_super (snd (updateUser E actor i inp ip s))"
  proof (cases rule: updateUser_cases [of E actor i inp ip s])
    case (1 e)
    then show ?thesis using assms(1) by simp
  next
    case (2 u h)
    have only: "x = u" if "x \<in> set (users s)" "u_id x = i" for x
      using find_distinct_unique [OF assms(2) that(1)] 2(1) that(2) by (simp add: find_user_def)
    have a: "a \<in> set (users s)" "u_id a = su_id actor" using find_user_id [OF assms(3)] by simp_all
    show ?thesis
      using assms(1) 2(3)
    proof (rule has_super_update)
      fix x assume x: "x \<in> set (users s)" "u_id x = i" "u_role x = SUPER_ADMIN" "u_isActive x"
      then have u: "x = u" using only by blast
      show "(u_role (patched_user inp x) = SUPER_ADMIN \<and> u_isActive (patched_user inp x))
        \<or> (\<exists>v\<in>set (users s). u_id v \<noteq> i \<and> u_role v = SUPER_ADMIN \<and> u_isActive v)"
      proof (cases "su_id actor = i")
        case True
        then show ?thesis using 2(2) x u by (auto simp: managed patched_user_def stays_active)
      next
        case False
        then show ?thesis using 2(2) x u a assms(4,5) by (intro disjI2 bexI [of _ a]) (auto simp: managed)
      qed
    qed
  qed
  show "has_super (snd (createLocal E c actor ip s))"
    using assms(1) by (auto simp: createLocal_def eff_simps insert_user_def Let_def has_super_def
        audit_record_def bump_id_def list_ex_iff split: if_splits)
qed

section \<open>Witnesses\<close>

definition demo_accounts :: accounts_env where
  "demo_accounts = \<lparr>ae_now = 5, ae_hash = id, ae_is_email = (\<lambda>_. True), ae_collate = id, ae_zod_message = (\<lambda>_. [])\<rparr>"

definition demo_super :: user_row where
  "demo_super = \<lparr>u_id = ''a1'', u_username = ''root'', u_email = None, u_displayName = None, u_role = SUPER_ADMIN,
     u_source = LOCAL, u_isActive = True, u_createdAt = 0\<rparr>"

definition demo_accounts_site :: app where
  "demo_accounts_site = init_app\<lparr>users := [demo_super, demo_super\<lparr>u_id := ''u1'', u_username := ''ann'', u_role := USER\<rparr>]\<rparr>"

definition demo_deactivate :: update_user where
  "demo_deactivate = \<lparr>uu_email = Keep, uu_displayName = Keep, uu_role = None, uu_isActive = Some False, uu_password = None\<rparr>"

lemma user_updates_contained_witness:
  "find_user ''u1'' (snd (updateUser demo_accounts (user_of_row demo_super) ''a1'' demo_deactivate None demo_accounts_site))
    = find_user ''u1'' demo_accounts_site"
proof -
  obtain r t where run: "updateUser demo_accounts (user_of_row demo_super) ''a1'' demo_deactivate None demo_accounts_site = (r, t)"
    by fastforce
  from user_updates_contained [OF run]
  have "\<forall>k. k \<noteq> ''a1'' \<longrightarrow> find_user k t = find_user k demo_accounts_site \<and> localCreds t k = localCreds demo_accounts_site k"
    by (elim conjE)
  then have "find_user ''u1'' t = find_user ''u1'' demo_accounts_site" by simp
  then show ?thesis by (simp only: run snd_conv)
qed

lemma super_admin_remains_witness:
  "has_super (snd (updateUser demo_accounts (user_of_row demo_super) ''u1'' demo_deactivate None demo_accounts_site))"
proof -
  have site: "has_super demo_accounts_site" "distinct (map u_id (users demo_accounts_site))"
    "find_user (su_id (user_of_row demo_super)) demo_accounts_site = Some demo_super"
    by (simp_all add: has_super_def demo_accounts_site_def demo_super_def find_user_def user_of_row_def init_app_def)
  show ?thesis
    using super_admin_remains [OF site, of demo_accounts "''u1''" demo_deactivate None]
    by (simp add: demo_super_def user_of_row_def)
qed

end
