(* ===== verification/BucketAdminProps.thy ===== *)
theory BucketAdminProps
  imports BucketAdmin AuthzProps AccountsProps
begin

text \<open>
  What the administration of buckets guarantees: an update of grants replaces exactly the grants of one user
  on one bucket, and the next request of that user is judged by them; an update of scopes either replaces the
  scopes of one admin or, when the list breaks a key, has removed them.
\<close>

section \<open>Grants\<close>

lemma manage_bucket: "assertActorCanManageBucket a b s =
   (if su_role a = SUPER_ADMIN \<or> su_role a = ADMIN \<and> has_scope s (su_id a) b then (Inr (), s)
    else (Inl (ForbiddenException (if su_role a = ADMIN then ''ADMIN is not scoped to this bucket'' else ''Insufficient role'')), s))"
  by (auto simp: assertActorCanManageBucket_def eff_simps)

lemma has_grant_replaced:
  assumes "grants t = grants (replace_grants u b ps s)"
  shows "has_grant t v c p \<longleftrightarrow> (if v = u \<and> c = b then p \<in> set ps else has_grant s v c p)"
  by (auto simp: has_grant_def assms replace_grants_def tb_delete_def list_ex_iff bex_Un)

text \<open>The states of a successful update.\<close>

lemma set_grants_cases:
  obtains e where "setUserBucketPermissions E a i b ps ip s = (Inl e, s)"
  | bucket u where "find (\<lambda>x. b_id x = b) (buckets s) = Some bucket" "find_user i s = Some u"
    "su_role a = SUPER_ADMIN \<or> su_role a = ADMIN \<and> has_scope s (su_id a) b \<and> u_role u = USER"
    "fst (setUserBucketPermissions E a i b ps ip s)
       = Inr (bucket_grants (ae_collate E) b (snd (setUserBucketPermissions E a i b ps ip s)))"
    "grants (snd (setUserBucketPermissions E a i b ps ip s))
       = grants (replace_grants i b (filter (\<lambda>p. p \<in> set ps) (permissions s)) s)"
    "buckets (snd (setUserBucketPermissions E a i b ps ip s)) = buckets s"
    "users (snd (setUserBucketPermissions E a i b ps ip s)) = users s"
proof (cases "(su_role a = SUPER_ADMIN \<or> su_role a = ADMIN \<and> has_scope s (su_id a) b)
    \<and> find (\<lambda>x. b_id x = b) (buckets s) \<noteq> None \<and> (\<exists>u. find_user i s = Some u \<and> \<not> (su_role a = ADMIN \<and> u_role u \<noteq> USER))")
  case False
  then have "\<exists>e. setUserBucketPermissions E a i b ps ip s = (Inl e, s)"
    by (auto simp: setUserBucketPermissions_def manage_bucket eff_simps split: option.splits)
  then show thesis using that(1) by blast
next
  case True
  then obtain bucket u where f: "find (\<lambda>x. b_id x = b) (buckets s) = Some bucket" "find_user i s = Some u"
    "\<not> (su_role a = ADMIN \<and> u_role u \<noteq> USER)" by auto
  let ?t = "snd (setUserBucketPermissions E a i b ps ip s)"
  have scope: "has_scope (audit_record n x y z w m ip (replace_grants i b qs s)) v c = has_scope s v c" for n x y z w m qs v c
    by (simp add: has_scope_def audit_record_def bump_id_def replace_grants_def)
  have run: "setUserBucketPermissions E a i b ps ip s = (Inr (bucket_grants (ae_collate E) b ?t), ?t)"
    and t: "grants ?t = grants (replace_grants i b (filter (\<lambda>p. p \<in> set ps) (permissions s)) s)" "buckets ?t = buckets s" "users ?t = users s"
    using True f by (auto simp: setUserBucketPermissions_def getBucketGrants_def manage_bucket eff_simps scope)
      (simp_all add: audit_record_def bump_id_def replace_grants_def)
  show thesis
  proof (rule that(2) [OF f(1,2)])
    show "fst (setUserBucketPermissions E a i b ps ip s) = Inr (bucket_grants (ae_collate E) b ?t)" by (subst run) simp
  qed (use True f t in auto)
qed


section \<open>Scopes\<close>

definition known_buckets :: "app \<Rightarrow> string list \<Rightarrow> bool" where
  "known_buckets s ids = list_all (\<lambda>i. find (\<lambda>b. b_id b = i) (buckets s) \<noteq> None) ids"

lemma no_scope_left: "\<not> has_scope (s\<lparr>scopes := tb_delete (\<lambda>x. sc_adminUserId x = i) (scopes s)\<rparr>) i b"
  by (auto simp: has_scope_def tb_delete_def list_ex_iff)

lemma inserted_scopes:
  assumes "scopes t = scopes s @ map (\<lambda>i. \<lparr>sc_adminUserId = a, sc_bucketId = i\<rparr>) ids"
  shows "has_scope t v b \<longleftrightarrow> has_scope s v b \<or> v = a \<and> b \<in> set ids"
  by (auto simp: has_scope_def assms list_ex_iff bex_Un)

text \<open>
  C31. What an update of an admin's scopes leaves. Refused for anyone but a super admin and for a target that
  is no admin, it changes nothing. A list of known buckets without repetitions replaces the target's scopes and
  no other. Any other list is an error after which the target has no scope at all: the old ones were deleted
  before the insertion failed.
\<close>

theorem scope_update_outcome:
  assumes "setAdminScopes E a i ids ip s = (r, t)"
  shows "if su_role a = SUPER_ADMIN \<and> map_option u_role (find_user i s) = Some ADMIN
    then (if distinct ids \<and> known_buckets s ids
          then (\<exists>xs. r = Inr xs) \<and> (\<forall>v b. has_scope t v b \<longleftrightarrow> (if v = i then b \<in> set ids else has_scope s v b))
          else (\<exists>e. r = Inl e) \<and> (\<forall>v b. has_scope t v b \<longleftrightarrow> v \<noteq> i \<and> has_scope s v b))
    else (\<exists>e. r = Inl e) \<and> t = s"
proof (cases "su_role a = SUPER_ADMIN \<and> map_option u_role (find_user i s) = Some ADMIN")
  case False
  have "\<exists>e. setAdminScopes E a i ids ip s = (Inl e, s)"
    using False by (cases "su_role a = SUPER_ADMIN"; cases "find_user i s") (simp_all add: setAdminScopes_def eff_simps)
  then show ?thesis using assms False by auto
next
  case True
  then obtain u where u: "find_user i s = Some u" "u_role u = ADMIN" by auto
  let ?s1 = "s\<lparr>scopes := tb_delete (\<lambda>x. sc_adminUserId x = i) (scopes s)\<rparr>"
  have cleared: "has_scope ?s1 v b \<longleftrightarrow> v \<noteq> i \<and> has_scope s v b" for v b
    by (auto simp: has_scope_def tb_delete_def list_ex_iff)
  have none: "\<not> list_ex (has_scope ?s1 i) ids" by (simp add: list_ex_iff cleared)
  have known: "list_ex (\<lambda>i. find (\<lambda>b. b_id b = i) (buckets ?s1) = None) ids \<longleftrightarrow> \<not> known_buckets s ids"
    by (simp add: known_buckets_def list_ex_iff list_all_iff)
  show ?thesis
  proof (cases "distinct ids \<and> known_buckets s ids")
    case good: True
    then have ins: "(if ids = [] then ok () else insert_scopes i ids) ?s1
        = (Inr (), ?s1\<lparr>scopes := scopes ?s1 @ map (\<lambda>b. \<lparr>sc_adminUserId = i, sc_bucketId = b\<rparr>) ids\<rparr>)"
      using none known by (simp add: insert_scopes_def eff_simps)
    have "(\<exists>xs. r = Inr xs) \<and> scopes t = scopes ?s1 @ map (\<lambda>b. \<lparr>sc_adminUserId = i, sc_bucketId = b\<rparr>) ids"
      using assms True u ins by (auto simp: setAdminScopes_def getAdminScopes_def eff_simps audit_record_def bump_id_def)
    then show ?thesis using True good inserted_scopes [of t ?s1 i ids] cleared by auto
  next
    case bad: False
    then have "ids \<noteq> []" by (auto simp: known_buckets_def)
    then have "\<exists>e. (if ids = [] then ok () else insert_scopes i ids) ?s1 = (Inl e, ?s1)"
      using bad none known by (auto simp: insert_scopes_def)
    then have "(\<exists>e. r = Inl e) \<and> t = ?s1"
      using assms True u by (auto simp: setAdminScopes_def eff_simps)
    then show ?thesis using True bad cleared by auto
  qed
qed

section \<open>Witnesses\<close>

definition demo_bucket_site :: app where
  "demo_bucket_site = demo_accounts_site\<lparr>
     users := [demo_super, demo_super\<lparr>u_id := ''u1'', u_username := ''ann'', u_role := USER\<rparr>,
               demo_super\<lparr>u_id := ''m1'', u_username := ''max'', u_role := ADMIN\<rparr>],
     buckets := [\<lparr>b_id = ''b1'', b_name = ''docs'', b_garageBucketId = None, b_connectionId = None, b_createdAt = 0\<rparr>],
     scopes := [\<lparr>sc_adminUserId = ''m1'', sc_bucketId = ''b1''\<rparr>]\<rparr>"


lemma scope_update_outcome_witness:
  "\<not> has_scope (snd (setAdminScopes demo_accounts (user_of_row demo_super) ''m1'' [''b1'', ''b1''] None demo_bucket_site)) ''m1'' ''b1''"
proof -
  obtain r t where run: "setAdminScopes demo_accounts (user_of_row demo_super) ''m1'' [''b1'', ''b1''] None demo_bucket_site = (r, t)"
    by fastforce
  have "su_role (user_of_row demo_super) = SUPER_ADMIN" "map_option u_role (find_user ''m1'' demo_bucket_site) = Some ADMIN"
    by (simp_all add: user_of_row_def demo_super_def demo_bucket_site_def find_user_def)
  with scope_update_outcome [OF run] show ?thesis unfolding run by simp
qed

end
