(* ===== verification/FileRequests.thy ===== *)
theory FileRequests
  imports Files Zod
begin

text \<open>
  The remaining request handlers of \<open>apps/api/src/files/files.controller.ts\<close>: each parses its query or its
  body, then calls one operation of the file service. What \<open>zod\<close> and the database client print, and the
  conversions between numbers and texts, are parameters.
\<close>

record request_syntax =
  ns_num :: "rat \<Rightarrow> string"
  ns_num_of :: "string \<Rightarrow> rat option"
  ns_infinite :: "string \<Rightarrow> bool option"
  ns_is_url :: "string \<Rightarrow> bool"
  ns_is_datetime :: "string \<Rightarrow> bool"
  ns_zod :: "json \<Rightarrow> string"
  ns_prisma :: "json \<Rightarrow> string"

definition z_count :: "request_syntax \<Rightarrow> int \<Rightarrow> int \<Rightarrow> json \<Rightarrow> int option" where
  "z_count N lo hi = z_int_in (ns_num N) (ns_num_of N) lo hi"

definition z_least :: "request_syntax \<Rightarrow> int \<Rightarrow> json \<Rightarrow> int option" where
  "z_least N lo = z_int_min (ns_num N) (ns_num_of N) lo"

definition z_items :: "nat \<Rightarrow> (json \<Rightarrow> 'a option) \<Rightarrow> json \<Rightarrow> 'a list option" where
  "z_items lo p v = (case z_array p v of None \<Rightarrow> None | Some xs \<Rightarrow> if lo \<le> length xs then Some xs else None)"

section \<open>Schemas\<close>

fun z_sort_key :: "json \<Rightarrow> sort_key option" where
  "z_sort_key (JStr t) = (if t = ''name'' then Some By_name else if t = ''size'' then Some By_size
     else if t = ''lastModified'' then Some By_lastModified else if t = ''type'' then Some By_type else None)"
| "z_sort_key _ = None"

fun z_sort_dir :: "json \<Rightarrow> sort_dir option" where
  "z_sort_dir (JStr t) = (if t = ''asc'' then Some Asc else if t = ''desc'' then Some Desc else None)"
| "z_sort_dir _ = None"

definition listSchema :: "request_syntax \<Rightarrow> json \<Rightarrow> (string \<times> string \<times> list_options) option" where
  "listSchema N v = (if \<not> is_object v then None else
     bind_opt (z_string1 (jget v ''bucket'')) (\<lambda>b.
     bind_opt (z_default [] z_string (jget v ''prefix'')) (\<lambda>p.
     bind_opt (z_opt z_string (jget v ''continuationToken'')) (\<lambda>t.
     bind_opt (z_flag (jget v ''recursive'')) (\<lambda>r.
     bind_opt (z_default 100 (z_count N 1 1000) (jget v ''pageSize'')) (\<lambda>n.
     bind_opt (z_default By_name z_sort_key (jget v ''sortBy'')) (\<lambda>k.
     bind_opt (z_default Asc z_sort_dir (jget v ''sortOrder'')) (\<lambda>d.
       Some (b, p, \<lparr>lo_continuationToken = t, lo_recursive = r, lo_pageSize = Some n, lo_sortBy = Some k,
                    lo_sortOrder = Some d\<rparr>)))))))))"

record search_input =
  si_bucket :: string
  si_prefix :: string
  si_term :: string
  si_continuationToken :: "string option"
  si_pageSize :: int

definition searchSchema :: "request_syntax \<Rightarrow> json \<Rightarrow> search_input option" where
  "searchSchema N v = (if \<not> is_object v then None else
     bind_opt (z_string1 (jget v ''bucket'')) (\<lambda>b.
     bind_opt (z_default [] z_string (jget v ''prefix'')) (\<lambda>p.
     bind_opt (z_string_in 1 512 (jget v ''term'')) (\<lambda>q.
     bind_opt (z_opt z_string (jget v ''continuationToken'')) (\<lambda>t.
     bind_opt (z_default 200 (z_count N 1 1000) (jget v ''pageSize'')) (\<lambda>n.
       Some \<lparr>si_bucket = b, si_prefix = p, si_term = q, si_continuationToken = t, si_pageSize = n\<rparr>))))))"

definition statsSchema :: "json \<Rightarrow> (string \<times> string) option" where
  "statsSchema v = (if \<not> is_object v then None else
     bind_opt (z_string1 (jget v ''bucket'')) (\<lambda>b.
     bind_opt (z_default [] z_string (jget v ''prefix'')) (\<lambda>p. Some (b, p))))"

definition part_size_field :: "request_syntax \<Rightarrow> json \<Rightarrow> int option" where
  "part_size_field N = z_count N (5 * 1024 * 1024) (128 * 1024 * 1024)"

definition initMultipartSchema :: "request_syntax \<Rightarrow> json \<Rightarrow> init_input option" where
  "initMultipartSchema N v = (if \<not> is_object v then None else
     bind_opt (z_string1 (jget v ''bucket'')) (\<lambda>b.
     bind_opt (z_string1 (jget v ''key'')) (\<lambda>k.
     bind_opt (z_opt z_string (jget v ''contentType'')) (\<lambda>t.
     bind_opt (z_opt (z_least N 0) (jget v ''fileSize'')) (\<lambda>size.
     bind_opt (z_opt (part_size_field N) (jget v ''partSize'')) (\<lambda>part.
     bind_opt (z_opt (z_count N 1 10000) (jget v ''totalParts'')) (\<lambda>n.
     bind_opt (z_opt z_string (jget v ''relativePath'')) (\<lambda>p.
       Some \<lparr>ii_bucket = b, ii_key = k, ii_contentType = t, ii_fileSize = size, ii_partSize = part,
             ii_totalParts = n, ii_relativePath = p\<rparr>))))))))"

definition signPartsSchema :: "request_syntax \<Rightarrow> json \<Rightarrow> int list option" where
  "signPartsSchema N v = (if \<not> is_object v then None else
     bind_opt (z_items 1 (z_count N 1 10000) (jget v ''partNumbers'')) (\<lambda>ns.
       if length ns \<le> 10000 then Some ns else None))"

definition partSchema :: "(json \<Rightarrow> int option) \<Rightarrow> json \<Rightarrow> complete_part option" where
  "partSchema number v = (if \<not> is_object v then None else
     bind_opt (number (jget v ''partNumber'')) (\<lambda>n.
     bind_opt (z_string1 (jget v ''eTag'')) (\<lambda>e. Some \<lparr>part_number = n, part_eTag = e\<rparr>)))"

definition completeSchema :: "request_syntax \<Rightarrow> json \<Rightarrow> complete_part list option" where
  "completeSchema N v = (if \<not> is_object v then None else z_items 1 (partSchema (z_least N 1)) (jget v ''parts''))"

definition partCompleteSchema :: "request_syntax \<Rightarrow> json \<Rightarrow> complete_part option" where
  "partCompleteSchema N = partSchema (z_count N 1 10000)"

definition failSchema :: "json \<Rightarrow> string option option" where
  "failSchema v = (if \<not> is_object v then None else z_opt (z_string_in 1 2000) (jget v ''error''))"

definition recoverSchema :: "request_syntax \<Rightarrow> json \<Rightarrow> recover_input option" where
  "recoverSchema N v = (if \<not> is_object v then None else
     bind_opt (z_string1 (jget v ''bucket'')) (\<lambda>b.
     bind_opt (z_string1 (jget v ''key'')) (\<lambda>k.
     bind_opt (z_least N 0 (jget v ''fileSize'')) (\<lambda>size.
     bind_opt (part_size_field N (jget v ''partSize'')) (\<lambda>part.
       Some \<lparr>ri_bucket = b, ri_key = k, ri_fileSize = size, ri_partSize = part\<rparr>)))))"

text \<open>The status filter: names separated by commas or a list of names, the empty ones dropped; no check of
  the names.\<close>

fun split_comma :: "string \<Rightarrow> string list" where
  "split_comma [] = [[]]"
| "split_comma (c # cs) = (if c = CHR '','' then [] # split_comma cs
     else case split_comma cs of [] \<Rightarrow> [[c]] | w # ws \<Rightarrow> (c # w) # ws)"

fun z_status_names :: "json \<Rightarrow> string list option option" where
  "z_status_names JUndef = Some None"
| "z_status_names (JStr t) = Some (if t = [] then None else Some (filter (\<lambda>w. w \<noteq> []) (split_comma t)))"
| "z_status_names (JArr vs) = map_option (\<lambda>ws. Some (filter (\<lambda>w. w \<noteq> []) ws)) (z_all z_string vs)"
| "z_status_names _ = None"

fun z_scope :: "json \<Rightarrow> list_scope option" where
  "z_scope (JStr t) = (if t = ''mine'' then Some Mine else if t = ''all'' then Some All else None)"
| "z_scope _ = None"

record sessions_query =
  sq_scope :: "list_scope option"
  sq_limit :: "int option"
  sq_status :: "string list option"

definition multipartSessionsSchema :: "request_syntax \<Rightarrow> json \<Rightarrow> sessions_query option" where
  "multipartSessionsSchema N v = (if \<not> is_object v then None else
     bind_opt (z_opt z_scope (jget v ''scope'')) (\<lambda>sc.
     bind_opt (z_opt (z_count N 1 500) (jget v ''limit'')) (\<lambda>n.
     bind_opt (z_status_names (jget v ''status'')) (\<lambda>st.
       Some \<lparr>sq_scope = sc, sq_limit = n, sq_status = st\<rparr>))))"

text \<open>The names the database knows; a query for another one is an error of its client.\<close>

fun upload_status_of :: "string \<Rightarrow> upload_status option" where
  "upload_status_of t = (if t = ''INITIATED'' then Some UP_INITIATED else if t = ''IN_PROGRESS'' then Some UP_IN_PROGRESS
     else if t = ''COMPLETED'' then Some UP_COMPLETED else if t = ''ABORTED'' then Some UP_ABORTED
     else if t = ''FAILED'' then Some UP_FAILED else None)"

fun known_statuses :: "string list \<Rightarrow> upload_status list option" where
  "known_statuses [] = Some []"
| "known_statuses (w # ws) =
     bind_opt (upload_status_of w) (\<lambda>st. bind_opt (known_statuses ws) (\<lambda>sts. Some (st # sts)))"

section \<open>Handlers\<close>

text \<open>Every handler but the listing looks for the user before it parses.\<close>

definition with_user :: "session_user option \<Rightarrow> (session_user \<Rightarrow> (app \<times> 'w, 'a) eff) \<Rightarrow> (app \<times> 'w, 'a reply) eff" where
  "with_user user f = (case user of None \<Rightarrow> ok Not_authenticated | Some u \<Rightarrow> done_eff (f u))"

definition list_handler ::
  "'w files_env \<Rightarrow> request_syntax \<Rightarrow> session_user option \<Rightarrow> json \<Rightarrow> (app \<times> 'w, list_result reply) eff" where
  "list_handler E N user query =
     bind_eff (fe_parse E (listSchema N) query) (\<lambda>(bucket, prf, options).
       with_user user (\<lambda>u. files_list E u bucket prf options))"

definition search_handler ::
  "'w files_env \<Rightarrow> request_syntax \<Rightarrow> session_user option \<Rightarrow> json \<Rightarrow> (app \<times> 'w, search_result reply) eff" where
  "search_handler E N user query = with_user user (\<lambda>u.
     bind_eff (fe_parse E (searchSchema N) query) (\<lambda>i.
       files_search E u (si_bucket i) (si_prefix i) (si_term i) (si_continuationToken i) (si_pageSize i)))"

definition stats_handler :: "'w files_env \<Rightarrow> session_user option \<Rightarrow> json \<Rightarrow> (app \<times> 'w, folder_stats reply) eff" where
  "stats_handler E user query = with_user user (\<lambda>u.
     bind_eff (fe_parse E statsSchema query) (\<lambda>(bucket, prf). files_stats E u bucket prf))"

definition init_multipart_handler ::
  "'w files_env \<Rightarrow> request_syntax \<Rightarrow> session_user option \<Rightarrow> json \<Rightarrow> (app \<times> 'w, init_reply reply) eff" where
  "init_multipart_handler E N user body = with_user user (\<lambda>u.
     bind_eff (fe_parse E (initMultipartSchema N) body) (initMultipartSession E u))"

definition recover_multipart_handler ::
  "'w files_env \<Rightarrow> request_syntax \<Rightarrow> session_user option \<Rightarrow> json \<Rightarrow> (app \<times> 'w, upload_public option reply) eff" where
  "recover_multipart_handler E N user body = with_user user (\<lambda>u.
     bind_eff (fe_parse E (recoverSchema N) body) (findRecoverableSession E u))"

definition sign_parts_handler ::
  "'w files_env \<Rightarrow> request_syntax \<Rightarrow> session_user option \<Rightarrow> string \<Rightarrow> json \<Rightarrow> (app \<times> 'w, part_spec list reply) eff" where
  "sign_parts_handler E N user uploadSessionId body = with_user user (\<lambda>u.
     bind_eff (fe_parse E (signPartsSchema N) body) (signMultipartParts E u uploadSessionId))"

definition part_complete_handler ::
  "'w files_env \<Rightarrow> request_syntax \<Rightarrow> session_user option \<Rightarrow> string \<Rightarrow> json \<Rightarrow> (app \<times> 'w, int list reply) eff" where
  "part_complete_handler E N user uploadSessionId body = with_user user (\<lambda>u.
     bind_eff (fe_parse E (partCompleteSchema N) body) (recordMultipartPart E u uploadSessionId))"

definition complete_handler ::
  "'w files_env \<Rightarrow> request_syntax \<Rightarrow> session_user option \<Rightarrow> string \<Rightarrow> json \<Rightarrow> string option
    \<Rightarrow> (app \<times> 'w, complete_result reply) eff" where
  "complete_handler E N user uploadSessionId body ip = with_user user (\<lambda>u.
     bind_eff (fe_parse E (completeSchema N) body) (\<lambda>parts. completeMultipart E u uploadSessionId parts ip))"

definition abort_handler ::
  "'w files_env \<Rightarrow> session_user option \<Rightarrow> string \<Rightarrow> string option \<Rightarrow> (app \<times> 'w, string option reply) eff" where
  "abort_handler E user uploadSessionId ip = with_user user (\<lambda>u. abortMultipart E u uploadSessionId ip)"

definition fail_handler ::
  "'w files_env \<Rightarrow> session_user option \<Rightarrow> string \<Rightarrow> json \<Rightarrow> string option
    \<Rightarrow> (app \<times> 'w, (string \<times> string option) reply) eff" where
  "fail_handler E user uploadSessionId body ip = with_user user (\<lambda>u.
     bind_eff (fe_parse E failSchema body) (\<lambda>err. failMultipart E u uploadSessionId err ip))"

definition sessions_handler ::
  "'w files_env \<Rightarrow> request_syntax \<Rightarrow> session_user option \<Rightarrow> json \<Rightarrow> (app \<times> 'w, upload_public list reply) eff" where
  "sessions_handler E N user query = with_user user (\<lambda>u.
     bind_eff (fe_parse E (multipartSessionsSchema N) query) (\<lambda>q.
     bind_eff (need (known_statuses (or_else (sq_status q) [])) (PlainError (ns_prisma N query))) (\<lambda>statuses.
       reads (\<lambda>sw. listMultipartSessions u (Some statuses) (sq_scope q) (sq_limit q) (fst sw)))))"

definition session_handler ::
  "'w files_env \<Rightarrow> session_user option \<Rightarrow> string \<Rightarrow> (app \<times> 'w, upload_public reply) eff" where
  "session_handler E user uploadSessionId = with_user user (\<lambda>u.
     on_fst (getMultipartSession (fe_now E) u uploadSessionId))"

text \<open>\<open>limit ? Number(limit) : 100\<close>, clamped by the service; the database refuses \<open>NaN\<close> and fractions.
  \<open>ns_infinite\<close> tells the texts that \<open>Number\<close> reads as plus or minus infinity.\<close>

fun js_truthy :: "json \<Rightarrow> bool" where
  "js_truthy JUndef = False"
| "js_truthy JNull = False"
| "js_truthy (JBool b) = b"
| "js_truthy (JNum n) = (n \<noteq> 0)"
| "js_truthy (JStr t) = (t \<noteq> [])"
| "js_truthy _ = True"

definition clamp_rat :: "rat \<Rightarrow> rat" where
  "clamp_rat n = min (max n 1) 500"

definition cleanup_limit :: "request_syntax \<Rightarrow> json \<Rightarrow> int option" where
  "cleanup_limit N v =
     (if \<not> js_truthy v then Some 100
      else case js_Number (ns_num N) (ns_num_of N) v of
        Some n \<Rightarrow> if clamp_rat n = of_int \<lfloor>clamp_rat n\<rfloor> then Some \<lfloor>clamp_rat n\<rfloor> else None
      | None \<Rightarrow> (case js_string (ns_num N) v of Inl _ \<Rightarrow> None
          | Inr t \<Rightarrow> map_option (\<lambda>up. if up then 500 else 1) (ns_infinite N t)))"

definition cleanup_handler ::
  "'w files_env \<Rightarrow> request_syntax \<Rightarrow> session_user option \<Rightarrow> json \<Rightarrow> (app \<times> 'w, (nat \<times> nat) reply) eff" where
  "cleanup_handler E N user query = with_user user (\<lambda>u.
     seq_eff (require (su_role u = SUPER_ADMIN \<or> su_role u = ADMIN) (ForbiddenException ''Insufficient role''))
     (bind_eff (need (cleanup_limit N (jget query ''limit'')) (PlainError (ns_prisma N query))) (\<lambda>limit.
       on_fst (cleanupExpiredMultipartSessions (fe_now E) u limit))))"

section \<open>What the parsers let through\<close>

lemma z_default_cases: "z_default d p v = Some x \<Longrightarrow> x = d \<or> p v = Some x"
  by (auto simp: z_default_def split: if_splits)

lemma z_string1_ne: "z_string1 v = Some t \<Longrightarrow> t \<noteq> []"
  by (auto simp: z_string1_def split: option.splits if_splits)

lemma z_items_all:
  assumes "\<And>w x. p w = Some x \<Longrightarrow> P x" and "z_items lo p v = Some xs"
  shows "list_all P xs \<and> lo \<le> length xs"
proof -
  have "z_all p vs = Some ys \<Longrightarrow> list_all P ys" for vs ys
    by (induction vs arbitrary: ys) (auto simp: bind_opt_Some assms(1))
  then show ?thesis using assms(2)
    by (auto simp: z_items_def z_array_def split: option.splits if_splits json.splits)
qed

lemma clamp_rat_int: "clamp_rat m = of_int k \<Longrightarrow> 1 \<le> k \<and> k \<le> 500"
proof -
  have "1 \<le> clamp_rat m" "clamp_rat m \<le> 500" by (simp_all add: clamp_rat_def)
  then show "clamp_rat m = of_int k \<Longrightarrow> 1 \<le> k \<and> k \<le> 500" by auto
qed

lemma cleanup_limit_bounds: "cleanup_limit N v = Some n \<Longrightarrow> 1 \<le> n \<and> n \<le> 500"
  by (auto simp: cleanup_limit_def dest: clamp_rat_int split: if_splits option.splits sum.splits)

end
