(* ===== verification/ApiRequests.thy ===== *)
theory ApiRequests
  imports FileRequests Scheduler
begin

text \<open>
  The request handlers of \<open>jobs.controller.ts\<close>, \<open>connections.controller.ts\<close> and \<open>audit.controller.ts\<close> of
  \<open>apps/api/src/\<close>. Without a user, which the guards rule out, a handler answers with nothing: \<open>None\<close>.
\<close>

definition as_user :: "session_user option \<Rightarrow> (session_user \<Rightarrow> ('s, 'a) eff) \<Rightarrow> ('s, 'a option) eff" where
  "as_user actor f = (case actor of None \<Rightarrow> ok None | Some a \<Rightarrow> bind_eff (f a) (\<lambda>x. ok (Some x)))"

definition ns_parse :: "request_syntax \<Rightarrow> (json \<Rightarrow> 'a option) \<Rightarrow> json \<Rightarrow> ('s, 'a) eff" where
  "ns_parse N = parse_body (ns_zod N)"

text \<open>An operation that only reads and may refuse.\<close>

definition answer :: "('s \<Rightarrow> 'a res) \<Rightarrow> ('s, 'a) eff" where
  "answer f = bind_eff (reads f) lift_res"

definition running :: "('s \<Rightarrow> 'a \<times> 's) \<Rightarrow> ('s, 'a) eff" where
  "running f = (\<lambda>s. case f s of (x, t) \<Rightarrow> (Inr x, t))"

section \<open>Jobs\<close>

definition jobListSchema :: "request_syntax \<Rightarrow> json \<Rightarrow> (int option \<times> list_scope option) option" where
  "jobListSchema N v = (if \<not> is_object v then None else
     bind_opt (z_opt (z_count N 1 500) (jget v ''limit'')) (\<lambda>n.
     bind_opt (z_opt z_scope (jget v ''scope'')) (\<lambda>sc. Some (n, sc))))"

definition eventsQuerySchema :: "request_syntax \<Rightarrow> json \<Rightarrow> int option option" where
  "eventsQuerySchema N v = (if \<not> is_object v then None else z_opt (z_count N 1 1000) (jget v ''limit''))"

fun z_level :: "json \<Rightarrow> event_level option" where
  "z_level (JStr t) = (if t = ''INFO'' then Some INFO else if t = ''WARN'' then Some WARN
     else if t = ''ERROR'' then Some ERROR else None)"
| "z_level _ = None"

definition z_datetime :: "request_syntax \<Rightarrow> json \<Rightarrow> string option" where
  "z_datetime N = z_checked (ns_is_datetime N)"

definition archiveEventsQuerySchema :: "request_syntax \<Rightarrow> json \<Rightarrow> list_archived_events_input option" where
  "archiveEventsQuerySchema N v = (if \<not> is_object v then None else
     bind_opt (z_opt (z_count N 1 500) (jget v ''limit'')) (\<lambda>n.
     bind_opt (z_opt (z_count N 0 1000000) (jget v ''offset'')) (\<lambda>off.
     bind_opt (z_opt z_string1 (jget v ''jobId'')) (\<lambda>j.
     bind_opt (z_opt (z_string_in 1 200) (jget v ''type'')) (\<lambda>t.
     bind_opt (z_opt z_level (jget v ''level'')) (\<lambda>l.
     bind_opt (z_opt (z_string_in 1 200) (jget v ''correlationId'')) (\<lambda>c.
     bind_opt (z_opt (z_string_in 1 200) (jget v ''search'')) (\<lambda>q.
     bind_opt (z_opt (z_datetime N) (jget v ''from'')) (\<lambda>f.
     bind_opt (z_opt (z_datetime N) (jget v ''to'')) (\<lambda>u.
       Some \<lparr>le_limit = n, le_offset = off, le_jobId = j, le_type = t, le_level = l, le_correlationId = c,
             le_search = q, le_from = f, le_to = u\<rparr>))))))))))"

fun z_task :: "json \<Rightarrow> scheduler_task_key option" where
  "z_task (JStr t) = find (\<lambda>k. task_name k = t) [T_retention_cleanup, T_upload_cleanup, T_bucket_sync]"
| "z_task _ = None"

definition schedulerTaskParamSchema :: "json \<Rightarrow> scheduler_task_key option" where
  "schedulerTaskParamSchema v = (if \<not> is_object v then None else z_task (jget v ''task''))"

definition jobs_list_handler :: "request_syntax \<Rightarrow> session_user option \<Rightarrow> json \<Rightarrow> (app, job_public list option) eff" where
  "jobs_list_handler N actor query = as_user actor (\<lambda>a.
     bind_eff (ns_parse N (jobListSchema N) query) (\<lambda>(limit, scope). reads (list_jobs a limit scope)))"

definition archived_events_handler ::
  "request_syntax \<Rightarrow> (string \<Rightarrow> int option) \<Rightarrow> session_user option \<Rightarrow> json \<Rightarrow> (app, event_archive_row page option) eff" where
  "archived_events_handler N parse_date actor query = as_user actor (\<lambda>a.
     bind_eff (ns_parse N (archiveEventsQuerySchema N) query) (\<lambda>i. answer (listArchivedEvents parse_date a i)))"

definition job_details_handler :: "session_user option \<Rightarrow> string \<Rightarrow> (app, job_public option) eff" where
  "job_details_handler actor i = as_user actor (\<lambda>a. answer (getById a i))"

definition job_timeline_handler ::
  "request_syntax \<Rightarrow> session_user option \<Rightarrow> string \<Rightarrow> json \<Rightarrow> (app, (job_public \<times> job_event list) option) eff" where
  "job_timeline_handler N actor i query = as_user actor (\<lambda>a.
     bind_eff (ns_parse N (eventsQuerySchema N) query) (\<lambda>limit. answer (getDetail a i (or_else limit 200))))"

definition job_events_handler ::
  "request_syntax \<Rightarrow> session_user option \<Rightarrow> string \<Rightarrow> json \<Rightarrow> (app, job_event list option) eff" where
  "job_events_handler N actor i query = as_user actor (\<lambda>a.
     bind_eff (ns_parse N (eventsQuerySchema N) query) (\<lambda>limit. answer (listEvents a i (or_else limit 200))))"

definition job_cancel_handler :: "int \<Rightarrow> session_user option \<Rightarrow> string \<Rightarrow> (app, job_public option) eff" where
  "job_cancel_handler now actor i = as_user actor (\<lambda>a. requestCancel now a i)"

definition manual_run :: "session_user \<Rightarrow> string option \<Rightarrow> maintenance_payload" where
  "manual_run a correlationId = \<lparr>mp_actor = a, mp_reason = R_manual, mp_ipAddress = None, mp_correlationId = correlationId\<rparr>"

definition queue_upload_cleanup_handler ::
  "int \<Rightarrow> session_user option \<Rightarrow> string option \<Rightarrow> (app, job_public option) eff" where
  "queue_upload_cleanup_handler now actor correlationId = as_user actor (\<lambda>a.
     running (enqueueUploadCleanup now (manual_run a correlationId)))"

definition queue_retention_handler ::
  "int \<Rightarrow> session_user option \<Rightarrow> string option \<Rightarrow> (app, job_public option) eff" where
  "queue_retention_handler now actor correlationId = as_user actor (\<lambda>a.
     running (enqueueRetentionCleanup now (manual_run a correlationId)))"

definition retention_policy_handler :: "app \<Rightarrow> retention_policy" where
  "retention_policy_handler s = getPolicy (cfg s)"

record maintenance_status =
  ms_retentionPolicy :: retention_policy
  ms_retentionLastRun :: "last_run_state option"
  ms_archive :: archive_stats
  ms_scheduler :: scheduler_status

definition maintenance_status_handler :: "app \<Rightarrow> maintenance_status" where
  "maintenance_status_handler s = \<lparr>ms_retentionPolicy = getPolicy (cfg s), ms_retentionLastRun = getLastRunState s,
     ms_archive = getArchiveStats s, ms_scheduler = getStatus s\<rparr>"

definition run_task_handler ::
  "request_syntax \<Rightarrow> sched_env \<Rightarrow> session_user option \<Rightarrow> json \<Rightarrow> string option \<Rightarrow> (app, task_run option) eff" where
  "run_task_handler N E actor params correlationId = as_user actor (\<lambda>a.
     bind_eff (ns_parse N schedulerTaskParamSchema params) (\<lambda>task. runTaskNow E task a correlationId))"

section \<open>Connections\<close>

record connection_env =
  ce_now :: int
  ce_crypto :: crypto
  ce_key :: string
  ce_rnd :: "nat \<Rightarrow> string"

definition z_url :: "request_syntax \<Rightarrow> json \<Rightarrow> string option" where
  "z_url N = z_checked (ns_is_url N)"

definition patch_value :: "'a patch \<Rightarrow> 'a option" where
  "patch_value p = (case p of SetTo x \<Rightarrow> Some x | _ \<Rightarrow> None)"

definition createConnectionSchema :: "request_syntax \<Rightarrow> json \<Rightarrow> upsert_connection option" where
  "createConnectionSchema N v = (if \<not> is_object v then None else
     bind_opt (z_string1 (jget v ''name'')) (\<lambda>n.
     bind_opt (z_url N (jget v ''endpoint'')) (\<lambda>e.
     bind_opt (z_string1 (jget v ''region'')) (\<lambda>r.
     bind_opt (z_opt z_bool (jget v ''forcePathStyle'')) (\<lambda>f.
     bind_opt (z_string1 (jget v ''accessKeyId'')) (\<lambda>a.
     bind_opt (z_string1 (jget v ''secretAccessKey'')) (\<lambda>k.
     bind_opt (z_patch (z_url N) (jget v ''adminApiUrl'')) (\<lambda>u.
     bind_opt (z_patch z_string (jget v ''adminToken'')) (\<lambda>t.
     bind_opt (z_opt z_bool (jget v ''isDefault'')) (\<lambda>d.
       Some \<lparr>uc_name = n, uc_endpoint = e, uc_region = r, uc_forcePathStyle = f, uc_accessKeyId = a,
             uc_secretAccessKey = k, uc_adminApiUrl = patch_value u, uc_adminToken = patch_value t, uc_isDefault = d\<rparr>))))))))))"

text \<open>\<open>Object.keys\<close> of the parsed patch: the fields the body has, in the order of the schema.\<close>

definition connection_fields :: "string list" where
  "connection_fields = [''name'', ''endpoint'', ''region'', ''forcePathStyle'', ''accessKeyId'', ''secretAccessKey'',
     ''adminApiUrl'', ''adminToken'', ''isDefault'']"

definition updateConnectionSchema :: "request_syntax \<Rightarrow> json \<Rightarrow> patch_connection option" where
  "updateConnectionSchema N v = (if \<not> is_object v then None else
     bind_opt (z_opt z_string1 (jget v ''name'')) (\<lambda>n.
     bind_opt (z_opt (z_url N) (jget v ''endpoint'')) (\<lambda>e.
     bind_opt (z_opt z_string1 (jget v ''region'')) (\<lambda>r.
     bind_opt (z_opt z_bool (jget v ''forcePathStyle'')) (\<lambda>f.
     bind_opt (z_opt z_string1 (jget v ''accessKeyId'')) (\<lambda>a.
     bind_opt (z_opt z_string1 (jget v ''secretAccessKey'')) (\<lambda>k.
     bind_opt (z_patch (z_url N) (jget v ''adminApiUrl'')) (\<lambda>u.
     bind_opt (z_patch z_string (jget v ''adminToken'')) (\<lambda>t.
     bind_opt (z_opt z_bool (jget v ''isDefault'')) (\<lambda>d.
       Some \<lparr>pc_fields = filter (\<lambda>k. jget v k \<noteq> JUndef) connection_fields, pc_name = n, pc_endpoint = e,
             pc_region = r, pc_forcePathStyle = f, pc_accessKeyId = a, pc_secretAccessKey = k, pc_adminApiUrl = u,
             pc_adminToken = t, pc_isDefault = d\<rparr>))))))))))"

definition connections_list_handler :: "app \<Rightarrow> connection_public list" where
  "connections_list_handler = listPublic"

definition connection_create_handler ::
  "request_syntax \<Rightarrow> connection_env \<Rightarrow> session_user option \<Rightarrow> json \<Rightarrow> string option \<Rightarrow> (app, connection_public option) eff" where
  "connection_create_handler N C actor body ip = as_user actor (\<lambda>a.
     bind_eff (ns_parse N (createConnectionSchema N) body) (\<lambda>i.
       create_connection (ce_crypto C) (ce_key C) (ce_rnd C) (ce_now C) a i ip))"

definition connection_update_handler ::
  "request_syntax \<Rightarrow> connection_env \<Rightarrow> session_user option \<Rightarrow> string \<Rightarrow> json \<Rightarrow> string option
    \<Rightarrow> (app, connection_public option) eff" where
  "connection_update_handler N C actor i body ip = as_user actor (\<lambda>a.
     bind_eff (ns_parse N (updateConnectionSchema N) body) (\<lambda>p.
       update_connection (ce_crypto C) (ce_key C) (ce_rnd C) (ce_now C) a i p ip))"

definition connection_health_handler ::
  "connection_env \<Rightarrow> (s3_config \<Rightarrow> 'w s3_send) \<Rightarrow> ('w, 'b) fetcher \<Rightarrow> session_user option \<Rightarrow> string \<Rightarrow> string option
    \<Rightarrow> (app \<times> 'w, health_result option) eff" where
  "connection_health_handler C client fetch actor i ip = as_user actor (\<lambda>a.
     healthCheck (ce_crypto C) (ce_key C) client fetch (ce_now C) a i ip)"

section \<open>Audit\<close>

definition listAuditSchema :: "request_syntax \<Rightarrow> json \<Rightarrow> list_audit_input option" where
  "listAuditSchema N v = (if \<not> is_object v then None else
     bind_opt (z_opt (z_count N 1 1000) (jget v ''limit'')) (\<lambda>n.
     bind_opt (z_opt (z_string_in 1 200) (jget v ''search'')) (\<lambda>q.
     bind_opt (z_opt (z_string_in 1 200) (jget v ''action'')) (\<lambda>a.
     bind_opt (z_opt (z_string_in 1 200) (jget v ''entityType'')) (\<lambda>e.
       Some \<lparr>la_limit = n, la_search = q, la_action = a, la_entityType = e\<rparr>)))))"

definition listAuditArchiveSchema :: "request_syntax \<Rightarrow> json \<Rightarrow> list_archive_input option" where
  "listAuditArchiveSchema N v = (if \<not> is_object v then None else
     bind_opt (z_opt (z_count N 1 500) (jget v ''limit'')) (\<lambda>n.
     bind_opt (z_opt (z_count N 0 1000000) (jget v ''offset'')) (\<lambda>off.
     bind_opt (z_opt (z_string_in 1 200) (jget v ''search'')) (\<lambda>q.
     bind_opt (z_opt (z_string_in 1 200) (jget v ''action'')) (\<lambda>a.
     bind_opt (z_opt (z_string_in 1 200) (jget v ''entityType'')) (\<lambda>e.
     bind_opt (z_opt (z_string_in 1 200) (jget v ''correlationId'')) (\<lambda>c.
     bind_opt (z_opt (z_datetime N) (jget v ''from'')) (\<lambda>f.
     bind_opt (z_opt (z_datetime N) (jget v ''to'')) (\<lambda>u.
       Some \<lparr>lr_limit = n, lr_offset = off, lr_search = q, lr_action = a, lr_entityType = e, lr_correlationId = c,
             lr_from = f, lr_to = u\<rparr>)))))))))"

definition audit_list_handler :: "request_syntax \<Rightarrow> json \<Rightarrow> (app, audit_row list) eff" where
  "audit_list_handler N query = bind_eff (ns_parse N (listAuditSchema N) query) (\<lambda>i. reads (audit_list i))"

definition audit_archive_handler ::
  "request_syntax \<Rightarrow> (string \<Rightarrow> int option) \<Rightarrow> json \<Rightarrow> (app, audit_archive_row page) eff" where
  "audit_archive_handler N parse_date query =
     bind_eff (ns_parse N (listAuditArchiveSchema N) query) (\<lambda>i. reads (audit_listArchive parse_date i))"

end
