(* ===== verification/Login.thy ===== *)
theory Login
  imports Accounts
begin

text \<open>
  Signing in: \<open>auth.service.ts\<close>, \<open>ldap-auth.service.ts\<close> and \<open>auth.controller.ts\<close> of \<open>apps/api/src/auth/\<close>.
  The directory server behind the package \<open>ldapts\<close> is a parameter with a state of its own (\<open>'w\<close>), as are
  the verification of a password (\<open>argon2\<close>), the random bytes of a session and the zod messages. Trace spans
  are left out. An operation reads the clock once.
\<close>

record 'w directory =
  ds_new :: "string \<Rightarrow> bool \<Rightarrow> ('w, unit) eff"
  ds_bind :: "string \<Rightarrow> string \<Rightarrow> ('w, unit) eff"
  ds_search :: "string \<Rightarrow> string \<Rightarrow> string list \<Rightarrow> ('w, json list) eff"
  ds_unbind :: "'w \<Rightarrow> 'w"

record 'w login_env =
  lg_now :: int
  lg_crypto :: crypto
  lg_key :: string
  lg_verify :: "string \<Rightarrow> string \<Rightarrow> bool res"
  lg_directory :: "'w directory"
  lg_num :: "rat \<Rightarrow> string"
  lg_token :: string
  lg_csrf :: string
  lg_cookieName :: string
  lg_production :: bool
  lg_zod_message :: "json \<Rightarrow> string"

section \<open>Search filters\<close>

definition special_char :: "char \<Rightarrow> bool" where
  "special_char c \<longleftrightarrow> c \<in> {CHR 0x5C, CHR ''*'', CHR ''('', CHR '')'', CHR 0x00}"

definition ldap_hex_digit :: "nat \<Rightarrow> char" where
  "ldap_hex_digit n = (if n < 10 then char_of (48 + n) else char_of (87 + n))"

definition escape_char :: "char \<Rightarrow> string" where
  "escape_char c = (let n = (of_char c :: nat) in
     if special_char c then [CHR 0x5C, ldap_hex_digit (n div 16), ldap_hex_digit (n mod 16)] else [c])"

definition escapeLdapValue :: "string \<Rightarrow> string" where
  "escapeLdapValue v = concat (map escape_char v)"

text \<open>
  \<open>replaceAll(needle, replacement)\<close> of JavaScript gives \<open>$\<close>-sequences of the replacement a meaning: the dollar
  itself, the match, what stands before it, what stands after it. \<open>before\<close> and \<open>after\<close> are parts of the
  original string.
\<close>

fun expand :: "string \<Rightarrow> string \<Rightarrow> string \<Rightarrow> string \<Rightarrow> string" where
  "expand matched before after (c # d # r) =
     (if c = CHR ''$'' \<and> d = CHR ''$'' then CHR ''$'' # expand matched before after r
      else if c = CHR ''$'' \<and> d = CHR ''&'' then matched @ expand matched before after r
      else if c = CHR ''$'' \<and> d = CHR 0x60 then before @ expand matched before after r
      else if c = CHR ''$'' \<and> d = CHR 0x27 then after @ expand matched before after r
      else c # expand matched before after (d # r))"
| "expand matched before after r = r"

function replace_from :: "string \<Rightarrow> string \<Rightarrow> string \<Rightarrow> string \<Rightarrow> string" where
  "replace_from needle replacement before s =
     (if needle \<noteq> [] \<and> starts_with s needle
      then let after = drop (length needle) s in
        expand needle before after replacement @ replace_from needle replacement (before @ needle) after
      else (case s of [] \<Rightarrow> [] | c # s' \<Rightarrow> c # replace_from needle replacement (before @ [c]) s'))"
  by pat_completeness auto

termination
  by (relation "measure (\<lambda>(n, r, b, s). length s)") (auto simp: starts_with_prefix prefix_def)

declare replace_from.simps [simp del]

definition replaceAll :: "string \<Rightarrow> string \<Rightarrow> string \<Rightarrow> string" where
  "replaceAll s needle replacement = replace_from needle replacement [] s"

definition username_slot :: string where
  "username_slot = ''{{username}}''"

definition default_filter :: string where
  "default_filter = ''(uid={{username}})''"

definition search_filter :: "ldap_row \<Rightarrow> string \<Rightarrow> string" where
  "search_filter c username =
     replaceAll (if l_searchFilter c = [] then default_filter else l_searchFilter c) username_slot (escapeLdapValue username)"

section \<open>Directory entries\<close>

text \<open>The attributes asked for: no empty name, no name twice.\<close>

fun first_of_each :: "'a list \<Rightarrow> 'a list" where
  "first_of_each [] = []"
| "first_of_each (x # xs) = x # first_of_each (filter (\<lambda>y. y \<noteq> x) xs)"

definition search_attributes :: "ldap_row \<Rightarrow> string list" where
  "search_attributes c = first_of_each (filter (\<lambda>a. a \<noteq> [])
     [l_usernameAttribute c, l_emailAttribute c, l_displayNameAttribute c, l_groupAttribute c, ''dn''])"

definition json_strings :: "json list \<Rightarrow> string list" where
  "json_strings vs = List.map_filter z_string vs"

fun firstString :: "json \<Rightarrow> string option" where
  "firstString (JStr s) = Some s"
| "firstString (JArr vs) = (case json_strings vs of [] \<Rightarrow> None | s # _ \<Rightarrow> Some s)"
| "firstString _ = None"

fun manyStrings :: "json \<Rightarrow> string list" where
  "manyStrings (JStr s) = [s]"
| "manyStrings (JArr vs) = json_strings vs"
| "manyStrings _ = []"

fun group_role :: "(string \<rightharpoonup> app_role) \<Rightarrow> app_role \<Rightarrow> string list \<Rightarrow> app_role" where
  "group_role mapping r [] = r"
| "group_role mapping r (g # gs) = (case mapping g of
     Some SUPER_ADMIN \<Rightarrow> SUPER_ADMIN
   | Some ADMIN \<Rightarrow> group_role mapping ADMIN gs
   | _ \<Rightarrow> group_role mapping r gs)"

record ldap_result =
  ld_username :: string
  ld_email :: "string option"
  ld_displayName :: string
  ld_role :: app_role

definition ldap_result_of :: "ldap_row \<Rightarrow> string \<Rightarrow> json \<Rightarrow> ldap_result" where
  "ldap_result_of c username entry =
     (let ldapUsername = or_else (firstString (jget entry (l_usernameAttribute c))) username in
      \<lparr>ld_username = ldapUsername, ld_email = firstString (jget entry (l_emailAttribute c)),
       ld_displayName = or_else (firstString (jget entry (l_displayNameAttribute c))) ldapUsername,
       ld_role = group_role (map_of (l_groupRoleMapping c)) USER (manyStrings (jget entry (l_groupAttribute c)))\<rparr>)"

section \<open>The directory\<close>

definition entry_dn :: "(rat \<Rightarrow> string) \<Rightarrow> json \<Rightarrow> string res" where
  "entry_dn num entry = (let v = jget entry ''dn'' in js_string num (if v = JNull \<or> v = JUndef then JStr [] else v))"

definition bind_service_account :: "'w login_env \<Rightarrow> ldap_row \<Rightarrow> (app \<times> 'w, unit) eff" where
  "bind_service_account E c =
     (if \<not> truthy (l_bindDn c) then ok ()
      else bind_eff (if truthy (l_bindPasswordEncrypted c)
             then lift_res (decrypt (lg_crypto E) (lg_key E) (or_else (l_bindPasswordEncrypted c) [])) else ok [])
        (\<lambda>bindPassword. on_snd (ds_bind (lg_directory E) (or_else (l_bindDn c) []) bindPassword)))"

definition directory_login :: "'w login_env \<Rightarrow> ldap_row \<Rightarrow> string \<Rightarrow> string \<Rightarrow> (app \<times> 'w, ldap_result) eff" where
  "directory_login E c username password =
     seq_eff (bind_service_account E c)
     (bind_eff (on_snd (ds_search (lg_directory E) (or_else (l_searchBase c) []) (search_filter c username) (search_attributes c)))
        (\<lambda>searchEntries.
     bind_eff (need (case searchEntries of [] \<Rightarrow> None | e # _ \<Rightarrow> Some e) (UnauthorizedException ''Invalid LDAP credentials'')) (\<lambda>entry.
     bind_eff (lift_res (entry_dn (lg_num E) entry)) (\<lambda>userDn.
     seq_eff (require (userDn \<noteq> []) (UnauthorizedException ''LDAP user DN not found''))
     (seq_eff (on_snd (ds_bind (lg_directory E) userDn password))
     (ok (ldap_result_of c username entry)))))))"

text \<open>\<open>try\<close> with a \<open>catch\<close> that counts the failure, and a \<open>finally\<close> that leaves the connection.\<close>

definition leaving :: "'w directory \<Rightarrow> (app \<times> 'w, 'a) eff \<Rightarrow> (app \<times> 'w, 'a) eff" where
  "leaving d m = (\<lambda>sw. case m sw of (r, t) \<Rightarrow> (r, (fst t, ds_unbind d (snd t))))"

definition authenticate :: "'w login_env \<Rightarrow> string \<Rightarrow> string \<Rightarrow> (app \<times> 'w, ldap_result) eff" where
  "authenticate E username password =
     bind_eff (reads (\<lambda>sw. ldap (fst sw))) (\<lambda>found.
       case found of
         None \<Rightarrow> throw (UnauthorizedException ''LDAP authentication is not configured'')
       | Some c \<Rightarrow>
           if \<not> l_enabled c \<or> \<not> truthy (l_url c) \<or> \<not> truthy (l_searchBase c)
           then throw (UnauthorizedException ''LDAP authentication is not configured'')
           else seq_eff (on_snd (ds_new (lg_directory E) (or_else (l_url c) []) (l_tlsRejectUnauthorized c)))
             (leaving (lg_directory E) (catch_eff (directory_login E c username password)
                (\<lambda>error. seq_eff (on_fst (modify (recordLdapFailure (err_message error)))) (throw error)))))"

section \<open>The authentication service\<close>

datatype auth_mode = AM_local | AM_ldap | AM_hybrid
datatype auth_method = By_local | By_ldap

fun auth_mode_str :: "auth_mode \<Rightarrow> string" where
  "auth_mode_str AM_local = ''local''"
| "auth_mode_str AM_ldap = ''ldap''"
| "auth_mode_str AM_hybrid = ''hybrid''"

fun method_str :: "auth_method \<Rightarrow> string" where
  "method_str By_local = ''local''"
| "method_str By_ldap = ''ldap''"

fun read_auth_mode :: "json option \<Rightarrow> auth_mode" where
  "read_auth_mode (Some (JStr t)) = (if t = ''ldap'' then AM_ldap else if t = ''hybrid'' then AM_hybrid else AM_local)"
| "read_auth_mode _ = AM_local"

definition getAuthMode :: "app \<Rightarrow> auth_mode" where
  "getAuthMode s = read_auth_mode (settings s ''auth_mode'')"

definition isLdapEnabled :: "app \<Rightarrow> bool" where
  "isLdapEnabled s = (case ldap s of None \<Rightarrow> False | Some c \<Rightarrow> l_enabled c)"

definition getAuthModeInfo :: "app \<Rightarrow> auth_mode \<times> bool \<times> auth_method list" where
  "getAuthModeInfo s = (getAuthMode s, isLdapEnabled s, (case getAuthMode s of
     AM_local \<Rightarrow> [By_local] | AM_ldap \<Rightarrow> [By_ldap]
   | AM_hybrid \<Rightarrow> if isLdapEnabled s then [By_local, By_ldap] else [By_local]))"

definition bad_credentials :: http_error where
  "bad_credentials = UnauthorizedException ''Invalid username or password''"

definition loginWithLocal :: "'w login_env \<Rightarrow> string \<Rightarrow> string \<Rightarrow> (app \<times> 'w, session_user) eff" where
  "loginWithLocal E username password =
     bind_eff (reads (\<lambda>sw. find_username username (fst sw))) (\<lambda>found.
     bind_eff (need found bad_credentials) (\<lambda>user.
     bind_eff (reads (\<lambda>sw. localCreds (fst sw) (u_id user))) (\<lambda>creds.
     bind_eff (need creds bad_credentials) (\<lambda>passwordHash.
     seq_eff (require (u_isActive user) bad_credentials)
     (bind_eff (lift_res (lg_verify E passwordHash password)) (\<lambda>valid.
     seq_eff (require valid bad_credentials) (ok (user_of_row user))))))))"

definition ldap_user :: "int \<Rightarrow> ldap_result \<Rightarrow> string \<Rightarrow> user_row" where
  "ldap_user now r newId = \<lparr>u_id = newId, u_username = ld_username r, u_email = ld_email r,
     u_displayName = Some (ld_displayName r), u_role = ld_role r, u_source = LDAP, u_isActive = True, u_createdAt = now\<rparr>"

definition refreshed_user :: "ldap_result \<Rightarrow> user_row \<Rightarrow> user_row" where
  "refreshed_user r u = u\<lparr>u_email := first_some (ld_email r) (u_email u), u_displayName := Some (ld_displayName r),
     u_role := ld_role r, u_source := LDAP, u_isActive := True\<rparr>"

definition upsert_ldap_user :: "int \<Rightarrow> ldap_result \<Rightarrow> (app, user_row) eff" where
  "upsert_ldap_user now r = (\<lambda>s. case find_username (ld_username r) s of
     None \<Rightarrow> insert_user (ldap_user now r) s
   | Some u \<Rightarrow> if user_clash (Some (u_id u)) (refreshed_user r u) s then (Inl P2002, s)
       else (Inr (refreshed_user r u),
         s\<lparr>users := tb_update (\<lambda>v. u_username v = ld_username r) (refreshed_user r) (users s)\<rparr>))"

definition loginWithLdap :: "'w login_env \<Rightarrow> string \<Rightarrow> string \<Rightarrow> (app \<times> 'w, session_user) eff" where
  "loginWithLdap E username password =
     bind_eff (authenticate E username password) (\<lambda>result.
     bind_eff (reads (\<lambda>sw. ld_role result \<in> set (roles (fst sw)))) (\<lambda>role.
     seq_eff (require role (UnauthorizedException ''Role mapping failed''))
     (bind_eff (on_fst (upsert_ldap_user (lg_now E) result)) (\<lambda>user. ok (user_of_row user)))))"

record login_input =
  li_username :: string
  li_password :: string
  li_mode :: "auth_method option"

record login_result =
  ar_user :: session_user
  ar_method :: auth_method
  ar_mode :: auth_mode

definition by_local :: "'w login_env \<Rightarrow> login_input \<Rightarrow> auth_mode \<Rightarrow> (app \<times> 'w, login_result) eff" where
  "by_local E i m = bind_eff (loginWithLocal E (li_username i) (li_password i)) (\<lambda>u.
     ok \<lparr>ar_user = u, ar_method = By_local, ar_mode = m\<rparr>)"

definition by_ldap :: "'w login_env \<Rightarrow> login_input \<Rightarrow> auth_mode \<Rightarrow> (app \<times> 'w, login_result) eff" where
  "by_ldap E i m = bind_eff (loginWithLdap E (li_username i) (li_password i)) (\<lambda>u.
     ok \<lparr>ar_user = u, ar_method = By_ldap, ar_mode = m\<rparr>)"

definition login :: "'w login_env \<Rightarrow> login_input \<Rightarrow> (app \<times> 'w, login_result) eff" where
  "login E i =
     bind_eff (reads (\<lambda>sw. getAuthMode (fst sw))) (\<lambda>authMode.
       case authMode of
         AM_local \<Rightarrow> if li_mode i = Some By_ldap then throw (UnauthorizedException ''LDAP login is disabled'') else by_local E i authMode
       | AM_ldap \<Rightarrow> if li_mode i = Some By_local then throw (UnauthorizedException ''Local login is disabled'') else by_ldap E i authMode
       | AM_hybrid \<Rightarrow> (case li_mode i of
           Some By_local \<Rightarrow> by_local E i authMode
         | Some By_ldap \<Rightarrow> by_ldap E i authMode
         | None \<Rightarrow> catch_eff (by_local E i authMode) (\<lambda>_.
             bind_eff (reads (\<lambda>sw. isLdapEnabled (fst sw))) (\<lambda>ldapEnabled.
               if \<not> ldapEnabled then throw bad_credentials else by_ldap E i authMode))))"

section \<open>Requests\<close>

fun z_method :: "json \<Rightarrow> auth_method option" where
  "z_method (JStr t) = (if t = ''local'' then Some By_local else if t = ''ldap'' then Some By_ldap else None)"
| "z_method _ = None"

definition loginSchema :: "json \<Rightarrow> login_input option" where
  "loginSchema v = (if \<not> is_object v then None else
     bind_opt (z_string_in 1 255 (jget v ''username'')) (\<lambda>n.
     bind_opt (z_string_in 8 1024 (jget v ''password'')) (\<lambda>p.
     bind_opt (z_opt z_method (jget v ''mode'')) (\<lambda>m.
       Some \<lparr>li_username = n, li_password = p, li_mode = m\<rparr>))))"

definition limiter_of :: "config \<Rightarrow> limiter_config" where
  "limiter_of c = \<lparr>maxAttempts = nat (LOGIN_MAX_ATTEMPTS c), windowSeconds = LOGIN_WINDOW_SECONDS c, redisPrefix = REDIS_PREFIX c\<rparr>"

definition limiter_key :: "string \<Rightarrow> string \<Rightarrow> string" where
  "limiter_key ip username = ip @ '':'' @ to_lower username"

definition check_limiter :: "int \<Rightarrow> string \<Rightarrow> (app, unit) eff" where
  "check_limiter now key = (\<lambda>s. case limiter_check (limiter_of (cfg s)) now key (redis_st s) of
     (r, st) \<Rightarrow> (r, s\<lparr>redis_st := st\<rparr>))"

definition register_failure :: "int \<Rightarrow> string \<Rightarrow> app \<Rightarrow> app" where
  "register_failure now key s = s\<lparr>redis_st := limiter_registerFailure (limiter_of (cfg s)) now key (redis_st s)\<rparr>"

definition clear_limiter :: "string \<Rightarrow> app \<Rightarrow> app" where
  "clear_limiter key s = s\<lparr>redis_st := limiter_clear (limiter_of (cfg s)) key (redis_st s)\<rparr>"

record session_cookie =
  ck_name :: string
  ck_value :: string
  ck_secure :: bool
  ck_maxAge :: int

text \<open>\<open>httpOnly\<close>, \<open>sameSite: "lax"\<close> and \<open>path: "/"\<close> are constants of the cookie.\<close>

record login_reply =
  lo_user :: session_user
  lo_csrfToken :: string
  lo_cookie :: session_cookie

definition metric_method :: "auth_method option \<Rightarrow> login_method" where
  "metric_method m = (case m of None \<Rightarrow> M_unknown | Some By_local \<Rightarrow> M_local | Some By_ldap \<Rightarrow> M_ldap)"

definition requested_mode :: "login_input \<Rightarrow> json" where
  "requested_mode i = jopt (\<lambda>m. JStr (method_str m)) (li_mode i)"

definition signed_in :: "'w login_env \<Rightarrow> login_input \<Rightarrow> string \<Rightarrow> string option \<Rightarrow> string \<Rightarrow> (app \<times> 'w, login_reply) eff" where
  "signed_in E parsed ip agent key =
     bind_eff (login E parsed) (\<lambda>authenticated.
     bind_eff (on_fst (createSession (lg_crypto E) (lg_now E) (lg_token E) (lg_csrf E) (su_id (ar_user authenticated)) (Some ip) agent))
       (\<lambda>(token, csrfToken).
     seq_eff (on_fst (modify (clear_limiter key)))
     (bind_eff (reads (\<lambda>sw. \<lparr>ck_name = lg_cookieName E, ck_value = token, ck_secure = lg_production E,
          ck_maxAge = SESSION_TTL_HOURS (cfg (fst sw)) * 60 * 60 * 1000\<rparr>)) (\<lambda>cookie.
     seq_eff (on_fst (modify (audit_record (lg_now E) (Some (ar_user authenticated))
        (''auth.login.success.'' @ method_str (ar_method authenticated)) ''user'' (Some (su_id (ar_user authenticated)))
        (JObj [(''username'', JStr (su_username (ar_user authenticated))), (''authMode'', JStr (auth_mode_str (ar_mode authenticated))),
               (''requestedMode'', requested_mode parsed)]) (Some ip))))
     (seq_eff (on_fst (modify (add_metric (MLogin True (metric_method (Some (ar_method authenticated)))))))
     (ok \<lparr>lo_user = ar_user authenticated, lo_csrfToken = csrfToken, lo_cookie = cookie\<rparr>))))))"

definition login_failed :: "'w login_env \<Rightarrow> login_input \<Rightarrow> string \<Rightarrow> string \<Rightarrow> http_error \<Rightarrow> app \<Rightarrow> app" where
  "login_failed E parsed ip key error s =
     add_metric (MLogin False (metric_method (li_mode parsed)))
       (audit_record (lg_now E) None ''auth.login.failure'' ''auth'' (Some (li_username parsed))
          (JObj [(''username'', JStr (li_username parsed)), (''requestedMode'', requested_mode parsed),
                 (''reason'', JStr (err_message error))]) (Some ip)
          (register_failure (lg_now E) key s))"

definition login_handler :: "'w login_env \<Rightarrow> json \<Rightarrow> string \<Rightarrow> string option \<Rightarrow> (app \<times> 'w, login_reply) eff" where
  "login_handler E body ip agent =
     bind_eff (parse_body (lg_zod_message E) loginSchema body) (\<lambda>parsed.
       let key = limiter_key ip (li_username parsed) in
       seq_eff (on_fst (check_limiter (lg_now E) key))
       (catch_eff (signed_in E parsed ip agent key) (\<lambda>error.
          seq_eff (on_fst (modify (login_failed E parsed ip key error))) (throw error))))"

text \<open>The cookie is cleared in the answer.\<close>

definition logout_handler :: "int \<Rightarrow> session_user option \<Rightarrow> string option \<Rightarrow> (app, unit) eff" where
  "logout_handler now user sessionId =
     seq_eff (require (truthy sessionId) (UnauthorizedException ''Not authenticated''))
     (seq_eff (modify (revokeSession now (or_else sessionId [])))
     (modify (audit_record now user ''auth.logout'' ''session'' sessionId JUndef None)))"

definition login_route :: route where
  "login_route = \<lparr>rt_public = True, rt_roles = None, rt_bucket = None\<rparr>"

end
