(* ===== verification/LdapSettings.thy ===== *)
theory LdapSettings
  imports Login
begin

text \<open>
  The settings of sign-in: \<open>apps/api/src/settings/settings.service.ts\<close> and the handlers of
  \<open>settings.controller.ts\<close>. The configuration of the directory is one row, the mode one setting. \<open>zod\<close>'s check
  of an URL and the nonce of an encryption are parameters.
\<close>

record settings_env =
  se_now :: int
  se_crypto :: crypto
  se_key :: string
  se_iv :: string
  se_is_url :: "string \<Rightarrow> bool"
  se_zod_message :: "json \<Rightarrow> string"

record ldap_update =
  lu_enabled :: bool
  lu_url :: "string patch"
  lu_bindDn :: "string patch"
  lu_bindPassword :: "string patch"
  lu_searchBase :: "string patch"
  lu_searchFilter :: string
  lu_usernameAttribute :: string
  lu_emailAttribute :: string
  lu_displayNameAttribute :: string
  lu_groupAttribute :: string
  lu_groupRoleMapping :: "(string \<times> app_role) list"
  lu_tlsRejectUnauthorized :: bool

definition ldapUpdateSchema :: "(string \<Rightarrow> bool) \<Rightarrow> json \<Rightarrow> ldap_update option" where
  "ldapUpdateSchema is_url v = (if \<not> is_object v then None else
     bind_opt (z_bool (jget v ''enabled'')) (\<lambda>en.
     bind_opt (z_patch (z_checked is_url) (jget v ''url'')) (\<lambda>u.
     bind_opt (z_patch z_string (jget v ''bindDn'')) (\<lambda>dn.
     bind_opt (z_patch z_string1 (jget v ''bindPassword'')) (\<lambda>pw.
     bind_opt (z_patch z_string (jget v ''searchBase'')) (\<lambda>base.
     bind_opt (z_default default_filter z_string (jget v ''searchFilter'')) (\<lambda>fil.
     bind_opt (z_default ''uid'' z_string (jget v ''usernameAttribute'')) (\<lambda>ua.
     bind_opt (z_default ''mail'' z_string (jget v ''emailAttribute'')) (\<lambda>ea.
     bind_opt (z_default ''cn'' z_string (jget v ''displayNameAttribute'')) (\<lambda>da.
     bind_opt (z_default ''memberOf'' z_string (jget v ''groupAttribute'')) (\<lambda>ga.
     bind_opt (z_default [] (z_record roleSchema) (jget v ''groupRoleMapping'')) (\<lambda>m.
     bind_opt (z_default True z_bool (jget v ''tlsRejectUnauthorized'')) (\<lambda>tls.
       Some \<lparr>lu_enabled = en, lu_url = u, lu_bindDn = dn, lu_bindPassword = pw, lu_searchBase = base,
         lu_searchFilter = fil, lu_usernameAttribute = ua, lu_emailAttribute = ea, lu_displayNameAttribute = da,
         lu_groupAttribute = ga, lu_groupRoleMapping = m, lu_tlsRejectUnauthorized = tls\<rparr>)))))))))))))"

record ldap_public =
  lp_enabled :: bool
  lp_url :: "string option"
  lp_bindDn :: "string option"
  lp_hasBindPassword :: bool
  lp_searchBase :: "string option"
  lp_searchFilter :: string
  lp_usernameAttribute :: string
  lp_emailAttribute :: string
  lp_displayNameAttribute :: string
  lp_groupAttribute :: string
  lp_groupRoleMapping :: "(string \<times> app_role) list"
  lp_tlsRejectUnauthorized :: bool

definition getLdapConfig :: "app \<Rightarrow> ldap_public" where
  "getLdapConfig s = (case ldap s of
     None \<Rightarrow> \<lparr>lp_enabled = False, lp_url = None, lp_bindDn = None, lp_hasBindPassword = False, lp_searchBase = None,
       lp_searchFilter = default_filter, lp_usernameAttribute = ''uid'', lp_emailAttribute = ''mail'',
       lp_displayNameAttribute = ''cn'', lp_groupAttribute = ''memberOf'', lp_groupRoleMapping = [],
       lp_tlsRejectUnauthorized = True\<rparr>
   | Some c \<Rightarrow> \<lparr>lp_enabled = l_enabled c, lp_url = l_url c, lp_bindDn = l_bindDn c,
       lp_hasBindPassword = truthy (l_bindPasswordEncrypted c), lp_searchBase = l_searchBase c,
       lp_searchFilter = l_searchFilter c, lp_usernameAttribute = l_usernameAttribute c, lp_emailAttribute = l_emailAttribute c,
       lp_displayNameAttribute = l_displayNameAttribute c, lp_groupAttribute = l_groupAttribute c,
       lp_groupRoleMapping = l_groupRoleMapping c, lp_tlsRejectUnauthorized = l_tlsRejectUnauthorized c\<rparr>)"

definition ldap_row_of :: "ldap_update \<Rightarrow> string option \<Rightarrow> string option \<Rightarrow> string option \<Rightarrow> string option \<Rightarrow> ldap_row" where
  "ldap_row_of i url bindDn pw base = \<lparr>l_enabled = lu_enabled i, l_url = url, l_bindDn = bindDn,
     l_bindPasswordEncrypted = pw, l_searchBase = base, l_searchFilter = lu_searchFilter i,
     l_usernameAttribute = lu_usernameAttribute i, l_emailAttribute = lu_emailAttribute i,
     l_displayNameAttribute = lu_displayNameAttribute i, l_groupAttribute = lu_groupAttribute i,
     l_groupRoleMapping = lu_groupRoleMapping i, l_tlsRejectUnauthorized = lu_tlsRejectUnauthorized i\<rparr>"

definition created_ldap :: "settings_env \<Rightarrow> ldap_update \<Rightarrow> ldap_row" where
  "created_ldap E i = ldap_row_of i (patch_opt (lu_url i) None) (patch_opt (lu_bindDn i) None)
     (encrypt_opt (se_crypto E) (se_key E) (se_iv E) (patch_opt (lu_bindPassword i) None)) (patch_opt (lu_searchBase i) None)"

definition updated_ldap :: "settings_env \<Rightarrow> ldap_update \<Rightarrow> ldap_row \<Rightarrow> ldap_row" where
  "updated_ldap E i c = ldap_row_of i (patch_opt (lu_url i) (l_url c)) (patch_opt (lu_bindDn i) (l_bindDn c))
     (case lu_bindPassword i of Keep \<Rightarrow> l_bindPasswordEncrypted c | SetNull \<Rightarrow> None
       | SetTo p \<Rightarrow> Some (encrypt (se_crypto E) (se_key E) (se_iv E) p)) (patch_opt (lu_searchBase i) (l_searchBase c))"

definition upsert_ldap :: "settings_env \<Rightarrow> ldap_update \<Rightarrow> app \<Rightarrow> app" where
  "upsert_ldap E i s = s\<lparr>ldap := Some (case ldap s of None \<Rightarrow> created_ldap E i | Some c \<Rightarrow> updated_ldap E i c)\<rparr>"

definition updateLdapConfig :: "settings_env \<Rightarrow> session_user \<Rightarrow> json \<Rightarrow> string option \<Rightarrow> (app, ldap_public) eff" where
  "updateLdapConfig E actor input ip =
     bind_eff (parse_body (se_zod_message E) (ldapUpdateSchema (se_is_url E)) input) (\<lambda>i.
     bind_eff (reads (\<lambda>s. case ldap s of None \<Rightarrow> False | Some c \<Rightarrow> l_enabled c)) (\<lambda>enabledBefore.
     seq_eff (modify (upsert_ldap E i))
     (seq_eff (modify (audit_record (se_now E) (Some actor) ''settings.ldap.update'' ''settings'' (Some ''ldap'')
        (JObj [(''enabledBefore'', JBool enabledBefore), (''enabledAfter'', JBool (lu_enabled i)),
          (''urlAfter'', jstr_opt (patch_opt (lu_url i) None)), (''bindDnAfter'', jstr_opt (patch_opt (lu_bindDn i) None)),
          (''searchBaseAfter'', jstr_opt (patch_opt (lu_searchBase i) None)), (''searchFilterAfter'', JStr (lu_searchFilter i)),
          (''tlsRejectUnauthorizedAfter'', JBool (lu_tlsRejectUnauthorized i)),
          (''bindPasswordUpdated'', JBool (lu_bindPassword i \<noteq> Keep))]) ip))
     (reads getLdapConfig))))"

definition readAuthMode :: "app \<Rightarrow> auth_mode" where
  "readAuthMode s = (case settings s ''auth_mode'' of None \<Rightarrow> AM_local
     | Some v \<Rightarrow> if v = JStr ''local'' then AM_local else if v = JStr ''ldap'' then AM_ldap
         else if v = JStr ''hybrid'' then AM_hybrid else AM_local)"

definition setAuthMode :: "settings_env \<Rightarrow> session_user \<Rightarrow> auth_mode \<Rightarrow> string option \<Rightarrow> (app, auth_mode) eff" where
  "setAuthMode E actor m ip =
     bind_eff (reads readAuthMode) (\<lambda>previousMode.
     seq_eff (modify (\<lambda>s. s\<lparr>settings := (settings s)(''auth_mode'' \<mapsto> JStr (auth_mode_str m))\<rparr>))
     (seq_eff (modify (audit_record (se_now E) (Some actor) ''settings.auth_mode.update'' ''settings'' (Some ''auth_mode'')
        (JObj [(''previousMode'', JStr (auth_mode_str previousMode)), (''nextMode'', JStr (auth_mode_str m))]) ip))
     (ok m)))"

section \<open>Requests\<close>

fun z_auth_mode :: "json \<Rightarrow> auth_mode option" where
  "z_auth_mode (JStr t) = (if t = ''local'' then Some AM_local else if t = ''ldap'' then Some AM_ldap
     else if t = ''hybrid'' then Some AM_hybrid else None)"
| "z_auth_mode _ = None"

definition authModeSchema :: "json \<Rightarrow> auth_mode option" where
  "authModeSchema v = (if \<not> is_object v then None else z_auth_mode (jget v ''mode''))"

text \<open>Without a user, which the guards rule out, a handler answers the empty list: \<open>None\<close>.\<close>

definition update_ldap_handler ::
  "settings_env \<Rightarrow> session_user option \<Rightarrow> json \<Rightarrow> string option \<Rightarrow> (app, ldap_public option) eff" where
  "update_ldap_handler E actor body ip = (case actor of None \<Rightarrow> ok None
     | Some a \<Rightarrow> bind_eff (updateLdapConfig E a body ip) (\<lambda>c. ok (Some c)))"

definition set_auth_mode_handler ::
  "settings_env \<Rightarrow> session_user option \<Rightarrow> json \<Rightarrow> string option \<Rightarrow> (app, auth_mode option) eff" where
  "set_auth_mode_handler E actor body ip = (case actor of None \<Rightarrow> ok None
     | Some a \<Rightarrow> bind_eff (parse_body (se_zod_message E) authModeSchema body) (\<lambda>m.
         bind_eff (setAuthMode E a m ip) (\<lambda>m'. ok (Some m'))))"

definition settings_route :: route where
  "settings_route = \<lparr>rt_public = False, rt_roles = Some [SUPER_ADMIN], rt_bucket = None\<rparr>"

section \<open>What is stored is what signing in reads\<close>

lemma readAuthMode_getAuthMode: "readAuthMode s = getAuthMode s"
  by (cases "settings s ''auth_mode''"; cases "the (settings s ''auth_mode'')")
    (auto simp: readAuthMode_def getAuthMode_def)


definition demo_settings_env :: settings_env where
  "demo_settings_env = \<lparr>se_now = 1, se_crypto = plain_crypto, se_key = ''k'', se_iv = ''nonce'', se_is_url = (\<lambda>_. True),
     se_zod_message = (\<lambda>_. [])\<rparr>"

definition demo_settings_body :: json where
  "demo_settings_body = JObj [(''enabled'', JBool True), (''bindPassword'', JStr ''pw'')]"

definition demo_operator :: session_user where
  "demo_operator = \<lparr>su_id = ''a1'', su_username = ''root'', su_email = None, su_role = SUPER_ADMIN, su_displayName = None\<rparr>"


end
