(* ===== verification/Routes.thy ===== *)
theory Routes
  imports ApiRequests Login LdapSettings BucketAdmin AuthzProps
begin

text \<open>
  The routes of the controllers under \<open>apps/api/src/\<close>, with the metadata their decorators leave, the handlers
  that only report what the guards found, and what the table as a whole guarantees.
\<close>

section \<open>Small handlers\<close>

text \<open>\<open>GET auth/me\<close>, \<open>GET auth/csrf\<close>, \<open>GET auth/mode\<close>.\<close>

definition me_handler :: "api_request \<Rightarrow> session_user option" where
  "me_handler r = rq_user r"

definition csrf_handler :: "api_request \<Rightarrow> string option" where
  "csrf_handler r = rq_csrfToken r"

definition mode_handler :: "app \<Rightarrow> auth_mode \<times> bool \<times> auth_method list" where
  "mode_handler s = getAuthModeInfo s"

definition ldap_config_handler :: "app \<Rightarrow> ldap_public" where
  "ldap_config_handler s = getLdapConfig s"

definition auth_mode_handler :: "app \<Rightarrow> auth_mode" where
  "auth_mode_handler s = readAuthMode s"

text \<open>The probes: liveness never fails, readiness asks the database and Redis. The two probes are parameters:
  the database either answers or throws, Redis answers whether it is there.\<close>

record readiness_report =
  rd_ready :: bool
  rd_database :: bool
  rd_redis :: bool

definition readiness :: "unit res \<Rightarrow> bool res \<Rightarrow> readiness_report res" where
  "readiness database redis_ping = (case database of
     Inl e \<Rightarrow> Inl e
   | Inr _ \<Rightarrow> (case redis_ping of Inl e \<Rightarrow> Inl e
       | Inr up \<Rightarrow> Inr \<lparr>rd_ready = up, rd_database = True, rd_redis = up\<rparr>))"

text \<open>The report of a degraded service is thrown inside the \<open>try\<close>, so that its own handler replaces it.\<close>

definition service_unavailable :: "string \<Rightarrow> http_error" where
  "service_unavailable message = PlainError message"

definition ready_handler :: "unit res \<Rightarrow> bool res \<Rightarrow> string \<Rightarrow> readiness_report res" where
  "ready_handler database redis_ping unavailable_message = (case readiness database redis_ping of
     Inl e \<Rightarrow> Inl (service_unavailable (err_message e))
   | Inr found \<Rightarrow> if rd_ready found then Inr found else Inl (service_unavailable unavailable_message))"

section \<open>The table\<close>

definition public_route :: route where
  "public_route = \<lparr>rt_public = True, rt_roles = None, rt_bucket = None\<rparr>"

definition super_route :: route where
  "super_route = \<lparr>rt_public = False, rt_roles = Some [SUPER_ADMIN], rt_bucket = None\<rparr>"

definition auth_routes :: "(string \<times> string \<times> route) list" where
  "auth_routes =
     [(''POST'', ''auth/login'', login_route),
      (''POST'', ''auth/logout'', open_route),
      (''GET'', ''auth/me'', open_route),
      (''GET'', ''auth/csrf'', open_route),
      (''GET'', ''auth/mode'', public_route)]"

definition connection_routes :: "(string \<times> string \<times> route) list" where
  "connection_routes =
     [(''GET'', ''admin/connections'', super_route),
      (''POST'', ''admin/connections'', super_route),
      (''PATCH'', ''admin/connections/:id'', super_route),
      (''POST'', ''admin/connections/:id/health'', super_route)]"

definition bucket_routes :: "(string \<times> string \<times> route) list" where
  "bucket_routes =
     [(''GET'', ''buckets'', open_route),
      (''GET'', ''admin/buckets'', admin_route),
      (''POST'', ''admin/buckets/sync'', super_route),
      (''PUT'', ''admin/buckets/:bucketId/grants/:userId'', admin_route),
      (''GET'', ''admin/buckets/:bucketId/grants'', admin_route),
      (''GET'', ''admin/users/:adminUserId/scopes'', admin_route),
      (''PUT'', ''admin/users/:adminUserId/scopes'', super_route)]"

definition job_routes :: "(string \<times> string \<times> route) list" where
  "job_routes =
     [(''GET'', ''jobs'', open_route),
      (''GET'', ''jobs/archive/events'', super_route),
      (''GET'', ''jobs/:id'', open_route),
      (''GET'', ''jobs/:id/detail'', open_route),
      (''GET'', ''jobs/:id/events'', open_route),
      (''POST'', ''jobs/:id/cancel'', open_route),
      (''POST'', ''jobs/maintenance/upload-cleanup'', admin_route),
      (''GET'', ''jobs/maintenance/retention-policy'', admin_route),
      (''GET'', ''jobs/maintenance/status'', admin_route),
      (''POST'', ''jobs/maintenance/retention-cleanup'', super_route),
      (''POST'', ''jobs/maintenance/tasks/:task/run-once'', super_route)]"

definition user_routes :: "(string \<times> string \<times> route) list" where
  "user_routes =
     [(''GET'', ''admin/users'', users_route),
      (''POST'', ''admin/users'', users_create_route),
      (''PATCH'', ''admin/users/:id'', users_route)]"

definition settings_routes :: "(string \<times> string \<times> route) list" where
  "settings_routes =
     [(''GET'', ''admin/settings/ldap'', settings_route),
      (''PATCH'', ''admin/settings/ldap'', settings_route),
      (''GET'', ''admin/settings/auth-mode'', settings_route),
      (''PATCH'', ''admin/settings/auth-mode'', settings_route)]"

definition audit_routes :: "(string \<times> string \<times> route) list" where
  "audit_routes = [(''GET'', ''admin/audit'', super_route), (''GET'', ''admin/audit/archive'', super_route)]"

definition probe_routes :: "(string \<times> string \<times> route) list" where
  "probe_routes =
     [(''GET'', ''health/live'', public_route), (''GET'', ''health/ready'', public_route)]"

definition metrics_routes :: "(string \<times> string \<times> route) list" where
  "metrics_routes = [(''GET'', ''metrics'', public_route)]"

definition app_routes :: "(string \<times> string \<times> route) list" where
  "app_routes = [(''GET'', ''health'', public_route)]"

text \<open>A handler's path is the controller's path and its own.\<close>

definition under_prefix :: "string \<Rightarrow> (string \<times> string \<times> route) list \<Rightarrow> (string \<times> string \<times> route) list" where
  "under_prefix p rts = map (\<lambda>(m, q, rt). (m, if q = [] then p else p @ [slash] @ q, rt)) rts"

definition api_routes :: "(string \<times> string \<times> route) list" where
  "api_routes = metrics_routes @ auth_routes @ connection_routes @ bucket_routes @ under_prefix ''files'' file_routes
     @ job_routes @ user_routes @ settings_routes @ audit_routes @ probe_routes @ app_routes"

section \<open>What the table guarantees\<close>

definition public_paths :: "(string \<times> string) list" where
  "public_paths = [(''GET'', ''metrics''), (''POST'', ''auth/login''), (''GET'', ''auth/mode''), (''GET'', ''health/live''),
     (''GET'', ''health/ready''), (''GET'', ''health'')]"

definition under_admin :: "string \<Rightarrow> bool" where
  "under_admin p \<longleftrightarrow> starts_with p ''admin/'' \<or> starts_with p ''jobs/maintenance/'' \<or> starts_with p ''jobs/archive/''"

definition well_guarded :: "string \<times> string \<times> route \<Rightarrow> bool" where
  "well_guarded = (\<lambda>(m, p, rt). (rt_public rt \<longleftrightarrow> (m, p) \<in> set public_paths)
     \<and> (under_admin p \<longrightarrow> rt_roles rt = Some [SUPER_ADMIN] \<or> rt_roles rt = Some [SUPER_ADMIN, ADMIN]))"

lemma table_guarded: "list_all well_guarded api_routes"
  by code_simp



end
