(* ===== verification/LoginProps.thy ===== *)
theory LoginProps
  imports Login AccountsProps AuthzProps
begin

text \<open>
  What signing in guarantees: a success rests on a verified password or on a bind of the directory, the
  session it opens is the caller's, a blocked client reaches neither, and the filter sent to the directory
  holds the username as data.
\<close>

section \<open>The search filter\<close>

text \<open>The reference: literal replacement, and reading an escaped value back (RFC 4515).\<close>

function plain_replace :: "string \<Rightarrow> string \<Rightarrow> string \<Rightarrow> string" where
  "plain_replace needle r s =
     (if needle \<noteq> [] \<and> prefix needle s then r @ plain_replace needle r (drop (length needle) s)
      else (case s of [] \<Rightarrow> [] | c # s' \<Rightarrow> c # plain_replace needle r s'))"
  by pat_completeness auto

termination
  by (relation "measure (\<lambda>(n, r, s). length s)") (auto simp: prefix_def)

declare plain_replace.simps [simp del]

definition ldap_hex_value :: "char \<Rightarrow> nat" where
  "ldap_hex_value c = (let n = (of_char c :: nat) in if n < 58 then n - 48 else n - 87)"

fun unescape :: "string \<Rightarrow> string" where
  "unescape (c # d # e # r) = (if c = CHR 0x5C then char_of (16 * ldap_hex_value d + ldap_hex_value e) # unescape r
     else c # unescape (d # e # r))"
| "unescape r = r"

lemma hex_value_digit: "n < 16 \<Longrightarrow> ldap_hex_value (ldap_hex_digit n) = n"
  by (simp add: ldap_hex_value_def ldap_hex_digit_def Let_def take_bit_eq_mod)

lemma unescape_filter_plain: "c \<noteq> CHR 0x5C \<Longrightarrow> unescape (c # r) = c # unescape r"
  by (cases r; cases "tl r") auto

lemma char_div_mod: "char_of (16 * (of_char c div 16) + of_char c mod 16 :: nat) = c"
  by simp

lemma of_char_bound: "(of_char c :: nat) div 16 < 16"
proof -
  have "(of_char c :: nat) < 256" by (metis mod_less_divisor of_char_mod_256 zero_less_numeral)
  then show ?thesis by (simp add: less_mult_imp_div_less)
qed

lemma unescape_escape_char: "unescape (escape_char c @ r) = c # unescape r"
proof (cases "special_char c")
  case True
  then show ?thesis by (simp add: escape_char_def Let_def hex_value_digit of_char_bound)
next
  case False
  then have "c \<noteq> CHR 0x5C" by (auto simp: special_char_def)
  with False show ?thesis by (simp add: escape_char_def Let_def unescape_filter_plain)
qed

lemma unescape_filter_escape: "unescape (escapeLdapValue v) = v"
proof (induction v)
  case (Cons c v)
  then show ?case using unescape_escape_char [of c "escapeLdapValue v"] by (simp add: escapeLdapValue_def)
qed (simp add: escapeLdapValue_def)

lemma hex_digit_plain: "n < 16 \<Longrightarrow> ldap_hex_digit n \<notin> {CHR ''*'', CHR ''('', CHR '')'', CHR 0x00, CHR ''$''}"
  by (auto simp: ldap_hex_digit_def char_of_eq_iff take_bit_eq_mod)

lemma escape_char_chars:
  "x \<in> set (escape_char c) \<Longrightarrow> x \<notin> {CHR ''*'', CHR ''('', CHR '')'', CHR 0x00} \<and> (x = CHR ''$'' \<longrightarrow> c = CHR ''$'')"
  using hex_digit_plain [OF of_char_bound, of c] hex_digit_plain [of "of_char c mod 16"]
  by (auto simp: escape_char_def Let_def special_char_def split: if_splits)

lemma escaped_chars:
  "x \<in> set (escapeLdapValue v) \<Longrightarrow> x \<notin> {CHR ''*'', CHR ''('', CHR '')'', CHR 0x00} \<and> (x = CHR ''$'' \<longrightarrow> x \<in> set v)"
  using escape_char_chars by (fastforce simp: escapeLdapValue_def)

lemma expand_plain: "CHR ''$'' \<notin> set r \<Longrightarrow> expand m b a r = r"
  by (induction m b a r rule: expand.induct) auto

lemma replace_from_plain:
  "CHR ''$'' \<notin> set r \<Longrightarrow> replace_from needle r before s = plain_replace needle r s"
proof (induction needle r before s rule: replace_from.induct)
  case (1 needle r before s)
  show ?case
    by (subst replace_from.simps, subst plain_replace.simps)
      (use 1 in \<open>auto simp: Let_def expand_plain starts_with_prefix split: list.split\<close>)
qed


definition demo_ldap :: ldap_row where
  "demo_ldap = \<lparr>l_enabled = True, l_url = Some ''ldap'', l_bindDn = None, l_bindPasswordEncrypted = None,
     l_searchBase = Some ''dc=x'', l_searchFilter = [], l_usernameAttribute = ''uid'', l_emailAttribute = ''mail'',
     l_displayNameAttribute = ''cn'', l_groupAttribute = ''memberOf'', l_groupRoleMapping = [(''admins'', ADMIN)],
     l_tlsRejectUnauthorized = True\<rparr>"


text \<open>A dollar sign is not data: the sequence with a backquote inserts what stands before the slot, parenthesis included.\<close>

lemma dollar_breaks_filter: "search_filter demo_ldap [CHR ''$'', CHR 0x60] = ''(uid=(uid=)''"
  by code_simp

section \<open>Who is signed in\<close>

lemma bind_service_account_ok: "bind_service_account E c (s, w) = (Inr x, (t, w')) \<Longrightarrow> t = s"
  by (auto simp: bind_service_account_def eff_inv split: if_splits)

text \<open>The directory has accepted the password for the entry it found.\<close>

definition directory_accepts :: "'w login_env \<Rightarrow> ldap_row \<Rightarrow> string \<Rightarrow> json \<Rightarrow> bool" where
  "directory_accepts E c password entry \<longleftrightarrow> (\<exists>dn w. entry_dn (lg_num E) entry = Inr dn \<and> dn \<noteq> []
     \<and> fst (ds_bind (lg_directory E) dn password w) = Inr ())"

lemma directory_login_ok:
  assumes "directory_login E c n p (s, w) = (Inr a, (t, w'))"
  shows "t = s \<and> (\<exists>entry. directory_accepts E c p entry \<and> a = ldap_result_of c n entry)"
proof -
  obtain x t1 w1 es e dn w2 w3 where *: "bind_service_account E c (s, w) = (Inr x, (t1, w1))"
    "entry_dn (lg_num E) e = Inr dn" "dn \<noteq> []" "ds_bind (lg_directory E) dn p w2 = (Inr (), w3)"
    "a = ldap_result_of c n e" "t = t1"
    using assms by (auto simp: directory_login_def eff_inv)
  then have "directory_accepts E c p e" unfolding directory_accepts_def by (metis fst_conv)
  then show ?thesis using * bind_service_account_ok [OF *(1)] by blast
qed

lemma authenticate_ok:
  assumes "authenticate E n p (s, w) = (Inr a, (t, w'))"
  shows "t = s \<and> (\<exists>c entry. ldap s = Some c \<and> l_enabled c \<and> directory_accepts E c p entry \<and> a = ldap_result_of c n entry)"
proof -
  obtain c where c: "ldap s = Some c" "l_enabled c" "truthy (l_url c)" "truthy (l_searchBase c)"
    using assms by (auto simp: authenticate_def eff_simps split: option.splits if_splits)
  obtain w1 where new: "ds_new (lg_directory E) (or_else (l_url c) []) (l_tlsRejectUnauthorized c) w = (Inr (), w1)"
    using assms c by (cases "ds_new (lg_directory E) (or_else (l_url c) []) (l_tlsRejectUnauthorized c) w")
      (auto simp: authenticate_def eff_simps split: sum.splits)
  obtain r s1 w2 where run: "directory_login E c n p (s, w1) = (r, (s1, w2))" by (metis surj_pair)
  have "r = Inr a \<and> t = s1"
    using assms c new run by (auto simp: authenticate_def leaving_def eff_simps split: sum.splits if_splits)
  with directory_login_ok [of E c n p s w1 a s1 w2] run c show ?thesis by blast
qed

lemma upsert_ldap_user_ok:
  assumes "upsert_ldap_user now r s = (Inr u, t)"
  shows "find_username (ld_username r) t = Some u \<and> u_isActive u \<and> u_source u = LDAP \<and> u_role u = ld_role r"
proof (cases "find_username (ld_username r) s")
  case None
  then have "t = bump_id (s\<lparr>users := users s @ [ldap_user now r (new_id s)]\<rparr>)" "u = ldap_user now r (new_id s)"
    using assms by (auto simp: upsert_ldap_user_def insert_user_def Let_def split: if_splits)
  moreover have "find (\<lambda>v. u_username v = ld_username r) (users s @ [ldap_user now r (new_id s)]) = Some (ldap_user now r (new_id s))"
    using None by (intro find_append_new) (simp_all add: find_username_def ldap_user_def)
  ultimately show ?thesis by (simp add: find_username_def bump_id_def ldap_user_def)
next
  case (Some v)
  then have "find_username (ld_username r) (s\<lparr>users := tb_update (\<lambda>x. u_username x = ld_username r) (refreshed_user r) (users s)\<rparr>)
      = Some (refreshed_user r v)"
    using find_SomeD [OF Some [unfolded find_username_def]]
    by (simp add: find_username_def find_tb_update refreshed_user_def)
  then show ?thesis using assms Some by (auto simp: upsert_ldap_user_def refreshed_user_def split: if_splits)
qed

lemma loginWithLocal_ok:
  "loginWithLocal E n p (s, w) = (Inr x, sw) \<longleftrightarrow> sw = (s, w) \<and> (\<exists>u h. find_username n s = Some u \<and> u_isActive u
     \<and> localCreds s (u_id u) = Some h \<and> lg_verify E h p = Inr True \<and> x = user_of_row u)"
  by (auto simp: loginWithLocal_def eff_inv)

lemma loginWithLocal_state: "snd (loginWithLocal E n p sw) = sw"
  by (auto simp: loginWithLocal_def eff_simps split: option.split sum.split)

lemma by_local_state: "snd (by_local E i m sw) = sw"
  using loginWithLocal_state [of E "li_username i" "li_password i" sw]
  by (cases "loginWithLocal E (li_username i) (li_password i) sw") (auto simp: by_local_def eff_simps split: sum.split)

lemma by_local_ok: "by_local E i m (s, w) = (Inr r, sw) \<Longrightarrow> ar_method r = By_local \<and> sw = (s, w)
    \<and> (\<exists>u h. find_username (li_username i) s = Some u \<and> u_isActive u
     \<and> localCreds s (u_id u) = Some h \<and> lg_verify E h (li_password i) = Inr True \<and> ar_user r = user_of_row u)"
  by (auto simp: by_local_def eff_inv loginWithLocal_ok)

lemma by_ldap_ok:
  assumes "by_ldap E i m (s, w) = (Inr r, (t, w'))"
  shows "ar_method r = By_ldap \<and> (\<exists>c entry u. ldap s = Some c \<and> l_enabled c \<and> directory_accepts E c (li_password i) entry
     \<and> find_username (ld_username (ldap_result_of c (li_username i) entry)) t = Some u \<and> u_isActive u \<and> u_source u = LDAP
     \<and> u_role u = ld_role (ldap_result_of c (li_username i) entry) \<and> ar_user r = user_of_row u)"
proof -
  obtain a s1 w1 u where run: "authenticate E (li_username i) (li_password i) (s, w) = (Inr a, (s1, w1))"
    "upsert_ldap_user (lg_now E) a s1 = (Inr u, t)" "ar_user r = user_of_row u" "ar_method r = By_ldap"
    using assms by (auto simp: by_ldap_def loginWithLdap_def eff_inv)
  show ?thesis using authenticate_ok [OF run(1)] upsert_ldap_user_ok [OF run(2)] run(3,4) by blast
qed

lemma login_cases:
  assumes "login E i (s, w) = (Inr r, (t, w'))"
  obtains (l) "getAuthMode s \<noteq> AM_ldap" "li_mode i \<noteq> Some By_ldap" "by_local E i (getAuthMode s) (s, w) = (Inr r, (t, w'))"
    | (d) "getAuthMode s \<noteq> AM_local" "li_mode i \<noteq> Some By_local" "by_ldap E i (getAuthMode s) (s, w) = (Inr r, (t, w'))"
proof (cases "getAuthMode s = AM_hybrid \<and> li_mode i = None")
  case True
  obtain q where q: "by_local E i AM_hybrid (s, w) = (q, (s, w))" using by_local_state by (metis prod.collapse)
  show thesis
  proof (cases q)
    case (Inl e)
    then have "by_ldap E i AM_hybrid (s, w) = (Inr r, (t, w'))"
      using assms True q by (auto simp: login_def eff_simps split: if_splits)
    then show thesis using True that(2) by simp
  next
    case (Inr x)
    then show thesis using assms True q that(1) by (auto simp: login_def eff_simps)
  qed
next
  case False
  then show thesis using assms that
    by (cases "getAuthMode s"; cases "li_mode i" rule: option.exhaust) (auto simp: login_def eff_simps split: if_splits auth_method.splits)
qed


section \<open>What signing in leaves alone\<close>

definition untouched :: "app \<Rightarrow> app \<times> 'w \<Rightarrow> bool" where
  "untouched s0 sw \<longleftrightarrow> cfg (fst sw) = cfg s0 \<and> redis_st (fst sw) = redis_st s0 \<and> sessions (fst sw) = sessions s0
     \<and> ctx (fst sw) = ctx s0"

lemma untouched_on_snd: "preserves (untouched s0) (on_snd m)"
  by (auto simp: preserves_def untouched_def on_snd_def split: prod.splits)

lemma untouched_metric: "preserves (untouched s0) (on_fst (modify (recordLdapFailure x)))"
  by (auto simp: preserves_def untouched_def on_fst_def recordLdapFailure_def add_metric_def modify_def split: prod.splits)

lemma untouched_upsert: "preserves (untouched s0) (on_fst (upsert_ldap_user now r))"
  by (auto simp: preserves_def untouched_def on_fst_def upsert_ldap_user_def insert_user_def bump_id_def Let_def split: prod.splits option.splits)

lemma untouched_leaving: "preserves (untouched s0) m \<Longrightarrow> preserves (untouched s0) (leaving d m)"
  unfolding preserves_def leaving_def untouched_def by (auto split: prod.split) (metis fst_conv snd_conv)+

lemma untouched_authenticate: "preserves (untouched s0) (authenticate E n p)"
  unfolding authenticate_def directory_login_def bind_service_account_def
  by (intro preserves_intros untouched_on_snd untouched_metric untouched_leaving)

lemma untouched_login: "preserves (untouched s0) (login E i)"
proof -
  have "preserves (untouched s0) (by_local E i m)" for m
    unfolding by_local_def loginWithLocal_def by (intro preserves_intros)
  moreover have "preserves (untouched s0) (by_ldap E i m)" for m
    unfolding by_ldap_def loginWithLdap_def by (intro preserves_intros untouched_authenticate untouched_upsert)
  ultimately show ?thesis
    unfolding login_def by (intro preserves_intros) (auto split: auth_mode.split option.split auth_method.split intro!: preserves_intros)
qed

section \<open>One request to sign in\<close>

text \<open>The failures that count against a client at an instant.\<close>

definition failures :: "int \<Rightarrow> string \<Rightarrow> app \<Rightarrow> nat" where
  "failures now key s = or_else (live_count (limiter_of (cfg s)) now key (redis_st s)) 0"

lemma check_limiter_state: "snd (check_limiter now key s) = s\<lparr>redis_st := cleanupMemory now (redis_st s)\<rparr>"
  by (auto simp: check_limiter_def limiter_check_def redis_get_def Let_def split: option.split prod.split)

lemma check_limiter_fst: "fst (check_limiter now key s) = fst (limiter_check (limiter_of (cfg s)) now key (redis_st s))"
  by (simp add: check_limiter_def split: prod.split)

lemma failures_cleanup: "failures now key (s\<lparr>redis_st := cleanupMemory now (redis_st s)\<rparr>) = failures now key s"
  by (auto simp: failures_def live_count_def cleanup_counters split: option.split)

lemma failures_register:
  assumes "0 < LOGIN_WINDOW_SECONDS (cfg s)"
  shows "failures now key (register_failure now key s) = Suc (failures now key s)"
  using assms by (auto simp: failures_def register_failure_def live_count_def registerFailure_counter limiter_of_def
      split: option.split)

lemma failures_clear: "failures now key (clear_limiter key s) = 0"
  by (simp add: failures_def clear_limiter_def live_count_def limiter_clear_def redis_delete_def)

lemma failures_cong: "cfg t = cfg s \<Longrightarrow> redis_st t = redis_st s \<Longrightarrow> failures now key t = failures now key s"
  by (simp add: failures_def)

lemma login_failed_frame:
  "sessions (login_failed E i ip key e s) = sessions s" "users (login_failed E i ip key e s) = users s"
  "cfg (login_failed E i ip key e s) = cfg s"
  "redis_st (login_failed E i ip key e s) = redis_st (register_failure (lg_now E) key s)"
  by (simp_all add: login_failed_def add_metric_def audit_record_def bump_id_def register_failure_def)

text \<open>What a success adds after \<open>login\<close> has answered.\<close>

lemma signed_in_cases:
  obtains e t w' where "login E i (s, w) = (Inl e, (t, w'))" "signed_in E i ip agent key (s, w) = (Inl e, (t, w'))"
  | a t w' u where "login E i (s, w) = (Inr a, (t, w'))"
    "fst (signed_in E i ip agent key (s, w)) = Inr \<lparr>lo_user = ar_user a, lo_csrfToken = lg_csrf E,
       lo_cookie = \<lparr>ck_name = lg_cookieName E, ck_value = lg_token E, ck_secure = lg_production E,
         ck_maxAge = SESSION_TTL_HOURS (cfg t) * 60 * 60 * 1000\<rparr>\<rparr>"
    "snd (signed_in E i ip agent key (s, w)) = (u, w')"
    "sessions u = sessions (snd (createSession (lg_crypto E) (lg_now E) (lg_token E) (lg_csrf E) (su_id (ar_user a)) (Some ip) agent t))"
    "users u = users t" "cfg u = cfg t" "redis_st u = redis_st (clear_limiter key t)"
proof -
  obtain q t w' where run: "login E i (s, w) = (q, (t, w'))" by (metis surj_pair)
  show thesis
  proof (cases q)
    case (Inl e)
    then show thesis using run by (intro that(1) [of e t w']) (simp_all add: signed_in_def eff_simps)
  next
    case (Inr a)
    then show thesis using run
      by (intro that(2) [of a t w' "fst (snd (signed_in E i ip agent key (s, w)))"])
        (simp_all add: signed_in_def eff_simps createSession_def clear_limiter_def bump_id_def audit_record_def add_metric_def)
  qed
qed

lemma new_session_resolves:
  assumes "find (\<lambda>x. s_tokenHash x = hashToken cr token) (sessions t) = None"
    and "sessions u = sessions (snd (createSession cr now token csrf userId ip agent t))"
    and "find_user userId u = Some v" and "u_isActive v"
  shows "fst (getSessionUser cr tm token u) = Inr (if tm \<le> now + SESSION_TTL_HOURS (cfg t) * 60 * 60 * 1000
    then Some \<lparr>rs_user = user_of_row v, rs_sessionId = new_id t, rs_csrfToken = csrf\<rparr> else None)"
proof -
  define row where "row = \<lparr>s_id = new_id t, s_tokenHash = hashToken cr token, s_csrfToken = csrf, s_userId = userId,
    s_ipAddress = ip, s_userAgent = agent, s_lastSeenAt = now,
    s_expiresAt = now + SESSION_TTL_HOURS (cfg t) * 60 * 60 * 1000, s_revokedAt = None\<rparr>"
  have sess: "sessions u = sessions t @ [row]" using assms(2) by (simp add: createSession_def bump_id_def row_def)
  have hit: "find (\<lambda>x. s_tokenHash x = hashToken cr token) (sessions u) = Some row"
    unfolding sess using assms(1) by (rule find_append_new) (simp add: row_def)
  show ?thesis
    using assms(3,4) by (simp add: getSessionUser_fst hit find_user_def session_live_def row_def)
qed

lemma check_limiter_result:
  assumes "memoryLocks (redis_st s) (toStorageKey (limiter_of (cfg s)) key) = None" and "config_ok (cfg s)"
  shows "check_limiter now key s = (if nat (LOGIN_MAX_ATTEMPTS (cfg s)) \<le> failures now key s
      then Inl (TooManyRequests ''Too many login attempts. Please try again later.'') else Inr (),
    s\<lparr>redis_st := cleanupMemory now (redis_st s)\<rparr>)"
proof -
  let ?c = "limiter_of (cfg s)"
  have pos: "0 < nat (LOGIN_MAX_ATTEMPTS (cfg s))" using assms(2) by (simp add: config_ok_def in_range_def)
  have "(\<exists>e. fst (limiter_check ?c now key (redis_st s)) = Inl e) \<longleftrightarrow> nat (LOGIN_MAX_ATTEMPTS (cfg s)) \<le> failures now key s"
    using limiter_check_iff [OF assms(1), of now] pos
    by (cases "live_count ?c now key (redis_st s)") (auto simp: failures_def limiter_of_def)
  moreover have "fst (limiter_check ?c now key (redis_st s)) = Inl e \<Longrightarrow>
      e = TooManyRequests ''Too many login attempts. Please try again later.''" for e
    by (auto simp: limiter_check_def Let_def split: option.splits prod.splits if_splits)
  ultimately have "fst (check_limiter now key s) = (if nat (LOGIN_MAX_ATTEMPTS (cfg s)) \<le> failures now key s
      then Inl (TooManyRequests ''Too many login attempts. Please try again later.'') else Inr ())"
    unfolding check_limiter_fst by (cases "fst (limiter_check ?c now key (redis_st s))") auto
  then show ?thesis by (intro prod_eqI) (simp_all add: check_limiter_state)
qed

text \<open>The user of a success is a row found by its id.\<close>

lemma upsert_keeps_ids:
  assumes "upsert_ldap_user now r s = (Inr u, t)" and "distinct (map u_id (users s))" and "new_id s \<notin> u_id ` set (users s)"
  shows "distinct (map u_id (users t))"
proof (cases "find_username (ld_username r) s")
  case None
  then have "users t = users s @ [ldap_user now r (new_id s)]"
    using assms(1) by (auto simp: upsert_ldap_user_def insert_user_def bump_id_def Let_def split: if_splits)
  then show ?thesis using assms(2,3) by (simp add: ldap_user_def)
next
  case (Some v)
  then have t: "users t = tb_update (\<lambda>v. u_username v = ld_username r) (refreshed_user r) (users s)"
    using assms(1) by (auto simp: upsert_ldap_user_def split: if_splits)
  have "map u_id (users t) = map u_id (users s)" unfolding t by (rule tb_update_map) (simp add: refreshed_user_def)
  then show ?thesis using assms(2) by simp
qed

lemma login_user_found:
  assumes "login E i (s, w) = (Inr a, (t, w'))" and ids: "distinct (map u_id (users s))" "new_id s \<notin> u_id ` set (users s)"
  shows "\<exists>u. find_user (su_id (ar_user a)) t = Some u \<and> u_isActive u \<and> ar_user a = user_of_row u"
proof -
  have found: "find_user (u_id u) t' = Some u" if "find_username n t' = Some u" "distinct (map u_id (users t'))" for n u t'
    using find_distinct_unique [OF that(2)] find_SomeD [OF that(1) [unfolded find_username_def]] by (simp add: find_user_def)
  show ?thesis
    using assms(1)
  proof (cases rule: login_cases)
    case l
    then show ?thesis using by_local_ok [OF l(3)] found [of "li_username i" s] ids by (auto simp: user_of_row_def)
  next
    case d
    obtain r s1 w1 u where run: "authenticate E (li_username i) (li_password i) (s, w) = (Inr r, (s1, w1))"
      "upsert_ldap_user (lg_now E) r s1 = (Inr u, t)" "ar_user a = user_of_row u"
      using d(3) by (auto simp: by_ldap_def loginWithLdap_def eff_inv)
    have "s1 = s" using authenticate_ok [OF run(1)] by simp
    then have "distinct (map u_id (users t))" using upsert_keeps_ids [OF run(2)] ids by simp
    then show ?thesis using upsert_ldap_user_ok [OF run(2)] run(3) found by (auto simp: user_of_row_def)
  qed
qed

text \<open>
  C34. One request to sign in. With the limit of failures reached within the window, it is refused before any
  credential is looked at: the directory, the users and the sessions are untouched and the count stays. Below
  the limit, a refusal opens no session and counts one more failure; a success forgets the failures, and the
  token in its cookie is the caller's session, with the CSRF token of the answer, up to its expiry and not after.
\<close>

theorem sign_in_request:
  fixes ip :: string
  assumes parse: "loginSchema body = Some i" and run: "login_handler E body ip agent (s, w) = (r, (t, w'))"
    and key: "key = limiter_key ip (li_username i)" and conf: "config_ok (cfg s)"
    and free: "memoryLocks (redis_st s) (toStorageKey (limiter_of (cfg s)) key) = None"
    and ids: "distinct (map u_id (users s))" "new_id s \<notin> u_id ` set (users s)"
    and fresh: "find (\<lambda>x. s_tokenHash x = hashToken (lg_crypto E) (lg_token E)) (sessions s) = None"
  shows "if nat (LOGIN_MAX_ATTEMPTS (cfg s)) \<le> failures (lg_now E) key s
    then r = Inl (TooManyRequests ''Too many login attempts. Please try again later.'') \<and> w' = w \<and> users t = users s
      \<and> sessions t = sessions s \<and> failures (lg_now E) key t = failures (lg_now E) key s
    else (case r of
        Inl e \<Rightarrow> sessions t = sessions s \<and> (e \<noteq> Diverges \<longrightarrow> failures (lg_now E) key t = Suc (failures (lg_now E) key s))
      | Inr a \<Rightarrow> failures (lg_now E) key t = 0 \<and> (\<exists>sid. \<forall>tm. fst (getSessionUser (lg_crypto E) tm (ck_value (lo_cookie a)) t)
          = Inr (if tm \<le> lg_now E + SESSION_TTL_HOURS (cfg s) * 60 * 60 * 1000
                 then Some \<lparr>rs_user = lo_user a, rs_sessionId = sid, rs_csrfToken = lo_csrfToken a\<rparr> else None)))"
proof -
  let ?s = "s\<lparr>redis_st := cleanupMemory (lg_now E) (redis_st s)\<rparr>"
  have chk: "check_limiter (lg_now E) key s = (if nat (LOGIN_MAX_ATTEMPTS (cfg s)) \<le> failures (lg_now E) key s
      then Inl (TooManyRequests ''Too many login attempts. Please try again later.'') else Inr (), ?s)"
    by (rule check_limiter_result [OF free conf])
  show ?thesis
  proof (cases "nat (LOGIN_MAX_ATTEMPTS (cfg s)) \<le> failures (lg_now E) key s")
    case True
    then have "r = Inl (TooManyRequests ''Too many login attempts. Please try again later.'')" "t = ?s" "w' = w"
      using run by (simp_all add: login_handler_def eff_simps parse_body_def parse Let_def key [symmetric] chk)
    then show ?thesis using True by (simp add: failures_cleanup)
  next
    case below: False
    have window: "0 < LOGIN_WINDOW_SECONDS (cfg s)" using conf by (simp add: config_ok_def in_range_def)
    have handler: "login_handler E body ip agent (s, w) = catch_eff (signed_in E i ip agent key)
        (\<lambda>error. seq_eff (on_fst (modify (login_failed E i ip key error))) (throw error)) (?s, w)"
      using below by (simp add: login_handler_def bind_eff_apply [of "need _ _"] seq_eff_apply [of "on_fst _"] on_fst_apply
          parse_body_def need_apply parse Let_def key [symmetric] chk)
    have quiet: "cfg u = cfg s \<and> redis_st u = redis_st ?s \<and> sessions u = sessions s" if "login E i (?s, w) = (q, (u, w2))" for q u w2
      using preservesD [OF untouched_login, of ?s "(?s, w)" E i] that by (simp add: untouched_def)
    have quiet_count: "failures (lg_now E) key u = failures (lg_now E) key s" if "login E i (?s, w) = (q, (u, w2))" for q u w2
      using failures_cong [of u ?s "lg_now E" key] quiet [OF that] failures_cleanup [of "lg_now E" key s] by simp
    show ?thesis
    proof (cases rule: signed_in_cases [of E i ?s w ip agent key])
      case (1 e u w2)
      then have "r = Inl e" and t: "t = (if e = Diverges then u else login_failed E i ip key e u)"
        using run handler by (auto simp: catch_eff_def eff_simps split: if_splits)
      moreover have "failures (lg_now E) key (login_failed E i ip key e u) = Suc (failures (lg_now E) key s)"
        using failures_cong [of "login_failed E i ip key e u" "register_failure (lg_now E) key u" "lg_now E" key]
          failures_register [of u "lg_now E" key] quiet [OF 1(1)] quiet_count [OF 1(1)] window
        by (simp add: login_failed_frame) (simp add: register_failure_def)
      ultimately show ?thesis using below quiet [OF 1(1)] by (auto simp: login_failed_frame)
    next
      case (2 a u w2 v)
      let ?reply = "\<lparr>lo_user = ar_user a, lo_csrfToken = lg_csrf E,
         lo_cookie = \<lparr>ck_name = lg_cookieName E, ck_value = lg_token E, ck_secure = lg_production E,
           ck_maxAge = SESSION_TTL_HOURS (cfg u) * 60 * 60 * 1000\<rparr>\<rparr>"
      have "signed_in E i ip agent key (?s, w) = (Inr ?reply, (v, w2))" using 2(2,3) by (metis prod.collapse)
      then have r: "r = Inr ?reply" and t: "t = v" using run handler by (simp_all add: catch_eff_def)
      obtain x where x: "find_user (su_id (ar_user a)) u = Some x" "u_isActive x" "ar_user a = user_of_row x"
        using login_user_found [OF 2(1)] ids by (auto simp: new_id_def)
      have "find (\<lambda>x. s_tokenHash x = hashToken (lg_crypto E) (lg_token E)) (sessions u) = None"
        using fresh quiet [OF 2(1)] by simp
      note resolves = new_session_resolves [OF this 2(4), of x] 
      have "find_user (su_id (ar_user a)) v = Some x" using x(1) 2(5) by (simp add: find_user_def)
      then have "fst (getSessionUser (lg_crypto E) tm (lg_token E) v) = Inr (if tm \<le> lg_now E + SESSION_TTL_HOURS (cfg s) * 60 * 60 * 1000
          then Some \<lparr>rs_user = ar_user a, rs_sessionId = new_id u, rs_csrfToken = lg_csrf E\<rparr> else None)" for tm
        using resolves x quiet [OF 2(1)] by simp
      moreover have "failures (lg_now E) key v = 0"
        using failures_cong [of v "clear_limiter key u" "lg_now E" key] failures_clear [of "lg_now E" key u] 2(6,7)
        by (simp add: clear_limiter_def)
      ultimately show ?thesis using below r t by auto
    qed
  qed
qed

section \<open>Witnesses\<close>

definition demo_directory :: "unit directory" where
  "demo_directory = \<lparr>ds_new = (\<lambda>_ _. ok ()), ds_bind = (\<lambda>_ _. throw (PlainError ''no'')), ds_search = (\<lambda>_ _ _. ok []),
     ds_unbind = id\<rparr>"

definition demo_login_env :: "unit login_env" where
  "demo_login_env = \<lparr>lg_now = 7, lg_crypto = plain_crypto, lg_key = ''k'', lg_verify = (\<lambda>h p. Inr (h = p)),
     lg_directory = demo_directory, lg_num = (\<lambda>_. []), lg_token = ''tk2'', lg_csrf = ''cs2'', lg_cookieName = ''sid'',
     lg_production = False, lg_zod_message = (\<lambda>_. [])\<rparr>"

definition demo_login_site :: app where
  "demo_login_site = init_app\<lparr>users := [demo_super], localCreds := [''a1'' \<mapsto> ''correct horse'']\<rparr>"

definition demo_credentials :: login_input where
  "demo_credentials = \<lparr>li_username = ''root'', li_password = ''correct horse'', li_mode = None\<rparr>"

lemma demo_login: "login demo_login_env demo_credentials (demo_login_site, ())
    = (Inr \<lparr>ar_user = user_of_row demo_super, ar_method = By_local, ar_mode = AM_local\<rparr>, (demo_login_site, ()))"
  by (simp add: login_def by_local_def loginWithLocal_def eff_simps demo_login_site_def demo_credentials_def demo_login_env_def
      init_app_def getAuthMode_def find_username_def demo_super_def)


definition demo_login_body :: json where
  "demo_login_body = JObj [(''username'', JStr ''root''), (''password'', JStr ''wrong horse'')]"

lemma sign_in_request_witness:
  "failures 7 ''ip:root'' (fst (snd (login_handler demo_login_env demo_login_body ''ip'' None (demo_login_site, ())))) = 1"
proof -
  let ?i = "\<lparr>li_username = ''root'', li_password = ''wrong horse'', li_mode = None\<rparr> :: login_input"
  have parse: "loginSchema demo_login_body = Some ?i"
    by (simp add: loginSchema_def demo_login_body_def z_string_in_def z_string_min_def z_opt_def)
  obtain r t w' where run: "login_handler demo_login_env demo_login_body ''ip'' None (demo_login_site, ()) = (r, (t, w'))"
    by (metis surj_pair)
  have key: "''ip:root'' = limiter_key ''ip'' (li_username ?i)" by code_simp
  have conf: "config_ok (cfg demo_login_site)" by (simp add: demo_login_site_def init_app_def default_config_ok)
  have free: "memoryLocks (redis_st demo_login_site) (toStorageKey (limiter_of (cfg demo_login_site)) ''ip:root'') = None"
    by (simp add: demo_login_site_def init_app_def empty_redis_def)
  have ids: "distinct (map u_id (users demo_login_site))" "new_id demo_login_site \<notin> u_id ` set (users demo_login_site)"
    by (simp_all add: demo_login_site_def init_app_def demo_super_def new_id_def unary_id_def)
  have fresh: "find (\<lambda>x. s_tokenHash x = hashToken (lg_crypto demo_login_env) (lg_token demo_login_env)) (sessions demo_login_site) = None"
    by (simp add: demo_login_site_def init_app_def)
  have none: "failures 7 ''ip:root'' demo_login_site = 0"
    by (simp add: failures_def live_count_def demo_login_site_def init_app_def empty_redis_def)
  have now: "lg_now demo_login_env = 7" "LOGIN_MAX_ATTEMPTS (cfg demo_login_site) = 8"
    by (simp_all add: demo_login_env_def demo_login_site_def init_app_def default_config_def)
  have "fst (login_handler demo_login_env demo_login_body ''ip'' None (demo_login_site, ())) = Inl bad_credentials" by code_simp
  then have "r = Inl bad_credentials" using run by simp
  with sign_in_request [OF parse run key conf free ids fresh] show ?thesis
    by (simp add: run now none bad_credentials_def)
qed

section \<open>A directory account takes over a local one\<close>

definition open_directory :: "unit directory" where
  "open_directory = \<lparr>ds_new = (\<lambda>_ _. ok ()), ds_bind = (\<lambda>_ _. ok ()),
     ds_search = (\<lambda>_ _ _. ok [JObj [(''dn'', JStr ''cn=root''), (''uid'', JStr ''root'')]]), ds_unbind = id\<rparr>"

definition demo_directory_site :: app where
  "demo_directory_site = demo_login_site\<lparr>ldap := Some demo_ldap, settings := [''auth_mode'' \<mapsto> JStr ''ldap'']\<rparr>"

text \<open>
  The upsert goes by the username alone. A directory user named like the only super administrator, a local
  account, signs in as that account, which becomes a directory account with the role of the directory groups: the
  system is left without a super administrator. A deactivated account is active again.
\<close>

lemma directory_takes_over:
  "has_super demo_directory_site
   \<and> \<not> has_super (fst (snd (login (demo_login_env\<lparr>lg_directory := open_directory\<rparr>) demo_credentials (demo_directory_site, ()))))"
  by code_simp

lemma directory_reactivates:
  "upsert_ldap_user now r s = (Inr u, t) \<Longrightarrow> u_isActive u"
  by (simp add: upsert_ldap_user_ok)

end
