(* ===== verification/Seed.thy ===== *)
theory Seed
  imports Login LdapSettings Connections
begin

text \<open>
  The script \<open>apps/api/src/bootstrap/seed.ts\<close> that prepares a database: roles, permissions, the default settings,
  a super administrator and the connection of the environment. \<open>sv_var\<close> is \<open>process.env\<close>, \<open>sv_hash\<close> the password
  hashing of \<open>argon2\<close>, \<open>sv_rnd\<close> the random bytes of the sealed secrets. Names, descriptions and the table of role
  permissions, which no code reads, are left out.
\<close>

record seed_env =
  sv_now :: int
  sv_var :: "string \<rightharpoonup> string"
  sv_hash :: "string \<Rightarrow> string"
  sv_crypto :: crypto
  sv_rnd :: "nat \<Rightarrow> string"

text \<open>\<open>upsert\<close> of every code: those present keep their place.\<close>

definition seed_roles :: "app \<Rightarrow> app" where
  "seed_roles s = s\<lparr>roles := roles s @ filter (\<lambda>r. r \<notin> set (roles s)) APP_ROLES\<rparr>"

definition seed_permissions :: "app \<Rightarrow> app" where
  "seed_permissions s = s\<lparr>permissions := permissions s @ filter (\<lambda>p. p \<notin> set (permissions s)) BUCKET_PERMISSIONS\<rparr>"

text \<open>The row of defaults that \<open>schema.prisma\<close> declares.\<close>

definition default_ldap :: ldap_row where
  "default_ldap = \<lparr>l_enabled = False, l_url = None, l_bindDn = None, l_bindPasswordEncrypted = None, l_searchBase = None,
     l_searchFilter = default_filter, l_usernameAttribute = ''uid'', l_emailAttribute = ''mail'',
     l_displayNameAttribute = ''cn'', l_groupAttribute = ''memberOf'', l_groupRoleMapping = [], l_tlsRejectUnauthorized = True\<rparr>"

definition seed_ldap :: "app \<Rightarrow> app" where
  "seed_ldap s = s\<lparr>ldap := first_some (ldap s) (Some default_ldap)\<rparr>"

definition seed_auth_mode :: "app \<Rightarrow> app" where
  "seed_auth_mode s = s\<lparr>settings := (settings s)(''auth_mode'' := first_some (settings s ''auth_mode'') (Some (JStr ''local'')))\<rparr>"

definition seed_username :: "seed_env \<Rightarrow> string" where
  "seed_username E = or_else (sv_var E ''DEFAULT_SUPER_ADMIN_USERNAME'') ''admin''"

definition seed_email :: "seed_env \<Rightarrow> string" where
  "seed_email E = or_else (sv_var E ''DEFAULT_SUPER_ADMIN_EMAIL'') ''admin@example.local''"

definition seed_password :: "seed_env \<Rightarrow> string" where
  "seed_password E = or_else (sv_var E ''DEFAULT_SUPER_ADMIN_PASSWORD'') ''change-me-now-please''"

definition bootstrap_admin :: "seed_env \<Rightarrow> string \<Rightarrow> user_row" where
  "bootstrap_admin E newId = \<lparr>u_id = newId, u_username = seed_username E, u_email = Some (seed_email E),
     u_displayName = Some ''Bootstrap Admin'', u_role = SUPER_ADMIN, u_source = LOCAL, u_isActive = True, u_createdAt = sv_now E\<rparr>"

definition promoted_admin :: "seed_env \<Rightarrow> user_row \<Rightarrow> user_row" where
  "promoted_admin E u = u\<lparr>u_email := Some (seed_email E), u_role := SUPER_ADMIN, u_isActive := True\<rparr>"

definition seed_admin :: "seed_env \<Rightarrow> (app, user_row) eff" where
  "seed_admin E = (\<lambda>s. case find_username (seed_username E) s of
     None \<Rightarrow> insert_user (bootstrap_admin E) s
   | Some u \<Rightarrow> if user_clash (Some (u_id u)) (promoted_admin E u) s then (Inl P2002, s)
       else (Inr (promoted_admin E u), s\<lparr>users := tb_update (\<lambda>v. u_username v = seed_username E) (promoted_admin E) (users s)\<rparr>))"

text \<open>The script's copies of \<open>normalizeKeyMaterial\<close> and \<open>encrypt\<close> are those of \<open>crypto.service.ts\<close>.\<close>

definition seed_key :: "seed_env \<Rightarrow> string" where
  "seed_key E = normalizeKeyMaterial (sv_crypto E) (or_else (sv_var E ''APP_ENCRYPTION_KEY'') ''development-key-do-not-use'')"

definition seed_encrypt :: "seed_env \<Rightarrow> nat \<Rightarrow> string \<Rightarrow> string" where
  "seed_encrypt E n plaintext = encrypt (sv_crypto E) (seed_key E) (sv_rnd E n) plaintext"

definition seed_conn_data :: "seed_env \<Rightarrow> nat \<Rightarrow> conn_row \<Rightarrow> conn_row" where
  "seed_conn_data E n c = c\<lparr>c_endpoint := or_else (sv_var E ''GARAGE_ENDPOINT'') [],
     c_region := or_else (sv_var E ''GARAGE_REGION'') ''garage'',
     c_forcePathStyle := (sv_var E ''GARAGE_FORCE_PATH_STYLE'' \<noteq> Some ''false''),
     c_accessKeyEncrypted := seed_encrypt E n (or_else (sv_var E ''GARAGE_ACCESS_KEY_ID'') []),
     c_secretKeyEncrypted := seed_encrypt E (n + 1) (or_else (sv_var E ''GARAGE_SECRET_ACCESS_KEY'') []),
     c_adminApiUrl := sv_var E ''GARAGE_ADMIN_API_URL'',
     c_adminTokenEncrypted := (if truthy (sv_var E ''GARAGE_ADMIN_TOKEN'')
        then Some (seed_encrypt E (n + 2) (or_else (sv_var E ''GARAGE_ADMIN_TOKEN'') [])) else None),
     c_isDefault := True, c_updatedAt := sv_now E\<rparr>"

text \<open>A row with the columns a creation leaves to their defaults.\<close>

definition blank_conn :: "seed_env \<Rightarrow> string \<Rightarrow> conn_row" where
  "blank_conn E newId = \<lparr>c_id = newId, c_name = ''env-default'', c_endpoint = [], c_region = [], c_forcePathStyle = True,
     c_accessKeyEncrypted = [], c_secretKeyEncrypted = [], c_adminApiUrl = None, c_adminTokenEncrypted = None,
     c_isDefault = False, c_healthStatus = None, c_createdAt = sv_now E, c_updatedAt = sv_now E\<rparr>"

definition upsert_env_conn :: "seed_env \<Rightarrow> app \<Rightarrow> app" where
  "upsert_env_conn E s = (if \<exists>c\<in>set (conns s). c_name c = ''env-default''
     then s\<lparr>conns := tb_update (\<lambda>c. c_name c = ''env-default'') (seed_conn_data E 3) (conns s)\<rparr>
     else bump_id (s\<lparr>conns := conns s @ [seed_conn_data E 0 (blank_conn E (new_id s))]\<rparr>))"

definition env_complete :: "seed_env \<Rightarrow> bool" where
  "env_complete E \<longleftrightarrow> truthy (sv_var E ''GARAGE_ENDPOINT'') \<and> truthy (sv_var E ''GARAGE_ACCESS_KEY_ID'')
     \<and> truthy (sv_var E ''GARAGE_SECRET_ACCESS_KEY'')"

definition seedEnvDefaultConnection :: "seed_env \<Rightarrow> app \<Rightarrow> app" where
  "seedEnvDefaultConnection E s =
     (if \<not> env_complete E then s else upsert_env_conn E (clear_default (sv_now E) (\<lambda>_. True) s))"

definition seed :: "seed_env \<Rightarrow> (app, unit) eff" where
  "seed E =
     seq_eff (modify (\<lambda>s. seed_auth_mode (seed_ldap (seed_permissions (seed_roles s)))))
     (bind_eff (reads (\<lambda>s. SUPER_ADMIN \<in> set (roles s))) (\<lambda>role.
     seq_eff (require role (PlainError ''SUPER_ADMIN role missing''))
     (bind_eff (seed_admin E) (\<lambda>user.
     seq_eff (modify (set_password (u_id user) (sv_hash E (seed_password E))))
     (modify (seedEnvDefaultConnection E))))))"

section \<open>A seeded database can be signed in to\<close>

lemma seed_roles_known: "set APP_ROLES \<subseteq> set (roles (seed_auth_mode (seed_ldap (seed_permissions (seed_roles s)))))"
  by (auto simp: seed_auth_mode_def seed_ldap_def seed_permissions_def seed_roles_def)

lemma seed_conn_frame [simp]:
  "users (seedEnvDefaultConnection E s) = users s" "localCreds (seedEnvDefaultConnection E s) = localCreds s"
  "settings (seedEnvDefaultConnection E s) = settings s" "roles (seedEnvDefaultConnection E s) = roles s"
  by (simp_all add: seedEnvDefaultConnection_def upsert_env_conn_def clear_default_def bump_id_def)

lemma seed_admin_ok:
  assumes "seed_admin E s = (Inr u, t)"
  shows "find_username (seed_username E) t = Some u \<and> u_isActive u \<and> u_role u = SUPER_ADMIN
    \<and> settings t = settings s"
proof (cases "find_username (seed_username E) s")
  case None
  then have "t = bump_id (s\<lparr>users := users s @ [bootstrap_admin E (new_id s)]\<rparr>)" "u = bootstrap_admin E (new_id s)"
    using assms by (auto simp: seed_admin_def insert_user_def Let_def split: if_splits)
  moreover have "find (\<lambda>v. u_username v = seed_username E) (users s @ [bootstrap_admin E (new_id s)]) = Some (bootstrap_admin E (new_id s))"
    using None by (intro find_append_new) (simp_all add: find_username_def bootstrap_admin_def)
  ultimately show ?thesis by (simp add: find_username_def bump_id_def bootstrap_admin_def)
next
  case (Some v)
  then have "find_username (seed_username E) (s\<lparr>users := tb_update (\<lambda>x. u_username x = seed_username E) (promoted_admin E) (users s)\<rparr>)
      = Some (promoted_admin E v)"
    using find_tb_update_key [of u_username "promoted_admin E" "seed_username E" "users s" v]
    by (simp add: find_username_def promoted_admin_def)
  then show ?thesis using assms Some
    by (auto simp: seed_admin_def promoted_admin_def split: if_splits)
qed

lemma decrypt_seeded:
  assumes "aead_ok (sv_crypto E)" and "sv_rnd E n \<noteq> []" and "p \<noteq> []"
  shows "decrypt (sv_crypto E) (seed_key E) (seed_encrypt E n p) = Inr p"
  using assms(3) unfolding seed_encrypt_def decrypt_encrypt [OF assms(1,2)] by simp

lemma env_conn_default:
  assumes "env_complete E"
  shows "\<exists>c n. find c_isDefault (conns (seedEnvDefaultConnection E s)) = Some (seed_conn_data E n c)"
proof -
  let ?s = "clear_default (sv_now E) (\<lambda>_. True) s"
  have none: "\<not> c_isDefault c" if "c \<in> set (conns ?s)" for c
    using that by (auto simp: clear_default_def tb_update_def)
  show ?thesis
  proof (cases "\<exists>c\<in>set (conns ?s). c_name c = ''env-default''")
    case True
    let ?cs = "tb_update (\<lambda>c. c_name c = ''env-default'') (seed_conn_data E 3) (conns ?s)"
    have t: "conns (seedEnvDefaultConnection E s) = ?cs"
      using assms True by (simp add: seedEnvDefaultConnection_def upsert_env_conn_def)
    obtain c where c: "c \<in> set (conns ?s)" "c_name c = ''env-default''" using True by blast
    then have "seed_conn_data E 3 c \<in> set ?cs" "c_isDefault (seed_conn_data E 3 c)"
      by (auto simp: set_tb_update seed_conn_data_def)
    then obtain d where d: "find c_isDefault ?cs = Some d" by (cases "find c_isDefault ?cs") (auto dest: find_NoneD)
    then have "d \<in> set ?cs" "c_isDefault d" using find_SomeD [OF d] by simp_all
    then show ?thesis using none d t by (auto simp: set_tb_update)
  next
    case False
    let ?row = "seed_conn_data E 0 (blank_conn E (new_id ?s))"
    have "conns (seedEnvDefaultConnection E s) = conns ?s @ [?row]"
      using assms False by (simp add: seedEnvDefaultConnection_def upsert_env_conn_def bump_id_def)
    moreover have "find c_isDefault (conns ?s @ [?row]) = Some ?row"
      by (rule find_append_new) (use none in \<open>auto simp: find_None_iff seed_conn_data_def\<close>)
    ultimately show ?thesis by metis
  qed
qed

text \<open>
  A database that the seed script has run on can be used at once. In every sign-in mode but that of the
  directory alone, the configured (or default) super administrator signs in with the configured password,
  whether or not the account existed or was deactivated before; the sign-in mode is the one stored before,
  else the local one. When the environment names a store, the default connection the API opens has the
  environment's endpoint and its two secrets, decrypted.
\<close>

theorem seeded_database_usable:
  assumes run: "seed E s = (Inr x, t)" and argon: "lg_verify L (sv_hash E (seed_password E)) (seed_password E) = Inr True"
    and input: "li_username i = seed_username E" "li_password i = seed_password E" "li_mode i \<noteq> Some By_ldap"
    and aead: "aead_ok (sv_crypto E)" and nonce: "\<And>n. sv_rnd E n \<noteq> []"
  shows "getAuthMode t = getAuthMode s
    \<and> (getAuthMode s \<noteq> AM_ldap \<longrightarrow> (\<exists>u. su_role u = SUPER_ADMIN \<and> su_username u = seed_username E
         \<and> login L i (t, w) = (Inr \<lparr>ar_user = u, ar_method = By_local, ar_mode = getAuthMode s\<rparr>, (t, w))))
    \<and> (env_complete E \<longrightarrow> (\<exists>c. find c_isDefault (conns t) = Some c
         \<and> c_endpoint c = or_else (sv_var E ''GARAGE_ENDPOINT'') []
         \<and> decrypt (sv_crypto E) (seed_key E) (c_accessKeyEncrypted c) = Inr (or_else (sv_var E ''GARAGE_ACCESS_KEY_ID'') [])
         \<and> decrypt (sv_crypto E) (seed_key E) (c_secretKeyEncrypted c) = Inr (or_else (sv_var E ''GARAGE_SECRET_ACCESS_KEY'') [])))"
proof -
  let ?s1 = "seed_auth_mode (seed_ldap (seed_permissions (seed_roles s)))"
  obtain u s2 where admin: "seed_admin E ?s1 = (Inr u, s2)"
    and t: "t = seedEnvDefaultConnection E (set_password (u_id u) (sv_hash E (seed_password E)) s2)"
    using run by (auto simp: seed_def eff_inv)
  note u = seed_admin_ok [OF admin]
  have mode: "getAuthMode t = getAuthMode s"
    using u by (cases "settings s ''auth_mode''")
      (simp_all add: t getAuthMode_def set_password_def seed_auth_mode_def seed_ldap_def seed_permissions_def seed_roles_def)
  have "find_username (seed_username E) t = Some u" using u by (simp add: t find_username_def set_password_def)
  then have local: "loginWithLocal L (li_username i) (li_password i) (t, w) = (Inr (user_of_row u), (t, w))"
    using u argon input by (simp add: loginWithLocal_def eff_simps t set_password_def)
  have "login L i (t, w) = (Inr \<lparr>ar_user = user_of_row u, ar_method = By_local, ar_mode = getAuthMode s\<rparr>, (t, w))"
    if "getAuthMode s \<noteq> AM_ldap"
    using that input(3) local mode by (cases "getAuthMode s"; cases "li_mode i"; cases "the (li_mode i)")
      (auto simp: login_def by_local_def eff_simps)
  moreover have "su_role (user_of_row u) = SUPER_ADMIN" "su_username (user_of_row u) = seed_username E"
    using u find_SomeD [of _ "users s2" u] by (auto simp: user_of_row_def find_username_def dest: find_SomeD)
  moreover have "\<exists>c. find c_isDefault (conns t) = Some c \<and> c_endpoint c = or_else (sv_var E ''GARAGE_ENDPOINT'') []
      \<and> decrypt (sv_crypto E) (seed_key E) (c_accessKeyEncrypted c) = Inr (or_else (sv_var E ''GARAGE_ACCESS_KEY_ID'') [])
      \<and> decrypt (sv_crypto E) (seed_key E) (c_secretKeyEncrypted c) = Inr (or_else (sv_var E ''GARAGE_SECRET_ACCESS_KEY'') [])"
    if env: "env_complete E"
  proof -
    obtain c n where c: "find c_isDefault (conns t) = Some (seed_conn_data E n c)"
      using env_conn_default [OF env] t by blast
    have "or_else (sv_var E ''GARAGE_ACCESS_KEY_ID'') [] \<noteq> []" "or_else (sv_var E ''GARAGE_SECRET_ACCESS_KEY'') [] \<noteq> []"
      using env by (auto simp: env_complete_def truthy_def split: option.splits)
    then show ?thesis using c decrypt_seeded [OF aead nonce] by (simp add: seed_conn_data_def)
  qed
  ultimately show ?thesis using mode by blast
qed

text \<open>A store in the environment, the default account, a hash that keeps the text.\<close>

definition demo_seed :: seed_env where
  "demo_seed = \<lparr>sv_now = 1, sv_var = [''GARAGE_ENDPOINT'' \<mapsto> ''http://s3'', ''GARAGE_ACCESS_KEY_ID'' \<mapsto> ''ak'',
     ''GARAGE_SECRET_ACCESS_KEY'' \<mapsto> ''sk''], sv_hash = id, sv_crypto = plain_crypto, sv_rnd = (\<lambda>_. ''nonce'')\<rparr>"

definition demo_seed_login :: "unit login_env" where
  "demo_seed_login = \<lparr>lg_now = 1, lg_crypto = plain_crypto, lg_key = ''k'', lg_verify = (\<lambda>h p. Inr (h = p)),
     lg_directory = \<lparr>ds_new = (\<lambda>_ _. ok ()), ds_bind = (\<lambda>_ _. ok ()), ds_search = (\<lambda>_ _ _. ok []), ds_unbind = id\<rparr>,
     lg_num = (\<lambda>_. []), lg_token = ''tk'', lg_csrf = ''cs'', lg_cookieName = ''sid'', lg_production = False,
     lg_zod_message = (\<lambda>_. [])\<rparr>"

definition demo_seed_input :: login_input where
  "demo_seed_input = \<lparr>li_username = ''admin'', li_password = ''change-me-now-please'', li_mode = None\<rparr>"

lemma seeded_database_usable_witness:
  "\<exists>u t c. su_role u = SUPER_ADMIN \<and> seed demo_seed init_app = (Inr (), t)
    \<and> fst (login demo_seed_login demo_seed_input (t, ())) = Inr \<lparr>ar_user = u, ar_method = By_local, ar_mode = AM_local\<rparr>
    \<and> find c_isDefault (conns t) = Some c
    \<and> decrypt plain_crypto (seed_key demo_seed) (c_secretKeyEncrypted c) = Inr ''sk''"
proof -
  have finished: "fst (seed demo_seed init_app) = Inr ()" by code_simp
  obtain t where run: "seed demo_seed init_app = (Inr (), t)" using finished by (metis prod.collapse)
  have env: "env_complete demo_seed" "getAuthMode init_app = AM_local" by code_simp+
  have verify: "lg_verify demo_seed_login (sv_hash demo_seed (seed_password demo_seed)) (seed_password demo_seed) = Inr True"
    and input: "li_username demo_seed_input = seed_username demo_seed" "li_password demo_seed_input = seed_password demo_seed"
      "li_mode demo_seed_input \<noteq> Some By_ldap"
    and parts: "sv_crypto demo_seed = plain_crypto" "or_else (sv_var demo_seed ''GARAGE_SECRET_ACCESS_KEY'') [] = ''sk''"
      "\<And>n. sv_rnd demo_seed n \<noteq> []"
    by (simp_all add: demo_seed_login_def demo_seed_def demo_seed_input_def seed_username_def seed_password_def)
  have aead: "aead_ok (sv_crypto demo_seed)" unfolding parts(1) by (rule plain_crypto_ok)
  from seeded_database_usable [where w = "()", OF run verify input aead parts(3)] env run parts
  show ?thesis by auto
qed

end
