(* ===== verification/Site.thy ===== *)
theory Site
  imports Routes LoginProps BucketAdminProps Seed
begin

text \<open>
  The requests of \<open>apps/api/src/\<close> that write accounts, sessions, grants, scopes, connections or settings, as the
  steps of one system over the database and the directory server, and the integrity of the database in every
  state it can reach, whichever requests interleave.
\<close>

section \<open>Integrity\<close>

definition user_ids :: "app \<Rightarrow> string set" where
  "user_ids s = u_id ` set (users s)"

definition bucket_ids :: "app \<Rightarrow> string set" where
  "bucket_ids s = b_id ` set (buckets s)"

text \<open>The identifiers the generator has given.\<close>

definition given :: "app \<Rightarrow> string set" where
  "given s = cuid s ` {..<cuid_n s}"

definition shares :: "user_row \<Rightarrow> user_row \<Rightarrow> bool" where
  "shares u v \<longleftrightarrow> u_username v = u_username u \<or> u_email u \<noteq> None \<and> u_email v = u_email u"

definition users_ok :: "app_role set \<Rightarrow> user_row list \<Rightarrow> bool" where
  "users_ok R us \<longleftrightarrow> distinct (map u_id us) \<and> (\<forall>u\<in>set us. u_role u \<in> R)
     \<and> (\<forall>u\<in>set us. \<forall>v\<in>set us. shares u v \<longrightarrow> u_id v = u_id u)"

definition links_ok :: "string set \<Rightarrow> string set \<Rightarrow> string set \<Rightarrow> grant_row list \<Rightarrow> scope_row list \<Rightarrow> string set \<Rightarrow> bool" where
  "links_ok U B creds gs xs owners \<longleftrightarrow> creds \<subseteq> U \<and> owners \<subseteq> U
     \<and> (\<forall>g\<in>set gs. g_userId g \<in> U \<and> g_bucketId g \<in> B)
     \<and> (\<forall>x\<in>set xs. sc_adminUserId x \<in> U \<and> sc_bucketId x \<in> B)"

definition buckets_ok :: "bucket_row list \<Rightarrow> bool" where
  "buckets_ok bs \<longleftrightarrow> distinct (map b_id bs) \<and> distinct (map b_name bs)"

definition db_ok :: "app \<Rightarrow> bool" where
  "db_ok s \<longleftrightarrow> inj (cuid s) \<and> user_ids s \<union> bucket_ids s \<union> s_id ` set (sessions s) \<subseteq> given s
     \<and> users_ok (set (roles s)) (users s) \<and> buckets_ok (buckets s) \<and> distinct (map s_id (sessions s))
     \<and> links_ok (user_ids s) (bucket_ids s) (dom (localCreds s)) (grants s) (scopes s) (s_userId ` set (sessions s))
     \<and> distinct (permissions s) \<and> distinct (grants s) \<and> distinct (scopes s)"

text \<open>Two states that integrity cannot tell apart; the generator's counter may only grow.\<close>

definition same_db :: "app \<Rightarrow> app \<Rightarrow> bool" where
  "same_db s t \<longleftrightarrow> cuid t = cuid s \<and> cuid_n s \<le> cuid_n t \<and> roles t = roles s \<and> permissions t = permissions s
     \<and> users t = users s \<and> localCreds t = localCreds s \<and> buckets t = buckets s \<and> grants t = grants s
     \<and> scopes t = scopes s \<and> map s_id (sessions t) = map s_id (sessions s) \<and> map s_userId (sessions t) = map s_userId (sessions s)"

lemma given_mono: "cuid t = cuid s \<Longrightarrow> cuid_n s \<le> cuid_n t \<Longrightarrow> given s \<subseteq> given t"
  by (auto simp: given_def)

lemma given_bump [simp]: "given (bump_id s) = insert (new_id s) (given s)"
  by (auto simp: given_def bump_id_def new_id_def less_Suc_eq)

lemma new_id_not_given: "inj (cuid s) \<Longrightarrow> new_id s \<notin> given s"
  by (auto simp: given_def new_id_def inj_eq)

lemma same_db_ok:
  assumes "same_db s t" and "db_ok s"
  shows "db_ok t"
proof -
  have f: "cuid t = cuid s" "roles t = roles s" "permissions t = permissions s" "users t = users s"
    "localCreds t = localCreds s" "buckets t = buckets s" "grants t = grants s" "scopes t = scopes s"
    and sess: "map s_id (sessions t) = map s_id (sessions s)" "map s_userId (sessions t) = map s_userId (sessions s)"
    and n: "cuid_n s \<le> cuid_n t"
    using assms(1) by (simp_all add: same_db_def)
  have ids: "user_ids t = user_ids s" "bucket_ids t = bucket_ids s"
    "s_id ` set (sessions t) = s_id ` set (sessions s)" "s_userId ` set (sessions t) = s_userId ` set (sessions s)"
    using arg_cong [OF sess(1), of set] arg_cong [OF sess(2), of set] by (simp_all add: user_ids_def bucket_ids_def f)
  have "given s \<subseteq> given t" by (rule given_mono [OF f(1) n])
  then have sub: "X \<subseteq> given s \<Longrightarrow> X \<subseteq> given t" for X by (rule subset_trans [rotated])
  from assms(2) show ?thesis
    unfolding db_ok_def f ids sess(1) by (elim conjE) (intro conjI sub; assumption)
qed

lemma same_db_refl [simp]: "same_db s s"
  by (simp add: same_db_def)

lemma same_db_trans: "same_db s t \<Longrightarrow> same_db t u \<Longrightarrow> same_db s u"
  by (simp add: same_db_def)

lemma same_db_audit [simp]: "same_db s (audit_record n a x k i m ip s)"
  by (simp add: same_db_def)

section \<open>The writes\<close>

lemma users_ok_add:
  assumes "users_ok R us" and "u_id u \<notin> u_id ` set us" and "u_role u \<in> R" and "\<And>v. v \<in> set us \<Longrightarrow> \<not> shares u v"
  shows "users_ok R (us @ [u])"
proof -
  have "\<not> shares v u" if "v \<in> set us" for v using assms(4) [OF that] by (auto simp: shares_def)
  then show ?thesis using assms by (simp add: users_ok_def ball_Un)
qed

lemma users_ok_update:
  assumes ok: "users_ok R us" and u: "u \<in> set us" "u_id (f u) = u_id u" "u_role (f u) \<in> R"
    and only: "\<And>v. v \<in> set us \<Longrightarrow> P v \<longleftrightarrow> v = u"
    and clash: "\<And>v. v \<in> set us \<Longrightarrow> u_id v \<noteq> u_id u \<Longrightarrow> \<not> shares (f u) v"
  shows "users_ok R (tb_update P f us)" and "map u_id (tb_update P f us) = map u_id us"
proof -
  show ids: "map u_id (tb_update P f us) = map u_id us"
    by (rule tb_update_map) (use only u(2) in auto)
  have set_t: "set (tb_update P f us) = insert (f u) (set us - {u})"
    unfolding set_tb_update using u(1) only by auto
  have other: "\<not> shares (f u) v \<and> \<not> shares v (f u)" if "v \<in> set us - {u}" for v
  proof -
    have "inj_on u_id (set us)" using ok by (simp add: users_ok_def distinct_map)
    then have "u_id v \<noteq> u_id u" using that u(1) by (auto dest: inj_onD)
    then show ?thesis using clash [of v] that by (auto simp: shares_def)
  qed
  have "\<forall>x\<in>set (tb_update P f us). \<forall>y\<in>set (tb_update P f us). shares x y \<longrightarrow> u_id y = u_id x"
    unfolding set_t using other ok by (auto simp: users_ok_def)
  moreover have "\<forall>x\<in>set (tb_update P f us). u_role x \<in> R"
    unfolding set_t using ok u(3) by (auto simp: users_ok_def)
  moreover have "distinct (map u_id (tb_update P f us))"
    using ok unfolding ids by (simp add: users_ok_def)
  ultimately show "users_ok R (tb_update P f us)" by (simp add: users_ok_def)
qed

lemma user_clash_shares: "user_clash own u s \<longleftrightarrow> (\<exists>v\<in>set (users s). Some (u_id v) \<noteq> own \<and> shares u v)"
  by (simp add: user_clash_def shares_def list_ex_iff)

lemma add_user_ok:
  assumes ok: "db_ok s" and u: "u_id u = new_id s" "u_role u \<in> set (roles s)" and clash: "\<not> user_clash None u s"
  shows "db_ok (bump_id (s\<lparr>users := users s @ [u]\<rparr>))" (is "db_ok ?t")
proof -
  have g: "given ?t = insert (new_id s) (given s)"
    unfolding given_bump by (simp add: given_def new_id_def)
  have f: "user_ids ?t = insert (new_id s) (user_ids s)" "bucket_ids ?t = bucket_ids s" "sessions ?t = sessions s"
    "localCreds ?t = localCreds s" "grants ?t = grants s" "scopes ?t = scopes s" "cuid ?t = cuid s" "roles ?t = roles s"
    "permissions ?t = permissions s" "buckets ?t = buckets s" "users ?t = users s @ [u]"
    using u(1) by (simp_all add: user_ids_def bucket_ids_def bump_id_def)
  have "u_id u \<notin> u_id ` set (users s)"
    using ok new_id_not_given [of s] u(1) by (auto simp: db_ok_def user_ids_def)
  then have "users_ok (set (roles s)) (users s @ [u])"
    using ok u(2) clash by (intro users_ok_add) (auto simp: db_ok_def user_clash_shares)
  then show ?thesis using ok unfolding db_ok_def f g links_ok_def by (elim conjE) (intro conjI; blast)
qed

lemma set_password_ok: "db_ok s \<Longrightarrow> i \<in> user_ids s \<Longrightarrow> db_ok (set_password i h s)"
  unfolding db_ok_def links_ok_def by (elim conjE) (simp add: set_password_def user_ids_def bucket_ids_def given_def)

lemma update_user_ok:
  assumes ok: "db_ok s" and u: "u \<in> set (users s)" "u_id (f u) = u_id u" "u_role (f u) \<in> set (roles s)"
    and only: "\<And>v. v \<in> set (users s) \<Longrightarrow> P v \<longleftrightarrow> v = u" and clash: "\<not> user_clash (Some (u_id u)) (f u) s"
  shows "db_ok (s\<lparr>users := tb_update P f (users s)\<rparr>)" (is "db_ok ?t")
proof -
  have "\<not> shares (f u) v" if "v \<in> set (users s)" "u_id v \<noteq> u_id u" for v
    using clash that by (auto simp: user_clash_shares)
  note upd = users_ok_update [where f = f and P = P, OF _ u only this]
  have us: "users_ok (set (roles s)) (users s)" using ok by (simp add: db_ok_def)
  have "user_ids ?t = user_ids s"
    using arg_cong [OF upd(2) [OF us], of set] by (simp add: user_ids_def)
  then show ?thesis using ok upd(1) [OF us]
    unfolding db_ok_def by (elim conjE) (simp add: bucket_ids_def given_def)
qed

lemma grants_ok:
  assumes ok: "db_ok s" and "distinct gs" and "\<And>g. g \<in> set gs \<Longrightarrow> g_userId g \<in> user_ids s \<and> g_bucketId g \<in> bucket_ids s"
  shows "db_ok (s\<lparr>grants := gs\<rparr>)"
  using assms unfolding db_ok_def links_ok_def
  by (elim conjE) (simp add: user_ids_def bucket_ids_def given_def)

lemma replace_grants_ok:
  assumes ok: "db_ok s" and "i \<in> user_ids s" and "b \<in> bucket_ids s" and "distinct ps"
  shows "db_ok (replace_grants i b ps s)"
  unfolding replace_grants_def
proof (rule grants_ok [OF ok])
  let ?new = "map (\<lambda>p. \<lparr>g_userId = i, g_bucketId = b, g_permission = p\<rparr>) ps"
  let ?old = "tb_delete (\<lambda>g. g_userId g = i \<and> g_bucketId g = b) (grants s)"
  have "distinct ?new" using assms(4) by (simp add: distinct_map inj_on_def)
  moreover have "distinct ?old" using ok by (simp add: db_ok_def tb_delete_def)
  moreover have "set ?old \<inter> set ?new = {}" by (auto simp: tb_delete_def)
  ultimately show "distinct (?old @ ?new)" by simp
  show "g_userId g \<in> user_ids s \<and> g_bucketId g \<in> bucket_ids s" if "g \<in> set (?old @ ?new)" for g
    using that ok assms(2,3) by (auto simp: db_ok_def links_ok_def tb_delete_def)
qed

lemma scopes_ok:
  assumes ok: "db_ok s" and "distinct xs" and "\<And>x. x \<in> set xs \<Longrightarrow> sc_adminUserId x \<in> user_ids s \<and> sc_bucketId x \<in> bucket_ids s"
  shows "db_ok (s\<lparr>scopes := xs\<rparr>)"
  using assms unfolding db_ok_def links_ok_def
  by (elim conjE) (simp add: user_ids_def bucket_ids_def given_def)

lemma drop_scopes_ok: "db_ok s \<Longrightarrow> db_ok (s\<lparr>scopes := tb_delete P (scopes s)\<rparr>)"
  by (rule scopes_ok) (auto simp: db_ok_def links_ok_def tb_delete_def)

lemma insert_scopes_ok:
  assumes ok: "db_ok s" and i: "i \<in> user_ids s"
  shows "db_ok (snd (insert_scopes i ids s))"
proof -
  let ?new = "map (\<lambda>b. \<lparr>sc_adminUserId = i, sc_bucketId = b\<rparr>) ids"
  have "db_ok (s\<lparr>scopes := scopes s @ ?new\<rparr>)"
    if "distinct ids" "\<not> list_ex (has_scope s i) ids" "\<not> list_ex (\<lambda>i. find (\<lambda>b. b_id b = i) (buckets s) = None) ids"
  proof (rule scopes_ok [OF ok])
    have "distinct ?new" using that(1) by (simp add: distinct_map inj_on_def)
    moreover have "set (scopes s) \<inter> set ?new = {}" using that(2) by (fastforce simp: list_ex_iff has_scope_def)
    ultimately show "distinct (scopes s @ ?new)" using ok by (simp add: db_ok_def)
    have "b \<in> bucket_ids s" if "b \<in> set ids" for b
      using \<open>\<not> list_ex (\<lambda>i. find (\<lambda>b. b_id b = i) (buckets s) = None) ids\<close> that
      by (auto simp: list_ex_iff find_None_iff bucket_ids_def)
    then show "sc_adminUserId x \<in> user_ids s \<and> sc_bucketId x \<in> bucket_ids s" if "x \<in> set (scopes s @ ?new)" for x
      using that ok i by (auto simp: db_ok_def links_ok_def)
  qed
  then show ?thesis using ok by (simp add: insert_scopes_def)
qed

lemma create_session_ok:
  assumes ok: "db_ok s" and i: "i \<in> user_ids s"
  shows "db_ok (snd (createSession cr now token csrf i ip agent s))" (is "db_ok ?t")
proof -
  have g: "given ?t = insert (new_id s) (given s)"
    by (simp add: createSession_def) (simp add: given_def new_id_def)
  obtain x where x: "sessions ?t = sessions s @ [x]" "s_id x = new_id s" "s_userId x = i"
    by (simp add: createSession_def bump_id_def)
  have "new_id s \<notin> s_id ` set (sessions s)"
    using ok new_id_not_given [of s] by (auto simp: db_ok_def)
  moreover have f: "user_ids ?t = user_ids s" "bucket_ids ?t = bucket_ids s" "localCreds ?t = localCreds s"
    "grants ?t = grants s" "scopes ?t = scopes s" "cuid ?t = cuid s" "roles ?t = roles s"
    "permissions ?t = permissions s" "buckets ?t = buckets s" "users ?t = users s"
    by (simp_all add: createSession_def bump_id_def user_ids_def bucket_ids_def)
  ultimately show ?thesis
    using ok i unfolding db_ok_def links_ok_def f g x(1) by (elim conjE) (simp add: x(2,3), blast)
qed

lemma session_update_same:
  "(\<And>x. s_id (f x) = s_id x \<and> s_userId (f x) = s_userId x) \<Longrightarrow> same_db s (s\<lparr>sessions := tb_update P f (sessions s)\<rparr>)"
  by (simp add: same_db_def tb_update_map)

section \<open>The operations\<close>

lemma preserves_bind_post:
  "preserves P m \<Longrightarrow> (\<And>x s t. P t \<Longrightarrow> m s = (Inr x, t) \<Longrightarrow> P (snd (f x t))) \<Longrightarrow> preserves P (bind_eff m f)"
  by (force simp: preserves_def eff_simps split: prod.splits sum.splits)

lemma preserves_same: "(\<And>s. same_db s (f s)) \<Longrightarrow> preserves db_ok (modify f)"
  by (rule preserves_modify) (rule same_db_ok)

lemma audit_ok [intro]: "db_ok s \<Longrightarrow> db_ok (audit_record n a x k i m ip s)"
  by (rule same_db_ok [OF same_db_audit])

lemma found_user_id: "find_user i s = Some u \<Longrightarrow> i \<in> user_ids s"
  by (drule find_user_id) (auto simp: user_ids_def)

lemma preserves_createLocal: "preserves db_ok (createLocal E i actor ip)"
proof
  fix s assume ok: "db_ok s"
  let ?u = "created_user (ae_now E) i (new_id s)"
  let ?t = "bump_id (s\<lparr>users := users s @ [?u]\<rparr>)"
  show "db_ok (snd (createLocal E i actor ip s))"
  proof (cases "su_role actor = SUPER_ADMIN \<and> cu_role i \<in> set (roles s) \<and> \<not> user_clash None ?u s")
    case True
    then have "db_ok ?t" by (intro add_user_ok [OF ok]) (simp_all add: created_user_def)
    moreover have "u_id ?u \<in> user_ids ?t" by (simp add: user_ids_def bump_id_def)
    ultimately have "db_ok (set_password (u_id ?u) (ae_hash E (cu_password i)) ?t)" by (rule set_password_ok)
    then show ?thesis using True by (auto simp: createLocal_def insert_user_def eff_simps Let_def)
  next
    case False
    then show ?thesis using ok by (auto simp: createLocal_def insert_user_def eff_simps Let_def)
  qed
qed

lemma audit_update_ok: "db_ok s \<Longrightarrow> db_ok (audit_user_update n a i u p ip s)"
  by (auto simp: audit_user_update_def user_audit_def Let_def)

lemma preserves_updateUser: "preserves db_ok (updateUser E actor i inp ip)"
proof
  fix s assume ok: "db_ok s"
  show "db_ok (snd (updateUser E actor i inp ip s))"
  proof (cases rule: updateUser_cases [of E actor i inp ip s])
    case (1 e)
    then show ?thesis using ok by simp
  next
    case (2 u h)
    have u: "u_id u = i" "u \<in> set (users s)" using find_user_id [OF 2(1)] by simp_all
    have us: "users_ok (set (roles s)) (users s)" using ok by (simp add: db_ok_def)
    have only: "u_id v = i \<longleftrightarrow> v = u" if "v \<in> set (users s)" for v
      using us that u by (auto simp: users_ok_def distinct_map dest: inj_onD)
    have role: "u_role (patched_user inp u) \<in> set (roles s)"
      using us u(2) 2(8) by (cases "uu_role inp") (auto simp: patched_user_def users_ok_def)
    let ?t = "s\<lparr>users := tb_update (\<lambda>u. u_id u = i) (patched_user inp) (users s)\<rparr>"
    have t: "db_ok ?t" by (rule update_user_ok [where f = "patched_user inp", OF ok u(2) _ role]) (use only 2(7) u(1) in simp_all)
    have "map u_id (users ?t) = map u_id (users s)" by (simp add: tb_update_map)
    then have "i \<in> user_ids ?t" using u unfolding user_ids_def by (metis image_eqI list.set_map)
    then show ?thesis unfolding 2(6) Let_def by (auto intro!: audit_update_ok set_password_ok t)
  qed
qed

lemma preserves_set_grants: "preserves db_ok (setUserBucketPermissions E a i b ps ip)"
proof
  fix s assume ok: "db_ok s"
  have "db_ok (replace_grants i b (filter P (permissions s)) s)"
    if "find (\<lambda>b'. b_id b' = b) (buckets s) = Some c" "find_user i s = Some u" for P c u
  proof (rule replace_grants_ok [OF ok found_user_id [OF that(2)]])
    show "b \<in> bucket_ids s" using find_SomeD [OF that(1)] by (auto simp: bucket_ids_def)
    show "distinct (filter P (permissions s))" using ok by (simp add: db_ok_def)
  qed
  then show "db_ok (snd (setUserBucketPermissions E a i b ps ip s))"
    using ok by (auto simp: setUserBucketPermissions_def getBucketGrants_def manage_bucket eff_simps split: option.split)
qed

lemma preserves_set_scopes: "preserves db_ok (setAdminScopes E a i ids ip)"
proof -
  have ins: "preserves (\<lambda>s. db_ok s \<and> i \<in> user_ids s) (insert_scopes i ids)"
    by (rule preservesI) (auto simp: insert_scopes_ok, simp add: insert_scopes_def user_ids_def)
  have drop: "preserves (\<lambda>s. db_ok s \<and> i \<in> user_ids s) (modify (\<lambda>s. s\<lparr>scopes := tb_delete (\<lambda>x. sc_adminUserId x = i) (scopes s)\<rparr>))"
    by (rule preserves_modify) (auto simp: drop_scopes_ok, simp add: user_ids_def)
  have log: "preserves (\<lambda>s. db_ok s \<and> i \<in> user_ids s) (modify (audit_record n x y z k m ip))" for n x y z k m
    by (rule preserves_modify) (auto simp: user_ids_def)
  let ?rest = "seq_eff (modify (\<lambda>s. s\<lparr>scopes := tb_delete (\<lambda>x. sc_adminUserId x = i) (scopes s)\<rparr>))
     (seq_eff (if ids = [] then ok () else insert_scopes i ids)
     (seq_eff (modify (audit_record (ae_now E) (Some a) ''admin.scope.update'' ''user'' (Some i)
        (JObj [(''bucketIds'', JArr (map JStr ids))]) ip))
     (getAdminScopes (ae_collate E) a i)))"
  have rest: "preserves (\<lambda>s. db_ok s \<and> i \<in> user_ids s) ?rest"
    unfolding getAdminScopes_def by (intro preserves_intros ins drop log)
  show ?thesis
  proof
    fix s assume ok: "db_ok s"
    show "db_ok (snd (setAdminScopes E a i ids ip s))"
    proof (cases "su_role a = SUPER_ADMIN \<and> map_option u_role (find_user i s) = Some ADMIN")
      case True
      then obtain u where u: "find_user i s = Some u" "u_role u = ADMIN" by auto
      then have "setAdminScopes E a i ids ip s = ?rest s"
        using True by (simp add: setAdminScopes_def eff_simps)
      then show ?thesis using preservesD [OF rest, of s] ok found_user_id [OF u(1)] by simp
    next
      case False
      then show ?thesis using ok by (cases "find_user i s") (auto simp: setAdminScopes_def eff_simps)
    qed
  qed
qed

section \<open>Signing in\<close>

lemma upsert_username_ok:
  assumes ok: "db_ok s" and row: "\<And>i. u_id (row i) = i \<and> u_role (row i) \<in> set (roles s)"
    and f: "\<And>u. u_id (f u) = u_id u \<and> u_role (f u) \<in> set (roles s)"
  shows "db_ok (snd (case find_username n s of None \<Rightarrow> insert_user row s
    | Some u \<Rightarrow> if user_clash (Some (u_id u)) (f u) s then (Inl e, s)
        else (Inr (f u), s\<lparr>users := tb_update (\<lambda>v. u_username v = n) f (users s)\<rparr>)))"
proof (cases "find_username n s")
  case None
  have "db_ok (bump_id (s\<lparr>users := users s @ [row (new_id s)]\<rparr>))" if "\<not> user_clash None (row (new_id s)) s"
    by (rule add_user_ok [OF ok _ _ that]) (simp_all add: row)
  then show ?thesis using None ok by (simp add: insert_user_def Let_def)
next
  case (Some u)
  have u: "u \<in> set (users s)" "u_username u = n" using find_SomeD [OF Some [unfolded find_username_def]] by simp_all
  have only: "u_username v = n \<longleftrightarrow> v = u" if "v \<in> set (users s)" for v
  proof
    assume "u_username v = n"
    then have "shares u v" using u(2) by (simp add: shares_def)
    then have "u_id v = u_id u" using ok u(1) that by (simp add: db_ok_def users_ok_def)
    then show "v = u" using ok u(1) that by (auto simp: db_ok_def users_ok_def distinct_map dest: inj_onD)
  qed (simp add: u(2))
  have "db_ok (s\<lparr>users := tb_update (\<lambda>v. u_username v = n) f (users s)\<rparr>)" if "\<not> user_clash (Some (u_id u)) (f u) s"
    by (rule update_user_ok [where f = f, OF ok u(1) _ _ only that]) (simp_all add: f)
  then show ?thesis using Some ok by simp
qed

lemma preserves_upsert_ldap:
  "db_ok s \<Longrightarrow> ld_role r \<in> set (roles s) \<Longrightarrow> db_ok (snd (upsert_ldap_user now r s))"
  unfolding upsert_ldap_user_def by (rule upsert_username_ok) (simp_all add: ldap_user_def refreshed_user_def)

abbreviation site_ok :: "app \<times> 'w \<Rightarrow> bool" where
  "site_ok sw \<equiv> db_ok (fst sw)"

lemma metric_same [simp]: "same_db s (add_metric m s)"
  by (simp add: same_db_def add_metric_def)

lemma site_leaving: "preserves site_ok m \<Longrightarrow> preserves site_ok (leaving d m)"
  unfolding preserves_def leaving_def by (auto split: prod.split) (metis fst_conv snd_conv)

lemma site_metric: "preserves site_ok (on_fst (modify (recordLdapFailure x)))"
  unfolding recordLdapFailure_def by (intro preserves_on_fst preserves_same) simp

lemma preserves_authenticate: "preserves site_ok (authenticate E n p)"
  unfolding authenticate_def directory_login_def bind_service_account_def
  by (intro preserves_intros site_leaving site_metric)

lemma site_role_upsert: "preserves site_ok (bind_eff (reads (\<lambda>sw. ld_role r \<in> set (roles (fst sw)))) (\<lambda>role.
     seq_eff (require role e) (bind_eff (on_fst (upsert_ldap_user now r)) (\<lambda>user. ok (user_of_row user)))))"
proof
  fix sw :: "app \<times> 'w" assume ok: "db_ok (fst sw)"
  obtain q t where run: "upsert_ldap_user now r (fst sw) = (q, t)" by fastforce
  have "db_ok t" if "ld_role r \<in> set (roles (fst sw))"
    using preserves_upsert_ldap [OF ok that, of now] run by simp
  then show "db_ok (fst (snd (bind_eff (reads (\<lambda>sw. ld_role r \<in> set (roles (fst sw)))) (\<lambda>role.
     seq_eff (require role e) (bind_eff (on_fst (upsert_ldap_user now r)) (\<lambda>user. ok (user_of_row user)))) sw)))"
    using ok run by (cases sw; cases q) (simp_all add: eff_simps on_fst_def)
qed

lemma preserves_by_ldap: "preserves site_ok (by_ldap E i m)"
  unfolding by_ldap_def loginWithLdap_def by (intro preserves_bind preserves_authenticate site_role_upsert preserves_pure)

lemma preserves_login: "preserves site_ok (login E i)"
proof -
  have "preserves site_ok (by_local E i m)" for m
    using by_local_state [of E i m] by (simp add: preserves_def)
  then show ?thesis using preserves_by_ldap [of E i]
    unfolding login_def by (intro preserves_intros) (auto split: auth_mode.split option.split auth_method.split intro!: preserves_intros)
qed

lemma username_id: "find_username n t = Some u \<Longrightarrow> u_id u \<in> user_ids t"
  unfolding find_username_def by (drule find_SomeD) (simp add: user_ids_def)

lemma login_user_id:
  assumes "login E i (s, w) = (Inr a, (t, w'))"
  shows "su_id (ar_user a) \<in> user_ids t"
  using assms
proof (cases rule: login_cases)
  case l
  then show ?thesis using by_local_ok [OF l(3)] username_id by (auto simp: user_of_row_def)
next
  case d
  then show ?thesis using by_ldap_ok [OF d(3)] username_id by (auto simp: user_of_row_def)
qed

lemma same_redis [simp]: "same_db s (s\<lparr>redis_st := r\<rparr>)"
  by (simp add: same_db_def)

lemma preserves_check_limiter: "preserves db_ok (check_limiter now key)"
  by (rule preservesI) (simp add: check_limiter_state same_db_ok [OF same_redis])

lemma site_login_failed: "preserves site_ok (on_fst (modify (login_failed E i ip key e)))"
  by (intro preserves_on_fst preserves_same) (simp add: login_failed_def same_db_def add_metric_def register_failure_def)

lemma preserves_signed_in: "preserves site_ok (signed_in E i ip agent key)"
  unfolding signed_in_def
proof (rule preserves_bind_post [OF preserves_login])
  fix a and sw t :: "app \<times> 'a"
  assume ok: "db_ok (fst t)" and run: "login E i sw = (Inr a, t)"
  let ?rest = "\<lambda>(token, csrfToken).
     seq_eff (on_fst (modify (clear_limiter key)))
     (bind_eff (reads (\<lambda>sw. \<lparr>ck_name = lg_cookieName E, ck_value = token, ck_secure = lg_production E,
          ck_maxAge = SESSION_TTL_HOURS (cfg (fst sw)) * 60 * 60 * 1000\<rparr>)) (\<lambda>cookie.
     seq_eff (on_fst (modify (audit_record (lg_now E) (Some (ar_user a))
        (''auth.login.success.'' @ method_str (ar_method a)) ''user'' (Some (su_id (ar_user a)))
        (JObj [(''username'', JStr (su_username (ar_user a))), (''authMode'', JStr (auth_mode_str (ar_mode a))),
               (''requestedMode'', requested_mode i)]) (Some ip))))
     (seq_eff (on_fst (modify (add_metric (MLogin True (metric_method (Some (ar_method a)))))))
     (ok \<lparr>lo_user = ar_user a, lo_csrfToken = csrfToken, lo_cookie = cookie\<rparr>))))"
  have rest: "preserves site_ok (?rest q)" for q
    by (cases q) (auto intro!: preserves_intros preserves_on_fst intro: same_db_ok [OF metric_same] simp: clear_limiter_def same_db_ok [OF same_redis])
  let ?cs = "createSession (lg_crypto E) (lg_now E) (lg_token E) (lg_csrf E) (su_id (ar_user a)) (Some ip) agent"
  obtain q u where cs: "?cs (fst t) = (Inr q, u)" by (simp add: createSession_def)
  have "su_id (ar_user a) \<in> user_ids (fst t)"
    using login_user_id [of E i "fst sw" "snd sw" a "fst t" "snd t"] run by simp
  then have "db_ok u" using create_session_ok [OF ok, of "su_id (ar_user a)"] cs by (metis snd_conv)
  then show "db_ok (fst (snd (bind_eff (on_fst ?cs) ?rest t)))"
    using preservesD [OF rest, of "(u, snd t)" q] cs by (cases t) (simp add: bind_eff_apply on_fst_def)
qed

lemma preserves_login_handler: "preserves site_ok (login_handler E body ip agent)"
  unfolding login_handler_def parse_body_def Let_def
  by (intro preserves_intros preserves_on_fst preserves_check_limiter preserves_signed_in site_login_failed)

section \<open>The other requests\<close>

lemma preserves_as_user: "(\<And>a. preserves P (f a)) \<Longrightarrow> preserves P (as_user actor f)"
  unfolding as_user_def by (intro preserves_intros)

lemma preserves_users_create: "preserves db_ok (users_create_handler E actor body ip)"
  unfolding users_create_handler_def parse_body_def by (intro preserves_intros preserves_createLocal)

lemma preserves_users_update: "preserves db_ok (users_update_handler E actor i body ip)"
  unfolding users_update_handler_def parse_body_def by (intro preserves_intros preserves_updateUser)

lemma preserves_grants_handler: "preserves db_ok (set_grants_handler E actor b i body ip)"
  unfolding set_grants_handler_def parse_body_def by (intro preserves_intros preserves_set_grants)

lemma preserves_scopes_handler: "preserves db_ok (set_scopes_handler E actor i body ip)"
  unfolding set_scopes_handler_def parse_body_def by (intro preserves_intros preserves_set_scopes)

lemma revoke_ok: "db_ok s \<Longrightarrow> db_ok (revokeSession now i s)"
  unfolding revokeSession_def by (erule same_db_ok [OF session_update_same, rotated]) simp

lemma preserves_logout: "preserves db_ok (logout_handler now actor i)"
  unfolding logout_handler_def by (intro preserves_intros) (auto intro: revoke_ok)

lemma preserves_getSessionUser: "preserves db_ok (getSessionUser cr now k)"
  by (rule preservesI) (auto simp: getSessionUser_def intro: same_db_ok [OF session_update_same] split: option.split)

lemma preserves_guards:
  "preserves db_ok (session_guard cr parse_cookie cookieName now rt r)"
  "preserves db_ok (csrf_guard rt r)" "preserves db_ok (role_guard rt r)" "preserves db_ok (bucket_guard num rt r)"
  unfolding session_guard_def csrf_guard_def role_guard_def bucket_guard_def requireRole_def requireBucketPermission_def Let_def
  by (intro preserves_intros preserves_getSessionUser)+

lemma preserves_admit: "preserves db_ok (admit cr parse_cookie num cookieName now rt r)"
  unfolding admit_def by (intro preserves_intros preserves_guards)

lemma preserves_settings:
  "preserves db_ok (update_ldap_handler SE actor body ip)" "preserves db_ok (set_auth_mode_handler SE actor body ip)"
  unfolding update_ldap_handler_def updateLdapConfig_def set_auth_mode_handler_def setAuthMode_def parse_body_def
  by (intro preserves_intros preserves_same; simp add: upsert_ldap_def same_db_def)+

lemma insert_conn_same: "same_db s (snd (insert_conn row s))"
  by (simp add: insert_conn_def same_db_def bump_id_def)

lemma update_conn_same: "same_db s (snd (update_conn i f s))"
  by (simp add: update_conn_def same_db_def split: option.split)

lemma clear_default_same: "same_db s (clear_default now P s)"
  by (simp add: clear_default_def same_db_def)

lemma preserves_connections:
  "preserves db_ok (connection_create_handler N C actor body ip)" "preserves db_ok (connection_update_handler N C actor i body ip)"
  unfolding connection_create_handler_def connection_update_handler_def create_connection_def update_connection_def
    ns_parse_def parse_body_def
  by (intro preserves_as_user preserves_intros preserves_same clear_default_same same_db_audit;
      auto simp: preserves_def intro: same_db_ok [OF insert_conn_same] same_db_ok [OF update_conn_same])+

section \<open>Seeding\<close>

lemma perms: "distinct BUCKET_PERMISSIONS"
  by (simp add: BUCKET_PERMISSIONS_def)

lemma seed_tables_ok: "db_ok s \<Longrightarrow> db_ok (seed_auth_mode (seed_ldap (seed_permissions (seed_roles s))))"
proof -
  assume ok: "db_ok s"
  have "db_ok (s\<lparr>roles := roles s @ rs\<rparr>)" for rs
    using ok unfolding db_ok_def by (elim conjE) (simp add: user_ids_def bucket_ids_def given_def users_ok_def)
  then have 1: "db_ok (seed_roles s)" by (simp add: seed_roles_def)
  have "distinct (permissions t @ filter (\<lambda>p. p \<notin> set (permissions t)) BUCKET_PERMISSIONS)" if "db_ok t" for t
    using that distinct_filter [OF perms] by (auto simp: db_ok_def)
  then have 2: "db_ok (seed_permissions t)" if "db_ok t" for t
    using that unfolding db_ok_def by (elim conjE) (simp add: seed_permissions_def user_ids_def bucket_ids_def given_def)
  have 3: "same_db t (seed_auth_mode (seed_ldap t))" for t
    by (simp add: same_db_def seed_auth_mode_def seed_ldap_def)
  show ?thesis by (rule same_db_ok [OF 3 2 [OF 1]])
qed

lemma seed_admin_db:
  "db_ok s \<Longrightarrow> SUPER_ADMIN \<in> set (roles s) \<Longrightarrow> db_ok (snd (seed_admin E s))"
  unfolding seed_admin_def by (rule upsert_username_ok) (simp_all add: bootstrap_admin_def promoted_admin_def)

lemma seed_conn_same: "same_db s (seedEnvDefaultConnection E s)"
  by (simp add: seedEnvDefaultConnection_def upsert_env_conn_def clear_default_def bump_id_def same_db_def)

lemma preserves_seed: "preserves db_ok (seed E)"
proof
  fix s assume ok: "db_ok s"
  let ?s1 = "seed_auth_mode (seed_ldap (seed_permissions (seed_roles s)))"
  have role: "SUPER_ADMIN \<in> set (roles ?s1)" using seed_roles_known [of s] by (auto simp: APP_ROLES_def)
  obtain q s2 where admin: "seed_admin E ?s1 = (q, s2)" by fastforce
  have s2: "db_ok s2" using seed_admin_db [OF seed_tables_ok [OF ok] role, of E] admin by simp
  show "db_ok (snd (seed E s))"
  proof (cases q)
    case (Inr u)
    have "u_id u \<in> user_ids s2" using seed_admin_ok [of E ?s1 u s2] admin Inr username_id by blast
    then have "db_ok (seedEnvDefaultConnection E (set_password (u_id u) (sv_hash E (seed_password E)) s2))"
      by (intro same_db_ok [OF seed_conn_same] set_password_ok s2)
    then show ?thesis using role admin Inr by (simp add: seed_def eff_simps)
  qed (use role admin s2 in \<open>simp add: seed_def eff_simps\<close>)
qed

section \<open>The system\<close>

text \<open>One step: the guards on a request, the handler of a request that writes, the sync of a bucket by the
  worker, or a run of the seed script. Clients, clocks, secrets and request bodies are arbitrary.\<close>

inductive site_step :: "app \<times> 'w \<Rightarrow> app \<times> 'w \<Rightarrow> bool" where
  guards: "site_step (s, w) (snd (admit cr parse_cookie num cookieName now rt r s), w)"
| log_in: "site_step sw (snd (login_handler L body ip agent sw))"
| log_out: "site_step (s, w) (snd (logout_handler now actor sessionId s), w)"
| create_user: "site_step (s, w) (snd (users_create_handler A actor body addr s), w)"
| update_user: "site_step (s, w) (snd (users_update_handler A actor i body addr s), w)"
| set_grants: "site_step (s, w) (snd (set_grants_handler A actor b i body addr s), w)"
| set_scopes: "site_step (s, w) (snd (set_scopes_handler A actor i body addr s), w)"
| update_ldap: "site_step (s, w) (snd (update_ldap_handler SE actor body addr s), w)"
| set_mode: "site_step (s, w) (snd (set_auth_mode_handler SE actor body addr s), w)"
| create_connection: "site_step (s, w) (snd (connection_create_handler N C actor body addr s), w)"
| update_connection: "site_step (s, w) (snd (connection_update_handler N C actor i body addr s), w)"
| sync_bucket: "site_step (s, w) (upsert_bucket now name garageId connId s, w)"
| seed_again: "site_step (s, w) (snd (seed E s), w)"

lemma upsert_bucket_ok:
  assumes ok: "db_ok s"
  shows "db_ok (upsert_bucket now name garageId connId s)"
proof (cases "\<exists>b\<in>set (buckets s). b_name b = name")
  case True
  let ?bs = "tb_update (\<lambda>b. b_name b = name) (\<lambda>b. b\<lparr>b_garageBucketId := Some garageId, b_connectionId := Some connId\<rparr>) (buckets s)"
  have maps: "map b_id ?bs = map b_id (buckets s)" "map b_name ?bs = map b_name (buckets s)"
    by (rule tb_update_map; simp)+
  have ids: "b_id ` set ?bs = b_id ` set (buckets s)" using arg_cong [OF maps(1), of set] by simp
  show ?thesis
    using ok True unfolding db_ok_def upsert_bucket_def
    by (elim conjE) (simp add: user_ids_def bucket_ids_def given_def buckets_ok_def maps ids)
next
  case False
  let ?t = "upsert_bucket now name garageId connId s"
  obtain b where b: "buckets ?t = buckets s @ [b]" "b_id b = new_id s" "b_name b = name"
    using False by (simp add: upsert_bucket_def bump_id_def)
  have g: "given ?t = insert (new_id s) (given s)"
    using False by (simp add: upsert_bucket_def) (simp add: given_def new_id_def)
  have f: "user_ids ?t = user_ids s" "bucket_ids ?t = insert (new_id s) (bucket_ids s)" "sessions ?t = sessions s"
    "localCreds ?t = localCreds s" "grants ?t = grants s" "scopes ?t = scopes s" "cuid ?t = cuid s" "roles ?t = roles s"
    "permissions ?t = permissions s" "users ?t = users s"
    using False b(2) unfolding bucket_ids_def b(1) by (simp_all add: upsert_bucket_def bump_id_def user_ids_def)
  have "new_id s \<notin> b_id ` set (buckets s)"
    using ok new_id_not_given [of s] by (auto simp: db_ok_def bucket_ids_def)
  then have "buckets_ok (buckets s @ [b])"
    using ok False b(2,3) by (auto simp: db_ok_def buckets_ok_def)
  then show ?thesis using ok unfolding db_ok_def f g b(1) links_ok_def by (elim conjE) (intro conjI; blast)
qed

lemma site_step_ok: "site_step sw sw' \<Longrightarrow> site_ok sw \<Longrightarrow> site_ok sw'"
proof (induction rule: site_step.induct)
  case (log_in sw L body ip agent)
  then show ?case by (rule preservesD [OF preserves_login_handler])
qed (simp_all add: preservesD [OF preserves_admit] preservesD [OF preserves_logout] preservesD [OF preserves_users_create]
    preservesD [OF preserves_users_update] preservesD [OF preserves_grants_handler] preservesD [OF preserves_scopes_handler]
    preservesD [OF preserves_settings(1)] preservesD [OF preserves_settings(2)] preservesD [OF preserves_connections(1)]
    preservesD [OF preserves_connections(2)] preservesD [OF preserves_seed] upsert_bucket_ok)

text \<open>An empty database whose generator never repeats an identifier.\<close>

definition empty_site :: "app \<times> 'w \<Rightarrow> bool" where
  "empty_site sw \<longleftrightarrow> (\<exists>c f. inj f \<and> fst sw = init_app\<lparr>cfg := c, cuid := f\<rparr>)"

lemma empty_site_ok: "empty_site sw \<Longrightarrow> site_ok sw"
  by (auto simp: empty_site_def db_ok_def init_app_def user_ids_def bucket_ids_def given_def users_ok_def buckets_ok_def
      links_ok_def BUCKET_PERMISSIONS_def)

interpretation site: safe_system empty_site site_step site_ok
  by unfold_locales (auto intro: empty_site_ok site_step_ok)

text \<open>
  C36. The integrity of the database. Whatever requests, sign-ins, syncs and seed runs interleave, in whatever order
  and with whatever bodies, no two accounts share an id, a username or an e-mail address, and every account has a
  role that exists; every credential, grant, scope and session belongs to an existing account, every grant and scope to
  an existing bucket; bucket names and session ids are unique, and no grant or scope is stored twice.
\<close>

theorem database_integrity:
  assumes "empty_site sw" and "site_step\<^sup>*\<^sup>* sw sw'"
  defines "s \<equiv> fst sw'"
  shows "distinct (map u_id (users s)) \<and> (\<forall>u\<in>set (users s). \<forall>v\<in>set (users s). shares u v \<longrightarrow> u = v)
    \<and> (\<forall>u\<in>set (users s). u_role u \<in> set (roles s)) \<and> dom (localCreds s) \<subseteq> user_ids s
    \<and> (\<forall>x\<in>set (sessions s). s_userId x \<in> user_ids s)
    \<and> (\<forall>g\<in>set (grants s). g_userId g \<in> user_ids s \<and> g_bucketId g \<in> bucket_ids s)
    \<and> (\<forall>x\<in>set (scopes s). sc_adminUserId x \<in> user_ids s \<and> sc_bucketId x \<in> bucket_ids s)
    \<and> distinct (map b_name (buckets s)) \<and> distinct (map s_id (sessions s)) \<and> distinct (grants s) \<and> distinct (scopes s)"
proof -
  have ok: "db_ok s" unfolding s_def by (rule site.reached_inv [OF assms(1,2)])
  have "u = v" if "u \<in> set (users s)" "v \<in> set (users s)" "shares u v" for u v
  proof -
    have "u_id v = u_id u" using ok that by (simp add: db_ok_def users_ok_def)
    then show ?thesis using ok that(1,2) by (auto simp: db_ok_def users_ok_def distinct_map dest: inj_onD)
  qed
  then show ?thesis using ok by (auto simp: db_ok_def users_ok_def links_ok_def buckets_ok_def)
qed

lemma database_integrity_witness:
  "\<exists>t. seed demo_seed init_app = (Inr (), t) \<and> distinct (map u_id (users t)) \<and> dom (localCreds t) \<subseteq> user_ids t"
proof -
  have "fst (seed demo_seed init_app) = Inr ()" by code_simp
  then obtain t where t: "seed demo_seed init_app = (Inr (), t)" by (metis prod.collapse)
  have "inj unary_id" by (rule unary_id_inj)
  then have start: "empty_site (init_app, ())"
    unfolding empty_site_def by (intro exI [of _ default_config] exI [of _ unary_id]) (simp add: init_app_def)
  have "site_step\<^sup>*\<^sup>* (init_app, ()) (t, ())"
    using site_step.seed_again [of init_app "()" demo_seed] t by (metis r_into_rtranclp snd_conv)
  from database_integrity [OF start this] t show ?thesis by auto
qed

end
