(* ===== verification/FileRequestsProps.thy ===== *)
theory FileRequestsProps
  imports FileRequests FilesProps AuditLog
begin

text \<open>
  What the listing of upload sessions shows, against the rule by which a single session is opened.
\<close>

text \<open>The two rules are written apart, one as a query and one as a check; they differ only in an admin's own
  sessions on buckets outside the admin's scope, which the listing of all sessions leaves out.\<close>

lemma access_listing:
  "session_access u True up s = Inr () \<longleftrightarrow> upload_visible u (Some All) s up \<or> up_userId up = su_id u"
  by (cases "su_role u") (auto simp: session_access_def upload_visible_def in_admin_scope_def)

lemma visible_access: "upload_visible u scope s up \<Longrightarrow> session_access u True up s = Inr ()"
  unfolding access_listing by (auto simp: upload_visible_def split: if_splits)

lemma sessions_handler_ok:
  assumes "sessions_handler E N (Some u) query (s, w) = (Inr (Done rows), t)"
  obtains q sts where "multipartSessionsSchema N query = Some q" "known_statuses (or_else (sq_status q) []) = Some sts"
    "t = (s, w)" "rows = listMultipartSessions u (Some sts) (sq_scope q) (sq_limit q) s"
  using assms by (auto simp: sessions_handler_def with_user_def done_eff_def fe_parse_def eff_inv)

text \<open>
  Listing upload sessions and opening one follow the same rule. An answered listing changes nothing; it has at
  most the limit asked for, never more than 500 rows, newest first; and every row it shows is a stored session that
  the caller may also open by its id. Conversely the check for opening a session lets a caller through exactly when
  the listing of all sessions would show it or the caller started it.
\<close>

theorem upload_listing_matches_access:
  assumes "sessions_handler E N (Some u) query (s, w) = (Inr (Done rows), t)"
  shows "t = (s, w) \<and> length rows \<le> 500 \<and> sorted_wrt (\<lambda>a b. us_updatedAt a \<ge> us_updatedAt b) rows
    \<and> (\<forall>r\<in>set rows. \<exists>up\<in>set (uploads s). r = toUploadSessionPublic up (bucket_name s up)
         \<and> session_access u True up s = Inr ())
    \<and> (\<forall>up. session_access u True up s = Inr () \<longleftrightarrow> upload_visible u (Some All) s up \<or> up_userId up = su_id u)"
proof -
  from assms obtain q :: sessions_query and sts where t: "t = (s, w)" and rows: "rows = listMultipartSessions u (Some sts) (sq_scope q) (sq_limit q) s"
    by (rule sessions_handler_ok)
  let ?all = "order_desc up_updatedAt (filter (\<lambda>up. (or_else (Some sts) [] = [] \<or> up_status up \<in> set (or_else (Some sts) []))
      \<and> upload_visible u (sq_scope q) s up) (uploads s))"
  let ?limit = "clamp 1 500 (or_else (sq_limit q) 100)"
  have bound: "0 \<le> ?limit" "?limit \<le> 500" by (simp_all add: clamp_def)
  have r: "rows = map (\<lambda>up. toUploadSessionPublic up (bucket_name s up)) (take_int ?limit ?all)"
    by (simp add: rows listMultipartSessions_def)
  have "length rows \<le> 500" using length_take_int [OF bound(1), of ?all] bound(2) by (simp add: r)
  moreover have "sorted_wrt (\<lambda>a b. us_updatedAt a \<ge> us_updatedAt b) rows"
    unfolding r take_int_def sorted_wrt_map
    by (simp add: toUploadSessionPublic_def) (rule sorted_wrt_take [OF order_desc_sorted])
  moreover have "\<exists>up\<in>set (uploads s). x = toUploadSessionPublic up (bucket_name s up) \<and> session_access u True up s = Inr ()"
    if "x \<in> set rows" for x
    using that set_take_int [of ?limit ?all] visible_access [of u "sq_scope q" s] by (auto simp: r set_order_desc)
  ultimately show ?thesis using t by (auto simp: access_listing)
qed

definition demo_syntax :: request_syntax where
  "demo_syntax = \<lparr>ns_num = (\<lambda>_. []), ns_num_of = (\<lambda>_. None), ns_infinite = (\<lambda>_. None), ns_is_url = (\<lambda>_. True),
     ns_is_datetime = (\<lambda>_. True), ns_zod = (\<lambda>_. []), ns_prisma = (\<lambda>_. [])\<rparr>"

lemma upload_listing_matches_access_witness:
  "\<exists>rows. fst (sessions_handler demo_files demo_syntax (Some (user_of_row demo_user)) (JObj [(''status'', JStr ''INITIATED,'')])
      (demo_uploading, [])) = Inr (Done rows) \<and> length rows = 1 \<and> session_access (user_of_row demo_user) True demo_upload demo_uploading = Inr ()"
proof -
  let ?run = "sessions_handler demo_files demo_syntax (Some (user_of_row demo_user)) (JObj [(''status'', JStr ''INITIATED,'')])
      (demo_uploading, [])"
  have one: "case fst ?run of Inr (Done rows) \<Rightarrow> length rows = 1 | _ \<Rightarrow> False" by code_simp
  then obtain rows where rows: "fst ?run = Inr (Done rows)" "length rows = 1"
    by (auto split: sum.splits reply.splits)
  then have run: "?run = (Inr (Done rows), snd ?run)" by (metis prod.collapse)
  from upload_listing_matches_access [OF run] rows(2)
  obtain up where up: "up \<in> set (uploads demo_uploading)" "session_access (user_of_row demo_user) True up demo_uploading = Inr ()"
    by (cases rows) auto
  then have "up = demo_upload" by (simp add: demo_uploading_def)
  then show ?thesis using rows up(2) by blast
qed

end
