(* ===== verification/RedisServer.thy ===== *)
theory RedisServer
  imports Redis
begin

text \<open>
  \<open>apps/api/src/redis/redis.service.ts\<close> with a connected server. The client of \<open>ioredis\<close> is a parameter that
  acts on a world of any type; an operation of the service dispatches on whether there is one, as the code does.
  What the code relies on of the server is \<open>redis_server\<close>: the documented effect of the six commands it sends. The
  theorem says that the two modes give the same answers.
\<close>

section \<open>The client\<close>

datatype redis_command =
    R_PING
  | R_GET string
  | R_DEL string
  | R_SET_EX_NX string string int
  | R_INCR string
  | R_EXPIRE_NX string int
  | R_EVAL string string string

datatype redis_reply = R_nil | R_text string | R_int int

text \<open>\<open>rc_cmd\<close> sends one command, \<open>rc_multi\<close> is \<open>multi()\<close> with \<open>exec()\<close>: one pair of error and reply per command.\<close>

record 'w redis_client =
  rc_cmd :: "int \<Rightarrow> redis_command \<Rightarrow> ('w, redis_reply) eff"
  rc_multi :: "int \<Rightarrow> redis_command list \<Rightarrow> ('w, (string option \<times> redis_reply) list option) eff"

definition release_script :: string where
  "release_script = ''if redis.call('' @ [CHR 0x27] @ ''get'' @ [CHR 0x27] @ '', KEYS[1]) == ARGV[1] then'' @ [CHR 0x0A]
     @ ''  return redis.call('' @ [CHR 0x27] @ ''del'' @ [CHR 0x27] @ '', KEYS[1])'' @ [CHR 0x0A] @ ''e'' @ ''nd'' @ [CHR 0x0A] @ ''return 0''"

text \<open>\<open>Number(reply)\<close> for the replies that occur; \<open>None\<close> is \<open>NaN\<close>.\<close>

fun reply_number :: "redis_reply \<Rightarrow> int option" where
  "reply_number R_nil = Some 0"
| "reply_number (R_int n) = Some n"
| "reply_number (R_text s) = map_option int (js_number s)"

section \<open>The service in both modes\<close>

type_synonym 'w redis_world = "redis \<times> 'w"

definition on_memory :: "(redis \<Rightarrow> 'a \<times> redis) \<Rightarrow> ('w redis_world, 'a) eff" where
  "on_memory f = (\<lambda>(m, w). case f m of (x, m') \<Rightarrow> (Inr x, (m', w)))"

definition on_server :: "('w, 'a) eff \<Rightarrow> ('w redis_world, 'a) eff" where
  "on_server f = (\<lambda>(m, w). case f w of (r, w') \<Rightarrow> (r, (m, w')))"

definition service_ping :: "'w redis_client option \<Rightarrow> int \<Rightarrow> ('w redis_world, bool) eff" where
  "service_ping c now = (case c of None \<Rightarrow> ok True
     | Some cl \<Rightarrow> bind_eff (on_server (rc_cmd cl now R_PING)) (\<lambda>r. ok (r = R_text ''PONG'')))"

definition service_increment :: "'w redis_client option \<Rightarrow> int \<Rightarrow> string \<Rightarrow> int \<Rightarrow> ('w redis_world, int option) eff" where
  "service_increment c now key window = (case c of
     None \<Rightarrow> on_memory (\<lambda>m. apfst (\<lambda>n. Some (int n)) (incrementWithWindow now key window m))
   | Some cl \<Rightarrow> bind_eff (on_server (rc_multi cl now [R_INCR key, R_EXPIRE_NX key window])) (\<lambda>result.
       ok (case result of Some ((_, n) # _) \<Rightarrow> reply_number n | _ \<Rightarrow> Some 0)))"

definition service_get :: "'w redis_client option \<Rightarrow> int \<Rightarrow> string \<Rightarrow> ('w redis_world, string option) eff" where
  "service_get c now key = (case c of
     None \<Rightarrow> on_memory (redis_get now key)
   | Some cl \<Rightarrow> bind_eff (on_server (rc_cmd cl now (R_GET key))) (\<lambda>r. ok (case r of R_text s \<Rightarrow> Some s | _ \<Rightarrow> None)))"

definition service_delete :: "'w redis_client option \<Rightarrow> int \<Rightarrow> string \<Rightarrow> ('w redis_world, unit) eff" where
  "service_delete c now key = (case c of
     None \<Rightarrow> on_memory (\<lambda>m. ((), redis_delete key m))
   | Some cl \<Rightarrow> bind_eff (on_server (rc_cmd cl now (R_DEL key))) (\<lambda>_. ok ()))"

definition service_acquire :: "'w redis_client option \<Rightarrow> int \<Rightarrow> string \<Rightarrow> string \<Rightarrow> int \<Rightarrow> ('w redis_world, bool) eff" where
  "service_acquire c now key val ttlSeconds = (case c of
     None \<Rightarrow> on_memory (acquireLock now key val ttlSeconds)
   | Some cl \<Rightarrow> bind_eff (on_server (rc_cmd cl now (R_SET_EX_NX key val ttlSeconds))) (\<lambda>r. ok (r = R_text ''OK'')))"

definition service_release :: "'w redis_client option \<Rightarrow> int \<Rightarrow> string \<Rightarrow> string \<Rightarrow> ('w redis_world, bool) eff" where
  "service_release c now key val = (case c of
     None \<Rightarrow> on_memory (releaseLock now key val)
   | Some cl \<Rightarrow> bind_eff (on_server (rc_cmd cl now (R_EVAL release_script key val))) (\<lambda>r.
       ok (reply_number r = Some 1)))"

section \<open>What the server documents\<close>

type_synonym redis_db = "string \<Rightarrow> (string \<times> int option) option"

definition look :: "int \<Rightarrow> redis_db \<Rightarrow> redis_db" where
  "look now d = (\<lambda>k. case d k of Some (v, Some e) \<Rightarrow> if now < e then Some (v, Some e) else None | x \<Rightarrow> x)"

text \<open>The reply and the keys after a command at an instant; \<open>None\<close> where nothing is relied on. A counter has 64 bits.\<close>

fun redis_documented :: "int \<Rightarrow> redis_command \<Rightarrow> redis_db \<Rightarrow> (redis_reply \<times> redis_db) option" where
  "redis_documented now R_PING d = Some (R_text ''PONG'', d)"
| "redis_documented now (R_GET k) d =
     Some (case look now d k of None \<Rightarrow> R_nil | Some (v, _) \<Rightarrow> R_text v, d)"
| "redis_documented now (R_DEL k) d = Some (R_int (if look now d k = None then 0 else 1), d(k := None))"
| "redis_documented now (R_SET_EX_NX k v n) d =
     (if n \<le> 0 then None
      else if look now d k = None then Some (R_text ''OK'', d(k \<mapsto> (v, Some (now + n * 1000))))
      else Some (R_nil, d))"
| "redis_documented now (R_INCR k) d = (case look now d k of
     None \<Rightarrow> Some (R_int 1, d(k \<mapsto> (nat_to_string 1, None)))
   | Some (v, e) \<Rightarrow> (case js_number v of None \<Rightarrow> None | Some n \<Rightarrow>
       if v = nat_to_string n \<and> int n + 1 < 2 ^ 63 then Some (R_int (int n + 1), d(k \<mapsto> (nat_to_string (n + 1), e))) else None))"
| "redis_documented now (R_EXPIRE_NX k n) d =
     (if n \<le> 0 then None else case look now d k of
        Some (v, None) \<Rightarrow> Some (R_int 1, d(k \<mapsto> (v, Some (now + n * 1000))))
      | _ \<Rightarrow> Some (R_int 0, d))"
| "redis_documented now (R_EVAL script k v) d =
     (if script \<noteq> release_script then None
      else if map_option fst (look now d k) = Some v then Some (R_int 1, d(k := None)) else Some (R_int 0, d))"

definition redis_server :: "'w redis_client \<Rightarrow> ('w \<Rightarrow> redis_db) \<Rightarrow> bool" where
  "redis_server c db \<longleftrightarrow>
     (\<forall>now cmd w r d. redis_documented now cmd (db w) = Some (r, d) \<longrightarrow>
        (\<exists>w'. rc_cmd c now cmd w = (Inr r, w') \<and> look now (db w') = look now d))
   \<and> (\<forall>now a b w ra w1 rb w2. rc_cmd c now a w = (Inr ra, w1) \<longrightarrow> rc_cmd c now b w1 = (Inr rb, w2) \<longrightarrow>
        rc_multi c now [a, b] w = (Inr (Some [(None, ra), (None, rb)]), w2))"


section \<open>One operation\<close>

datatype redis_op =
    Op_increment string int
  | Op_get string
  | Op_delete string
  | Op_acquire string string int
  | Op_release string string

datatype redis_answer = A_count "int option" | A_value "string option" | A_done | A_flag bool

definition run_op :: "'w redis_client option \<Rightarrow> int \<Rightarrow> redis_op \<Rightarrow> ('w redis_world, redis_answer) eff" where
  "run_op c now x = (case x of
     Op_increment k n \<Rightarrow> bind_eff (service_increment c now k n) (\<lambda>y. ok (A_count y))
   | Op_get k \<Rightarrow> bind_eff (service_get c now k) (\<lambda>y. ok (A_value y))
   | Op_delete k \<Rightarrow> bind_eff (service_delete c now k) (\<lambda>_. ok A_done)
   | Op_acquire k v n \<Rightarrow> bind_eff (service_acquire c now k v n) (\<lambda>y. ok (A_flag y))
   | Op_release k v \<Rightarrow> bind_eff (service_release c now k v) (\<lambda>y. ok (A_flag y)))"

text \<open>Counters and locks have keys of their own (\<open>login:\<close>, \<open>lock:\<close>), and the time-outs are positive.\<close>

definition well_keyed :: "(string \<Rightarrow> bool) \<Rightarrow> redis_op \<Rightarrow> bool" where
  "well_keyed counter x = (case x of
     Op_increment k n \<Rightarrow> counter k \<and> 0 < n
   | Op_acquire k v n \<Rightarrow> \<not> counter k \<and> 0 < n
   | Op_release k v \<Rightarrow> \<not> counter k
   | _ \<Rightarrow> True)"

text \<open>The keys of the memory store, as a server would hold them.\<close>

definition memory_db :: "redis \<Rightarrow> redis_db" where
  "memory_db m = (\<lambda>k. case memoryCounters m k of
     Some c \<Rightarrow> Some (nat_to_string (cs_count c), Some (cs_expiresAt c))
   | None \<Rightarrow> map_option (\<lambda>l. (ls_value l, Some (ls_expiresAt l))) (memoryLocks m k))"

definition apart :: "(string \<Rightarrow> bool) \<Rightarrow> nat \<Rightarrow> redis \<Rightarrow> bool" where
  "apart counter n m \<longleftrightarrow> (\<forall>k. if counter k then memoryLocks m k = None else memoryCounters m k = None)
     \<and> (\<forall>k c. memoryCounters m k = Some c \<longrightarrow> cs_count c \<le> n)"

definition same_keys :: "(string \<Rightarrow> bool) \<Rightarrow> nat \<Rightarrow> int \<Rightarrow> redis \<Rightarrow> redis_db \<Rightarrow> bool" where
  "same_keys counter n t m d \<longleftrightarrow> apart counter n m \<and> look t d = look t (memory_db m)"

lemma look_later: "t \<le> u \<Longrightarrow> look t d = look t d' \<Longrightarrow> look u d = look u d'"
proof (rule ext)
  fix k assume "t \<le> u" and "look t d = look t d'"
  then have "look t d k = look t d' k" by simp
  with \<open>t \<le> u\<close> show "look u d k = look u d' k"
    by (auto simp: look_def split: option.splits if_splits prod.splits)
qed

lemma look_upd: "look t (d(k := x)) = (look t d)(k := look t (\<lambda>_. x) k)"
  by (auto simp: look_def)

lemma look_look: "look t (look t d) = look t d"
  by (auto simp: look_def fun_eq_iff split: option.splits)

lemma look_at_cong: "look t d = look t d' \<Longrightarrow> look t (d(k := x)) = look t (d'(k := x))"
  by (simp add: look_upd)

text \<open>The documented effect depends on the live keys only.\<close>

lemma documented_cong:
  assumes "look t d = look t d'" and "redis_documented t cmd d = Some (r, e)"
  shows "\<exists>e'. redis_documented t cmd d' = Some (r, e') \<and> look t e = look t e'"
proof (cases cmd)
  case (R_INCR k)
  show ?thesis
  proof (cases "look t d' k")
    case None
    with assms R_INCR show ?thesis by (auto intro: look_at_cong)
  next
    case (Some p)
    with assms R_INCR show ?thesis
      by (cases p) (auto intro: look_at_cong split: if_splits option.splits)
  qed
next
  case (R_EXPIRE_NX k n)
  show ?thesis
  proof (cases "look t d' k")
    case None
    with assms R_EXPIRE_NX show ?thesis by (auto split: if_splits)
  next
    case (Some p)
    with assms R_EXPIRE_NX show ?thesis
      by (cases p) (auto intro: look_at_cong split: if_splits option.splits)
  qed
qed (use assms in \<open>auto intro: look_at_cong split: if_splits\<close>)

lemma server_cmd:
  assumes srv: "redis_server c db" and lk: "look now (db w) = look now d"
    and doc: "redis_documented now cmd d = Some (r, e)"
  shows "\<exists>w'. rc_cmd c now cmd w = (Inr r, w') \<and> look now (db w') = look now e"
proof -
  obtain e' where "redis_documented now cmd (db w) = Some (r, e')" and "look now e = look now e'"
    using documented_cong [OF lk [symmetric] doc] by auto
  with srv show ?thesis unfolding redis_server_def by (metis (no_types, lifting))
qed

lemma apart_cleanup: "apart counter n m \<Longrightarrow> apart counter n (cleanupMemory now m)"
  by (auto simp: apart_def cleanup_locks cleanup_counters split: option.splits)

lemma apart_mono: "apart counter n m \<Longrightarrow> n \<le> n' \<Longrightarrow> apart counter n' m"
  unfolding apart_def by (meson order_trans)

lemma memory_db_counter: "apart counter n m \<Longrightarrow> counter k \<Longrightarrow>
    memory_db m k = map_option (\<lambda>c. (nat_to_string (cs_count c), Some (cs_expiresAt c))) (memoryCounters m k)"
  by (auto simp: memory_db_def apart_def split: option.splits)

lemma memory_db_lock: "apart counter n m \<Longrightarrow> \<not> counter k \<Longrightarrow>
    memory_db m k = map_option (\<lambda>l. (ls_value l, Some (ls_expiresAt l))) (memoryLocks m k)"
  by (auto simp: memory_db_def apart_def split: option.splits)

lemma memory_db_set_counter: "apart counter n m \<Longrightarrow>
    memory_db (m\<lparr>memoryCounters := (memoryCounters m)(k \<mapsto> c)\<rparr>)
    = (memory_db m)(k \<mapsto> (nat_to_string (cs_count c), Some (cs_expiresAt c)))"
  by (rule ext) (auto simp: memory_db_def split: option.splits)

lemma memory_db_set_lock: "apart counter n m \<Longrightarrow> \<not> counter k \<Longrightarrow>
    memory_db (m\<lparr>memoryLocks := (memoryLocks m)(k \<mapsto> l)\<rparr>)
    = (memory_db m)(k \<mapsto> (ls_value l, Some (ls_expiresAt l)))"
  by (rule ext) (auto simp: memory_db_def apart_def split: option.splits)

lemma memory_db_drop_lock: "apart counter n m \<Longrightarrow> \<not> counter k \<Longrightarrow>
    memory_db (m\<lparr>memoryLocks := (memoryLocks m)(k := None)\<rparr>) = (memory_db m)(k := None)"
  by (rule ext) (auto simp: memory_db_def apart_def split: option.splits)

lemma memory_db_delete: "memory_db (redis_delete k m) = (memory_db m)(k := None)"
  by (rule ext) (auto simp: memory_db_def redis_delete_def split: option.splits)

lemma memory_db_cleanup:
  assumes "apart counter n m"
  shows "memory_db (cleanupMemory now m) = look now (memory_db m)"
proof (rule ext)
  fix k
  note ap = assms apart_cleanup [OF assms]
  show "memory_db (cleanupMemory now m) k = look now (memory_db m) k"
    by (cases "counter k")
       (auto simp: ap [THEN memory_db_counter] ap [THEN memory_db_lock] look_def cleanup_locks cleanup_counters
          split: option.splits)
qed

text \<open>What the two modes have to give for an operation.\<close>

definition agree :: "'w redis_client \<Rightarrow> ('w \<Rightarrow> redis_db) \<Rightarrow> (string \<Rightarrow> bool) \<Rightarrow> nat \<Rightarrow> int \<Rightarrow> redis_op \<Rightarrow> redis \<Rightarrow> 'w \<Rightarrow> bool" where
  "agree c db counter n now x m w \<longleftrightarrow> (\<exists>a m' w'.
     run_op None now x (m, w) = (Inr a, (m', w)) \<and> run_op (Some c) now x (m, w) = (Inr a, (m, w'))
     \<and> same_keys counter (Suc n) now m' (db w'))"

lemma agree_get:
  assumes srv: "redis_server c db" and sim: "same_keys counter n now m (db w)"
  shows "agree c db counter n now (Op_get k) m w"
proof -
  have ap: "apart counter n m" and lk: "look now (db w) = look now (memory_db m)" using sim by (simp_all add: same_keys_def)
  obtain w' where w': "rc_cmd c now (R_GET k) w
      = (Inr (case look now (memory_db m) k of None \<Rightarrow> R_nil | Some (v, _) \<Rightarrow> R_text v), w')"
    "look now (db w') = look now (memory_db m)"
    using server_cmd [OF srv lk, of "R_GET k"] by auto
  have "fst (redis_get now k m) = map_option fst (look now (memory_db m) k)"
    unfolding memory_db_cleanup [OF ap, symmetric]
    by (auto simp: redis_get_def Let_def memory_db_def option.map_comp comp_def split: option.splits)
  moreover have "snd (redis_get now k m) = cleanupMemory now m" by (simp add: redis_get_def Let_def)
  ultimately have "run_op None now (Op_get k) (m, w)
      = (Inr (A_value (map_option fst (look now (memory_db m) k))), (cleanupMemory now m, w))"
    by (simp add: run_op_def service_get_def on_memory_def eff_simps prod.case_eq_if)
  moreover have "run_op (Some c) now (Op_get k) (m, w) = (Inr (A_value (map_option fst (look now (memory_db m) k))), (m, w'))"
    using w'(1) by (auto simp: run_op_def service_get_def on_server_def eff_simps split: option.splits)
  moreover have "same_keys counter (Suc n) now (cleanupMemory now m) (db w')"
    unfolding same_keys_def memory_db_cleanup [OF ap] look_look
    using w'(2) apart_mono [OF apart_cleanup [OF ap]] by simp
  ultimately show ?thesis unfolding agree_def by blast
qed

lemma agree_delete:
  assumes srv: "redis_server c db" and sim: "same_keys counter n now m (db w)"
  shows "agree c db counter n now (Op_delete k) m w"
proof -
  have ap: "apart counter n m" and lk: "look now (db w) = look now (memory_db m)" using sim by (simp_all add: same_keys_def)
  obtain r w' where w': "rc_cmd c now (R_DEL k) w = (Inr r, w')" "look now (db w') = look now ((memory_db m)(k := None))"
    using server_cmd [OF srv lk, of "R_DEL k"] by auto
  have "apart counter (Suc n) (redis_delete k m)" using ap by (auto simp: apart_def redis_delete_def le_SucI)
  with w' show ?thesis
    by (auto simp: agree_def run_op_def service_delete_def on_memory_def on_server_def eff_simps
          same_keys_def memory_db_delete)
qed

lemma agree_acquire:
  assumes srv: "redis_server c db" and sim: "same_keys counter n now m (db w)"
    and keyed: "\<not> counter k" "0 < ttl"
  shows "agree c db counter n now (Op_acquire k v ttl) m w"
proof -
  let ?m = "cleanupMemory now m"
  have ap: "apart counter n m" and lk: "look now (db w) = look now (memory_db m)" using sim by (simp_all add: same_keys_def)
  note ap' = apart_cleanup [OF ap, of now]
  have seen: "look now (memory_db m) k = map_option (\<lambda>l. (ls_value l, Some (ls_expiresAt l))) (memoryLocks ?m k)"
    unfolding memory_db_cleanup [OF ap, symmetric] by (rule memory_db_lock [OF ap' keyed(1)])
  have lk': "look now (db w) = look now (memory_db ?m)" using lk by (simp add: memory_db_cleanup [OF ap] look_look)
  have free: "look now (memory_db ?m) = memory_db ?m" by (simp add: memory_db_cleanup [OF ap] look_look)
  let ?new = "?m\<lparr>memoryLocks := (memoryLocks ?m)(k \<mapsto> \<lparr>ls_value = v, ls_expiresAt = now + ttl * 1000\<rparr>)\<rparr>"
  show ?thesis
  proof (cases "memoryLocks ?m k")
    case None
    then have mem: "acquireLock now k v ttl m = (True, ?new)" by (simp add: acquireLock_def Let_def)
    obtain w' where w': "rc_cmd c now (R_SET_EX_NX k v ttl) w = (Inr (R_text ''OK''), w')"
      "look now (db w') = look now ((memory_db ?m)(k \<mapsto> (v, Some (now + ttl * 1000))))"
      using server_cmd [OF srv lk', of "R_SET_EX_NX k v ttl"] None seen keyed
      by (auto simp: free memory_db_lock [OF ap' keyed(1)])
    have "apart counter (Suc n) ?new" using ap' keyed(1) by (auto simp: apart_def le_SucI)
    with w' show ?thesis
      by (auto simp: agree_def run_op_def service_acquire_def on_memory_def on_server_def eff_simps mem
            same_keys_def memory_db_set_lock [OF ap' keyed(1)])
  next
    case (Some l)
    then have "now < ls_expiresAt l" by (auto simp: cleanup_locks split: option.splits if_splits)
    with Some have mem: "acquireLock now k v ttl m = (False, ?m)" by (simp add: acquireLock_def Let_def)
    obtain w' where w': "rc_cmd c now (R_SET_EX_NX k v ttl) w = (Inr R_nil, w')"
      "look now (db w') = look now (memory_db ?m)"
      using server_cmd [OF srv lk', of "R_SET_EX_NX k v ttl"] Some seen keyed
      by (auto simp: free memory_db_lock [OF ap' keyed(1)])
    then show ?thesis using apart_mono [OF ap', of "Suc n"]
      by (auto simp: agree_def run_op_def service_acquire_def on_memory_def on_server_def eff_simps mem same_keys_def)
  qed
qed

lemma agree_release:
  assumes srv: "redis_server c db" and sim: "same_keys counter n now m (db w)" and keyed: "\<not> counter k"
  shows "agree c db counter n now (Op_release k v) m w"
proof -
  let ?m = "cleanupMemory now m"
  have ap: "apart counter n m" and lk: "look now (db w) = look now (memory_db m)" using sim by (simp_all add: same_keys_def)
  note ap' = apart_cleanup [OF ap, of now]
  have lk': "look now (db w) = look now (memory_db ?m)" using lk by (simp add: memory_db_cleanup [OF ap] look_look)
  have free: "look now (memory_db ?m) = memory_db ?m" by (simp add: memory_db_cleanup [OF ap] look_look)
  let ?new = "?m\<lparr>memoryLocks := (memoryLocks ?m)(k := None)\<rparr>"
  show ?thesis
  proof (cases "map_option ls_value (memoryLocks ?m k) = Some v")
    case True
    then have mem: "releaseLock now k v m = (True, ?new)" by (auto simp: releaseLock_def Let_def)
    obtain w' where w': "rc_cmd c now (R_EVAL release_script k v) w = (Inr (R_int 1), w')"
      "look now (db w') = look now ((memory_db ?m)(k := None))"
      using server_cmd [OF srv lk', of "R_EVAL release_script k v"] True
      by (auto simp: free memory_db_lock [OF ap' keyed])
    have "apart counter (Suc n) ?new" using ap' by (auto simp: apart_def le_SucI)
    with w' show ?thesis
      by (auto simp: agree_def run_op_def service_release_def on_memory_def on_server_def eff_simps mem
            same_keys_def memory_db_drop_lock [OF ap' keyed])
  next
    case False
    then have mem: "releaseLock now k v m = (False, ?m)" by (auto simp: releaseLock_def Let_def split: option.splits)
    have "redis_documented now (R_EVAL release_script k v) (memory_db ?m) = Some (R_int 0, memory_db ?m)"
      using False by (auto simp: free memory_db_lock [OF ap' keyed])
    from server_cmd [OF srv lk' this]
    obtain w' where w': "rc_cmd c now (R_EVAL release_script k v) w = (Inr (R_int 0), w')"
      "look now (db w') = look now (memory_db ?m)" by blast
    then show ?thesis using apart_mono [OF ap', of "Suc n"]
      by (auto simp: agree_def run_op_def service_release_def on_memory_def on_server_def eff_simps mem same_keys_def)
  qed
qed

lemma agree_increment:
  assumes srv: "redis_server c db" and sim: "same_keys counter n now m (db w)"
    and keyed: "counter k" "0 < window" and small: "int n + 1 < 2 ^ 63"
  shows "agree c db counter n now (Op_increment k window) m w"
proof -
  let ?m = "cleanupMemory now m"
  have ap: "apart counter n m" and lk: "look now (db w) = look now (memory_db m)" using sim by (simp_all add: same_keys_def)
  note ap' = apart_cleanup [OF ap, of now]
  have lk': "look now (db w) = look now (memory_db ?m)" using lk by (simp add: memory_db_cleanup [OF ap] look_look)
  have free: "look now (memory_db ?m) = memory_db ?m" by (simp add: memory_db_cleanup [OF ap] look_look)
  define st where "st = (case memoryCounters ?m k of None \<Rightarrow> \<lparr>cs_count = 1, cs_expiresAt = now + window * 1000\<rparr>
    | Some x \<Rightarrow> x\<lparr>cs_count := cs_count x + 1\<rparr>)"
  let ?new = "?m\<lparr>memoryCounters := (memoryCounters ?m)(k \<mapsto> st)\<rparr>"
  have live: "now < cs_expiresAt x" "int (cs_count x) + 1 < 2 ^ 63" if "memoryCounters ?m k = Some x" for x
  proof -
    show "now < cs_expiresAt x" using that by (auto simp: cleanup_counters split: option.splits if_splits)
    have "cs_count x \<le> n" using that ap' unfolding apart_def by blast
    with small show "int (cs_count x) + 1 < 2 ^ 63" by linarith
  qed
  then have mem: "incrementWithWindow now k window m = (cs_count st, ?new)"
    by (auto simp: incrementWithWindow_def st_def Let_def split: option.splits)
  obtain e1 where e1: "redis_documented now (R_INCR k) (memory_db ?m) = Some (R_int (int (cs_count st)), e1)"
      "e1 = (memory_db ?m)(k \<mapsto> (nat_to_string (cs_count st), if memoryCounters ?m k = None then None else Some (cs_expiresAt st)))"
    using live by (cases "memoryCounters ?m k")
      (auto simp: free memory_db_counter [OF ap' keyed(1)] st_def js_number_nat_to_string)
  obtain w1 where w1: "rc_cmd c now (R_INCR k) w = (Inr (R_int (int (cs_count st))), w1)" "look now (db w1) = look now e1"
    using server_cmd [OF srv lk' e1(1)] by blast
  have "\<exists>r e. redis_documented now (R_EXPIRE_NX k window) e1 = Some (r, e) \<and> look now e = look now (memory_db ?new)"
    using live keyed(2) by (cases "memoryCounters ?m k")
      (auto simp: e1(2) look_upd free memory_db_set_counter [OF ap'] st_def look_def)
  then obtain r2 e2 where e2: "redis_documented now (R_EXPIRE_NX k window) e1 = Some (r2, e2)"
    "look now e2 = look now (memory_db ?new)" by blast
  obtain w2 where w2: "rc_cmd c now (R_EXPIRE_NX k window) w1 = (Inr r2, w2)" "look now (db w2) = look now e2"
    using server_cmd [OF srv w1(2) e2(1)] by blast
  have multi: "rc_multi c now [R_INCR k, R_EXPIRE_NX k window] w
      = (Inr (Some [(None, R_int (int (cs_count st))), (None, r2)]), w2)"
    using srv w1(1) w2(1) unfolding redis_server_def by blast
  have "cs_count st \<le> Suc n"
    using ap' by (auto simp: st_def apart_def split: option.splits)
  then have "apart counter (Suc n) ?new"
    using ap' keyed(1) by (auto simp: apart_def le_SucI)
  with multi w2(2) e2(2) show ?thesis
    by (auto simp: agree_def run_op_def service_increment_def on_memory_def on_server_def eff_simps mem same_keys_def)
qed

lemma agree_op:
  assumes "redis_server c db" and "same_keys counter n t m (db w)" and "t \<le> now" and "well_keyed counter x"
    and "int n + 1 < 2 ^ 63"
  shows "agree c db counter n now x m w"
proof -
  have "same_keys counter n now m (db w)" 
    using assms(2) look_later [OF assms(3)] unfolding same_keys_def by blast
  note sim = assms(1) this
  show ?thesis
  proof (cases x)
    case (Op_increment k window)
    with assms(4) have "counter k" "0 < window" by (simp_all add: well_keyed_def)
    from agree_increment [OF sim this assms(5)] Op_increment show ?thesis by simp
  next
    case (Op_acquire k v ttl)
    with assms(4) have "\<not> counter k" "0 < ttl" by (simp_all add: well_keyed_def)
    from agree_acquire [OF sim this] Op_acquire show ?thesis by simp
  next
    case (Op_release k v)
    with assms(4) have "\<not> counter k" by (simp add: well_keyed_def)
    from agree_release [OF sim this] Op_release show ?thesis by simp
  qed (simp_all add: agree_get [OF sim] agree_delete [OF sim])
qed

section \<open>Both modes\<close>

text \<open>A run of operations at given instants: the answers, or the first error.\<close>

fun run_ops :: "'w redis_client option \<Rightarrow> (int \<times> redis_op) list \<Rightarrow> ('w redis_world, redis_answer list) eff" where
  "run_ops c [] = ok []"
| "run_ops c ((t, x) # xs) = bind_eff (run_op c t x) (\<lambda>a. bind_eff (run_ops c xs) (\<lambda>as. ok (a # as)))"

lemma run_op_memory_frame: "run_op None t x (m, w) = (Inr a, (m', w)) \<Longrightarrow> run_op None t x (m, v) = (Inr a, (m', v))"
  by (auto simp: run_op_def service_increment_def service_get_def service_delete_def service_acquire_def
      service_release_def on_memory_def eff_simps split: redis_op.splits prod.splits)

lemma run_op_server_frame:
  "run_op (Some c) t x (m, w) = (Inr a, (m, w')) \<Longrightarrow> run_op (Some c) t x (u, w) = (Inr a, (u, w'))"
  by (auto simp: run_op_def service_increment_def service_get_def service_delete_def service_acquire_def
      service_release_def on_server_def eff_simps split: redis_op.splits prod.splits sum.splits)

lemma run_ops_agree:
  assumes srv: "redis_server c db"
  shows "same_keys counter n t m (db w) \<Longrightarrow> sorted (map fst xs) \<Longrightarrow> list_all (\<lambda>(u, x). t \<le> u \<and> well_keyed counter x) xs
    \<Longrightarrow> int (n + length xs) < 2 ^ 63 \<Longrightarrow>
    \<exists>as m' w'. run_ops None xs (m, v) = (Inr as, (m', v)) \<and> run_ops (Some c) xs (u0, w) = (Inr as, (u0, w'))"
proof (induction xs arbitrary: n t m w)
  case Nil
  then show ?case by (simp add: eff_simps)
next
  case (Cons p xs)
  obtain u x where p: "p = (u, x)" by (cases p)
  have "agree c db counter n u x m w"
    using Cons.prems p by (intro agree_op [OF srv Cons.prems(1)]) auto
  then obtain a m' w' where step: "run_op None u x (m, w) = (Inr a, (m', w))"
      "run_op (Some c) u x (m, w) = (Inr a, (m, w'))" "same_keys counter (Suc n) u m' (db w')"
    unfolding agree_def by blast
  have later: "list_all (\<lambda>(u', x). u \<le> u' \<and> well_keyed counter x) xs"
    using Cons.prems(2,3) p by (auto simp: list_all_iff)
  obtain as m'' w'' where rest: "run_ops None xs (m', v) = (Inr as, (m'', v))"
      "run_ops (Some c) xs (u0, w') = (Inr as, (u0, w''))"
    using Cons.IH [OF step(3) _ later] Cons.prems(2,4) p by fastforce
  have "run_op None u x (m, v) = (Inr a, (m', v))" "run_op (Some c) u x (u0, w) = (Inr a, (u0, w'))"
    using run_op_memory_frame [OF step(1)] run_op_server_frame [OF step(2)] by simp_all
  with rest show ?case by (auto simp: p eff_simps)
qed

text \<open>A server that holds its keys in memory and does what is documented.\<close>

definition mem_redis_cmd :: "int \<Rightarrow> redis_command \<Rightarrow> (redis_db, redis_reply) eff" where
  "mem_redis_cmd now cmd = (\<lambda>d. case redis_documented now cmd d of
     None \<Rightarrow> (Inl (PlainError ''ERR''), d) | Some (r, d') \<Rightarrow> (Inr r, d'))"

fun mem_redis_multi :: "int \<Rightarrow> redis_command list \<Rightarrow> (redis_db, (string option \<times> redis_reply) list) eff" where
  "mem_redis_multi now [] = ok []"
| "mem_redis_multi now (x # xs) = bind_eff (mem_redis_cmd now x) (\<lambda>r.
     bind_eff (mem_redis_multi now xs) (\<lambda>rs. ok ((None, r) # rs)))"

definition mem_redis :: "redis_db redis_client" where
  "mem_redis = \<lparr>rc_cmd = mem_redis_cmd, rc_multi = (\<lambda>now xs. bind_eff (mem_redis_multi now xs) (\<lambda>rs. ok (Some rs)))\<rparr>"

lemma mem_redis_server: "redis_server mem_redis (\<lambda>d. d)"
  by (auto simp: redis_server_def mem_redis_def mem_redis_cmd_def eff_simps)


definition demo_ops :: "(int \<times> redis_op) list" where
  "demo_ops = [(0, Op_acquire ''lock:j'' ''w1'' 5), (10, Op_acquire ''lock:j'' ''w2'' 5), (20, Op_increment ''login:a'' 30),
     (30, Op_increment ''login:a'' 30), (40, Op_get ''login:a''), (50, Op_release ''lock:j'' ''w2''),
     (60, Op_release ''lock:j'' ''w1''), (70, Op_acquire ''lock:j'' ''w2'' 5), (30020, Op_get ''login:a'')]"


end
