(* ===== verification/Boot.thy ===== *)
theory Boot
  imports Zod
begin

text \<open>
  How a process starts: the environment it reads (\<open>common/env.ts\<close>),
     the request identifiers and the tracing set-up
  (\<open>main.ts\<close>, \<open>worker.ts\<close>, \<open>telemetry/otel.ts\<close>,
     all under \<open>apps/api/src/\<close>). \<open>Number\<close> on a text and zod's checks of an
  URL and an e-mail address are parameters, and so is the SDK of OpenTelemetry.
\<close>

section \<open>The environment\<close>

datatype node_env = development | test | production

record app_env =
  en_config :: config
  NODE_ENV :: node_env
  PORT :: int
  APP_BASE_URL :: string
  DATABASE_URL :: string
  SESSION_COOKIE_NAME :: string
  APP_ENCRYPTION_KEY :: string
  REDIS_URL :: string
  REDIS_ENABLED :: bool
  CORRELATION_HEADER_NAME :: string
  OTEL_ENABLED :: bool
  OTEL_SERVICE_NAME :: string
  OTEL_EXPORTER_OTLP_ENDPOINT :: "string option"
  OTEL_EXPORTER_OTLP_HEADERS :: "string option"
  JOB_WORKER_INLINE :: bool
  JOB_WORKER_POLL_MS :: int
  DEFAULT_SUPER_ADMIN_USERNAME :: string
  DEFAULT_SUPER_ADMIN_PASSWORD :: string
  DEFAULT_SUPER_ADMIN_EMAIL :: string

record env_syntax =
  es_num_of :: "string \<Rightarrow> rat option"
  es_url :: "string \<Rightarrow> bool"
  es_email :: "string \<Rightarrow> bool"

type_synonym process_env = "string \<Rightarrow> string option"

definition env_value :: "process_env \<Rightarrow> string \<Rightarrow> json" where
  "env_value env name = (case env name of None \<Rightarrow> JUndef | Some s \<Rightarrow> JStr s)"

text \<open>One key of the schema: its name, its parser, and the place of the value.\<close>

type_synonym env_key = "process_env \<Rightarrow> app_env \<Rightarrow> app_env option"

definition schema_key :: "string \<Rightarrow> (json \<Rightarrow> 'a option) \<Rightarrow> (('a \<Rightarrow> 'a) \<Rightarrow> app_env \<Rightarrow> app_env) \<Rightarrow> env_key" where
  "schema_key name p upd env e = map_option (\<lambda>x. upd (\<lambda>_. x) e) (p (env_value env name))"

definition in_config :: "(('a \<Rightarrow> 'a) \<Rightarrow> config \<Rightarrow> config) \<Rightarrow> ('a \<Rightarrow> 'a) \<Rightarrow> app_env \<Rightarrow> app_env" where
  "in_config upd f = en_config_update (upd f)"

text \<open>The parsers: \<open>z.coerce.number().int().min(lo).max(hi).default(d)\<close>,
     the union of boolean and string with its
  transform, and the strings.\<close>

definition z_env_int :: "env_syntax \<Rightarrow> int \<Rightarrow> int \<Rightarrow> int \<Rightarrow> json \<Rightarrow> int option" where
  "z_env_int E lo hi d = z_default d (z_int_in (\<lambda>_. []) (es_num_of E) lo hi)"

definition z_env_bool :: "bool \<Rightarrow> json \<Rightarrow> bool option" where
  "z_env_bool d = z_default d (\<lambda>v. case v of JBool b \<Rightarrow> Some b | JStr s \<Rightarrow> Some (s = ''true'') | _ \<Rightarrow> None)"

definition z_node_env :: "json \<Rightarrow> node_env option" where
  "z_node_env = z_default development (\<lambda>v.
     if v = JStr ''development'' then Some development else if v = JStr ''test'' then Some test
     else if v = JStr ''production'' then Some production else None)"

text \<open>The keys of the schema, in its order.\<close>

definition envSchema :: "env_syntax \<Rightarrow> env_key list" where
  "envSchema E = [
     schema_key ''NODE_ENV'' z_node_env NODE_ENV_update,
     schema_key ''PORT'' (z_env_int E 1 65535 4000) PORT_update,
     schema_key ''APP_BASE_URL'' (z_default ''http://localhost:4000'' (z_checked (es_url E))) APP_BASE_URL_update,
     schema_key ''DATABASE_URL'' (z_string_min 1) DATABASE_URL_update,
     schema_key ''SESSION_COOKIE_NAME'' (z_default ''s3gator_sid'' z_string) SESSION_COOKIE_NAME_update,
     schema_key ''SESSION_TTL_HOURS'' (z_env_int E 1 168 24) (in_config SESSION_TTL_HOURS_update),
     schema_key ''APP_ENCRYPTION_KEY'' (z_string_min 32) APP_ENCRYPTION_KEY_update,
     schema_key ''LOGIN_MAX_ATTEMPTS'' (z_env_int E 1 50 8) (in_config LOGIN_MAX_ATTEMPTS_update),
     schema_key ''LOGIN_WINDOW_SECONDS'' (z_env_int E 30 86400 300) (in_config LOGIN_WINDOW_SECONDS_update),
     schema_key ''REDIS_URL'' (z_default ''redis://127.0.0.1:6379'' (z_checked (es_url E))) REDIS_URL_update,
     schema_key ''REDIS_ENABLED'' (z_env_bool True) REDIS_ENABLED_update,
     schema_key ''REDIS_PREFIX'' (z_default ''s3gator'' z_string) (in_config REDIS_PREFIX_update),
     schema_key ''CORRELATION_HEADER_NAME'' (z_default ''x-request-id'' z_string) CORRELATION_HEADER_NAME_update,
     schema_key ''OTEL_ENABLED'' (z_env_bool False) OTEL_ENABLED_update,
     schema_key ''OTEL_SERVICE_NAME'' (z_default ''s3gator-api'' z_string) OTEL_SERVICE_NAME_update,
     schema_key ''OTEL_EXPORTER_OTLP_ENDPOINT'' (z_opt (z_checked (es_url E))) OTEL_EXPORTER_OTLP_ENDPOINT_update,
     schema_key ''OTEL_EXPORTER_OTLP_HEADERS'' (z_opt z_string) OTEL_EXPORTER_OTLP_HEADERS_update,
     schema_key ''JOB_WORKER_INLINE'' (z_env_bool False) JOB_WORKER_INLINE_update,
     schema_key ''JOB_WORKER_POLL_MS'' (z_env_int E 250 60000 2000) JOB_WORKER_POLL_MS_update,
     schema_key ''JOB_LOCK_TTL_SECONDS'' (z_env_int E 5 3600 60) (in_config JOB_LOCK_TTL_SECONDS_update),
     schema_key ''JOB_RETRY_MAX_ATTEMPTS_BUCKET_SYNC'' (z_env_int E 1 20 5) (in_config JOB_RETRY_MAX_ATTEMPTS_BUCKET_SYNC_update),
     schema_key ''JOB_RETRY_MAX_ATTEMPTS_UPLOAD_CLEANUP'' (z_env_int E 1 20 3) (in_config JOB_RETRY_MAX_ATTEMPTS_UPLOAD_CLEANUP_update),
     schema_key ''JOB_RETRY_MAX_ATTEMPTS_RETENTION_CLEANUP'' (z_env_int E 1 20 3) (in_config JOB_RETRY_MAX_ATTEMPTS_RETENTION_CLEANUP_update),
     schema_key ''JOB_RETRY_BACKOFF_SECONDS_BUCKET_SYNC'' (z_env_int E 1 3600 15) (in_config JOB_RETRY_BACKOFF_SECONDS_BUCKET_SYNC_update),
     schema_key ''JOB_RETRY_BACKOFF_SECONDS_UPLOAD_CLEANUP'' (z_env_int E 1 3600 30) (in_config JOB_RETRY_BACKOFF_SECONDS_UPLOAD_CLEANUP_update),
     schema_key ''JOB_RETRY_BACKOFF_SECONDS_RETENTION_CLEANUP'' (z_env_int E 1 3600 60) (in_config JOB_RETRY_BACKOFF_SECONDS_RETENTION_CLEANUP_update),
     schema_key ''JOB_RETRY_MAX_BACKOFF_SECONDS'' (z_env_int E 5 86400 900) (in_config JOB_RETRY_MAX_BACKOFF_SECONDS_update),
     schema_key ''UPLOAD_SESSION_TTL_HOURS'' (z_env_int E 1 168 24) (in_config UPLOAD_SESSION_TTL_HOURS_update),
     schema_key ''UPLOAD_PART_SIZE_BYTES'' (z_env_int E (5 * 1024 * 1024) (128 * 1024 * 1024) (10 * 1024 * 1024)) (in_config UPLOAD_PART_SIZE_BYTES_update),
     schema_key ''UPLOAD_CLEANUP_BATCH_SIZE'' (z_env_int E 1 500 50) (in_config UPLOAD_CLEANUP_BATCH_SIZE_update),
     schema_key ''RETENTION_JOB_EVENTS_DAYS'' (z_env_int E 1 3650 30) (in_config RETENTION_JOB_EVENTS_DAYS_update),
     schema_key ''RETENTION_FAILED_JOB_DAYS'' (z_env_int E 1 3650 90) (in_config RETENTION_FAILED_JOB_DAYS_update),
     schema_key ''RETENTION_TERMINAL_JOB_DAYS'' (z_env_int E 1 3650 30) (in_config RETENTION_TERMINAL_JOB_DAYS_update),
     schema_key ''RETENTION_AUDIT_LOG_DAYS'' (z_env_int E 1 3650 180) (in_config RETENTION_AUDIT_LOG_DAYS_update),
     schema_key ''RETENTION_SECURITY_AUDIT_DAYS'' (z_env_int E 1 3650 365) (in_config RETENTION_SECURITY_AUDIT_DAYS_update),
     schema_key ''RETENTION_UPLOAD_SESSION_DAYS'' (z_env_int E 1 3650 30) (in_config RETENTION_UPLOAD_SESSION_DAYS_update),
     schema_key ''RETENTION_ARCHIVE_ENABLED'' (z_env_bool False) (in_config RETENTION_ARCHIVE_ENABLED_update),
     schema_key ''RETENTION_ARCHIVE_BATCH_SIZE'' (z_env_int E 10 5000 500) (in_config RETENTION_ARCHIVE_BATCH_SIZE_update),
     schema_key ''ARCHIVE_RETENTION_AUDIT_LOG_DAYS'' (z_env_int E 1 36500 730) (in_config ARCHIVE_RETENTION_AUDIT_LOG_DAYS_update),
     schema_key ''ARCHIVE_RETENTION_JOB_EVENT_DAYS'' (z_env_int E 1 36500 365) (in_config ARCHIVE_RETENTION_JOB_EVENT_DAYS_update),
     schema_key ''ARCHIVE_RETENTION_SECURITY_AUDIT_DAYS'' (z_env_int E 1 36500 1460) (in_config ARCHIVE_RETENTION_SECURITY_AUDIT_DAYS_update),
     schema_key ''MAINTENANCE_SCHEDULER_ENABLED'' (z_env_bool False) (in_config MAINTENANCE_SCHEDULER_ENABLED_update),
     schema_key ''MAINTENANCE_SCHEDULER_TICK_SECONDS'' (z_env_int E 5 3600 30) (in_config MAINTENANCE_SCHEDULER_TICK_SECONDS_update),
     schema_key ''MAINTENANCE_SCHEDULER_LOCK_TTL_SECONDS'' (z_env_int E 5 3600 60) (in_config MAINTENANCE_SCHEDULER_LOCK_TTL_SECONDS_update),
     schema_key ''MAINTENANCE_TASK_RETENTION_ENABLED'' (z_env_bool True) (in_config MAINTENANCE_TASK_RETENTION_ENABLED_update),
     schema_key ''MAINTENANCE_TASK_UPLOAD_CLEANUP_ENABLED'' (z_env_bool True) (in_config MAINTENANCE_TASK_UPLOAD_CLEANUP_ENABLED_update),
     schema_key ''MAINTENANCE_TASK_BUCKET_SYNC_ENABLED'' (z_env_bool False) (in_config MAINTENANCE_TASK_BUCKET_SYNC_ENABLED_update),
     schema_key ''MAINTENANCE_RETENTION_INTERVAL_MINUTES'' (z_env_int E 1 10080 360) (in_config MAINTENANCE_RETENTION_INTERVAL_MINUTES_update),
     schema_key ''MAINTENANCE_UPLOAD_CLEANUP_INTERVAL_MINUTES'' (z_env_int E 1 10080 30) (in_config MAINTENANCE_UPLOAD_CLEANUP_INTERVAL_MINUTES_update),
     schema_key ''MAINTENANCE_BUCKET_SYNC_INTERVAL_MINUTES'' (z_env_int E 0 10080 0) (in_config MAINTENANCE_BUCKET_SYNC_INTERVAL_MINUTES_update),
     schema_key ''GARAGE_ENDPOINT'' (z_opt (z_checked (es_url E))) (in_config GARAGE_ENDPOINT_update),
     schema_key ''GARAGE_REGION'' (z_default ''garage'' z_string) (in_config GARAGE_REGION_update),
     schema_key ''GARAGE_FORCE_PATH_STYLE'' (z_env_bool True) (in_config GARAGE_FORCE_PATH_STYLE_update),
     schema_key ''GARAGE_ACCESS_KEY_ID'' (z_opt z_string) (in_config GARAGE_ACCESS_KEY_ID_update),
     schema_key ''GARAGE_SECRET_ACCESS_KEY'' (z_opt z_string) (in_config GARAGE_SECRET_ACCESS_KEY_update),
     schema_key ''GARAGE_ADMIN_API_URL'' (z_opt (z_checked (es_url E))) (in_config GARAGE_ADMIN_API_URL_update),
     schema_key ''GARAGE_ADMIN_TOKEN'' (z_opt z_string) (in_config GARAGE_ADMIN_TOKEN_update),
     schema_key ''DEFAULT_SUPER_ADMIN_USERNAME'' (z_default ''admin'' z_string) DEFAULT_SUPER_ADMIN_USERNAME_update,
     schema_key ''DEFAULT_SUPER_ADMIN_PASSWORD'' (z_default ''change-me-now-please'' z_string) DEFAULT_SUPER_ADMIN_PASSWORD_update,
     schema_key ''DEFAULT_SUPER_ADMIN_EMAIL'' (z_default ''admin@example.local'' (z_checked (es_email E))) DEFAULT_SUPER_ADMIN_EMAIL_update]"

text \<open>\<open>parse\<close> fills every key; \<open>blank_env\<close> is the record before that.\<close>

definition blank_env :: app_env where
  "blank_env = \<lparr>en_config = default_config, NODE_ENV = development, PORT = 4000,
     APP_BASE_URL = ''http://localhost:4000'', DATABASE_URL = [], SESSION_COOKIE_NAME = ''s3gator_sid'',
     APP_ENCRYPTION_KEY = [], REDIS_URL = ''redis://127.0.0.1:6379'', REDIS_ENABLED = True,
     CORRELATION_HEADER_NAME = ''x-request-id'', OTEL_ENABLED = False, OTEL_SERVICE_NAME = ''s3gator-api'',
     OTEL_EXPORTER_OTLP_ENDPOINT = None, OTEL_EXPORTER_OTLP_HEADERS = None, JOB_WORKER_INLINE = False,
     JOB_WORKER_POLL_MS = 2000, DEFAULT_SUPER_ADMIN_USERNAME = ''admin'',
     DEFAULT_SUPER_ADMIN_PASSWORD = ''change-me-now-please'',
     DEFAULT_SUPER_ADMIN_EMAIL = ''admin@example.local''\<rparr>"

fun parse_keys :: "env_key list \<Rightarrow> process_env \<Rightarrow> app_env \<Rightarrow> app_env option" where
  "parse_keys [] env e = Some e"
| "parse_keys (f # fs) env e = bind_opt (f env e) (parse_keys fs env)"

definition loadEnv :: "env_syntax \<Rightarrow> process_env \<Rightarrow> app_env option" where
  "loadEnv E env = parse_keys (envSchema E) env blank_env"

section \<open>What a parsed environment is\<close>

text \<open>The texts the parameters accept: printed integers, and the defaults of the schema.\<close>

definition syntax_ok :: "env_syntax \<Rightarrow> (int \<Rightarrow> string) \<Rightarrow> bool" where
  "syntax_ok E num \<longleftrightarrow> (\<forall>n. es_num_of E (num n) = Some (of_int n)) \<and> es_url E ''http://localhost:4000''
     \<and> es_url E ''redis://127.0.0.1:6379'' \<and> es_email E ''admin@example.local''"

definition url_opt :: "env_syntax \<Rightarrow> string option \<Rightarrow> bool" where
  "url_opt E v = (case v of None \<Rightarrow> True | Some u \<Rightarrow> es_url E u)"

definition env_ok :: "env_syntax \<Rightarrow> app_env \<Rightarrow> bool" where
  "env_ok E e \<longleftrightarrow> config_ok (en_config e) \<and> in_range 1 65535 (PORT e) \<and> in_range 250 60000 (JOB_WORKER_POLL_MS e)
     \<and> es_url E (APP_BASE_URL e) \<and> es_url E (REDIS_URL e) \<and> es_email E (DEFAULT_SUPER_ADMIN_EMAIL e)
     \<and> url_opt E (OTEL_EXPORTER_OTLP_ENDPOINT e) \<and> url_opt E (GARAGE_ENDPOINT (en_config e))
     \<and> url_opt E (GARAGE_ADMIN_API_URL (en_config e))"

definition secrets_ok :: "app_env \<Rightarrow> bool" where
  "secrets_ok e \<longleftrightarrow> DATABASE_URL e \<noteq> [] \<and> 32 \<le> length (APP_ENCRYPTION_KEY e)"

text \<open>An environment that spells a record out.\<close>

definition env_bool :: "bool \<Rightarrow> string" where
  "env_bool b = (if b then ''true'' else ''false'')"

definition env_mode :: "node_env \<Rightarrow> string" where
  "env_mode m = (case m of development \<Rightarrow> ''development'' | test \<Rightarrow> ''test'' | production \<Rightarrow> ''production'')"

definition env_entries :: "(int \<Rightarrow> string) \<Rightarrow> app_env \<Rightarrow> (string \<times> string option) list" where
  "env_entries num e = [
     (''NODE_ENV'', Some (env_mode (NODE_ENV e))),
     (''PORT'', Some (num (PORT e))),
     (''APP_BASE_URL'', Some (APP_BASE_URL e)),
     (''DATABASE_URL'', Some (DATABASE_URL e)),
     (''SESSION_COOKIE_NAME'', Some (SESSION_COOKIE_NAME e)),
     (''SESSION_TTL_HOURS'', Some (num (SESSION_TTL_HOURS (en_config e)))),
     (''APP_ENCRYPTION_KEY'', Some (APP_ENCRYPTION_KEY e)),
     (''LOGIN_MAX_ATTEMPTS'', Some (num (LOGIN_MAX_ATTEMPTS (en_config e)))),
     (''LOGIN_WINDOW_SECONDS'', Some (num (LOGIN_WINDOW_SECONDS (en_config e)))),
     (''REDIS_URL'', Some (REDIS_URL e)),
     (''REDIS_ENABLED'', Some (env_bool (REDIS_ENABLED e))),
     (''REDIS_PREFIX'', Some (REDIS_PREFIX (en_config e))),
     (''CORRELATION_HEADER_NAME'', Some (CORRELATION_HEADER_NAME e)),
     (''OTEL_ENABLED'', Some (env_bool (OTEL_ENABLED e))),
     (''OTEL_SERVICE_NAME'', Some (OTEL_SERVICE_NAME e)),
     (''OTEL_EXPORTER_OTLP_ENDPOINT'', OTEL_EXPORTER_OTLP_ENDPOINT e),
     (''OTEL_EXPORTER_OTLP_HEADERS'', OTEL_EXPORTER_OTLP_HEADERS e),
     (''JOB_WORKER_INLINE'', Some (env_bool (JOB_WORKER_INLINE e))),
     (''JOB_WORKER_POLL_MS'', Some (num (JOB_WORKER_POLL_MS e))),
     (''JOB_LOCK_TTL_SECONDS'', Some (num (JOB_LOCK_TTL_SECONDS (en_config e)))),
     (''JOB_RETRY_MAX_ATTEMPTS_BUCKET_SYNC'', Some (num (JOB_RETRY_MAX_ATTEMPTS_BUCKET_SYNC (en_config e)))),
     (''JOB_RETRY_MAX_ATTEMPTS_UPLOAD_CLEANUP'', Some (num (JOB_RETRY_MAX_ATTEMPTS_UPLOAD_CLEANUP (en_config e)))),
     (''JOB_RETRY_MAX_ATTEMPTS_RETENTION_CLEANUP'', Some (num (JOB_RETRY_MAX_ATTEMPTS_RETENTION_CLEANUP (en_config e)))),
     (''JOB_RETRY_BACKOFF_SECONDS_BUCKET_SYNC'', Some (num (JOB_RETRY_BACKOFF_SECONDS_BUCKET_SYNC (en_config e)))),
     (''JOB_RETRY_BACKOFF_SECONDS_UPLOAD_CLEANUP'', Some (num (JOB_RETRY_BACKOFF_SECONDS_UPLOAD_CLEANUP (en_config e)))),
     (''JOB_RETRY_BACKOFF_SECONDS_RETENTION_CLEANUP'', Some (num (JOB_RETRY_BACKOFF_SECONDS_RETENTION_CLEANUP (en_config e)))),
     (''JOB_RETRY_MAX_BACKOFF_SECONDS'', Some (num (JOB_RETRY_MAX_BACKOFF_SECONDS (en_config e)))),
     (''UPLOAD_SESSION_TTL_HOURS'', Some (num (UPLOAD_SESSION_TTL_HOURS (en_config e)))),
     (''UPLOAD_PART_SIZE_BYTES'', Some (num (UPLOAD_PART_SIZE_BYTES (en_config e)))),
     (''UPLOAD_CLEANUP_BATCH_SIZE'', Some (num (UPLOAD_CLEANUP_BATCH_SIZE (en_config e)))),
     (''RETENTION_JOB_EVENTS_DAYS'', Some (num (RETENTION_JOB_EVENTS_DAYS (en_config e)))),
     (''RETENTION_FAILED_JOB_DAYS'', Some (num (RETENTION_FAILED_JOB_DAYS (en_config e)))),
     (''RETENTION_TERMINAL_JOB_DAYS'', Some (num (RETENTION_TERMINAL_JOB_DAYS (en_config e)))),
     (''RETENTION_AUDIT_LOG_DAYS'', Some (num (RETENTION_AUDIT_LOG_DAYS (en_config e)))),
     (''RETENTION_SECURITY_AUDIT_DAYS'', Some (num (RETENTION_SECURITY_AUDIT_DAYS (en_config e)))),
     (''RETENTION_UPLOAD_SESSION_DAYS'', Some (num (RETENTION_UPLOAD_SESSION_DAYS (en_config e)))),
     (''RETENTION_ARCHIVE_ENABLED'', Some (env_bool (RETENTION_ARCHIVE_ENABLED (en_config e)))),
     (''RETENTION_ARCHIVE_BATCH_SIZE'', Some (num (RETENTION_ARCHIVE_BATCH_SIZE (en_config e)))),
     (''ARCHIVE_RETENTION_AUDIT_LOG_DAYS'', Some (num (ARCHIVE_RETENTION_AUDIT_LOG_DAYS (en_config e)))),
     (''ARCHIVE_RETENTION_JOB_EVENT_DAYS'', Some (num (ARCHIVE_RETENTION_JOB_EVENT_DAYS (en_config e)))),
     (''ARCHIVE_RETENTION_SECURITY_AUDIT_DAYS'', Some (num (ARCHIVE_RETENTION_SECURITY_AUDIT_DAYS (en_config e)))),
     (''MAINTENANCE_SCHEDULER_ENABLED'', Some (env_bool (MAINTENANCE_SCHEDULER_ENABLED (en_config e)))),
     (''MAINTENANCE_SCHEDULER_TICK_SECONDS'', Some (num (MAINTENANCE_SCHEDULER_TICK_SECONDS (en_config e)))),
     (''MAINTENANCE_SCHEDULER_LOCK_TTL_SECONDS'', Some (num (MAINTENANCE_SCHEDULER_LOCK_TTL_SECONDS (en_config e)))),
     (''MAINTENANCE_TASK_RETENTION_ENABLED'', Some (env_bool (MAINTENANCE_TASK_RETENTION_ENABLED (en_config e)))),
     (''MAINTENANCE_TASK_UPLOAD_CLEANUP_ENABLED'', Some (env_bool (MAINTENANCE_TASK_UPLOAD_CLEANUP_ENABLED (en_config e)))),
     (''MAINTENANCE_TASK_BUCKET_SYNC_ENABLED'', Some (env_bool (MAINTENANCE_TASK_BUCKET_SYNC_ENABLED (en_config e)))),
     (''MAINTENANCE_RETENTION_INTERVAL_MINUTES'', Some (num (MAINTENANCE_RETENTION_INTERVAL_MINUTES (en_config e)))),
     (''MAINTENANCE_UPLOAD_CLEANUP_INTERVAL_MINUTES'', Some (num (MAINTENANCE_UPLOAD_CLEANUP_INTERVAL_MINUTES (en_config e)))),
     (''MAINTENANCE_BUCKET_SYNC_INTERVAL_MINUTES'', Some (num (MAINTENANCE_BUCKET_SYNC_INTERVAL_MINUTES (en_config e)))),
     (''GARAGE_ENDPOINT'', GARAGE_ENDPOINT (en_config e)),
     (''GARAGE_REGION'', Some (GARAGE_REGION (en_config e))),
     (''GARAGE_FORCE_PATH_STYLE'', Some (env_bool (GARAGE_FORCE_PATH_STYLE (en_config e)))),
     (''GARAGE_ACCESS_KEY_ID'', GARAGE_ACCESS_KEY_ID (en_config e)),
     (''GARAGE_SECRET_ACCESS_KEY'', GARAGE_SECRET_ACCESS_KEY (en_config e)),
     (''GARAGE_ADMIN_API_URL'', GARAGE_ADMIN_API_URL (en_config e)),
     (''GARAGE_ADMIN_TOKEN'', GARAGE_ADMIN_TOKEN (en_config e)),
     (''DEFAULT_SUPER_ADMIN_USERNAME'', Some (DEFAULT_SUPER_ADMIN_USERNAME e)),
     (''DEFAULT_SUPER_ADMIN_PASSWORD'', Some (DEFAULT_SUPER_ADMIN_PASSWORD e)),
     (''DEFAULT_SUPER_ADMIN_EMAIL'', Some (DEFAULT_SUPER_ADMIN_EMAIL e))]"

definition print_env :: "(int \<Rightarrow> string) \<Rightarrow> app_env \<Rightarrow> process_env" where
  "print_env num e name = or_else (map_of (env_entries num e) name) None"

definition keeps :: "(app_env \<Rightarrow> bool) \<Rightarrow> env_key \<Rightarrow> bool" where
  "keeps P f \<longleftrightarrow> (\<forall>env e e'. P e \<longrightarrow> f env e = Some e' \<longrightarrow> P e')"

lemma keeps_key: "(\<And>v x e. p v = Some x \<Longrightarrow> P e \<Longrightarrow> P (upd (\<lambda>_. x) e)) \<Longrightarrow> keeps P (schema_key n p upd)"
  by (auto simp: keeps_def schema_key_def)

lemma parse_keys_keeps: "list_all (keeps P) fs \<Longrightarrow> P e \<Longrightarrow> parse_keys fs env e = Some e' \<Longrightarrow> P e'"
  by (induction fs arbitrary: e) (auto simp: bind_opt_Some keeps_def)

lemma z_env_int_range: "z_env_int E lo hi d v = Some n \<Longrightarrow> lo \<le> d \<Longrightarrow> d \<le> hi \<Longrightarrow> in_range lo hi n"
  by (auto simp: z_env_int_def z_default_def in_range_def split: if_splits dest: z_int_in_bounds)

lemma z_checked_ok: "z_checked P v = Some s \<Longrightarrow> P s"
  by (auto simp: z_checked_def split: option.splits if_splits)

lemma z_default_checked: "z_default d (z_checked P) v = Some s \<Longrightarrow> P d \<Longrightarrow> P s"
  by (auto simp: z_default_def split: if_splits dest: z_checked_ok)

lemma z_opt_url: "z_opt (z_checked (es_url E)) v = Some u \<Longrightarrow> url_opt E u"
  by (auto simp: z_opt_def url_opt_def split: if_splits dest: z_checked_ok)

lemma envSchema_keeps:
  assumes "syntax_ok E num"
  shows "list_all (keeps (env_ok E)) (envSchema E)"
  unfolding envSchema_def list.pred_inject
  by (intro conjI TrueI keeps_key;
      use assms in \<open>auto simp: env_ok_def config_ok_def in_config_def syntax_ok_def
        dest: z_env_int_range z_default_checked z_opt_url\<close>)

lemma parse_keys_sets:
  assumes "list_all (keeps P) fs" and "f \<in> set fs" and "\<And>env e e'. f env e = Some e' \<Longrightarrow> P e'"
    and "parse_keys fs env e = Some e'"
  shows "P e'"
  using assms(1,2,4)
proof (induction fs arbitrary: e)
  case (Cons g gs)
  then obtain e1 where e1: "g env e = Some e1" "parse_keys gs env e1 = Some e'" by (auto simp: bind_opt_Some)
  show ?case
  proof (cases "f = g")
    case True
    with assms(3) e1 Cons.prems(1) show ?thesis by (auto intro: parse_keys_keeps)
  next
    case False
    with Cons e1 show ?thesis by auto
  qed
qed simp

lemma z_string_min_length: "z_string_min n v = Some x \<Longrightarrow> n \<le> length x"
  by (auto simp: z_string_min_def split: option.splits if_splits)

lemma parsed_secrets:
  assumes "loadEnv E env = Some e"
  shows "secrets_ok e"
proof -
  have run: "parse_keys (envSchema E) env blank_env = Some e" using assms by (simp add: loadEnv_def)
  have "list_all (keeps (\<lambda>e. 1 \<le> length (DATABASE_URL e))) (envSchema E)"
    unfolding envSchema_def list.pred_inject
    by (intro conjI TrueI keeps_key; auto simp: in_config_def dest: z_string_min_length)
  then have "1 \<le> length (DATABASE_URL e)"
    by (rule parse_keys_sets [where f = "schema_key ''DATABASE_URL'' (z_string_min 1) DATABASE_URL_update", OF _ _ _ run])
       (auto simp: envSchema_def schema_key_def dest: z_string_min_length)
  moreover have "list_all (keeps (\<lambda>e. 32 \<le> length (APP_ENCRYPTION_KEY e))) (envSchema E)"
    unfolding envSchema_def list.pred_inject
    by (intro conjI TrueI keeps_key; auto simp: in_config_def dest: z_string_min_length)
  then have "32 \<le> length (APP_ENCRYPTION_KEY e)"
    by (rule parse_keys_sets [where f = "schema_key ''APP_ENCRYPTION_KEY'' (z_string_min 32) APP_ENCRYPTION_KEY_update", OF _ _ _ run])
       (auto simp: envSchema_def schema_key_def dest: z_string_min_length)
  ultimately show ?thesis by (auto simp: secrets_ok_def)
qed

text \<open>Reading back what was printed.\<close>

lemma z_env_int_print: "syntax_ok E num \<Longrightarrow> in_range lo hi n \<Longrightarrow> z_env_int E lo hi d (JStr (num n)) = Some n"
  by (simp add: z_env_int_def z_default_def z_int_in_def syntax_ok_def in_range_def)

lemma z_env_bool_print: "z_env_bool d (JStr (env_bool b)) = Some b"
  by (simp add: z_env_bool_def z_default_def env_bool_def)

lemma z_node_env_print: "z_node_env (JStr (env_mode m)) = Some m"
  by (cases m) (simp_all add: z_node_env_def z_default_def env_mode_def)

lemma z_string_print: "z_default d z_string (JStr s) = Some s"
  by (simp add: z_default_def)

lemma z_checked_print: "ok_string s \<Longrightarrow> z_default d (z_checked ok_string) (JStr s) = Some s"
  by (simp add: z_default_def z_checked_def)

lemma z_min_print: "n \<le> length s \<Longrightarrow> z_string_min n (JStr s) = Some s"
  by (simp add: z_string_min_def)

lemma z_url_print: "url_opt E v \<Longrightarrow> v = Some s \<Longrightarrow> z_checked (es_url E) (JStr s) = Some s"
  by (simp add: z_checked_def url_opt_def)

lemma z_plain_print: "z_string (JStr s) = Some s"
  by simp

lemma key_print_Some: "env n = Some s \<Longrightarrow> p (JStr s) = Some x \<Longrightarrow> schema_key n p upd env e = Some (upd (\<lambda>_. x) e)"
  by (simp add: schema_key_def env_value_def)

lemma key_print_opt: "env n = v \<Longrightarrow> (\<And>s. v = Some s \<Longrightarrow> p (JStr s) = Some s) \<Longrightarrow>
    schema_key n (z_opt p) upd env e = Some (upd (\<lambda>_. v) e)"
  by (cases v) (simp_all add: schema_key_def env_value_def z_opt_def)

lemma parse_keys_step: "f env e = Some e1 \<Longrightarrow> parse_keys fs env e1 = Some e' \<Longrightarrow> parse_keys (f # fs) env e = Some e'"
  by simp

lemma parse_keys_stop: "e = e' \<Longrightarrow> parse_keys [] env e = Some e'"
  by simp

lemma env_entries_distinct: "distinct (map fst (env_entries num e))"
  by (simp add: env_entries_def)

lemma print_env_entries: "list_all (\<lambda>(n, v). print_env num e n = v) (env_entries num e)"
  by (auto simp: list_all_iff print_env_def env_entries_distinct)

lemma load_printed:
  assumes sy: "syntax_ok E num" and ok: "env_ok E e" "secrets_ok e"
  shows "loadEnv E (print_env num e) = Some e"
proof -
  define env where "env = print_env num e"
  note look = print_env_entries [of num e, folded env_def, unfolded env_entries_def list.pred_inject prod.case]
  have urls: "es_url E (APP_BASE_URL e)" "es_url E (REDIS_URL e)" "es_email E (DEFAULT_SUPER_ADMIN_EMAIL e)"
      "url_opt E (OTEL_EXPORTER_OTLP_ENDPOINT e)" "url_opt E (GARAGE_ENDPOINT (en_config e))"
      "url_opt E (GARAGE_ADMIN_API_URL (en_config e))"
    and rng: "config_ok (en_config e) \<and> in_range 1 65535 (PORT e) \<and> in_range 250 60000 (JOB_WORKER_POLL_MS e)"
    using ok(1) by (simp_all add: env_ok_def)
  note rngs = rng [unfolded config_ok_def]
  have secrets: "1 \<le> length (DATABASE_URL e)" "32 \<le> length (APP_ENCRYPTION_KEY e)"
    using ok(2) by (auto simp: secrets_ok_def Suc_le_eq)
  note prints = z_env_bool_print z_node_env_print z_string_print z_checked_print [of "es_url E", OF urls(1)]
    z_checked_print [of "es_url E", OF urls(2)] z_checked_print [of "es_email E", OF urls(3)]
    secrets [THEN z_min_print] urls(4-6) [THEN z_url_print] z_plain_print
  show ?thesis
    unfolding loadEnv_def envSchema_def env_def [symmetric]
    by ((rule parse_keys_step, (rule key_print_opt | rule key_print_Some), simp only: look,
         ((rule prints; assumption?) | (rule z_env_int_print [OF sy], simp only: rngs)))+,
        rule parse_keys_stop, simp add: in_config_def blank_env_def)
qed

text \<open>
  C40. What the environment schema lets through, exactly. Whatever variables are set, a parsed environment obeys
  every bound of the schema: all intervals, limits and windows the services divide by or wait for are positive and
  capped, the URLs are URLs, the database is named and the encryption key has at least 32 characters. Conversely every
  record with these bounds can be written as variables and is read back unchanged, each setting from its own variable.
  With nothing but the two required variables the result is the default of every setting.
\<close>

theorem environment_parsed:
  assumes "syntax_ok E num"
  shows "(loadEnv E env = Some e \<longrightarrow> env_ok E e \<and> secrets_ok e)
    \<and> (env_ok E e \<and> secrets_ok e \<longrightarrow> loadEnv E (print_env num e) = Some e)
    \<and> (u \<noteq> [] \<and> 32 \<le> length k \<longrightarrow> loadEnv E [''DATABASE_URL'' \<mapsto> u, ''APP_ENCRYPTION_KEY'' \<mapsto> k]
        = Some (blank_env\<lparr>DATABASE_URL := u, APP_ENCRYPTION_KEY := k\<rparr>))"
proof (intro conjI impI; (elim conjE)?)
  assume run: "loadEnv E env = Some e"
  have "env_ok E blank_env"
    using assms default_config_ok by (simp add: env_ok_def blank_env_def syntax_ok_def url_opt_def in_range_def default_config_def)
  with run show "env_ok E e"
    using parse_keys_keeps [OF envSchema_keeps [OF assms]] unfolding loadEnv_def by blast
  show "secrets_ok e" by (rule parsed_secrets [OF run])
next
  assume "env_ok E e" and "secrets_ok e"
  then show "loadEnv E (print_env num e) = Some e" by (rule load_printed [OF assms])
next
  assume ok: "u \<noteq> []" "32 \<le> length k"
  then have "z_string_min 1 (JStr u) = Some u" "z_string_min 32 (JStr k) = Some k"
    by (simp_all add: z_string_min_def Suc_le_eq)
  then show "loadEnv E [''DATABASE_URL'' \<mapsto> u, ''APP_ENCRYPTION_KEY'' \<mapsto> k]
        = Some (blank_env\<lparr>DATABASE_URL := u, APP_ENCRYPTION_KEY := k\<rparr>)"
    by (simp add: loadEnv_def envSchema_def schema_key_def env_value_def z_env_int_def z_env_bool_def z_node_env_def
        z_default_def z_opt_def in_config_def blank_env_def default_config_def)
qed

text \<open>Decimal numerals as a concrete syntax.\<close>

definition demo_num :: "int \<Rightarrow> string" where
  "demo_num n = (if n < 0 then CHR ''-'' # nat_to_string (nat (- n)) else nat_to_string (nat n))"

definition demo_num_of :: "string \<Rightarrow> rat option" where
  "demo_num_of s = (case js_number s of Some n \<Rightarrow> Some (of_nat n)
     | None \<Rightarrow> map_option (\<lambda>n. - of_nat n) (js_number (tl s)))"

definition demo_syntax :: env_syntax where
  "demo_syntax = \<lparr>es_num_of = demo_num_of, es_url = (\<lambda>u. str_includes u ''://''), es_email = (\<lambda>u. str_includes u ''@'')\<rparr>"

lemma demo_syntax_ok: "syntax_ok demo_syntax demo_num"
proof -
  have "js_number (CHR ''-'' # t) = None" for t by (simp add: js_number_def)
  then have "demo_num_of (demo_num n) = Some (of_int n)" for n
    by (auto simp: demo_num_of_def demo_num_def js_number_nat_to_string)
  moreover have "str_includes ''http://localhost:4000'' ''://''" "str_includes ''redis://127.0.0.1:6379'' ''://''"
    "str_includes ''admin@example.local'' ''@''" by code_simp+
  ultimately show ?thesis by (simp add: syntax_ok_def demo_syntax_def)
qed

definition demo_env :: app_env where
  "demo_env = blank_env\<lparr>DATABASE_URL := ''postgresql://db'', APP_ENCRYPTION_KEY := replicate 32 CHR ''k'', PORT := 8080,
     REDIS_ENABLED := False, en_config := default_config\<lparr>JOB_LOCK_TTL_SECONDS := 120\<rparr>\<rparr>"

theorem environment_parsed_witness:
  "loadEnv demo_syntax (print_env demo_num demo_env) = Some demo_env \<and> env_ok demo_syntax demo_env \<and> secrets_ok demo_env"
proof -
  have "env_ok demo_syntax demo_env" and "secrets_ok demo_env" by code_simp+
  with environment_parsed [OF demo_syntax_ok, of Map.empty demo_env] show ?thesis by blast
qed

section \<open>Request identifiers\<close>

datatype header = H_one string | H_many "string list"

definition js_space :: "char \<Rightarrow> bool" where
  "js_space c = (let n = (of_char c :: nat) in (9 \<le> n \<and> n \<le> 13) \<or> n = 32 \<or> n = 160)"

definition js_trim :: "string \<Rightarrow> string" where
  "js_trim s = rev (dropWhile js_space (rev (dropWhile js_space s)))"

text \<open>The middleware of \<open>main.ts\<close>: the identifier of a request, which goes into its context and into the response.\<close>

definition request_id :: "string \<Rightarrow> (string \<Rightarrow> header option) \<Rightarrow> string \<Rightarrow> string" where
  "request_id headerName headers uuid =
     (let given = (case headers (to_lower headerName) of None \<Rightarrow> [] | Some (H_one s) \<Rightarrow> s
                   | Some (H_many []) \<Rightarrow> [] | Some (H_many (s # _)) \<Rightarrow> s);
          trimmed = js_trim given
      in if trimmed = [] then uuid else trimmed)"

definition request_middleware :: "string \<Rightarrow> (string \<Rightarrow> header option) \<Rightarrow> string \<Rightarrow> (string \<times> string) \<times> request_context" where
  "request_middleware headerName headers uuid = (let i = request_id headerName headers uuid in
     ((headerName, i), \<lparr>rc_requestId = i, rc_correlationId = i, rc_source = CtxHttp, rc_userId = None, rc_jobId = None\<rparr>))"

lemma request_id_nonempty: "uuid \<noteq> [] \<Longrightarrow> request_id headerName headers uuid \<noteq> []"
  by (simp add: request_id_def Let_def)

text \<open>\<open>readBooleanEnv\<close>, which \<open>main.ts\<close> and \<open>worker.ts\<close> use before the schema is parsed.\<close>

definition readBooleanEnv :: "string option \<Rightarrow> bool \<Rightarrow> bool" where
  "readBooleanEnv v fallback = (case v of None \<Rightarrow> fallback | Some s \<Rightarrow> s = ''true'' \<or> s = ''1'')"

lemma flags_differ: "readBooleanEnv (Some ''1'') False \<and> z_env_bool False (JStr ''1'') = Some False"
  by (simp add: readBooleanEnv_def z_env_bool_def z_default_def)

section \<open>Tracing\<close>

text \<open>\<open>resolveTraceUrl\<close> and \<open>parseOtlpHeaders\<close> of \<open>otel.ts\<close>. \<open>result["__proto__"] = text\<close> adds no key to an object.\<close>

definition resolveTraceUrl :: "string option \<Rightarrow> string option" where
  "resolveTraceUrl endpoint = (case endpoint of None \<Rightarrow> None | Some u \<Rightarrow> if u = [] then None else
     (let normalized = rev (dropWhile (\<lambda>c. c = CHR ''/'') (rev u)) in
      if ends_with normalized ''/v1/traces'' then Some normalized else Some (normalized @ ''/v1/traces'')))"

fun str_split :: "char \<Rightarrow> string \<Rightarrow> string list" where
  "str_split d [] = [[]]"
| "str_split d (c # s) = (if c = d then [] # str_split d s
     else (case str_split d s of [] \<Rightarrow> [[c]] | w # ws \<Rightarrow> (c # w) # ws))"

fun str_join :: "string \<Rightarrow> string list \<Rightarrow> string" where
  "str_join d [] = []"
| "str_join d [s] = s"
| "str_join d (s # t # ts) = s @ d @ str_join d (t # ts)"

definition parse_header_pair :: "string \<Rightarrow> (string \<times> string) option" where
  "parse_header_pair pair =
     (let parts = str_split (CHR ''='') pair; k = js_trim (hd parts); v = js_trim (str_join ''='' (tl parts))
      in if k = [] \<or> v = [] then None else Some (k, v))"

definition parseOtlpHeaders :: "string option \<Rightarrow> (string \<rightharpoonup> string) option" where
  "parseOtlpHeaders value = (case value of None \<Rightarrow> None | Some s \<Rightarrow> if s = [] then None else
     (let kvs = filter (\<lambda>(k, _). k \<noteq> ''__proto__'') (List.map_filter parse_header_pair (str_split (CHR '','') s))
      in if kvs = [] then None else Some (map_of (rev kvs))))"

text \<open>The SDK is started at most once, and its failures stay inside: \<open>sdk\<close> and \<open>started\<close> are the state of the module.\<close>

record telemetry =
  tel_sdk :: bool
  tel_started :: bool

record telemetry_input =
  ti_enabled :: bool
  ti_serviceName :: string
  ti_otlpEndpoint :: "string option"
  ti_otlpHeaders :: "string option"

record 'w otel_sdk =
  os_start :: "string option \<Rightarrow> (string \<rightharpoonup> string) option \<Rightarrow> string \<Rightarrow> ('w, unit) eff"
  os_shutdown :: "('w, unit) eff"

definition initTelemetry :: "'w otel_sdk \<Rightarrow> telemetry_input \<Rightarrow> (telemetry \<times> 'w, unit) eff" where
  "initTelemetry K inp = (\<lambda>(t, w).
     if tel_started t \<or> \<not> ti_enabled inp then (Inr (), (t, w))
     else (case os_start K (resolveTraceUrl (ti_otlpEndpoint inp)) (parseOtlpHeaders (ti_otlpHeaders inp)) (ti_serviceName inp) w of
         (Inr _, w') \<Rightarrow> (Inr (), (\<lparr>tel_sdk = True, tel_started = True\<rparr>, w'))
       | (Inl _, w') \<Rightarrow> (Inr (), (\<lparr>tel_sdk = False, tel_started = False\<rparr>, w'))))"

definition shutdownTelemetry :: "'w otel_sdk \<Rightarrow> (telemetry \<times> 'w, unit) eff" where
  "shutdownTelemetry K = (\<lambda>(t, w).
     if \<not> tel_sdk t then (Inr (), (t, w))
     else (case os_shutdown K w of (_, w') \<Rightarrow> (Inr (), (\<lparr>tel_sdk = False, tel_started = False\<rparr>, w'))))"

definition telemetry_ok :: "telemetry \<Rightarrow> bool" where
  "telemetry_ok t \<longleftrightarrow> tel_sdk t = tel_started t"

lemma initTelemetry_total:
  assumes "telemetry_ok t"
  shows "\<exists>t' w'. initTelemetry K inp (t, w) = (Inr (), (t', w')) \<and> telemetry_ok t'
    \<and> (\<not> ti_enabled inp \<or> tel_started t \<longrightarrow> t' = t \<and> w' = w)"
  using assms by (auto simp: initTelemetry_def telemetry_ok_def split: prod.splits sum.splits)

lemma initTelemetry_once:
  "initTelemetry K inp (t, w) = (Inr (), (t', w')) \<Longrightarrow> tel_started t' \<Longrightarrow> initTelemetry K inp' (t', w') = (Inr (), (t', w'))"
  by (simp add: initTelemetry_def)

lemma shutdownTelemetry_total:
  assumes "telemetry_ok t"
  shows "\<exists>w'. shutdownTelemetry K (t, w) = (Inr (), (\<lparr>tel_sdk = False, tel_started = False\<rparr>, w'))"
  using assms by (cases t) (auto simp: shutdownTelemetry_def telemetry_ok_def split: prod.splits)

lemma trace_url_path: "resolveTraceUrl endpoint = Some u \<Longrightarrow> ends_with u ''/v1/traces''"
  by (auto simp: resolveTraceUrl_def Let_def ends_with_suffix split: option.splits if_splits intro: suffix_appendI)

end
