(* ===== verification/WebPage.thy ===== *)
theory WebPage
  imports WebUploadProps Authz
begin

text \<open>
  The client's side of an upload: \<open>apps/web/lib/api-client.ts\<close> and \<open>handleUploadFiles\<close> of
  \<open>apps/web/app/files/page.tsx\<close>. The browser acts on a world of any type: \<open>fetch\<close> for the API and for the PUT of a
  part, the abort signal, time. \<open>JSON.stringify\<close> and \<open>JSON.parse\<close> are parameters, and so is the reading of a response
  at its declared type, which the code does by an unchecked cast. A call of the API is one step; the moves of uploads
  that go on after the upload was rejected come after the call that closes the session.
\<close>

section \<open>The API client\<close>

record web_response =
  wr_ok :: bool
  wr_status :: int
  wr_text :: string

record resumable =
  rs_id :: string
  rs_completedParts :: "completed_part list"

record 'w browser =
  br_base :: string
  br_fetch :: "string \<Rightarrow> string \<Rightarrow> (string \<times> string) list \<Rightarrow> string option \<Rightarrow> 'w \<Rightarrow> (upload_error + web_response) \<times> 'w"
  br_put :: "string \<Rightarrow> string option \<Rightarrow> string \<Rightarrow> 'w \<Rightarrow> (upload_error + put_response) \<times> 'w"
  br_aborted :: "'w \<Rightarrow> bool"
  br_sleep :: "nat \<Rightarrow> 'w \<Rightarrow> 'w"
  br_stringify :: "json \<Rightarrow> string"
  br_parse :: "string \<Rightarrow> json option"
  br_parse_error :: "string \<Rightarrow> string"
  br_session :: "json \<Rightarrow> resumable option"
  br_init :: "json \<Rightarrow> string"
  br_signed :: "json \<Rightarrow> signed_part list"

type_synonym ('s, 'a) act = "'s \<Rightarrow> (upload_error + 'a) \<times> 's"

definition act_ok :: "'a \<Rightarrow> ('s, 'a) act" where
  "act_ok x = (\<lambda>s. (Inr x, s))"

definition act_bind :: "('s, 'a) act \<Rightarrow> ('a \<Rightarrow> ('s, 'b) act) \<Rightarrow> ('s, 'b) act" where
  "act_bind m f = (\<lambda>s. case m s of (Inl e, s1) \<Rightarrow> (Inl e, s1) | (Inr x, s1) \<Rightarrow> f x s1)"

text \<open>The module keeps the CSRF token beside the network.\<close>

type_synonym 'w client = "'w \<times> string option"

definition raw_fetch :: "'w browser \<Rightarrow> string \<Rightarrow> string \<Rightarrow> (string \<times> string) list \<Rightarrow> string option \<Rightarrow> ('w client, web_response) act" where
  "raw_fetch B m path headers body = (\<lambda>(w, tok). case br_fetch B m (br_base B @ path) headers body w of (r, w1) \<Rightarrow> (r, (w1, tok)))"

definition response_json :: "'w browser \<Rightarrow> web_response \<Rightarrow> ('s, json) act" where
  "response_json B r = (\<lambda>s. case br_parse B (wr_text r) of
     None \<Rightarrow> (Inl (UploadError (br_parse_error B (wr_text r))), s) | Some v \<Rightarrow> (Inr v, s))"

definition usable :: "string option \<Rightarrow> bool" where
  "usable tok = (case tok of None \<Rightarrow> False | Some t \<Rightarrow> t \<noteq> [])"

definition payload_token :: "json \<Rightarrow> string option" where
  "payload_token v = (case jget v ''csrfToken'' of JStr t \<Rightarrow> Some t | _ \<Rightarrow> None)"

definition ensureCsrfToken :: "'w browser \<Rightarrow> ('w client, string option) act" where
  "ensureCsrfToken B = (\<lambda>(w, tok).
     if usable tok then (Inr tok, (w, tok))
     else act_bind (raw_fetch B ''GET'' ''/auth/csrf'' [] None) (\<lambda>response.
       if \<not> wr_ok response then act_ok None
       else act_bind (response_json B response) (\<lambda>payload (w1, _).
         (Inr (payload_token payload), (w1, payload_token payload)))) (w, tok))"

definition set_header :: "string \<Rightarrow> string \<Rightarrow> (string \<times> string) list \<Rightarrow> (string \<times> string) list" where
  "set_header name val headers = filter (\<lambda>(n, _). n \<noteq> name) headers @ [(name, val)]"

definition csrf_header :: "'w browser \<Rightarrow> string \<Rightarrow> (string \<times> string) list \<Rightarrow> ('w client, (string \<times> string) list) act" where
  "csrf_header B m headers =
     (if to_upper m \<in> {''GET'', ''HEAD'', ''OPTIONS''} then act_ok headers
      else act_bind (ensureCsrfToken B) (\<lambda>token.
        act_ok (if usable token then set_header ''x-csrf-token'' (or_else token []) headers else headers)))"

text \<open>The error of a refused request is the text of the response: the one made from the parsed payload is thrown inside
  the \<open>try\<close> and replaced by the \<open>catch\<close>.\<close>

definition apiFetch :: "'w browser \<Rightarrow> string \<Rightarrow> string \<Rightarrow> (string \<times> string) list \<Rightarrow> string option \<Rightarrow> ('w client, json) act" where
  "apiFetch B m path headers0 body =
     act_bind (csrf_header B m headers0) (\<lambda>headers1.
     let headers = (if usable body \<and> ''content-type'' \<notin> fst ` set headers1
                    then set_header ''content-type'' ''application/json'' headers1 else headers1) in
     act_bind (raw_fetch B m path headers body) (\<lambda>response.
       if \<not> wr_ok response
       then (\<lambda>s. (Inl (UploadError (if wr_text response \<noteq> [] then wr_text response
                    else ''Request failed: '' @ nat_to_string (nat (wr_status response)))), s))
       else if wr_status response = 204 then act_ok JUndef
       else response_json B response))"

definition clearClientState :: "'w client \<Rightarrow> 'w client" where
  "clearClientState = (\<lambda>(w, _). (w, None))"

section \<open>The page\<close>

datatype job_state = J_queued | J_running | J_done | J_aborted | J_error

record upload_job =
  uj_id :: string
  uj_name :: string
  uj_progress :: int
  uj_status :: job_state
  uj_uploadSessionId :: "string option"
  uj_error :: "string option"

text \<open>The state of the page an upload works on: the client, \<open>completedPartsMap\<close> (its values), the shown jobs.\<close>

record 'w page_state =
  pg_net :: "'w client"
  pg_parts :: "completed_part list"
  pg_jobs :: "upload_job list"

record page_file =
  pf_name :: string
  pf_webkitRelativePath :: string
  pf_type :: string
  pf_bytes :: string

definition PART_SIZE :: int where
  "PART_SIZE = 10 * 1024 * 1024"

text \<open>\<open>value.replaceAll("\\", "/").replace(/^\/+/, "")\<close>.\<close>

definition normalizeObjectKey :: "string \<Rightarrow> string" where
  "normalizeObjectKey v = dropWhile (\<lambda>c. c = slash) (map (\<lambda>c. if c = CHR 0x5C then slash else c) v)"

definition record_part :: "completed_part \<Rightarrow> completed_part list \<Rightarrow> completed_part list" where
  "record_part c ps = (if cp_partNumber c \<in> cp_partNumber ` set ps
     then map (\<lambda>q. if cp_partNumber q = cp_partNumber c then c else q) ps else ps @ [c])"

definition set_job :: "string \<Rightarrow> (upload_job \<Rightarrow> upload_job) \<Rightarrow> 'w page_state \<Rightarrow> 'w page_state" where
  "set_job i f p = p\<lparr>pg_jobs := map (\<lambda>j. if uj_id j = i then f j else j) (pg_jobs p)\<rparr>"

definition page_api :: "'w browser \<Rightarrow> string \<Rightarrow> json option \<Rightarrow> (json \<Rightarrow> 'a) \<Rightarrow> ('w page_state, 'a) act" where
  "page_api B path body cast = (\<lambda>p. case apiFetch B ''POST'' path [] (map_option (br_stringify B) body) (pg_net p) of
     (r, n) \<Rightarrow> (map_sum id cast r, p\<lparr>pg_net := n\<rparr>))"

definition multipart_path :: "string \<Rightarrow> string \<Rightarrow> string" where
  "multipart_path sessionId op = ''/files/multipart/'' @ sessionId @ op"

definition completed_json :: "completed_part \<Rightarrow> json" where
  "completed_json c = JObj [(''partNumber'', jint (cp_partNumber c)), (''eTag'', JStr (cp_eTag c))]"

definition file_size :: "page_file \<Rightarrow> int" where
  "file_size f = int (length (pf_bytes f))"

definition relative_path :: "page_file \<Rightarrow> string" where
  "relative_path f = (if pf_webkitRelativePath f \<noteq> [] then pf_webkitRelativePath f else pf_name f)"

definition object_key :: "string \<Rightarrow> page_file \<Rightarrow> string" where
  "object_key pre f = normalizeObjectKey (if pre \<noteq> [] then pre @ relative_path f else relative_path f)"

definition content_type :: "page_file \<Rightarrow> string option" where
  "content_type f = (if pf_type f \<noteq> [] then Some (pf_type f) else None)"

section \<open>One upload\<close>

definition recover_body :: "string \<Rightarrow> string \<Rightarrow> page_file \<Rightarrow> json" where
  "recover_body bucket k f = JObj [(''bucket'', JStr bucket), (''key'', JStr k),
     (''fileSize'', jint (file_size f)), (''partSize'', jint PART_SIZE)]"

definition init_body :: "string \<Rightarrow> string \<Rightarrow> page_file \<Rightarrow> json" where
  "init_body bucket k f = JObj [(''bucket'', JStr bucket), (''key'', JStr k),
     (''contentType'', case content_type f of None \<Rightarrow> JUndef | Some t \<Rightarrow> JStr t), (''fileSize'', jint (file_size f)),
     (''partSize'', jint PART_SIZE), (''totalParts'', jint (planned_parts (pf_bytes f) PART_SIZE)),
     (''relativePath'', JStr (relative_path f))]"

definition sign_body :: "int list \<Rightarrow> json" where
  "sign_body ns = JObj [(''partNumbers'', JArr (map jint ns))]"

definition parts_body :: "completed_part list \<Rightarrow> json" where
  "parts_body cs = JObj [(''parts'', JArr (map completed_json cs))]"

text \<open>Up to the session: the one the API can recover, with its parts, or a new one.\<close>

definition begin_session :: "'w browser \<Rightarrow> string \<Rightarrow> string \<Rightarrow> page_file \<Rightarrow> ('w page_state, string) act" where
  "begin_session B bucket pre f =
     act_bind (page_api B ''/files/multipart/recover'' (Some (recover_body bucket (object_key pre f) f)) (br_session B)) (\<lambda>recoverable.
       case recoverable of
         Some x \<Rightarrow> (\<lambda>p. (Inr (rs_id x), p\<lparr>pg_parts := fold record_part (rs_completedParts x) []\<rparr>))
       | None \<Rightarrow> page_api B ''/files/multipart/init'' (Some (init_body bucket (object_key pre f) f)) (br_init B))"

text \<open>The environment of the upload pool: the callback records the part on the page, then reports it.\<close>

definition part_env :: "'w browser \<Rightarrow> string \<Rightarrow> 'w page_state upload_env" where
  "part_env B sessionId = \<lparr>
     ue_fetch = (\<lambda>url t body p. case br_put B url t body (fst (pg_net p)) of (r, w) \<Rightarrow> (r, p\<lparr>pg_net := (w, snd (pg_net p))\<rparr>)),
     ue_aborted = (\<lambda>p. br_aborted B (fst (pg_net p))),
     ue_sleep = (\<lambda>ms p. p\<lparr>pg_net := apfst (br_sleep B ms) (pg_net p)\<rparr>),
     ue_onPartComplete = (\<lambda>c p. page_api B (multipart_path sessionId ''/part-complete'') (Some (completed_json c)) (\<lambda>_. ())
        (p\<lparr>pg_parts := record_part c (pg_parts p)\<rparr>))\<rparr>"

definition upload_opts :: "page_file \<Rightarrow> upload_options" where
  "upload_opts f = \<lparr>uo_file = pf_bytes f, uo_partSize = PART_SIZE, uo_contentType = content_type f,
     uo_concurrency = Some 4, uo_maxRetries = Some 3\<rparr>"

text \<open>The moves up to the one that settles the promise, and those that are left.\<close>

fun pool_until ::
  "'a option list \<Rightarrow> ('a \<Rightarrow> nat \<Rightarrow> ('w, 'e, 'r) thread) \<Rightarrow> nat list
    \<Rightarrow> ('w, 'e, 'r) pool \<times> 'w \<Rightarrow> (('w, 'e, 'r) pool \<times> 'w) \<times> nat list" where
  "pool_until input mapper [] pw = (pw, [])"
| "pool_until input mapper (i # is) pw =
     (if pl_failure (fst pw) \<noteq> None \<or> pool_done (fst pw) then (pw, i # is)
      else pool_until input mapper is (pool_step input mapper i pw))"

text \<open>\<open>Math.round((uploaded / denominator) * 100)\<close>, on exact numbers.\<close>

definition progress_percent :: "int \<Rightarrow> int \<Rightarrow> int \<Rightarrow> int" where
  "progress_percent fileSize already loaded =
     (let uploaded = min fileSize (already + loaded); denominator = (if fileSize > 0 then fileSize else 1)
      in (200 * uploaded + denominator) div (2 * denominator))"

definition show_progress :: "string \<Rightarrow> int \<Rightarrow> int \<Rightarrow> (int \<times> int) list \<Rightarrow> 'w page_state \<Rightarrow> 'w page_state" where
  "show_progress i fileSize already calls =
     set_job i (\<lambda>j. j\<lparr>uj_progress := progress_percent fileSize already (fst (last calls))\<rparr>)"

text \<open>The transfer of the missing parts: \<open>None\<close> while it is pending, else its result, the page, and what the moves
  that are left will do to the page.\<close>

definition transfer ::
  "'w browser \<Rightarrow> page_file \<Rightarrow> string \<Rightarrow> string \<Rightarrow> nat list \<Rightarrow> 'w page_state
    \<Rightarrow> ((upload_error + unit) \<times> 'w page_state \<times> ('w page_state \<Rightarrow> 'w page_state)) option" where
  "transfer B f i sessionId sched p =
     (let have = map cp_partNumber (pg_parts p);
          missing = missing_parts (planned_parts (pf_bytes f) PART_SIZE) have;
          already = calculateUploadedBytes (file_size f) PART_SIZE have
      in if missing = [] then Some (Inr (), set_job i (\<lambda>j. j\<lparr>uj_progress := 100\<rparr>) p, id)
      else case page_api B (multipart_path sessionId ''/sign-parts'') (Some (sign_body missing)) (br_signed B) p of
          (Inl e, p1) \<Rightarrow> Some (Inl e, p1, id)
        | (Inr signed, p1) \<Rightarrow>
            (let input = map Some (ordered_parts signed);
                 work = upload_worker (part_env B sessionId) (upload_opts f);
                 ((pool, p2, acc), rest) = pool_until input work sched (pool_init 4 input, (p1, upload_start (upload_opts f)));
                 p3 = show_progress i (file_size f) already (ua_progress acc) p2;
                 later = (\<lambda>q. fst (snd (pool_run input work rest (pool, (q, acc)))))
             in case pl_failure pool of
                  Some e \<Rightarrow> Some (Inl e, p3, later)
                | None \<Rightarrow> if pool_done pool then Some (Inr (), p3, later) else None))"

definition complete_upload :: "'w browser \<Rightarrow> string \<Rightarrow> string \<Rightarrow> ('w page_state, unit) act" where
  "complete_upload B i sessionId =
     act_bind (\<lambda>p. let completed = sort_by (\<lambda>a b. cp_partNumber a - cp_partNumber b) (pg_parts p) in
       if completed = [] then (Inl (UploadError ''No multipart parts available to complete upload''), p)
       else page_api B (multipart_path sessionId ''/complete'') (Some (parts_body completed)) (\<lambda>_. ()) p)
     (\<lambda>_ p. (Inr (), set_job i (\<lambda>j. j\<lparr>uj_status := J_done, uj_progress := 100\<rparr>) p))"

text \<open>The \<open>catch\<close>: the session is aborted or failed, whose own error is ignored, and the job ends.\<close>

definition upload_message :: "upload_error \<Rightarrow> string" where
  "upload_message e = (case e of AbortError \<Rightarrow> ''Upload aborted'' | UploadError m \<Rightarrow> m)"

definition close_session :: "'w browser \<Rightarrow> string \<Rightarrow> string option \<Rightarrow> upload_error \<Rightarrow> 'w page_state \<Rightarrow> 'w page_state" where
  "close_session B i sessionId e p =
     (let isAbort = (e = AbortError \<or> br_aborted B (fst (pg_net p)));
          x = or_else sessionId [];
          p1 = (if \<not> usable sessionId then p
                else if isAbort then snd (page_api B (multipart_path x ''/abort'') None (\<lambda>_. ()) p)
                else snd (page_api B (multipart_path x ''/fail'') (Some (JObj [(''error'', JStr (upload_message e))])) (\<lambda>_. ()) p))
      in set_job i (\<lambda>j. j\<lparr>uj_status := (if isAbort then J_aborted else J_error),
           uj_error := Some (if isAbort then ''Upload canceled by user'' else upload_message e)\<rparr>) p1)"

definition queued_job :: "string \<Rightarrow> page_file \<Rightarrow> upload_job" where
  "queued_job i f = \<lparr>uj_id = i, uj_name = relative_path f, uj_progress = 0, uj_status = J_queued,
     uj_uploadSessionId = None, uj_error = None\<rparr>"

definition start_job :: "string \<Rightarrow> page_file \<Rightarrow> 'w page_state \<Rightarrow> 'w page_state" where
  "start_job i f p = set_job i (\<lambda>j. j\<lparr>uj_status := J_running, uj_error := None\<rparr>)
     (p\<lparr>pg_jobs := pg_jobs p @ [queued_job i f], pg_parts := []\<rparr>)"

definition upload_file :: "'w browser \<Rightarrow> string \<Rightarrow> string \<Rightarrow> page_file \<Rightarrow> string \<Rightarrow> nat list \<Rightarrow> 'w page_state \<Rightarrow> 'w page_state option" where
  "upload_file B bucket pre f i sched p =
     (case begin_session B bucket pre f (start_job i f p) of
        (Inl e, p1) \<Rightarrow> Some (close_session B i None e p1)
      | (Inr x, p1) \<Rightarrow>
          (case transfer B f i x sched (set_job i (\<lambda>j. j\<lparr>uj_uploadSessionId := Some x\<rparr>) p1) of
             None \<Rightarrow> None
           | Some (Inl e, p2, later) \<Rightarrow> Some (later (close_session B i (Some x) e p2))
           | Some (Inr _, p2, later) \<Rightarrow>
               (case complete_upload B i x p2 of
                  (Inl e, p3) \<Rightarrow> Some (later (close_session B i (Some x) e p3))
                | (Inr _, p3) \<Rightarrow> Some (later p3))))"

text \<open>All files in turn, each with the identifier of its job and an interleaving.\<close>

fun handleUploadFiles :: "'w browser \<Rightarrow> string \<Rightarrow> string \<Rightarrow> (page_file \<times> string \<times> nat list) list \<Rightarrow> 'w page_state \<Rightarrow> 'w page_state option" where
  "handleUploadFiles B bucket pre [] p = Some p"
| "handleUploadFiles B bucket pre ((f, i, sched) # fs) p =
     (if bucket = [] then Some p
      else case upload_file B bucket pre f i sched p of None \<Rightarrow> None | Some q \<Rightarrow> handleUploadFiles B bucket pre fs q)"

text \<open>The links above the listing: the label and the prefix of each folder.\<close>

definition breadcrumbs :: "string \<Rightarrow> (string \<times> string) list" where
  "breadcrumbs pre = rev (snd (foldl (\<lambda>(current, crumbs) part.
     let next = current @ part @ ''/'' in (next, (part, next) # crumbs)) ([], [(''Root'', [])])
       (segments pre)))"

end
