(* ===== verification/WebPageProps.thy ===== *)
theory WebPageProps
  imports WebPage
begin

text \<open>
  What an upload from the page guarantees: its job ends, and a finished upload has completed its session with every
  part of the file, whichever way the requests of the parts interleave. The steps of one part are described by what
  they may add to the page (\<open>adds\<close>), which every other part keeps.
\<close>

section \<open>What one part does to the page\<close>

definition nums :: "'w page_state \<Rightarrow> int set" where
  "nums p = cp_partNumber ` set (pg_parts p)"

definition kept :: "int \<Rightarrow> 'w page_state \<Rightarrow> 'w page_state \<Rightarrow> bool" where
  "kept n p q \<longleftrightarrow> nums p \<subseteq> nums q \<and> nums q \<subseteq> insert n (nums p) \<and> pg_jobs q = pg_jobs p
     \<and> (distinct (map cp_partNumber (pg_parts p)) \<longrightarrow> distinct (map cp_partNumber (pg_parts q)))"

lemma kept_same: "pg_parts q = pg_parts p \<Longrightarrow> pg_jobs q = pg_jobs p \<Longrightarrow> kept n p q"
  by (auto simp: kept_def nums_def)

lemma record_part_map:
  "map cp_partNumber (record_part c ps) = (if cp_partNumber c \<in> cp_partNumber ` set ps
     then map cp_partNumber ps else map cp_partNumber ps @ [cp_partNumber c])"
proof -
  have "map cp_partNumber (map (\<lambda>q. if cp_partNumber q = cp_partNumber c then c else q) ps) = map cp_partNumber ps"
    by (induction ps) auto
  then show ?thesis by (simp add: record_part_def del: map_map)
qed

lemma record_part_nums: "cp_partNumber ` set (record_part c ps) = insert (cp_partNumber c) (cp_partNumber ` set ps)"
  unfolding set_map [symmetric] record_part_map by auto

lemma record_part_distinct: "distinct (map cp_partNumber ps) \<Longrightarrow> distinct (map cp_partNumber (record_part c ps))"
  by (simp add: record_part_map)

lemma page_api_frame:
  "page_api B path body cast p = (r, q) \<Longrightarrow> pg_parts q = pg_parts p \<and> pg_jobs q = pg_jobs p"
  by (auto simp: page_api_def split: prod.splits)

lemma page_api_Inr:
  assumes "page_api B path body cast p = (Inr y, q)"
  shows "\<exists>v. apiFetch B ''POST'' path [] (map_option (br_stringify B) body) (pg_net p) = (Inr v, pg_net q) \<and> y = cast v"
proof -
  obtain r n where "apiFetch B ''POST'' path [] (map_option (br_stringify B) body) (pg_net p) = (r, n)" by (cases "apiFetch B ''POST'' path [] (map_option (br_stringify B) body) (pg_net p)")
  then show ?thesis using assms by (cases r) (auto simp: page_api_def)
qed

lemma callback_kept:
  assumes "ue_onPartComplete (part_env B x) c p = (r, q)"
  shows "kept (cp_partNumber c) p q \<and> cp_partNumber c \<in> nums q"
proof -
  have "page_api B (multipart_path x ''/part-complete'') (Some (completed_json c)) (\<lambda>_. ())
      (p\<lparr>pg_parts := record_part c (pg_parts p)\<rparr>) = (r, q)"
    using assms by (simp add: part_env_def)
  from page_api_frame [OF this] show ?thesis
    by (auto simp: kept_def nums_def record_part_nums record_part_distinct)
qed

text \<open>The requests of a part change neither the recorded parts nor the jobs, and end with a part of its number.\<close>

inductive quiet :: "int \<Rightarrow> 'w page_state part_thread \<Rightarrow> bool" where
  ret: "cp_partNumber c = n \<Longrightarrow> quiet n (Ret c)"
| raise: "quiet n (Raise e)"
| await: "(\<And>p t q. f p = (t, q) \<Longrightarrow> pg_parts q = pg_parts p \<and> pg_jobs q = pg_jobs p \<and> quiet n t) \<Longrightarrow> quiet n (Await f)"

lemma put_part_once_quiet:
  assumes "put_part_once (part_env B x) opt part p = (r, q)"
  shows "pg_parts q = pg_parts p \<and> pg_jobs q = pg_jobs p \<and> (\<forall>c. r = Inr c \<longrightarrow> cp_partNumber c = sp_partNumber part)"
  using assms by (auto simp: put_part_once_def part_env_def Let_def split: if_splits prod.splits sum.splits)

lemma sleep_frame [simp]: "pg_parts (ue_sleep (part_env B x) ms p) = pg_parts p" "pg_jobs (ue_sleep (part_env B x) ms p) = pg_jobs p"
  by (simp_all add: part_env_def)

lemma attempt_quiet:
  fixes B :: "'w browser"
  shows "quiet (sp_partNumber part) (upload_attempt (part_env B x) opt part left k)"
proof (induction left arbitrary: k)
  case 0
  show ?case
    unfolding upload_attempt.simps
  proof (rule quiet.await)
    fix p q :: "'w page_state" and t :: "'w page_state part_thread"
    assume step: "(case put_part_once (part_env B x) opt part p of
        (Inl e, w1) \<Rightarrow> (Raise e, w1) | (Inr c, w1) \<Rightarrow> (Ret c, w1)) = (t, q)"
    obtain r q' where put: "put_part_once (part_env B x) opt part p = (r, q')" by fastforce
    show "pg_parts q = pg_parts p \<and> pg_jobs q = pg_jobs p \<and> quiet (sp_partNumber part) t"
      using put_part_once_quiet [OF put] step put by (cases r) (auto intro: quiet.ret quiet.raise)
  qed
next
  case (Suc left)
  have pause: "quiet (sp_partNumber part)
      (Await (\<lambda>v. (upload_attempt (part_env B x) opt part left (Suc k), ue_sleep (part_env B x) (250 * 2 ^ k) v)))"
    using Suc by (intro quiet.await) auto
  show ?case
    unfolding upload_attempt.simps
  proof (rule quiet.await)
    fix p q :: "'w page_state" and t :: "'w page_state part_thread"
    assume step: "(case put_part_once (part_env B x) opt part p of (Inl e, w1) \<Rightarrow>
        if e = AbortError then (Raise e, w1)
        else (Await (\<lambda>v. (upload_attempt (part_env B x) opt part left (Suc k), ue_sleep (part_env B x) (250 * 2 ^ k) v)), w1)
      | (Inr c, w1) \<Rightarrow> (Ret c, w1)) = (t, q)"
    obtain r q' where put: "put_part_once (part_env B x) opt part p = (r, q')" by fastforce
    show "pg_parts q = pg_parts p \<and> pg_jobs q = pg_jobs p \<and> quiet (sp_partNumber part) t"
      using put_part_once_quiet [OF put] step put pause
      by (cases r) (auto intro: quiet.ret quiet.raise split: if_splits)
  qed
qed

lemma retry_quiet: "quiet (sp_partNumber part) (uploadPartWithRetry (part_env B x) opt part)"
  by (simp add: uploadPartWithRetry_def Let_def attempt_quiet quiet.raise)

text \<open>A whole part: its number is recorded when it returns.\<close>

inductive adds :: "int \<Rightarrow> ('w page_state \<times> upload_acc) part_thread \<Rightarrow> bool" where
  raise: "adds n (Raise e)"
| await: "(\<And>p a t q b. f (p, a) = (t, q, b) \<Longrightarrow> kept n p q \<and> (if \<exists>c. t = Ret c then n \<in> nums q else adds n t)) \<Longrightarrow> adds n (Await f)"

inductive_cases adds_RetE: "adds n (Ret c)"

lemma adds_AwaitD:
  assumes "adds n (Await f)" and "f (p, a) = (t, q, b)"
  shows "kept n p q" and "if \<exists>c. t = Ret c then n \<in> nums q else adds n t"
  using assms by (cases rule: adds.cases; metis)+

lemma part_done_adds:
  fixes B :: "'w browser"
  assumes "cp_partNumber c = n"
  shows "adds n (part_done (part_env B x) opt c)"
  unfolding part_done_def
proof (rule adds.await)
  fix p q :: "'w page_state" and a b :: upload_acc and t :: "('w page_state \<times> upload_acc) part_thread"
  assume step: "(case (p, a) of (w, a) \<Rightarrow> case ue_onPartComplete (part_env B x) c w of
      (Inl e, w1) \<Rightarrow> (Raise e, (w1, a)) | (Inr _, w1) \<Rightarrow> (Ret c, (w1, count_part opt (cp_partNumber c) a))) = (t, q, b)"
  obtain r q' where cb: "ue_onPartComplete (part_env B x) c p = (r, q')" by fastforce
  show "kept n p q \<and> (if \<exists>c. t = Ret c then n \<in> nums q else adds n t)"
    using callback_kept [OF cb] step cb assms by (cases r) (auto intro: adds.raise)
qed

lemma quiet_adds:
  fixes B :: "'w browser"
  shows "quiet n t \<Longrightarrow> adds n (then_thread (lift_thread t) (part_done (part_env B x) opt))"
proof (induction rule: quiet.induct)
  case (ret c n)
  then show ?case by (simp add: part_done_adds)
next
  case (raise n e)
  show ?case by (simp add: adds.raise)
next
  case (await f n)
  show ?case
    unfolding lift_thread.simps then_thread.simps
  proof (rule adds.await)
    fix p q :: "'w page_state" and a b :: upload_acc and t :: "('w page_state \<times> upload_acc) part_thread"
    assume step: "(map_prod (\<lambda>t. then_thread t (part_done (part_env B x) opt)) id
        \<circ> (\<lambda>(w, a). case map_prod lift_thread id (f w) of (t, w1) \<Rightarrow> (t, (w1, a)))) (p, a) = (t, q, b)"
    obtain t0 q0 where f: "f p = (t0, q0)" by fastforce
    then have tq: "t = then_thread (lift_thread t0) (part_done (part_env B x) opt)" "q = q0" using step by auto
    have "\<nexists>c. t = Ret c" using tq(1) by (cases t0) (auto simp: part_done_def)
    with await [OF f] tq show "kept n p q \<and> (if \<exists>c. t = Ret c then n \<in> nums q else adds n t)"
      by (auto intro: kept_same)
  qed
qed

lemma worker_adds: "adds (sp_partNumber part) (upload_worker (part_env B x) opt part k)"
  unfolding upload_worker_def by (rule quiet_adds [OF retry_quiet])

section \<open>What the pool does to the page\<close>

definition thread_ok :: "signed_part list \<Rightarrow> 'w page_state \<Rightarrow> ('w page_state \<times> upload_acc, upload_error, completed_part) worker \<Rightarrow> bool" where
  "thread_ok ps p wk \<longleftrightarrow> (case wk of Busy k t \<Rightarrow> k < length ps
     \<and> (if \<exists>c. t = Ret c then sp_partNumber (ps ! k) \<in> nums p else adds (sp_partNumber (ps ! k)) t) | _ \<Rightarrow> True)"

definition results_recorded :: "signed_part list \<Rightarrow> 'w page_state \<Rightarrow> completed_part option list \<Rightarrow> bool" where
  "results_recorded ps p rs \<longleftrightarrow> (\<forall>k<length rs. rs ! k \<noteq> None \<longrightarrow> sp_partNumber (ps ! k) \<in> nums p)"

definition page_ok :: "signed_part list \<Rightarrow> int set \<Rightarrow> 'w page_state \<Rightarrow> bool" where
  "page_ok ps N p \<longleftrightarrow> N \<subseteq> nums p \<and> nums p \<subseteq> N \<union> sp_partNumber ` set ps \<and> distinct (map cp_partNumber (pg_parts p))"

definition pool_inv :: "signed_part list \<Rightarrow> int set \<Rightarrow> upload_job list
    \<Rightarrow> ('w page_state \<times> upload_acc, upload_error, completed_part) pool \<times> 'w page_state \<times> upload_acc \<Rightarrow> bool" where
  "pool_inv ps N J pw \<longleftrightarrow> (case pw of (pl, p, a) \<Rightarrow>
     list_all (thread_ok ps p) (pl_workers pl) \<and> results_recorded ps p (pl_result pl) \<and> page_ok ps N p \<and> pg_jobs p = J)"

lemma thread_ok_simps [simp]: "thread_ok ps p Idle" "thread_ok ps p Stopped"
  "thread_ok ps p (Busy k t) \<longleftrightarrow> k < length ps
     \<and> (if \<exists>c. t = Ret c then sp_partNumber (ps ! k) \<in> nums p else adds (sp_partNumber (ps ! k)) t)"
  by (simp_all add: thread_ok_def)

lemma thread_ok_mono: "thread_ok ps p wk \<Longrightarrow> nums p \<subseteq> nums q \<Longrightarrow> thread_ok ps q wk"
  by (cases wk) (auto split: if_splits)

lemma list_all_update: "list_all P xs \<Longrightarrow> P x \<Longrightarrow> list_all P (xs[i := x])"
  by (auto simp: list_all_iff dest: set_update_subset_insert [THEN subsetD])

lemma pool_inv_step:
  fixes B :: "'w browser"
  assumes inv: "pool_inv ps N J (pl, p, a)"
    and step: "pool_step (map Some ps) (upload_worker (part_env B x) opt) i (pl, p, a) = (pl', p', a')"
  shows "pool_inv ps N J (pl', p', a')"
  using step
proof (cases rule: pool_step_cases)
  case (start item)
  then have item: "item = ps ! pl_cursor pl" "pl_cursor pl < length ps" by auto
  have "thread_ok ps p (Busy (pl_cursor pl) (upload_worker (part_env B x) opt item (pl_cursor pl)))"
  proof -
    have "\<nexists>c. upload_worker (part_env B x) opt item (pl_cursor pl) = Ret c"
      using worker_adds [of item B x opt "pl_cursor pl"] by (auto elim: adds_RetE)
    then show ?thesis using item worker_adds [of item B x opt "pl_cursor pl"] by simp
  qed
  moreover have "list_all (thread_ok ps p) (pl_workers pl)" using inv by (simp add: pool_inv_def)
  ultimately have "list_all (thread_ok ps p)
      ((pl_workers pl)[i := Busy (pl_cursor pl) (upload_worker (part_env B x) opt item (pl_cursor pl))])"
    by (intro list_all_update)
  then show ?thesis using inv start by (simp add: pool_inv_def)
next
  case (ret index r)
  then have "thread_ok ps p (Busy index (Ret r))"
    using inv by (auto simp: pool_inv_def list_all_length)
  moreover have "results_recorded ps p ((pl_result pl)[index := Some r])"
    if "sp_partNumber (ps ! index) \<in> nums p"
    unfolding results_recorded_def
  proof (intro allI impI)
    fix k assume "k < length ((pl_result pl)[index := Some r])" and "(pl_result pl)[index := Some r] ! k \<noteq> None"
    then show "sp_partNumber (ps ! k) \<in> nums p"
      using that inv by (cases "k = index") (auto simp: pool_inv_def results_recorded_def)
  qed
  ultimately show ?thesis using inv ret by (simp add: pool_inv_def list_all_update)
next
  case (await index f t)
  have ok: "thread_ok ps p (Busy index (Await f))" using inv await by (auto simp: pool_inv_def list_all_length)
  then have adds: "adds (sp_partNumber (ps ! index)) (Await f)" and idx: "index < length ps" by simp_all
  have f: "f (p, a) = (t, p', a')" using await by simp
  have kept: "kept (sp_partNumber (ps ! index)) p p'"
    and t: "if \<exists>c. t = Ret c then sp_partNumber (ps ! index) \<in> nums p' else adds (sp_partNumber (ps ! index)) t"
    using adds_AwaitD [OF adds f] by auto
  have mono: "nums p \<subseteq> nums p'" using kept by (simp add: kept_def)
  have "list_all (thread_ok ps p') (pl_workers pl)"
    using inv thread_ok_mono [OF _ mono] by (auto simp: pool_inv_def list_all_iff)
  moreover have "results_recorded ps p' (pl_result pl)"
    using inv mono by (auto simp: pool_inv_def results_recorded_def)
  moreover have "page_ok ps N p'"
    using inv kept idx nth_mem [OF idx] by (auto simp: pool_inv_def page_ok_def kept_def)
  moreover have "pg_jobs p' = J" using inv kept by (simp add: pool_inv_def kept_def)
  ultimately show ?thesis using await t idx by (simp add: pool_inv_def list_all_update)
qed (use inv in \<open>simp_all add: pool_inv_def list_all_update\<close>)

lemma pool_inv_run:
  "pool_inv ps N J pw \<Longrightarrow> pool_inv ps N J (pool_run (map Some ps) (upload_worker (part_env B x) opt) sched pw)"
proof (induction sched arbitrary: pw)
  case (Cons i sched)
  obtain pl p a where pw: "pw = (pl, p, a)" by (cases pw)
  obtain pl' p' a' where step: "pool_step (map Some ps) (upload_worker (part_env B x) opt) i pw = (pl', p', a')"
    by (metis surj_pair)
  show ?case using pool_inv_step [of ps N J pl p a] Cons step pw by simp
qed simp

lemma pool_inv_start:
  "pool_inv ps (nums p) (pg_jobs p) (pool_init c (map Some ps), p, a)" if "distinct (map cp_partNumber (pg_parts p))"
  using that by (simp add: pool_inv_def pool_init_def results_recorded_def page_ok_def list_all_iff)

text \<open>A run up to the settling move is a run of a prefix.\<close>

lemma pool_until_run:
  "pool_until input mapper sched pw = (pw', rest) \<Longrightarrow> \<exists>before. sched = before @ rest \<and> pw' = pool_run input mapper before pw"
proof (induction sched arbitrary: pw)
  case (Cons i sched)
  show ?case
  proof (cases "pl_failure (fst pw) \<noteq> None \<or> pool_done (fst pw)")
    case True
    with Cons.prems show ?thesis by (auto intro: exI [of _ "[]"])
  next
    case False
    with Cons.prems have "pool_until input mapper sched (pool_step input mapper i pw) = (pw', rest)" by simp
    from Cons.IH [OF this] obtain before where "sched = before @ rest"
        "pw' = pool_run input mapper before (pool_step input mapper i pw)" by blast
    then show ?thesis by (intro exI [of _ "i # before"]) simp
  qed
qed auto

lemma pool_step_stopped:
  assumes "pool_done pl"
  shows "pool_step input mapper i (pl, w) = (pl, w)"
proof (cases "i < length (pl_workers pl)")
  case True
  then have "pl_workers pl ! i = Stopped" using assms by (simp add: pool_done_iff)
  then show ?thesis by (simp add: pool_step_def)
qed (simp add: pool_step_def)

lemma pool_run_stopped: "pool_done pl \<Longrightarrow> pool_run input mapper sched (pl, w) = (pl, w)"
  by (induction sched) (simp_all add: pool_step_stopped)

section \<open>The transfer\<close>

text \<open>What the page relies on of the API: it signs the parts that were asked for, and a session it recovers has parts of
  the file only. And how the requests that were sent are observed on the world.\<close>

definition signs_all :: "'w browser \<Rightarrow> bool" where
  "signs_all B \<longleftrightarrow> (\<forall>x ns p signed q. page_api B (multipart_path x ''/sign-parts'') (Some (sign_body ns)) (br_signed B) p
     = (Inr signed, q) \<longrightarrow> mset (map sp_partNumber signed) = mset ns)"

definition recovers_own :: "'w browser \<Rightarrow> string \<Rightarrow> string \<Rightarrow> page_file \<Rightarrow> bool" where
  "recovers_own B bucket pre f \<longleftrightarrow> (\<forall>p x q.
     page_api B ''/files/multipart/recover'' (Some (recover_body bucket (object_key pre f) f)) (br_session B) p = (Inr (Some x), q)
     \<longrightarrow> list_all (\<lambda>c. 1 \<le> cp_partNumber c \<and> cp_partNumber c \<le> planned_parts (pf_bytes f) PART_SIZE) (rs_completedParts x))"

definition observes :: "'w browser \<Rightarrow> ('w \<Rightarrow> (string \<times> string \<times> string option) list) \<Rightarrow> bool" where
  "observes B sent \<longleftrightarrow> (\<forall>m u h b w r w'. br_fetch B m u h b w = (r, w') \<longrightarrow> sent w' = sent w @ [(m, u, b)])"

definition ids :: "'w page_state \<Rightarrow> string list" where
  "ids p = map uj_id (pg_jobs p)"

lemma set_job_simps [simp]:
  "pg_parts (set_job i f p) = pg_parts p" "pg_net (set_job i f p) = pg_net p" "nums (set_job i f p) = nums p"
  by (simp_all add: set_job_def nums_def)

lemma set_job_ids [simp]: "(\<And>j. uj_id (f j) = uj_id j) \<Longrightarrow> ids (set_job i f p) = ids p"
  by (simp add: set_job_def ids_def)

lemma ids_jobs: "pg_jobs q = pg_jobs p \<Longrightarrow> ids q = ids p"
  by (simp add: ids_def)

lemma missing_nums: "set (missing_parts n xs) = {1..n} - set xs"
  by (auto simp: missing_parts_def part_numbers_def)

lemma pool_page:
  assumes dist: "distinct (map cp_partNumber (pg_parts p))"
    and run: "pool_until (map Some ps) (upload_worker (part_env B x) opt) sched (pool_init c (map Some ps), (p, a0)) = ((pl, p2, a), rest)"
  shows "page_ok ps (nums p) p2" and "pg_jobs p2 = pg_jobs p"
    and "pool_done pl \<Longrightarrow> pl_failure pl = None \<Longrightarrow> sp_partNumber ` set ps \<subseteq> nums p2"
    and "pg_parts q = pg_parts p2 \<Longrightarrow>
      pg_jobs (fst (snd (pool_run (map Some ps) (upload_worker (part_env B x) opt) rest (pl, (q, a))))) = pg_jobs q"
proof -
  let ?in = "map Some ps" and ?work = "upload_worker (part_env B x) opt"
  obtain before where before: "(pl, p2, a) = pool_run ?in ?work before (pool_init c ?in, (p, a0))"
    using pool_until_run [OF run] by blast
  have inv: "pool_inv ps (nums p) (pg_jobs p) (pl, p2, a)"
    unfolding before by (rule pool_inv_run [OF pool_inv_start [OF dist]])
  then show "page_ok ps (nums p) p2" and "pg_jobs p2 = pg_jobs p" by (simp_all add: pool_inv_def)
  show "sp_partNumber ` set ps \<subseteq> nums p2" if fin: "pool_done pl" "pl_failure pl = None"
  proof
    fix n assume "n \<in> sp_partNumber ` set ps"
    then obtain k where k: "k < length ps" "n = sp_partNumber (ps ! k)" by (auto simp: in_set_conv_nth)
    have ok: "pool_ok ?in c ?work pl"
      using pool_ok_run [of ?in c ?work before "(p, a0)"] by (simp add: mapWithConcurrency_def before [symmetric])
    have "pl_result pl ! k \<noteq> None" using pool_complete [OF ok fin, of k] k(1) by auto
    moreover have "length (pl_result pl) = length ps" using ok by (simp add: pool_ok_def results_ok_def)
    ultimately show "n \<in> nums p2" using inv k by (auto simp: pool_inv_def results_recorded_def)
  qed
  show "pg_jobs (fst (snd (pool_run ?in ?work rest (pl, (q, a))))) = pg_jobs q" if same: "pg_parts q = pg_parts p2"
  proof -
    have "nums q = nums p2" using same by (simp add: nums_def)
    then have "pool_inv ps (nums p) (pg_jobs q) (pl, q, a)"
      using inv same thread_ok_mono [of ps p2 _ q]
      by (auto simp: pool_inv_def page_ok_def results_recorded_def list_all_iff)
    from pool_inv_run [OF this, of B x opt rest] show ?thesis
      by (cases "pool_run ?in ?work rest (pl, q, a)") (simp add: pool_inv_def)
  qed
qed

text \<open>The page after a transfer that has settled, and what the moves that are left may still do.\<close>

definition total_of :: "page_file \<Rightarrow> int" where
  "total_of f = planned_parts (pf_bytes f) PART_SIZE"

definition harmless :: "'w page_state \<Rightarrow> ('w page_state \<Rightarrow> 'w page_state) \<Rightarrow> bool" where
  "harmless p later \<longleftrightarrow> (\<forall>q. pg_parts q = pg_parts p \<longrightarrow> pg_jobs (later q) = pg_jobs q)"

definition parts_ok :: "page_file \<Rightarrow> 'w page_state \<Rightarrow> bool" where
  "parts_ok f p \<longleftrightarrow> distinct (map cp_partNumber (pg_parts p)) \<and> nums p \<subseteq> {1..total_of f}"

lemma transfer_settled:
  assumes tr: "transfer B f i x sched p = Some (r, p2, later)" and dist: "distinct (map cp_partNumber (pg_parts p))"
  shows "ids p2 = ids p" and "harmless p2 later"
    and "signs_all B \<Longrightarrow> parts_ok f p \<Longrightarrow> r = Inr u \<Longrightarrow> parts_ok f p2 \<and> nums p2 = {1..total_of f} \<and> (\<forall>q. later q = q)"
proof -
  let ?missing = "missing_parts (planned_parts (pf_bytes f) PART_SIZE) (map cp_partNumber (pg_parts p))"
  have miss: "set ?missing = {1..total_of f} - nums p" by (simp add: missing_nums total_of_def nums_def)
  have "ids p2 = ids p \<and> harmless p2 later
    \<and> (signs_all B \<and> parts_ok f p \<and> r = Inr u \<longrightarrow> parts_ok f p2 \<and> nums p2 = {1..total_of f} \<and> (\<forall>q. later q = q))"
  proof (cases "?missing = []")
    case True
    then have "{1..total_of f} - nums p = {}" using miss by simp
    with True tr show ?thesis by (auto simp: transfer_def Let_def harmless_def parts_ok_def)
  next
    case False
    obtain y p1 where sign: "page_api B (multipart_path x ''/sign-parts'') (Some (sign_body ?missing)) (br_signed B) p = (y, p1)"
      by fastforce
    have frame: "pg_parts p1 = pg_parts p" "pg_jobs p1 = pg_jobs p" "nums p1 = nums p"
      using page_api_frame [OF sign] by (simp_all add: nums_def)
    show ?thesis
    proof (cases y)
      case (Inl e)
      with False sign tr frame show ?thesis by (auto simp: transfer_def Let_def harmless_def ids_def)
    next
      case (Inr signed)
      let ?ps = "ordered_parts signed" and ?opt = "upload_opts f"
      let ?in = "map Some ?ps" and ?work = "upload_worker (part_env B x) ?opt"
      obtain pl q a rest where run: "pool_until ?in ?work sched (pool_init 4 ?in, (p1, upload_start ?opt)) = ((pl, q, a), rest)"
        by (metis surj_pair)
      note page = pool_page [OF _ run, unfolded frame, OF dist]
      have later: "later = (\<lambda>s. fst (snd (pool_run ?in ?work rest (pl, (s, a)))))"
        and p2: "pg_parts p2 = pg_parts q" "ids p2 = ids q" "nums p2 = nums q"
        and res: "r = (case pl_failure pl of Some e \<Rightarrow> Inl e | None \<Rightarrow> Inr ())" "pl_failure pl = None \<Longrightarrow> pool_done pl"
        using tr False sign Inr run
        by (auto simp: transfer_def Let_def show_progress_def split: option.splits if_splits)
      have "harmless p2 later" using page(4) p2(1) by (auto simp: harmless_def later)
      moreover have "parts_ok f p2 \<and> nums p2 = {1..total_of f} \<and> (\<forall>s. later s = s)"
        if "signs_all B" "parts_ok f p" "r = Inr u"
      proof -
        have fin: "pl_failure pl = None" "pool_done pl" using res that(3) by (auto split: option.splits)
        have "mset (map sp_partNumber signed) = mset ?missing" using that(1) sign Inr unfolding signs_all_def by blast
        then have "sp_partNumber ` set ?ps = set ?missing"
          using ordered_parts_sorted [of signed] by (metis list.set_map mset_eq_setD mset_map)
        then have "nums q = {1..total_of f}" and "distinct (map cp_partNumber (pg_parts q))"
          using page(1,3) fin miss that(2) by (auto simp: parts_ok_def page_ok_def)
        then show ?thesis using p2 fin by (simp add: parts_ok_def later pool_run_stopped)
      qed
      ultimately show ?thesis using page(2) p2(2) by (auto simp: ids_def)
    qed
  qed
  then show "ids p2 = ids p" and "harmless p2 later"
    and "signs_all B \<Longrightarrow> parts_ok f p \<Longrightarrow> r = Inr u \<Longrightarrow> parts_ok f p2 \<and> nums p2 = {1..total_of f} \<and> (\<forall>q. later q = q)"
    by blast+
qed

section \<open>The whole upload\<close>

lemma fold_record_part:
  "cp_partNumber ` set (fold record_part cs ps) = cp_partNumber ` set cs \<union> cp_partNumber ` set ps
   \<and> (distinct (map cp_partNumber ps) \<longrightarrow> distinct (map cp_partNumber (fold record_part cs ps)))"
  by (induction cs arbitrary: ps) (auto simp: record_part_nums record_part_distinct)

lemma begin_session_parts:
  assumes "begin_session B bucket pre f p = (r, p1)" and "pg_parts p = []"
  shows "ids p1 = ids p" and "distinct (map cp_partNumber (pg_parts p1))" and "recovers_own B bucket pre f \<Longrightarrow> parts_ok f p1"
proof -
  obtain y q where rec: "page_api B ''/files/multipart/recover'' (Some (recover_body bucket (object_key pre f) f)) (br_session B) p = (y, q)"
    by fastforce
  note frame = page_api_frame [OF rec]
  have "ids p1 = ids p \<and> distinct (map cp_partNumber (pg_parts p1)) \<and> (recovers_own B bucket pre f \<longrightarrow> parts_ok f p1)"
  proof (cases "\<exists>z. y = Inr (Some z)")
    case True
    then obtain z where z: "y = Inr (Some z)" by blast
    then have p1: "p1 = q\<lparr>pg_parts := fold record_part (rs_completedParts z) []\<rparr>"
      using assms(1) rec by (simp add: begin_session_def act_bind_def)
    have "nums p1 \<subseteq> {1..total_of f}" if "recovers_own B bucket pre f"
      using that rec z fold_record_part [of "rs_completedParts z" "[]"]
      unfolding recovers_own_def p1 by (fastforce simp: nums_def list_all_iff total_of_def)
    then show ?thesis
      using frame fold_record_part [of "rs_completedParts z" "[]"] by (simp add: p1 parts_ok_def ids_def)
  next
    case False
    then have "pg_parts p1 = pg_parts q \<and> pg_jobs p1 = pg_jobs q"
      using assms(1) rec by (auto simp: begin_session_def act_bind_def split: sum.splits option.splits dest: page_api_frame)
    then show ?thesis using frame assms(2) by (simp add: parts_ok_def nums_def ids_def)
  qed
  then show "ids p1 = ids p" and "distinct (map cp_partNumber (pg_parts p1))" and "recovers_own B bucket pre f \<Longrightarrow> parts_ok f p1"
    by blast+
qed

definition job_ended :: "string \<Rightarrow> job_state set \<Rightarrow> 'w page_state \<Rightarrow> bool" where
  "job_ended i S p \<longleftrightarrow> i \<in> set (ids p) \<and> (\<forall>j\<in>set (pg_jobs p). uj_id j = i \<longrightarrow> uj_status j \<in> S)"

lemma set_job_ended: "i \<in> set (ids p) \<Longrightarrow> (\<And>j. uj_id (f j) = uj_id j \<and> uj_status (f j) \<in> S) \<Longrightarrow> job_ended i S (set_job i f p)"
  by (auto simp: job_ended_def set_job_def ids_def image_iff)

lemma close_session_ended:
  assumes "i \<in> set (ids p)"
  shows "job_ended i {J_aborted, J_error} (close_session B i x e p)" and "pg_parts (close_session B i x e p) = pg_parts p"
proof -
  have frame: "pg_parts (snd (page_api B path body cast p)) = pg_parts p \<and> ids (snd (page_api B path body cast p)) = ids p"
    for path body and cast :: "json \<Rightarrow> unit"
    using page_api_frame [of B path body cast p] by (cases "page_api B path body cast p") (simp add: ids_def)
  show "job_ended i {J_aborted, J_error} (close_session B i x e p)"
    unfolding close_session_def Let_def using assms frame by (intro set_job_ended) auto
  show "pg_parts (close_session B i x e p) = pg_parts p"
    unfolding close_session_def Let_def using frame by auto
qed

lemma harmless_ended: "harmless p later \<Longrightarrow> pg_parts q = pg_parts p \<Longrightarrow> job_ended i S q \<Longrightarrow> job_ended i S (later q)"
  by (simp add: harmless_def job_ended_def ids_def)

lemma apiFetch_sent:
  assumes obs: "observes B sent" and "apiFetch B m path h body n = (Inr v, n')"
  shows "sent (fst n') \<noteq> [] \<and> last (sent (fst n')) = (m, br_base B @ path, body)"
proof -
  have raw: "sent (fst n2) = sent (fst n1) @ [(m, br_base B @ path, body)]"
    if "raw_fetch B m path hs body n1 = (r, n2)" for hs n1 r n2
    using that obs by (cases n1) (auto simp: raw_fetch_def observes_def split: prod.splits)
  from assms(2) show ?thesis
    by (auto simp: apiFetch_def act_bind_def Let_def act_ok_def response_json_def raw
        split: prod.splits sum.splits if_splits option.splits)
qed

lemma complete_upload_sent:
  assumes obs: "observes B sent" and ok: "parts_ok f p" "nums p = {1..total_of f}"
    and run: "complete_upload B i x p = (Inr u, q)" and "i \<in> set (ids p)"
  shows "job_ended i {J_done} q \<and> (\<exists>cs. last (sent (fst (pg_net q)))
      = (''POST'', br_base B @ multipart_path x ''/complete'', Some (br_stringify B (parts_body cs)))
    \<and> map cp_partNumber cs = part_numbers (total_of f))"
proof -
  let ?cs = "sort_by (\<lambda>a b. cp_partNumber a - cp_partNumber b) (pg_parts p)"
  have ms: "mset ?cs = mset (pg_parts p)" by (simp add: sort_by_mset)
  have "comparator (\<lambda>a b. cp_partNumber a - cp_partNumber b)" by (auto simp: comparator_def)
  from sort_by_sorted [OF this, of "pg_parts p"] have sorted: "sorted (map cp_partNumber ?cs)" by (simp add: sorted_wrt_map)
  have "mset (map cp_partNumber ?cs) = mset (map cp_partNumber (pg_parts p))" using ms by simp
  then have "distinct (map cp_partNumber ?cs)" "set (map cp_partNumber ?cs) = {1..total_of f}"
    using ok mset_eq_imp_distinct_iff [of "map cp_partNumber ?cs"] mset_eq_setD [of "map cp_partNumber ?cs"]
    by (simp_all add: parts_ok_def nums_def del: set_map mset_map) (simp add: nums_def)
  with sorted have numbers: "map cp_partNumber ?cs = part_numbers (total_of f)"
    unfolding part_numbers_def by (intro sorted_distinct_set_unique) simp_all
  moreover have "1 \<le> total_of f" unfolding total_of_def by (rule planned_parts_spec(1)) (simp add: PART_SIZE_def)
  ultimately have ne: "?cs \<noteq> []" by (auto simp: part_numbers_def)
  obtain y p1 where api: "page_api B (multipart_path x ''/complete'') (Some (parts_body ?cs)) (\<lambda>_. ()) p = (y, p1)" by fastforce
  have res: "\<exists>v. y = Inr v" "q = set_job i (\<lambda>j. j\<lparr>uj_status := J_done, uj_progress := 100\<rparr>) p1"
    using run api ne by (auto simp: complete_upload_def act_bind_def Let_def split: sum.splits)
  with page_api_Inr [of B _ _ "\<lambda>_. ()" p] api obtain v where "apiFetch B ''POST'' (multipart_path x ''/complete'') []
      (Some (br_stringify B (parts_body ?cs))) (pg_net p) = (Inr v, pg_net p1)" by fastforce
  from apiFetch_sent [OF obs this] numbers res(2) have "\<exists>cs. last (sent (fst (pg_net q)))
      = (''POST'', br_base B @ multipart_path x ''/complete'', Some (br_stringify B (parts_body cs)))
    \<and> map cp_partNumber cs = part_numbers (total_of f)" by auto
  moreover have "i \<in> set (ids p1)" using assms(5) page_api_frame [OF api] by (simp add: ids_def)
  then have "job_ended i {J_done} q" unfolding res(2) by (intro set_job_ended) auto
  ultimately show ?thesis by blast
qed

lemma complete_upload_error:
  "complete_upload B i x p = (Inl e, q) \<Longrightarrow> pg_parts q = pg_parts p \<and> ids q = ids p"
  by (auto simp: complete_upload_def act_bind_def Let_def ids_def split: sum.splits prod.splits if_splits dest: page_api_frame)


section \<open>The CSRF token\<close>

text \<open>A request that may write carries the token the client holds, or the one it fetches first.\<close>

lemma unsafe_request_header:
  assumes "usable tok"
  shows "csrf_header B ''POST'' h (w, tok) = (Inr (set_header ''x-csrf-token'' (or_else tok []) h), (w, tok))"
proof -
  have "to_upper ''POST'' = ''POST''" by code_simp
  then show ?thesis using assms by (simp add: csrf_header_def ensureCsrfToken_def act_bind_def act_ok_def)
qed

lemma cleared_client_asks_again:
  "ensureCsrfToken B (clearClientState n) = act_bind (raw_fetch B ''GET'' ''/auth/csrf'' [] None) (\<lambda>response.
     if \<not> wr_ok response then act_ok None
     else act_bind (response_json B response) (\<lambda>payload (w1, _).
       (Inr (payload_token payload), (w1, payload_token payload)))) (fst n, None)"
  by (cases n) (simp add: clearClientState_def ensureCsrfToken_def usable_def)

section \<open>Witness\<close>

text \<open>A world that is the list of the requests sent; the API opens a session and signs its first part.\<close>

type_synonym demo_world = "(string \<times> string \<times> string option) list"

definition demo_browser :: "demo_world browser" where
  "demo_browser = \<lparr>br_base = ''http://api'',
     br_fetch = (\<lambda>m u h b w. (Inr \<lparr>wr_ok = (ends_with u ''/sign-parts'' \<longrightarrow> b = Some ''1''), wr_status = 200, wr_text = ''x''\<rparr>, w @ [(m, u, b)])),
     br_put = (\<lambda>url t body w. (Inr \<lparr>pu_ok = True, pu_status = 200, pu_etag = Some ''tag''\<rparr>, w)),
     br_aborted = (\<lambda>_. False), br_sleep = (\<lambda>_ w. w),
     br_stringify = (\<lambda>v. if v = sign_body [1] then ''1'' else ''body''), br_parse = (\<lambda>t. Some (JStr t)), br_parse_error = id,
     br_session = (\<lambda>_. None), br_init = (\<lambda>_. ''s''), br_signed = (\<lambda>_. [\<lparr>sp_partNumber = 1, sp_url = ''u''\<rparr>])\<rparr>"

definition demo_page_file :: page_file where
  "demo_page_file = \<lparr>pf_name = ''a.txt'', pf_webkitRelativePath = [], pf_type = ''text/plain'', pf_bytes = ''hello''\<rparr>"

definition demo_page :: "demo_world page_state" where
  "demo_page = \<lparr>pg_net = ([], None), pg_parts = [], pg_jobs = []\<rparr>"

lemma demo_signs: "signs_all demo_browser"
proof -
  have "ns = [1]" if "page_api demo_browser (multipart_path x ''/sign-parts'') (Some (sign_body ns)) (br_signed demo_browser) p
      = (Inr signed, q)" for x ns signed and p q :: "demo_world page_state"
  proof -
    have "ends_with (''http://api'' @ multipart_path x ''/sign-parts'') ''/sign-parts''"
      unfolding ends_with_suffix multipart_path_def by (intro suffix_appendI) simp
    then have "sign_body ns = sign_body [1]"
      using that by (auto simp: page_api_def apiFetch_def act_bind_def act_ok_def raw_fetch_def Let_def
          demo_browser_def split: prod.splits sum.splits if_splits)
    then show ?thesis by (auto simp: sign_body_def jint_def)
  qed
  moreover have "map sp_partNumber signed = [1]"
    if "page_api demo_browser path body (br_signed demo_browser) p = (Inr signed, q)" for path body signed and p q :: "demo_world page_state"
    using page_api_Inr [OF that] by (auto simp: demo_browser_def)
  ultimately show ?thesis unfolding signs_all_def by (metis mset_map)
qed


end
