(* ===== verification/WebRequests.thy ===== *)
theory WebRequests
  imports WebPage Routes Boot
begin

text \<open>
  The requests of the pages under \<open>apps/web/app/\<close>: for \<open>login/page.tsx\<close>, \<open>files/page.tsx\<close> and \<open>admin/page.tsx\<close> what
  the page fetches on its own, what its buttons and forms send, when they are shown, and what they do to the state of
  the page the requests depend on. \<open>new Date(t).toISOString()\<close> is the parameter \<open>to_iso\<close>, which may throw. Markup is left
  out; a \<open>FormData\<close> is the map of its fields.
\<close>

section \<open>Requests\<close>

record client_request =
  cq_method :: string
  cq_url :: string
  cq_body :: "json option"

definition asks :: "string \<Rightarrow> client_request" where
  "asks url = \<lparr>cq_method = ''GET'', cq_url = url, cq_body = None\<rparr>"

definition sends :: "string \<Rightarrow> string \<Rightarrow> json option \<Rightarrow> client_request" where
  "sends m url body = \<lparr>cq_method = m, cq_url = url, cq_body = body\<rparr>"

text \<open>\<open>new URLSearchParams(fields).toString()\<close>.\<close>

definition search_params :: "(string \<times> string) list \<Rightarrow> string" where
  "search_params ps = str_join ''&'' (map (\<lambda>(n, v). form_encode n @ ''='' @ form_encode v) ps)"

text \<open>\<open>...(v ? { name: v } : {})\<close>, and the same for a date, whose conversion throws on one that is not valid.\<close>

definition text_param :: "string \<Rightarrow> string \<Rightarrow> (string \<times> string) list" where
  "text_param name v = (if v \<noteq> [] then [(name, v)] else [])"

definition date_param :: "(string \<Rightarrow> string option) \<Rightarrow> string \<Rightarrow> string \<Rightarrow> (string \<times> string) list option" where
  "date_param to_iso name v = (if v \<noteq> [] then map_option (\<lambda>t. [(name, t)]) (to_iso v) else Some [])"

section \<open>The sign-in page\<close>

record login_form =
  lf_username :: string
  lf_password :: string
  lf_mode :: auth_method

type_synonym mode_info = "auth_mode \<times> bool \<times> auth_method list"

fun method_name :: "auth_method \<Rightarrow> string" where
  "method_name By_local = ''local''"
| "method_name By_ldap = ''ldap''"

definition loginFormSchema :: "login_form \<Rightarrow> bool" where
  "loginFormSchema f \<longleftrightarrow> 1 \<le> length (lf_username f) \<and> length (lf_username f) \<le> 255
     \<and> 8 \<le> length (lf_password f) \<and> length (lf_password f) \<le> 1024"

definition first_method :: "auth_method list \<Rightarrow> auth_method" where
  "first_method ms = (case ms of [] \<Rightarrow> By_local | m # _ \<Rightarrow> m)"

definition effective_mode :: "mode_info option \<Rightarrow> auth_method \<Rightarrow> auth_mode" where
  "effective_mode info chosen =
     (let configuredMode = (case info of None \<Rightarrow> AM_hybrid | Some (m, _, _) \<Rightarrow> m);
          allowedMethods = (case info of None \<Rightarrow> [By_local, By_ldap] | Some (_, _, ms) \<Rightarrow> ms);
          selectedMode = (if chosen \<in> set allowedMethods then chosen else first_method allowedMethods)
      in if configuredMode = AM_hybrid then (case selectedMode of By_local \<Rightarrow> AM_local | By_ldap \<Rightarrow> AM_ldap) else configuredMode)"

text \<open>\<open>handleSubmit(onSubmit)\<close>: nothing is sent while the form is not valid.\<close>

definition login_submit :: "mode_info option \<Rightarrow> login_form \<Rightarrow> client_request option" where
  "login_submit info f = (if loginFormSchema f
     then Some (sends ''POST'' ''/auth/login'' (Some (JObj [(''username'', JStr (lf_username f)), (''password'', JStr (lf_password f)),
       (''mode'', JStr (auth_mode_str (effective_mode info (lf_mode f))))])))
     else None)"

definition login_queries :: "client_request list" where
  "login_queries = [asks ''/auth/me'', asks ''/auth/mode'']"

text \<open>The effect that follows the answer of \<open>auth/mode\<close>: the method shown in the form.\<close>

definition mode_effect :: "mode_info option \<Rightarrow> auth_method \<Rightarrow> auth_method" where
  "mode_effect info current = (case info of
     None \<Rightarrow> current
   | Some (AM_local, _, _) \<Rightarrow> By_local
   | Some (AM_ldap, _, _) \<Rightarrow> By_ldap
   | Some (AM_hybrid, _, ms) \<Rightarrow> if current \<in> set ms then current else first_method ms)"

section \<open>The files page\<close>

record files_view =
  fv_bucket :: string
  fv_prefix :: string
  fv_activeSearch :: string

definition query_text :: "(string \<times> string) list \<Rightarrow> string" where
  "query_text ps = str_join ''&'' (map (\<lambda>(n, v). n @ ''='' @ v) ps)"

definition list_request :: "files_view \<Rightarrow> client_request" where
  "list_request v = asks (''/files/list?'' @ query_text [(''bucket'', encodeURIComponent (fv_bucket v)),
     (''prefix'', encodeURIComponent (fv_prefix v)), (''recursive'', ''false''), (''pageSize'', ''500''),
     (''sortBy'', ''type''), (''sortOrder'', ''asc'')])"

definition search_request :: "files_view \<Rightarrow> client_request" where
  "search_request v = asks (''/files/search?'' @ query_text [(''bucket'', encodeURIComponent (fv_bucket v)),
     (''prefix'', encodeURIComponent (fv_prefix v)), (''term'', encodeURIComponent (fv_activeSearch v)), (''pageSize'', ''500'')])"

definition sessions_request :: client_request where
  "sessions_request = asks ''/files/multipart/sessions?scope=mine&status=INITIATED,IN_PROGRESS,FAILED&limit=100''"

definition files_queries :: "files_view \<Rightarrow> client_request list" where
  "files_queries v = [asks ''/auth/me'', asks ''/buckets'']
     @ (if fv_bucket v \<noteq> [] \<and> fv_activeSearch v = [] then [list_request v] else [])
     @ (if fv_bucket v \<noteq> [] \<and> fv_activeSearch v \<noteq> [] then [search_request v] else [])
     @ (if fv_bucket v \<noteq> [] then [sessions_request] else [])"

text \<open>The first bucket is selected once the buckets are there; another one is shown from its root, without a search.\<close>

definition first_bucket :: "string list \<Rightarrow> files_view \<Rightarrow> files_view" where
  "first_bucket names v = (case names of n # _ \<Rightarrow> if fv_bucket v = [] then v\<lparr>fv_bucket := n\<rparr> else v | [] \<Rightarrow> v)"

definition select_bucket :: "string \<Rightarrow> files_view \<Rightarrow> files_view" where
  "select_bucket b v = v\<lparr>fv_bucket := b, fv_prefix := [], fv_activeSearch := []\<rparr>"

definition start_search :: "string \<Rightarrow> files_view \<Rightarrow> files_view" where
  "start_search term v = v\<lparr>fv_activeSearch := js_trim term\<rparr>"

text \<open>The key the rename dialogue asks for: \<open>entry.key.split("/").slice(0, -2).join("/")\<close> and the new name.\<close>

definition rename_target :: "entry \<Rightarrow> string \<Rightarrow> string" where
  "rename_target e nextName =
     (let parts = split_slash (entry_key e);
          basePath = join_slash (take (length parts - 2) parts)
      in (if basePath \<noteq> [] then basePath @ ''/'' else []) @ nextName @ (if is_folder e then ''/'' else []))"

text \<open>What a user can do on the page; the text of a dialogue that was left is \<open>None\<close>.\<close>

datatype files_action =
    Open_entry entry
  | Preview_entry entry
  | Delete_entry entry bool
  | Rename_entry entry "string option"
  | New_folder "string option"
  | Show_stats
  | Abort_session string upload_status

definition preview_request :: "files_view \<Rightarrow> string \<Rightarrow> client_request" where
  "preview_request v key = asks (''/files/preview?'' @ query_text [(''bucket'', encodeURIComponent (fv_bucket v)),
     (''key'', encodeURIComponent key), (''download'', ''false'')])"

definition delete_request :: "files_view \<Rightarrow> string \<Rightarrow> client_request" where
  "delete_request v key = sends ''DELETE'' ''/files'' (Some (JObj [(''bucket'', JStr (fv_bucket v)), (''key'', JStr key)]))"

definition rename_request :: "files_view \<Rightarrow> string \<Rightarrow> string \<Rightarrow> client_request" where
  "rename_request v oldKey newKey = sends ''POST'' ''/files/rename''
     (Some (JObj [(''bucket'', JStr (fv_bucket v)), (''oldKey'', JStr oldKey), (''newKey'', JStr newKey)]))"

definition folder_request :: "files_view \<Rightarrow> string \<Rightarrow> client_request" where
  "folder_request v folderPath = sends ''POST'' ''/files/folder''
     (Some (JObj [(''bucket'', JStr (fv_bucket v)), (''folderPath'', JStr folderPath)]))"

definition stats_request :: "files_view \<Rightarrow> client_request" where
  "stats_request v = asks (''/files/stats?'' @ query_text [(''bucket'', encodeURIComponent (fv_bucket v)),
     (''prefix'', encodeURIComponent (fv_prefix v))])"

definition abort_request :: "string \<Rightarrow> client_request" where
  "abort_request uploadSessionId = sends ''POST'' (multipart_path uploadSessionId ''/abort'') None"

definition open_entry :: "files_view \<Rightarrow> entry \<Rightarrow> client_request option \<times> files_view" where
  "open_entry v e = (if is_folder e then (None, v\<lparr>fv_prefix := entry_key e\<rparr>)
     else (Some (preview_request v (entry_key e)), v))"

definition files_act :: "files_view \<Rightarrow> files_action \<Rightarrow> client_request option" where
  "files_act v a = (case a of
     Open_entry e \<Rightarrow> fst (open_entry v e)
   | Preview_entry e \<Rightarrow> if is_folder e then None else Some (preview_request v (entry_key e))
   | Delete_entry e confirmed \<Rightarrow> if confirmed then Some (delete_request v (entry_key e)) else None
   | Rename_entry e nextName \<Rightarrow> if usable nextName
       then Some (rename_request v (entry_key e) (rename_target e (or_else nextName []))) else None
   | New_folder name \<Rightarrow> if fv_bucket v \<noteq> [] \<and> usable name
       then Some (folder_request v (fv_prefix v @ or_else name [])) else None
   | Show_stats \<Rightarrow> Some (stats_request v)
   | Abort_session i st \<Rightarrow> if st = UP_INITIATED \<or> st = UP_IN_PROGRESS \<or> st = UP_FAILED then Some (abort_request i) else None)"

text \<open>\<open>toFixed(1)\<close> of \<open>bytes / unit\<close>, which is exact for a power of two, and the size shown.\<close>

definition fixed1 :: "nat \<Rightarrow> nat \<Rightarrow> string" where
  "fixed1 bytes u = (let n = (20 * bytes + u) div (2 * u) in nat_to_string (n div 10) @ ''.'' @ nat_to_string (n mod 10))"

definition formatBytes :: "nat \<Rightarrow> string" where
  "formatBytes bytes =
     (if bytes < 1024 then nat_to_string bytes @ '' B''
      else if bytes < 1024 * 1024 then fixed1 bytes 1024 @ '' KB''
      else if bytes < 1024 * 1024 * 1024 then fixed1 bytes (1024 * 1024) @ '' MB''
      else fixed1 bytes (1024 * 1024 * 1024) @ '' GB'')"

definition stats_text :: "nat \<Rightarrow> nat \<Rightarrow> nat \<Rightarrow> string option \<Rightarrow> string" where
  "stats_text objectCount folderCount totalSize newest =
     ''Objects: '' @ nat_to_string objectCount @ '' | Folders: '' @ nat_to_string folderCount
       @ '' | Size: '' @ formatBytes totalSize @ '' | Latest: '' @ or_else newest ''n/a''"

section \<open>The administration page\<close>

record archive_filter =
  af_search :: string
  af_kind :: string
  af_correlationId :: string
  af_level :: string
  af_jobId :: string
  af_from :: string
  af_to :: string
  af_offset :: nat

text \<open>The state of the page: the answer of \<open>auth/me\<close> (the role of the user, if somebody is signed in), what is selected,
  the filters of the two archives (\<open>af_kind\<close> is the action of the one and the type of the other), and what is listed.\<close>

record admin_view =
  av_me :: "app_role option option"
  av_bucketId :: string
  av_userId :: string
  av_permissions :: "bucket_permission list"
  av_adminId :: string
  av_scopeBucketIds :: "string list"
  av_jobId :: string
  av_auditFilter :: archive_filter
  av_eventFilter :: archive_filter
  av_connections :: "string list"
  av_shownJobs :: "(string \<times> job_status) list"
  av_tasks :: "scheduler_task_key list"

definition av_role :: "admin_view \<Rightarrow> app_role option" where
  "av_role v = (case av_me v of Some (Some r) \<Rightarrow> Some r | _ \<Rightarrow> None)"

definition is_super :: "admin_view \<Rightarrow> bool" where
  "is_super v \<longleftrightarrow> av_role v = Some SUPER_ADMIN"

definition is_admin :: "admin_view \<Rightarrow> bool" where
  "is_admin v \<longleftrightarrow> av_role v = Some SUPER_ADMIN \<or> av_role v = Some ADMIN"

definition archive_audit_request :: "(string \<Rightarrow> string option) \<Rightarrow> archive_filter \<Rightarrow> client_request option" where
  "archive_audit_request to_iso f =
     bind_opt (date_param to_iso ''from'' (af_from f)) (\<lambda>from_part.
     bind_opt (date_param to_iso ''to'' (af_to f)) (\<lambda>to_part.
       Some (asks (''/admin/audit/archive?'' @ search_params ([(''limit'', ''25''), (''offset'', nat_to_string (af_offset f))]
         @ text_param ''search'' (af_search f) @ text_param ''action'' (af_kind f)
         @ text_param ''correlationId'' (af_correlationId f) @ from_part @ to_part)))))"

definition archive_events_request :: "(string \<Rightarrow> string option) \<Rightarrow> archive_filter \<Rightarrow> client_request option" where
  "archive_events_request to_iso f =
     bind_opt (date_param to_iso ''from'' (af_from f)) (\<lambda>from_part.
     bind_opt (date_param to_iso ''to'' (af_to f)) (\<lambda>to_part.
       Some (asks (''/jobs/archive/events?'' @ search_params ([(''limit'', ''25''), (''offset'', nat_to_string (af_offset f))]
         @ text_param ''search'' (af_search f) @ text_param ''type'' (af_kind f)
         @ text_param ''correlationId'' (af_correlationId f) @ text_param ''level'' (af_level f)
         @ text_param ''jobId'' (af_jobId f) @ from_part @ to_part)))))"

definition if_sent :: "client_request option \<Rightarrow> client_request list" where
  "if_sent q = (case q of None \<Rightarrow> [] | Some x \<Rightarrow> [x])"

definition grants_path :: "string \<Rightarrow> string" where
  "grants_path bucketId = ''/admin/buckets/'' @ bucketId @ ''/grants''"

definition scopes_path :: "string \<Rightarrow> string" where
  "scopes_path adminId = ''/admin/users/'' @ adminId @ ''/scopes''"

definition admin_queries :: "(string \<Rightarrow> string option) \<Rightarrow> admin_view \<Rightarrow> client_request list" where
  "admin_queries to_iso v = [asks ''/auth/me'', asks ''/admin/users'', asks ''/admin/buckets'']
     @ (if av_bucketId v \<noteq> [] then [asks (grants_path (av_bucketId v))] else [])
     @ (if is_super v then [asks ''/admin/settings/ldap'', asks ''/admin/settings/auth-mode'', asks ''/admin/connections''] else [])
     @ (if is_admin v then [asks ''/jobs?scope=all&limit=200''] else [])
     @ (if av_jobId v \<noteq> [] \<and> is_admin v then [asks (''/jobs/'' @ av_jobId v @ ''/detail?limit=400'')] else [])
     @ (if is_admin v then [asks ''/jobs/maintenance/retention-policy'', asks ''/jobs/maintenance/status'',
          asks ''/files/multipart/sessions?scope=all&limit=100''] else [])
     @ (if av_adminId v \<noteq> [] \<and> is_super v then [asks (scopes_path (av_adminId v))] else [])
     @ (if is_super v then [asks ''/admin/audit''] @ if_sent (archive_audit_request to_iso (av_auditFilter v))
          @ if_sent (archive_events_request to_iso (av_eventFilter v)) else [])"

text \<open>Where the page sends a visitor it is not for.\<close>

definition admin_redirect :: "admin_view \<Rightarrow> string option" where
  "admin_redirect v = (case av_me v of
     None \<Rightarrow> None
   | Some None \<Rightarrow> Some ''/login''
   | Some (Some r) \<Rightarrow> if r = USER then Some ''/files'' else None)"

subsection \<open>Selections\<close>

text \<open>The effects: what is selected first, the permissions of the selected user, the scopes of the selected admin.\<close>

definition select_first :: "string list \<Rightarrow> string \<Rightarrow> string" where
  "select_first xs x = (if x = [] then (case xs of y # _ \<Rightarrow> y | [] \<Rightarrow> x) else x)"

definition admin_users :: "(string \<times> app_role) list \<Rightarrow> string list" where
  "admin_users us = map fst (filter (\<lambda>(i, r). r = ADMIN) us)"

definition selection_effects :: "string list \<Rightarrow> (string \<times> app_role) list \<Rightarrow> admin_view \<Rightarrow> admin_view" where
  "selection_effects bs us v = v\<lparr>av_bucketId := select_first bs (av_bucketId v),
     av_userId := select_first (map fst us) (av_userId v), av_adminId := select_first (admin_users us) (av_adminId v),
     av_jobId := select_first (map fst (av_shownJobs v)) (av_jobId v)\<rparr>"

definition grants_effect :: "(string \<times> bucket_permission) list \<Rightarrow> admin_view \<Rightarrow> admin_view" where
  "grants_effect gs v = (if av_userId v = [] then v
     else v\<lparr>av_permissions := map snd (filter (\<lambda>(u, _). u = av_userId v) gs)\<rparr>)"

definition scopes_effect :: "string list \<Rightarrow> admin_view \<Rightarrow> admin_view" where
  "scopes_effect bs v = v\<lparr>av_scopeBucketIds := bs\<rparr>"

text \<open>A checkbox: \<open>[...new Set([...prev, x])]\<close> or \<open>prev.filter((item) => item !== x)\<close>.\<close>

definition new_set :: "'a list \<Rightarrow> 'a list" where
  "new_set xs = foldl (\<lambda>acc x. if x \<in> set acc then acc else acc @ [x]) [] xs"

definition toggle :: "bool \<Rightarrow> 'a \<Rightarrow> 'a list \<Rightarrow> 'a list" where
  "toggle checked x prev = (if checked then new_set (prev @ [x]) else filter (\<lambda>y. y \<noteq> x) prev)"

definition toggle_permission :: "bool \<Rightarrow> bucket_permission \<Rightarrow> admin_view \<Rightarrow> admin_view" where
  "toggle_permission checked p v = v\<lparr>av_permissions := toggle checked p (av_permissions v)\<rparr>"

definition toggle_scope :: "bool \<Rightarrow> string \<Rightarrow> admin_view \<Rightarrow> admin_view" where
  "toggle_scope checked b v = v\<lparr>av_scopeBucketIds := toggle checked b (av_scopeBucketIds v)\<rparr>"

text \<open>The pages of an archive: a filter starts over; the buttons move by 25 rows.\<close>

definition filter_archive :: "(archive_filter \<Rightarrow> archive_filter) \<Rightarrow> archive_filter \<Rightarrow> archive_filter" where
  "filter_archive f a = (f a)\<lparr>af_offset := 0\<rparr>"

definition prev_page :: "archive_filter \<Rightarrow> archive_filter" where
  "prev_page a = (if af_offset a = 0 then a else a\<lparr>af_offset := af_offset a - 25\<rparr>)"

text \<open>The answer is its offset, limit and total; the button is disabled on the last page and before the first answer.\<close>

definition next_page :: "(nat \<times> nat \<times> nat) option \<Rightarrow> archive_filter \<Rightarrow> archive_filter" where
  "next_page got a = (let (off, lim, total_rows) = or_else got (0, 25, 0)
     in if off + lim \<ge> total_rows then a else a\<lparr>af_offset := af_offset a + 25\<rparr>)"

subsection \<open>Buttons and forms\<close>

type_synonym form_data = "string \<Rightarrow> string option"

definition form_text :: "form_data \<Rightarrow> string \<Rightarrow> string \<Rightarrow> string" where
  "form_text fd name dflt = or_else (fd name) dflt"

text \<open>\<open>String(data.get(name) ?? "") || null\<close>, the same with \<open>undefined\<close>, and a checkbox.\<close>

definition text_or :: "json \<Rightarrow> form_data \<Rightarrow> string \<Rightarrow> json" where
  "text_or absent fd name = (if form_text fd name [] \<noteq> [] then JStr (form_text fd name []) else absent)"

definition form_on :: "form_data \<Rightarrow> string \<Rightarrow> json" where
  "form_on fd name = JBool (fd name = Some ''on'')"

definition user_payload :: "form_data \<Rightarrow> json" where
  "user_payload fd = JObj [(''username'', JStr (form_text fd ''username'' [])), (''email'', text_or JUndef fd ''email''),
     (''password'', JStr (form_text fd ''password'' [])), (''role'', JStr (form_text fd ''role'' ''USER''))]"

definition ldap_payload :: "form_data \<Rightarrow> json" where
  "ldap_payload fd = JObj [(''enabled'', form_on fd ''enabled''), (''url'', text_or JNull fd ''url''),
     (''bindDn'', text_or JNull fd ''bindDn''), (''bindPassword'', text_or JUndef fd ''bindPassword''),
     (''searchBase'', text_or JNull fd ''searchBase''),
     (''searchFilter'', JStr (form_text fd ''searchFilter'' ''(uid={{username}})'')),
     (''usernameAttribute'', JStr (form_text fd ''usernameAttribute'' ''uid'')),
     (''emailAttribute'', JStr (form_text fd ''emailAttribute'' ''mail'')),
     (''displayNameAttribute'', JStr (form_text fd ''displayNameAttribute'' ''cn'')),
     (''groupAttribute'', JStr (form_text fd ''groupAttribute'' ''memberOf'')),
     (''groupRoleMapping'', JObj []), (''tlsRejectUnauthorized'', form_on fd ''tlsRejectUnauthorized'')]"

definition connection_payload :: "form_data \<Rightarrow> json" where
  "connection_payload fd = JObj [(''name'', JStr (form_text fd ''name'' [])), (''endpoint'', JStr (form_text fd ''endpoint'' [])),
     (''region'', JStr (form_text fd ''region'' ''garage'')), (''forcePathStyle'', form_on fd ''forcePathStyle''),
     (''accessKeyId'', JStr (form_text fd ''accessKeyId'' [])), (''secretAccessKey'', JStr (form_text fd ''secretAccessKey'' [])),
     (''adminApiUrl'', text_or JUndef fd ''adminApiUrl''), (''adminToken'', text_or JUndef fd ''adminToken''),
     (''isDefault'', form_on fd ''isDefault'')]"

datatype admin_action =
    Create_user form_data
  | Sync_buckets
  | Save_grants
  | Save_scopes
  | Save_ldap form_data
  | Save_auth_mode auth_mode
  | Create_connection form_data
  | Check_health string
  | Cancel_job string
  | Queue_upload_cleanup
  | Queue_retention_cleanup
  | Run_task scheduler_task_key

text \<open>Whether the page shows the control and lets it be used.\<close>

definition offered :: "admin_view \<Rightarrow> admin_action \<Rightarrow> bool" where
  "offered v a = (case a of
     Create_user _ \<Rightarrow> is_super v
   | Sync_buckets \<Rightarrow> True
   | Save_grants \<Rightarrow> av_bucketId v \<noteq> [] \<and> av_userId v \<noteq> []
   | Save_scopes \<Rightarrow> is_super v \<and> av_adminId v \<noteq> []
   | Save_ldap _ \<Rightarrow> is_super v
   | Save_auth_mode _ \<Rightarrow> is_super v
   | Create_connection _ \<Rightarrow> is_super v
   | Check_health i \<Rightarrow> is_super v \<and> i \<in> set (av_connections v)
   | Cancel_job i \<Rightarrow> is_admin v \<and> ((i, QUEUED) \<in> set (av_shownJobs v) \<or> (i, RUNNING) \<in> set (av_shownJobs v))
   | Queue_upload_cleanup \<Rightarrow> is_admin v
   | Queue_retention_cleanup \<Rightarrow> is_super v
   | Run_task t \<Rightarrow> is_super v \<and> t \<in> set (av_tasks v))"

definition admin_call :: "admin_view \<Rightarrow> admin_action \<Rightarrow> client_request" where
  "admin_call v a = (case a of
     Create_user fd \<Rightarrow> sends ''POST'' ''/admin/users'' (Some (user_payload fd))
   | Sync_buckets \<Rightarrow> sends ''POST'' ''/admin/buckets/sync'' None
   | Save_grants \<Rightarrow> sends ''PUT'' (grants_path (av_bucketId v) @ ''/'' @ av_userId v)
       (Some (JObj [(''permissions'', JArr (map (\<lambda>p. JStr (permission_code p)) (av_permissions v)))]))
   | Save_scopes \<Rightarrow> sends ''PUT'' (scopes_path (av_adminId v)) (Some (JObj [(''bucketIds'', JArr (map JStr (av_scopeBucketIds v)))]))
   | Save_ldap fd \<Rightarrow> sends ''PATCH'' ''/admin/settings/ldap'' (Some (ldap_payload fd))
   | Save_auth_mode m \<Rightarrow> sends ''PATCH'' ''/admin/settings/auth-mode'' (Some (JObj [(''mode'', JStr (auth_mode_str m))]))
   | Create_connection fd \<Rightarrow> sends ''POST'' ''/admin/connections'' (Some (connection_payload fd))
   | Check_health i \<Rightarrow> sends ''POST'' (''/admin/connections/'' @ i @ ''/health'') None
   | Cancel_job i \<Rightarrow> sends ''POST'' (''/jobs/'' @ i @ ''/cancel'') None
   | Queue_upload_cleanup \<Rightarrow> sends ''POST'' ''/jobs/maintenance/upload-cleanup'' None
   | Queue_retention_cleanup \<Rightarrow> sends ''POST'' ''/jobs/maintenance/retention-cleanup'' None
   | Run_task t \<Rightarrow> sends ''POST'' (''/jobs/maintenance/tasks/'' @ task_name t @ ''/run-once'') None)"

text \<open>The message after a success; that of a task depends on the answer.\<close>

definition run_message :: "string \<Rightarrow> scheduler_result \<Rightarrow> string option \<Rightarrow> string option \<Rightarrow> string" where
  "run_message task result jobId err = (if result = SR_queued
     then ''Task '' @ task @ '' queued ('' @ or_else jobId ''no-job-id'' @ '')''
     else ''Task '' @ task @ '' '' @ result_name result @ (if usable err then '': '' @ or_else err [] else []))"

definition success_message :: "admin_action \<Rightarrow> scheduler_result \<Rightarrow> string option \<Rightarrow> string option \<Rightarrow> string" where
  "success_message a result jobId err = (case a of
     Create_user _ \<Rightarrow> ''User created''
   | Sync_buckets \<Rightarrow> ''Bucket sync job queued''
   | Save_grants \<Rightarrow> ''Bucket grants updated''
   | Save_scopes \<Rightarrow> ''Admin scope updated''
   | Save_ldap _ \<Rightarrow> ''LDAP settings saved''
   | Save_auth_mode _ \<Rightarrow> ''Authentication mode updated''
   | Create_connection _ \<Rightarrow> ''Connection saved''
   | Check_health _ \<Rightarrow> ''Connection health check completed''
   | Cancel_job _ \<Rightarrow> ''Job cancellation requested''
   | Queue_upload_cleanup \<Rightarrow> ''Upload cleanup job queued''
   | Queue_retention_cleanup \<Rightarrow> ''Retention cleanup job queued''
   | Run_task t \<Rightarrow> run_message (task_name t) result jobId err)"

end
