(* ===== verification/WebRequestsProps.thy ===== *)
theory WebRequestsProps
  imports WebRequests
begin

text \<open>
  What the pages send fits the service: each request is a route that admits the role of the user, the sign-in form is one
  that the service takes, the lists of checkboxes have no duplicates, the pages of an archive reach all of its rows, and
  the key that the rename dialogue asks for.
\<close>

section \<open>Routes that answer a request\<close>

text \<open>A path answers a pattern segment by segment; a segment with a colon takes any text but the empty one.\<close>

definition pattern :: "string \<Rightarrow> string option list" where
  "pattern p = map (\<lambda>t. if take 1 t = '':'' then None else Some t) (split_slash p)"

fun fits :: "string option list \<Rightarrow> string list \<Rightarrow> bool" where
  "fits [] [] = True"
| "fits (Some p # ps) (s # ss) = (if s = p then fits ps ss else False)"
| "fits (None # ps) (s # ss) = (if s = [] then False else fits ps ss)"
| "fits _ _ = False"

definition url_path :: "string \<Rightarrow> string" where
  "url_path u = takeWhile (\<lambda>c. c \<noteq> CHR ''?'') u"

definition cut_table :: "(string \<times> string \<times> route) list \<Rightarrow> (string \<times> string option list \<times> route) list" where
  "cut_table rts = map (\<lambda>(m, p, rt). (m, pattern (slash # p), rt)) rts"

definition hits :: "string \<Rightarrow> string list \<Rightarrow> (string \<times> string option list \<times> route) list" where
  "hits m path = filter (\<lambda>(n, ps, _). if n = m then fits ps path else False) (cut_table api_routes)"

definition matching :: "client_request \<Rightarrow> (string \<times> string option list \<times> route) list" where
  "matching q = hits (cq_method q) (split_slash (url_path (cq_url q)))"

definition role_admitted :: "app_role \<Rightarrow> route \<Rightarrow> bool" where
  "role_admitted r rt = (case rt_roles rt of None \<Rightarrow> True | Some rs \<Rightarrow> r \<in> set rs)"

fun admits :: "app_role \<Rightarrow> (string \<times> string option list \<times> route) list \<Rightarrow> bool" where
  "admits r [] = False"
| "admits r (h # hs) = list_all (\<lambda>(m, ps, rt). role_admitted r rt) (h # hs)"

definition served :: "app_role \<Rightarrow> client_request \<Rightarrow> bool" where
  "served r q \<longleftrightarrow> admits r (matching q)"

lemma role_admitted_guard:
  "role_admitted (su_role u) rt \<Longrightarrow> rq_user rq = Some u \<Longrightarrow> role_guard rt rq s = (Inr (), s)"
  by (auto simp: role_admitted_def role_guard_def requireRole_def require_def ok_def split: option.splits)

text \<open>Identifiers are of the database; they have no character with a meaning in a path.\<close>

definition plain_id :: "string \<Rightarrow> bool" where
  "plain_id i \<longleftrightarrow> i \<noteq> [] \<and> slash \<notin> set i \<and> CHR ''?'' \<notin> set i"

lemma split_slash_append: "split_slash (a @ slash # b) = split_slash a @ split_slash b"
proof (induction a)
  case (Cons c a)
  show ?case
  proof (cases "c = slash")
    case False
    then show ?thesis using Cons split_slash_ne [of a]
      by (cases "split_slash a") (simp_all add: split_slash_Cons_hd del: split_slash.simps)
  qed (use Cons in \<open>simp add: split_slash_Cons_slash del: split_slash.simps\<close>)
qed simp

lemma split_slash_plain: "slash \<notin> set s \<Longrightarrow> split_slash s = [s]"
  by (induction s) auto

text \<open>The paths with identifiers in them.\<close>

lemma take_url_path: "CHR ''?'' \<notin> set a \<Longrightarrow> url_path (a @ b) = a @ url_path b"
  unfolding url_path_def by (rule takeWhile_append2) auto

lemma id_path:
  assumes "plain_id i" and "CHR ''?'' \<notin> set pre"
  shows "split_slash (url_path (pre @ slash # i @ slash # post)) = split_slash pre @ i # split_slash (url_path post)"
    and "split_slash (url_path (pre @ slash # i)) = split_slash pre @ [i]"
proof -
  have path: "url_path (pre @ (slash # i) @ s) = pre @ (slash # i) @ url_path s" for s
    using assms by (simp add: plain_id_def take_url_path del: append.simps)
  show "split_slash (url_path (pre @ slash # i @ slash # post)) = split_slash pre @ i # split_slash (url_path post)"
    using path [of "slash # post"] assms(1) take_url_path [of "[slash]" post]
    by (simp add: split_slash_append split_slash_plain plain_id_def)
  show "split_slash (url_path (pre @ slash # i)) = split_slash pre @ [i]"
    using path [of "[]"] assms(1) by (simp add: url_path_def [of "[]"] split_slash_append split_slash_plain plain_id_def)
qed

text \<open>The table with the paths cut into segments, controller by controller.\<close>

lemma cut_append: "cut_table (a @ b) = cut_table a @ cut_table b"
  by (simp add: cut_table_def)

definition files_routes :: "(string \<times> string \<times> route) list" where
  "files_routes = under_prefix ''files'' file_routes"

lemmas files_table = files_routes_def [unfolded under_prefix_def file_routes_def, simplified]

lemmas cut_routes =
  cut_table_def [of metrics_routes, unfolded metrics_routes_def pattern_def, simplified, folded metrics_routes_def]
  cut_table_def [of auth_routes, unfolded auth_routes_def pattern_def, simplified, folded auth_routes_def]
  cut_table_def [of connection_routes, unfolded connection_routes_def pattern_def, simplified, folded connection_routes_def]
  cut_table_def [of bucket_routes, unfolded bucket_routes_def pattern_def, simplified, folded bucket_routes_def]
  cut_table_def [of files_routes, unfolded files_table pattern_def, simplified, folded files_table]
  cut_table_def [of job_routes, unfolded job_routes_def pattern_def, simplified, folded job_routes_def]
  cut_table_def [of user_routes, unfolded user_routes_def pattern_def, simplified, folded user_routes_def]
  cut_table_def [of settings_routes, unfolded settings_routes_def pattern_def, simplified, folded settings_routes_def]
  cut_table_def [of audit_routes, unfolded audit_routes_def pattern_def, simplified, folded audit_routes_def]
  cut_table_def [of probe_routes, unfolded probe_routes_def pattern_def, simplified, folded probe_routes_def]
  cut_table_def [of app_routes, unfolded app_routes_def pattern_def, simplified, folded app_routes_def]

lemmas hits_eval = hits_def cut_append cut_routes api_routes_def [folded files_routes_def] role_admitted_def open_route_def bucket_route_def admin_route_def
  super_route_def public_route_def users_route_def users_create_route_def settings_route_def login_route_def

lemma url_path_plain: "CHR ''?'' \<notin> set u \<Longrightarrow> url_path u = u"
  using take_url_path [of u "[]"] by (simp add: url_path_def [of "[]"])

lemma served_sends:
  "CHR ''?'' \<notin> set u \<Longrightarrow> admits r (hits m (split_slash u)) \<Longrightarrow> served r (sends m u b)"
  by (simp add: served_def matching_def sends_def url_path_plain)

lemma served_asks:
  "CHR ''?'' \<notin> set u \<Longrightarrow> admits r (hits ''GET'' (split_slash u)) \<Longrightarrow> served r (asks u)"
  by (simp add: served_def matching_def asks_def url_path_plain)

lemma served_query:
  "CHR ''?'' \<notin> set u \<Longrightarrow> admits r (hits ''GET'' (split_slash u)) \<Longrightarrow> served r (asks (u @ CHR ''?'' # b))"
  by (simp add: served_def matching_def asks_def take_url_path) (simp add: url_path_def)

definition all_admit :: "app_role \<Rightarrow> (string \<times> string) list \<Rightarrow> bool" where
  "all_admit r ps \<longleftrightarrow> list_all (\<lambda>(m, u). admits r (hits m (split_slash u))) ps"

text \<open>The paths without identifiers: for everybody, for administrators, for super administrators.\<close>

lemma open_paths:
  "all_admit r [(''GET'', ''/auth/me''), (''GET'', ''/auth/mode''), (''POST'', ''/auth/login''), (''GET'', ''/buckets'')]"
  "all_admit r [(''GET'', ''/files/list''), (''GET'', ''/files/search''), (''GET'', ''/files/stats''), (''GET'', ''/files/preview'')]"
  "all_admit r [(''DELETE'', ''/files''), (''POST'', ''/files/rename''), (''POST'', ''/files/folder''), (''GET'', ''/jobs'')]"
  "all_admit r [(''GET'', ''/files/multipart/sessions''), (''POST'', ''/files/multipart/recover''), (''POST'', ''/files/multipart/init'')]"
  by code_simp+

lemma admin_paths:
  assumes "r \<noteq> USER"
  shows "all_admit r [(''GET'', ''/admin/users''), (''GET'', ''/admin/buckets''), (''GET'', ''/jobs/maintenance/retention-policy''),
     (''GET'', ''/jobs/maintenance/status''), (''POST'', ''/jobs/maintenance/upload-cleanup'')]"
proof (cases r)
  case SUPER_ADMIN
  then show ?thesis by (simp only:) code_simp
next
  case ADMIN
  then show ?thesis by (simp only:) code_simp
qed (use assms in simp)

lemma super_paths:
  "all_admit SUPER_ADMIN [(''GET'', ''/admin/settings/ldap''), (''GET'', ''/admin/settings/auth-mode''), (''GET'', ''/admin/connections''),
     (''GET'', ''/admin/audit''), (''GET'', ''/admin/audit/archive''), (''GET'', ''/jobs/archive/events'')]"
  by code_simp

lemma super_writes:
  "all_admit SUPER_ADMIN [(''POST'', ''/admin/users''), (''POST'', ''/admin/buckets/sync''), (''PATCH'', ''/admin/settings/ldap''),
     (''PATCH'', ''/admin/settings/auth-mode''), (''POST'', ''/admin/connections''), (''POST'', ''/jobs/maintenance/retention-cleanup'')]"
  by code_simp

lemma task_paths:
  "all_admit SUPER_ADMIN [(''POST'', ''/jobs/maintenance/tasks/'' @ task_name k @ ''/run-once'')]"
  by (cases k; simp only:; code_simp)

text \<open>The paths with identifiers.\<close>

lemma id_paths:
  assumes "i \<noteq> []"
  shows "admits r (hits ''POST'' [[], ''files'', ''multipart'', i, ''sign-parts''])"
    "admits r (hits ''POST'' [[], ''files'', ''multipart'', i, ''part-complete''])"
    "admits r (hits ''POST'' [[], ''files'', ''multipart'', i, ''complete''])"
    "admits r (hits ''POST'' [[], ''files'', ''multipart'', i, ''abort''])"
    "admits r (hits ''POST'' [[], ''files'', ''multipart'', i, ''fail''])"
    "admits r (hits ''GET'' [[], ''jobs'', i, ''detail''])"
    "admits r (hits ''POST'' [[], ''jobs'', i, ''cancel''])"
  using assms by (simp_all add: hits_eval)

lemma admin_id_paths:
  assumes "i \<noteq> []" and "r \<noteq> USER"
  shows "admits r (hits ''GET'' [[], ''admin'', ''buckets'', i, ''grants''])"
    "k \<noteq> [] \<Longrightarrow> admits r (hits ''PUT'' [[], ''admin'', ''buckets'', i, ''grants'', k])"
    "admits r (hits ''GET'' [[], ''admin'', ''users'', i, ''scopes''])"
    "admits SUPER_ADMIN (hits ''PUT'' [[], ''admin'', ''users'', i, ''scopes''])"
    "admits SUPER_ADMIN (hits ''POST'' [[], ''admin'', ''connections'', i, ''health''])"
proof -
  have r: "r = SUPER_ADMIN \<or> r = ADMIN" using assms(2) by (cases r) simp_all
  show "admits r (hits ''GET'' [[], ''admin'', ''buckets'', i, ''grants''])"
    "k \<noteq> [] \<Longrightarrow> admits r (hits ''PUT'' [[], ''admin'', ''buckets'', i, ''grants'', k])"
    "admits r (hits ''GET'' [[], ''admin'', ''users'', i, ''scopes''])"
    "admits SUPER_ADMIN (hits ''PUT'' [[], ''admin'', ''users'', i, ''scopes''])"
    "admits SUPER_ADMIN (hits ''POST'' [[], ''admin'', ''connections'', i, ''health''])"
    using assms(1) r by (simp_all add: hits_eval)
qed

section \<open>What the pages send\<close>

lemma all_admitD: "all_admit r ps \<Longrightarrow> (m, u) \<in> set ps \<Longrightarrow> admits r (hits m (split_slash u))"
  by (auto simp: all_admit_def list_all_iff)

lemmas files_calls_def = list_request_def search_request_def sessions_request_def preview_request_def stats_request_def
  delete_request_def rename_request_def folder_request_def

lemma open_served:
  "served r (asks ''/auth/me'')" "served r (asks ''/auth/mode'')" "served r (sends ''POST'' ''/auth/login'' b)"
  "served r (asks ''/buckets'')" "served r (sends ''POST'' ''/files/multipart/recover'' b)"
  "served r (sends ''POST'' ''/files/multipart/init'' b)"
  by (rule served_asks served_sends; (rule all_admitD [OF open_paths(1)] all_admitD [OF open_paths(4)])?; simp; fail)+

lemma query_served:
  assumes "all_admit r ps" and "(''GET'', u) \<in> set ps" and "CHR ''?'' \<notin> set u" and "\<exists>b. url = u @ CHR ''?'' # b"
  shows "served r (asks url)"
  using assms(4) served_query [OF assms(3) all_admitD [OF assms(1,2)]] by auto

lemma files_served:
  "served r sessions_request" "served r (list_request v)" "served r (search_request v)" "served r (stats_request v)"
  "served r (preview_request v k)"
  unfolding list_request_def search_request_def sessions_request_def preview_request_def stats_request_def
  by (rule query_served [OF open_paths(2), of "''/files/list''"] query_served [OF open_paths(2), of "''/files/search''"]
      query_served [OF open_paths(2), of "''/files/stats''"] query_served [OF open_paths(2), of "''/files/preview''"]
      query_served [OF open_paths(4), of "''/files/multipart/sessions''"]; simp; fail)+

lemma files_writes_served:
  "served r (delete_request v k)" "served r (rename_request v k n)" "served r (folder_request v k)"
  unfolding delete_request_def rename_request_def folder_request_def
  by (rule served_sends; (rule all_admitD [OF open_paths(3)])?; simp; fail)+

lemma session_served:
  assumes "plain_id x" and "op \<in> {''/sign-parts'', ''/part-complete'', ''/complete'', ''/abort'', ''/fail''}"
  shows "served r (sends ''POST'' (multipart_path x op) b)"
proof -
  have x: "x \<noteq> []" using assms(1) by (simp add: plain_id_def)
  have path: "split_slash (url_path (''/files/multipart/'' @ x @ slash # post)) = [[], ''files'', ''multipart'', x] @ split_slash (url_path post)"
    for post
    using id_path(1) [of x "''/files/multipart''" post] assms(1) by simp
  from assms(2) id_paths(1-5) [OF x, of r] show ?thesis
    by (elim insertE emptyE) (simp_all add: served_def matching_def sends_def multipart_path_def path [simplified] url_path_plain)
qed

lemma files_queries_served: "list_all (served r) (files_queries v)"
  by (simp add: files_queries_def files_served open_served)

lemma files_act_served:
  assumes "files_act v a = Some q" and "\<forall>i st. a = Abort_session i st \<longrightarrow> plain_id i"
  shows "served r q"
  using assms session_served [of _ "''/abort''" r None]
  by (auto simp: files_act_def open_entry_def abort_request_def files_served files_writes_served
      split: files_action.splits if_splits)

lemma login_served: "list_all (served r) login_queries" "login_submit info f = Some q \<Longrightarrow> served r q"
  by (auto simp: login_queries_def login_submit_def open_served split: if_splits)

text \<open>The identifiers a view holds.\<close>

definition plain_view :: "admin_view \<Rightarrow> bool" where
  "plain_view v \<longleftrightarrow> list_all (\<lambda>i. i = [] \<or> plain_id i) [av_bucketId v, av_userId v, av_adminId v, av_jobId v]
     \<and> list_all plain_id (av_connections v) \<and> list_all (\<lambda>(i, _). plain_id i) (av_shownJobs v)"

lemma admin_id_served:
  assumes "plain_id i"
  shows "r \<noteq> USER \<Longrightarrow> served r (asks (grants_path i))" "r \<noteq> USER \<Longrightarrow> served r (asks (scopes_path i))"
    "served r (asks (''/jobs/'' @ i @ ''/detail?limit=400''))" "served r (sends ''POST'' (''/jobs/'' @ i @ ''/cancel'') b)"
    "r \<noteq> USER \<Longrightarrow> plain_id k \<Longrightarrow> served r (sends ''PUT'' (grants_path i @ ''/'' @ k) b)"
    "served SUPER_ADMIN (sends ''PUT'' (scopes_path i) b)"
    "served SUPER_ADMIN (sends ''POST'' (''/admin/connections/'' @ i @ ''/health'') b)"
proof -
  have i: "i \<noteq> []" using assms by (simp add: plain_id_def)
  have path: "split_slash (url_path (''/admin/buckets/'' @ i @ slash # s)) = [[], ''admin'', ''buckets'', i] @ split_slash (url_path s)"
    "split_slash (url_path (''/admin/users/'' @ i @ slash # s)) = [[], ''admin'', ''users'', i] @ split_slash (url_path s)"
    "split_slash (url_path (''/jobs/'' @ i @ slash # s)) = [[], ''jobs'', i] @ split_slash (url_path s)"
    "split_slash (url_path (''/admin/connections/'' @ i @ slash # s)) = [[], ''admin'', ''connections'', i] @ split_slash (url_path s)"
    for s
    using id_path(1) [of i "''/admin/buckets''" s] id_path(1) [of i "''/admin/users''" s] id_path(1) [of i "''/jobs''" s]
      id_path(1) [of i "''/admin/connections''" s] assms by simp_all
  note defs = served_def matching_def sends_def asks_def grants_path_def scopes_path_def path [simplified]
  show "r \<noteq> USER \<Longrightarrow> served r (asks (grants_path i))" "r \<noteq> USER \<Longrightarrow> served r (asks (scopes_path i))"
    "served r (asks (''/jobs/'' @ i @ ''/detail?limit=400''))" "served r (sends ''POST'' (''/jobs/'' @ i @ ''/cancel'') b)"
    using admin_id_paths [OF i, of r] id_paths [OF i, of r] take_url_path [of "''detail''" "''?limit=400''"]
    by (simp_all add: defs url_path_plain url_path_def [of "CHR ''?'' # _"])
  show "served SUPER_ADMIN (sends ''PUT'' (scopes_path i) b)"
    "served SUPER_ADMIN (sends ''POST'' (''/admin/connections/'' @ i @ ''/health'') b)"
    using admin_id_paths(4,5) [OF i, of ADMIN] by (simp_all add: defs url_path_plain)
  show "served r (sends ''PUT'' (grants_path i @ ''/'' @ k) b)" if "r \<noteq> USER" "plain_id k"
    using admin_id_paths(2) [OF i that(1), of k] that(2) id_path(2) [of k "''grants''"]
    by (simp add: defs plain_id_def)
qed

lemma admin_fixed_served:
  assumes "r \<noteq> USER"
  shows "served r (asks ''/admin/users'')" "served r (asks ''/admin/buckets'')" "served r (asks ''/jobs/maintenance/retention-policy'')"
    "served r (asks ''/jobs/maintenance/status'')" "served r (sends ''POST'' ''/jobs/maintenance/upload-cleanup'' b)"
  by (rule served_asks served_sends; (rule all_admitD [OF admin_paths [OF assms]])?; simp; fail)+

lemma super_asks_served:
  "served SUPER_ADMIN (asks ''/admin/settings/ldap'')" "served SUPER_ADMIN (asks ''/admin/settings/auth-mode'')"
  "served SUPER_ADMIN (asks ''/admin/connections'')" "served SUPER_ADMIN (asks ''/admin/audit'')"
  "archive_audit_request to_iso f = Some q \<Longrightarrow> served SUPER_ADMIN q"
  "archive_events_request to_iso f = Some q \<Longrightarrow> served SUPER_ADMIN q"
proof -
  show "served SUPER_ADMIN (asks ''/admin/settings/ldap'')" "served SUPER_ADMIN (asks ''/admin/settings/auth-mode'')"
    "served SUPER_ADMIN (asks ''/admin/connections'')" "served SUPER_ADMIN (asks ''/admin/audit'')"
    by (rule served_asks; (rule all_admitD [OF super_paths])?; simp; fail)+
  show "archive_audit_request to_iso f = Some q \<Longrightarrow> served SUPER_ADMIN q"
    using query_served [OF super_paths, of "''/admin/audit/archive''"] by (auto simp: archive_audit_request_def bind_opt_def split: option.splits)
  show "archive_events_request to_iso f = Some q \<Longrightarrow> served SUPER_ADMIN q"
    using query_served [OF super_paths, of "''/jobs/archive/events''"] by (auto simp: archive_events_request_def bind_opt_def split: option.splits)
qed

lemma super_writes_served:
  "served SUPER_ADMIN (sends ''POST'' ''/admin/users'' b)" "served SUPER_ADMIN (sends ''POST'' ''/admin/buckets/sync'' b)"
  "served SUPER_ADMIN (sends ''PATCH'' ''/admin/settings/ldap'' b)" "served SUPER_ADMIN (sends ''PATCH'' ''/admin/settings/auth-mode'' b)"
  "served SUPER_ADMIN (sends ''POST'' ''/admin/connections'' b)" "served SUPER_ADMIN (sends ''POST'' ''/jobs/maintenance/retention-cleanup'' b)"
  by (rule served_sends; (rule all_admitD [OF super_writes])?; simp; fail)+

lemma task_served: "served SUPER_ADMIN (sends ''POST'' (''/jobs/maintenance/tasks/'' @ task_name k @ ''/run-once'') b)"
  by (rule served_sends; (rule all_admitD [OF task_paths [of k]])?) (cases k; simp)+

lemma shared_asks_served:
  "served r (asks ''/jobs?scope=all&limit=200'')" "served r (asks ''/files/multipart/sessions?scope=all&limit=100'')"
  by (rule query_served [OF open_paths(3), of "''/jobs''"] query_served [OF open_paths(4), of "''/files/multipart/sessions''"]; simp; fail)+

lemma admin_view_role:
  assumes "av_me v = Some (Some r)"
  shows "is_super v \<longleftrightarrow> r = SUPER_ADMIN" "is_admin v \<longleftrightarrow> r \<noteq> USER" "admin_redirect v = None \<longleftrightarrow> r \<noteq> USER"
  using assms by (cases r; simp add: is_super_def is_admin_def av_role_def admin_redirect_def)+

lemma plain_viewD:
  assumes "plain_view v"
  shows "av_bucketId v \<noteq> [] \<Longrightarrow> plain_id (av_bucketId v)" "av_userId v \<noteq> [] \<Longrightarrow> plain_id (av_userId v)"
    "av_adminId v \<noteq> [] \<Longrightarrow> plain_id (av_adminId v)" "av_jobId v \<noteq> [] \<Longrightarrow> plain_id (av_jobId v)"
    "i \<in> set (av_connections v) \<Longrightarrow> plain_id i" "(i, st) \<in> set (av_shownJobs v) \<Longrightarrow> plain_id i"
  using assms by (auto simp: plain_view_def list_all_iff)

lemmas literal_served = admin_id_served(3,4,7) [simplified] admin_id_served(1,2,5,6) admin_id_served(5) [simplified]
  admin_fixed_served super_writes_served task_served [simplified]
  super_asks_served open_served shared_asks_served

lemma admin_queries_served:
  assumes me: "av_me v = Some (Some r)" and "admin_redirect v = None" and plain: "plain_view v"
  shows "list_all (served r) (admin_queries to_iso v)"
proof -
  have r: "r \<noteq> USER" using assms(2) admin_view_role(3) [OF me] by simp
  have "list_all (served SUPER_ADMIN) (if_sent (archive_audit_request to_iso (av_auditFilter v)))"
    "list_all (served SUPER_ADMIN) (if_sent (archive_events_request to_iso (av_eventFilter v)))"
    using super_asks_served(5,6) by (simp_all add: if_sent_def split: option.split)
  then show ?thesis
    using r by (simp add: admin_queries_def literal_served admin_view_role [OF me] plain_viewD [OF plain])
qed

lemma admin_call_served:
  assumes me: "av_me v = Some (Some r)" and "admin_redirect v = None" and plain: "plain_view v" and "offered v a"
    and "a = Sync_buckets \<Longrightarrow> r = SUPER_ADMIN"
  shows "served r (admin_call v a)"
proof -
  have r: "r \<noteq> USER" using assms(2) admin_view_role(3) [OF me] by simp
  show ?thesis
    using assms(4,5) r plain_viewD [OF plain]
    by (cases a) (auto simp: offered_def admin_call_def literal_served admin_view_role [OF me])
qed

section \<open>Every request is answered\<close>

text \<open>The requests of a client whose user has a role: of the sign-in page, of the files page, of an upload, and of the
  administration page as long as the page does not send the user elsewhere.\<close>

inductive client_sends :: "(string \<Rightarrow> string option) \<Rightarrow> app_role \<Rightarrow> client_request \<Rightarrow> bool" for to_iso r where
  login_asks: "q \<in> set login_queries \<Longrightarrow> client_sends to_iso r q"
| login_form: "login_submit info f = Some q \<Longrightarrow> client_sends to_iso r q"
| files_asks: "q \<in> set (files_queries v) \<Longrightarrow> client_sends to_iso r q"
| files_acts: "files_act v a = Some q \<Longrightarrow> \<forall>i st. a = Abort_session i st \<longrightarrow> plain_id i \<Longrightarrow> client_sends to_iso r q"
| upload_begins: "op \<in> {''recover'', ''init''} \<Longrightarrow> client_sends to_iso r (sends ''POST'' (''/files/multipart/'' @ op) body)"
| upload_goes_on: "plain_id x \<Longrightarrow> op \<in> {''/sign-parts'', ''/part-complete'', ''/complete'', ''/abort'', ''/fail''}
    \<Longrightarrow> client_sends to_iso r (sends ''POST'' (multipart_path x op) body)"
| admin_asks: "av_me v = Some (Some r) \<Longrightarrow> admin_redirect v = None \<Longrightarrow> plain_view v
    \<Longrightarrow> q \<in> set (admin_queries to_iso v) \<Longrightarrow> client_sends to_iso r q"
| admin_acts: "av_me v = Some (Some r) \<Longrightarrow> admin_redirect v = None \<Longrightarrow> plain_view v \<Longrightarrow> offered v a
    \<Longrightarrow> client_sends to_iso r (admin_call v a)"

lemma client_sends_served:
  assumes "client_sends to_iso r q" and "q = admin_call v Sync_buckets \<Longrightarrow> r = SUPER_ADMIN"
  shows "served r q"
  using assms
proof (induction rule: client_sends.induct)
  case (upload_begins op body)
  then show ?case using open_served(5,6) by auto
next
  case (admin_acts v' a)
  then show ?case by (intro admin_call_served) (auto simp: admin_call_def)
qed (use login_served files_queries_served files_act_served session_served admin_queries_served in \<open>auto simp: list_all_iff\<close>)


definition demo_admin :: session_user where
  "demo_admin = \<lparr>su_id = ''a'', su_username = ''ann'', su_email = None, su_role = ADMIN, su_displayName = None\<rparr>"

definition demo_view :: admin_view where
  "demo_view = (let f = \<lparr>af_search = [], af_kind = [], af_correlationId = [], af_level = [], af_jobId = [], af_from = [], af_to = [],
       af_offset = 0\<rparr> in
     \<lparr>av_me = Some (Some ADMIN), av_bucketId = ''b1'', av_userId = ''u1'', av_permissions = [P_object_read], av_adminId = [],
      av_scopeBucketIds = [], av_jobId = [], av_auditFilter = f, av_eventFilter = f, av_connections = [], av_shownJobs = [],
      av_tasks = []\<rparr>)"


text \<open>The exception: an admin is shown the button and refused.\<close>

lemma sync_button_refused:
  assumes "su_role u = ADMIN" and "rq_user rq = Some u"
  shows "offered v Sync_buckets \<and> list_all (\<lambda>(m, path, rt). fst (role_guard rt rq s) = Inl (ForbiddenException ''Insufficient role''))
    (matching (admin_call v Sync_buckets))"
proof -
  have "list_all (\<lambda>(m, path, rt). rt_roles rt = Some [SUPER_ADMIN]) (matching (sends ''POST'' ''/admin/buckets/sync'' None))"
    by code_simp
  then have "list_all (\<lambda>(m, path, rt). rt_roles rt = Some [SUPER_ADMIN]) (matching (admin_call v Sync_buckets))"
    by (simp add: admin_call_def)
  then show ?thesis
    using assms by (auto simp: list_all_iff offered_def role_guard_def requireRole_def require_def throw_def)
qed

section \<open>The forms\<close>

text \<open>What the sign-in form sends is what the service takes, with a method that its mode allows.\<close>

lemma login_form_accepted:
  assumes "login_submit (Some (getAuthModeInfo s)) f = Some q"
  shows "\<exists>body m. cq_body q = Some body
    \<and> loginSchema body = Some \<lparr>li_username = lf_username f, li_password = lf_password f, li_mode = Some m\<rparr>
    \<and> m \<in> set (snd (snd (getAuthModeInfo s)))"
proof -
  have form: "loginFormSchema f" and body: "cq_body q = Some (JObj [(''username'', JStr (lf_username f)), (''password'', JStr (lf_password f)),
       (''mode'', JStr (auth_mode_str (effective_mode (Some (getAuthModeInfo s)) (lf_mode f))))])"
    using assms by (auto simp: login_submit_def sends_def split: if_splits)
  obtain m where m: "auth_mode_str (effective_mode (Some (getAuthModeInfo s)) (lf_mode f)) = method_name m"
    "m \<in> set (snd (snd (getAuthModeInfo s)))"
    using that [of By_local] that [of By_ldap]
    by (cases "getAuthMode s"; cases "lf_mode f"; cases "isLdapEnabled s")
      (auto simp: effective_mode_def getAuthModeInfo_def first_method_def Let_def)
  have "z_method (JStr (method_name m)) = Some m" by (cases m) simp_all
  then show ?thesis
    using form body m by (auto simp: loginSchema_def loginFormSchema_def z_string_in_def z_string_min_def bind_opt_def z_opt_def)
qed

lemma new_set_step: "distinct acc \<Longrightarrow> distinct (foldl (\<lambda>acc x. if x \<in> set acc then acc else acc @ [x]) acc xs)
   \<and> set (foldl (\<lambda>acc x. if x \<in> set acc then acc else acc @ [x]) acc xs) = set acc \<union> set xs"
  by (induction xs arbitrary: acc) auto

text \<open>The lists of the checkboxes never hold a value twice.\<close>

lemma toggle_spec:
  assumes "distinct prev"
  shows "distinct (toggle checked x prev)" "set (toggle checked x prev) = (if checked then insert x (set prev) else set prev - {x})"
  using new_set_step [of "[]" "prev @ [x]"] assms by (auto simp: toggle_def new_set_def)

text \<open>The next button reaches the page of every row.\<close>

lemma archive_pages:
  assumes "k < n"
  shows "\<exists>turns. let off = af_offset (((\<lambda>a. next_page (Some (af_offset a, 25, n)) a) ^^ turns) (filter_archive id a))
    in off \<le> k \<and> k < off + 25"
proof -
  have "af_offset (((\<lambda>a. next_page (Some (af_offset a, 25, n)) a) ^^ t) (filter_archive id a)) = 25 * t" if "25 * t \<le> k" for t
    using that assms by (induction t) (auto simp: filter_archive_def next_page_def)
  from this [of "k div 25"] show ?thesis by (intro exI [of _ "k div 25"]) (simp add: Let_def)
qed

section \<open>The rename dialogue\<close>

lemma join_split: "join_slash (split_slash s) = s"
proof (induction s)
  case (Cons c s)
  show ?case
  proof (cases "split_slash s")
    case Nil
    then show ?thesis by simp
  next
    case (Cons t ts)
    then show ?thesis using Cons.IH by (cases ts) auto
  qed
qed simp

text \<open>A folder keeps the folder it is in. A file in a folder is moved out of it, whatever the new name: the dialogue drops
  two segments of a key that, unlike that of a folder, has no empty one at its end.\<close>

lemma rename_target_folder:
  assumes "slash \<notin> set n"
  shows "dir \<noteq> [] \<Longrightarrow> rename_target (FolderEntry (dir @ slash # n @ [slash]) nm) new = dir @ slash # new @ [slash]"
    and "rename_target (FolderEntry (n @ [slash]) nm) new = new @ [slash]"
proof -
  have one: "split_slash (n @ [slash]) = [n, []]"
    using split_slash_append [of n "[]"] assms by (simp add: split_slash_plain)
  then show "rename_target (FolderEntry (n @ [slash]) nm) new = new @ [slash]" by (simp add: rename_target_def Let_def)
  show "rename_target (FolderEntry (dir @ slash # n @ [slash]) nm) new = dir @ slash # new @ [slash]" if "dir \<noteq> []"
    using that one split_slash_append [of dir "n @ [slash]"] join_split [of dir] by (simp add: rename_target_def Let_def)
qed

lemma renamed_file_leaves_folder:
  assumes "slash \<notin> set d" and "slash \<notin> set n"
  shows "rename_target (FileEntry (d @ slash # n) nm sz ty et md) new = new"
    and "dir \<noteq> [] \<Longrightarrow> rename_target (FileEntry (dir @ slash # d @ slash # n) nm sz ty et md) new = dir @ slash # new"
proof -
  have two: "split_slash (d @ slash # n) = [d, n]"
    using assms by (simp add: split_slash_append split_slash_plain)
  then show "rename_target (FileEntry (d @ slash # n) nm sz ty et md) new = new" by (simp add: rename_target_def Let_def)
  show "dir \<noteq> [] \<Longrightarrow> rename_target (FileEntry (dir @ slash # d @ slash # n) nm sz ty et md) new = dir @ slash # new"
    using two split_slash_append [of dir "d @ slash # n"] join_split [of dir] by (simp add: rename_target_def Let_def)
qed

section \<open>The token of an earlier session\<close>

lemma csrf_token_kept:
  assumes "usable tok" and "apiFetch B m path h body (w, tok) = (r, (w1, tok1))"
  shows "tok1 = tok"
proof -
  have raw: "snd n1 = snd n" if "raw_fetch B m path hs body n = (r, n1)" for hs r n n1
    using that by (cases n) (auto simp: raw_fetch_def split: prod.splits)
  have hdr: "n1 = (w, tok)" if "csrf_header B m h (w, tok) = (r, n1)" for r n1
    using that assms(1) by (auto simp: csrf_header_def ensureCsrfToken_def act_bind_def act_ok_def split: if_splits)
  show ?thesis
    using assms(2) by (auto simp: apiFetch_def act_bind_def act_ok_def response_json_def Let_def
        split: prod.splits sum.splits option.splits if_splits dest!: hdr raw)
qed

end
