(* ===== verification/Uncalled.thy ===== *)
theory Uncalled
  imports FileRequests BucketAdmin
begin

text \<open>
  The operations of the services that no route, job or script reaches: two calls of the Garage admin API
  (\<open>packages/s3/src/admin-client.ts\<close>), the upload through the server (\<open>files.service.ts\<close>, \<open>file-service.ts\<close>) and the
  synchronisation of the buckets outside a job (\<open>buckets.service.ts\<close>), which does to the table what the job does. The
  managed upload of \<open>@aws-sdk/lib-storage\<close> is a parameter.
\<close>

section \<open>Garage admin API\<close>

text \<open>\<open>url.searchParams.set(key, value)\<close> on a path without a query.\<close>

definition with_query :: "string \<Rightarrow> (string \<times> string) list \<Rightarrow> string" where
  "with_query path ps = (case ps of [] \<Rightarrow> path
     | (n, v) # rest \<Rightarrow> path @ ''?'' @ form_encode n @ ''='' @ form_encode v
         @ concat (map (\<lambda>(n, v). ''&'' @ form_encode n @ ''='' @ form_encode v) rest))"

definition getBucketInfo :: "('w, 'b) fetcher \<Rightarrow> admin_client \<Rightarrow> string \<Rightarrow> ('w, 'b option) eff" where
  "getBucketInfo fetch c i = admin_request fetch c ''GET'' (with_query ''/v2/GetBucketInfo'' [(''id'', i)])"

definition getClusterHealth :: "('w, 'b) fetcher \<Rightarrow> admin_client \<Rightarrow> ('w, 'b option) eff" where
  "getClusterHealth fetch c = admin_request fetch c ''GET'' ''/v2/GetClusterHealth''"

section \<open>Upload through the server\<close>

record managed_upload =
  mu_client :: s3_config
  mu_Bucket :: string
  mu_Key :: string
  mu_Body :: string
  mu_ContentType :: "string option"
  mu_queueSize :: int
  mu_partSize :: int
  mu_leavePartsOnError :: bool

text \<open>\<open>Upload(options).done()\<close>; its progress is observed by nobody here.\<close>

type_synonym 'w uploader = "managed_upload \<Rightarrow> ('w, unit) eff"

definition MultiPartUpload ::
  "'w uploader \<Rightarrow> s3_config \<Rightarrow> string \<Rightarrow> string \<Rightarrow> string \<Rightarrow> string option \<Rightarrow> int option \<Rightarrow> int option \<Rightarrow> ('w, unit) eff" where
  "MultiPartUpload upload c bucket key body contentType partSizeMb queueSize = upload
     \<lparr>mu_client = c, mu_Bucket = bucket, mu_Key = normalizeKey key, mu_Body = body, mu_ContentType = contentType,
      mu_queueSize = or_else queueSize 4, mu_partSize = or_else partSizeMb 10 * 1024 * 1024, mu_leavePartsOnError = False\<rparr>"

definition uploadFromServer ::
  "'w files_env \<Rightarrow> 'w uploader \<Rightarrow> session_user \<Rightarrow> string \<Rightarrow> string \<Rightarrow> string \<Rightarrow> string option \<Rightarrow> (app \<times> 'w, bool) eff" where
  "uploadFromServer E upload user bucket key body contentType =
     seq_eff (guard_bucket user bucket P_object_upload)
     (bind_eff (files_s3 E) (\<lambda>c.
      seq_eff (on_snd (MultiPartUpload upload c bucket key body contentType None None)) (ok True)))"

section \<open>Synchronisation of the buckets\<close>

text \<open>The upserts are started together; the database runs them in the order in which they were made.\<close>

definition upsert_buckets :: "int \<Rightarrow> string \<Rightarrow> garage_bucket_summary list \<Rightarrow> app \<Rightarrow> app" where
  "upsert_buckets now connId bs = fold (\<lambda>b. upsert_bucket now (preferredName b) (gb_id b) connId) bs"

definition runSyncFromGarage ::
  "'w files_env \<Rightarrow> ('w, garage_bucket_summary list) fetcher \<Rightarrow> session_user \<Rightarrow> string option \<Rightarrow> (app \<times> 'w, nat) eff" where
  "runSyncFromGarage E fetch actor ip =
     bind_eff (on_fst (getDefaultConnectionWithSecrets (fe_crypto E) (fe_key E) (fe_rnd E) (fe_now E))) (\<lambda>conn.
     seq_eff (require (truthy (cs_adminApiUrl conn) \<and> truthy (cs_adminToken conn))
       (NotFoundException ''Default connection does not include Admin API credentials''))
     (bind_eff (on_snd (listBuckets fetch (new_admin_client (or_else (cs_adminApiUrl conn) []) (or_else (cs_adminToken conn) []) [])))
       (\<lambda>got.
      bind_eff (need got (PlainError ''remoteBuckets is not iterable'')) (\<lambda>remoteBuckets.
      seq_eff (on_fst (modify (upsert_buckets (fe_now E) (cs_id conn) remoteBuckets)))
      (seq_eff (audit_eff (fe_now E) actor ''bucket.sync'' ''bucket'' None
        (JObj [(''synced'', jnat (length remoteBuckets)), (''connectionId'', JStr (cs_id conn))]) ip)
      (ok (length remoteBuckets)))))))"

text \<open>The table afterwards: each remote bucket has a row under its name, no row is lost, and a row that was there keeps
  its key, its name and its age, so that the grants and scopes on it still hold.\<close>

definition row_identity :: "bucket_row \<Rightarrow> string \<times> string \<times> int" where
  "row_identity b = (b_id b, b_name b, b_createdAt b)"

definition extends_buckets :: "app \<Rightarrow> app \<Rightarrow> bool" where
  "extends_buckets s t \<longleftrightarrow> (\<exists>more. map row_identity (buckets t) = map row_identity (buckets s) @ more)
     \<and> grants t = grants s \<and> scopes t = scopes s"

lemma extends_buckets_trans: "extends_buckets s t \<Longrightarrow> extends_buckets t u \<Longrightarrow> extends_buckets s u"
  by (auto simp: extends_buckets_def)

lemma extends_buckets_names: "extends_buckets s t \<Longrightarrow> b_name ` set (buckets s) \<subseteq> b_name ` set (buckets t)"
proof -
  have names: "map (\<lambda>x. fst (snd x)) (map row_identity bs) = map b_name bs" for bs
    by (simp add: row_identity_def)
  assume "extends_buckets s t"
  then obtain more where "map row_identity (buckets t) = map row_identity (buckets s) @ more" by (auto simp: extends_buckets_def)
  then have "map b_name (buckets t) = map b_name (buckets s) @ map (\<lambda>x. fst (snd x)) more"
    by (metis map_append names)
  then have "set (map b_name (buckets s)) \<subseteq> set (map b_name (buckets t))" by (metis Un_upper1 set_append)
  then show ?thesis by simp
qed

lemma upsert_bucket_rows:
  "extends_buckets s (upsert_bucket now n g c s)" "n \<in> b_name ` set (buckets (upsert_bucket now n g c s))"
proof -
  have "map row_identity (tb_update (\<lambda>b. b_name b = n) (\<lambda>b. b\<lparr>b_garageBucketId := Some g, b_connectionId := Some c\<rparr>) bs)
      = map row_identity bs" for bs
    by (rule tb_update_map) (simp add: row_identity_def)
  then show "extends_buckets s (upsert_bucket now n g c s)"
    by (simp add: extends_buckets_def upsert_bucket_def bump_id_def)
  show "n \<in> b_name ` set (buckets (upsert_bucket now n g c s))"
  proof -
    have "map b_name (tb_update (\<lambda>b. b_name b = n) (\<lambda>b. b\<lparr>b_garageBucketId := Some g, b_connectionId := Some c\<rparr>) bs) = map b_name bs" for bs
      by (rule tb_update_map) simp
    from arg_cong [OF this [of "buckets s"], of set] show ?thesis by (auto simp: upsert_bucket_def bump_id_def)
  qed
qed

lemma upsert_buckets_rows:
  "extends_buckets s (upsert_buckets now c bs s) \<and> preferredName ` set bs \<subseteq> b_name ` set (buckets (upsert_buckets now c bs s))"
proof (induction bs arbitrary: s)
  case Nil
  then show ?case by (simp add: upsert_buckets_def extends_buckets_def)
next
  case (Cons b bs)
  let ?t = "upsert_bucket now (preferredName b) (gb_id b) c s"
  have run: "upsert_buckets now c (b # bs) s = upsert_buckets now c bs ?t" by (simp add: upsert_buckets_def)
  have step: "extends_buckets s ?t" "preferredName b \<in> b_name ` set (buckets ?t)" by (rule upsert_bucket_rows)+
  have rest: "extends_buckets ?t (upsert_buckets now c bs ?t)"
    "preferredName ` set bs \<subseteq> b_name ` set (buckets (upsert_buckets now c bs ?t))" using Cons.IH by blast+
  have "preferredName b \<in> b_name ` set (buckets (upsert_buckets now c bs ?t))"
    using extends_buckets_names [OF rest(1)] step(2) by blast
  then show ?case
    unfolding run using extends_buckets_trans [OF step(1) rest(1)] rest(2) by auto
qed

end
