(* ===== verification/Metrics.thy ===== *)
theory Metrics
  imports JobQueue Scheduler
begin

text \<open>
  The registry of \<open>apps/api/src/metrics/metrics.service.ts\<close>: the families the constructor declares, the samples the
  recording methods take of them, and the totals of the counters over the log of the state. The default metrics of the
  process and the text format are of \<open>prom-client\<close>. The log keeps the duration of a job only.
\<close>

record metric_family =
  mf_name :: string
  mf_help :: string
  mf_labelNames :: "string list"
  mf_buckets :: "rat list option"

definition counter :: "string \<Rightarrow> string \<Rightarrow> string list \<Rightarrow> metric_family" where
  "counter name help labels = \<lparr>mf_name = name, mf_help = help, mf_labelNames = labels, mf_buckets = None\<rparr>"

definition histogram :: "string \<Rightarrow> string \<Rightarrow> string list \<Rightarrow> rat list \<Rightarrow> metric_family" where
  "histogram name help labels bounds = \<lparr>mf_name = name, mf_help = help, mf_labelNames = labels, mf_buckets = Some bounds\<rparr>"

definition registry :: "metric_family list" where
  "registry =
     [counter ''s3gator_login_total'' ''Login attempts grouped by result/method'' [''result'', ''method''],
      histogram ''s3gator_login_duration_seconds'' ''Login flow duration'' [''result'', ''method'']
       [5 / 100, 10 / 100, 20 / 100, 50 / 100, 1, 2, 5, 10],
      counter ''s3gator_upload_events_total'' ''Multipart upload lifecycle events'' [''event''],
      histogram ''s3gator_upload_event_duration_seconds'' ''Upload lifecycle durations'' [''event'']
       [5 / 100, 10 / 100, 20 / 100, 50 / 100, 1, 2, 5, 10, 30],
      counter ''s3gator_jobs_total'' ''Background job lifecycle events'' [''type'', ''status''],
      histogram ''s3gator_job_duration_seconds'' ''Background job durations'' [''type'', ''status'']
       [10 / 100, 50 / 100, 1, 2, 5, 10, 30, 60, 120],
      counter ''s3gator_job_retries_total'' ''Job retry scheduling/exhaustion events'' [''type'', ''event''],
      counter ''s3gator_job_reclaims_total'' ''Jobs reclaimed after stale running state'' [''type''],
      counter ''s3gator_s3_failures_total'' ''S3 operation failures'' [''operation''],
      histogram ''s3gator_s3_operation_duration_seconds'' ''S3 operation durations'' [''operation'']
       [2 / 100, 5 / 100, 10 / 100, 25 / 100, 50 / 100, 1, 2, 5, 10, 30],
      counter ''s3gator_ldap_auth_failures_total'' ''LDAP authentication failures'' [''reason''],
      counter ''s3gator_retention_cleanup_total'' ''Retention cleanup runs by result'' [''result''],
      counter ''s3gator_retention_deleted_records_total'' ''Retention cleanup deleted record counters'' [''entity''],
      counter ''s3gator_retention_archived_records_total'' ''Retention cleanup archived record counters'' [''entity''],
      counter ''s3gator_archive_governance_deleted_records_total'' ''Second-level archive lifecycle cleanup deleted record counters'' [''entity''],
      counter ''s3gator_scheduler_runs_total'' ''Maintenance scheduler task outcomes'' [''task'', ''result'']]"

section \<open>Samples\<close>

text \<open>A sample names its family and gives every label a value; a counter is raised by a number, a histogram observes one.\<close>

datatype sample = Inc string "(string \<times> string) list" nat | Observe string "(string \<times> string) list" "rat option"

fun method_label :: "login_method \<Rightarrow> string" where
  "method_label M_local = ''local''"
| "method_label M_ldap = ''ldap''"
| "method_label M_unknown = ''unknown''"

fun upload_label :: "upload_event \<Rightarrow> string" where
  "upload_label UE_start = ''start''"
| "upload_label UE_complete = ''complete''"
| "upload_label UE_fail = ''fail''"
| "upload_label UE_abort = ''abort''"

fun job_label :: "job_metric \<Rightarrow> string" where
  "job_label JM_start = ''start''"
| "job_label JM_complete = ''complete''"
| "job_label JM_fail = ''fail''"
| "job_label JM_cancel = ''cancel''"

fun retry_label :: "retry_metric \<Rightarrow> string" where
  "retry_label RM_scheduled = ''scheduled''"
| "retry_label RM_started = ''started''"
| "retry_label RM_exhausted = ''exhausted''"
| "retry_label RM_skipped_non_retryable = ''skipped_non_retryable''"

definition outcome_label :: "bool \<Rightarrow> string" where
  "outcome_label good = (if good then ''success'' else ''failure'')"

fun samples :: "metric \<Rightarrow> sample list" where
  "samples (MLogin good m) = [Inc ''s3gator_login_total'' [(''result'', outcome_label good), (''method'', method_label m)] 1]"
| "samples (MUpload e) = [Inc ''s3gator_upload_events_total'' [(''event'', upload_label e)] 1]"
| "samples (MJob t st d) = Inc ''s3gator_jobs_total'' [(''type'', type_str t), (''status'', job_label st)] 1
     # (case d of None \<Rightarrow> [] | Some x \<Rightarrow>
          [Observe ''s3gator_job_duration_seconds'' [(''type'', type_str t), (''status'', job_label st)] (Some x)])"
| "samples (MJobRetry t e) = [Inc ''s3gator_job_retries_total'' [(''type'', type_str t), (''event'', retry_label e)] 1]"
| "samples (MJobReclaim t) = [Inc ''s3gator_job_reclaims_total'' [(''type'', type_str t)] 1]"
| "samples (MS3Failure op) = [Inc ''s3gator_s3_failures_total'' [(''operation'', op)] 1]"
| "samples (MS3Duration op) = [Observe ''s3gator_s3_operation_duration_seconds'' [(''operation'', op)] None]"
| "samples (MLdapFailure reason) = [Inc ''s3gator_ldap_auth_failures_total'' [(''reason'', reason)] 1]"
| "samples (MRetentionCleanup good) = [Inc ''s3gator_retention_cleanup_total'' [(''result'', outcome_label good)] 1]"
| "samples (MRetentionDeleted e n) = [Inc ''s3gator_retention_deleted_records_total'' [(''entity'', e)] n]"
| "samples (MRetentionArchived e n) = [Inc ''s3gator_retention_archived_records_total'' [(''entity'', e)] n]"
| "samples (MArchiveGovernance e n) = [Inc ''s3gator_archive_governance_deleted_records_total'' [(''entity'', e)] n]"
| "samples (MSchedulerRun t r) = [Inc ''s3gator_scheduler_runs_total'' [(''task'', task_name t), (''result'', result_name r)] 1]"

text \<open>What \<open>prom-client\<close> asks of a sample: a family of its kind, and exactly the labels of the family.\<close>

fun declared :: "sample \<Rightarrow> bool" where
  "declared (Inc name ls _) \<longleftrightarrow> (\<exists>f\<in>set registry. mf_name f = name \<and> mf_buckets f = None \<and> mf_labelNames f = map fst ls)"
| "declared (Observe name ls _) \<longleftrightarrow> (\<exists>f\<in>set registry. mf_name f = name \<and> mf_buckets f \<noteq> None \<and> mf_labelNames f = map fst ls)"

definition counter_total :: "string \<Rightarrow> (string \<times> string) list \<Rightarrow> metric list \<Rightarrow> nat" where
  "counter_total name ls xs = sum_list (map (\<lambda>x. case x of Inc n l k \<Rightarrow> if n = name \<and> l = ls then k else 0 | Observe _ _ _ \<Rightarrow> 0)
     (concat (map samples xs)))"

lemma registry_names: "distinct (map mf_name registry)"
  by (simp add: registry_def counter_def histogram_def)

text \<open>No recording method can fail: each of its samples is of a declared family, with the labels of the family.\<close>

lemma samples_declared: "list_all declared (samples x)"
  by (cases x) (simp_all add: registry_def counter_def histogram_def split: option.split)

text \<open>Counters only grow.\<close>

lemma counter_total_mono: "counter_total name ls xs \<le> counter_total name ls (xs @ ys)"
  by (simp add: counter_total_def)

end
