(* ===== verification/Spec2Isabelle.thy ===== *)
theory Spec2Isabelle
  imports JobAccess S3Props S3Delete RetentionCascade WorkerCleanup AuthzProps FilesRecover WebUploadProps SchedulerProps BucketAdminProps Site FileRequestsProps
    RedisServer Boot WebPageProps WebRequestsProps Uncalled Metrics
begin

text \<open>
  s3gator is a web front end for an S3 object store run by Garage. A NestJS service (\<open>apps/api\<close>) holds the
  accounts, grants, sessions and background jobs in a database, asks the object store through a library
  (\<open>packages/s3\<close>) and serves a React client (\<open>apps/web\<close>); types and schemas common to them are in
  \<open>packages/shared\<close>. This development models that service, the library and the requests of the client,
  and proves what they guarantee.

  \<^bold>\<open>The state.\<close> \<open>Schema\<close> has one record \<open>app\<close>: the rows of the tables of \<open>prisma/schema.prisma\<close>, the parsed
  environment (\<open>common/env.ts\<close>), the memory store that stands in for Redis (over which \<open>RedisServer\<close> puts a server), the context of the request
  (\<open>common/request-context.ts\<close>) and the log of metric updates (\<open>metrics.service.ts\<close>). A table is the list of its
  rows; a key that the database generates comes from a counter the state carries. An operation of a service is
  a function of type \<open>('s, 'a) eff\<close> (\<open>Prelude\<close>): it takes the state and gives a result or the thrown error, with
  the state it leaves, so that what was written before a throw stays written. Code outside the repository is a
  parameter: the S3 client, \<open>fetch\<close>, the directory server and the Redis server act on a world of their own type;
  AES-GCM, SHA-256, argon2, the random bytes, the cookie parser, the printing of numbers and dates and the clock
  are arguments, gathered in one record per service. What a proof needs of them is a named hypothesis
  (\<open>list_contract\<close> and its neighbours in \<open>S3Store\<close>, \<open>aead_ok\<close> in \<open>Crypto\<close>), and a witness has a concrete
  instance. Identifiers are those of the source where Isabelle allows it.

  \<^bold>\<open>Theories and code.\<close>
  \<^item> \<open>Prelude\<close>: errors, effects, tables, JavaScript's numbers and strings, JSON; the locale \<open>safe_system\<close> of a step
    relation with an invariant. \<open>Zod\<close>: the pieces of the request schemas.
  \<^item> \<open>Redis\<close>: \<open>redis.service.ts\<close> and \<open>login-rate-limiter.service.ts\<close>; the locale \<open>lock_service\<close> is the contract of
    the locks on which the job worker and the scheduler rest. \<open>RedisServer\<close>: the same service over a server.
  \<^item> \<open>Boot\<close>: \<open>common/env.ts\<close>, the request identifiers of \<open>main.ts\<close> and the tracing set-up of \<open>telemetry/otel.ts\<close>.
  \<^item> \<open>Redact\<close>, \<open>AuditLog\<close>: \<open>audit.service.ts\<close>, redaction and archive browsing. \<open>Crypto\<close>: \<open>crypto.service.ts\<close>.
  \<^item> \<open>Jobs\<close>, \<open>JobQueue\<close>: \<open>jobs.service.ts\<close>, from enqueueing over the claim under a lock to completion, failure with
    retry, and cancellation. \<open>JobSpecs\<close>, \<open>JobProps\<close>, \<open>JobAccess\<close>: mutual exclusion, retries, invariant, visibility.
  \<^item> \<open>Worker\<close>: \<open>jobs.worker.service.ts\<close>, one tick with its five executors; \<open>WorkerProps\<close>, \<open>WorkerCleanup\<close>.
  \<^item> \<open>Retention\<close>: \<open>job-retention.service.ts\<close>; \<open>RetentionProps\<close>, \<open>RetentionCascade\<close>.
  \<^item> \<open>Scheduler\<close>: \<open>maintenance-scheduler.service.ts\<close>; \<open>SchedulerProps\<close>.
  \<^item> \<open>PathUtils\<close>, \<open>Concurrency\<close>: \<open>utils.ts\<close> of \<open>packages/s3\<close>, keys and prefixes, and \<open>mapWithConcurrency\<close> as a pool
    of threads under every interleaving. \<open>S3Types\<close>, \<open>S3Files\<close>, \<open>S3Query\<close>: \<open>file-service.ts\<close>. \<open>S3Store\<close>: the contract
    of the store and a store in memory that meets it. \<open>S3Rename\<close>, \<open>S3Delete\<close>, \<open>S3Props\<close>: what the operations do to
    the objects.
  \<^item> \<open>Connections\<close>: \<open>connections.service.ts\<close> and \<open>admin-client.ts\<close>.
  \<^item> \<open>Authz\<close>: \<open>authorization/\<close>, \<open>session.service.ts\<close>, the guards and their order; \<open>AuthzProps\<close>.
  \<^item> \<open>Files\<close>, \<open>FileRequests\<close>: \<open>files.service.ts\<close> and \<open>files.controller.ts\<close>; \<open>FilesProps\<close>, \<open>FilesRecover\<close>,
    \<open>FileRequestsProps\<close>.
  \<^item> \<open>Accounts\<close>, \<open>BucketAdmin\<close>, \<open>Login\<close>, \<open>LdapSettings\<close>: \<open>users/\<close>, \<open>buckets/\<close>, \<open>auth/\<close>, \<open>settings/\<close>, service and
    handlers; their properties are in \<open>AccountsProps\<close>, \<open>BucketAdminProps\<close>, \<open>LoginProps\<close>, \<open>LdapSettings\<close>.
  \<^item> \<open>ApiRequests\<close>, \<open>Routes\<close>: the controllers of jobs, connections, audit, health and metrics, and the table of all
    routes with their guards. \<open>Seed\<close>: \<open>bootstrap/seed.ts\<close>.
  \<^item> \<open>Metrics\<close>: the registry of \<open>metrics.service.ts\<close>. \<open>Uncalled\<close>: operations of the services that nothing calls.
  \<^item> \<open>Site\<close>: the requests that write accounts, sessions, grants, scopes, connections or settings as one step
    relation, with the integrity of the database in every reachable state.
  \<^item> \<open>WebUpload\<close>, \<open>WebUploadProps\<close>: \<open>web/lib/multipart-upload.ts\<close> and the planning of parts in \<open>files/page.tsx\<close>.
    \<open>WebPage\<close>, \<open>WebPageProps\<close>: \<open>web/lib/api-client.ts\<close> and the whole upload of \<open>files/page.tsx\<close> over it.
  \<^item> \<open>WebRequests\<close>, \<open>WebRequestsProps\<close>: what \<open>login/page.tsx\<close>, \<open>files/page.tsx\<close> and \<open>admin/page.tsx\<close> fetch and what their
    buttons and forms send, against the table of \<open>Routes\<close>.

  \<^bold>\<open>How the parts interact.\<close> A request passes the guards (\<open>admit\<close> in \<open>Authz\<close>), its handler parses the body (\<open>Zod\<close>) and
  calls a service. File operations check a permission, open the default connection (\<open>Connections\<close>, \<open>Crypto\<close>) and
  run \<open>S3Files\<close>; a folder is handed to the queue (\<open>Jobs\<close>). The worker claims a job under a lock (\<open>Redis\<close>), runs
  an executor over the same library or \<open>Retention\<close>, and records the end. The scheduler enqueues maintenance jobs.
  Every write leaves a redacted audit row (\<open>Redact\<close>). The client asks for a recoverable session, sends the
  missing parts to the store under signed addresses and reports each to the API (\<open>WebPage\<close>, \<open>WebUpload\<close>).

  \<^bold>\<open>What is shown.\<close> Of jobs: no two workers run one job while the lock lives, retries are bounded and end, rows stay
  well formed, a run always ends its job, the scheduler never doubles a job. Of the store: a rename under any
  interleaving loses no object, a deletion removes what it names and nothing else, listings are complete, uploads
  cut, number and record the parts of the whole file. Of access: no handler runs without a live session and the
  rights of its route, administration stays within the caller's rank, sign-in needs proof, secrets are stored
  encrypted and never logged. Of the data: retention keeps exactly the rows in their windows and loses no audit row,
  and the tables stay consistent in every reachable state. Of the client: an upload shown as done has
  completed its session with the whole file, and each request of a page is answered by routes that admit
  the role of the user, but for one button. Where the code does less than one could expect, a
  theorem states what it does (for example \<open>nested_rename_loses\<close>, \<open>completion_unfenced\<close>, \<open>overlapping_parts_lost\<close>).

  \<^bold>\<open>Loops.\<close> Recursion over a list is structural. The batches of the retention run delete a row per turn, which is the
  measure of their termination. The page loops over the store take a fuel, because the store decides how many
  pages it sends; running out is the error \<open>Diverges\<close>, which no handler catches, and under \<open>list_contract\<close> a fuel
  above the number of objects is enough. The pools are lists of moves; their length is bounded
  (\<open>Concurrency\<close>, \<open>WebUploadProps\<close>). Integers of the code are unbounded here: the configuration and the
  schemas keep them below 2^53, where JavaScript's numbers are exact.

  \<^bold>\<open>Not modelled.\<close> Rendering of the React pages and the cache of their queries; the wiring and the start of the processes (\<open>main.ts\<close>,
  \<open>worker.ts\<close>, the modules, the timers that call \<open>tick\<close>); tracing and log lines; the text format of the metrics, which \<open>prom-client\<close>
  writes; construction of the S3 client; the
  scripts that check a running stack; tests and configuration of tools. A function reads the clock once unless its
  theory says otherwise.
\<close>

end
